(* ===== verification/Go_Prelude.thy ===== *)
theory Go_Prelude
  imports Complex_Main "HOL-Library.Word" "HOL-Library.AList" "HOL-Library.Sublist"
    "HOL-Library.Char_ord" "HOL-Library.List_Lexorder"
begin

text \<open>
  The part of Go and of its standard library that the gateway uses, and the generic lemmas the
  component theories share.

  \<^item> Strings are byte lists.  \<open>strings.TrimSpace\<close> works on the UTF-8 encodings of the code points
    with the Unicode property White_Space; \<open>strings.ToLower\<close> and \<open>strings.EqualFold\<close> are given on
    ASCII.
  \<^item> Instants and durations are integers counting nanoseconds; the zero \<open>time.Time\<close> and a nil
    \<open>*time.Time\<close> are \<open>None\<close>.
  \<^item> A Go map is an association list with distinct keys, so that iteration has an order; no property
    depends on which one.
  \<^item> \<open>reachable\<close> and the locale \<open>invariant_system\<close> are the shared notion of a state machine with an
    inductive invariant.
\<close>

named_theorems go_simps \<open>facts on strings, maps and clocks that component proofs rewrite with\<close>
named_theorems inv_intros \<open>invariant preservation, one rule per operation\<close>

section \<open>Time\<close>

type_synonym time = int
type_synonym duration = int

abbreviation Millisecond :: duration where "Millisecond \<equiv> 1000000"
abbreviation Second :: duration where "Second \<equiv> 1000000000"
abbreviation Minute :: duration where "Minute \<equiv> 60000000000"

section \<open>Strings\<close>

text \<open>The UTF-8 encodings of the white space code points.\<close>

definition white_space :: "string list" where
  "white_space =
    [[CHR 0x09], [CHR 0x0A], [CHR 0x0B], [CHR 0x0C], [CHR 0x0D], [CHR 0x20],
     [CHR 0xC2, CHR 0x85], [CHR 0xC2, CHR 0xA0], [CHR 0xE1, CHR 0x9A, CHR 0x80],
     [CHR 0xE2, CHR 0x80, CHR 0x80], [CHR 0xE2, CHR 0x80, CHR 0x81], [CHR 0xE2, CHR 0x80, CHR 0x82],
     [CHR 0xE2, CHR 0x80, CHR 0x83], [CHR 0xE2, CHR 0x80, CHR 0x84], [CHR 0xE2, CHR 0x80, CHR 0x85],
     [CHR 0xE2, CHR 0x80, CHR 0x86], [CHR 0xE2, CHR 0x80, CHR 0x87], [CHR 0xE2, CHR 0x80, CHR 0x88],
     [CHR 0xE2, CHR 0x80, CHR 0x89], [CHR 0xE2, CHR 0x80, CHR 0x8A], [CHR 0xE2, CHR 0x80, CHR 0xA8],
     [CHR 0xE2, CHR 0x80, CHR 0xA9], [CHR 0xE2, CHR 0x80, CHR 0xAF], [CHR 0xE2, CHR 0x81, CHR 0x9F],
     [CHR 0xE3, CHR 0x80, CHR 0x80]]"

text \<open>Strip every leading occurrence of one of the given words.\<close>

function trim_by :: "string list \<Rightarrow> string \<Rightarrow> string" where
  "trim_by ws s =
    (case find (\<lambda>w. w \<noteq> [] \<and> prefix w s) ws of
       None \<Rightarrow> s
     | Some w \<Rightarrow> trim_by ws (drop (length w) s))"
  by pat_completeness auto
termination
  by (relation "measure (length \<circ> snd)") (auto simp: find_Some_iff intro: diff_less dest: prefix_length_le)

declare trim_by.simps [simp del]

definition TrimSpace :: "string \<Rightarrow> string" where
  "TrimSpace s = rev (trim_by (map rev white_space) (rev (trim_by white_space s)))"

definition lower_char :: "char \<Rightarrow> char" where
  "lower_char c = (if 65 \<le> (of_char c :: nat) \<and> (of_char c :: nat) \<le> 90
                   then char_of ((of_char c :: nat) + 32) else c)"

definition ToLower :: "string \<Rightarrow> string" where
  "ToLower s = map lower_char s"

definition EqualFold :: "string \<Rightarrow> string \<Rightarrow> bool" where
  "EqualFold a b = (ToLower a = ToLower b)"

definition HasPrefix :: "string \<Rightarrow> string \<Rightarrow> bool" where
  "HasPrefix s p = prefix p s"

definition TrimPrefix :: "string \<Rightarrow> string \<Rightarrow> string" where
  "TrimPrefix s p = (if prefix p s then drop (length p) s else s)"

text \<open>\<open>strings.Index\<close>: the position of the first occurrence.\<close>

fun index_of :: "string \<Rightarrow> string \<Rightarrow> nat option" where
  "index_of [] sub = (if sub = [] then Some 0 else None)"
| "index_of (c # cs) sub = (if prefix sub (c # cs) then Some 0 else map_option Suc (index_of cs sub))"

definition Contains :: "string \<Rightarrow> string \<Rightarrow> bool" where
  "Contains s sub = (index_of s sub \<noteq> None)"

text \<open>The byte-wise contents of \<open>strings.Split(s, sep)\<close> for a one-byte separator.\<close>

fun split_char :: "char \<Rightarrow> string \<Rightarrow> string list" where
  "split_char d [] = [[]]"
| "split_char d (c # cs) =
    (if c = d then [] # split_char d cs
     else (case split_char d cs of [] \<Rightarrow> [[c]] | x # xs \<Rightarrow> (c # x) # xs))"

text \<open>\<open>strings.FieldsFunc\<close> for the encodings of the separators: the maximal runs free of them; \<open>acc\<close> is
  the run being read, reversed.  \<open>strings.Fields\<close> separates at white space.\<close>

function fields_by :: "string list \<Rightarrow> string \<Rightarrow> string \<Rightarrow> string list" where
  "fields_by seps acc [] = (if acc = [] then [] else [rev acc])"
| "fields_by seps acc (c # cs) =
    (case find (\<lambda>w. w \<noteq> [] \<and> prefix w (c # cs)) seps of
       Some w \<Rightarrow> (if acc = [] then [] else [rev acc]) @ fields_by seps [] (drop (length w) (c # cs))
     | None \<Rightarrow> fields_by seps (c # acc) cs)"
  by pat_completeness auto
termination
  by (relation "measure (length \<circ> snd \<circ> snd)") (auto simp: find_Some_iff)

definition Fields :: "string \<Rightarrow> string list" where
  "Fields s = fields_by white_space [] s"

text \<open>\<open>strconv.Itoa\<close>.\<close>

fun nat_digits :: "nat \<Rightarrow> string" where
  "nat_digits n = (if n < 10 then [char_of (48 + n)] else nat_digits (n div 10) @ [char_of (48 + n mod 10)])"

declare nat_digits.simps [simp del]

definition Itoa :: "int \<Rightarrow> string" where
  "Itoa i = (if i < 0 then ''-'' @ nat_digits (nat (- i)) else nat_digits (nat i))"

lemma trim_by_None: "find (\<lambda>w. w \<noteq> [] \<and> prefix w s) ws = None \<Longrightarrow> trim_by ws s = s"
  by (subst trim_by.simps) simp

lemma trim_by_fixed: "find (\<lambda>w. w \<noteq> [] \<and> prefix w (trim_by ws s)) ws = None"
proof (induction ws s rule: trim_by.induct)
  case (1 ws s)
  show ?case
  proof (cases "find (\<lambda>w. w \<noteq> [] \<and> prefix w s) ws")
    case None
    then show ?thesis by (simp add: trim_by_None)
  next
    case (Some w)
    then have "trim_by ws s = trim_by ws (drop (length w) s)" by (subst trim_by.simps) simp
    with 1 [OF Some] show ?thesis by simp
  qed
qed

lemma trim_by_idem [simp]: "trim_by ws (trim_by ws s) = trim_by ws s"
  by (rule trim_by_None) (rule trim_by_fixed)

lemma suffix_trim_by: "suffix (trim_by ws s) s"
proof (induction ws s rule: trim_by.induct)
  case (1 ws s)
  show ?case
  proof (cases "find (\<lambda>w. w \<noteq> [] \<and> prefix w s) ws")
    case None
    then show ?thesis by (simp add: trim_by_None)
  next
    case (Some w)
    then have "trim_by ws s = trim_by ws (drop (length w) s)" by (subst trim_by.simps) simp
    moreover have "suffix (drop (length w) s) s" by (rule suffix_drop)
    ultimately show ?thesis using 1 [OF Some] by (metis suffix_order.order_trans)
  qed
qed

lemma trim_by_Nil [simp]: "trim_by ws [] = []"
  by (rule trim_by_None) (auto simp: find_None_iff)

text \<open>A string is untouched by one-sided trimming when none of the words is a prefix of it; this is
  inherited by its own non-empty prefixes.\<close>

lemma untrimmed_prefix:
  assumes "find (\<lambda>w. w \<noteq> [] \<and> prefix w s) ws = None" and "prefix p s"
  shows "find (\<lambda>w. w \<noteq> [] \<and> prefix w p) ws = None"
  using assms by (auto simp: find_None_iff dest: prefix_order.order_trans)

lemma TrimSpace_Nil [simp]: "TrimSpace [] = []"
  by (simp add: TrimSpace_def)

lemma TrimSpace_idem [simp]: "TrimSpace (TrimSpace s) = TrimSpace s"
proof -
  let ?l = "trim_by white_space s" and ?t = "TrimSpace s"
  have "suffix (trim_by (map rev white_space) (rev ?l)) (rev ?l)" by (rule suffix_trim_by)
  then have "prefix ?t ?l" by (simp add: TrimSpace_def suffix_to_prefix)
  then have "find (\<lambda>w. w \<noteq> [] \<and> prefix w ?t) white_space = None"
    by (rule untrimmed_prefix [OF trim_by_fixed])
  then have "trim_by white_space ?t = ?t" by (rule trim_by_None)
  then show ?thesis by (simp add: TrimSpace_def)
qed

lemma TrimSpace_length: "length (TrimSpace s) \<le> length s"
proof -
  have "length (TrimSpace s) \<le> length (trim_by white_space s)"
    using suffix_length_le [OF suffix_trim_by, of "map rev white_space" "rev (trim_by white_space s)"]
    by (simp add: TrimSpace_def)
  also have "\<dots> \<le> length s" using suffix_trim_by by (rule suffix_length_le)
  finally show ?thesis .
qed

text \<open>The first and last bytes of the white space words: a string that starts and ends with
  visible ASCII is its own trimmed form.\<close>

definition visible :: "char \<Rightarrow> bool" where
  "visible c = (33 \<le> (of_char c :: nat) \<and> (of_char c :: nat) \<le> 126)"

definition trimmed_word :: "string \<Rightarrow> bool" where
  "trimmed_word s = (s \<noteq> [] \<and> visible (hd s) \<and> visible (last s))"

lemma white_space_invisible:
  "list_all (\<lambda>w. w \<noteq> [] \<and> \<not> visible (hd w) \<and> \<not> visible (last w)) white_space"
  by code_simp

lemma trim_by_visible:
  assumes "\<And>w. w \<in> set ws \<Longrightarrow> w \<noteq> [] \<and> \<not> visible (hd w)" and "s \<noteq> []" and "visible (hd s)"
  shows "trim_by ws s = s"
proof (rule trim_by_None)
  have "\<not> prefix w s" if "w \<in> set ws" for w
    using assms that by (cases s; cases w) force+
  then show "find (\<lambda>w. w \<noteq> [] \<and> prefix w s) ws = None" by (auto simp: find_None_iff)
qed

lemma TrimSpace_word: "trimmed_word s \<Longrightarrow> TrimSpace s = s"
proof -
  assume s: "trimmed_word s"
  have ws: "w \<noteq> [] \<and> \<not> visible (hd w) \<and> \<not> visible (last w)" if "w \<in> set white_space" for w
    using white_space_invisible that by (simp add: list_all_iff)
  have l: "trim_by white_space s = s"
    using s ws by (intro trim_by_visible) (auto simp: trimmed_word_def)
  have "trim_by (map rev white_space) (rev s) = rev s"
    using s ws by (intro trim_by_visible) (auto simp: trimmed_word_def hd_rev)
  with l show ?thesis by (simp add: TrimSpace_def)
qed

lemma index_of_bound: "index_of s sub = Some i \<Longrightarrow> i + length sub \<le> length s"
  by (induction s arbitrary: i) (auto split: if_splits dest: prefix_length_le)

lemma index_of_occurs: "index_of s sub = Some i \<Longrightarrow> take (length sub) (drop i s) = sub"
  by (induction s arbitrary: i) (auto split: if_splits elim: prefixE)

lemma TrimPrefix_HasPrefix: "HasPrefix s p \<Longrightarrow> p @ TrimPrefix s p = s"
  by (auto simp: HasPrefix_def TrimPrefix_def elim: prefixE)

section \<open>Maps\<close>

type_synonym ('k, 'v) gomap = "('k \<times> 'v) list"

abbreviation mput :: "'k \<Rightarrow> 'v \<Rightarrow> ('k, 'v) gomap \<Rightarrow> ('k, 'v) gomap" where
  "mput \<equiv> AList.update"

abbreviation mdel :: "'k \<Rightarrow> ('k, 'v) gomap \<Rightarrow> ('k, 'v) gomap" where
  "mdel \<equiv> AList.delete"

abbreviation wf_map :: "('k, 'v) gomap \<Rightarrow> bool" where
  "wf_map m \<equiv> distinct (map fst m)"

lemma map_of_mput [simp, go_simps]: "map_of (mput k v m) k' = (if k' = k then Some v else map_of m k')"
  by (simp add: update_conv)

lemma map_of_mdel [simp, go_simps]: "map_of (mdel k m) k' = (if k' = k then None else map_of m k')"
  by (simp add: delete_conv)

lemma dom_mput [go_simps]: "dom (map_of (mput k v m)) = insert k (dom (map_of m))"
  by (auto simp: dom_def)

lemma dom_mdel [go_simps]: "dom (map_of (mdel k m)) = dom (map_of m) - {k}"
  by (auto simp: dom_def)

lemma wf_map_mput [simp, intro, inv_intros]: "wf_map m \<Longrightarrow> wf_map (mput k v m)"
  by (rule distinct_update)

lemma wf_map_mdel [simp, intro, inv_intros]: "wf_map m \<Longrightarrow> wf_map (mdel k m)"
  by (rule distinct_delete)

lemma map_of_filter_value:
  "wf_map m \<Longrightarrow> map_of (filter (\<lambda>(k, v). P v) m) k =
     (case map_of m k of Some v \<Rightarrow> if P v then Some v else None | None \<Rightarrow> None)"
  by (induction m) (auto simp: map_of_eq_None_iff split: option.splits)

lemma wf_map_filter [simp, intro, inv_intros]: "wf_map m \<Longrightarrow> wf_map (filter P m)"
  by (induction m) auto

section \<open>Integers of fixed width\<close>

text \<open>The value of an \<open>int64\<close> after an operation that may overflow.\<close>

definition int64 :: "int \<Rightarrow> int" where
  "int64 i = signed_take_bit 63 i"

definition MaxInt64 :: int where
  "MaxInt64 = 2 ^ 63 - 1"

lemma int64_id: "- (2 ^ 63) \<le> i \<Longrightarrow> i \<le> MaxInt64 \<Longrightarrow> int64 i = i"
  unfolding int64_def MaxInt64_def by (rule signed_take_bit_int_eq_self) simp_all

lemma int64_range: "- (2 ^ 63) \<le> int64 i \<and> int64 i \<le> MaxInt64"
  using signed_take_bit_int_greater_eq_minus_exp [of 63 i] signed_take_bit_int_less_exp [of 63 i]
  by (simp add: int64_def MaxInt64_def)

lemma int64_overflow: "int64 (MaxInt64 + 1) = - (2 ^ 63)"
  by (simp add: int64_def MaxInt64_def signed_take_bit_eq_if_negative take_bit_eq_mod bit_iff_odd)

section \<open>State machines\<close>

inductive reachable :: "('s \<Rightarrow> bool) \<Rightarrow> ('s \<Rightarrow> 's \<Rightarrow> bool) \<Rightarrow> 's \<Rightarrow> bool"
  for init step where
  reach_init: "init s \<Longrightarrow> reachable init step s"
| reach_step: "reachable init step s \<Longrightarrow> step s t \<Longrightarrow> reachable init step t"

locale invariant_system =
  fixes init :: "'s \<Rightarrow> bool" and step :: "'s \<Rightarrow> 's \<Rightarrow> bool" and inv :: "'s \<Rightarrow> bool"
  assumes init_inv: "init s \<Longrightarrow> inv s"
    and step_inv: "inv s \<Longrightarrow> step s t \<Longrightarrow> inv t"
begin

lemma reachable_inv: "reachable init step s \<Longrightarrow> inv s"
  by (induction rule: reachable.induct) (auto intro: init_inv step_inv)

lemma rtranclp_inv: "step\<^sup>*\<^sup>* s t \<Longrightarrow> inv s \<Longrightarrow> inv t"
  by (induction rule: rtranclp_induct) (auto intro: step_inv)

lemma step_from_reachable:
  "reachable init step s \<Longrightarrow> step s t \<Longrightarrow> (\<And>u. inv u \<Longrightarrow> step u t \<Longrightarrow> P) \<Longrightarrow> P"
  using reachable_inv by blast

end

end
