(* ===== verification/Gateway_Types.thy ===== *)
theory Gateway_Types
  imports Go_Prelude
begin

text \<open>
  The data of \<open>internal/types\<close>: the lifecycle and synchronisation states of a registered server, the
  server record, policy profiles, risk levels, classifications and user roles.

  The source represents each enumeration as a string with named constants.  Here each is a datatype
  with the named constants as constructors and one constructor for any other string; \<open>_String\<close> gives
  the string and \<open>_of_string\<close> the conversion from a string.
\<close>

section \<open>Dynamically typed values\<close>

text \<open>The values of \<open>any\<close> that JSON decoding produces.\<close>

datatype json =
    JNull
  | JBool bool
  | JNum real
  | JStr string
  | JArr "json list"
  | JObj "(string \<times> json) list"

section \<open>Server lifecycle\<close>

datatype ServerStatus =
    StatusPending | StatusApproved | StatusActive | StatusStale | StatusExpired
  | StatusOther string

fun ServerStatus_String :: "ServerStatus \<Rightarrow> string" where
  "ServerStatus_String StatusPending = ''pending''"
| "ServerStatus_String StatusApproved = ''approved''"
| "ServerStatus_String StatusActive = ''active''"
| "ServerStatus_String StatusStale = ''stale''"
| "ServerStatus_String StatusExpired = ''expired''"
| "ServerStatus_String (StatusOther s) = s"

definition ServerStatus_of_string :: "string \<Rightarrow> ServerStatus" where
  "ServerStatus_of_string s =
    (if s = ''pending'' then StatusPending
     else if s = ''approved'' then StatusApproved
     else if s = ''active'' then StatusActive
     else if s = ''stale'' then StatusStale
     else if s = ''expired'' then StatusExpired
     else StatusOther s)"

definition IsTerminal :: "ServerStatus \<Rightarrow> bool" where
  "IsTerminal s = (s = StatusExpired)"

definition IsRoutable :: "ServerStatus \<Rightarrow> bool" where
  "IsRoutable s = (s = StatusActive)"

datatype RegistrationSyncState =
    SyncStateUnacked | SyncStateAcked | SyncStateStale | SyncStateOther string

fun SyncState_String :: "RegistrationSyncState \<Rightarrow> string" where
  "SyncState_String SyncStateUnacked = ''unacked''"
| "SyncState_String SyncStateAcked = ''acked''"
| "SyncState_String SyncStateStale = ''stale''"
| "SyncState_String (SyncStateOther s) = s"

record Capability =
  cap_Tools :: "string list"
  cap_Resources :: "string list"
  cap_Prompts :: "string list"

record ServerRecord =
  sr_ID :: string
  sr_Name :: string
  sr_SPIFFEID :: string
  sr_Version :: string
  sr_Host :: string
  sr_Port :: int
  sr_Protocol :: string
  sr_Capabilities :: Capability
  sr_Status :: ServerStatus
  sr_PolicyProfile :: string
  sr_LastHeartbeat :: "time option"
  sr_LeaseEpoch :: int
  sr_CapabilityHash :: string
  sr_SyncState :: RegistrationSyncState
  sr_LastPlatformAckVersion :: string
  sr_LastPlatformAckAt :: "time option"
  sr_RateLimit :: "int option"
  sr_RateBurst :: "int option"
  sr_RoutingStrategy :: string
  sr_CreatedAt :: time
  sr_UpdatedAt :: time

text \<open>The zero value of \<open>types.ServerRecord\<close>; struct literals of the source are updates of it.\<close>

definition zero_ServerRecord :: ServerRecord where
  "zero_ServerRecord =
    \<lparr> sr_ID = '''', sr_Name = '''', sr_SPIFFEID = '''', sr_Version = '''', sr_Host = '''', sr_Port = 0,
      sr_Protocol = '''',
      sr_Capabilities = \<lparr> cap_Tools = [], cap_Resources = [], cap_Prompts = [] \<rparr>,
      sr_Status = StatusOther '''', sr_PolicyProfile = '''', sr_LastHeartbeat = None,
      sr_LeaseEpoch = 0, sr_CapabilityHash = '''', sr_SyncState = SyncStateOther '''',
      sr_LastPlatformAckVersion = '''', sr_LastPlatformAckAt = None, sr_RateLimit = None,
      sr_RateBurst = None, sr_RoutingStrategy = '''', sr_CreatedAt = 0, sr_UpdatedAt = 0 \<rparr>"

section \<open>Policy, classification and users\<close>

datatype EnforcementMode = ModeEnforce | ModeAudit | ModeOther string

record PolicyProfile =
  pp_Name :: string
  pp_RateLimit :: int
  pp_RateBurst :: int
  pp_ToolAllowlist :: "string list"
  pp_ToolDenylist :: "string list"
  pp_EnforcementMode :: EnforcementMode

datatype RiskLevel = RiskReadOnly | RiskWrite | RiskDestructive | RiskUnknown | RiskOther string

fun RiskLevel_String :: "RiskLevel \<Rightarrow> string" where
  "RiskLevel_String RiskReadOnly = ''read_only''"
| "RiskLevel_String RiskWrite = ''write''"
| "RiskLevel_String RiskDestructive = ''destructive''"
| "RiskLevel_String RiskUnknown = ''unknown''"
| "RiskLevel_String (RiskOther s) = s"

definition RiskLevel_of_string :: "string \<Rightarrow> RiskLevel" where
  "RiskLevel_of_string s =
    (if s = ''read_only'' then RiskReadOnly
     else if s = ''write'' then RiskWrite
     else if s = ''destructive'' then RiskDestructive
     else if s = ''unknown'' then RiskUnknown
     else RiskOther s)"

fun RiskLevel_IsValid :: "RiskLevel \<Rightarrow> bool" where
  "RiskLevel_IsValid (RiskOther s) = False"
| "RiskLevel_IsValid _ = True"

record ToolClassification =
  tc_ToolName :: string
  tc_RiskLevel :: RiskLevel
  tc_Reason :: string
  tc_AutoClassified :: bool
  tc_UpdatedBy :: string
  tc_UpdatedAt :: time

datatype UserRole = RoleAdmin | RoleUser | RoleViewer | RoleBlocked | RoleOther string

fun UserRole_IsValid :: "UserRole \<Rightarrow> bool" where
  "UserRole_IsValid (RoleOther s) = False"
| "UserRole_IsValid _ = True"

record APIKey =
  ak_ID :: string
  ak_KeyLookupHash :: string
  ak_KeyBcryptHash :: string
  ak_Name :: string
  ak_Scopes :: "string list"
  ak_ClientID :: string
  ak_PolicyProfile :: string
  ak_ServerScope :: "string list"
  ak_ExpiresAt :: "time option"
  ak_CreatedAt :: time

record AuditEntry =
  ae_EventType :: string
  ae_ClientID :: string
  ae_Username :: string
  ae_ServerName :: string
  ae_Details :: "(string \<times> json) list"

section \<open>Audit log sorting\<close>

definition NormalizeAuditSortBy :: "string \<Rightarrow> string" where
  "NormalizeAuditSortBy sortBy =
    (let s = ToLower (TrimSpace sortBy)
     in if s = ''event_type'' then ''event_type''
        else if s = ''username'' then ''username''
        else if s = ''server_name'' then ''server_name''
        else ''created_at'')"

definition NormalizeAuditSortDir :: "string \<Rightarrow> string" where
  "NormalizeAuditSortDir sortDir =
    (if ToLower (TrimSpace sortDir) = ''asc'' then ''asc'' else ''desc'')"

lemma ServerStatus_of_String [simp]:
  "(\<And>t. s \<noteq> StatusOther t) \<Longrightarrow> ServerStatus_of_string (ServerStatus_String s) = s"
  by (cases s) (auto simp: ServerStatus_of_string_def)

lemma ServerStatus_String_of [simp]: "ServerStatus_String (ServerStatus_of_string s) = s"
  by (simp add: ServerStatus_of_string_def)

lemma RiskLevel_String_of [simp]: "RiskLevel_String (RiskLevel_of_string s) = s"
  by (simp add: RiskLevel_of_string_def)

lemma NormalizeAuditSortBy_allowlisted:
  "NormalizeAuditSortBy s \<in> {''event_type'', ''username'', ''server_name'', ''created_at''}"
  by (simp add: NormalizeAuditSortBy_def Let_def)

end
