(* ===== verification/Circuit_Breaker.thy ===== *)
theory Circuit_Breaker
  imports Gateway_Types "HOL-Library.Multiset"
begin

text \<open>
  \<open>internal/resilience/circuit.go\<close> and \<open>registry.go\<close>: Go errors as values, the circuit breaker as
  a sequential object, the breaker registry, and the breaker under concurrent callers.

  The code that a call runs in is an environment over an abstract world \<open>'w\<close>: \<open>clock\<close> is
  \<open>time.Now()\<close>, \<open>ctx_err\<close> is \<open>ctx.Err()\<close>, \<open>sleep d\<close> waits for a timer of \<open>d\<close> or for the end of the
  context and gives the context's error in the second case, and \<open>rand_int\<close> is the number
  \<open>crypto/rand\<close> draws below 10001, if it succeeds.  The protected function maps a world to its error (\<open>None\<close> for
  nil) and the next world.
\<close>

section \<open>Errors\<close>

datatype errno = ECONNREFUSED | ECONNRESET | EHOSTUNREACH | ENETUNREACH | ETIMEDOUT | EOTHER nat

text \<open>The messages the source wraps errors with, with the values they print.\<close>

datatype err_context =
    RetryAttemptCanceled int
  | RetryAborted int
  | RetryCanceled int
  | RetryFailed int
  | ResilientCallTool string
  | OtherContext string

datatype goerr =
    Canceled
  | DeadlineExceeded
  | ErrCircuitOpen
  | NetError bool
  | StatusError int
  | SyscallErrno errno
  | URLError goerr
  | PlainError string
  | WrapError err_context goerr

fun err_chain :: "goerr \<Rightarrow> goerr list" where
  "err_chain (URLError e) = URLError e # err_chain e"
| "err_chain (WrapError c e) = WrapError c e # err_chain e"
| "err_chain e = [e]"

definition errors_Is :: "goerr \<Rightarrow> goerr \<Rightarrow> bool" where
  "errors_Is e target = (target \<in> set (err_chain e))"

record 'w env =
  clock :: "'w \<Rightarrow> time"
  ctx_err :: "'w \<Rightarrow> goerr option"
  sleep :: "duration \<Rightarrow> 'w \<Rightarrow> goerr option \<times> 'w"
  rand_int :: "'w \<Rightarrow> nat option"

type_synonym 'w call = "'w \<Rightarrow> goerr option \<times> 'w"

section \<open>The breaker\<close>

datatype CircuitState = StateClosed | StateOpen | StateHalfOpen | StateOther string

record CircuitBreaker =
  cb_name :: string
  cb_state :: CircuitState
  cb_failures :: int
  cb_threshold :: int
  cb_timeout :: duration
  cb_lastFailure :: "time option"

definition NewCircuitBreaker :: "string \<Rightarrow> int \<Rightarrow> duration \<Rightarrow> CircuitBreaker" where
  "NewCircuitBreaker name threshold timeout =
    \<lparr> cb_name = name, cb_state = StateClosed, cb_failures = 0,
      cb_threshold = (if threshold \<le> 0 then 1 else threshold),
      cb_timeout = (if timeout \<le> 0 then Second else timeout),
      cb_lastFailure = None \<rparr>"

text \<open>\<open>time.Since\<close>; the difference to the zero time saturates at the largest duration.\<close>

definition since :: "time option \<Rightarrow> time \<Rightarrow> duration" where
  "since t now = (case t of None \<Rightarrow> MaxInt64 | Some t0 \<Rightarrow> now - t0)"

text \<open>The outcome of the switch on the state that \<open>Execute\<close> makes under the lock.\<close>

datatype admission = Reject | RunClosed | RunProbe CircuitBreaker | UnknownState

definition admit :: "CircuitBreaker \<Rightarrow> time \<Rightarrow> admission" where
  "admit cb now =
    (case cb_state cb of
       StateOpen \<Rightarrow>
         (if since (cb_lastFailure cb) now < cb_timeout cb then Reject
          else RunProbe (cb\<lparr>cb_state := StateHalfOpen\<rparr>))
     | StateHalfOpen \<Rightarrow> RunProbe cb
     | StateClosed \<Rightarrow> RunClosed
     | StateOther s \<Rightarrow> UnknownState)"

text \<open>The update at the end of a probe, and at the end of a call that started closed.\<close>

definition finish_probe :: "goerr option \<Rightarrow> time \<Rightarrow> CircuitBreaker \<Rightarrow> CircuitBreaker" where
  "finish_probe err now cb =
    (case err of
       Some e \<Rightarrow> cb\<lparr>cb_state := StateOpen, cb_failures := cb_threshold cb, cb_lastFailure := Some now\<rparr>
     | None \<Rightarrow> cb\<lparr>cb_state := StateClosed, cb_failures := 0, cb_lastFailure := None\<rparr>)"

definition finish_closed :: "goerr option \<Rightarrow> time \<Rightarrow> CircuitBreaker \<Rightarrow> CircuitBreaker" where
  "finish_closed err now cb =
    (case err of
       Some e \<Rightarrow>
         (let cb1 = cb\<lparr>cb_failures := cb_failures cb + 1\<rparr>
          in if cb_failures cb1 \<ge> cb_threshold cb1
             then cb1\<lparr>cb_state := StateOpen, cb_lastFailure := Some now\<rparr>
             else cb1)
     | None \<Rightarrow> cb\<lparr>cb_failures := 0\<rparr>)"

definition executeClosed ::
  "'w env \<Rightarrow> 'w call \<Rightarrow> CircuitBreaker \<Rightarrow> 'w \<Rightarrow> goerr option \<times> CircuitBreaker \<times> 'w" where
  "executeClosed E fn cb w =
    (case ctx_err E w of
       Some e \<Rightarrow> (Some e, cb, w)
     | None \<Rightarrow> (let (err, w') = fn w in (err, finish_closed err (clock E w') cb, w')))"

definition unknown_state_error :: goerr where
  "unknown_state_error = PlainError ''execute with circuit breaker: unknown state''"

definition Execute ::
  "'w env \<Rightarrow> 'w call \<Rightarrow> CircuitBreaker \<Rightarrow> 'w \<Rightarrow> goerr option \<times> CircuitBreaker \<times> 'w" where
  "Execute E fn cb w =
    (case admit cb (clock E w) of
       Reject \<Rightarrow> (Some ErrCircuitOpen, cb, w)
     | RunClosed \<Rightarrow> executeClosed E fn cb w
     | UnknownState \<Rightarrow> (Some unknown_state_error, cb, w)
     | RunProbe cb1 \<Rightarrow>
         (case ctx_err E w of
            Some e \<Rightarrow> (Some e, cb1, w)
          | None \<Rightarrow> (let (err, w') = fn w in (err, finish_probe err (clock E w') cb1, w'))))"

definition Reset :: "CircuitBreaker \<Rightarrow> CircuitBreaker" where
  "Reset cb = cb\<lparr>cb_state := StateClosed, cb_failures := 0, cb_lastFailure := None\<rparr>"

text \<open>The pointer may be nil: then \<open>State\<close> reports open and \<open>Failures\<close> reports zero.\<close>

definition State :: "CircuitBreaker option \<Rightarrow> CircuitState" where
  "State cb = (case cb of None \<Rightarrow> StateOpen | Some b \<Rightarrow> cb_state b)"

definition Failures :: "CircuitBreaker option \<Rightarrow> int" where
  "Failures cb = (case cb of None \<Rightarrow> 0 | Some b \<Rightarrow> cb_failures b)"

section \<open>The registry\<close>

type_synonym BreakerRegistry = "(string, CircuitBreaker) gomap"

definition Breaker_GetOrCreate ::
  "string \<Rightarrow> int \<Rightarrow> duration \<Rightarrow> BreakerRegistry \<Rightarrow> CircuitBreaker \<times> BreakerRegistry" where
  "Breaker_GetOrCreate serverID threshold timeout r =
    (case map_of r serverID of
       Some b \<Rightarrow> (b, r)
     | None \<Rightarrow> (let b = NewCircuitBreaker serverID threshold timeout in (b, mput serverID b r)))"

definition Breaker_Remove :: "string \<Rightarrow> BreakerRegistry \<Rightarrow> BreakerRegistry" where
  "Breaker_Remove serverID r = mdel serverID r"

definition ListOpen :: "BreakerRegistry \<Rightarrow> string list" where
  "ListOpen r = map fst (filter (\<lambda>(k, b). cb_state b = StateOpen) r)"

section \<open>The breaker invariant\<close>

text \<open>A closed breaker has fewer failures than its threshold, and an open one remembers when it
  last failed.\<close>

definition breaker_ok :: "CircuitBreaker \<Rightarrow> bool" where
  "breaker_ok cb \<longleftrightarrow>
     0 < cb_threshold cb \<and> 0 < cb_timeout cb \<and> 0 \<le> cb_failures cb
     \<and> (cb_state cb = StateClosed \<longrightarrow> cb_failures cb < cb_threshold cb)
     \<and> (cb_state cb = StateOpen \<longrightarrow> cb_lastFailure cb \<noteq> None)
     \<and> (\<forall>s. cb_state cb \<noteq> StateOther s)"

lemma NewCircuitBreaker_ok [simp, inv_intros]: "breaker_ok (NewCircuitBreaker name th to)"
  by (simp add: breaker_ok_def NewCircuitBreaker_def)

lemma Reset_ok [simp, inv_intros]: "breaker_ok cb \<Longrightarrow> breaker_ok (Reset cb)"
  by (simp add: breaker_ok_def Reset_def)

lemma finish_probe_ok [simp, inv_intros]: "breaker_ok cb \<Longrightarrow> breaker_ok (finish_probe err now cb)"
  by (simp add: breaker_ok_def finish_probe_def split: option.split)

lemma finish_closed_ok [simp, inv_intros]: "breaker_ok cb \<Longrightarrow> breaker_ok (finish_closed err now cb)"
  by (auto simp: breaker_ok_def finish_closed_def Let_def split: option.split)

lemma admit_probe_ok [inv_intros]: "breaker_ok cb \<Longrightarrow> admit cb now = RunProbe cb1 \<Longrightarrow> breaker_ok cb1"
  by (auto simp: breaker_ok_def admit_def split: CircuitState.splits if_splits)

lemma admit_known: "breaker_ok cb \<Longrightarrow> admit cb now \<noteq> UnknownState"
  by (auto simp: breaker_ok_def admit_def split: CircuitState.splits)

lemma admit_probe_state: "admit cb now = RunProbe cb1 \<Longrightarrow> cb1 = cb\<lparr>cb_state := StateHalfOpen\<rparr>"
  by (cases cb) (auto simp: admit_def split: CircuitState.splits if_splits)

lemma executeClosed_ok [inv_intros]:
  "breaker_ok cb \<Longrightarrow> executeClosed E fn cb w = (err, cb', w') \<Longrightarrow> breaker_ok cb'"
  by (auto simp: executeClosed_def split: option.splits prod.splits)

lemma Execute_ok [inv_intros]:
  "breaker_ok cb \<Longrightarrow> Execute E fn cb w = (err, cb', w') \<Longrightarrow> breaker_ok cb'"
  by (auto simp: Execute_def split: admission.splits option.splits prod.splits
      intro: inv_intros)

text \<open>\<open>Execute\<close> on an open breaker, by the time since the last failure.\<close>

lemma Execute_rejects:
  assumes "cb_state cb = StateOpen" and "cb_lastFailure cb = Some t"
    and "clock E w - t < cb_timeout cb"
  shows "Execute E fn cb w = (Some ErrCircuitOpen, cb, w)"
  using assms by (simp add: Execute_def admit_def since_def)

section \<open>Concurrent callers\<close>

text \<open>
  The mutex is held from the decision to probe until the probe returns, and not while a call admitted
  in the closed state runs.  A state of the concurrent breaker is the breaker, the number of calls
  admitted closed that have not returned, whether a probe holds the mutex, and the clock.  Each step
  is one critical section of the code, or the passing of time.
\<close>

record conc =
  c_breaker :: CircuitBreaker
  c_running :: nat
  c_probing :: bool
  c_now :: time

definition conc_init :: "conc \<Rightarrow> bool" where
  "conc_init c \<longleftrightarrow>
    (\<exists>name th to now. c = \<lparr>c_breaker = NewCircuitBreaker name th to, c_running = 0, c_probing = False,
       c_now = now\<rparr>)"

inductive conc_step :: "conc \<Rightarrow> conc \<Rightarrow> bool" where
  tick: "c_now c \<le> t \<Longrightarrow> conc_step c (c\<lparr>c_now := t\<rparr>)"
| admit_closed:
    "\<not> c_probing c \<Longrightarrow> admit (c_breaker c) (c_now c) = RunClosed
     \<Longrightarrow> conc_step c (c\<lparr>c_running := Suc (c_running c)\<rparr>)"
| return_canceled: "c_running c = Suc n \<Longrightarrow> conc_step c (c\<lparr>c_running := n\<rparr>)"
| return_closed:
    "\<not> c_probing c \<Longrightarrow> c_running c = Suc n
     \<Longrightarrow> conc_step c (c\<lparr>c_running := n, c_breaker := finish_closed err (c_now c) (c_breaker c)\<rparr>)"
| admit_probe:
    "\<not> c_probing c \<Longrightarrow> admit (c_breaker c) (c_now c) = RunProbe cb1
     \<Longrightarrow> conc_step c (c\<lparr>c_breaker := cb1, c_probing := True\<rparr>)"
| probe_canceled: "c_probing c \<Longrightarrow> conc_step c (c\<lparr>c_probing := False\<rparr>)"
| return_probe:
    "c_probing c
     \<Longrightarrow> conc_step c (c\<lparr>c_breaker := finish_probe err (c_now c) (c_breaker c), c_probing := False\<rparr>)"
| reset: "\<not> c_probing c \<Longrightarrow> conc_step c (c\<lparr>c_breaker := Reset (c_breaker c)\<rparr>)"

text \<open>The invariant of the concurrent breaker: the sequential one, the probe holds a half-open
  breaker, and the last failure lies in the past.\<close>

definition conc_ok :: "conc \<Rightarrow> bool" where
  "conc_ok c \<longleftrightarrow>
     breaker_ok (c_breaker c)
     \<and> (c_probing c \<longrightarrow> cb_state (c_breaker c) = StateHalfOpen)
     \<and> (\<forall>t. cb_lastFailure (c_breaker c) = Some t \<longrightarrow> t \<le> c_now c)"

lemma lastFailure_finish_closed:
  "cb_lastFailure (finish_closed err now cb) \<in> {cb_lastFailure cb, Some now}"
  by (simp add: finish_closed_def Let_def split: option.split)

lemma lastFailure_finish_probe: "cb_lastFailure (finish_probe err now cb) \<in> {None, Some now}"
  by (simp add: finish_probe_def split: option.split)

lemma conc_step_ok: "conc_ok c \<Longrightarrow> conc_step c c' \<Longrightarrow> conc_ok c'"
proof (erule conc_step.cases; clarsimp simp: conc_ok_def)
  fix c :: conc and err n t
  assume "breaker_ok (c_breaker c)" "\<forall>t. cb_lastFailure (c_breaker c) = Some t \<longrightarrow> t \<le> c_now c"
    "cb_lastFailure (finish_closed err (c_now c) (c_breaker c)) = Some t"
  then show "t \<le> c_now c" using lastFailure_finish_closed [of err "c_now c" "c_breaker c"] by auto
next
  fix c :: conc and err t
  assume "cb_lastFailure (finish_probe err (c_now c) (c_breaker c)) = Some t"
  then show "t \<le> c_now c" using lastFailure_finish_probe [of err "c_now c" "c_breaker c"] by auto
qed (auto simp: Reset_def dest: admit_probe_state admit_probe_ok intro: order_trans)

interpretation breaker_conc: invariant_system conc_init conc_step conc_ok
proof unfold_locales
  show "conc_ok c" if "conc_init c" for c
    using that by (auto simp: conc_init_def conc_ok_def) (simp add: NewCircuitBreaker_def)
qed (rule conc_step_ok)

inductive_cases conc_stepE: "conc_step c c'"

section \<open>What callers observe\<close>

text \<open>The breaker after a number of consecutive calls.\<close>

fun run_calls :: "'w env \<Rightarrow> 'w call \<Rightarrow> nat \<Rightarrow> CircuitBreaker \<times> 'w \<Rightarrow> CircuitBreaker \<times> 'w" where
  "run_calls E fn 0 s = s"
| "run_calls E fn (Suc n) s = (let (cb, w) = run_calls E fn n s in snd (Execute E fn cb w))"

lemma run_calls_failing:
  assumes ctx: "\<And>w. ctx_err E w = None" and fails: "\<And>w. fst (fn w) \<noteq> None"
    and new: "cb = NewCircuitBreaker name th to" and n: "int n < cb_threshold cb"
  shows "fst (run_calls E fn n (cb, w)) = cb\<lparr>cb_failures := int n\<rparr>"
  using n
proof (induction n)
  case 0
  then show ?case by (simp add: new NewCircuitBreaker_def)
next
  case (Suc n)
  obtain cb1 w1 where r: "run_calls E fn n (cb, w) = (cb1, w1)" by fastforce
  with Suc have cb1: "cb1 = cb\<lparr>cb_failures := int n\<rparr>" by simp
  obtain e w2 where f: "fn w1 = (Some e, w2)" using fails [of w1] by (cases "fn w1") auto
  have st: "cb_state cb = StateClosed" by (simp add: new NewCircuitBreaker_def)
  show ?case
    using Suc.prems by (simp add: r cb1 f st ctx Execute_def admit_def executeClosed_def finish_closed_def)
qed

text \<open>C5.  Under any interleaving of callers, cancellations, resets and the passing of time: while
  the breaker is open and its timeout has not elapsed since the last failure, no critical section
  admits a call, neither as a normal call nor as a probe; and whenever a normal call is admitted, the
  breaker is closed with fewer failures than its threshold.\<close>

theorem open_breaker_admits_nobody:
  assumes "reachable conc_init conc_step c" and "conc_step c c'"
  shows "(\<forall>t. cb_state (c_breaker c) = StateOpen \<and> cb_lastFailure (c_breaker c) = Some t
            \<and> c_now c - t < cb_timeout (c_breaker c)
          \<longrightarrow> c_running c' \<le> c_running c \<and> \<not> c_probing c')
       \<and> (c_running c < c_running c'
          \<longrightarrow> cb_state (c_breaker c) = StateClosed
            \<and> cb_failures (c_breaker c) < cb_threshold (c_breaker c))"
proof -
  have ok: "conc_ok c" using assms(1) by (rule breaker_conc.reachable_inv)
  from assms(2) ok show ?thesis
    by (cases rule: conc_step.cases)
      (auto simp: conc_ok_def breaker_ok_def admit_def since_def split: CircuitState.splits if_splits)
qed

theorem open_breaker_admits_nobody_witness:
  "reachable conc_init conc_step
     \<lparr>c_breaker = NewCircuitBreaker ''k8s'' 2 0, c_running = 0, c_probing = False, c_now = 5\<rparr>
   \<and> cb_failures (NewCircuitBreaker ''k8s'' 2 0) < cb_threshold (NewCircuitBreaker ''k8s'' 2 0)"
proof -
  let ?c = "\<lparr>c_breaker = NewCircuitBreaker ''k8s'' 2 0, c_running = 0, c_probing = False, c_now = 5\<rparr>"
  have r: "reachable conc_init conc_step ?c"
    by (rule reach_init) (auto simp: conc_init_def)
  have "conc_step ?c (?c\<lparr>c_running := Suc (c_running ?c)\<rparr>)"
    by (rule admit_closed) (simp_all add: admit_def NewCircuitBreaker_def)
  from open_breaker_admits_nobody [OF r this] r show ?thesis by simp
qed

text \<open>C6.  Under any interleaving, an open breaker leaves the open state only by admitting a probe
  after its timeout, or by an explicit reset: a call admitted before the breaker opened cannot close
  it when it returns late, whatever its outcome.  A half-open breaker closes only through the
  successful return of the probe that holds the mutex, or by an explicit reset.\<close>

theorem recovery_only_through_probe:
  assumes "reachable conc_init conc_step c" and "conc_step c c'"
  shows "(cb_state (c_breaker c) = StateOpen \<and> cb_state (c_breaker c') \<noteq> StateOpen
          \<longrightarrow> c' = c\<lparr>c_breaker := Reset (c_breaker c)\<rparr>
            \<or> cb_state (c_breaker c') = StateHalfOpen \<and> c_probing c' \<and> \<not> c_probing c
              \<and> cb_timeout (c_breaker c) \<le> since (cb_lastFailure (c_breaker c)) (c_now c))
       \<and> (cb_state (c_breaker c) = StateHalfOpen \<and> cb_state (c_breaker c') = StateClosed
          \<longrightarrow> c' = c\<lparr>c_breaker := Reset (c_breaker c)\<rparr>
            \<or> c_probing c \<and> c' = c\<lparr>c_breaker := finish_probe None (c_now c) (c_breaker c), c_probing := False\<rparr>)"
proof -
  have fc: "cb_state (finish_closed err t cb) \<in> {cb_state cb, StateOpen}" for err t cb
    by (simp add: finish_closed_def Let_def split: option.split)
  from assms(2) show ?thesis
  proof (cases rule: conc_step.cases)
    case (return_closed n err)
    then show ?thesis using fc [of err "c_now c" "c_breaker c"] by auto
  next
    case (return_probe err)
    then show ?thesis
      using breaker_conc.reachable_inv [OF assms(1)]
      by (cases err) (auto simp: finish_probe_def conc_ok_def)
  qed (auto simp: admit_def dest: admit_probe_state split: CircuitState.splits if_splits)
qed

definition tripped_example :: conc where
  "tripped_example =
    \<lparr>c_breaker = finish_closed (Some Canceled) 7 (NewCircuitBreaker ''k8s'' 1 10), c_running = 0,
     c_probing = False, c_now = 7\<rparr>"

lemma tripped_example_open: "cb_state (c_breaker tripped_example) = StateOpen"
  by (simp add: tripped_example_def finish_closed_def NewCircuitBreaker_def)

lemma tripped_example_reachable: "reachable conc_init conc_step (tripped_example\<lparr>c_now := 20\<rparr>)"
proof -
  let ?s0 = "\<lparr>c_breaker = NewCircuitBreaker ''k8s'' 1 10, c_running = 0, c_probing = False, c_now = 7\<rparr>"
  let ?s1 = "?s0\<lparr>c_running := Suc (c_running ?s0)\<rparr>"
  have "reachable conc_init conc_step ?s0" by (rule reach_init) (auto simp: conc_init_def)
  moreover have "conc_step ?s0 ?s1" by (rule admit_closed) (simp_all add: admit_def NewCircuitBreaker_def)
  moreover have "conc_step ?s1 tripped_example"
    using return_closed [of ?s1 0 "Some Canceled"] by (simp add: tripped_example_def)
  moreover have "conc_step tripped_example (tripped_example\<lparr>c_now := 20\<rparr>)"
    by (rule tick) (simp add: tripped_example_def)
  ultimately show ?thesis by (meson reach_step)
qed

theorem recovery_only_through_probe_witness:
  "\<exists>c'. conc_step (tripped_example\<lparr>c_now := 20\<rparr>) c' \<and> c_probing c'
      \<and> cb_timeout (c_breaker tripped_example) \<le> since (cb_lastFailure (c_breaker tripped_example)) 20"
proof -
  let ?c = "tripped_example\<lparr>c_now := 20\<rparr>"
  let ?c' = "?c\<lparr>c_breaker := (c_breaker ?c)\<lparr>cb_state := StateHalfOpen\<rparr>, c_probing := True\<rparr>"
  have s: "conc_step ?c ?c'"
    by (rule admit_probe)
      (simp_all add: tripped_example_def admit_def since_def finish_closed_def NewCircuitBreaker_def)
  have "?c' \<noteq> ?c\<lparr>c_breaker := Reset (c_breaker ?c)\<rparr>"
    by (auto simp: Reset_def dest!: arg_cong [of _ _ "\<lambda>c. cb_state (c_breaker c)"])
  with recovery_only_through_probe [OF tripped_example_reachable s] s tripped_example_open
  show ?thesis by (intro exI [of _ ?c']) auto
qed

text \<open>A new breaker whose protected function keeps failing, and whose callers are not cancelled,
  stays closed and counts the failures for every number of calls below its threshold, and opens exactly
  at the call that reaches the threshold; every later call that comes before the timeout has elapsed is
  rejected without running the function.\<close>

theorem breaker_trips_at_threshold:
  assumes ctx: "\<And>w. ctx_err E w = None" and fails: "\<And>w. fst (fn w) \<noteq> None"
    and cb: "cb = NewCircuitBreaker name th to" and run: "run_calls E fn n (cb, w) = (cb', w')"
  shows "(int n < cb_threshold cb \<longrightarrow> cb_state cb' = StateClosed \<and> cb_failures cb' = int n)
       \<and> (int n = cb_threshold cb \<longrightarrow> cb_state cb' = StateOpen
            \<and> (\<forall>w''. clock E w'' - clock E w' < cb_timeout cb
                 \<longrightarrow> Execute E fn cb' w'' = (Some ErrCircuitOpen, cb', w'')))"
proof (intro conjI impI)
  have st: "cb_state cb = StateClosed" by (simp add: cb NewCircuitBreaker_def)
  note below = run_calls_failing [where E = E and fn = fn and w = w, OF ctx fails cb]
  show "cb_state cb' = StateClosed" "cb_failures cb' = int n" if "int n < cb_threshold cb"
    using below [OF that] run st by simp_all
  assume n: "int n = cb_threshold cb"
  then obtain m where m: "n = Suc m"
    by (cases n) (auto simp: cb NewCircuitBreaker_def split: if_splits)
  obtain cb1 w1 where r: "run_calls E fn m (cb, w) = (cb1, w1)" by fastforce
  with below [of m] n m have cb1: "cb1 = cb\<lparr>cb_failures := int m\<rparr>" by simp
  obtain e w2 where f: "fn w1 = (Some e, w2)" using fails [of w1] by (cases "fn w1") auto
  have eq: "cb' = cb\<lparr>cb_failures := int n, cb_state := StateOpen, cb_lastFailure := Some (clock E w')\<rparr>"
    using run r n by (auto simp: m cb1 f st ctx Execute_def admit_def executeClosed_def finish_closed_def)
  then show "cb_state cb' = StateOpen" by simp
  show "\<forall>w''. clock E w'' - clock E w' < cb_timeout cb
      \<longrightarrow> Execute E fn cb' w'' = (Some ErrCircuitOpen, cb', w'')"
    by (auto simp: eq intro!: Execute_rejects)
qed

theorem breaker_trips_at_threshold_witness:
  "\<exists>(E :: time env) fn cb'.
     run_calls E fn 2 (NewCircuitBreaker ''k8s'' 2 30, 0) = (cb', 2) \<and> cb_state cb' = StateOpen
     \<and> Execute E fn cb' 31 = (Some ErrCircuitOpen, cb', 31)"
proof -
  let ?E = "\<lparr>clock = (\<lambda>w. w), ctx_err = (\<lambda>w. None), sleep = (\<lambda>d w. (None, w + d)), rand_int = (\<lambda>w. None)\<rparr> :: time env"
  let ?fn = "\<lambda>w :: time. (Some (StatusError 503), w + 1)"
  let ?cb = "NewCircuitBreaker ''k8s'' 2 30"
  obtain cb' where r: "run_calls ?E ?fn 2 (?cb, 0) = (cb', 2)"
    by (simp add: numeral_2_eq_2 Execute_def admit_def executeClosed_def finish_closed_def NewCircuitBreaker_def)
  have "int 2 = cb_threshold ?cb" "cb_timeout ?cb = 30" by (simp_all add: NewCircuitBreaker_def)
  with breaker_trips_at_threshold [OF _ _ refl r] r show ?thesis
    by (intro exI [of _ ?E] exI [of _ ?fn] exI [of _ cb']) simp
qed

end
