(* ===== verification/Retry.thy ===== *)
theory Retry
  imports Circuit_Breaker
begin

text \<open>
  \<open>internal/resilience/retry.go\<close> and \<open>client.go\<close>: which errors are transient, exponential backoff
  with jitter, the retry loop, and the client that runs every attempt of a backend call through the
  circuit breaker.  Floating point is modelled by the reals.
\<close>

section \<open>Transient errors\<close>

text \<open>\<open>errors.As(err, &netErr)\<close>: the first error of the chain with a \<open>Timeout\<close> method, and its
  answer.  \<open>url.Error\<close> forwards to the error it holds; an errno times out only as ETIMEDOUT.\<close>

fun has_timeout :: "goerr \<Rightarrow> bool option" where
  "has_timeout DeadlineExceeded = Some True"
| "has_timeout (NetError b) = Some b"
| "has_timeout (SyscallErrno n) = Some (n = ETIMEDOUT)"
| "has_timeout (URLError e) = Some (has_timeout e = Some True)"
| "has_timeout _ = None"

definition net_timeout :: "goerr \<Rightarrow> bool" where
  "net_timeout err =
    (case find (\<lambda>e. has_timeout e \<noteq> None) (err_chain err) of
       None \<Rightarrow> False | Some e \<Rightarrow> has_timeout e = Some True)"

fun status_of :: "goerr list \<Rightarrow> int option" where
  "status_of [] = None"
| "status_of (StatusError c # es) = Some c"
| "status_of (e # es) = status_of es"

fun url_timeout :: "goerr list \<Rightarrow> bool" where
  "url_timeout [] = False"
| "url_timeout (URLError e # es) = (has_timeout e = Some True)"
| "url_timeout (e # es) = url_timeout es"

definition isRetryableStatus :: "int \<Rightarrow> bool" where
  "isRetryableStatus statusCode = (statusCode \<in> {408, 425, 429, 500, 502, 503, 504})"

definition IsRetryable :: "goerr option \<Rightarrow> bool" where
  "IsRetryable err =
    (case err of
       None \<Rightarrow> False
     | Some e \<Rightarrow>
         if errors_Is e Canceled \<or> errors_Is e DeadlineExceeded then False
         else if net_timeout e then True
         else (case status_of (err_chain e) of
                 Some c \<Rightarrow> isRetryableStatus c
               | None \<Rightarrow>
                   if url_timeout (err_chain e) then True
                   else errors_Is e (SyscallErrno ECONNREFUSED) \<or> errors_Is e (SyscallErrno ECONNRESET)
                     \<or> errors_Is e (SyscallErrno EHOSTUNREACH) \<or> errors_Is e (SyscallErrno ENETUNREACH)))"

section \<open>Backoff\<close>

record RetryConfig =
  rc_MaxAttempts :: int
  rc_InitialBackoff :: duration
  rc_MaxBackoff :: duration
  rc_BackoffMultiplier :: real
  rc_Jitter :: bool

definition normalizeRetryConfig :: "RetryConfig \<Rightarrow> RetryConfig" where
  "normalizeRetryConfig cfg =
    \<lparr> rc_MaxAttempts = (if rc_MaxAttempts cfg \<le> 0 then 1 else rc_MaxAttempts cfg),
      rc_InitialBackoff = (if rc_InitialBackoff cfg \<le> 0 then 100 * Millisecond else rc_InitialBackoff cfg),
      rc_MaxBackoff = (if rc_MaxBackoff cfg \<le> 0 then 2 * Second else rc_MaxBackoff cfg),
      rc_BackoffMultiplier = (if rc_BackoffMultiplier cfg < 1 then 2 else rc_BackoffMultiplier cfg),
      rc_Jitter = rc_Jitter cfg \<rparr>"

text \<open>\<open>loaded\<close> is the \<open>RetryMax\<close> of the loaded configuration, \<open>None\<close> when loading fails.\<close>

definition DefaultRetryConfig :: "int option \<Rightarrow> RetryConfig" where
  "DefaultRetryConfig loaded =
    (let cfg = \<lparr> rc_MaxAttempts = 3, rc_InitialBackoff = 100 * Millisecond, rc_MaxBackoff = 2 * Second,
                 rc_BackoffMultiplier = 2, rc_Jitter = True \<rparr>
     in case loaded of None \<Rightarrow> cfg | Some n \<Rightarrow> normalizeRetryConfig (cfg\<lparr>rc_MaxAttempts := n\<rparr>))"

text \<open>The conversion of a float to an integer truncates towards zero.\<close>

definition trunc :: "real \<Rightarrow> int" where
  "trunc r = (if r < 0 then \<lceil>r\<rceil> else \<lfloor>r\<rfloor>)"

definition addJitter :: "nat option \<Rightarrow> duration \<Rightarrow> duration" where
  "addJitter rnd base =
    (if base \<le> 0 then 0
     else case rnd of
            None \<Rightarrow> base
          | Some n \<Rightarrow> trunc (of_int base * (3 / 4 + 1 / 2 * (real n / 10000))))"

definition calculateBackoff :: "nat option \<Rightarrow> RetryConfig \<Rightarrow> int \<Rightarrow> duration" where
  "calculateBackoff rnd cfg attempt =
    (let attempt = (if attempt \<le> 0 then 1 else attempt);
         delay = of_int (rc_InitialBackoff cfg) * rc_BackoffMultiplier cfg ^ nat (attempt - 1);
         delay = (if rc_MaxBackoff cfg > 0 \<and> delay > of_int (rc_MaxBackoff cfg)
                  then of_int (rc_MaxBackoff cfg) else delay);
         out = trunc delay
     in if rc_Jitter cfg then addJitter rnd out else out)"

section \<open>The retry loop\<close>

definition waitBackoff :: "'w env \<Rightarrow> RetryConfig \<Rightarrow> int \<Rightarrow> 'w call" where
  "waitBackoff E cfg attempt w =
    (let delay = calculateBackoff (rand_int E w) cfg attempt
     in if delay \<le> 0 then (None, w)
        else (case sleep E delay w of
                (Some e, w') \<Rightarrow> (Some (WrapError (RetryCanceled attempt) e), w')
              | (None, w') \<Rightarrow> (None, w')))"

function retry_loop :: "'w env \<Rightarrow> RetryConfig \<Rightarrow> 'w call \<Rightarrow> int \<Rightarrow> goerr option \<Rightarrow> 'w call" where
  "retry_loop E cfg fn attempt lastErr w =
    (if rc_MaxAttempts cfg < attempt then
       (case lastErr of
          None \<Rightarrow> (Some (PlainError ''retry exhausted: no attempts executed''), w)
        | Some e \<Rightarrow> (Some (WrapError (RetryFailed (rc_MaxAttempts cfg)) e), w))
     else case ctx_err E w of
       Some e \<Rightarrow> (Some (WrapError (RetryAttemptCanceled attempt) e), w)
     | None \<Rightarrow>
         (case fn w of
            (None, w1) \<Rightarrow> (None, w1)
          | (Some e, w1) \<Rightarrow>
              if \<not> IsRetryable (Some e) then (Some (WrapError (RetryAborted attempt) e), w1)
              else if attempt = rc_MaxAttempts cfg
                   then (Some (WrapError (RetryFailed (rc_MaxAttempts cfg)) e), w1)
              else (case waitBackoff E cfg attempt w1 of
                      (Some we, w2) \<Rightarrow> (Some we, w2)
                    | (None, w2) \<Rightarrow> retry_loop E cfg fn (attempt + 1) (Some e) w2)))"
  by pat_completeness auto
termination
  by (relation "measure (\<lambda>(E, cfg, fn, attempt, lastErr, w). nat (rc_MaxAttempts cfg + 1 - attempt))") auto

declare retry_loop.simps [simp del]

definition Retry :: "'w env \<Rightarrow> RetryConfig \<Rightarrow> 'w call \<Rightarrow> 'w call" where
  "Retry E cfg fn w = retry_loop E (normalizeRetryConfig cfg) fn 1 None w"

section \<open>The resilient client\<close>

text \<open>The closures of \<open>CallTool\<close> share the breaker and the variable \<open>out\<close>: the world of the retry loop
  is the breaker, the result so far and the outer world.\<close>

type_synonym ('r, 'w) client_world = "CircuitBreaker \<times> 'r option \<times> 'w"

definition client_env :: "'w env \<Rightarrow> ('r, 'w) client_world env" where
  "client_env E =
    \<lparr> clock = (\<lambda>(cb, out, w). clock E w),
      ctx_err = (\<lambda>(cb, out, w). ctx_err E w),
      sleep = (\<lambda>d (cb, out, w). case sleep E d w of (e, w') \<Rightarrow> (e, cb, out, w')),
      rand_int = (\<lambda>(cb, out, w). rand_int E w) \<rparr>"

text \<open>The environment and function the breaker sees: the closure that stores the backend's result.\<close>

definition backend_env :: "'w env \<Rightarrow> ('r option \<times> 'w) env" where
  "backend_env E =
    \<lparr> clock = (\<lambda>(out, w). clock E w), ctx_err = (\<lambda>(out, w). ctx_err E w),
      sleep = (\<lambda>d (out, w). case sleep E d w of (e, w') \<Rightarrow> (e, out, w')),
      rand_int = (\<lambda>(out, w). rand_int E w) \<rparr>"

definition backend_call :: "('w \<Rightarrow> (goerr + 'r) \<times> 'w) \<Rightarrow> ('r option \<times> 'w) call" where
  "backend_call backend = (\<lambda>(out, w).
     case backend w of
       (Inl e, w') \<Rightarrow> (Some e, out, w')
     | (Inr r, w') \<Rightarrow> (None, Some r, w'))"

definition attempt_call :: "'w env \<Rightarrow> ('w \<Rightarrow> (goerr + 'r) \<times> 'w) \<Rightarrow> ('r, 'w) client_world call" where
  "attempt_call E backend = (\<lambda>(cb, out, w).
     case Execute (backend_env E) (backend_call backend) cb (out, w) of
       (err, cb', out', w') \<Rightarrow> (err, cb', out', w'))"

text \<open>\<open>ResilientClient.CallTool\<close>: the configuration is the one \<open>NewResilientClient\<close> normalised.\<close>

definition CallTool ::
  "'w env \<Rightarrow> ('w \<Rightarrow> (goerr + 'r) \<times> 'w) option \<Rightarrow> RetryConfig \<Rightarrow> string \<Rightarrow> CircuitBreaker option \<Rightarrow> 'w
   \<Rightarrow> (goerr + 'r option) \<times> CircuitBreaker option \<times> 'w" where
  "CallTool E backend cfg name breaker w =
    (case backend of
       None \<Rightarrow> (Inl (PlainError ''resilient call tool: backend is nil''), breaker, w)
     | Some call \<Rightarrow>
         (case breaker of
            None \<Rightarrow> (Inl (PlainError ''resilient call tool: circuit breaker is nil''), None, w)
          | Some cb \<Rightarrow>
              (case Retry (client_env E) (normalizeRetryConfig cfg) (attempt_call E call) (cb, None, w) of
                 (Some e, cb', out, w') \<Rightarrow> (Inl (WrapError (ResilientCallTool name) e), Some cb', w')
               | (None, cb', out, w') \<Rightarrow> (Inr out, Some cb', w'))))"

section \<open>Lemmas\<close>

lemma IsRetryable_None [simp]: "\<not> IsRetryable None"
  by (simp add: IsRetryable_def)

lemma circuit_open_not_retryable [simp]: "\<not> IsRetryable (Some ErrCircuitOpen)"
  by (simp add: IsRetryable_def errors_Is_def net_timeout_def)

lemma normalize_idem [simp]: "normalizeRetryConfig (normalizeRetryConfig cfg) = normalizeRetryConfig cfg"
  by (simp add: normalizeRetryConfig_def)

lemma normalize_range:
  "1 \<le> rc_MaxAttempts (normalizeRetryConfig cfg)" "0 < rc_InitialBackoff (normalizeRetryConfig cfg)"
  "0 < rc_MaxBackoff (normalizeRetryConfig cfg)" "1 \<le> rc_BackoffMultiplier (normalizeRetryConfig cfg)"
  by (simp_all add: normalizeRetryConfig_def)

lemma normalize_Jitter [simp]: "rc_Jitter (normalizeRetryConfig cfg) = rc_Jitter cfg"
  by (simp add: normalizeRetryConfig_def)

text \<open>The attempts of the loop as a sequence: the outcome of attempt \<open>k\<close>, counted from zero, when all
  earlier ones were run with the waits between them.\<close>

fun before_attempt :: "'w env \<Rightarrow> RetryConfig \<Rightarrow> 'w call \<Rightarrow> nat \<Rightarrow> 'w \<Rightarrow> 'w" where
  "before_attempt E cfg fn 0 w = w"
| "before_attempt E cfg fn (Suc k) w =
    snd (waitBackoff E cfg (int k + 1) (snd (fn (before_attempt E cfg fn k w))))"

definition outcome :: "'w env \<Rightarrow> RetryConfig \<Rightarrow> 'w call \<Rightarrow> nat \<Rightarrow> 'w call" where
  "outcome E cfg fn k w = fn (before_attempt E cfg fn k w)"

definition uncancelled :: "'w env \<Rightarrow> bool" where
  "uncancelled E \<longleftrightarrow> (\<forall>w. ctx_err E w = None) \<and> (\<forall>d w. fst (sleep E d w) = None)"

text \<open>What the loop must return when attempt \<open>m\<close> is its last one.\<close>

definition stops_with :: "RetryConfig \<Rightarrow> nat \<Rightarrow> goerr option \<times> 'w \<Rightarrow> goerr option \<times> 'w \<Rightarrow> bool" where
  "stops_with cfg m out r \<longleftrightarrow>
    (case out of
       (None, w) \<Rightarrow> r = (None, w)
     | (Some e, w) \<Rightarrow>
         \<not> IsRetryable (Some e) \<and> r = (Some (WrapError (RetryAborted (int m + 1)) e), w)
         \<or> IsRetryable (Some e) \<and> int m + 1 = rc_MaxAttempts cfg
           \<and> r = (Some (WrapError (RetryFailed (rc_MaxAttempts cfg)) e), w))"

lemma waitBackoff_uncancelled: "uncancelled E \<Longrightarrow> fst (waitBackoff E cfg a w) = None"
  by (auto simp: uncancelled_def waitBackoff_def Let_def split: prod.splits option.splits)
    (metis fst_conv option.distinct(1))

lemma retry_loop_outcome:
  assumes "uncancelled E" and "int k < rc_MaxAttempts cfg"
  shows "\<exists>m\<ge>k. int m < rc_MaxAttempts cfg
      \<and> (\<forall>j. k \<le> j \<and> j < m \<longrightarrow> IsRetryable (fst (outcome E cfg fn j w)))
      \<and> stops_with cfg m (outcome E cfg fn m w)
          (retry_loop E cfg fn (int k + 1) le (before_attempt E cfg fn k w))"
  using assms(2)
proof (induction "nat (rc_MaxAttempts cfg) - k" arbitrary: k le rule: less_induct)
  case less
  let ?b = "before_attempt E cfg fn k w"
  have ctx: "ctx_err E ?b = None" using assms(1) by (simp add: uncancelled_def)
  obtain err w1 where f: "fn ?b = (err, w1)" by fastforce
  show ?case
  proof (cases "IsRetryable err \<and> int k + 1 \<noteq> rc_MaxAttempts cfg")
    case False
    then have "stops_with cfg k (outcome E cfg fn k w) (retry_loop E cfg fn (int k + 1) le ?b)"
      using f ctx less.prems
      by (subst retry_loop.simps) (auto simp: stops_with_def outcome_def split: option.split)
    then show ?thesis using less.prems by (intro exI [of _ k]) auto
  next
    case True
    then obtain e where e: "err = Some e" by (cases err) auto
    obtain w2 where w2: "waitBackoff E cfg (int k + 1) w1 = (None, w2)"
      using waitBackoff_uncancelled [OF assms(1), of cfg "int k + 1" w1] by (metis prod.collapse)
    have b: "before_attempt E cfg fn (Suc k) w = w2" using f w2 by simp
    have step: "retry_loop E cfg fn (int k + 1) le ?b = retry_loop E cfg fn (int (Suc k) + 1) (Some e) w2"
      using f ctx True e w2 less.prems by (subst retry_loop.simps) (simp add: add.commute)
    from True less.prems have lt: "int (Suc k) < rc_MaxAttempts cfg" by simp
    then have dec: "nat (rc_MaxAttempts cfg) - Suc k < nat (rc_MaxAttempts cfg) - k" by linarith
    have now: "IsRetryable (fst (outcome E cfg fn k w))" using f True by (simp add: outcome_def)
    from less.hyps [OF dec lt, of "Some e"] obtain m where m: "Suc k \<le> m" "int m < rc_MaxAttempts cfg"
      "\<forall>j. Suc k \<le> j \<and> j < m \<longrightarrow> IsRetryable (fst (outcome E cfg fn j w))"
      "stops_with cfg m (outcome E cfg fn m w) (retry_loop E cfg fn (int (Suc k) + 1) (Some e) w2)"
      unfolding b by blast
    have "\<forall>j. k \<le> j \<and> j < m \<longrightarrow> IsRetryable (fst (outcome E cfg fn j w))"
      using m(3) now by (metis Suc_leI le_neq_implies_less)
    with m step show ?thesis by (intro exI [of _ m]) auto
  qed
qed

text \<open>The undithered delay.\<close>

lemma calculateBackoff_plain:
  assumes "cfg' = normalizeRetryConfig cfg"
  shows "calculateBackoff rnd (cfg'\<lparr>rc_Jitter := False\<rparr>) (int k + 1) =
    \<lfloor>min (of_int (rc_InitialBackoff cfg') * rc_BackoffMultiplier cfg' ^ k) (of_int (rc_MaxBackoff cfg')) :: real\<rfloor>"
proof -
  have "0 \<le> of_int (rc_InitialBackoff cfg') * rc_BackoffMultiplier cfg' ^ k"
    using normalize_range [of cfg] assms by simp
  moreover have "0 < rc_MaxBackoff cfg'" using normalize_range [of cfg] assms by simp
  ultimately show ?thesis by (simp add: calculateBackoff_def Let_def trunc_def min_def)
qed

lemma calculateBackoff_jitter:
  "rc_Jitter cfg \<Longrightarrow>
   calculateBackoff rnd cfg a = addJitter rnd (calculateBackoff rnd (cfg\<lparr>rc_Jitter := False\<rparr>) a)"
  by (simp add: calculateBackoff_def Let_def)

lemma addJitter_bounds:
  assumes "0 \<le> base" and "\<And>n. rnd = Some n \<Longrightarrow> n \<le> 10000"
  shows "\<lfloor>3 / 4 * of_int base :: real\<rfloor> \<le> addJitter rnd base"
    and "of_int (addJitter rnd base) \<le> (5 / 4 * of_int base :: real)"
proof -
  have "\<lfloor>3 / 4 * of_int base :: real\<rfloor> \<le> addJitter rnd base
      \<and> of_int (addJitter rnd base) \<le> (5 / 4 * of_int base :: real)"
  proof (cases "base = 0 \<or> rnd = None")
    case True
    moreover have "\<lfloor>3 / 4 * of_int base :: real\<rfloor> \<le> base" using assms(1) by linarith
    ultimately show ?thesis using assms(1) by (auto simp: addJitter_def)
  next
    case False
    then obtain n where n: "rnd = Some n" "real n \<le> 10000" using assms(2) by fastforce
    define f :: real where "f = 3 / 4 + 1 / 2 * (real n / 10000)"
    have f: "3 / 4 \<le> f" "f \<le> 5 / 4" using n by (simp_all add: f_def)
    have p: "0 < real_of_int base" using False assms(1) by simp
    have lo: "3 / 4 * real_of_int base \<le> of_int base * f" using f p by (simp add: mult.commute)
    have hi: "of_int base * f \<le> 5 / 4 * real_of_int base" using f p by (simp add: mult.commute)
    have "\<not> of_int base * f < 0" using lo p by linarith
    moreover have "addJitter rnd base = trunc (of_int base * f)"
      using n p by (simp add: addJitter_def f_def)
    ultimately have "addJitter rnd base = \<lfloor>of_int base * f\<rfloor>" by (simp add: trunc_def)
    then show ?thesis using lo hi of_int_floor_le [of "of_int base * f"] floor_mono [OF lo] by linarith
  qed
  then show "\<lfloor>3 / 4 * of_int base :: real\<rfloor> \<le> addJitter rnd base"
    and "of_int (addJitter rnd base) \<le> (5 / 4 * of_int base :: real)" by auto
qed

section \<open>Properties\<close>

text \<open>C7.  The retry loop against its specification.  When the context is never cancelled, the loop runs
  some number of attempts between one and the normalised maximum; every attempt before the last one
  fails with a transient error; and the result is that of the last attempt: success as it is, a
  permanent error wrapped as aborted after that attempt, a transient error only when the attempts are
  used up.  So a success on any attempt within the limit is a success of the whole call.\<close>

theorem Retry_outcome:
  assumes "uncancelled E" and "cfg' = normalizeRetryConfig cfg"
  shows "\<exists>m. int m < rc_MaxAttempts cfg'
      \<and> (\<forall>j<m. IsRetryable (fst (outcome E cfg' fn j w)))
      \<and> stops_with cfg' m (outcome E cfg' fn m w) (Retry E cfg fn w)"
  using retry_loop_outcome [OF assms(1), of 0 cfg' fn w None] normalize_range(1) [of cfg] assms(2)
  by (auto simp: Retry_def)

text \<open>A scripted environment: the world is a clock and the outcomes still to come.\<close>

definition script_env :: "(time \<times> goerr option list) env" where
  "script_env = \<lparr> clock = fst, ctx_err = (\<lambda>w. None), sleep = (\<lambda>d (t, s). (None, t + d, s)),
                  rand_int = (\<lambda>w. None) \<rparr>"

definition script_call :: "(time \<times> goerr option list) call" where
  "script_call = (\<lambda>(t, s). case s of [] \<Rightarrow> (None, t, []) | e # s' \<Rightarrow> (e, t, s'))"

definition script_cfg :: RetryConfig where
  "script_cfg = \<lparr> rc_MaxAttempts = 3, rc_InitialBackoff = 100, rc_MaxBackoff = 150,
                  rc_BackoffMultiplier = 2, rc_Jitter = False \<rparr>"

theorem Retry_outcome_witness:
  "uncancelled script_env
   \<and> Retry script_env script_cfg script_call (0, [Some (StatusError 503), Some (StatusError 503), None])
     = (None, 250, [])
   \<and> (\<exists>m<3. stops_with (normalizeRetryConfig script_cfg) m
        (outcome script_env (normalizeRetryConfig script_cfg) script_call m
           (0, [Some (StatusError 503), Some (StatusError 503), None])) (None, 250, []))"
proof -
  let ?w = "(0, [Some (StatusError 503), Some (StatusError 503), None])"
  have u: "uncancelled script_env" by (auto simp: uncancelled_def script_env_def)
  have retryable: "IsRetryable (Some (StatusError 503))"
    by (simp add: IsRetryable_def errors_Is_def net_timeout_def isRetryableStatus_def)
  have r: "Retry script_env script_cfg script_call ?w = (None, 250, [])"
    by (simp add: Retry_def retry_loop.simps normalizeRetryConfig_def script_env_def script_call_def
        script_cfg_def retryable waitBackoff_def calculateBackoff_def trunc_def)
  have max: "rc_MaxAttempts (normalizeRetryConfig script_cfg) = 3"
    by (simp add: normalizeRetryConfig_def script_cfg_def)
  from Retry_outcome [OF u refl, of script_cfg script_call ?w] u r max show ?thesis by auto
qed

text \<open>Backoff bounds.  With the normalised configuration the delay before a retry, without
  jitter, is at least one nanosecond, never exceeds the configured maximum and never decreases from
  one attempt to the next; with jitter it lies between three quarters and five quarters of that
  delay.\<close>

theorem calculateBackoff_bounds:
  assumes "cfg' = normalizeRetryConfig cfg" and "\<And>n. rnd = Some n \<Longrightarrow> n \<le> 10000"
    and "plain = (\<lambda>k. calculateBackoff rnd (cfg'\<lparr>rc_Jitter := False\<rparr>) (int k + 1))"
  shows "1 \<le> plain k \<and> plain k \<le> rc_MaxBackoff cfg' \<and> plain k \<le> plain (Suc k)
       \<and> (rc_Jitter cfg \<longrightarrow>
            \<lfloor>3 / 4 * of_int (plain k) :: real\<rfloor> \<le> calculateBackoff rnd cfg' (int k + 1)
            \<and> of_int (calculateBackoff rnd cfg' (int k + 1)) \<le> (5 / 4 * of_int (plain k) :: real))"
proof -
  let ?d = "\<lambda>k. of_int (rc_InitialBackoff cfg') * rc_BackoffMultiplier cfg' ^ k :: real"
  note r = normalize_range [of cfg, folded assms(1)]
  have plain: "plain k = \<lfloor>min (?d k) (of_int (rc_MaxBackoff cfg'))\<rfloor>" for k
    unfolding assms(3) by (rule calculateBackoff_plain [OF assms(1)])
  have "1 \<le> rc_BackoffMultiplier cfg' ^ k" using r by simp
  then have "1 \<le> ?d k" using r by (metis mult_mono' mult_1 of_int_1_le_iff int_one_le_iff_zero_less zero_le_one)
  then have lo: "1 \<le> plain k" using r(3) unfolding plain by (simp add: le_floor_iff min_def)
  have hi: "plain k \<le> rc_MaxBackoff cfg'" unfolding plain by (metis floor_mono floor_of_int min.cobounded2)
  have "?d k \<le> ?d (Suc k)" using r by (simp add: mult_left_mono)
  then have mono: "plain k \<le> plain (Suc k)"
    unfolding plain by (intro floor_mono) (simp add: min_def)
  have jit: "calculateBackoff rnd cfg' (int k + 1) = addJitter rnd (plain k)" if "rc_Jitter cfg"
    using calculateBackoff_jitter [of cfg' rnd "int k + 1"] that assms(1,3) by simp
  show ?thesis
    using lo hi mono jit addJitter_bounds [of "plain k" rnd] assms(2) by auto
qed

theorem calculateBackoff_bounds_witness:
  "calculateBackoff (Some 10000) (normalizeRetryConfig (script_cfg\<lparr>rc_Jitter := True\<rparr>)) 2 = 187
   \<and> of_int (calculateBackoff (Some 10000) (normalizeRetryConfig (script_cfg\<lparr>rc_Jitter := True\<rparr>)) (int 1 + 1))
       \<le> (5 / 4 * of_int 150 :: real)"
proof -
  let ?c = "script_cfg\<lparr>rc_Jitter := True\<rparr>"
  have "calculateBackoff (Some 10000) ((normalizeRetryConfig ?c)\<lparr>rc_Jitter := False\<rparr>) (int 1 + 1) = 150"
    by (simp add: calculateBackoff_def normalizeRetryConfig_def script_cfg_def trunc_def)
  with calculateBackoff_bounds [of "normalizeRetryConfig ?c" ?c "Some 10000", OF refl _ refl, of 1]
  show ?thesis
    by (simp add: calculateBackoff_def normalizeRetryConfig_def script_cfg_def trunc_def addJitter_def)
qed

text \<open>A resilient call fails fast: when the backend's breaker is open and its timeout has not
  elapsed, the call returns the open-circuit error after a single attempt, does not wait, does not
  reach the backend and leaves the breaker as it was, whatever the retry configuration.\<close>

theorem CallTool_fails_fast:
  assumes "cb_state cb = StateOpen" and "cb_lastFailure cb = Some t" and "clock E w - t < cb_timeout cb"
    and "ctx_err E w = None"
  shows "CallTool E (Some backend) cfg name (Some cb) w =
    (Inl (WrapError (ResilientCallTool name) (WrapError (RetryAborted 1) ErrCircuitOpen)), Some cb, w)"
proof -
  have "Execute (backend_env E) (backend_call backend) cb (None, w) = (Some ErrCircuitOpen, cb, None, w)"
    using assms by (intro Execute_rejects [where t = t]) (simp_all add: backend_env_def)
  then have a: "attempt_call E backend (cb, None, w) = (Some ErrCircuitOpen, cb, None, w)"
    by (simp add: attempt_call_def)
  have "1 \<le> rc_MaxAttempts (normalizeRetryConfig cfg)" by (rule normalize_range)
  then show ?thesis
    using assms(4) a by (simp add: CallTool_def Retry_def retry_loop.simps [of _ _ _ 1] client_env_def)
qed

theorem CallTool_fails_fast_witness:
  "CallTool script_env (Some (\<lambda>w. (Inr ''done'', w))) script_cfg ''list_pods''
     (Some (finish_closed (Some (StatusError 503)) 7 (NewCircuitBreaker ''k8s'' 1 10))) (16, []) =
   (Inl (WrapError (ResilientCallTool ''list_pods'') (WrapError (RetryAborted 1) ErrCircuitOpen)),
    Some (finish_closed (Some (StatusError 503)) 7 (NewCircuitBreaker ''k8s'' 1 10)), 16, [])"
  by (rule CallTool_fails_fast [where t = 7])
    (simp_all add: finish_closed_def NewCircuitBreaker_def script_env_def)

section \<open>Recovery\<close>

text \<open>An open breaker has waited when its timeout has passed since the last failure.\<close>

definition waited :: "CircuitBreaker \<Rightarrow> time \<Rightarrow> bool" where
  "waited cb now = (cb_state cb \<noteq> StateOpen \<or> cb_timeout cb \<le> since (cb_lastFailure cb) now)"

lemma Execute_answers:
  assumes "breaker_ok cb" and "waited cb (clock E w)" and "ctx_err E w = None" and "fn w = (None, w')"
  shows "\<exists>cb'. Execute E fn cb w = (None, cb', w') \<and> cb_state cb' = StateClosed \<and> breaker_ok cb'"
proof (cases "cb_state cb")
  case StateClosed
  with assms show ?thesis
    by (auto simp: Execute_def admit_def executeClosed_def finish_closed_def breaker_ok_def)
next
  case StateOpen
  with assms show ?thesis
    by (auto simp: Execute_def admit_def waited_def finish_probe_def breaker_ok_def)
next
  case StateHalfOpen
  with assms show ?thesis
    by (auto simp: Execute_def admit_def finish_probe_def breaker_ok_def)
next
  case (StateOther s)
  with assms show ?thesis by (simp add: breaker_ok_def)
qed

lemma CallTool_answers:
  assumes "breaker_ok cb" and "waited cb (clock E w)" and "ctx_err E w = None" and "backend w = (Inr r, w')"
  shows "\<exists>cb'. CallTool E (Some backend) cfg name (Some cb) w = (Inr (Some r), Some cb', w')
    \<and> cb_state cb' = StateClosed \<and> breaker_ok cb'"
proof -
  obtain cb' where "Execute (backend_env E) (backend_call backend) cb (None, w) = (None, cb', Some r, w')"
    "cb_state cb' = StateClosed" "breaker_ok cb'"
    using Execute_answers [of cb "backend_env E" "(None, w)" "backend_call backend" "(Some r, w')"] assms
    by (auto simp: backend_env_def backend_call_def)
  moreover have "\<not> rc_MaxAttempts (normalizeRetryConfig cfg) < 1" using normalize_range(1) [of cfg] by simp
  ultimately show ?thesis
    using assms(3) by (simp add: CallTool_def Retry_def retry_loop.simps [of _ _ _ 1] attempt_call_def client_env_def)
qed

lemma attempt_call_ok: "breaker_ok cb \<Longrightarrow> attempt_call E backend (cb, out, w) = (err, cb', out', w') \<Longrightarrow> breaker_ok cb'"
  by (auto simp: attempt_call_def split: prod.splits intro: Execute_ok)

lemma waitBackoff_breaker: "fst (snd (waitBackoff (client_env E) cfg a (cb, out, w))) = cb"
  by (auto simp: waitBackoff_def client_env_def Let_def split: prod.split option.split)

lemma retry_loop_breaker_ok:
  fixes E :: "'w env" and backend :: "'w \<Rightarrow> (goerr + 'r) \<times> 'w"
  shows "breaker_ok (fst v) \<Longrightarrow> breaker_ok (fst (snd (retry_loop (client_env E) cfg (attempt_call E backend) a le v)))"
proof (induction "client_env E :: ('r, 'w) client_world env" cfg "attempt_call E backend" a le v rule: retry_loop.induct)
  case (1 cfg a le v)
  obtain cb out w where v: "v = (cb, out, w)" by (cases v)
  obtain err cb1 out1 w1 where f: "attempt_call E backend v = (err, cb1, out1, w1)" using prod_cases4 by blast
  have ok1: "breaker_ok cb1" using "1.prems" attempt_call_ok f by (simp add: v)
  obtain we cb2 out2 w2 where b: "waitBackoff (client_env E) cfg a (cb1, out1, w1) = (we, cb2, out2, w2)" using prod_cases4 by blast
  then have ok2: "breaker_ok cb2" using waitBackoff_breaker [of E cfg a cb1 out1 w1] ok1 by simp
  have ih: "breaker_ok (fst (snd (retry_loop (client_env E) cfg (attempt_call E backend) (a + 1) (Some e) (cb2, out2, w2))))"
    if "\<not> rc_MaxAttempts cfg < a" "ctx_err (client_env E :: ('r, 'w) client_world env) v = None" "err = Some e" "IsRetryable (Some e)"
      "a \<noteq> rc_MaxAttempts cfg" "we = None" for e
    using "1.hyps" [OF that(1,2) f [symmetric] that(3) _ that(5) b [symmetric] that(6)] that(4) ok2 by simp
  show ?case
  proof (cases "rc_MaxAttempts cfg < a \<or> ctx_err (client_env E :: ('r, 'w) client_world env) v \<noteq> None")
    case True
    with "1.prems" show ?thesis by (auto simp: retry_loop.simps [of _ _ _ a] split: option.split)
  next
    case False
    with ok1 ok2 ih show ?thesis by (simp add: retry_loop.simps [of _ _ _ a] f b split: option.split)
  qed
qed

text \<open>The breaker after earlier calls: each with its environment, backend, configuration, tool and world.\<close>

type_synonym ('r, 'w) client_call = "'w env \<times> ('w \<Rightarrow> (goerr + 'r) \<times> 'w) \<times> RetryConfig \<times> string \<times> 'w"

fun after_calls :: "('r, 'w) client_call list \<Rightarrow> CircuitBreaker option \<Rightarrow> CircuitBreaker option" where
  "after_calls [] breaker = breaker"
| "after_calls ((E, backend, cfg, name, w) # rest) breaker =
    after_calls rest (fst (snd (CallTool E (Some backend) cfg name breaker w)))"

lemma after_calls_ok:
  assumes "breaker_ok cb"
  shows "\<exists>cb'. after_calls hist (Some cb) = Some cb' \<and> breaker_ok cb'"
  using assms
proof (induction hist arbitrary: cb)
  case (Cons c hist)
  obtain E backend cfg name w where c: "c = (E, backend, cfg, name, w)" using prod_cases5 by blast
  have "\<exists>cb1. fst (snd (CallTool E (Some backend) cfg name (Some cb) w)) = Some cb1 \<and> breaker_ok cb1"
    using retry_loop_breaker_ok [of "(cb, None, w)" E "normalizeRetryConfig cfg" backend 1 None] Cons.prems
    by (auto simp: CallTool_def Retry_def split: prod.split option.split)
  then show ?case using Cons.IH by (auto simp: c)
qed simp

text \<open>A number of calls in a row, with the results in order.\<close>

fun call_times ::
  "'w env \<Rightarrow> ('w \<Rightarrow> (goerr + 'r) \<times> 'w) \<Rightarrow> RetryConfig \<Rightarrow> string \<Rightarrow> nat \<Rightarrow> CircuitBreaker option \<Rightarrow> 'w
   \<Rightarrow> (goerr + 'r option) list \<times> CircuitBreaker option \<times> 'w" where
  "call_times E backend cfg name 0 breaker w = ([], breaker, w)"
| "call_times E backend cfg name (Suc n) breaker w =
    (case CallTool E (Some backend) cfg name breaker w of
       (r, breaker1, w1) \<Rightarrow> (case call_times E backend cfg name n breaker1 w1 of (rs, out) \<Rightarrow> (r # rs, out)))"

fun answers :: "('w \<Rightarrow> (goerr + 'r) \<times> 'w) \<Rightarrow> nat \<Rightarrow> 'w \<Rightarrow> (goerr + 'r option) list" where
  "answers backend 0 w = []"
| "answers backend (Suc n) w = (case backend w of (r, w1) \<Rightarrow> map_sum id Some r # answers backend n w1)"

lemma call_times_answers:
  assumes "\<forall>w. ctx_err E w = None" and "\<forall>w. \<exists>r w'. backend w = (Inr r, w')" and "breaker_ok cb" and "waited cb (clock E w)"
  shows "fst (call_times E backend cfg name n (Some cb) w) = answers backend n w
    \<and> (\<exists>cb'. fst (snd (call_times E backend cfg name n (Some cb) w)) = Some cb' \<and> (0 < n \<longrightarrow> cb_state cb' = StateClosed))"
  using assms(3,4)
proof (induction n arbitrary: cb w)
  case (Suc n)
  obtain r w1 where b: "backend w = (Inr r, w1)" using assms(2) by blast
  obtain cb1 where c: "CallTool E (Some backend) cfg name (Some cb) w = (Inr (Some r), Some cb1, w1)"
    "cb_state cb1 = StateClosed" "breaker_ok cb1"
    using CallTool_answers [OF Suc.prems, of backend r w1 cfg name] assms(1) b by auto
  have "waited cb1 (clock E w1)" using c(2) by (simp add: waited_def)
  with Suc.IH [OF c(3), of w1] c b show ?case by (cases n) (auto split: prod.splits)
qed simp

text \<open>C29. \<^bold>\<open>A client recovers with its backend.\<close>  Take a new breaker, any threshold and timeout, and any history of calls
  with any backends, failures included.  If the breaker that results is not open or its timeout has passed,
  and the backend answers from now on, then any number of further calls returns exactly the answers of the backend, in
  order and each with a single call of it, and leaves the breaker closed.\<close>

theorem client_recovers:
  assumes "after_calls hist (Some (NewCircuitBreaker service threshold timeout)) = Some cb" and "waited cb (clock E w)"
    and "\<forall>w. ctx_err E w = None" and "\<forall>w. \<exists>r w'. backend w = (Inr r, w')"
  shows "fst (call_times E backend cfg name n (Some cb) w) = answers backend n w
    \<and> (\<exists>cb'. fst (snd (call_times E backend cfg name n (Some cb) w)) = Some cb' \<and> (0 < n \<longrightarrow> cb_state cb' = StateClosed))"
proof -
  have "breaker_ok cb" using after_calls_ok [of "NewCircuitBreaker service threshold timeout" hist] assms(1) by auto
  then show ?thesis using assms(2) by (rule call_times_answers [OF assms(3,4)])
qed

text \<open>A breaker that one failure opened at time 7, and two calls at time 17.\<close>

theorem client_recovers_witness:
  "fst (call_times script_env (\<lambda>w. (Inr ''done'', w)) script_cfg ''list_pods'' 2
      (after_calls [(script_env, \<lambda>w. (Inl (StatusError 400) :: goerr + string, w), script_cfg, ''list_pods'', (7, []))] (Some (NewCircuitBreaker ''k8s'' 1 10)))
      (17, []))
    = [Inr (Some ''done''), Inr (Some ''done'')]"
proof -
  define cb where "cb = finish_closed (Some (StatusError 400)) 7 (NewCircuitBreaker ''k8s'' 1 10)"
  have h: "after_calls [(script_env, \<lambda>w. (Inl (StatusError 400) :: goerr + string, w), script_cfg, ''list_pods'', (7, []))]
      (Some (NewCircuitBreaker ''k8s'' 1 10)) = Some cb"
    by (simp add: CallTool_def Retry_def retry_loop.simps [of _ _ _ 1] attempt_call_def client_env_def backend_env_def backend_call_def Execute_def admit_def
        executeClosed_def script_env_def script_cfg_def normalizeRetryConfig_def IsRetryable_def isRetryableStatus_def errors_Is_def
        net_timeout_def NewCircuitBreaker_def cb_def)
  have "waited cb (clock script_env (17, []))"
    by (simp add: waited_def cb_def finish_closed_def NewCircuitBreaker_def since_def script_env_def)
  moreover have script_ctx: "ctx_err script_env w = None" for w by (simp add: script_env_def)
  moreover have "answers (\<lambda>w. (Inr ''done'', w)) 2 (17 :: time, [] :: goerr option list) = [Inr (Some ''done''), Inr (Some ''done'')]"
    by (simp add: numeral_2_eq_2)
  ultimately show ?thesis
    using client_recovers [OF h, of script_env "(17, [])" "\<lambda>w. (Inr ''done'', w)" script_cfg "''list_pods''" 2]
    unfolding h by (simp add: script_ctx)
qed

end
