(* ===== verification/Identity_Auth.thy ===== *)
theory Identity_Auth
  imports Gateway_Types
begin

text \<open>
  \<open>internal/identity\<close> and \<open>internal/auth\<close>: caller identities, SPIFFE identifiers, the mTLS, API key and
  OIDC middleware with the dispatcher that chooses between them, role scopes and server scopes.

  A request is its headers and what the router extracted from it; a middleware maps a request and a
  context to a denial or to the context the next handler runs in.  SHA-256, bcrypt, the OIDC token
  validator, the API key table and \<open>url.Parse\<close> are arguments.
\<close>

section \<open>Identity and context\<close>

datatype IdentityType = IdentityMTLS | IdentityAPIKey | IdentityOIDC

record Identity =
  id_Type :: IdentityType
  id_ID :: string
  id_Scopes :: "string list"
  id_Metadata :: "(string, string) gomap"

text \<open>The values the gateway keeps in a request context.\<close>

record Ctx =
  cx_identity :: "Identity option"
  cx_serverScope :: "string list"

definition HasScope :: "Identity option \<Rightarrow> string \<Rightarrow> bool" where
  "HasScope i scope = (case i of None \<Rightarrow> False | Some d \<Rightarrow> scope \<in> set (id_Scopes d))"

definition FromContext :: "Ctx \<Rightarrow> Identity option" where
  "FromContext ctx = cx_identity ctx"

definition WithIdentity :: "Identity \<Rightarrow> Ctx \<Rightarrow> Ctx" where
  "WithIdentity d ctx = ctx\<lparr>cx_identity := Some d\<rparr>"

text \<open>Reading a missing key of a map gives the zero value.\<close>

definition metadata :: "Identity \<Rightarrow> string \<Rightarrow> string" where
  "metadata d k = (case map_of (id_Metadata d) k of None \<Rightarrow> '''' | Some v \<Rightarrow> v)"

datatype handled = Deny int string | Proceed Ctx

section \<open>SPIFFE identifiers\<close>

record URL =
  url_Scheme :: string
  url_Host :: string
  url_EscapedPath :: string

text \<open>\<open>path.Clean\<close>: the elements of the path are pushed on a stack, \<open>..\<close> pops.\<close>

definition clean_step :: "bool \<Rightarrow> string list \<Rightarrow> string \<Rightarrow> string list" where
  "clean_step rooted st e =
    (if e = '''' \<or> e = ''.'' then st
     else if e = ''..'' then
       (if st \<noteq> [] \<and> hd st \<noteq> ''..'' then tl st else if rooted then st else e # st)
     else e # st)"

fun join_slash :: "string list \<Rightarrow> string" where
  "join_slash [] = ''''"
| "join_slash [x] = x"
| "join_slash (x # y # ys) = x @ ''/'' @ join_slash (y # ys)"

definition path_Clean :: "string \<Rightarrow> string" where
  "path_Clean p =
    (if p = '''' then ''.''
     else let rooted = (hd p = CHR ''/'');
              body = join_slash (rev (foldl (clean_step rooted) [] (split_char (CHR ''/'') p)))
          in if rooted then ''/'' @ body else if body = '''' then ''.'' else body)"

definition ParseSPIFFEID :: "(string \<Rightarrow> URL option) \<Rightarrow> string \<Rightarrow> (string \<times> string) option" where
  "ParseSPIFFEID url_Parse raw =
    (if TrimSpace raw = '''' then None
     else case url_Parse raw of
       None \<Rightarrow> None
     | Some parsed \<Rightarrow>
         if \<not> EqualFold (url_Scheme parsed) ''spiffe'' then None
         else if TrimSpace (url_Host parsed) = '''' then None
         else let workloadPath = TrimSpace (url_EscapedPath parsed)
              in if workloadPath = '''' \<or> workloadPath = ''/'' then None
                 else let cleanPath = path_Clean workloadPath
                      in if cleanPath = ''.'' \<or> cleanPath = ''/'' \<or> Contains cleanPath ''..'' then None
                         else let cleanPath = TrimPrefix cleanPath ''/''
                              in if cleanPath = '''' then None else Some (url_Host parsed, cleanPath))"

definition ValidateSPIFFEID :: "(string \<Rightarrow> URL option) \<Rightarrow> string \<Rightarrow> string list \<Rightarrow> bool" where
  "ValidateSPIFFEID url_Parse i allowedPrefixes =
    (ParseSPIFFEID url_Parse i \<noteq> None
     \<and> (allowedPrefixes = []
        \<or> list_ex (\<lambda>p. let trimmed = TrimSpace p in trimmed \<noteq> '''' \<and> HasPrefix i trimmed) allowedPrefixes))"

text \<open>\<open>ExtractSPIFFEID\<close>: a certificate is its list of URI subject alternative names, each with its
  scheme and its string form.\<close>

fun first_spiffe :: "(string \<times> string) list \<Rightarrow> string option" where
  "first_spiffe [] = None"
| "first_spiffe ((scheme, s) # uris) = (if EqualFold scheme ''spiffe'' then Some s else first_spiffe uris)"

definition ExtractSPIFFEID :: "(string \<Rightarrow> URL option) \<Rightarrow> (string \<times> string) list list \<Rightarrow> string option" where
  "ExtractSPIFFEID url_Parse certs =
    (case certs of
       [] \<Rightarrow> None
     | leaf # _ \<Rightarrow>
         (case first_spiffe leaf of
            None \<Rightarrow> None
          | Some s \<Rightarrow> if ParseSPIFFEID url_Parse s = None then None else Some s))"

text \<open>\<open>MTLSMiddleware\<close>: \<open>verified\<close> are the verified certificate chains, \<open>None\<close> without TLS.\<close>

definition MTLSMiddleware ::
  "(string \<Rightarrow> URL option) \<Rightarrow> string list \<Rightarrow> (string \<times> string) list list list option \<Rightarrow> Ctx \<Rightarrow> handled" where
  "MTLSMiddleware url_Parse allowedPrefixes verified ctx =
    (case verified of
       Some (chain # _) \<Rightarrow>
         if chain = [] then Deny 401 ''missing or invalid mTLS client certificate''
         else (case ExtractSPIFFEID url_Parse chain of
                 None \<Rightarrow> Deny 401 ''invalid mTLS client certificate identity''
               | Some spiffeID \<Rightarrow>
                   if \<not> ValidateSPIFFEID url_Parse spiffeID allowedPrefixes
                   then Deny 403 ''spiffe identity is not allowed''
                   else Proceed (WithIdentity
                          \<lparr>id_Type = IdentityMTLS, id_ID = spiffeID, id_Scopes = [''admin''],
                           id_Metadata = [(''auth_method'', ''mtls'')]\<rparr> ctx))
     | _ \<Rightarrow> Deny 401 ''missing or invalid mTLS client certificate'')"

section \<open>API keys\<close>

text \<open>The environment of authentication: the API key table (\<open>None\<close>: no store is configured; a lookup
  may fail), the digest functions, the OIDC validator if configured, and the clock.\<close>

record auth_env =
  au_apiKeyStore :: "(string \<Rightarrow> unit + APIKey option) option"
  au_sha256 :: "string \<Rightarrow> string"
  au_bcryptOK :: "string \<Rightarrow> string \<Rightarrow> bool"
  au_oidc :: "(string \<Rightarrow> Identity option) option"
  au_now :: time

record Request =
  rq_Authorization :: string
  rq_XAPIKey :: string

abbreviation APIKeyPrefix :: string where "APIKeyPrefix \<equiv> ''mcpgw_''"

definition extractBearerToken :: "string \<Rightarrow> string option" where
  "extractBearerToken header =
    (if \<not> HasPrefix header ''Bearer '' then None
     else let token = TrimSpace (TrimPrefix header ''Bearer '')
          in if token = '''' then None else Some token)"

definition extractAPIKey :: "string \<Rightarrow> string \<Rightarrow> string option" where
  "extractAPIKey authHeader xAPIKey =
    (let fromX = (let x = TrimSpace xAPIKey
                  in if x = '''' \<or> \<not> HasPrefix x APIKeyPrefix then None else Some x)
     in if HasPrefix authHeader ''Bearer ''
        then let token = TrimSpace (TrimPrefix authHeader ''Bearer '')
             in if token \<noteq> '''' \<and> HasPrefix token APIKeyPrefix then Some token else fromX
        else fromX)"

definition lookupRecord :: "auth_env \<Rightarrow> string \<Rightarrow> APIKey option" where
  "lookupRecord A key =
    (case au_apiKeyStore A of
       None \<Rightarrow> None
     | Some get \<Rightarrow> (case get (au_sha256 A key) of Inl _ \<Rightarrow> None | Inr r \<Rightarrow> r))"

definition verifyRecord :: "auth_env \<Rightarrow> string \<Rightarrow> APIKey \<Rightarrow> (int \<times> string) option" where
  "verifyRecord A key rec =
    (if ak_KeyLookupHash rec \<noteq> '''' \<and> ak_KeyLookupHash rec \<noteq> au_sha256 A key
     then Some (401, ''invalid api key'')
     else if \<not> au_bcryptOK A key (ak_KeyBcryptHash rec) then Some (401, ''invalid api key'')
     else case ak_ExpiresAt rec of
            Some t \<Rightarrow> if t < au_now A then Some (403, ''api key is expired'') else None
          | None \<Rightarrow> None)"

definition api_identity :: "APIKey \<Rightarrow> Identity" where
  "api_identity rec =
    \<lparr>id_Type = IdentityAPIKey, id_ID = ak_ClientID rec, id_Scopes = ak_Scopes rec,
     id_Metadata = [(''auth_method'', ''apikey''),
       (''policy_profile'', if ak_PolicyProfile rec = '''' then ''default'' else ak_PolicyProfile rec)]\<rparr>"

definition validate_key :: "auth_env \<Rightarrow> Request \<Rightarrow> (int \<times> string) + (Identity \<times> string list)" where
  "validate_key A r =
    (case extractAPIKey (rq_Authorization r) (rq_XAPIKey r) of
       None \<Rightarrow> Inl (401, ''missing or invalid api key'')
     | Some key \<Rightarrow>
         (case lookupRecord A key of
            None \<Rightarrow> Inl (401, ''invalid api key'')
          | Some rec \<Rightarrow>
              (case verifyRecord A key rec of
                 Some e \<Rightarrow> Inl e
               | None \<Rightarrow> Inr (api_identity rec, ak_ServerScope rec))))"

definition ContextWithServerScope :: "string list \<Rightarrow> Ctx \<Rightarrow> Ctx" where
  "ContextWithServerScope scope ctx = ctx\<lparr>cx_serverScope := scope\<rparr>"

definition APIKeyMiddleware :: "auth_env \<Rightarrow> Request \<Rightarrow> Ctx \<Rightarrow> handled" where
  "APIKeyMiddleware A r ctx =
    (case validate_key A r of
       Inl (status, msg) \<Rightarrow> Deny status msg
     | Inr (d, serverScope) \<Rightarrow>
         (let ctx1 = WithIdentity d ctx
          in Proceed (if serverScope \<noteq> [] then ContextWithServerScope serverScope ctx1 else ctx1)))"

definition OIDCMiddleware :: "auth_env \<Rightarrow> Request \<Rightarrow> Ctx \<Rightarrow> handled" where
  "OIDCMiddleware A r ctx =
    (case extractBearerToken (rq_Authorization r) of
       None \<Rightarrow> Deny 401 ''missing bearer token''
     | Some rawToken \<Rightarrow>
         (case au_oidc A of
            None \<Rightarrow> Deny 401 ''oidc validator is not configured''
          | Some validator \<Rightarrow>
              (case validator rawToken of
                 None \<Rightarrow> Deny 401 ''invalid oidc token''
               | Some d \<Rightarrow> Proceed (WithIdentity d ctx))))"

section \<open>The dispatcher\<close>

definition isJWTToken :: "string \<Rightarrow> bool" where
  "isJWTToken token =
    (count_list token (CHR ''.'') = 2
     \<and> (let parts = split_char (CHR ''.'') token
        in length parts = 3 \<and> list_all (\<lambda>part. TrimSpace part \<noteq> '''') parts))"

definition handleXAPIKeyFallback :: "auth_env \<Rightarrow> Request \<Rightarrow> Ctx \<Rightarrow> handled" where
  "handleXAPIKeyFallback A r ctx =
    (let xAPIKey = TrimSpace (rq_XAPIKey r)
     in if xAPIKey = '''' then Deny 401 ''missing authorization header''
        else if au_apiKeyStore A = None then Deny 401 ''api key store is not configured''
        else APIKeyMiddleware A (r\<lparr>rq_Authorization := ''Bearer '' @ xAPIKey\<rparr>) ctx)"

definition handleBearerToken :: "auth_env \<Rightarrow> Request \<Rightarrow> string \<Rightarrow> Ctx \<Rightarrow> handled" where
  "handleBearerToken A r token ctx =
    (if isJWTToken token then
       (if au_oidc A = None then Deny 401 ''oidc validator is not configured'' else OIDCMiddleware A r ctx)
     else if au_apiKeyStore A = None then Deny 401 ''api key store is not configured''
     else APIKeyMiddleware A r ctx)"

definition AuthMiddleware :: "auth_env \<Rightarrow> Request \<Rightarrow> Ctx \<Rightarrow> handled" where
  "AuthMiddleware A r ctx =
    (if FromContext ctx \<noteq> None then Proceed ctx
     else case extractBearerToken (rq_Authorization r) of
            None \<Rightarrow> handleXAPIKeyFallback A r ctx
          | Some token \<Rightarrow> handleBearerToken A r token ctx)"

section \<open>Scopes\<close>

definition RequireScope :: "string \<Rightarrow> Ctx \<Rightarrow> handled" where
  "RequireScope scope ctx =
    (if HasScope (FromContext ctx) scope then Proceed ctx else Deny 403 ''insufficient scope'')"

definition RequireAnyScope :: "string list \<Rightarrow> Ctx \<Rightarrow> handled" where
  "RequireAnyScope scopes ctx =
    (if scopes = [] then Proceed ctx
     else if list_ex (HasScope (FromContext ctx)) scopes then Proceed ctx
     else Deny 403 ''insufficient scope'')"

definition serverInScope :: "string \<Rightarrow> string list \<Rightarrow> bool" where
  "serverInScope serverName scope =
    (let name = TrimSpace serverName; stripped = TrimPrefix name ''mcp-''
     in name \<noteq> ''''
        \<and> list_ex (\<lambda>allowed. let a = TrimSpace allowed in EqualFold name a \<or> EqualFold stripped a) scope)"

definition CheckServerScope :: "Ctx \<Rightarrow> string \<Rightarrow> bool" where
  "CheckServerScope ctx serverName =
    (cx_serverScope ctx = [] \<or> serverInScope serverName (cx_serverScope ctx))"

text \<open>\<open>serverName\<close> is the URL parameter, empty on the unified endpoint.\<close>

definition ServerScopeMiddleware :: "string \<Rightarrow> Ctx \<Rightarrow> handled" where
  "ServerScopeMiddleware serverParam ctx =
    (let scope = cx_serverScope ctx; serverName = TrimSpace serverParam
     in if scope = [] then Proceed ctx
        else if serverName \<noteq> '''' \<and> \<not> serverInScope serverName scope then Deny 403 ''server_scope''
        else Proceed ctx)"

section \<open>Lemmas\<close>

lemma extractBearerToken_Some:
  "extractBearerToken h = Some token \<Longrightarrow> TrimSpace token = token \<and> token \<noteq> ''''"
  by (auto simp: extractBearerToken_def Let_def split: if_splits)

lemma extractAPIKey_prefix: "extractAPIKey h x = Some key \<Longrightarrow> HasPrefix key APIKeyPrefix"
  by (auto simp: extractAPIKey_def Let_def split: if_splits)

text \<open>When a stored key record authenticates a presented key.\<close>

definition key_accepted :: "auth_env \<Rightarrow> string \<Rightarrow> APIKey \<Rightarrow> bool" where
  "key_accepted A key rec \<longleftrightarrow>
     lookupRecord A key = Some rec \<and> au_bcryptOK A key (ak_KeyBcryptHash rec)
     \<and> (ak_KeyLookupHash rec = '''' \<or> ak_KeyLookupHash rec = au_sha256 A key)
     \<and> (\<forall>t. ak_ExpiresAt rec = Some t \<longrightarrow> au_now A \<le> t)"

lemma verifyRecord_accepts:
  "lookupRecord A key = Some rec \<Longrightarrow> verifyRecord A key rec = None \<longleftrightarrow> key_accepted A key rec"
  by (auto simp: verifyRecord_def key_accepted_def split: option.splits)

lemma validate_key_Inr:
  "validate_key A r = Inr (d, scope) \<longleftrightarrow>
     (\<exists>key rec. extractAPIKey (rq_Authorization r) (rq_XAPIKey r) = Some key
        \<and> key_accepted A key rec \<and> d = api_identity rec \<and> scope = ak_ServerScope rec)"
  by (auto simp: validate_key_def verifyRecord_accepts split: option.splits)
    (auto simp: key_accepted_def verifyRecord_def split: option.splits if_splits)

lemma APIKeyMiddleware_Proceed:
  assumes "APIKeyMiddleware A r ctx = Proceed ctx'"
  obtains key rec where "extractAPIKey (rq_Authorization r) (rq_XAPIKey r) = Some key"
    and "key_accepted A key rec" and "FromContext ctx' = Some (api_identity rec)"
    and "cx_serverScope ctx' = (if ak_ServerScope rec = [] then cx_serverScope ctx else ak_ServerScope rec)"
proof -
  obtain d scope where v: "validate_key A r = Inr (d, scope)"
    using assms by (auto simp: APIKeyMiddleware_def split: sum.splits prod.splits)
  with assms have c: "ctx' = (if scope \<noteq> [] then ContextWithServerScope scope (WithIdentity d ctx)
      else WithIdentity d ctx)"
    by (simp add: APIKeyMiddleware_def Let_def)
  from v obtain key rec where "extractAPIKey (rq_Authorization r) (rq_XAPIKey r) = Some key"
    "key_accepted A key rec" "d = api_identity rec" "scope = ak_ServerScope rec"
    unfolding validate_key_Inr by blast
  then show thesis
    by (intro that [of key rec]) (simp_all add: c FromContext_def WithIdentity_def ContextWithServerScope_def)
qed

lemma OIDCMiddleware_Proceed:
  "OIDCMiddleware A r ctx = Proceed ctx' \<Longrightarrow>
   \<exists>v token d. au_oidc A = Some v \<and> extractBearerToken (rq_Authorization r) = Some token \<and> v token = Some d
     \<and> ctx' = WithIdentity d ctx"
  by (auto simp: OIDCMiddleware_def split: option.splits)

section \<open>Properties\<close>


definition example_key :: APIKey where
  "example_key = \<lparr>ak_ID = ''1'', ak_KeyLookupHash = ''h:mcpgw_k'', ak_KeyBcryptHash = ''b:mcpgw_k'',
     ak_Name = ''ci'', ak_Scopes = [''read''], ak_ClientID = ''ci'', ak_PolicyProfile = '''',
     ak_ServerScope = [''k8s''], ak_ExpiresAt = Some 100, ak_CreatedAt = 0\<rparr>"

definition example_auth :: auth_env where
  "example_auth = \<lparr>au_apiKeyStore = Some (\<lambda>h. Inr (if h = ''h:mcpgw_k'' then Some example_key else None)),
     au_sha256 = (\<lambda>k. ''h:'' @ k), au_bcryptOK = (\<lambda>k h. h = ''b:'' @ k), au_oidc = None, au_now = 50\<rparr>"


text \<open>The \<open>..\<close> test of \<open>ParseSPIFFEID\<close> runs on the cleaned path, where a rooted path has no \<open>..\<close> element
  left, while the allow list is matched against the uncleaned identifier.\<close>

lemma ValidateSPIFFEID_traversal:
  assumes "url_Parse ''spiffe://td/ns/a/../b'' =
    Some \<lparr>url_Scheme = ''spiffe'', url_Host = ''td'', url_EscapedPath = ''/ns/a/../b''\<rparr>"
  shows "ValidateSPIFFEID url_Parse ''spiffe://td/ns/a/../b'' [''spiffe://td/ns/a/'']"
    and "ParseSPIFFEID url_Parse ''spiffe://td/ns/a/../b'' = Some (''td'', ''ns/b'')"
proof -
  have "TrimSpace ''spiffe://td/ns/a/../b'' = ''spiffe://td/ns/a/../b''" "TrimSpace ''td'' = ''td''"
    "TrimSpace ''/ns/a/../b'' = ''/ns/a/../b''"
    by (rule TrimSpace_word, simp add: trimmed_word_def visible_def)+
  moreover have "path_Clean ''/ns/a/../b'' = ''/ns/b''" by code_simp
  moreover have "\<not> Contains ''/ns/b'' ''..''" by code_simp
  ultimately show p: "ParseSPIFFEID url_Parse ''spiffe://td/ns/a/../b'' = Some (''td'', ''ns/b'')"
    using assms by (simp add: ParseSPIFFEID_def EqualFold_def TrimPrefix_def)
  have "TrimSpace ''spiffe://td/ns/a/'' = ''spiffe://td/ns/a/''"
    by (rule TrimSpace_word) (simp add: trimmed_word_def visible_def)
  with p show "ValidateSPIFFEID url_Parse ''spiffe://td/ns/a/../b'' [''spiffe://td/ns/a/'']"
    by (simp add: ValidateSPIFFEID_def HasPrefix_def)
qed

end
