(* ===== verification/Rate_Limit.thy ===== *)
theory Rate_Limit
  imports Retry Identity_Auth
begin

text \<open>
  \<open>internal/ratelimit\<close>: limiter keys, the in-memory store and backend, the NATS and Dragonfly backends
  with the sliding-window script, profile resolution and the HTTP middleware.

  The token bucket of \<open>golang.org/x/time/rate\<close>, the NATS key-value bucket and the Redis commands are
  arguments (records of operations); what the code relies on is stated where it is used.  A backend is
  a state and an \<open>Allow\<close> operation; \<open>limiter_backend\<close> is the contract of the interface
  \<open>LimiterBackend\<close>, under which the middleware is verified once.
\<close>

section \<open>Keys\<close>

record LimiterKey =
  lk_ClientID :: string
  lk_Route :: string

definition LimiterKey_String :: "LimiterKey \<Rightarrow> string" where
  "LimiterKey_String k = lk_ClientID k @ '':'' @ lk_Route k"

definition normalizeKey :: "LimiterKey \<Rightarrow> LimiterKey" where
  "normalizeKey key =
    (let clientID = TrimSpace (lk_ClientID key); route = TrimSpace (lk_Route key)
     in \<lparr> lk_ClientID = (if clientID = '''' then ''anonymous'' else clientID),
          lk_Route = (if route = '''' then ''unknown'' else route) \<rparr>)"

abbreviation defaultRateLimit :: real where "defaultRateLimit \<equiv> 10"
abbreviation defaultRateBurst :: int where "defaultRateBurst \<equiv> 20"

text \<open>The token bucket library: a bucket for a rate and a burst, taking a token, the tokens left, and
  the configured rate.\<close>

record 'l rate_lib =
  NewLimiter :: "real \<Rightarrow> int \<Rightarrow> 'l"
  take_token :: "time \<Rightarrow> 'l \<Rightarrow> bool \<times> 'l"
  Tokens :: "time \<Rightarrow> 'l \<Rightarrow> real"
  Limit :: "'l \<Rightarrow> real"

section \<open>The limiter store\<close>

record 'l entry =
  en_limiter :: 'l
  en_lastUsed :: time

record 'l LimiterStore =
  ls_limiters :: "(LimiterKey, 'l entry) gomap"
  ls_defaultRate :: real
  ls_defaultBurst :: int

definition NewLimiterStore :: "real \<Rightarrow> int \<Rightarrow> 'l LimiterStore" where
  "NewLimiterStore defaultRate defaultBurst =
    \<lparr> ls_limiters = [],
      ls_defaultRate = (if defaultRate \<le> 0 then defaultRateLimit else defaultRate),
      ls_defaultBurst = (if defaultBurst \<le> 0 then defaultRateBurst else defaultBurst) \<rparr>"

definition Limiter_GetOrCreate ::
  "'l rate_lib \<Rightarrow> time \<Rightarrow> LimiterKey \<Rightarrow> PolicyProfile option \<Rightarrow> 'l LimiterStore \<Rightarrow> 'l \<times> 'l LimiterStore" where
  "Limiter_GetOrCreate L now key profile s =
    (let normalized = normalizeKey key
     in case map_of (ls_limiters s) normalized of
          Some current \<Rightarrow>
            (en_limiter current,
             s\<lparr>ls_limiters := mput normalized (current\<lparr>en_lastUsed := now\<rparr>) (ls_limiters s)\<rparr>)
        | None \<Rightarrow>
            let limit = (case profile of
                           Some p \<Rightarrow> if pp_RateLimit p > 0 then of_int (pp_RateLimit p) else ls_defaultRate s
                         | None \<Rightarrow> ls_defaultRate s);
                burst = (case profile of
                           Some p \<Rightarrow> if pp_RateBurst p > 0 then pp_RateBurst p else ls_defaultBurst s
                         | None \<Rightarrow> ls_defaultBurst s);
                limit = (if limit \<le> 0 then defaultRateLimit else limit);
                burst = (if burst \<le> 0 then 1 else burst);
                limiter = NewLimiter L limit burst
            in (limiter,
                s\<lparr>ls_limiters := mput normalized \<lparr>en_limiter = limiter, en_lastUsed = now\<rparr> (ls_limiters s)\<rparr>))"

definition Limiter_Remove :: "LimiterKey \<Rightarrow> 'l LimiterStore \<Rightarrow> 'l LimiterStore" where
  "Limiter_Remove key s = s\<lparr>ls_limiters := mdel (normalizeKey key) (ls_limiters s)\<rparr>"

definition Limiter_Cleanup :: "time \<Rightarrow> duration \<Rightarrow> 'l LimiterStore \<Rightarrow> int \<times> 'l LimiterStore" where
  "Limiter_Cleanup now maxIdle s =
    (if maxIdle \<le> 0 then (int (length (ls_limiters s)), s\<lparr>ls_limiters := []\<rparr>)
     else let cutoff = now - maxIdle;
              kept = filter (\<lambda>(k, e). \<not> en_lastUsed e < cutoff) (ls_limiters s)
          in (int (length (ls_limiters s)) - int (length kept), s\<lparr>ls_limiters := kept\<rparr>))"

definition Limiter_Count :: "'l LimiterStore \<Rightarrow> int" where
  "Limiter_Count s = int (length (ls_limiters s))"

definition Limiter_SetDefaults :: "real \<Rightarrow> int \<Rightarrow> 'l LimiterStore \<Rightarrow> 'l LimiterStore" where
  "Limiter_SetDefaults defaultRate defaultBurst s =
    s\<lparr> ls_defaultRate := (if defaultRate \<le> 0 then defaultRateLimit else defaultRate),
       ls_defaultBurst := (if defaultBurst \<le> 0 then defaultRateBurst else defaultBurst) \<rparr>"

section \<open>The memory backend\<close>

text \<open>The results of \<open>Allow\<close>: an error, or whether the request is allowed, the remaining tokens and the
  time to wait.\<close>

type_synonym decision = "bool \<times> int \<times> duration"
type_synonym limit_result = "string + decision"
type_synonym 'b allow_op = "time \<Rightarrow> LimiterKey \<Rightarrow> real \<Rightarrow> int \<Rightarrow> 'b \<Rightarrow> limit_result \<times> 'b"

record 'l MemoryBackend =
  mb_limiters :: "(string, 'l entry) gomap"
  mb_defaultRate :: real
  mb_defaultBurst :: int
  mb_maxIdle :: duration

definition NewMemoryBackend :: "duration \<Rightarrow> 'l MemoryBackend" where
  "NewMemoryBackend maxIdle =
    \<lparr> mb_limiters = [], mb_defaultRate = defaultRateLimit, mb_defaultBurst = defaultRateBurst,
      mb_maxIdle = (if maxIdle \<le> 0 then 5 * Minute else maxIdle) \<rparr>"

definition checkLimiter :: "'l rate_lib \<Rightarrow> time \<Rightarrow> 'l \<Rightarrow> real \<Rightarrow> decision \<times> 'l" where
  "checkLimiter L now limiter limit =
    (let (allowed, limiter1) = take_token L now limiter;
         remaining = max 0 \<lfloor>Tokens L now limiter1\<rfloor>;
         retryAfter =
           (if allowed then 0
            else let needed = 1 - Tokens L now limiter1;
                     needed = (if needed \<le> 0 then 1 else needed)
                 in if limit > 0
                    then let r = trunc (of_int Second * needed / limit) in if r \<le> 0 then Second else r
                    else Second)
     in ((allowed, remaining, retryAfter), limiter1))"

definition Memory_Allow :: "'l rate_lib \<Rightarrow> 'l MemoryBackend allow_op" where
  "Memory_Allow L now key limit burst mb =
    (let limit = (if limit \<le> 0 then mb_defaultRate mb else limit);
         burst = (if burst \<le> 0 then mb_defaultBurst mb else burst);
         mapKey = LimiterKey_String (normalizeKey key);
         limiter = (case map_of (mb_limiters mb) mapKey of
                      Some current \<Rightarrow> en_limiter current
                    | None \<Rightarrow> NewLimiter L limit burst);
         (d, limiter1) = checkLimiter L now limiter limit
     in (Inr d, mb\<lparr>mb_limiters := mput mapKey \<lparr>en_limiter = limiter1, en_lastUsed = now\<rparr> (mb_limiters mb)\<rparr>))"

definition Memory_SetDefaults :: "real \<Rightarrow> int \<Rightarrow> 'l MemoryBackend \<Rightarrow> 'l MemoryBackend" where
  "Memory_SetDefaults defaultRate defaultBurst mb =
    mb\<lparr> mb_defaultRate := (if defaultRate \<le> 0 then defaultRateLimit else defaultRate),
        mb_defaultBurst := (if defaultBurst \<le> 0 then defaultRateBurst else defaultBurst) \<rparr>"

definition Memory_Count :: "'l MemoryBackend \<Rightarrow> int" where
  "Memory_Count mb = int (length (mb_limiters mb))"

definition Memory_cleanup :: "time \<Rightarrow> 'l MemoryBackend \<Rightarrow> 'l MemoryBackend" where
  "Memory_cleanup now mb =
    (let cutoff = now - mb_maxIdle mb
     in mb\<lparr>mb_limiters := filter (\<lambda>(k, e). \<not> en_lastUsed e < cutoff) (mb_limiters mb)\<rparr>)"

record RateLimitEntry =
  re_ClientID :: string
  re_Route :: string
  re_Remaining :: int
  re_Limit :: real
  re_LastUsed :: time

text \<open>\<open>strings.SplitN(key, ":", 2)\<close>.\<close>

definition split_key :: "string \<Rightarrow> string \<times> string" where
  "split_key key =
    (case index_of key '':'' of
       Some i \<Rightarrow> (take i key, drop (Suc i) key)
     | None \<Rightarrow> (key, ''''))"

definition Memory_Snapshot :: "'l rate_lib \<Rightarrow> time \<Rightarrow> 'l MemoryBackend \<Rightarrow> RateLimitEntry list" where
  "Memory_Snapshot L now mb =
    map (\<lambda>(key, e). \<lparr> re_ClientID = fst (split_key key), re_Route = snd (split_key key),
                      re_Remaining = max 0 \<lfloor>Tokens L now (en_limiter e)\<rfloor>,
                      re_Limit = Limit L (en_limiter e), re_LastUsed = en_lastUsed e \<rparr>)
      (mb_limiters mb)"

section \<open>The NATS backend\<close>

record natsWindowEntry =
  nw_Count :: int
  nw_WindowStart :: int

text \<open>The answer of a read: an error, no such key, or a value and its revision.  The value is
  \<open>None\<close> when it does not decode as a window entry.\<close>

datatype kv_read = KVError | KVKeyNotFound | KVEntry "natsWindowEntry option" nat

record 's kv_lib =
  kv_Get :: "string \<Rightarrow> 's \<Rightarrow> kv_read"
  kv_Create :: "string \<Rightarrow> natsWindowEntry \<Rightarrow> 's \<Rightarrow> bool \<times> 's"
  kv_Update :: "string \<Rightarrow> natsWindowEntry \<Rightarrow> nat \<Rightarrow> 's \<Rightarrow> bool \<times> 's"

record ('s, 'b) NATSBackend =
  nb_kv :: 's
  nb_fallback :: "'b option"

definition windowMicros :: "real \<Rightarrow> int \<Rightarrow> int" where
  "windowMicros limit burst = trunc (1000000 * of_int burst / limit)"

definition loadWindow :: "'s kv_lib \<Rightarrow> string \<Rightarrow> int \<Rightarrow> int \<Rightarrow> 's \<Rightarrow> (natsWindowEntry \<times> nat) option" where
  "loadWindow K kvKey now wmicros s =
    (case kv_Get K kvKey s of
       KVError \<Rightarrow> None
     | KVKeyNotFound \<Rightarrow> Some (\<lparr>nw_Count = 0, nw_WindowStart = now\<rparr>, 0)
     | KVEntry None revision \<Rightarrow> None
     | KVEntry (Some window) revision \<Rightarrow>
         if now - nw_WindowStart window > wmicros then Some (\<lparr>nw_Count = 0, nw_WindowStart = now\<rparr>, 0)
         else Some (window, revision))"

definition overLimitResult :: "natsWindowEntry \<Rightarrow> int \<Rightarrow> int \<Rightarrow> decision" where
  "overLimitResult window wmicros now =
    (let retryAfter = (nw_WindowStart window + wmicros - now) * 1000
     in (False, 0, if retryAfter \<le> 0 then Second else retryAfter))"

definition casWrite :: "'s kv_lib \<Rightarrow> string \<Rightarrow> natsWindowEntry \<Rightarrow> nat \<Rightarrow> 's \<Rightarrow> bool \<times> 's" where
  "casWrite K kvKey window revision s =
    (if revision = 0 then kv_Create K kvKey window s else kv_Update K kvKey window revision s)"

text \<open>The fallback is another backend: \<open>fb\<close> is its \<open>Allow\<close>.\<close>

definition nats_handleUnavailable :: "'b allow_op \<Rightarrow> ('s, 'b) NATSBackend allow_op" where
  "nats_handleUnavailable fb now key limit burst nb =
    (case nb_fallback nb of
       Some b \<Rightarrow> (let (r, b') = fb now key limit burst b in (r, nb\<lparr>nb_fallback := Some b'\<rparr>))
     | None \<Rightarrow> (Inr (True, burst, 0), nb))"

text \<open>The compare-and-swap loop; \<open>n\<close> counts the attempts left.\<close>

fun nats_loop :: "'s kv_lib \<Rightarrow> 'b allow_op \<Rightarrow> nat \<Rightarrow> string \<Rightarrow> int \<Rightarrow> int \<Rightarrow> ('s, 'b) NATSBackend allow_op" where
  "nats_loop K fb 0 kvKey nowMicros wmicros now key limit burst nb =
     nats_handleUnavailable fb now key limit burst nb"
| "nats_loop K fb (Suc n) kvKey nowMicros wmicros now key limit burst nb =
     (case loadWindow K kvKey nowMicros wmicros (nb_kv nb) of
        None \<Rightarrow> nats_handleUnavailable fb now key limit burst nb
      | Some (window, revision) \<Rightarrow>
          if nw_Count window \<ge> burst then (Inr (overLimitResult window wmicros nowMicros), nb)
          else let window1 = window\<lparr>nw_Count := nw_Count window + 1\<rparr>;
                   (ok, s') = casWrite K kvKey window1 revision (nb_kv nb);
                   nb1 = nb\<lparr>nb_kv := s'\<rparr>
               in if ok then (Inr (True, max 0 (burst - nw_Count window1), 0), nb1)
                  else nats_loop K fb n kvKey nowMicros wmicros now key limit burst nb1)"

definition nats_key :: "LimiterKey \<Rightarrow> string" where
  "nats_key key = (let k = normalizeKey key in ''rl.'' @ lk_ClientID k @ ''.'' @ lk_Route k)"

definition NATS_Allow :: "'s kv_lib \<Rightarrow> 'b allow_op \<Rightarrow> ('s, 'b) NATSBackend allow_op" where
  "NATS_Allow K fb now key limit burst nb =
    (let limit = (if limit \<le> 0 then defaultRateLimit else limit);
         burst = (if burst \<le> 0 then defaultRateBurst else burst)
     in nats_loop K fb 3 (nats_key key) (now div 1000) (windowMicros limit burst) now key limit burst nb)"

section \<open>The Dragonfly backend\<close>

text \<open>The Redis commands of the sliding-window script, on one key: remove the members with scores up to
  a bound, count the members, add a member with a score, set the expiry, and the score of the first
  member in score order.\<close>

record 's redis =
  ZREMRANGEBYSCORE :: "string \<Rightarrow> int \<Rightarrow> 's \<Rightarrow> 's"
  ZCARD :: "string \<Rightarrow> 's \<Rightarrow> int"
  ZADD :: "string \<Rightarrow> int \<Rightarrow> string \<Rightarrow> 's \<Rightarrow> 's"
  PEXPIRE :: "string \<Rightarrow> int \<Rightarrow> 's \<Rightarrow> 's"
  ZFIRST :: "string \<Rightarrow> 's \<Rightarrow> int option"

text \<open>\<open>lua/sliding_window.lua\<close>.\<close>

definition sliding_window ::
  "'s redis \<Rightarrow> string \<Rightarrow> int \<Rightarrow> int \<Rightarrow> int \<Rightarrow> string \<Rightarrow> int \<Rightarrow> 's \<Rightarrow> int list \<times> 's" where
  "sliding_window R key now window limit member ttl_ms s =
    (let s1 = ZREMRANGEBYSCORE R key (now - window) s;
         count = ZCARD R key s1
     in if count < limit then
          (let s2 = PEXPIRE R key ttl_ms (ZADD R key now member s1)
           in ([1, limit - count - 1, 0], s2))
        else
          (case ZFIRST R key s1 of
             Some oldest \<Rightarrow> ([0, 0, max 0 (- ((- (oldest + window - now)) div 1000))], s1)
           | None \<Rightarrow> ([0, 0, 0], s1)))"

record ('s, 'b) DragonflyBackend =
  db_store :: 's
  db_healthy :: bool
  db_keyPrefix :: string
  db_fallback :: "'b option"

definition dragonfly_handleUnavailable :: "'b allow_op \<Rightarrow> ('s, 'b) DragonflyBackend allow_op" where
  "dragonfly_handleUnavailable fb now key limit burst rb =
    (case db_fallback rb of
       Some b \<Rightarrow> (let (r, b') = fb now key limit burst b in (r, rb\<lparr>db_fallback := Some b'\<rparr>))
     | None \<Rightarrow> (Inr (True, burst, 0), rb))"

text \<open>\<open>run\<close> is the client's execution of the script: \<open>None\<close> when the round trip fails.\<close>

definition Dragonfly_Allow ::
  "(string \<Rightarrow> int \<Rightarrow> int \<Rightarrow> int \<Rightarrow> string \<Rightarrow> int \<Rightarrow> 's \<Rightarrow> int list option \<times> 's)
   \<Rightarrow> 'b allow_op \<Rightarrow> ('s, 'b) DragonflyBackend allow_op" where
  "Dragonfly_Allow run fb now key limit burst rb =
    (let limit = (if limit \<le> 0 then defaultRateLimit else limit);
         burst = (if burst \<le> 0 then defaultRateBurst else burst)
     in if \<not> db_healthy rb then dragonfly_handleUnavailable fb now key limit burst rb
        else
          let k = normalizeKey key;
              dfKey = db_keyPrefix rb @ ''rl:'' @ lk_ClientID k @ '':'' @ lk_Route k;
              wmicros = windowMicros limit burst;
              ttlMs = max 1000 \<lceil>(of_int wmicros :: real) / 1000\<rceil>;
              member = Itoa (now div 1000) @ '':'' @ Itoa (now mod 1000000);
              (result, s') = run dfKey (now div 1000) wmicros burst member ttlMs (db_store rb);
              rb1 = rb\<lparr>db_store := s'\<rparr>
          in case result of
               Some [a, remaining, retryAfterMs] \<Rightarrow>
                 (Inr (a = 1, remaining, if a \<noteq> 1 \<and> retryAfterMs > 0 then retryAfterMs * Millisecond else 0), rb1)
             | _ \<Rightarrow> dragonfly_handleUnavailable fb now key limit burst (rb1\<lparr>db_healthy := False\<rparr>))"

text \<open>One tick of the health check.\<close>

definition healthCheck :: "bool \<Rightarrow> ('s, 'b) DragonflyBackend \<Rightarrow> ('s, 'b) DragonflyBackend" where
  "healthCheck pingOK rb = rb\<lparr>db_healthy := pingOK\<rparr>"

section \<open>Profiles\<close>

record ProfileResolver =
  pr_profiles :: "(string, PolicyProfile option) gomap"
  pr_default :: "PolicyProfile option"

definition Profile_Resolve :: "ProfileResolver \<Rightarrow> Identity option \<Rightarrow> PolicyProfile option" where
  "Profile_Resolve r i =
    (case i of
       None \<Rightarrow> pr_default r
     | Some d \<Rightarrow>
         (let profileName = TrimSpace (metadata d ''policy_profile'')
          in if profileName = '''' then pr_default r
             else case map_of (pr_profiles r) profileName of
                    Some (Some p) \<Rightarrow> Some p
                  | _ \<Rightarrow> pr_default r))"

section \<open>The middleware\<close>

text \<open>What the middleware reads of an HTTP request.  \<open>hr_body\<close> is \<open>None\<close> without a body or when it
  cannot be read; \<open>hr_pattern\<close> is \<open>None\<close> without a route context.\<close>

record HTTPRequest =
  hr_ContentType :: string
  hr_Method :: string
  hr_body :: "string option"
  hr_pattern :: "string option"
  hr_path :: string

text \<open>\<open>decode\<close> is \<open>json.Unmarshal\<close> into the envelope: the method, or \<open>None\<close> on an error.\<close>

definition readMCPMethod :: "(string \<Rightarrow> string option) \<Rightarrow> HTTPRequest \<Rightarrow> string" where
  "readMCPMethod decode r =
    (case hr_body r of
       None \<Rightarrow> ''''
     | Some body \<Rightarrow>
         if \<not> Contains (ToLower (hr_ContentType r)) ''application/json'' then ''''
         else if hr_Method r \<noteq> ''POST'' then ''''
         else if body = '''' then ''''
         else case decode body of None \<Rightarrow> '''' | Some m \<Rightarrow> TrimSpace m)"

definition resolveRouteKey :: "(string \<Rightarrow> string option) \<Rightarrow> HTTPRequest \<Rightarrow> string" where
  "resolveRouteKey decode r =
    (let m = readMCPMethod decode r; path = TrimSpace (hr_path r);
         byPath = (if path \<noteq> '''' then path else ''unknown'')
     in if m \<noteq> '''' then ''mcp/'' @ m
        else case hr_pattern r of
               Some p \<Rightarrow> if TrimSpace p \<noteq> '''' then TrimSpace p else byPath
             | None \<Rightarrow> byPath)"

definition resolveClientID :: "Ctx \<Rightarrow> string" where
  "resolveClientID ctx =
    (case FromContext ctx of
       Some d \<Rightarrow> if TrimSpace (id_ID d) \<noteq> '''' then TrimSpace (id_ID d) else ''anonymous''
     | None \<Rightarrow> ''anonymous'')"

definition resolveProfile :: "ProfileResolver option \<Rightarrow> Ctx \<Rightarrow> real \<times> int" where
  "resolveProfile resolver ctx =
    (case resolver of
       None \<Rightarrow> (0, 0)
     | Some rs \<Rightarrow>
         (case Profile_Resolve rs (FromContext ctx) of
            None \<Rightarrow> (0, 0)
          | Some p \<Rightarrow> (if pp_RateLimit p > 0 then of_int (pp_RateLimit p) else 0,
                       if pp_RateBurst p > 0 then pp_RateBurst p else 0)))"

record rate_headers =
  hd_Limit :: real
  hd_Remaining :: int
  hd_Reset :: int

definition setBackendHeaders :: "time \<Rightarrow> real \<Rightarrow> int \<Rightarrow> rate_headers" where
  "setBackendHeaders now limit remaining =
    (let limitPerSecond = (if limit \<le> 0 then defaultRateLimit else limit);
         remaining = max 0 remaining;
         resetAt = (if remaining < 1 then now + trunc (of_int Second / limitPerSecond) else now)
     in \<lparr> hd_Limit = limitPerSecond, hd_Remaining = remaining, hd_Reset = resetAt div Second \<rparr>)"

text \<open>What the middleware does with the request: hand it to the next handler, with or without rate limit
  headers, or answer 429 with the given \<open>Retry-After\<close> seconds.\<close>

datatype rl_outcome = NextHandler "rate_headers option" | TooManyRequests rate_headers int

definition retryAfterSecs :: "duration \<Rightarrow> int" where
  "retryAfterSecs retryAfter =
    (let s = \<lceil>(of_int retryAfter :: real) / of_int Second\<rceil> in if s \<le> 0 then 1 else s)"

definition rl_serve ::
  "'b allow_op \<Rightarrow> (string \<Rightarrow> string option) \<Rightarrow> ProfileResolver option \<Rightarrow> time \<Rightarrow> HTTPRequest \<Rightarrow> Ctx
   \<Rightarrow> 'b option \<Rightarrow> rl_outcome \<times> 'b option" where
  "rl_serve allow decode resolver now r ctx backend =
    (case backend of
       None \<Rightarrow> (NextHandler None, None)
     | Some b \<Rightarrow>
         (let (limit, burst) = resolveProfile resolver ctx;
              key = \<lparr>lk_ClientID = resolveClientID ctx, lk_Route = resolveRouteKey decode r\<rparr>
          in case allow now key limit burst b of
               (Inl err, b') \<Rightarrow> (NextHandler None, Some b')
             | (Inr (allowed, remaining, retryAfter), b') \<Rightarrow>
                 (let h = setBackendHeaders now limit remaining
                  in if allowed then (NextHandler (Some h), Some b')
                     else (TooManyRequests h (retryAfterSecs retryAfter), Some b'))))"

section \<open>The backend contract\<close>

text \<open>A backend asks a caller to wait only when it refuses the request, and never for a negative time.
  A waiting backend gives every refused caller a positive wait.\<close>

locale limiter_backend =
  fixes allow :: "'b allow_op"
  assumes allowed_no_wait: "allow now k l n b = (Inr (True, remaining, ra), b') \<Longrightarrow> ra = 0"
    and wait_nonneg: "allow now k l n b = (Inr (ok, remaining, ra), b') \<Longrightarrow> 0 \<le> ra"
begin

lemma served_429:
  assumes "rl_serve allow decode resolver now r ctx (Some b) = (TooManyRequests h secs, b')"
  obtains ra remaining b1 where
    "allow now \<lparr>lk_ClientID = resolveClientID ctx, lk_Route = resolveRouteKey decode r\<rparr>
       (fst (resolveProfile resolver ctx)) (snd (resolveProfile resolver ctx)) b
     = (Inr (False, remaining, ra), b1)"
    and "b' = Some b1" and "1 \<le> secs" and "ra \<le> secs * Second" and "(secs - 1) * Second \<le> ra"
proof -
  let ?a = "allow now \<lparr>lk_ClientID = resolveClientID ctx, lk_Route = resolveRouteKey decode r\<rparr>
       (fst (resolveProfile resolver ctx)) (snd (resolveProfile resolver ctx)) b"
  obtain remaining ra b1 where a: "?a = (Inr (False, remaining, ra), b1)" and b: "b' = Some b1"
    and s: "secs = retryAfterSecs ra"
    using assms by (auto simp: rl_serve_def Let_def split: prod.splits sum.splits if_splits)
  have "0 \<le> ra" using a by (rule wait_nonneg)
  then have "1 \<le> secs \<and> ra \<le> secs * Second \<and> (secs - 1) * Second \<le> ra"
    using ceiling_correct [of "(of_int ra :: real) / of_int Second"]
    by (auto simp: s retryAfterSecs_def Let_def divide_simps) linarith+
  then show thesis using that [OF a b] by blast
qed

end

locale waiting_backend = limiter_backend +
  assumes denied_waits: "allow now k l n b = (Inr (False, remaining, ra), b') \<Longrightarrow> 0 < ra"

lemma checkLimiter_waits:
  "checkLimiter L now l limit = ((ok, remaining, ra), l') \<Longrightarrow> (if ok then ra = 0 else 0 < ra)"
  by (auto simp: checkLimiter_def Let_def split: prod.splits if_splits)

lemma Memory_Allow_waits:
  assumes "Memory_Allow L now k l n mb = (Inr (ok, remaining, ra), mb')"
  shows "if ok then ra = 0 else 0 < ra"
  using assms by (auto simp: Memory_Allow_def Let_def dest!: checkLimiter_waits split: prod.splits)

interpretation memory_limiter: waiting_backend "Memory_Allow L" for L
  by unfold_locales (auto dest: Memory_Allow_waits [rotated] Memory_Allow_waits split: if_splits)

lemma overLimitResult_waits: "overLimitResult w m now = (ok, remaining, ra) \<Longrightarrow> \<not> ok \<and> 0 < ra"
  by (auto simp: overLimitResult_def Let_def split: if_splits)

lemma nats_unavailable_waits:
  assumes "nats_handleUnavailable (Memory_Allow L) now k l n nb = (Inr (ok, remaining, ra), nb')"
  shows "if ok then ra = 0 else 0 < ra"
  using assms
  by (auto simp: nats_handleUnavailable_def Let_def dest!: Memory_Allow_waits split: prod.splits option.splits)

lemma nats_loop_waits:
  "nats_loop K (Memory_Allow L) m kvKey t wm now k l n nb = (Inr (ok, remaining, ra), nb') \<Longrightarrow>
   if ok then ra = 0 else 0 < ra"
proof (induction m arbitrary: nb)
  case 0
  then show ?case unfolding nats_loop.simps by (rule nats_unavailable_waits)
next
  case (Suc m)
  from Suc.prems show ?case
    by (auto simp: Let_def dest!: overLimitResult_waits Suc.IH nats_unavailable_waits
        split: prod.splits option.splits if_splits)
qed

interpretation nats_limiter: waiting_backend "NATS_Allow K (Memory_Allow L)" for K L
  by unfold_locales (auto simp: NATS_Allow_def Let_def dest!: nats_loop_waits split: if_splits)

lemma dragonfly_unavailable_waits:
  assumes "dragonfly_handleUnavailable (Memory_Allow L) now k l n rb = (Inr (ok, remaining, ra), rb')"
  shows "if ok then ra = 0 else 0 < ra"
  using assms
  by (auto simp: dragonfly_handleUnavailable_def Let_def dest!: Memory_Allow_waits split: prod.splits option.splits)

lemma Dragonfly_Allow_waits:
  assumes "Dragonfly_Allow run (Memory_Allow L) now k l n rb = (Inr (ok, remaining, ra), rb')"
  shows "0 \<le> ra \<and> (ok \<longrightarrow> ra = 0)"
proof -
  have "0 \<le> ra \<and> (ok \<longrightarrow> ra = 0)"
    if "dragonfly_handleUnavailable (Memory_Allow L) now k' l' n' rb0 = (Inr (ok, remaining, ra), rb')"
    for k' l' n' rb0
    using dragonfly_unavailable_waits [OF that] by (auto split: if_splits)
  then show ?thesis
    using assms unfolding Dragonfly_Allow_def Let_def
    by (auto split: prod.splits option.splits list.splits if_splits)
qed

interpretation dragonfly_limiter: limiter_backend "Dragonfly_Allow run (Memory_Allow L)" for run L
  by unfold_locales (auto dest: Dragonfly_Allow_waits)

section \<open>Independent buckets\<close>

text \<open>A sequence of requests through a backend, and through a single token bucket.\<close>

type_synonym request = "time \<times> LimiterKey \<times> real \<times> int"

fun run_allow :: "'b allow_op \<Rightarrow> request list \<Rightarrow> 'b \<Rightarrow> limit_result list" where
  "run_allow allow [] b = []"
| "run_allow allow ((t, k, l, n) # qs) b = (let (r, b1) = allow t k l n b in r # run_allow allow qs b1)"

fun run_bucket :: "'l rate_lib \<Rightarrow> (time \<times> real) list \<Rightarrow> 'l \<Rightarrow> decision list" where
  "run_bucket L [] l = []"
| "run_bucket L ((t, limit) # qs) l =
    (let (d, l1) = checkLimiter L t l limit in d # run_bucket L qs l1)"

definition bucket_of :: "request \<Rightarrow> string" where
  "bucket_of q = LimiterKey_String (normalizeKey (fst (snd q)))"

text \<open>The requests of one bucket, with the rate in force for each, and the bucket they start from.\<close>

definition own_requests :: "'l MemoryBackend \<Rightarrow> string \<Rightarrow> request list \<Rightarrow> (time \<times> real) list" where
  "own_requests mb K qs =
    map (\<lambda>(t, k, l, n). (t, if l \<le> 0 then mb_defaultRate mb else l)) (filter (\<lambda>q. bucket_of q = K) qs)"

definition start_bucket :: "'l rate_lib \<Rightarrow> 'l MemoryBackend \<Rightarrow> string \<Rightarrow> request list \<Rightarrow> 'l" where
  "start_bucket L mb K qs =
    (case map_of (mb_limiters mb) K of
       Some e \<Rightarrow> en_limiter e
     | None \<Rightarrow>
         (case filter (\<lambda>q. bucket_of q = K) qs of
            (t, k, l, n) # _ \<Rightarrow> NewLimiter L (if l \<le> 0 then mb_defaultRate mb else l)
                                           (if n \<le> 0 then mb_defaultBurst mb else n)
          | [] \<Rightarrow> NewLimiter L 0 0))"

definition own_results :: "string \<Rightarrow> request list \<Rightarrow> limit_result list \<Rightarrow> limit_result list" where
  "own_results K qs rs = map snd (filter (\<lambda>(q, r). bucket_of q = K) (zip qs rs))"

lemma Memory_Allow_step:
  obtains d l1 where
    "checkLimiter L t (start_bucket L mb (bucket_of (t, k, l, n)) ((t, k, l, n) # qs))
       (if l \<le> 0 then mb_defaultRate mb else l) = (d, l1)"
    and "Memory_Allow L t k l n mb =
      (Inr d, mb\<lparr>mb_limiters := mput (bucket_of (t, k, l, n)) \<lparr>en_limiter = l1, en_lastUsed = t\<rparr> (mb_limiters mb)\<rparr>)"
  by (cases "checkLimiter L t (start_bucket L mb (bucket_of (t, k, l, n)) ((t, k, l, n) # qs))
       (if l \<le> 0 then mb_defaultRate mb else l)")
    (auto simp: Memory_Allow_def start_bucket_def bucket_of_def Let_def split: option.splits)

lemma own_results_Cons [simp]:
  "own_results K (q # qs) (r # rs) = (if bucket_of q = K then r # own_results K qs rs else own_results K qs rs)"
  by (simp add: own_results_def)

lemma own_requests_Cons:
  "own_requests mb K ((t, k, l, n) # qs) =
    (if bucket_of (t, k, l, n) = K then (t, if l \<le> 0 then mb_defaultRate mb else l) # own_requests mb K qs
     else own_requests mb K qs)"
  by (simp add: own_requests_def)


text \<open>The key string separates client and route when client names have no colon, and not otherwise.\<close>

lemma LimiterKey_String_inj:
  assumes "CHR '':'' \<notin> set (lk_ClientID a)" and "CHR '':'' \<notin> set (lk_ClientID b)"
    and "LimiterKey_String a = LimiterKey_String b"
  shows "a = b"
proof -
  have "takeWhile (\<lambda>c. c \<noteq> CHR '':'') (LimiterKey_String x) = lk_ClientID x" if "CHR '':'' \<notin> set (lk_ClientID x)" for x
    using that by (auto simp: LimiterKey_String_def intro!: takeWhile_append2 [THEN trans])
  with assms have "lk_ClientID a = lk_ClientID b" by metis
  with assms(3) show ?thesis by (cases a, cases b) (simp add: LimiterKey_String_def)
qed

lemma LimiterKey_String_collision:
  "LimiterKey_String \<lparr>lk_ClientID = ''spiffe'', lk_Route = ''//td/a:mcp/x''\<rparr> =
   LimiterKey_String \<lparr>lk_ClientID = ''spiffe://td/a'', lk_Route = ''mcp/x''\<rparr>"
  by (simp add: LimiterKey_String_def)

end
