(* ===== verification/Rate_Limit_Windows.thy ===== *)
theory Rate_Limit_Windows
  imports Rate_Limit
begin

text \<open>
  The distributed limiters: what the fixed window of the NATS backend and the sliding window of the
  Dragonfly script admit, given the documented behaviour of the stores, and the responses of the
  middleware over each of the three backends.
\<close>

section \<open>The NATS window\<close>

text \<open>The documented behaviour of a key-value bucket with no other writer: \<open>Create\<close> succeeds exactly
  when the key does not exist and otherwise changes nothing, \<open>Update\<close> succeeds when the revision is the
  latest, revisions are positive, and a successful write is read back.\<close>

definition kv_laws :: "'s kv_lib \<Rightarrow> bool" where
  "kv_laws K \<longleftrightarrow>
    (\<forall>k e s. kv_Get K k s = KVKeyNotFound \<longrightarrow>
       (\<exists>s' r. kv_Create K k e s = (True, s') \<and> 0 < r \<and> kv_Get K k s' = KVEntry (Some e) r))
  \<and> (\<forall>k e s p r. kv_Get K k s = KVEntry p r \<longrightarrow> kv_Create K k e s = (False, s))
  \<and> (\<forall>k e s p r. kv_Get K k s = KVEntry p r \<and> 0 < r \<longrightarrow>
       (\<exists>s' r'. kv_Update K k e r s = (True, s') \<and> 0 < r' \<and> kv_Get K k s' = KVEntry (Some e) r'))"

text \<open>The stored window of a key: its count and start.\<close>

definition holds_window :: "'s kv_lib \<Rightarrow> string \<Rightarrow> int \<Rightarrow> int \<Rightarrow> ('s, 'b) NATSBackend \<Rightarrow> bool" where
  "holds_window K k c start nb \<longleftrightarrow>
    (\<exists>r>0. kv_Get K k (nb_kv nb) = KVEntry (Some \<lparr>nw_Count = c, nw_WindowStart = start\<rparr>) r)"

lemma NATS_Allow_counts:
  assumes "kv_laws K" and "0 < limit" and "0 < burst" and "holds_window K (nats_key key) c start nb"
    and "now div 1000 - start \<le> windowMicros limit burst" and "c < burst"
  obtains nb' where "NATS_Allow K fb now key limit burst nb = (Inr (True, burst - c - 1, 0), nb')"
    and "holds_window K (nats_key key) (c + 1) start nb'"
proof -
  let ?w = "\<lparr>nw_Count = c, nw_WindowStart = start\<rparr>"
  let ?k = "nats_key key"
  from assms(4) obtain r where r: "0 < r" "kv_Get K ?k (nb_kv nb) = KVEntry (Some ?w) r"
    by (auto simp: holds_window_def)
  from assms(1) r obtain s' r' where u: "kv_Update K ?k (?w\<lparr>nw_Count := c + 1\<rparr>) r (nb_kv nb) = (True, s')" "0 < r'"
    "kv_Get K ?k s' = KVEntry (Some (?w\<lparr>nw_Count := c + 1\<rparr>)) r'"
    unfolding kv_laws_def by blast
  show thesis
  proof (rule that)
    show "NATS_Allow K fb now key limit burst nb = (Inr (True, burst - c - 1, 0), nb\<lparr>nb_kv := s'\<rparr>)"
      using assms r u by (simp add: NATS_Allow_def loadWindow_def casWrite_def eval_nat_numeral)
    show "holds_window K ?k (c + 1) start (nb\<lparr>nb_kv := s'\<rparr>)"
      using u by (auto simp: holds_window_def)
  qed
qed

lemma NATS_Allow_full:
  assumes "0 < limit" and "0 < burst" and "holds_window K (nats_key key) c start nb"
    and "now div 1000 - start \<le> windowMicros limit burst" and "burst \<le> c"
  shows "\<exists>ra>0. NATS_Allow K fb now key limit burst nb = (Inr (False, 0, ra), nb)"
proof -
  let ?w = "\<lparr>nw_Count = c, nw_WindowStart = start\<rparr>"
  from assms(3) obtain r where r: "kv_Get K (nats_key key) (nb_kv nb) = KVEntry (Some ?w) r"
    by (auto simp: holds_window_def)
  have "NATS_Allow K fb now key limit burst nb =
      (Inr (overLimitResult ?w (windowMicros limit burst) (now div 1000)), nb)"
    using assms r by (simp add: NATS_Allow_def loadWindow_def eval_nat_numeral)
  then show ?thesis by (auto simp: overLimitResult_def Let_def)
qed

lemma NATS_Allow_opens:
  assumes "kv_laws K" and "0 < limit" and "0 < burst" and "kv_Get K (nats_key key) (nb_kv nb) = KVKeyNotFound"
  obtains nb' where "NATS_Allow K fb now key limit burst nb = (Inr (True, burst - 1, 0), nb')"
    and "holds_window K (nats_key key) 1 (now div 1000) nb'"
proof -
  let ?w = "\<lparr>nw_Count = 1, nw_WindowStart = now div 1000\<rparr>"
  from assms(1,4) obtain s' r where u: "kv_Create K (nats_key key) ?w (nb_kv nb) = (True, s')" "0 < r"
    "kv_Get K (nats_key key) s' = KVEntry (Some ?w) r"
    unfolding kv_laws_def by blast
  show thesis
  proof (rule that)
    show "NATS_Allow K fb now key limit burst nb = (Inr (True, burst - 1, 0), nb\<lparr>nb_kv := s'\<rparr>)"
      using assms u by (simp add: NATS_Allow_def loadWindow_def casWrite_def eval_nat_numeral)
    show "holds_window K (nats_key key) 1 (now div 1000) (nb\<lparr>nb_kv := s'\<rparr>)"
      using u by (auto simp: holds_window_def)
  qed
qed

text \<open>The requests of one key at the given times, and which of them are admitted.\<close>

definition at_times :: "LimiterKey \<Rightarrow> real \<Rightarrow> int \<Rightarrow> time list \<Rightarrow> request list" where
  "at_times key limit burst ts = map (\<lambda>t. (t, key, limit, burst)) ts"

fun admitted :: "limit_result \<Rightarrow> bool" where
  "admitted (Inl e) = True"
| "admitted (Inr (ok, _, _)) = ok"

lemma nats_window_run:
  assumes "kv_laws K" and "0 < limit" and "0 < burst"
    and "\<forall>t\<in>set ts. t div 1000 - start \<le> windowMicros limit burst"
    and "holds_window K (nats_key key) (int c) start nb"
  shows "map admitted (run_allow (NATS_Allow K fb) (at_times key limit burst ts) nb) =
    replicate (min (length ts) (nat burst - c)) True @ replicate (length ts - (nat burst - c)) False"
  using assms(4,5)
proof (induction ts arbitrary: c nb)
  case Nil
  then show ?case by (simp add: at_times_def)
next
  case (Cons t ts)
  show ?case
  proof (cases "int c < burst")
    case True
    obtain nb' where "NATS_Allow K fb t key limit burst nb = (Inr (True, burst - int c - 1, 0), nb')"
      "holds_window K (nats_key key) (int (Suc c)) start nb'"
      using NATS_Allow_counts [OF assms(1-3) Cons.prems(2) _ True, of t fb] Cons.prems(1)
      by (auto simp: add.commute)
    moreover have "nat burst - c = Suc (nat burst - Suc c)" using True by linarith
    ultimately show ?thesis using Cons.IH [of "Suc c" nb'] Cons.prems(1) by (simp add: at_times_def)
  next
    case False
    then obtain ra where "NATS_Allow K fb t key limit burst nb = (Inr (False, 0, ra), nb)"
      using NATS_Allow_full [OF assms(2,3) Cons.prems(2), of t fb] Cons.prems(1) by auto
    moreover have "nat burst - c = 0" using False by linarith
    ultimately show ?thesis using Cons.IH [OF _ Cons.prems(2)] Cons.prems(1) by (simp add: at_times_def)
  qed
qed

text \<open>The NATS limiter in one window.  Starting from a key with no window, of the requests that
  arrive within the window opened by the first one exactly the first \<open>burst\<close> are admitted and all later
  ones are refused, whatever the rate, given the documented compare-and-swap behaviour of the bucket.\<close>

theorem nats_window_admits_burst:
  assumes "kv_laws K" and "0 < limit" and "0 < burst"
    and "kv_Get K (nats_key key) (nb_kv nb) = KVKeyNotFound"
    and "\<forall>t\<in>set (t0 # ts). t div 1000 - t0 div 1000 \<le> windowMicros limit burst"
  shows "map admitted (run_allow (NATS_Allow K fb) (at_times key limit burst (t0 # ts)) nb) =
    replicate (min (Suc (length ts)) (nat burst)) True @ replicate (Suc (length ts) - nat burst) False"
proof -
  obtain nb' where a: "NATS_Allow K fb t0 key limit burst nb = (Inr (True, burst - 1, 0), nb')"
    and h: "holds_window K (nats_key key) (int 1) (t0 div 1000) nb'"
    using NATS_Allow_opens [OF assms(1-4)] by (metis of_nat_1)
  have b: "nat burst = Suc (nat burst - 1)" using assms(3) by linarith
  have "map admitted (run_allow (NATS_Allow K fb) (at_times key limit burst (t0 # ts)) nb) =
    True # map admitted (run_allow (NATS_Allow K fb) (at_times key limit burst ts) nb')"
    using a by (simp add: at_times_def)
  also have "\<dots> = True # replicate (min (length ts) (nat burst - 1)) True @ replicate (length ts - (nat burst - 1)) False"
    using nats_window_run [OF assms(1-3) _ h] assms(5) by simp
  finally show ?thesis by (subst b, subst (2) b) simp
qed

text \<open>A concrete bucket: the entries with their revisions.\<close>

definition list_kv :: "(string, natsWindowEntry \<times> nat) gomap kv_lib" where
  "list_kv =
    \<lparr> kv_Get = (\<lambda>k s. case map_of s k of None \<Rightarrow> KVKeyNotFound | Some (e, r) \<Rightarrow> KVEntry (Some e) r),
      kv_Create = (\<lambda>k e s. if map_of s k = None then (True, mput k (e, 1) s) else (False, s)),
      kv_Update = (\<lambda>k e r s. case map_of s k of
                     Some (e0, r0) \<Rightarrow> if r0 = r then (True, mput k (e, Suc r) s) else (False, s)
                   | None \<Rightarrow> (False, s)) \<rparr>"

lemma list_kv_laws: "kv_laws list_kv"
  by (auto simp: kv_laws_def list_kv_def split: option.splits)

theorem nats_window_admits_burst_witness:
  "map admitted (run_allow (NATS_Allow list_kv (Memory_Allow undefined))
     (at_times \<lparr>lk_ClientID = ''ci'', lk_Route = ''mcp/tools''\<rparr> 1 2 [5000, 6000, 7000])
     \<lparr>nb_kv = [], nb_fallback = None\<rparr>) = [True, True, False]"
proof -
  have w: "windowMicros 1 2 = 2000000" by (simp add: windowMicros_def trunc_def)
  have "kv_Get list_kv (nats_key \<lparr>lk_ClientID = ''ci'', lk_Route = ''mcp/tools''\<rparr>) [] = KVKeyNotFound"
    by (simp add: list_kv_def)
  from nats_window_admits_burst [OF list_kv_laws, of 1 2 _ "\<lparr>nb_kv = [], nb_fallback = None\<rparr>" 5000 "[6000, 7000]"]
    this w show ?thesis by (simp add: eval_nat_numeral)
qed

text \<open>An expired window is never replaced: the reset entry carries revision zero, so the write is a
  \<open>Create\<close> of an existing key, all attempts fail, and the request is decided by the fallback, or admitted
  when there is none, without being counted.\<close>

lemma nats_expired_window_unlimited:
  assumes "kv_laws K" and "0 < limit" and "0 < burst" and "holds_window K (nats_key key) c start nb"
    and "now div 1000 - start > windowMicros limit burst" and "nb_fallback nb = None"
  shows "NATS_Allow K fb now key limit burst nb = (Inr (True, burst, 0), nb)"
proof -
  from assms(4) obtain r where r: "kv_Get K (nats_key key) (nb_kv nb) =
      KVEntry (Some \<lparr>nw_Count = c, nw_WindowStart = start\<rparr>) r"
    by (auto simp: holds_window_def)
  then have "kv_Create K (nats_key key) e (nb_kv nb) = (False, nb_kv nb)" for e
    using assms(1) unfolding kv_laws_def by blast
  moreover have "nb\<lparr>nb_kv := nb_kv nb\<rparr> = nb" by simp
  ultimately show ?thesis
    using assms r
    by (simp add: NATS_Allow_def loadWindow_def casWrite_def nats_handleUnavailable_def eval_nat_numeral)
qed

section \<open>The sliding window\<close>

text \<open>The documented behaviour of the sorted-set commands, in terms of \<open>view\<close>: the finite map from the
  members of a key to their scores.\<close>

definition zset_laws :: "'s redis \<Rightarrow> ('s \<Rightarrow> string \<Rightarrow> string \<rightharpoonup> int) \<Rightarrow> bool" where
  "zset_laws R view \<longleftrightarrow>
    (\<forall>s k. finite (dom (view s k)))
  \<and> (\<forall>s k b m. view (ZREMRANGEBYSCORE R k b s) k m =
       (case view s k m of Some sc \<Rightarrow> if sc \<le> b then None else Some sc | None \<Rightarrow> None))
  \<and> (\<forall>s k. ZCARD R k s = int (card (dom (view s k))))
  \<and> (\<forall>s k sc m. view (ZADD R k sc m s) k = (view s k)(m \<mapsto> sc))
  \<and> (\<forall>s k t. view (PEXPIRE R k t s) k = view s k)
  \<and> (\<forall>s k. ZFIRST R k s = (if view s k = Map.empty then None else Some (Min (ran (view s k)))))"

lemma Min_ran:
  assumes "finite (dom m)" and "m \<noteq> Map.empty"
  shows "Min (ran m) \<in> ran m"
proof (rule Min_in)
  have "ran m = (\<lambda>x. the (m x)) ` dom m" by (force simp: ran_def dom_def)
  then show "finite (ran m)" using assms(1) by simp
  show "ran m \<noteq> {}" using assms(2) by (simp add: ran_def fun_eq_iff) (metis option.exhaust)
qed


text \<open>A concrete store: every key holds an association list of members and scores.\<close>

definition list_redis :: "(string \<Rightarrow> (string, int) gomap) redis" where
  "list_redis =
    \<lparr> ZREMRANGEBYSCORE = (\<lambda>k b s. s(k := filter (\<lambda>(m, sc). \<not> sc \<le> b) (AList.clearjunk (s k)))),
      ZCARD = (\<lambda>k s. int (card (set (map fst (s k))))),
      ZADD = (\<lambda>k sc m s. s(k := mput m sc (s k))),
      PEXPIRE = (\<lambda>k t s. s),
      ZFIRST = (\<lambda>k s. if s k = [] then None else Some (Min (ran (map_of (s k))))) \<rparr>"

lemma list_redis_laws: "zset_laws list_redis (\<lambda>s k. map_of (s k))"
  by (auto simp: zset_laws_def list_redis_def finite_dom_map_of dom_map_of_conv_image_fst update_conv'
      map_of_filter_value [of _ "\<lambda>sc. \<not> sc \<le> b" for b, simplified] map_of_clearjunk split: option.split)


section \<open>The responses of the middleware\<close>

text \<open>The response the middleware owes a request, by what the backend decided: the next handler when the
  backend fails or allows the request; 429 when it refuses, with a \<open>Retry-After\<close> that covers the wait the
  backend asked for and exceeds it by at most a second or is the minimum of one.\<close>

definition correct_response :: "'b allow_op \<Rightarrow> bool" where
  "correct_response allow \<longleftrightarrow>
    (\<forall>decode resolver now r ctx b.
       case allow now \<lparr>lk_ClientID = resolveClientID ctx, lk_Route = resolveRouteKey decode r\<rparr>
              (fst (resolveProfile resolver ctx)) (snd (resolveProfile resolver ctx)) b of
         (Inl err, b1) \<Rightarrow> rl_serve allow decode resolver now r ctx (Some b) = (NextHandler None, Some b1)
       | (Inr (True, remaining, ra), b1) \<Rightarrow>
           ra = 0 \<and> (\<exists>h. rl_serve allow decode resolver now r ctx (Some b) = (NextHandler (Some h), Some b1)
             \<and> hd_Remaining h = max 0 remaining)
       | (Inr (False, remaining, ra), b1) \<Rightarrow>
           (\<exists>h secs. rl_serve allow decode resolver now r ctx (Some b) = (TooManyRequests h secs, Some b1)
             \<and> 1 \<le> secs \<and> ra \<le> secs * Second \<and> (secs - 1) * Second \<le> ra))"

lemma limiter_backend_correct_response:
  assumes "limiter_backend allow"
  shows "correct_response allow"
  unfolding correct_response_def
proof (intro allI)
  fix decode resolver now r ctx b
  let ?serve = "rl_serve allow decode resolver now r ctx (Some b)"
  let ?allow = "allow now \<lparr>lk_ClientID = resolveClientID ctx, lk_Route = resolveRouteKey decode r\<rparr>
              (fst (resolveProfile resolver ctx)) (snd (resolveProfile resolver ctx)) b"
  consider (err) e b1 where "?allow = (Inl e, b1)"
    | (ok) remaining ra b1 where "?allow = (Inr (True, remaining, ra), b1)"
    | (no) remaining ra b1 where "?allow = (Inr (False, remaining, ra), b1)"
    by (cases ?allow) (metis (full_types) sum.exhaust prod.exhaust)
  then show "case ?allow of
         (Inl err, b1) \<Rightarrow> ?serve = (NextHandler None, Some b1)
       | (Inr (True, remaining, ra), b1) \<Rightarrow>
           ra = 0 \<and> (\<exists>h. ?serve = (NextHandler (Some h), Some b1) \<and> hd_Remaining h = max 0 remaining)
       | (Inr (False, remaining, ra), b1) \<Rightarrow>
           (\<exists>h secs. ?serve = (TooManyRequests h secs, Some b1)
             \<and> 1 \<le> secs \<and> ra \<le> secs * Second \<and> (secs - 1) * Second \<le> ra)"
  proof cases
    case err
    then show ?thesis by (simp add: rl_serve_def split_def)
  next
    case ok
    then have "ra = 0" by (rule limiter_backend.allowed_no_wait [OF assms])
    with ok show ?thesis by (simp add: rl_serve_def split_def Let_def setBackendHeaders_def)
  next
    case no
    then obtain h secs where s: "?serve = (TooManyRequests h secs, Some b1)"
      by (simp add: rl_serve_def split_def Let_def)
    show ?thesis
      by (rule limiter_backend.served_429 [OF assms s]) (use no s in auto)
  qed
qed

text \<open>C10.  Over each of the three backends as the gateway deploys them (memory; NATS and Dragonfly with
  the memory backend as fallback), the middleware answers every request as the backend decided for this
  client and route under the limits of the caller's profile: it passes the request on when the backend
  allows it or fails, and answers 429 exactly when the backend refuses; a client that waits for the
  seconds in \<open>Retry-After\<close> has waited as long as the backend asked for.\<close>

theorem middleware_correct_response:
  "correct_response (Memory_Allow L)
   \<and> correct_response (NATS_Allow K (Memory_Allow L))
   \<and> correct_response (Dragonfly_Allow run (Memory_Allow L))"
  by (intro conjI limiter_backend_correct_response memory_limiter.limiter_backend_axioms
      nats_limiter.limiter_backend_axioms dragonfly_limiter.limiter_backend_axioms)

end
