(* ===== verification/Registration_Request.thy ===== *)
theory Registration_Request
  imports Gateway_Types
begin

text \<open>
  \<open>internal/registration/state.go\<close> and \<open>types.go\<close>: the lifecycle of a registered server, and the
  validation of a registration request, with the textual IP addresses of the standard library that the
  host check relies on.
\<close>

section \<open>Lifecycle\<close>

datatype Event =
    EventHeartbeat | EventHeartbeatMissed | EventExpired | EventApproved | EventDeregistered

fun Transition :: "ServerStatus \<Rightarrow> Event \<Rightarrow> ServerStatus option" where
  "Transition StatusPending EventApproved = Some StatusApproved"
| "Transition StatusPending EventHeartbeat = Some StatusActive"
| "Transition StatusPending EventExpired = Some StatusExpired"
| "Transition StatusApproved EventHeartbeat = Some StatusActive"
| "Transition StatusApproved EventExpired = Some StatusExpired"
| "Transition StatusActive EventHeartbeat = Some StatusActive"
| "Transition StatusActive EventHeartbeatMissed = Some StatusStale"
| "Transition StatusActive EventExpired = Some StatusExpired"
| "Transition StatusStale EventHeartbeat = Some StatusActive"
| "Transition StatusStale EventHeartbeatMissed = Some StatusExpired"
| "Transition StatusStale EventExpired = Some StatusExpired"
| "Transition StatusPending EventDeregistered = Some StatusExpired"
| "Transition StatusApproved EventDeregistered = Some StatusExpired"
| "Transition StatusActive EventDeregistered = Some StatusExpired"
| "Transition StatusStale EventDeregistered = Some StatusExpired"
| "Transition StatusExpired EventDeregistered = Some StatusExpired"
| "Transition StatusExpired EventHeartbeatMissed = Some StatusExpired"
| "Transition StatusExpired EventExpired = Some StatusExpired"
| "Transition _ _ = None"

fun_cases Transition_Some: "Transition s e = Some t"

text \<open>A run of events from a status; an invalid event ends it with no status.\<close>

definition Transitions :: "ServerStatus \<Rightarrow> Event list \<Rightarrow> ServerStatus option" where
  "Transitions s es = foldl (\<lambda>st e. Option.bind st (\<lambda>s. Transition s e)) (Some s) es"

lemma foldl_bind_None [simp]: "foldl (\<lambda>st e. Option.bind st (f e)) None es = None"
  by (induction es) auto

lemma Transitions_Nil [simp]: "Transitions s [] = Some s"
  by (simp add: Transitions_def)

lemma Transitions_Cons:
  "Transitions s (e # es) = (case Transition s e of None \<Rightarrow> None | Some t \<Rightarrow> Transitions t es)"
  by (simp add: Transitions_def split: option.split)

lemma expired_stays: "Transition StatusExpired e = Some t \<Longrightarrow> t = StatusExpired"
  by (cases e) auto

lemma only_heartbeat_activates: "Transition s e = Some StatusActive \<Longrightarrow> e = EventHeartbeat"
  by (cases s; cases e) auto

lemma activation_source:
  "Transition s EventHeartbeat = Some t \<Longrightarrow> t = StatusActive \<and> s \<noteq> StatusExpired \<and> (\<forall>x. s \<noteq> StatusOther x)"
  by (cases s) auto

section \<open>IP addresses\<close>

text \<open>An address is its eight 16-bit groups; an IPv4 address is held in its mapped form.\<close>

type_synonym ip = "nat list"

definition digit_value :: "char \<Rightarrow> nat option" where
  "digit_value c =
    (let n = of_char c :: nat
     in if 48 \<le> n \<and> n \<le> 57 then Some (n - 48)
        else if 97 \<le> n \<and> n \<le> 102 then Some (n - 87)
        else if 65 \<le> n \<and> n \<le> 70 then Some (n - 55)
        else None)"

definition number_in :: "nat \<Rightarrow> string \<Rightarrow> nat option" where
  "number_in base s =
    foldl (\<lambda>acc c. Option.bind acc (\<lambda>a. case digit_value c of
        Some d \<Rightarrow> if d < base then Some (a * base + d) else None
      | None \<Rightarrow> None)) (Some 0) s"

definition parse_octet :: "string \<Rightarrow> nat option" where
  "parse_octet s =
    (if s = '''' \<or> length s > 3 \<or> (length s > 1 \<and> hd s = CHR ''0'') then None
     else case number_in 10 s of Some n \<Rightarrow> if n \<le> 255 then Some n else None | None \<Rightarrow> None)"

text \<open>The two groups of a dotted quad.\<close>

definition parse_quad :: "string \<Rightarrow> nat list option" where
  "parse_quad s =
    (case map parse_octet (split_char (CHR ''.'') s) of
       [Some a, Some b, Some c, Some d] \<Rightarrow> Some [a * 256 + b, c * 256 + d]
     | _ \<Rightarrow> None)"

definition parse_group :: "string \<Rightarrow> nat option" where
  "parse_group s = (if s = '''' \<or> length s > 4 then None else number_in 16 s)"

text \<open>The groups between two ends of an IPv6 address; the last one may be a dotted quad.\<close>

fun parse_groups :: "bool \<Rightarrow> string list \<Rightarrow> nat list option" where
  "parse_groups quad [] = Some []"
| "parse_groups quad [g] =
    (if quad \<and> CHR ''.'' \<in> set g then parse_quad g else map_option (\<lambda>n. [n]) (parse_group g))"
| "parse_groups quad (g # gs) =
    (case (parse_group g, parse_groups quad gs) of (Some n, Some ns) \<Rightarrow> Some (n # ns) | _ \<Rightarrow> None)"

definition groups_of :: "bool \<Rightarrow> string \<Rightarrow> nat list option" where
  "groups_of quad s = (if s = '''' then Some [] else parse_groups quad (split_char (CHR '':'') s))"

definition parse_ipv6 :: "string \<Rightarrow> ip option" where
  "parse_ipv6 s =
    (case index_of s ''::'' of
       None \<Rightarrow> (case groups_of True s of Some gs \<Rightarrow> if length gs = 8 then Some gs else None | None \<Rightarrow> None)
     | Some i \<Rightarrow>
         (let l = take i s; r = drop (i + 2) s
          in if Contains r ''::'' then None
             else case (groups_of False l, groups_of True r) of
                    (Some a, Some b) \<Rightarrow>
                      if length a + length b \<le> 7 then Some (a @ replicate (8 - length a - length b) 0 @ b)
                      else None
                  | _ \<Rightarrow> None))"

text \<open>\<open>net.ParseIP\<close>: the first of a dot, a colon and a percent sign decides the format; an address with a
  zone is not accepted.\<close>

definition ParseIP :: "string \<Rightarrow> ip option" where
  "ParseIP s =
    (case find (\<lambda>c. c = CHR ''.'' \<or> c = CHR '':'' \<or> c = CHR ''%'') s of
       None \<Rightarrow> None
     | Some c \<Rightarrow>
         if c = CHR ''.'' then map_option (\<lambda>q. [0, 0, 0, 0, 0, 65535] @ q) (parse_quad s)
         else if c = CHR '':'' then (if CHR ''%'' \<in> set s then None else parse_ipv6 s)
         else None)"

section \<open>The host check\<close>

text \<open>\<open>ip.To4\<close>: the two groups of an IPv4 address.\<close>

definition To4 :: "ip \<Rightarrow> (nat \<times> nat) option" where
  "To4 a = (case a of [0, 0, 0, 0, 0, m, hi, lo] \<Rightarrow> if m = 65535 then Some (hi, lo) else None | _ \<Rightarrow> None)"

definition IsLoopback :: "ip \<Rightarrow> bool" where
  "IsLoopback a = (case To4 a of Some (hi, lo) \<Rightarrow> hi div 256 = 127 | None \<Rightarrow> a = [0, 0, 0, 0, 0, 0, 0, 1])"

definition IsLinkLocalUnicast :: "ip \<Rightarrow> bool" where
  "IsLinkLocalUnicast a =
    (case To4 a of Some (hi, lo) \<Rightarrow> hi = 169 * 256 + 254 | None \<Rightarrow> a \<noteq> [] \<and> hd a div 64 = 1018)"

definition IsLinkLocalMulticast :: "ip \<Rightarrow> bool" where
  "IsLinkLocalMulticast a =
    (case To4 a of
       Some (hi, lo) \<Rightarrow> hi = 224 * 256 \<and> lo div 256 = 0
     | None \<Rightarrow> a \<noteq> [] \<and> hd a div 256 = 255 \<and> hd a mod 16 = 2)"

definition IsUnspecified :: "ip \<Rightarrow> bool" where
  "IsUnspecified a = (case To4 a of Some (hi, lo) \<Rightarrow> hi = 0 \<and> lo = 0 | None \<Rightarrow> a = [0, 0, 0, 0, 0, 0, 0, 0])"

datatype host_error = MetadataHost | LoopbackOrLinkLocal | UnspecifiedAddress | LocalhostName

definition validateIP :: "ip \<Rightarrow> host_error option" where
  "validateIP a =
    (if IsLoopback a \<or> IsLinkLocalUnicast a \<or> IsLinkLocalMulticast a then Some LoopbackOrLinkLocal
     else if IsUnspecified a then Some UnspecifiedAddress
     else if Some a = ParseIP ''169.254.169.254'' then Some MetadataHost
     else None)"

text \<open>\<open>strings.TrimRight(host, ".")\<close> after the brackets of an IPv6 literal are stripped.\<close>

definition normalized_host :: "string \<Rightarrow> string" where
  "normalized_host host =
    (let host = (if length host > 2 \<and> hd host = CHR ''['' \<and> last host = CHR '']''
                 then butlast (tl host) else host)
     in rev (dropWhile (\<lambda>c. c = CHR ''.'') (rev host)))"

definition validateHost :: "string \<Rightarrow> host_error option" where
  "validateHost host0 =
    (let host = normalized_host host0; lower = ToLower host
     in if lower \<in> {''169.254.169.254'', ''metadata.google.internal'', ''metadata.goog''} then Some MetadataHost
        else case Option.bind (ParseIP host) validateIP of
               Some e \<Rightarrow> Some e
             | None \<Rightarrow>
                 if lower = ''localhost'' \<or> suffix ''.localhost'' lower then Some LocalhostName else None)"

section \<open>The request\<close>

record ListenConfig =
  lc_Host :: string
  lc_Port :: int
  lc_Protocol :: string

record RegistrationRequest =
  rg_ServiceName :: string
  rg_Version :: string
  rg_Listen :: ListenConfig
  rg_Capabilities :: Capability

text \<open>\<open>serviceNamePattern\<close>: one alphanumeric character and up to 62 of the wider class.\<close>

definition alnum :: "char \<Rightarrow> bool" where
  "alnum c = (let n = of_char c :: nat
              in (48 \<le> n \<and> n \<le> 57) \<or> (65 \<le> n \<and> n \<le> 90) \<or> (97 \<le> n \<and> n \<le> 122))"

definition serviceNamePattern :: "string \<Rightarrow> bool" where
  "serviceNamePattern s =
    (case s of
       [] \<Rightarrow> False
     | c # cs \<Rightarrow> alnum c \<and> length cs \<le> 62 \<and> list_all (\<lambda>c. alnum c \<or> c \<in> {CHR ''_'', CHR ''.'', CHR ''-''}) cs)"

definition validateCapabilityNames :: "string list \<Rightarrow> bool" where
  "validateCapabilityNames names = list_all (\<lambda>name. TrimSpace name \<noteq> '''') names"

datatype request_error =
    InvalidServiceName | HostRequired | BadHost host_error | BadPort | BadProtocol | NoCapability
  | EmptyToolName | EmptyResourceName | EmptyPromptName

definition Validate :: "RegistrationRequest \<Rightarrow> request_error option" where
  "Validate r =
    (let host = TrimSpace (lc_Host (rg_Listen r)); port = lc_Port (rg_Listen r);
         protocol = TrimSpace (ToLower (lc_Protocol (rg_Listen r))); caps = rg_Capabilities r
     in if \<not> serviceNamePattern (TrimSpace (rg_ServiceName r)) then Some InvalidServiceName
        else if host = '''' then Some HostRequired
        else case validateHost host of
               Some e \<Rightarrow> Some (BadHost e)
             | None \<Rightarrow>
                 if port < 1 \<or> port > 65535 then Some BadPort
                 else if protocol \<noteq> '''' \<and> protocol \<noteq> ''http'' \<and> protocol \<noteq> ''https'' then Some BadProtocol
                 else if cap_Tools caps = [] \<and> cap_Resources caps = [] \<and> cap_Prompts caps = [] then Some NoCapability
                 else if \<not> validateCapabilityNames (cap_Tools caps) then Some EmptyToolName
                 else if \<not> validateCapabilityNames (cap_Resources caps) then Some EmptyResourceName
                 else if \<not> validateCapabilityNames (cap_Prompts caps) then Some EmptyPromptName
                 else None)"

section \<open>Lifecycle properties\<close>

text \<open>Runs of the lifecycle.  No sequence of events leads out of the expired state.  If a run of
  events ends with the server active, its last event is a heartbeat and the server was not expired at any
  point of the run; and a server that is not expired, in any of the known states, becomes active with a
  heartbeat and expired with a deregistration.\<close>

theorem lifecycle_runs:
  assumes "Transitions s es = Some t"
  shows "(s = StatusExpired \<longrightarrow> t = StatusExpired)
       \<and> (es \<noteq> [] \<and> t = StatusActive \<longrightarrow>
            last es = EventHeartbeat \<and> (\<forall>n\<le>length es. Transitions s (take n es) \<noteq> Some StatusExpired))
       \<and> (t \<noteq> StatusExpired \<and> (\<forall>x. t \<noteq> StatusOther x) \<longrightarrow>
            Transitions s (es @ [EventHeartbeat]) = Some StatusActive
            \<and> Transitions s (es @ [EventDeregistered]) = Some StatusExpired)"
proof -
  have snoc: "Transitions s (es @ [e]) = Transition t e" for e
    using assms by (simp add: Transitions_def)
  have absorb: "Transitions StatusExpired es = Some t \<Longrightarrow> t = StatusExpired" for es t
    by (induction es) (auto simp: Transitions_Cons split: option.splits dest: expired_stays)
  have split: "Transitions s es = (case Transitions s (take n es) of None \<Rightarrow> None | Some u \<Rightarrow> Transitions u (drop n es))" for n
    unfolding Transitions_def
    by (subst append_take_drop_id [of n, symmetric], subst foldl_append) (auto split: option.split)
  have last: "last es = EventHeartbeat" if "es \<noteq> []" "t = StatusActive"
  proof -
    have "Transitions s (butlast es @ [last es]) = Some StatusActive" using assms that by simp
    then obtain u where "Transition u (last es) = Some StatusActive"
      by (auto simp: Transitions_def Option.bind_eq_Some_conv)
    then show ?thesis by (rule only_heartbeat_activates)
  qed
  have never: "Transitions s (take n es) \<noteq> Some StatusExpired" if "t = StatusActive" for n
    using split [of n] absorb [of "drop n es" t] assms that by auto
  show ?thesis
    using absorb [of es t] assms last never snoc by (cases t) auto
qed

theorem lifecycle_runs_witness:
  "Transitions StatusPending [EventHeartbeat, EventHeartbeatMissed] = Some StatusStale
   \<and> Transitions StatusPending ([EventHeartbeat, EventHeartbeatMissed] @ [EventHeartbeat]) = Some StatusActive"
proof -
  have r: "Transitions StatusPending [EventHeartbeat, EventHeartbeatMissed] = Some StatusStale"
    by (simp add: Transitions_Cons)
  from lifecycle_runs [OF r] r show ?thesis by simp
qed

section \<open>Address lemmas\<close>

lemma split_char_not_Nil [simp]: "split_char d s \<noteq> []"
  by (induction s) (auto split: list.splits)

lemma split_char_set: "c \<in> set s \<Longrightarrow> c = d \<or> (\<exists>p\<in>set (split_char d s). c \<in> set p)"
  by (induction s) (auto split: list.splits)

lemma split_char_empty [simp]: "split_char d s = [[]] \<longleftrightarrow> s = []"
  by (cases s) (auto split: list.splits)

lemma split_char_last_sep: "s \<noteq> [] \<Longrightarrow> last s = d \<Longrightarrow> last (split_char d s) = []"
  by (induction s) (auto split: list.splits if_splits)

lemma split_char_last: "s \<noteq> [] \<Longrightarrow> last s \<noteq> d \<Longrightarrow>
  last (split_char d s) \<noteq> [] \<and> last (last (split_char d s)) = last s"
  by (induction s) (auto split: list.splits if_splits)

lemma foldl_bind_digits:
  "foldl (\<lambda>acc c. Option.bind acc (\<lambda>a. case digit_value c of
        Some d \<Rightarrow> if d < base then Some (a * base + d) else None
      | None \<Rightarrow> None)) acc s = Some n \<Longrightarrow> c \<in> set s \<Longrightarrow> digit_value c \<noteq> None"
proof (induction s arbitrary: acc)
  case (Cons x s)
  show ?case
  proof (cases "digit_value x")
    case None
    then have "foldl (\<lambda>acc c. Option.bind acc (\<lambda>a. case digit_value c of
        Some d \<Rightarrow> if d < base then Some (a * base + d) else None | None \<Rightarrow> None)) None s = Some n"
      using Cons.prems(1) by (cases acc) auto
    then show ?thesis using foldl_bind_None [of "\<lambda>c a. case digit_value c of
        Some d \<Rightarrow> if d < base then Some (a * base + d) else None | None \<Rightarrow> None" s] by simp
  next
    case (Some d)
    then show ?thesis using Cons by auto
  qed
qed simp

definition ip_char :: "char \<Rightarrow> bool" where
  "ip_char c \<longleftrightarrow> digit_value c \<noteq> None \<or> c = CHR ''.'' \<or> c = CHR '':''"

lemma number_in_chars: "number_in base s = Some n \<Longrightarrow> c \<in> set s \<Longrightarrow> ip_char c"
  using foldl_bind_digits [of base "Some 0" s n c] by (simp add: number_in_def ip_char_def)

lemma parse_octet_chars: "parse_octet p = Some n \<Longrightarrow> p \<noteq> [] \<and> (\<forall>c\<in>set p. ip_char c)"
  by (auto simp: parse_octet_def split: if_splits option.splits intro: number_in_chars)

lemma parse_quad_parts:
  assumes "parse_quad s = Some q" and "p \<in> set (split_char (CHR ''.'') s)"
  shows "parse_octet p \<noteq> None"
proof -
  obtain a b c d where "map parse_octet (split_char (CHR ''.'') s) = [Some a, Some b, Some c, Some d]"
    using assms(1) by (auto simp: parse_quad_def split: list.splits option.splits)
  then have "None \<notin> set (map parse_octet (split_char (CHR ''.'') s))" by simp
  with assms(2) show ?thesis by force
qed

lemma parse_quad_chars: "parse_quad s = Some q \<Longrightarrow> c \<in> set s \<Longrightarrow> ip_char c"
  using split_char_set [of c s "CHR ''.''"] parse_quad_parts [of s q] parse_octet_chars
  by (fastforce simp: ip_char_def)

lemma parse_quad_last: "parse_quad s = Some q \<Longrightarrow> s \<noteq> [] \<and> last s \<noteq> CHR ''.''"
proof
  assume q: "parse_quad s = Some q"
  show ne: "s \<noteq> []"
  proof
    assume "s = []"
    then show False using parse_quad_parts [OF q, of "[]"] by (simp add: parse_octet_def)
  qed
  show "last s \<noteq> CHR ''.''"
  proof
    assume "last s = CHR ''.''"
    then have "[] \<in> set (split_char (CHR ''.'') s)"
      using split_char_last_sep [OF ne] last_in_set [OF split_char_not_Nil, of "CHR ''.''" s] by metis
    then show False using parse_quad_parts [OF q, of "[]"] by (simp add: parse_octet_def)
  qed
qed

lemma parse_groups_chars:
  "parse_groups quad gs = Some ns \<Longrightarrow> g \<in> set gs \<Longrightarrow> c \<in> set g \<Longrightarrow> ip_char c"
  by (induction quad gs arbitrary: ns rule: parse_groups.induct)
    (auto simp: parse_group_def split: if_splits option.splits intro: number_in_chars parse_quad_chars)

lemma parse_groups_last:
  "parse_groups quad gs = Some ns \<Longrightarrow> gs \<noteq> [] \<Longrightarrow> last gs \<noteq> [] \<and> last (last gs) \<noteq> CHR ''.''"
proof (induction quad gs arbitrary: ns rule: parse_groups.induct)
  case (2 quad g)
  show ?case
  proof (cases "quad \<and> CHR ''.'' \<in> set g")
    case True
    then show ?thesis using 2 parse_quad_last by auto
  next
    case False
    then obtain n where n: "parse_group g = Some n" using 2 by auto
    then have "g \<noteq> []" "number_in 16 g = Some n" by (auto simp: parse_group_def split: if_splits)
    then have "digit_value (last g) \<noteq> None"
      using foldl_bind_digits [of 16 "Some 0" g n "last g"] by (simp add: number_in_def)
    with \<open>g \<noteq> []\<close> show ?thesis by (auto simp: digit_value_def)
  qed
qed (auto split: option.splits)

lemma groups_of_chars: "groups_of quad s = Some ns \<Longrightarrow> c \<in> set s \<Longrightarrow> ip_char c"
  using split_char_set [of c s "CHR '':''"] parse_groups_chars [of quad "split_char (CHR '':'') s" ns _ c]
  by (auto simp: groups_of_def ip_char_def split: if_splits)

lemma groups_of_last: "groups_of quad s = Some ns \<Longrightarrow> s \<noteq> [] \<Longrightarrow> last s \<noteq> CHR ''.''"
  using split_char_last [of s "CHR '':''"] parse_groups_last [of quad "split_char (CHR '':'') s" ns]
  by (cases "last s = CHR '':''") (auto simp: groups_of_def)

lemma index_of_split:
  assumes "index_of s sub = Some i"
  shows "s = take i s @ sub @ drop (i + length sub) s"
proof -
  have "drop i s = take (length sub) (drop i s) @ drop (length sub) (drop i s)"
    by (simp only: append_take_drop_id)
  with index_of_occurs [OF assms] have "drop i s = sub @ drop (i + length sub) s" by (simp add: add.commute)
  then show ?thesis by (metis append_take_drop_id)
qed

lemma parse_ipv6_text:
  assumes "parse_ipv6 s = Some a" and "CHR '':'' \<in> set s"
  shows "last s \<noteq> CHR ''.'' \<and> (\<forall>c\<in>set s. ip_char c)"
proof (cases "index_of s ''::''")
  case None
  then obtain gs where "groups_of True s = Some gs"
    using assms(1) by (auto simp: parse_ipv6_def split: option.splits)
  then show ?thesis using assms(2) groups_of_chars groups_of_last by (metis empty_iff list.set(1))
next
  case (Some i)
  let ?l = "take i s" and ?r = "drop (i + 2) s"
  have s: "s = ?l @ ''::'' @ ?r" using index_of_split [OF Some] by simp
  obtain x y where g: "groups_of False ?l = Some x" "groups_of True ?r = Some y"
    using assms(1) Some by (auto simp: parse_ipv6_def Let_def split: option.splits if_splits)
  have "ip_char c" if "c \<in> set s" for c
  proof -
    from that have "c \<in> set (?l @ ''::'' @ ?r)" using s by argo
    then have "c \<in> set ?l \<or> c = CHR '':'' \<or> c \<in> set ?r" by auto
    then show ?thesis using groups_of_chars [OF g(1)] groups_of_chars [OF g(2)] by (auto simp: ip_char_def)
  qed
  moreover have "last s \<noteq> CHR ''.''"
  proof (cases "?r = []")
    case True
    then have "last s = CHR '':''" by (subst s) simp
    then show ?thesis by simp
  next
    case False
    then have "last s = last ?r" by (subst s) (simp add: last_append)
    with groups_of_last [OF g(2) False] show ?thesis by simp
  qed
  ultimately show ?thesis by blast
qed

lemma ParseIP_text:
  assumes "ParseIP s = Some a"
  shows "s \<noteq> [] \<and> last s \<noteq> CHR ''.'' \<and> (\<forall>c\<in>set s. ip_char c)"
proof -
  obtain c where c: "find (\<lambda>c. c = CHR ''.'' \<or> c = CHR '':'' \<or> c = CHR ''%'') s = Some c"
    using assms by (auto simp: ParseIP_def split: option.splits)
  then have mem: "c \<in> set s" by (metis find_Some_iff nth_mem)
  show ?thesis
  proof (cases "c = CHR ''.''")
    case True
    then obtain q where "parse_quad s = Some q" using assms c by (auto simp: ParseIP_def)
    then show ?thesis using parse_quad_last parse_quad_chars by blast
  next
    case False
    then have "c = CHR '':''" "parse_ipv6 s = Some a"
      using assms c by (auto simp: ParseIP_def split: if_splits)
    then show ?thesis using parse_ipv6_text mem by fastforce
  qed
qed

lemma normalized_host_dots:
  assumes "s \<noteq> []" and "hd s \<noteq> CHR ''[''" and "last s \<noteq> CHR ''.''"
  shows "normalized_host (s @ replicate n (CHR ''.'')) = s"
proof -
  have "hd (s @ replicate n (CHR ''.'')) \<noteq> CHR ''[''" using assms by simp
  moreover have "dropWhile (\<lambda>c. c = CHR ''.'') (replicate n (CHR ''.'') @ rev s) = rev s"
    using assms by (induction n) (auto simp: hd_rev dropWhile_eq_self_iff)
  ultimately show ?thesis by (simp add: normalized_host_def)
qed

lemma normalized_host_brackets:
  assumes "s \<noteq> []" and "last s \<noteq> CHR ''.''"
  shows "normalized_host (''['' @ s @ '']'') = s"
proof -
  have "dropWhile (\<lambda>c. c = CHR ''.'') (rev s) = rev s"
    using assms by (auto simp: hd_rev dropWhile_eq_self_iff)
  then show ?thesis using assms(1) by (simp add: normalized_host_def butlast_append)
qed

section \<open>The address check\<close>

text \<open>The addresses a backend must not have: loopback, link-local, unspecified, cloud metadata.\<close>

definition forbidden_address :: "ip \<Rightarrow> bool" where
  "forbidden_address a \<longleftrightarrow>
     IsLoopback a \<or> IsLinkLocalUnicast a \<or> IsLinkLocalMulticast a \<or> IsUnspecified a
     \<or> Some a = ParseIP ''169.254.169.254''"

lemma validateIP_forbidden: "validateIP a = None \<longleftrightarrow> \<not> forbidden_address a"
  by (simp add: validateIP_def forbidden_address_def)

text \<open>C11.  No registration with a forbidden address is accepted, however it is spelled.  If a text parses
  as a loopback, link-local, unspecified or metadata address (in dotted form, as an IPv6 address, or as an
  IPv4 address mapped into IPv6), then a request whose host is this text, this text followed by any
  number of dots, or this text in square brackets, with any surrounding white space, is rejected.\<close>

theorem forbidden_address_rejected:
  assumes "ParseIP s = Some a" and "forbidden_address a"
    and "TrimSpace (lc_Host (rg_Listen r)) = ''['' @ s @ '']''
         \<or> (\<exists>n. TrimSpace (lc_Host (rg_Listen r)) = s @ replicate n (CHR ''.''))"
  shows "Validate r \<noteq> None"
proof -
  note t = ParseIP_text [OF assms(1)]
  have "\<not> ip_char (CHR ''['')" by (simp add: ip_char_def digit_value_def)
  then have "hd s \<noteq> CHR ''[''" using t hd_in_set [of s] by metis
  then have "normalized_host (TrimSpace (lc_Host (rg_Listen r))) = s"
    using assms(3) t normalized_host_dots [of s] normalized_host_brackets [of s] by auto
  then have "validateHost (TrimSpace (lc_Host (rg_Listen r))) \<noteq> None"
    using assms(1,2) validateIP_forbidden by (auto simp: validateHost_def Let_def split: option.splits)
  then show ?thesis by (auto simp: Validate_def Let_def)
qed

definition example_request :: "string \<Rightarrow> RegistrationRequest" where
  "example_request host =
    \<lparr>rg_ServiceName = ''k8s'', rg_Version = ''1'',
     rg_Listen = \<lparr>lc_Host = host, lc_Port = 8443, lc_Protocol = ''https''\<rparr>,
     rg_Capabilities = \<lparr>cap_Tools = [''list_pods''], cap_Resources = [], cap_Prompts = []\<rparr>\<rparr>"

theorem forbidden_address_rejected_witness:
  "ParseIP ''::ffff:127.0.0.1'' = Some [0, 0, 0, 0, 0, 65535, 32512, 1]
   \<and> Validate (example_request ''[::ffff:127.0.0.1]'') \<noteq> None"
proof -
  have zeros: "replicate 5 (0 :: nat) = [0, 0, 0, 0, 0]" by code_simp
  have p: "ParseIP ''::ffff:127.0.0.1'' = Some [0, 0, 0, 0, 0, 65535, 32512, 1]"
    by (simp add: ParseIP_def parse_ipv6_def Contains_def groups_of_def parse_group_def parse_quad_def
        parse_octet_def number_in_def digit_value_def zeros)
  have f: "forbidden_address [0, 0, 0, 0, 0, 65535, 32512, 1]"
    by (simp add: forbidden_address_def IsLoopback_def To4_def)
  have "TrimSpace ''[::ffff:127.0.0.1]'' = ''[::ffff:127.0.0.1]''"
    by (rule TrimSpace_word) (simp add: trimmed_word_def visible_def)
  with p forbidden_address_rejected [OF p f, of "example_request ''[::ffff:127.0.0.1]''"]
  show ?thesis by (simp add: example_request_def)
qed

text \<open>An address with a zone is no address for \<open>net.ParseIP\<close>, so the check does not see it.\<close>

lemma zoned_loopback_accepted: "validateHost ''[::1%25lo]'' = None"
  by (simp add: validateHost_def normalized_host_def ToLower_def lower_char_def ParseIP_def suffix_def)

end
