(* ===== verification/Capability_Index.thy ===== *)
theory Capability_Index
  imports Gateway_Types
begin

text \<open>
  \<open>internal/registration/index.go\<close>: the in-memory index from tool names and resource prefixes to the
  servers that offer them.  Its specification is a relation between names and server records; every
  operation is shown to implement its effect on that relation, and the index that is refreshed after
  each change of a server is shown to agree with the table of servers.

  Records are values, so the defensive copies of the source are the records themselves.
  \<open>ci_activeToolCount\<close> is the gauge the index maintains in the metrics.
\<close>

section \<open>Operations\<close>

record CapabilityIndex =
  ci_tools :: "(string, ServerRecord list) gomap"
  ci_resources :: "(string, ServerRecord list) gomap"
  ci_activeToolCount :: int

definition NewCapabilityIndex :: CapabilityIndex where
  "NewCapabilityIndex = \<lparr>ci_tools = [], ci_resources = [], ci_activeToolCount = 0\<rparr>"

definition ToolCount :: "CapabilityIndex \<Rightarrow> int" where
  "ToolCount i = int (length (ci_tools i))"

definition servers_at :: "(string, ServerRecord list) gomap \<Rightarrow> string \<Rightarrow> ServerRecord list" where
  "servers_at m k = (case map_of m k of None \<Rightarrow> [] | Some l \<Rightarrow> l)"

fun upsertServer :: "ServerRecord list \<Rightarrow> ServerRecord \<Rightarrow> ServerRecord list" where
  "upsertServer [] server = [server]"
| "upsertServer (s # ss) server = (if sr_ID s = sr_ID server then server # ss else s # upsertServer ss server)"

definition removeServer :: "ServerRecord list \<Rightarrow> string \<Rightarrow> ServerRecord list" where
  "removeServer servers serverID = filter (\<lambda>s. sr_ID s \<noteq> serverID) servers"

definition add_name ::
  "ServerRecord \<Rightarrow> (string, ServerRecord list) gomap \<Rightarrow> string \<Rightarrow> (string, ServerRecord list) gomap" where
  "add_name server m raw =
    (let name = TrimSpace raw
     in if name = '''' then m else mput name (upsertServer (servers_at m name) server) m)"

definition addLocked :: "ServerRecord \<Rightarrow> CapabilityIndex \<Rightarrow> CapabilityIndex" where
  "addLocked server i =
    i\<lparr> ci_tools := foldl (add_name server) (ci_tools i) (cap_Tools (sr_Capabilities server)),
       ci_resources := foldl (add_name server) (ci_resources i) (cap_Resources (sr_Capabilities server)) \<rparr>"

definition set_gauge :: "CapabilityIndex \<Rightarrow> CapabilityIndex" where
  "set_gauge i = i\<lparr>ci_activeToolCount := ToolCount i\<rparr>"

definition rebuild_step :: "CapabilityIndex \<Rightarrow> ServerRecord \<Rightarrow> CapabilityIndex" where
  "rebuild_step i server = (if \<not> IsRoutable (sr_Status server) then i else addLocked server i)"

definition Rebuild :: "ServerRecord list \<Rightarrow> CapabilityIndex \<Rightarrow> CapabilityIndex" where
  "Rebuild servers i =
    set_gauge (foldl rebuild_step (i\<lparr>ci_tools := [], ci_resources := []\<rparr>) servers)"

definition Index_Add :: "ServerRecord \<Rightarrow> CapabilityIndex \<Rightarrow> CapabilityIndex" where
  "Index_Add server i = (if IsRoutable (sr_Status server) then set_gauge (addLocked server i) else i)"

definition remove_from :: "string \<Rightarrow> (string, ServerRecord list) gomap \<Rightarrow> (string, ServerRecord list) gomap" where
  "remove_from serverID m = filter (\<lambda>(k, l). l \<noteq> []) (map (\<lambda>(k, l). (k, removeServer l serverID)) m)"

definition removeLocked :: "string \<Rightarrow> CapabilityIndex \<Rightarrow> CapabilityIndex" where
  "removeLocked serverID i =
    set_gauge (i\<lparr>ci_tools := remove_from serverID (ci_tools i),
                 ci_resources := remove_from serverID (ci_resources i)\<rparr>)"

definition Index_Remove :: "string \<Rightarrow> CapabilityIndex \<Rightarrow> CapabilityIndex" where
  "Index_Remove serverID i = (if TrimSpace serverID = '''' then i else removeLocked serverID i)"

text \<open>\<open>get\<close> is \<open>Get\<close> of the server store: \<open>None\<close> on an error, no such row included.\<close>

definition RefreshServer ::
  "(string \<Rightarrow> ServerRecord option) \<Rightarrow> string \<Rightarrow> CapabilityIndex \<Rightarrow> bool \<times> CapabilityIndex" where
  "RefreshServer get serverID i =
    (if TrimSpace serverID = '''' then (False, i)
     else case get serverID of
            None \<Rightarrow> (False, i)
          | Some rec \<Rightarrow>
              (let i1 = removeLocked serverID i
               in (True, if IsRoutable (sr_Status rec) then addLocked rec i1 else i1)))"

definition LookupTool :: "CapabilityIndex \<Rightarrow> string \<Rightarrow> ServerRecord list" where
  "LookupTool i name = (let key = TrimSpace name in if key = '''' then [] else servers_at (ci_tools i) key)"

definition longest_match :: "string \<Rightarrow> string list \<Rightarrow> string" where
  "longest_match target keys =
    foldl (\<lambda>m key. if HasPrefix target key \<and> length key > length m then key else m) '''' keys"

definition LookupResource :: "CapabilityIndex \<Rightarrow> string \<Rightarrow> ServerRecord list" where
  "LookupResource i uri =
    (let target = TrimSpace uri
     in if target = '''' then []
        else let m = longest_match target (map fst (ci_resources i))
             in if m = '''' then [] else servers_at (ci_resources i) m)"

definition ListTools :: "CapabilityIndex \<Rightarrow> string list" where
  "ListTools i = sort (map fst (ci_tools i))"

definition ListResources :: "CapabilityIndex \<Rightarrow> string list" where
  "ListResources i = sort (map fst (ci_resources i))"

fun scan_server :: "string \<Rightarrow> string list \<Rightarrow> ServerRecord list \<Rightarrow> ServerRecord option" where
  "scan_server target seen [] = None"
| "scan_server target seen (srv # rest) =
    (if sr_ID srv \<in> set seen then scan_server target seen rest
     else if EqualFold (TrimSpace (sr_Name srv)) target then Some srv
     else scan_server target (sr_ID srv # seen) rest)"

definition LookupServer :: "CapabilityIndex \<Rightarrow> string \<Rightarrow> ServerRecord option" where
  "LookupServer i name =
    (let target = TrimSpace name
     in if target = '''' then None else scan_server target [] (concat (map snd (ci_tools i))))"

record ServerStats =
  st_Record :: ServerRecord
  st_ToolCount :: int
  st_ResourceCount :: int

definition count_tool :: "(string, ServerStats) gomap \<Rightarrow> ServerRecord \<Rightarrow> (string, ServerStats) gomap" where
  "count_tool seen srv =
    (let stats = (case map_of seen (sr_ID srv) of
                    Some st \<Rightarrow> st | None \<Rightarrow> \<lparr>st_Record = srv, st_ToolCount = 0, st_ResourceCount = 0\<rparr>)
     in mput (sr_ID srv) (stats\<lparr>st_ToolCount := st_ToolCount stats + 1\<rparr>) seen)"

definition count_resource :: "(string, ServerStats) gomap \<Rightarrow> ServerRecord \<Rightarrow> (string, ServerStats) gomap" where
  "count_resource seen srv =
    (let stats = (case map_of seen (sr_ID srv) of
                    Some st \<Rightarrow> st | None \<Rightarrow> \<lparr>st_Record = srv, st_ToolCount = 0, st_ResourceCount = 0\<rparr>)
     in mput (sr_ID srv) (stats\<lparr>st_ResourceCount := st_ResourceCount stats + 1\<rparr>) seen)"

definition ListServers :: "CapabilityIndex \<Rightarrow> ServerStats list" where
  "ListServers i =
    (let seen = foldl count_tool [] (concat (map snd (ci_tools i)));
         seen = foldl count_resource seen (concat (map snd (ci_resources i)))
     in sort_key (\<lambda>st. sr_Name (st_Record st)) (map snd seen))"

section \<open>Specification\<close>

text \<open>The relation an index map stands for, and the names a server offers.\<close>

definition offers :: "(string, ServerRecord list) gomap \<Rightarrow> (string \<times> ServerRecord) set" where
  "offers m = {(k, s). s \<in> set (servers_at m k)}"

definition names :: "string list \<Rightarrow> string set" where
  "names raws = {TrimSpace r | r. r \<in> set raws \<and> TrimSpace r \<noteq> ''''}"

abbreviation tools_of :: "ServerRecord \<Rightarrow> string set" where
  "tools_of s \<equiv> names (cap_Tools (sr_Capabilities s))"

abbreviation resources_of :: "ServerRecord \<Rightarrow> string set" where
  "resources_of s \<equiv> names (cap_Resources (sr_Capabilities s))"

text \<open>Well-formed index maps: distinct keys, no empty entry, no blank key, at most one record per server
  and name, and every record is routable and offers the name.\<close>

definition map_ok :: "(ServerRecord \<Rightarrow> string list) \<Rightarrow> (string, ServerRecord list) gomap \<Rightarrow> bool" where
  "map_ok caps m \<longleftrightarrow>
     wf_map m
     \<and> (\<forall>(k, l)\<in>set m. l \<noteq> [] \<and> k \<noteq> '''' \<and> TrimSpace k = k \<and> distinct (map sr_ID l)
          \<and> (\<forall>s\<in>set l. IsRoutable (sr_Status s) \<and> k \<in> names (caps s)))"

definition index_ok :: "CapabilityIndex \<Rightarrow> bool" where
  "index_ok i \<longleftrightarrow> map_ok (\<lambda>s. cap_Tools (sr_Capabilities s)) (ci_tools i)
     \<and> map_ok (\<lambda>s. cap_Resources (sr_Capabilities s)) (ci_resources i)"

text \<open>The effect of adding a server on a relation.\<close>

definition add_spec ::
  "string set \<Rightarrow> ServerRecord \<Rightarrow> (string \<times> ServerRecord) set \<Rightarrow> (string \<times> ServerRecord) set" where
  "add_spec ns server R = {(k, s). if k \<in> ns then s = server \<or> ((k, s) \<in> R \<and> sr_ID s \<noteq> sr_ID server) else (k, s) \<in> R}"

definition remove_spec :: "string \<Rightarrow> (string \<times> ServerRecord) set \<Rightarrow> (string \<times> ServerRecord) set" where
  "remove_spec serverID R = {(k, s) \<in> R. sr_ID s \<noteq> serverID}"

text \<open>The relation that a table of servers calls for.\<close>

definition rows_spec :: "(ServerRecord \<Rightarrow> string set) \<Rightarrow> ServerRecord list \<Rightarrow> (string \<times> ServerRecord) set" where
  "rows_spec ns rows = {(k, s). s \<in> set rows \<and> IsRoutable (sr_Status s) \<and> k \<in> ns s}"

section \<open>Lemmas on index maps\<close>

lemma servers_at_mput [simp]: "servers_at (mput k l m) k' = (if k' = k then l else servers_at m k')"
  by (simp add: servers_at_def)

lemma set_upsertServer:
  "distinct (map sr_ID l) \<Longrightarrow> set (upsertServer l s) = insert s {x \<in> set l. sr_ID x \<noteq> sr_ID s}"
proof (induction l)
  case (Cons x l)
  show ?case
  proof (cases "sr_ID x = sr_ID s")
    case True
    then have "\<forall>y\<in>set l. sr_ID y \<noteq> sr_ID s" using Cons.prems by simp (metis image_eqI)
    with True show ?thesis by auto
  next
    case False
    with Cons show ?thesis by auto
  qed
qed simp

lemma ids_upsertServer: "sr_ID ` set (upsertServer l s) = insert (sr_ID s) (sr_ID ` set l)"
  by (induction l) auto

lemma distinct_upsertServer: "distinct (map sr_ID l) \<Longrightarrow> distinct (map sr_ID (upsertServer l s))"
proof (induction l)
  case (Cons x l)
  then show ?case using ids_upsertServer [of l s] by auto
qed simp

lemma map_ok_at:
  assumes "map_ok caps m"
  shows "distinct (map sr_ID (servers_at m k))"
    and "s \<in> set (servers_at m k) \<Longrightarrow> IsRoutable (sr_Status s) \<and> k \<in> names (caps s)"
    and "map_of m k \<noteq> None \<Longrightarrow> servers_at m k \<noteq> [] \<and> k \<noteq> '''' \<and> TrimSpace k = k"
  using assms map_of_SomeD [of m k]
  by (auto simp: map_ok_def servers_at_def split: option.splits)

lemma map_okI:
  assumes "wf_map m"
    and "\<And>k l. map_of m k = Some l \<Longrightarrow> l \<noteq> [] \<and> k \<noteq> '''' \<and> TrimSpace k = k \<and> distinct (map sr_ID l)
          \<and> (\<forall>s\<in>set l. IsRoutable (sr_Status s) \<and> k \<in> names (caps s))"
  shows "map_ok caps m"
  unfolding map_ok_def
proof (intro conjI ballI, goal_cases)
  case (2 p)
  then have "(fst p, snd p) \<in> set m" by simp
  then have "map_of m (fst p) = Some (snd p)" by (rule map_of_is_SomeI [OF assms(1)])
  then show ?case using assms(2) [of "fst p" "snd p"] by (simp add: case_prod_beta)
qed (rule assms(1))

lemma map_ok_Nil [simp]: "map_ok caps []"
  by (simp add: map_ok_def)

lemma offers_Nil [simp]: "offers [] = {}"
  by (simp add: offers_def servers_at_def)

lemma add_name_ok:
  assumes "map_ok caps m" and "IsRoutable (sr_Status s)" and "raw \<in> set (caps s)"
  shows "map_ok caps (add_name s m raw)"
proof (cases "TrimSpace raw = ''''")
  case False
  let ?k = "TrimSpace raw"
  let ?l = "upsertServer (servers_at m ?k) s"
  have k: "?k \<in> names (caps s)" using False assms(3) by (auto simp: names_def)
  note at = map_ok_at [OF assms(1)]
  have ne: "?l \<noteq> []" by (cases "servers_at m ?k") auto
  have "map_ok caps (mput ?k ?l m)"
  proof (rule map_okI)
    show "wf_map (mput ?k ?l m)" using assms(1) by (intro wf_map_mput) (simp add: map_ok_def)
    fix k' l' assume m: "map_of (mput ?k ?l m) k' = Some l'"
    show "l' \<noteq> [] \<and> k' \<noteq> '''' \<and> TrimSpace k' = k' \<and> distinct (map sr_ID l')
        \<and> (\<forall>s\<in>set l'. IsRoutable (sr_Status s) \<and> k' \<in> names (caps s))"
    proof (cases "k' = ?k")
      case True
      then have "l' = ?l" using m by simp
      moreover have "\<forall>x\<in>set ?l. IsRoutable (sr_Status x) \<and> ?k \<in> names (caps x)"
        using set_upsertServer [OF at(1)] at(2) k assms(2) by auto
      ultimately show ?thesis using True False ne distinct_upsertServer [OF at(1)] by simp
    next
      case neq: False
      then have "map_of m k' = Some l'" using m by simp
      then show ?thesis using at(1) [of k'] at(2) [of _ k'] at(3) [of k'] by (simp add: servers_at_def)
    qed
  qed
  then show ?thesis using False by (simp add: add_name_def Let_def)
qed (use assms in \<open>simp add: add_name_def\<close>)

lemma add_name_offers:
  assumes "map_ok caps m"
  shows "offers (add_name s m raw) = add_spec (names [raw]) s (offers m)"
proof (cases "TrimSpace raw = ''''")
  case True
  then show ?thesis by (auto simp: add_name_def add_spec_def names_def)
next
  case False
  then have "names [raw] = {TrimSpace raw}" by (auto simp: names_def)
  moreover have "servers_at (add_name s m raw) k =
      (if k = TrimSpace raw then upsertServer (servers_at m k) s else servers_at m k)" for k
    using False by (simp add: add_name_def Let_def)
  ultimately show ?thesis
    using set_upsertServer [OF map_ok_at(1) [OF assms], of "TrimSpace raw" s]
    by (auto simp: offers_def add_spec_def)
qed

lemma names_Cons: "names (r # rs) = names [r] \<union> names rs"
  by (auto simp: names_def)

lemma add_spec_comp: "add_spec A s (add_spec B s R) = add_spec (A \<union> B) s R"
  by (auto simp: add_spec_def)

lemma add_names:
  assumes "map_ok caps m" and "IsRoutable (sr_Status s)" and "set raws \<subseteq> set (caps s)"
  shows "map_ok caps (foldl (add_name s) m raws)
       \<and> offers (foldl (add_name s) m raws) = add_spec (names raws) s (offers m)"
  using assms(1,3)
proof (induction raws arbitrary: m)
  case Nil
  then show ?case by (simp add: names_def add_spec_def)
next
  case (Cons r rs)
  have ok: "map_ok caps (add_name s m r)" using Cons.prems assms(2) by (intro add_name_ok) auto
  have "add_spec (names rs) s (add_spec (names [r]) s (offers m)) = add_spec (names (r # rs)) s (offers m)"
    unfolding add_spec_comp names_Cons [of r rs] by (simp add: Un_commute)
  with Cons.IH [OF ok] Cons.prems add_name_offers [OF Cons.prems(1)] show ?case by simp
qed

lemma map_of_remove_from:
  assumes "wf_map m"
  shows "map_of (remove_from serverID m) k =
    (case map_of m k of
       None \<Rightarrow> None
     | Some l \<Rightarrow> if removeServer l serverID = [] then None else Some (removeServer l serverID))"
proof -
  have "wf_map (map (\<lambda>(k, l). (k, removeServer l serverID)) m)"
    using assms by (simp add: case_prod_beta' comp_def)
  then show ?thesis
    unfolding remove_from_def
    by (simp add: map_of_filter_value [where P = "\<lambda>l. l \<noteq> []"] map_of_map split: option.split)
qed

lemma servers_at_remove_from:
  "wf_map m \<Longrightarrow> servers_at (remove_from serverID m) k = removeServer (servers_at m k) serverID"
  by (auto simp: servers_at_def map_of_remove_from removeServer_def split: option.split)

lemma wf_map_remove_from: "wf_map m \<Longrightarrow> wf_map (remove_from serverID m)"
  unfolding remove_from_def by (rule wf_map_filter) (simp add: case_prod_beta' comp_def)

lemma remove_from_ok:
  assumes "map_ok caps m"
  shows "map_ok caps (remove_from serverID m)"
proof (rule map_okI)
  have wf: "wf_map m" using assms by (simp add: map_ok_def)
  then show "wf_map (remove_from serverID m)" by (rule wf_map_remove_from)
  fix k l assume "map_of (remove_from serverID m) k = Some l"
  then obtain l0 where l: "map_of m k = Some l0" "l = removeServer l0 serverID" "l \<noteq> []"
    using wf by (auto simp: map_of_remove_from split: option.splits if_splits)
  then show "l \<noteq> [] \<and> k \<noteq> '''' \<and> TrimSpace k = k \<and> distinct (map sr_ID l)
      \<and> (\<forall>s\<in>set l. IsRoutable (sr_Status s) \<and> k \<in> names (caps s))"
    using map_ok_at(1) [OF assms, of k] map_ok_at(2) [OF assms, of _ k] map_ok_at(3) [OF assms, of k]
    by (auto simp: servers_at_def removeServer_def distinct_map_filter)
qed

lemma remove_from_offers: "map_ok caps m \<Longrightarrow> offers (remove_from serverID m) = remove_spec serverID (offers m)"
  by (auto simp: offers_def remove_spec_def servers_at_remove_from removeServer_def map_ok_def)

section \<open>The operations implement their specification\<close>

abbreviation tool_offers :: "CapabilityIndex \<Rightarrow> (string \<times> ServerRecord) set" where
  "tool_offers i \<equiv> offers (ci_tools i)"

abbreviation resource_offers :: "CapabilityIndex \<Rightarrow> (string \<times> ServerRecord) set" where
  "resource_offers i \<equiv> offers (ci_resources i)"

lemma index_ok_New [simp, inv_intros]: "index_ok NewCapabilityIndex"
  by (simp add: index_ok_def NewCapabilityIndex_def)

lemma gauge_frame [simp]:
  "index_ok (set_gauge i) = index_ok i" "ci_tools (set_gauge i) = ci_tools i"
  "ci_resources (set_gauge i) = ci_resources i"
  by (simp_all add: set_gauge_def index_ok_def)

lemma addLocked_refines:
  assumes "index_ok i" and "IsRoutable (sr_Status s)"
  shows "index_ok (addLocked s i)"
    and "tool_offers (addLocked s i) = add_spec (tools_of s) s (tool_offers i)"
    and "resource_offers (addLocked s i) = add_spec (resources_of s) s (resource_offers i)"
  using add_names [of "\<lambda>s. cap_Tools (sr_Capabilities s)" "ci_tools i" s "cap_Tools (sr_Capabilities s)"]
    add_names [of "\<lambda>s. cap_Resources (sr_Capabilities s)" "ci_resources i" s "cap_Resources (sr_Capabilities s)"] assms
  by (simp_all add: addLocked_def index_ok_def)

lemma removeLocked_refines:
  assumes "index_ok i"
  shows "index_ok (removeLocked serverID i)"
    and "tool_offers (removeLocked serverID i) = remove_spec serverID (tool_offers i)"
    and "resource_offers (removeLocked serverID i) = remove_spec serverID (resource_offers i)"
  using assms remove_from_ok remove_from_offers
  by (auto simp: removeLocked_def index_ok_def)

lemma Index_Add_ok [inv_intros]: "index_ok i \<Longrightarrow> index_ok (Index_Add s i)"
  by (simp add: Index_Add_def addLocked_refines)

lemma Index_Remove_ok [inv_intros]: "index_ok i \<Longrightarrow> index_ok (Index_Remove serverID i)"
  by (simp add: Index_Remove_def removeLocked_refines)

lemma RefreshServer_ok [inv_intros]:
  "index_ok i \<Longrightarrow> RefreshServer get serverID i = (ok, i') \<Longrightarrow> index_ok i'"
  by (auto simp: RefreshServer_def Let_def addLocked_refines removeLocked_refines split: if_splits option.splits)

text \<open>When the index stands for a table of servers: exactly the routable rows, under each of their names.\<close>

definition agrees :: "CapabilityIndex \<Rightarrow> ServerRecord list \<Rightarrow> bool" where
  "agrees i rows \<longleftrightarrow> tool_offers i = rows_spec tools_of rows \<and> resource_offers i = rows_spec resources_of rows"

text \<open>The same, apart from one server.\<close>

definition agrees_except :: "string \<Rightarrow> CapabilityIndex \<Rightarrow> ServerRecord list \<Rightarrow> bool" where
  "agrees_except serverID i rows \<longleftrightarrow>
     remove_spec serverID (tool_offers i) = remove_spec serverID (rows_spec tools_of rows)
     \<and> remove_spec serverID (resource_offers i) = remove_spec serverID (rows_spec resources_of rows)"

lemma add_row_spec:
  assumes "distinct (map sr_ID (rows @ [s]))"
  shows "(if IsRoutable (sr_Status s) then add_spec (ns s) s (rows_spec ns rows) else rows_spec ns rows)
    = rows_spec ns (rows @ [s])"
proof -
  have "\<forall>x\<in>set rows. sr_ID x \<noteq> sr_ID s" using assms by simp (metis image_eqI)
  then show ?thesis by (auto simp: add_spec_def rows_spec_def)
qed

lemma rebuild_steps:
  assumes "distinct (map sr_ID rows)"
  shows "index_ok (foldl rebuild_step (i\<lparr>ci_tools := [], ci_resources := []\<rparr>) rows)
    \<and> agrees (foldl rebuild_step (i\<lparr>ci_tools := [], ci_resources := []\<rparr>) rows) rows"
  using assms
proof (induction rows rule: rev_induct)
  case Nil
  then show ?case by (simp add: index_ok_def agrees_def rows_spec_def)
next
  case (snoc s rows)
  let ?i = "foldl rebuild_step (i\<lparr>ci_tools := [], ci_resources := []\<rparr>) rows"
  have ih: "index_ok ?i" "agrees ?i rows" using snoc by auto
  have step: "foldl rebuild_step (i\<lparr>ci_tools := [], ci_resources := []\<rparr>) (rows @ [s]) =
      (if IsRoutable (sr_Status s) then addLocked s ?i else ?i)"
    by (simp add: rebuild_step_def [of ?i s])
  show ?case
    unfolding step
    using ih addLocked_refines [of ?i s] add_row_spec [OF snoc.prems, of tools_of]
      add_row_spec [OF snoc.prems, of resources_of]
    by (cases "IsRoutable (sr_Status s)") (simp_all add: agrees_def)
qed

lemma restore_row:
  assumes "distinct (map sr_ID rows)" and "rec \<in> set rows"
  shows "(if IsRoutable (sr_Status rec) then add_spec (ns rec) rec (remove_spec (sr_ID rec) (rows_spec ns rows))
          else remove_spec (sr_ID rec) (rows_spec ns rows)) = rows_spec ns rows"
proof -
  have "\<And>x. x \<in> set rows \<Longrightarrow> sr_ID x = sr_ID rec \<Longrightarrow> x = rec"
    using assms by (metis distinct_map inj_onD)
  then show ?thesis using assms(2) by (auto simp: add_spec_def remove_spec_def rows_spec_def)
qed

lemma RefreshServer_agrees:
  assumes "index_ok i" and "distinct (map sr_ID rows)" and "agrees_except (sr_ID rec) i rows"
    and "TrimSpace (sr_ID rec) \<noteq> ''''" and "rec \<in> set rows" and "get (sr_ID rec) = Some rec"
  shows "\<exists>i'. RefreshServer get (sr_ID rec) i = (True, i') \<and> index_ok i' \<and> agrees i' rows"
proof -
  let ?i1 = "removeLocked (sr_ID rec) i"
  note r = removeLocked_refines [OF assms(1), of "sr_ID rec"]
  note t = restore_row [OF assms(2,5), of tools_of] and u = restore_row [OF assms(2,5), of resources_of]
  have e: "tool_offers ?i1 = remove_spec (sr_ID rec) (rows_spec tools_of rows)"
    "resource_offers ?i1 = remove_spec (sr_ID rec) (rows_spec resources_of rows)"
    using r assms(3) by (simp_all add: agrees_except_def)
  show ?thesis
  proof (cases "IsRoutable (sr_Status rec)")
    case True
    then show ?thesis
      using assms(4,6) r addLocked_refines [OF r(1) True] t u e by (simp add: RefreshServer_def agrees_def)
  next
    case False
    then show ?thesis using assms(4,6) r t u e by (simp add: RefreshServer_def agrees_def)
  qed
qed

lemma longest_match_fold:
  assumes "P m0" and "\<And>k. k \<in> set keys \<Longrightarrow> HasPrefix target k \<Longrightarrow> P k"
  shows "P (foldl (\<lambda>m key. if HasPrefix target key \<and> length key > length m then key else m) m0 keys)"
    and "length m0 \<le> length (foldl (\<lambda>m key. if HasPrefix target key \<and> length key > length m then key else m) m0 keys)"
    and "k \<in> set keys \<Longrightarrow> HasPrefix target k \<Longrightarrow>
      length k \<le> length (foldl (\<lambda>m key. if HasPrefix target key \<and> length key > length m then key else m) m0 keys)"
proof -
  let ?f = "\<lambda>m key. if HasPrefix target key \<and> length key > length m then key else m"
  have "P m \<Longrightarrow> (\<And>k. k \<in> set ks \<Longrightarrow> HasPrefix target k \<Longrightarrow> P k) \<Longrightarrow>
    P (foldl ?f m ks) \<and> length m \<le> length (foldl ?f m ks)
    \<and> (\<forall>k\<in>set ks. HasPrefix target k \<longrightarrow> length k \<le> length (foldl ?f m ks))" for m ks
  proof (induction ks arbitrary: m)
    case (Cons x ks)
    have "P (?f m x)" using Cons.prems by simp
    from Cons.IH [OF this] Cons.prems show ?case by (auto split: if_splits)
  qed simp
  from this [OF assms(1), of keys] assms(2)
  show "P (foldl ?f m0 keys)" "length m0 \<le> length (foldl ?f m0 keys)"
    "k \<in> set keys \<Longrightarrow> HasPrefix target k \<Longrightarrow> length k \<le> length (foldl ?f m0 keys)" by blast+
qed

lemma longest_match_correct:
  "longest_match target keys \<noteq> '''' \<Longrightarrow>
     longest_match target keys \<in> set keys \<and> HasPrefix target (longest_match target keys)"
  "k \<in> set keys \<Longrightarrow> HasPrefix target k \<Longrightarrow> length k \<le> length (longest_match target keys)"
  using longest_match_fold(1) [of "\<lambda>m. m = '''' \<or> m \<in> set keys \<and> HasPrefix target m" "''''" keys target]
    longest_match_fold(3) [of "\<lambda>m. True" "''''" keys target k]
  by (auto simp: longest_match_def)

text \<open>The keys of an index map are the names on offer.\<close>

lemma keys_offers:
  assumes "map_ok caps m"
  shows "set (map fst m) = fst ` offers m"
proof -
  have "k \<in> set (map fst m) \<longleftrightarrow> map_of m k \<noteq> None" for k by (simp add: map_of_eq_None_iff)
  moreover have "map_of m k \<noteq> None \<longleftrightarrow> servers_at m k \<noteq> []" for k
    using map_ok_at(3) [OF assms, of k] by (auto simp: servers_at_def split: option.splits)
  moreover have "k \<in> fst ` offers m \<longleftrightarrow> servers_at m k \<noteq> []" for k
    by (auto simp: offers_def image_iff ex_in_conv simp del: set_empty simp flip: set_empty)
  ultimately show ?thesis by blast
qed

section \<open>Properties\<close>

text \<open>C12.  The index follows the table of servers.  Rebuilding it from the table makes it stand for
  exactly the routable rows under each of their tools and resources.  If it does so except for one
  server, whose row may have changed arbitrarily, then refreshing that server restores the agreement; the
  invariant of the index is kept in both cases.\<close>

theorem index_follows_table:
  assumes "distinct (map sr_ID rows)" and "index_ok i"
  shows "(index_ok (Rebuild rows i0) \<and> agrees (Rebuild rows i0) rows)
       \<and> (\<forall>rec\<in>set rows. TrimSpace (sr_ID rec) \<noteq> '''' \<and> get (sr_ID rec) = Some rec
            \<and> agrees_except (sr_ID rec) i rows \<longrightarrow>
            (\<exists>i'. RefreshServer get (sr_ID rec) i = (True, i') \<and> index_ok i' \<and> agrees i' rows))"
  using rebuild_steps [OF assms(1)] RefreshServer_agrees [OF assms(2,1)]
  by (simp add: Rebuild_def agrees_def)

definition example_server :: "string \<Rightarrow> string \<Rightarrow> string list \<Rightarrow> ServerRecord" where
  "example_server sid name tools =
    zero_ServerRecord\<lparr>sr_ID := sid, sr_Name := name, sr_Status := StatusActive,
      sr_Capabilities := \<lparr>cap_Tools = tools, cap_Resources = [''repo://''], cap_Prompts = []\<rparr>\<rparr>"

theorem index_follows_table_witness:
  "\<exists>i'. RefreshServer (\<lambda>x. Some (example_server ''1'' ''k8s'' [''list_pods''])) ''1'' NewCapabilityIndex = (True, i')
     \<and> agrees i' [example_server ''1'' ''k8s'' [''list_pods'']]"
proof -
  let ?s = "example_server ''1'' ''k8s'' [''list_pods'']"
  have "TrimSpace ''1'' = ''1''" by (rule TrimSpace_word) (simp add: trimmed_word_def visible_def)
  moreover have "agrees_except ''1'' NewCapabilityIndex [?s]"
    by (auto simp: agrees_except_def NewCapabilityIndex_def remove_spec_def rows_spec_def example_server_def)
  moreover have "sr_ID ?s = ''1''" by (simp add: example_server_def)
  ultimately show ?thesis
    using index_follows_table [of "[?s]" NewCapabilityIndex NewCapabilityIndex "\<lambda>x. Some ?s"] by auto
qed

text \<open>Lookups answer from the table.  When the index agrees with the table, a tool lookup returns,
  each once, exactly the routable servers that advertise the tool (up to surrounding white space), and
  a resource lookup returns exactly the routable servers that advertise the longest advertised prefix of
  the requested URI, or nothing when none is advertised.\<close>

theorem lookups_answer_from_table:
  assumes "index_ok i" and "agrees i rows"
  shows "set (LookupTool i name) = {s \<in> set rows. IsRoutable (sr_Status s) \<and> TrimSpace name \<in> tools_of s}
       \<and> distinct (map sr_ID (LookupTool i name))
       \<and> (let target = TrimSpace uri;
              advertised = {p. HasPrefix target p \<and> (\<exists>s\<in>set rows. IsRoutable (sr_Status s) \<and> p \<in> resources_of s)}
          in if advertised = {} then LookupResource i uri = []
             else \<exists>p\<in>advertised. (\<forall>q\<in>advertised. length q \<le> length p)
               \<and> set (LookupResource i uri) = {s \<in> set rows. IsRoutable (sr_Status s) \<and> p \<in> resources_of s})"
proof -
  have nonblank: "k \<noteq> ''''" if "k \<in> names raws" for k raws using that by (auto simp: names_def)
  have tok: "map_ok (\<lambda>s. cap_Tools (sr_Capabilities s)) (ci_tools i)"
    and rok: "map_ok (\<lambda>s. cap_Resources (sr_Capabilities s)) (ci_resources i)"
    using assms(1) by (simp_all add: index_ok_def)
  have tool: "set (servers_at (ci_tools i) k) = {s \<in> set rows. IsRoutable (sr_Status s) \<and> k \<in> tools_of s}" for k
    using assms(2) by (auto simp: agrees_def offers_def rows_spec_def set_eq_iff)
  have res: "set (servers_at (ci_resources i) k) = {s \<in> set rows. IsRoutable (sr_Status s) \<and> k \<in> resources_of s}" for k
    using assms(2) by (auto simp: agrees_def offers_def rows_spec_def set_eq_iff)
  have lt: "set (LookupTool i name) = {s \<in> set rows. IsRoutable (sr_Status s) \<and> TrimSpace name \<in> tools_of s}"
    using tool nonblank by (auto simp: LookupTool_def Let_def)
  have ld: "distinct (map sr_ID (LookupTool i name))"
    using map_ok_at(1) [OF tok] by (simp add: LookupTool_def Let_def)
  let ?t = "TrimSpace uri" and ?m = "longest_match (TrimSpace uri) (map fst (ci_resources i))"
  let ?adv = "{p. HasPrefix ?t p \<and> (\<exists>s\<in>set rows. IsRoutable (sr_Status s) \<and> p \<in> resources_of s)}"
  have adv: "?adv = {p \<in> set (map fst (ci_resources i)). HasPrefix ?t p}"
    using keys_offers [OF rok] assms(2) by (auto simp: agrees_def rows_spec_def image_iff)
  have "if ?adv = {} then LookupResource i uri = []
     else \<exists>p\<in>?adv. (\<forall>q\<in>?adv. length q \<le> length p)
       \<and> set (LookupResource i uri) = {s \<in> set rows. IsRoutable (sr_Status s) \<and> p \<in> resources_of s}"
  proof (cases "?m = ''''")
    case True
    have "p = ''''" if "p \<in> ?adv" for p
      using longest_match_correct(2) [of p "map fst (ci_resources i)" ?t] that True adv by auto
    then have "?adv = {}" using nonblank by blast
    moreover have "LookupResource i uri = []" using True by (simp add: LookupResource_def Let_def)
    ultimately show ?thesis by simp
  next
    case False
    then have m: "?m \<in> ?adv" unfolding adv using longest_match_correct(1) by blast
    have "?t \<noteq> ''''" using False m by (auto simp: HasPrefix_def)
    then have "set (LookupResource i uri) = {s \<in> set rows. IsRoutable (sr_Status s) \<and> ?m \<in> resources_of s}"
      using False res [of ?m] by (simp add: LookupResource_def Let_def)
    moreover have "\<forall>q\<in>?adv. length q \<le> length ?m" unfolding adv using longest_match_correct(2) by blast
    ultimately show ?thesis using m by (auto intro!: bexI [of _ ?m])
  qed
  with lt ld show ?thesis by (simp add: Let_def)
qed

theorem lookups_answer_from_table_witness:
  "set (LookupTool (Rebuild [example_server ''1'' ''k8s'' [''list_pods'']] NewCapabilityIndex) ''list_pods'')
    = {s \<in> set [example_server ''1'' ''k8s'' [''list_pods'']]. IsRoutable (sr_Status s)
        \<and> TrimSpace ''list_pods'' \<in> tools_of s}"
proof -
  let ?rows = "[example_server ''1'' ''k8s'' [''list_pods'']]"
  have "index_ok (Rebuild ?rows NewCapabilityIndex)" "agrees (Rebuild ?rows NewCapabilityIndex) ?rows"
    using rebuild_steps [of ?rows NewCapabilityIndex] by (auto simp: Rebuild_def agrees_def)
  from lookups_answer_from_table [OF this] show ?thesis by blast
qed

text \<open>\<open>RefreshServer\<close> sets the gauge when it removes the server and not after it adds it again.\<close>

lemma RefreshServer_gauge:
  "\<exists>i'. RefreshServer (\<lambda>x. Some (example_server ''1'' ''k8s'' [''list_pods''])) ''1'' NewCapabilityIndex = (True, i')
     \<and> ToolCount i' = 1 \<and> ci_activeToolCount i' = 0"
proof -
  have "TrimSpace ''1'' = ''1''" "TrimSpace ''list_pods'' = ''list_pods''" "TrimSpace ''repo://'' = ''repo://''"
    by (rule TrimSpace_word, simp add: trimmed_word_def visible_def)+
  then show ?thesis
    by (simp add: RefreshServer_def example_server_def IsRoutable_def removeLocked_def NewCapabilityIndex_def
        remove_from_def set_gauge_def ToolCount_def addLocked_def add_name_def servers_at_def Let_def)
qed

section \<open>The interface to the router\<close>

text \<open>What the router relies on: a lookup names each server once, and only routable servers that
  advertise the tool.\<close>

locale tool_lookup =
  fixes lookup :: "'i \<Rightarrow> string \<Rightarrow> ServerRecord list" and ok :: "'i \<Rightarrow> bool"
  assumes lookup_routable: "ok i \<Longrightarrow> s \<in> set (lookup i t) \<Longrightarrow> IsRoutable (sr_Status s)"
    and lookup_offers: "ok i \<Longrightarrow> s \<in> set (lookup i t) \<Longrightarrow> TrimSpace t \<in> tools_of s"
    and lookup_distinct: "ok i \<Longrightarrow> distinct (map sr_ID (lookup i t))"

interpretation capability_lookup: tool_lookup LookupTool index_ok
proof unfold_locales
  fix i :: CapabilityIndex and t s
  assume "index_ok i"
  then have ok: "map_ok (\<lambda>s. cap_Tools (sr_Capabilities s)) (ci_tools i)" by (simp add: index_ok_def)
  show "distinct (map sr_ID (LookupTool i t))"
    using map_ok_at(1) [OF ok] by (simp add: LookupTool_def Let_def)
  assume "s \<in> set (LookupTool i t)"
  then have "s \<in> set (servers_at (ci_tools i) (TrimSpace t))" by (auto simp: LookupTool_def Let_def split: if_splits)
  from map_ok_at(2) [OF ok this] show "IsRoutable (sr_Status s)" "TrimSpace t \<in> tools_of s" by auto
qed

end
