(* ===== verification/Server_Store.thy ===== *)
theory Server_Store
  imports Gateway_Types
begin

text \<open>
  \<open>internal/store/server_store.go\<close>: the table \<open>mcp_servers\<close>.  A database is its rows, the time its
  statements run at, and the set of calls it currently answers with an error.  Each method is the table
  operation its SQL statement denotes; a comparison with a NULL timestamp is not true.  \<open>gen_random_uuid()\<close>
  is an argument of \<open>Create\<close>, since the statement leaves the identifier to the database.
\<close>

section \<open>The table\<close>

datatype store_call =
    CallCreate | CallGet string | CallGetByName string | CallGetBySPIFFEID string | CallList
  | CallUpdate string | CallUpdateStatus string | CallUpdateHeartbeat string | CallAcknowledge string
  | CallUpdateRateLimit string | CallDelete string | CallListStale | CallListExpired

datatype store_error = ErrNoRows | ErrDatabase | ErrThreshold

record ServerDB =
  sd_rows :: "ServerRecord list"
  sd_now :: time
  sd_fails :: "store_call \<Rightarrow> bool"

definition maxInt64 :: "int \<Rightarrow> int \<Rightarrow> int" where
  "maxInt64 v minimum = (if v < minimum then minimum else v)"

definition normalizedSyncState :: "RegistrationSyncState \<Rightarrow> string" where
  "normalizedSyncState st =
    (case st of
       SyncStateAcked \<Rightarrow> SyncState_String st
     | SyncStateStale \<Rightarrow> SyncState_String st
     | _ \<Rightarrow> SyncState_String SyncStateUnacked)"

definition parseSyncState :: "string \<Rightarrow> RegistrationSyncState" where
  "parseSyncState raw =
    (let n = ToLower (TrimSpace raw)
     in if n = ''acked'' then SyncStateAcked else if n = ''stale'' then SyncStateStale else SyncStateUnacked)"

definition routingStrategyOrDefault :: "string \<Rightarrow> string" where
  "routingStrategyOrDefault s = (let s = TrimSpace s in if s = '''' then ''round_robin'' else s)"

definition protocolOrDefault :: "string \<Rightarrow> string" where
  "protocolOrDefault p = (let p = TrimSpace p in if p = '''' then ''https'' else p)"

text \<open>The columns both \<open>INSERT\<close> and \<open>UPDATE\<close> write, as they are read back by \<open>scanServerRecord\<close>.\<close>

definition written_columns :: "ServerRecord \<Rightarrow> ServerRecord" where
  "written_columns r =
    r\<lparr> sr_Protocol := protocolOrDefault (sr_Protocol r),
       sr_Status := ServerStatus_of_string (ServerStatus_String (sr_Status r)),
       sr_LeaseEpoch := maxInt64 (sr_LeaseEpoch r) 1,
       sr_CapabilityHash := TrimSpace (sr_CapabilityHash r),
       sr_SyncState := parseSyncState (normalizedSyncState (sr_SyncState r)),
       sr_LastPlatformAckVersion := TrimSpace (sr_LastPlatformAckVersion r),
       sr_RoutingStrategy := routingStrategyOrDefault (sr_RoutingStrategy r) \<rparr>"

section \<open>Writing\<close>

definition Store_Create :: "string \<Rightarrow> ServerRecord \<Rightarrow> ServerDB \<Rightarrow> store_error option \<times> ServerDB" where
  "Store_Create dbid record db =
    (let record = (if sr_Status record = StatusOther '''' then record\<lparr>sr_Status := StatusPending\<rparr> else record);
         record = (if sr_PolicyProfile record = '''' then record\<lparr>sr_PolicyProfile := ''default''\<rparr> else record);
         row = (written_columns record)\<lparr> sr_ID := dbid, sr_RateLimit := None, sr_RateBurst := None,
                  sr_CreatedAt := sd_now db, sr_UpdatedAt := sd_now db \<rparr>
     in if sd_fails db CallCreate then (Some ErrDatabase, db)
        else if \<exists>r\<in>set (sd_rows db). sr_ID r = dbid \<or> sr_SPIFFEID r = sr_SPIFFEID row then (Some ErrDatabase, db)
        else (None, db\<lparr>sd_rows := sd_rows db @ [row]\<rparr>))"

text \<open>\<open>UPDATE ... WHERE id = ...\<close>.\<close>

definition update_row :: "string \<Rightarrow> (ServerRecord \<Rightarrow> ServerRecord) \<Rightarrow> ServerDB \<Rightarrow> ServerDB" where
  "update_row sid f db = db\<lparr>sd_rows := map (\<lambda>r. if sr_ID r = sid then f r else r) (sd_rows db)\<rparr>"

definition updated_by :: "time \<Rightarrow> ServerRecord \<Rightarrow> ServerRecord \<Rightarrow> ServerRecord" where
  "updated_by now record r =
    (written_columns record)\<lparr> sr_ID := sr_ID r, sr_RateLimit := sr_RateLimit r, sr_RateBurst := sr_RateBurst r,
       sr_CreatedAt := sr_CreatedAt r, sr_UpdatedAt := now \<rparr>"

definition Store_Update :: "ServerRecord \<Rightarrow> ServerDB \<Rightarrow> store_error option \<times> ServerDB" where
  "Store_Update record db =
    (if sd_fails db (CallUpdate (sr_ID record)) then (Some ErrDatabase, db)
     else if (\<exists>r\<in>set (sd_rows db). sr_ID r = sr_ID record)
          \<and> (\<exists>r\<in>set (sd_rows db). sr_ID r \<noteq> sr_ID record \<and> sr_SPIFFEID r = sr_SPIFFEID record)
     then (Some ErrDatabase, db)
     else (None, update_row (sr_ID record) (updated_by (sd_now db) record) db))"

definition Store_UpdateStatus :: "string \<Rightarrow> ServerStatus \<Rightarrow> ServerDB \<Rightarrow> store_error option \<times> ServerDB" where
  "Store_UpdateStatus sid status db =
    (if sd_fails db (CallUpdateStatus sid) then (Some ErrDatabase, db)
     else (None, update_row sid (\<lambda>r. r\<lparr>sr_Status := ServerStatus_of_string (ServerStatus_String status),
                                       sr_UpdatedAt := sd_now db\<rparr>) db))"

definition Store_UpdateHeartbeat :: "string \<Rightarrow> ServerDB \<Rightarrow> store_error option \<times> ServerDB" where
  "Store_UpdateHeartbeat sid db =
    (if sd_fails db (CallUpdateHeartbeat sid) then (Some ErrDatabase, db)
     else (None, update_row sid (\<lambda>r. r\<lparr>sr_LastHeartbeat := Some (sd_now db), sr_UpdatedAt := sd_now db\<rparr>) db))"

definition Store_UpdateRateLimit ::
  "string \<Rightarrow> int option \<Rightarrow> int option \<Rightarrow> ServerDB \<Rightarrow> store_error option \<times> ServerDB" where
  "Store_UpdateRateLimit sid rateLimit rateBurst db =
    (if sd_fails db (CallUpdateRateLimit sid) then (Some ErrDatabase, db)
     else (None, update_row sid (\<lambda>r. r\<lparr>sr_RateLimit := rateLimit, sr_RateBurst := rateBurst,
                                       sr_UpdatedAt := sd_now db\<rparr>) db))"

definition ack_matches :: "string \<Rightarrow> int \<Rightarrow> string \<Rightarrow> ServerRecord \<Rightarrow> bool" where
  "ack_matches sid leaseEpoch capabilityHash r =
    (sr_ID r = TrimSpace sid \<and> sr_LeaseEpoch r = leaseEpoch
     \<and> (TrimSpace capabilityHash = '''' \<or> sr_CapabilityHash r = TrimSpace capabilityHash))"

definition Store_AcknowledgeRegistration ::
  "string \<Rightarrow> int \<Rightarrow> string \<Rightarrow> string \<Rightarrow> time \<Rightarrow> ServerDB \<Rightarrow> store_error option \<times> ServerDB" where
  "Store_AcknowledgeRegistration sid leaseEpoch capabilityHash ackVersion ackedAt db =
    (if sd_fails db (CallAcknowledge sid) then (Some ErrDatabase, db)
     else
       let hit = ack_matches sid leaseEpoch capabilityHash;
           rows = map (\<lambda>r. if hit r
                    then r\<lparr>sr_SyncState := SyncStateAcked, sr_LastPlatformAckVersion := TrimSpace ackVersion,
                           sr_LastPlatformAckAt := Some ackedAt, sr_UpdatedAt := sd_now db\<rparr>
                    else r) (sd_rows db)
       in if \<not> list_ex hit (sd_rows db) then (Some ErrNoRows, db) else (None, db\<lparr>sd_rows := rows\<rparr>))"

definition Store_Delete :: "string \<Rightarrow> ServerDB \<Rightarrow> store_error option \<times> ServerDB" where
  "Store_Delete sid db =
    (if sd_fails db (CallDelete sid) then (Some ErrDatabase, db)
     else (None, db\<lparr>sd_rows := filter (\<lambda>r. sr_ID r \<noteq> sid) (sd_rows db)\<rparr>))"

section \<open>Reading\<close>

definition Store_Get :: "string \<Rightarrow> ServerDB \<Rightarrow> store_error + ServerRecord" where
  "Store_Get sid db =
    (if sd_fails db (CallGet sid) then Inl ErrDatabase
     else case find (\<lambda>r. sr_ID r = sid) (sd_rows db) of Some r \<Rightarrow> Inr r | None \<Rightarrow> Inl ErrNoRows)"

definition Store_GetByName :: "string \<Rightarrow> ServerDB \<Rightarrow> store_error + ServerRecord" where
  "Store_GetByName name db =
    (if sd_fails db (CallGetByName name) then Inl ErrDatabase
     else case find (\<lambda>r. sr_Name r = name) (sd_rows db) of Some r \<Rightarrow> Inr r | None \<Rightarrow> Inl ErrNoRows)"

definition Store_GetBySPIFFEID :: "string \<Rightarrow> ServerDB \<Rightarrow> store_error + ServerRecord" where
  "Store_GetBySPIFFEID spiffeID db =
    (if sd_fails db (CallGetBySPIFFEID spiffeID) then Inl ErrDatabase
     else case find (\<lambda>r. sr_SPIFFEID r = spiffeID) (sd_rows db) of Some r \<Rightarrow> Inr r | None \<Rightarrow> Inl ErrNoRows)"

text \<open>\<open>ILIKE\<close> on ASCII: \<open>%\<close> matches any text, \<open>_\<close> any character, a backslash quotes.\<close>

fun ilike :: "string \<Rightarrow> string \<Rightarrow> bool" where
  "ilike [] t = (t = [])"
| "ilike (p # ps) [] =
    (if p = CHR ''%'' then ilike ps [] else False)"
| "ilike (p # ps) (c # cs) =
    (if p = CHR ''%'' then ilike ps (c # cs) \<or> ilike (p # ps) cs
     else if p = CHR ''_'' then ilike ps cs
     else if p = CHR 0x5C then (case ps of q # qs \<Rightarrow> lower_char q = lower_char c \<and> ilike qs cs | [] \<Rightarrow> False)
     else lower_char p = lower_char c \<and> ilike ps cs)"

record ServerFilter =
  sf_Status :: "ServerStatus option"
  sf_NamePattern :: string
  sf_Limit :: int
  sf_Offset :: int

definition Store_List :: "ServerFilter \<Rightarrow> ServerDB \<Rightarrow> store_error + ServerRecord list" where
  "Store_List flt db =
    (if sd_fails db CallList then Inl ErrDatabase
     else
       let keep = (\<lambda>r. (case sf_Status flt of None \<Rightarrow> True
                        | Some st \<Rightarrow> ServerStatus_String (sr_Status r) = ServerStatus_String st)
                      \<and> (TrimSpace (sf_NamePattern flt) = '''' \<or> ilike (sf_NamePattern flt) (sr_Name r)));
           rows = sort_key (\<lambda>r. - sr_CreatedAt r) (filter keep (sd_rows db));
           rows = (if sf_Offset flt > 0 then drop (nat (sf_Offset flt)) rows else rows)
       in Inr (if sf_Limit flt > 0 then take (nat (sf_Limit flt)) rows else rows))"

definition older_than :: "time \<Rightarrow> duration \<Rightarrow> ServerRecord \<Rightarrow> bool" where
  "older_than now d r = (case sr_LastHeartbeat r of None \<Rightarrow> False | Some t \<Rightarrow> t < now - d)"

definition heartbeat_order :: "ServerRecord \<Rightarrow> int" where
  "heartbeat_order r = (case sr_LastHeartbeat r of None \<Rightarrow> 0 | Some t \<Rightarrow> t)"

definition Store_ListStale :: "duration \<Rightarrow> ServerDB \<Rightarrow> store_error + ServerRecord list" where
  "Store_ListStale threshold db =
    (if threshold \<le> 0 then Inl ErrThreshold
     else if sd_fails db CallListStale then Inl ErrDatabase
     else Inr (sort_key heartbeat_order
            (filter (\<lambda>r. older_than (sd_now db) threshold r \<and> sr_Status r = StatusActive) (sd_rows db))))"

definition Store_ListExpired :: "duration \<Rightarrow> ServerDB \<Rightarrow> store_error + ServerRecord list" where
  "Store_ListExpired threshold db =
    (if threshold \<le> 0 then Inl ErrThreshold
     else if sd_fails db CallListExpired then Inl ErrDatabase
     else Inr (sort_key heartbeat_order
            (filter (\<lambda>r. older_than (sd_now db) (threshold * 3) r
                         \<and> (sr_Status r = StatusActive \<or> sr_Status r = StatusStale)) (sd_rows db))))"

section \<open>The invariant of the table\<close>

text \<open>Identifiers and SPIFFE identities are unique, leases start at one, and the enumerated columns hold
  what reading them back gives.\<close>

definition row_ok :: "ServerRecord \<Rightarrow> bool" where
  "row_ok r \<longleftrightarrow>
     1 \<le> sr_LeaseEpoch r \<and> (\<forall>s. sr_SyncState r \<noteq> SyncStateOther s)
     \<and> ServerStatus_of_string (ServerStatus_String (sr_Status r)) = sr_Status r
     \<and> TrimSpace (sr_CapabilityHash r) = sr_CapabilityHash r
     \<and> sr_RoutingStrategy r \<noteq> '''' \<and> sr_Protocol r \<noteq> ''''"

definition db_ok :: "ServerDB \<Rightarrow> bool" where
  "db_ok db \<longleftrightarrow>
     distinct (map sr_ID (sd_rows db)) \<and> distinct (map sr_SPIFFEID (sd_rows db))
     \<and> (\<forall>r\<in>set (sd_rows db). row_ok r)"

lemma written_columns_frame [simp]:
  "sr_ID (written_columns r) = sr_ID r" "sr_Name (written_columns r) = sr_Name r"
  "sr_SPIFFEID (written_columns r) = sr_SPIFFEID r" "sr_Host (written_columns r) = sr_Host r"
  "sr_Port (written_columns r) = sr_Port r" "sr_Capabilities (written_columns r) = sr_Capabilities r"
  "sr_LastHeartbeat (written_columns r) = sr_LastHeartbeat r" "sr_Version (written_columns r) = sr_Version r"
  "sr_PolicyProfile (written_columns r) = sr_PolicyProfile r"
  "sr_Status (written_columns r) = ServerStatus_of_string (ServerStatus_String (sr_Status r))"
  "sr_LeaseEpoch (written_columns r) = maxInt64 (sr_LeaseEpoch r) 1"
  "sr_CapabilityHash (written_columns r) = TrimSpace (sr_CapabilityHash r)"
  "sr_SyncState (written_columns r) = parseSyncState (normalizedSyncState (sr_SyncState r))"
  "sr_RoutingStrategy (written_columns r) = routingStrategyOrDefault (sr_RoutingStrategy r)"
  "sr_Protocol (written_columns r) = protocolOrDefault (sr_Protocol r)"
  by (simp_all add: written_columns_def)

lemma parseSyncState_known [simp]: "parseSyncState s \<noteq> SyncStateOther t"
  by (simp add: parseSyncState_def Let_def)

lemma columns_nonblank [simp]: "routingStrategyOrDefault s \<noteq> ''''" "protocolOrDefault s \<noteq> ''''"
  by (simp_all add: routingStrategyOrDefault_def protocolOrDefault_def Let_def)

lemma maxInt64_ge [simp]: "m \<le> maxInt64 v m"
  by (simp add: maxInt64_def)

lemma updated_by_ok: "row_ok (updated_by now record r)"
  by (simp add: row_ok_def updated_by_def)

lemma Store_Create_ok [inv_intros]:
  assumes "db_ok db" and "Store_Create dbid record db = (e, db')"
  shows "db_ok db'"
proof (cases e)
  case None
  with assms(2) obtain row where db': "db' = db\<lparr>sd_rows := sd_rows db @ [row]\<rparr>"
    and new: "\<forall>r\<in>set (sd_rows db). sr_ID r \<noteq> sr_ID row \<and> sr_SPIFFEID r \<noteq> sr_SPIFFEID row"
    and ok: "row_ok row"
    by (auto simp: Store_Create_def Let_def row_ok_def split: if_splits)
  then show ?thesis using assms(1) by (auto simp: db_ok_def)
next
  case (Some x)
  then show ?thesis using assms by (auto simp: Store_Create_def Let_def split: if_splits)
qed

lemma update_row_ok:
  assumes "db_ok db" and "\<And>r. r \<in> set (sd_rows db) \<Longrightarrow> sr_ID r = sid \<Longrightarrow> row_ok (f r) \<and> sr_ID (f r) = sid"
    and "\<And>r r'. r \<in> set (sd_rows db) \<Longrightarrow> sr_ID r = sid \<Longrightarrow> r' \<in> set (sd_rows db) \<Longrightarrow> sr_ID r' \<noteq> sid
          \<Longrightarrow> sr_SPIFFEID (f r) \<noteq> sr_SPIFFEID r'"
  shows "db_ok (update_row sid f db)"
proof -
  let ?g = "\<lambda>r. if sr_ID r = sid then f r else r"
  have inj: "inj_on sr_ID (set (sd_rows db))" "inj_on sr_SPIFFEID (set (sd_rows db))" "distinct (sd_rows db)"
    using assms(1) by (auto simp: db_ok_def distinct_map)
  have id: "map (sr_ID \<circ> ?g) (sd_rows db) = map sr_ID (sd_rows db)" using assms(2) by auto
  have "inj_on (sr_SPIFFEID \<circ> ?g) (set (sd_rows db))"
  proof (rule inj_onI)
    fix x y assume xy: "x \<in> set (sd_rows db)" "y \<in> set (sd_rows db)"
      and eq: "(sr_SPIFFEID \<circ> ?g) x = (sr_SPIFFEID \<circ> ?g) y"
    show "x = y"
    proof (cases "sr_ID x = sid"; cases "sr_ID y = sid")
      assume "sr_ID x = sid" "sr_ID y = sid" then show ?thesis using inj xy by (metis inj_onD)
    next
      assume "sr_ID x = sid" "sr_ID y \<noteq> sid" then show ?thesis using assms(3) xy eq by simp
    next
      assume "sr_ID x \<noteq> sid" "sr_ID y = sid" then show ?thesis using assms(3) [of y x] xy eq by simp
    next
      assume "sr_ID x \<noteq> sid" "sr_ID y \<noteq> sid" then show ?thesis using inj xy eq by (simp add: inj_on_def)
    qed
  qed
  with inj(3) have "distinct (map sr_SPIFFEID (map ?g (sd_rows db)))" by (simp add: distinct_map comp_inj_on_iff)
  moreover have "distinct (map sr_ID (map ?g (sd_rows db)))"
    unfolding map_map id using assms(1) by (simp add: db_ok_def)
  moreover have "\<forall>r\<in>set (map ?g (sd_rows db)). row_ok r" using assms(1,2) by (auto simp: db_ok_def)
  ultimately show ?thesis by (simp only: db_ok_def update_row_def ServerDB.select_convs ServerDB.update_convs) simp
qed

lemma Store_Update_ok [inv_intros]:
  assumes "db_ok db" and "Store_Update record db = (e, db')"
  shows "db_ok db'"
proof (cases e)
  case None
  with assms(2) have u: "db' = update_row (sr_ID record) (updated_by (sd_now db) record) db"
    and free: "\<not> ((\<exists>r\<in>set (sd_rows db). sr_ID r = sr_ID record)
          \<and> (\<exists>r\<in>set (sd_rows db). sr_ID r \<noteq> sr_ID record \<and> sr_SPIFFEID r = sr_SPIFFEID record))"
    by (auto simp: Store_Update_def split: if_splits)
  show ?thesis
    unfolding u
  proof (rule update_row_ok [OF assms(1)])
    fix r assume "r \<in> set (sd_rows db)" "sr_ID r = sr_ID record"
    then show "row_ok (updated_by (sd_now db) record r) \<and> sr_ID (updated_by (sd_now db) record r) = sr_ID record"
      by (simp add: updated_by_ok) (simp add: updated_by_def)
  next
    fix r r' assume "r \<in> set (sd_rows db)" "sr_ID r = sr_ID record" "r' \<in> set (sd_rows db)" "sr_ID r' \<noteq> sr_ID record"
    then show "sr_SPIFFEID (updated_by (sd_now db) record r) \<noteq> sr_SPIFFEID r'"
      using free by (auto simp: updated_by_def)
  qed
next
  case (Some x)
  then show ?thesis using assms by (auto simp: Store_Update_def split: if_splits)
qed

lemma update_column_ok:
  assumes "db_ok db" and "\<And>r. row_ok r \<Longrightarrow> row_ok (f r) \<and> sr_ID (f r) = sr_ID r \<and> sr_SPIFFEID (f r) = sr_SPIFFEID r"
  shows "db_ok (update_row sid f db)"
proof (rule update_row_ok [OF assms(1)])
  fix r r' assume r: "r \<in> set (sd_rows db)" "sr_ID r = sid"
  with assms show "row_ok (f r) \<and> sr_ID (f r) = sid" by (auto simp: db_ok_def)
  assume "r' \<in> set (sd_rows db)" "sr_ID r' \<noteq> sid"
  with r assms show "sr_SPIFFEID (f r) \<noteq> sr_SPIFFEID r'"
    by (metis (no_types, lifting) db_ok_def distinct_map inj_onD)
qed

lemma Store_UpdateStatus_ok [inv_intros]:
  "db_ok db \<Longrightarrow> Store_UpdateStatus sid st db = (e, db') \<Longrightarrow> db_ok db'"
  by (auto simp: Store_UpdateStatus_def split: if_splits intro!: update_column_ok) (simp_all add: row_ok_def)

lemma Store_UpdateHeartbeat_ok [inv_intros]:
  "db_ok db \<Longrightarrow> Store_UpdateHeartbeat sid db = (e, db') \<Longrightarrow> db_ok db'"
  by (auto simp: Store_UpdateHeartbeat_def split: if_splits intro!: update_column_ok) (simp_all add: row_ok_def)

lemma Store_UpdateRateLimit_ok [inv_intros]:
  "db_ok db \<Longrightarrow> Store_UpdateRateLimit sid l b db = (e, db') \<Longrightarrow> db_ok db'"
  by (auto simp: Store_UpdateRateLimit_def split: if_splits intro!: update_column_ok) (simp_all add: row_ok_def)

lemma Store_Delete_ok [inv_intros]:
  "db_ok db \<Longrightarrow> Store_Delete sid db = (e, db') \<Longrightarrow> db_ok db'"
  by (auto simp: Store_Delete_def db_ok_def distinct_map_filter split: if_splits)

end
