(* ===== verification/Classification.thy ===== *)
theory Classification
  imports Gateway_Types
begin

text \<open>
  \<open>internal/policy/classification.go\<close>, \<open>classification_cache.go\<close> and
  \<open>internal/store/tool_classification_store.go\<close>: the automatic risk classification of tools by name and
  description, the cache of classifications with its expiry, and the table of classifications.
\<close>

section \<open>Automatic classification\<close>

definition destructiveKeywords :: "string list" where
  "destructiveKeywords =
    [''delete'', ''remove'', ''destroy'', ''drop'', ''purge'', ''erase'', ''wipe'', ''truncate'',
     ''kill'', ''terminate'', ''revoke'', ''force'']"

definition writeKeywords :: "string list" where
  "writeKeywords =
    [''create'', ''update'', ''set'', ''put'', ''post'', ''write'', ''add'', ''insert'',
     ''modify'', ''patch'', ''upload'', ''push'', ''send'', ''publish'', ''assign'',
     ''enable'', ''disable'', ''configure'', ''deploy'', ''start'', ''stop'', ''restart'']"

definition readOnlyKeywords :: "string list" where
  "readOnlyKeywords =
    [''get'', ''list'', ''read'', ''describe'', ''show'', ''fetch'', ''query'', ''search'',
     ''find'', ''view'', ''inspect'', ''check'', ''status'', ''info'', ''count'', ''exists'',
     ''download'', ''export'', ''head'', ''ping'', ''health'', ''version'']"

text \<open>The first keyword equal to a token, token by token; empty if there is none.\<close>

fun classifyByName :: "string list \<Rightarrow> string list \<Rightarrow> string" where
  "classifyByName [] keywords = ''''"
| "classifyByName (token # tokens) keywords =
    (if token \<in> set keywords then token else classifyByName tokens keywords)"

definition classifyByDescription :: "string \<Rightarrow> string list \<Rightarrow> string" where
  "classifyByDescription desc keywords =
    (case find (\<lambda>k. Contains desc k) keywords of Some k \<Rightarrow> k | None \<Rightarrow> '''')"

definition nameClassificationRules :: "(string list \<times> RiskLevel \<times> string) list" where
  "nameClassificationRules =
    [(destructiveKeywords, RiskDestructive, ''destructive''),
     (readOnlyKeywords, RiskReadOnly, ''read-only''),
     (writeKeywords, RiskWrite, ''write'')]"

fun first_rule :: "(string list \<Rightarrow> string) \<Rightarrow> string \<Rightarrow> (string list \<times> RiskLevel \<times> string) list
    \<Rightarrow> (RiskLevel \<times> string) option" where
  "first_rule keyword_of what [] = None"
| "first_rule keyword_of what ((keywords, level, label) # rules) =
    (let keyword = keyword_of keywords
     in if keyword \<noteq> '''' then Some (level, what @ '' contains '' @ label @ '' keyword: '' @ keyword)
        else first_rule keyword_of what rules)"

definition splitToolName :: "string \<Rightarrow> string list" where
  "splitToolName name =
    (let normalized = ToLower (TrimSpace name);
         replaced = map (\<lambda>c. if c \<in> {CHR ''.'', CHR ''_'', CHR ''-'', CHR ''/''} then CHR '' '' else c) normalized
     in filter (\<lambda>t. t \<noteq> '''') (map TrimSpace (Fields replaced)))"

definition AutoClassify :: "string \<Rightarrow> string \<Rightarrow> RiskLevel \<times> string" where
  "AutoClassify toolName toolDescription =
    (let tokens = splitToolName toolName
     in case first_rule (classifyByName tokens) ''name'' nameClassificationRules of
          Some r \<Rightarrow> r
        | None \<Rightarrow>
            (let desc = ToLower (TrimSpace toolDescription);
                 none = (RiskUnknown, ''no classification keywords found'')
             in if desc = '''' then none
                else case first_rule (classifyByDescription desc) ''description'' nameClassificationRules of
                       Some r \<Rightarrow> r
                     | None \<Rightarrow> none))"

section \<open>The cache\<close>

record cacheEntry =
  ce_classification :: ToolClassification
  ce_expiresAt :: time

record ClassificationCache =
  cc_entries :: "(string, cacheEntry) gomap"
  cc_ttl :: duration

definition NewClassificationCache :: "duration \<Rightarrow> ClassificationCache" where
  "NewClassificationCache ttl = \<lparr>cc_entries = [], cc_ttl = (if ttl \<le> 0 then 5 * Minute else ttl)\<rparr>"

definition Cache_Get :: "time \<Rightarrow> string \<Rightarrow> ClassificationCache \<Rightarrow> ToolClassification option \<times> ClassificationCache" where
  "Cache_Get now toolName c =
    (case map_of (cc_entries c) toolName of
       None \<Rightarrow> (None, c)
     | Some e \<Rightarrow>
         if now > ce_expiresAt e then (None, c\<lparr>cc_entries := mdel toolName (cc_entries c)\<rparr>)
         else (Some (ce_classification e), c))"

definition Cache_Set :: "time \<Rightarrow> string \<Rightarrow> ToolClassification \<Rightarrow> ClassificationCache \<Rightarrow> ClassificationCache" where
  "Cache_Set now toolName tc c =
    c\<lparr>cc_entries := mput toolName \<lparr>ce_classification = tc, ce_expiresAt = now + cc_ttl c\<rparr> (cc_entries c)\<rparr>"

definition Cache_Invalidate :: "string \<Rightarrow> ClassificationCache \<Rightarrow> ClassificationCache" where
  "Cache_Invalidate toolName c = c\<lparr>cc_entries := mdel toolName (cc_entries c)\<rparr>"

definition Cache_InvalidateAll :: "ClassificationCache \<Rightarrow> ClassificationCache" where
  "Cache_InvalidateAll c = c\<lparr>cc_entries := []\<rparr>"

section \<open>The table\<close>

text \<open>The table of classifications, keyed by tool name; \<open>fails\<close> tells for which tool the database
  reports an error.\<close>

record ClassificationStore =
  cs_rows :: "(string, ToolClassification) gomap"
  cs_fails :: "string \<Rightarrow> bool"

definition Classification_Get :: "string \<Rightarrow> ClassificationStore \<Rightarrow> unit + ToolClassification option" where
  "Classification_Get toolName s =
    (let k = TrimSpace toolName in if cs_fails s k then Inl () else Inr (map_of (cs_rows s) k))"

definition Classification_Upsert :: "ToolClassification \<Rightarrow> ClassificationStore \<Rightarrow> bool \<times> ClassificationStore" where
  "Classification_Upsert tc s =
    (let k = TrimSpace (tc_ToolName tc)
     in if cs_fails s k then (False, s)
        else (True, s\<lparr>cs_rows := mput k (tc\<lparr>tc_ToolName := k\<rparr>) (cs_rows s)\<rparr>))"

definition Classification_Delete :: "string \<Rightarrow> ClassificationStore \<Rightarrow> bool \<times> ClassificationStore" where
  "Classification_Delete toolName s =
    (let k = TrimSpace toolName
     in if cs_fails s k then (False, s) else (True, s\<lparr>cs_rows := mdel k (cs_rows s)\<rparr>))"

definition DeleteNotIn :: "string list \<Rightarrow> ClassificationStore \<Rightarrow> int \<times> ClassificationStore" where
  "DeleteNotIn activeToolNames s =
    (let normalized = filter (\<lambda>n. n \<noteq> '''') (map TrimSpace activeToolNames);
         kept = (if normalized = [] then [] else filter (\<lambda>(k, v). k \<in> set normalized) (cs_rows s))
     in (int (length (cs_rows s)) - int (length kept), s\<lparr>cs_rows := kept\<rparr>))"

section \<open>Lemmas\<close>

lemma classifyByName_hit:
  "'''' \<notin> set keywords \<Longrightarrow> classifyByName tokens keywords \<noteq> '''' \<longleftrightarrow> (\<exists>t\<in>set tokens. t \<in> set keywords)"
  by (induction tokens) auto

lemma classifyByName_in: "classifyByName tokens keywords \<noteq> '''' \<Longrightarrow> classifyByName tokens keywords \<in> set keywords"
  by (induction tokens) auto

lemma keywords_nonblank:
  "'''' \<notin> set destructiveKeywords" "'''' \<notin> set readOnlyKeywords" "'''' \<notin> set writeKeywords"
  by (simp_all add: destructiveKeywords_def readOnlyKeywords_def writeKeywords_def)

lemma AutoClassify_by_name:
  "fst (AutoClassify name desc) =
    (if \<exists>t\<in>set (splitToolName name). t \<in> set destructiveKeywords then RiskDestructive
     else if \<exists>t\<in>set (splitToolName name). t \<in> set readOnlyKeywords then RiskReadOnly
     else if \<exists>t\<in>set (splitToolName name). t \<in> set writeKeywords then RiskWrite
     else let d = ToLower (TrimSpace desc)
          in if d = '''' then RiskUnknown
             else if \<exists>k\<in>set destructiveKeywords. Contains d k then RiskDestructive
             else if \<exists>k\<in>set readOnlyKeywords. Contains d k then RiskReadOnly
             else if \<exists>k\<in>set writeKeywords. Contains d k then RiskWrite
             else RiskUnknown)"
proof -
  note hit = keywords_nonblank [THEN classifyByName_hit, of "splitToolName name"]
  have desc: "classifyByDescription d ks \<noteq> '''' \<longleftrightarrow> (\<exists>k\<in>set ks. Contains d k)" if "'''' \<notin> set ks" for d ks
    using that by (auto simp: classifyByDescription_def find_None_iff find_Some_iff split: option.splits) (metis nth_mem)
  show ?thesis
    unfolding AutoClassify_def nameClassificationRules_def Let_def first_rule.simps
    using hit keywords_nonblank [THEN desc, of "ToLower (TrimSpace desc)"] by (auto split: if_splits)
qed

section \<open>Properties\<close>

text \<open>Automatic classification errs on the safe side for destructive names: a tool is classified as
  destructive whenever a word of its name is a destructive keyword, whatever else its name or its
  description says; it is classified read-only by name only if no word of the name is destructive; and a
  description never lowers the level that the name determines.\<close>

theorem AutoClassify_destructive_first:
  "((\<exists>t\<in>set (splitToolName name). t \<in> set destructiveKeywords)
      = (fst (AutoClassify name '''') = RiskDestructive))
   \<and> (fst (AutoClassify name '''') \<noteq> RiskUnknown \<longrightarrow> fst (AutoClassify name desc) = fst (AutoClassify name ''''))
   \<and> (fst (AutoClassify name '''') = RiskReadOnly \<longrightarrow>
        (\<exists>t\<in>set (splitToolName name). t \<in> set readOnlyKeywords)
        \<and> \<not> (\<exists>t\<in>set (splitToolName name). t \<in> set destructiveKeywords))"
proof -
  have "ToLower '''' = ''''" by (simp add: ToLower_def)
  then show ?thesis
    by (simp only: AutoClassify_by_name Let_def TrimSpace_Nil) (auto split: if_splits)
qed

theorem AutoClassify_destructive_first_witness:
  "fst (AutoClassify ''get.delete_pod'' ''lists pods'') = RiskDestructive"
proof -
  have "fst (AutoClassify ''get.delete_pod'' '''') = RiskDestructive" by code_simp
  then show ?thesis using AutoClassify_destructive_first [of "''get.delete_pod''" "''lists pods''"] by auto
qed

text \<open>The cache never serves an entry past its time to live, and an invalidated entry not at all.\<close>

lemma Cache_Get_fresh:
  "Cache_Get now k (Cache_Set t k tc c) = (Some tc, Cache_Set t k tc c) \<longleftrightarrow> now \<le> t + cc_ttl c"
  by (auto simp: Cache_Get_def Cache_Set_def)

lemma Cache_Get_invalidated: "fst (Cache_Get now k (Cache_Invalidate k c)) = None"
  by (simp add: Cache_Get_def Cache_Invalidate_def)

end
