(* ===== verification/Registration_Service.thy ===== *)
theory Registration_Service
  imports Registration_Request Capability_Index Server_Store Classification Identity_Auth
begin

text \<open>
  \<open>internal/registration\<close>: the service that registers servers, takes their heartbeats, refreshes their
  capabilities and removes them (\<open>service.go\<close>, \<open>heartbeat.go\<close>, \<open>refresh.go\<close>), the sweeper that ages them
  (\<open>sweeper.go\<close>), and the subscriber that applies broadcasts to the capability index
  (\<open>subscriber.go\<close>).

  The state of the service is its database, its capability index, its settings, and what it has emitted:
  audit entries, lifecycle events and broadcasts, in order.  The outside world of one call is \<open>reg_env\<close>:
  the clock, the identifier \<open>newUUID\<close> draws, the one the database would draw, \<open>url.Parse\<close>, and the digest
  of a capability list.
\<close>

section \<open>State\<close>

record Config =
  cf_RateDefault :: int
  cf_RateBurst :: int
  cf_HeartbeatTTL :: duration
  cf_CapabilityRefreshEnabled :: bool
  cf_SPIFFEAllowList :: "string list"

datatype lifecycle_event =
    ServerRegistered ServerRecord
  | ServerDeregistered string string string
  | ServerHealthChanged string string ServerStatus ServerStatus

datatype broadcast =
    RegistryUpdated string string
  | ClassificationUpdated string string string
  | CapabilitiesChanged string string int

record Service =
  sv_db :: ServerDB
  sv_index :: "CapabilityIndex option"
  sv_config :: "Config option"
  sv_hasAudit :: bool
  sv_hasPublisher :: bool
  sv_hasBroadcaster :: bool
  sv_classifications :: "ClassificationStore option"
  sv_toolLister :: "(ServerRecord \<Rightarrow> string list option) option"
  sv_spiffeAllowList :: "string list"
  sv_settingsVersion :: int
  sv_effectiveSettings :: "(string, (string, json) gomap) gomap"
  sv_audit :: "AuditEntry list"
  sv_events :: "lifecycle_event list"
  sv_broadcasts :: "broadcast list"
  sv_gauge :: "ServerStatus \<Rightarrow> int"

record reg_env =
  rv_now :: time
  rv_newUUID :: string
  rv_dbUUID :: string
  rv_urlParse :: "string \<Rightarrow> URL option"
  rv_digest :: "Capability \<Rightarrow> string"

datatype svc_error = ErrInvalidRequest | ErrUnauthorized | ErrForbidden | ErrNotFound | ErrStore

section \<open>Helpers\<close>

definition copyStringSlice :: "string list \<Rightarrow> string list" where
  "copyStringSlice values = filter (\<lambda>v. v \<noteq> '''') (map TrimSpace values)"

definition NewService :: "ServerDB \<Rightarrow> bool \<Rightarrow> Config option \<Rightarrow> Service" where
  "NewService db hasAudit cfg =
    \<lparr> sv_db = db, sv_index = None, sv_config = cfg, sv_hasAudit = hasAudit, sv_hasPublisher = False,
      sv_hasBroadcaster = False, sv_classifications = None, sv_toolLister = None,
      sv_spiffeAllowList = copyStringSlice (case cfg of None \<Rightarrow> [] | Some c \<Rightarrow> cf_SPIFFEAllowList c),
      sv_settingsVersion = 0, sv_effectiveSettings = [], sv_audit = [], sv_events = [], sv_broadcasts = [],
      sv_gauge = (\<lambda>st. 0) \<rparr>"

definition UpdateSPIFFEAllowList :: "string list \<Rightarrow> Service \<Rightarrow> Service" where
  "UpdateSPIFFEAllowList allowed s = s\<lparr>sv_spiffeAllowList := copyStringSlice allowed\<rparr>"

text \<open>\<open>cloneSettings\<close> copies a settings map and drops blank keys, recursively through maps and through
  maps that are items of a list; a key that trims to an earlier one replaces it.\<close>

fun cloneSettings :: "(string \<times> json) list \<Rightarrow> (string \<times> json) list"
  and clone_value :: "json \<Rightarrow> json"
  and clone_item :: "json \<Rightarrow> json"
  and clone_items :: "json list \<Rightarrow> json list" where
  "cloneSettings [] = []"
| "cloneSettings ((k, v) # rest) =
    (let out = cloneSettings rest; key = TrimSpace k
     in if key = '''' then out else if key \<in> fst ` set out then out else (key, clone_value v) # out)"
| "clone_value (JObj m) = JObj (cloneSettings m)"
| "clone_value (JArr items) = JArr (clone_items items)"
| "clone_value v = v"
| "clone_item (JObj m) = JObj (cloneSettings m)"
| "clone_item v = v"
| "clone_items [] = []"
| "clone_items (v # vs) = clone_item v # clone_items vs"

definition UpdateEffectiveSettings ::
  "int \<Rightarrow> (string, (string, json) gomap) gomap \<Rightarrow> Service \<Rightarrow> bool \<times> Service" where
  "UpdateEffectiveSettings configVersion settingsByServer s =
    (if configVersion \<le> 0 then (False, s)
     else if configVersion < sv_settingsVersion s then (False, s)
     else let next = foldl (\<lambda>m (serverName, settings).
                let name = TrimSpace serverName
                in if name = '''' then m else mput name (cloneSettings settings) m) [] settingsByServer
          in (True, s\<lparr>sv_settingsVersion := configVersion, sv_effectiveSettings := next\<rparr>))"

definition effectiveSettingsForServer :: "string \<Rightarrow> Service \<Rightarrow> int \<times> (string, json) gomap" where
  "effectiveSettingsForServer serverName s =
    (case map_of (sv_effectiveSettings s) (TrimSpace serverName) of
       Some settings \<Rightarrow> (sv_settingsVersion s, cloneSettings settings)
     | None \<Rightarrow> (sv_settingsVersion s, []))"

definition defaultPolicyProfile :: "Config option \<Rightarrow> PolicyProfile" where
  "defaultPolicyProfile cfg =
    \<lparr> pp_Name = ''default'',
      pp_RateLimit = (case cfg of Some c \<Rightarrow> if cf_RateDefault c > 0 then cf_RateDefault c else 10 | None \<Rightarrow> 10),
      pp_RateBurst = (case cfg of Some c \<Rightarrow> if cf_RateBurst c > 0 then cf_RateBurst c else 20 | None \<Rightarrow> 20),
      pp_ToolAllowlist = [], pp_ToolDenylist = [], pp_EnforcementMode = ModeEnforce \<rparr>"

definition heartbeatIntervalSeconds :: "Config option \<Rightarrow> int" where
  "heartbeatIntervalSeconds cfg =
    (case cfg of
       None \<Rightarrow> 30
     | Some c \<Rightarrow>
         if cf_HeartbeatTTL c \<le> 0 then 30
         else let seconds = cf_HeartbeatTTL c div Second in if seconds \<le> 0 then 1 else seconds)"

definition normalizedListenProtocol :: "string \<Rightarrow> string" where
  "normalizedListenProtocol raw =
    (let protocol = ToLower (TrimSpace raw)
     in if protocol = ''http'' \<or> protocol = ''https'' then protocol else ''https'')"

definition nextLeaseEpoch :: "int \<Rightarrow> int" where
  "nextLeaseEpoch current = (if current \<le> 0 then 1 else int64 (current + 1))"

text \<open>The digest stands for SHA-256 of the JSON encoding, in hexadecimal.\<close>

definition hashCapabilities :: "(Capability \<Rightarrow> string) \<Rightarrow> Capability \<Rightarrow> string" where
  "hashCapabilities digest cap =
    digest \<lparr>cap_Tools = sort (cap_Tools cap), cap_Resources = sort (cap_Resources cap),
            cap_Prompts = sort (cap_Prompts cap)\<rparr>"

definition AddActiveRegistrations :: "ServerStatus \<Rightarrow> int \<Rightarrow> Service \<Rightarrow> Service" where
  "AddActiveRegistrations st n s = s\<lparr>sv_gauge := (sv_gauge s)(st := sv_gauge s st + n)\<rparr>"

definition logAudit :: "AuditEntry \<Rightarrow> Service \<Rightarrow> Service" where
  "logAudit e s = (if sv_hasAudit s then s\<lparr>sv_audit := sv_audit s @ [e]\<rparr> else s)"

definition publish :: "lifecycle_event \<Rightarrow> Service \<Rightarrow> Service" where
  "publish e s = (if sv_hasPublisher s then s\<lparr>sv_events := sv_events s @ [e]\<rparr> else s)"

definition send_broadcast :: "broadcast \<Rightarrow> Service \<Rightarrow> Service" where
  "send_broadcast b s = (if sv_hasBroadcaster s then s\<lparr>sv_broadcasts := sv_broadcasts s @ [b]\<rparr> else s)"

definition publishBroadcast :: "string \<Rightarrow> string \<Rightarrow> Service \<Rightarrow> Service" where
  "publishBroadcast eventType serverID s = send_broadcast (RegistryUpdated eventType serverID) s"

section \<open>Classification of new tools\<close>

definition classify_tool :: "time \<Rightarrow> string \<Rightarrow> Service \<Rightarrow> string \<Rightarrow> Service" where
  "classify_tool now callerID s toolName =
    (let name = TrimSpace toolName
     in case sv_classifications s of
          None \<Rightarrow> s
        | Some cs \<Rightarrow>
            if name = '''' then s
            else case Classification_Get name cs of
                   Inl _ \<Rightarrow> s
                 | Inr existing \<Rightarrow>
                     if (case existing of Some tc \<Rightarrow> \<not> tc_AutoClassified tc | None \<Rightarrow> False) then s
                     else let (riskLevel, reason) = AutoClassify name '''';
                              tc = \<lparr>tc_ToolName = name, tc_RiskLevel = riskLevel, tc_Reason = reason,
                                    tc_AutoClassified = True, tc_UpdatedBy = callerID, tc_UpdatedAt = now\<rparr>
                          in case Classification_Upsert tc cs of
                               (False, _) \<Rightarrow> s
                             | (True, cs') \<Rightarrow>
                                 send_broadcast (ClassificationUpdated name (RiskLevel_String riskLevel) callerID)
                                   (s\<lparr>sv_classifications := Some cs'\<rparr>))"

definition classifyNewTools :: "time \<Rightarrow> Capability \<Rightarrow> string \<Rightarrow> Service \<Rightarrow> Service" where
  "classifyNewTools now cap callerID s = foldl (classify_tool now callerID) s (cap_Tools cap)"

definition SyncClassifications :: "time \<Rightarrow> ServerRecord list \<Rightarrow> Service \<Rightarrow> Service" where
  "SyncClassifications now servers s =
    (if sv_classifications s = None then s
     else foldl (\<lambda>s srv. classifyNewTools now (sr_Capabilities srv) (sr_SPIFFEID srv) s) s servers)"

section \<open>Register\<close>

record RegistrationResponse =
  rr_InstanceID :: string
  rr_RegistrationID :: string
  rr_LeaseEpoch :: int
  rr_CapabilityHash :: string
  rr_SyncState :: RegistrationSyncState
  rr_LastPlatformAckVersion :: string
  rr_PolicySnapshot :: PolicyProfile
  rr_HeartbeatIntervalSeconds :: int
  rr_ConfigVersion :: int
  rr_EffectiveSettings :: "(string, json) gomap"
  rr_Status :: ServerStatus

definition new_record :: "reg_env \<Rightarrow> Config option \<Rightarrow> Identity \<Rightarrow> RegistrationRequest \<Rightarrow> ServerRecord" where
  "new_record R cfg caller req =
    zero_ServerRecord\<lparr>
      sr_ID := rv_newUUID R,
      sr_Name := TrimSpace (rg_ServiceName req),
      sr_SPIFFEID := id_ID caller,
      sr_Version := TrimSpace (rg_Version req),
      sr_Host := TrimSpace (lc_Host (rg_Listen req)),
      sr_Port := lc_Port (rg_Listen req),
      sr_Protocol := normalizedListenProtocol (lc_Protocol (rg_Listen req)),
      sr_Capabilities := rg_Capabilities req,
      sr_Status := StatusActive,
      sr_PolicyProfile := pp_Name (defaultPolicyProfile cfg),
      sr_LeaseEpoch := 1,
      sr_CapabilityHash := hashCapabilities (rv_digest R) (rg_Capabilities req),
      sr_SyncState := SyncStateUnacked,
      sr_CreatedAt := rv_now R,
      sr_UpdatedAt := rv_now R \<rparr>"

definition postRegister :: "reg_env \<Rightarrow> string \<Rightarrow> ServerRecord \<Rightarrow> Capability \<Rightarrow> Service \<Rightarrow> Service" where
  "postRegister R callerID record capabilities s =
    (let s1 = logAudit \<lparr>ae_EventType = ''server.registered'', ae_ClientID = callerID, ae_Username = '''',
                 ae_ServerName = sr_Name record,
                 ae_Details = [(''server_id'', JStr (sr_ID record)), (''spiffe_id'', JStr (sr_SPIFFEID record))]\<rparr> s;
         s2 = publish (ServerRegistered record) s1;
         s3 = publishBroadcast ''registered'' (sr_ID record) s2
     in classifyNewTools (rv_now R) capabilities callerID s3)"

definition registration_response :: "Service \<Rightarrow> ServerRecord \<Rightarrow> RegistrationResponse" where
  "registration_response s record =
    (let (version, settings) = effectiveSettingsForServer (sr_Name record) s
     in \<lparr> rr_InstanceID = sr_ID record, rr_RegistrationID = sr_ID record, rr_LeaseEpoch = sr_LeaseEpoch record,
          rr_CapabilityHash = sr_CapabilityHash record, rr_SyncState = sr_SyncState record,
          rr_LastPlatformAckVersion = sr_LastPlatformAckVersion record,
          rr_PolicySnapshot = defaultPolicyProfile (sv_config s),
          rr_HeartbeatIntervalSeconds = heartbeatIntervalSeconds (sv_config s),
          rr_ConfigVersion = version, rr_EffectiveSettings = settings, rr_Status = sr_Status record \<rparr>)"

text \<open>The write of \<open>Register\<close>: update the row of the caller's identity, or create one.\<close>

definition store_registration ::
  "reg_env \<Rightarrow> ServerRecord \<Rightarrow> Service \<Rightarrow> (svc_error + ServerRecord) \<times> Service" where
  "store_registration R record s =
    (case Store_GetBySPIFFEID (sr_SPIFFEID record) (sv_db s) of
       Inr existing \<Rightarrow>
         (let record = record\<lparr>sr_ID := sr_ID existing, sr_CreatedAt := sr_CreatedAt existing,
                              sr_LeaseEpoch := nextLeaseEpoch (sr_LeaseEpoch existing)\<rparr>
          in case Store_Update record (sv_db s) of
               (Some e, db) \<Rightarrow> (Inl ErrStore, s\<lparr>sv_db := db\<rparr>)
             | (None, db) \<Rightarrow> (Inr record, s\<lparr>sv_db := db\<rparr>))
     | Inl ErrNoRows \<Rightarrow>
         (case Store_Create (rv_dbUUID R) record (sv_db s) of
            (Some e, db) \<Rightarrow> (Inl ErrStore, s\<lparr>sv_db := db\<rparr>)
          | (None, db) \<Rightarrow> (Inr record, AddActiveRegistrations (sr_Status record) 1 (s\<lparr>sv_db := db\<rparr>)))
     | Inl e \<Rightarrow> (Inl ErrStore, s))"

definition Register ::
  "reg_env \<Rightarrow> Identity option \<Rightarrow> RegistrationRequest \<Rightarrow> Service \<Rightarrow> (svc_error + RegistrationResponse) \<times> Service" where
  "Register R caller req s =
    (case caller of
       None \<Rightarrow> (Inl ErrUnauthorized, s)
     | Some c \<Rightarrow>
         if id_Type c \<noteq> IdentityMTLS then (Inl ErrUnauthorized, s)
         else if Validate req \<noteq> None then (Inl ErrInvalidRequest, s)
         else if \<not> ValidateSPIFFEID (rv_urlParse R) (id_ID c) (copyStringSlice (sv_spiffeAllowList s))
         then (Inl ErrForbidden, s)
         else (case store_registration R (new_record R (sv_config s) c req) s of
                 (Inl e, s1) \<Rightarrow> (Inl e, s1)
               | (Inr record, s1) \<Rightarrow>
                   (let s2 = postRegister R (id_ID c) record (rg_Capabilities req) s1
                    in (Inr (registration_response s2 record), s2))))"

section \<open>Acknowledge, list, deregister\<close>

definition AcknowledgeServerRegistration ::
  "reg_env \<Rightarrow> string \<Rightarrow> int \<Rightarrow> string \<Rightarrow> string \<Rightarrow> time option \<Rightarrow> Service \<Rightarrow> svc_error option \<times> Service" where
  "AcknowledgeServerRegistration R registrationID leaseEpoch capabilityHash ackVersion ackedAt s =
    (if TrimSpace registrationID = '''' then (Some ErrInvalidRequest, s)
     else if leaseEpoch \<le> 0 then (Some ErrInvalidRequest, s)
     else let ackTime = (case ackedAt of None \<Rightarrow> rv_now R | Some t \<Rightarrow> t)
          in case Store_AcknowledgeRegistration registrationID leaseEpoch capabilityHash ackVersion ackTime (sv_db s) of
               (None, db) \<Rightarrow> (None, s\<lparr>sv_db := db\<rparr>)
             | (Some ErrNoRows, db) \<Rightarrow> (Some ErrNotFound, s\<lparr>sv_db := db\<rparr>)
             | (Some e, db) \<Rightarrow> (Some ErrStore, s\<lparr>sv_db := db\<rparr>))"

definition Service_List :: "ServerFilter \<Rightarrow> Service \<Rightarrow> svc_error + ServerRecord list" where
  "Service_List flt s = (case Store_List flt (sv_db s) of Inl e \<Rightarrow> Inl ErrStore | Inr rows \<Rightarrow> Inr rows)"

definition Deregister :: "Identity option \<Rightarrow> string \<Rightarrow> Service \<Rightarrow> svc_error option \<times> Service" where
  "Deregister caller sid s =
    (if TrimSpace sid = '''' then (Some ErrInvalidRequest, s)
     else case caller of
       None \<Rightarrow> (Some ErrUnauthorized, s)
     | Some c \<Rightarrow>
         (case Store_Get sid (sv_db s) of
            Inl ErrNoRows \<Rightarrow> (Some ErrNotFound, s)
          | Inl e \<Rightarrow> (Some ErrStore, s)
          | Inr record \<Rightarrow>
              if \<not> HasScope caller ''admin'' \<and> \<not> (id_Type c = IdentityMTLS \<and> id_ID c = sr_SPIFFEID record)
              then (Some ErrForbidden, s)
              else (case Store_Delete sid (sv_db s) of
                      (Some e, db) \<Rightarrow> (Some ErrStore, s\<lparr>sv_db := db\<rparr>)
                    | (None, db) \<Rightarrow>
                        (let s1 = AddActiveRegistrations (sr_Status record) (-1) (s\<lparr>sv_db := db\<rparr>);
                             s2 = logAudit \<lparr>ae_EventType = ''server.deregistered'', ae_ClientID = id_ID c,
                                    ae_Username = '''', ae_ServerName = sr_Name record,
                                    ae_Details = [(''server_id'', JStr (sr_ID record)),
                                                  (''spiffe_id'', JStr (sr_SPIFFEID record))]\<rparr> s1;
                             s3 = publish (ServerDeregistered (sr_ID record) (sr_Name record) ''deregistered'') s2
                         in (None, publishBroadcast ''deregistered'' (sr_ID record) s3)))))"

section \<open>Capability refresh\<close>

text \<open>What \<open>RefreshServer\<close> of the index reads from the store.\<close>

definition get_row :: "ServerDB \<Rightarrow> string \<Rightarrow> ServerRecord option" where
  "get_row db sid = (case Store_Get sid db of Inr r \<Rightarrow> Some r | Inl e \<Rightarrow> None)"

definition RefreshCapabilities :: "ServerRecord \<Rightarrow> string \<Rightarrow> Service \<Rightarrow> string list option \<times> Service" where
  "RefreshCapabilities server newHash s =
    (case (sv_index s, sv_toolLister s) of
       (Some index, Some lister) \<Rightarrow>
         (case lister server of
            None \<Rightarrow> (None, s)
          | Some toolNames \<Rightarrow>
              (let server1 = server\<lparr>sr_CapabilityHash := newHash,
                                    sr_Capabilities := (sr_Capabilities server)\<lparr>cap_Tools := toolNames\<rparr>\<rparr>
               in case Store_Update server1 (sv_db s) of
                    (Some e, db) \<Rightarrow> (None, s\<lparr>sv_db := db\<rparr>)
                  | (None, db) \<Rightarrow>
                      (let serverID = TrimSpace (sr_ID server);
                           index1 = snd (RefreshServer (get_row db) serverID index);
                           s1 = s\<lparr>sv_db := db, sv_index := Some index1\<rparr>
                       in (Some toolNames,
                           send_broadcast (CapabilitiesChanged serverID newHash (int (length toolNames))) s1))))
     | _ \<Rightarrow> (None, s))"

definition Service_RefreshCapabilities :: "string \<Rightarrow> Service \<Rightarrow> string list option \<times> Service" where
  "Service_RefreshCapabilities serverID s =
    (case Store_Get serverID (sv_db s) of
       Inl e \<Rightarrow> (None, s)
     | Inr record \<Rightarrow> RefreshCapabilities record (sr_CapabilityHash record) s)"

section \<open>Heartbeat\<close>

record HeartbeatRequest =
  hb_RegistrationID :: string
  hb_LeaseEpoch :: int
  hb_CapabilityHash :: string

datatype HeartbeatAction = ActionNone | ActionReRegister | ActionResendCapabilities

record HeartbeatResponse =
  hs_ServerStatus :: ServerStatus
  hs_NextDeadline :: time
  hs_LeaseEpoch :: int
  hs_SyncState :: RegistrationSyncState
  hs_Action :: HeartbeatAction
  hs_CapabilityHash :: string
  hs_ConfigVersion :: int
  hs_EffectiveSettings :: "(string, json) gomap"

definition lookupHeartbeatRecord :: "Identity \<Rightarrow> string \<Rightarrow> Service \<Rightarrow> svc_error + ServerRecord" where
  "lookupHeartbeatRecord caller sid s =
    (case Store_Get sid (sv_db s) of
       Inl ErrNoRows \<Rightarrow> Inl ErrNotFound
     | Inl e \<Rightarrow> Inl ErrStore
     | Inr record \<Rightarrow> if id_ID caller \<noteq> sr_SPIFFEID record then Inl ErrForbidden else Inr record)"

definition resolveHeartbeatAction :: "HeartbeatRequest \<Rightarrow> ServerRecord \<Rightarrow> HeartbeatAction" where
  "resolveHeartbeatAction req record =
    (let requested = TrimSpace (hb_RegistrationID req)
     in if requested \<noteq> '''' \<and> requested \<noteq> sr_ID record then ActionReRegister
        else if hb_LeaseEpoch req > 0 \<and> hb_LeaseEpoch req \<noteq> sr_LeaseEpoch record then ActionReRegister
        else ActionNone)"

definition applyHeartbeatTransition :: "string \<Rightarrow> ServerRecord \<Rightarrow> Service \<Rightarrow> (svc_error + ServerStatus) \<times> Service" where
  "applyHeartbeatTransition sid record s =
    (case Transition (sr_Status record) EventHeartbeat of
       None \<Rightarrow> (Inl ErrInvalidRequest, s)
     | Some nextStatus \<Rightarrow>
         if nextStatus = sr_Status record then (Inr nextStatus, s)
         else (case Store_UpdateStatus sid nextStatus (sv_db s) of
                 (Some e, db) \<Rightarrow> (Inl ErrStore, s\<lparr>sv_db := db\<rparr>)
               | (None, db) \<Rightarrow>
                   (let s1 = AddActiveRegistrations nextStatus 1
                               (AddActiveRegistrations (sr_Status record) (-1) (s\<lparr>sv_db := db\<rparr>));
                        s2 = publish (ServerHealthChanged (sr_ID record) (sr_Name record) (sr_Status record) nextStatus) s1
                    in (Inr nextStatus, publishBroadcast ''status_changed'' (sr_ID record) s2))))"

definition heartbeat_response ::
  "reg_env \<Rightarrow> Service \<Rightarrow> ServerRecord \<Rightarrow> ServerStatus \<Rightarrow> RegistrationSyncState \<Rightarrow> HeartbeatAction \<Rightarrow> string
   \<Rightarrow> HeartbeatResponse" where
  "heartbeat_response R s record status sync action hash =
    (let (version, settings) = effectiveSettingsForServer (sr_Name record) s
     in \<lparr> hs_ServerStatus = status,
          hs_NextDeadline = rv_now R + heartbeatIntervalSeconds (sv_config s) * Second,
          hs_LeaseEpoch = sr_LeaseEpoch record, hs_SyncState = sync, hs_Action = action,
          hs_CapabilityHash = hash, hs_ConfigVersion = version, hs_EffectiveSettings = settings \<rparr>)"

text \<open>The refresh a heartbeat triggers when the reported hash differs: the hash to answer with.\<close>

definition heartbeat_refresh :: "string \<Rightarrow> ServerRecord \<Rightarrow> Service \<Rightarrow> string \<times> Service" where
  "heartbeat_refresh reqHash record s =
    (if reqHash \<noteq> '''' \<and> reqHash \<noteq> TrimSpace (sr_CapabilityHash record)
        \<and> (case sv_config s of Some c \<Rightarrow> cf_CapabilityRefreshEnabled c | None \<Rightarrow> False) \<and> sv_toolLister s \<noteq> None
     then (case RefreshCapabilities record reqHash s of
             (None, s1) \<Rightarrow> (sr_CapabilityHash record, s1)
           | (Some tools, s1) \<Rightarrow> (reqHash, s1))
     else (sr_CapabilityHash record, s))"

definition Heartbeat ::
  "reg_env \<Rightarrow> Identity option \<Rightarrow> string \<Rightarrow> HeartbeatRequest \<Rightarrow> Service \<Rightarrow> (svc_error + HeartbeatResponse) \<times> Service" where
  "Heartbeat R caller sid req s =
    (if TrimSpace sid = '''' then (Inl ErrInvalidRequest, s)
     else case caller of
       None \<Rightarrow> (Inl ErrUnauthorized, s)
     | Some c \<Rightarrow>
         if id_Type c \<noteq> IdentityMTLS then (Inl ErrUnauthorized, s)
         else case lookupHeartbeatRecord c sid s of
           Inl e \<Rightarrow> (Inl e, s)
         | Inr record \<Rightarrow>
             (let action = resolveHeartbeatAction req record; reqHash = TrimSpace (hb_CapabilityHash req)
              in if action = ActionReRegister
                 then (Inr (heartbeat_response R s record (sr_Status record) (sr_SyncState record) action
                         (sr_CapabilityHash record)), s)
                 else
                   let action = (if reqHash \<noteq> '''' \<and> reqHash \<noteq> TrimSpace (sr_CapabilityHash record)
                                 then ActionResendCapabilities else action)
                   in case applyHeartbeatTransition sid record s of
                        (Inl e, s1) \<Rightarrow> (Inl e, s1)
                      | (Inr nextStatus, s1) \<Rightarrow>
                          (case Store_UpdateHeartbeat sid (sv_db s1) of
                             (Some e, db) \<Rightarrow> (Inl ErrStore, s1\<lparr>sv_db := db\<rparr>)
                           | (None, db) \<Rightarrow>
                               (let (hash, s2) = heartbeat_refresh reqHash record (s1\<lparr>sv_db := db\<rparr>);
                                    sync = (if sr_SyncState record = SyncStateOther '''' then SyncStateUnacked
                                            else sr_SyncState record)
                                in (Inr (heartbeat_response R s record nextStatus sync action hash), s2)))))"

section \<open>The sweeper\<close>

definition sweep_interval :: "Config option \<Rightarrow> duration" where
  "sweep_interval cfg =
    (case cfg of Some c \<Rightarrow> if cf_HeartbeatTTL c > 0 then cf_HeartbeatTTL c else 30 * Second | None \<Rightarrow> 30 * Second)"

definition transitionServer :: "ServerRecord \<Rightarrow> Event \<Rightarrow> Service \<Rightarrow> bool \<times> Service" where
  "transitionServer server event s =
    (case Transition (sr_Status server) event of
       None \<Rightarrow> (False, s)
     | Some nextStatus \<Rightarrow>
         (case Store_UpdateStatus (sr_ID server) nextStatus (sv_db s) of
            (Some e, db) \<Rightarrow> (False, s\<lparr>sv_db := db\<rparr>)
          | (None, db) \<Rightarrow>
              (let s1 = AddActiveRegistrations nextStatus 1
                          (AddActiveRegistrations (sr_Status server) (-1) (s\<lparr>sv_db := db\<rparr>))
               in (True, publish (ServerHealthChanged (sr_ID server) (sr_Name server) (sr_Status server) nextStatus) s1))))"

definition stale_step :: "int \<times> Service \<Rightarrow> ServerRecord \<Rightarrow> int \<times> Service" where
  "stale_step acc server =
    (case transitionServer server EventHeartbeatMissed (snd acc) of
       (True, s1) \<Rightarrow> (fst acc + 1, s1)
     | (False, s1) \<Rightarrow> (fst acc, s1))"

definition sweepStale :: "duration \<Rightarrow> Service \<Rightarrow> int \<times> Service" where
  "sweepStale threshold s =
    (case Store_ListStale threshold (sv_db s) of
       Inl e \<Rightarrow> (0, s)
     | Inr servers \<Rightarrow> foldl stale_step (0, s) servers)"

definition expire_step :: "int \<times> Service \<Rightarrow> ServerRecord \<Rightarrow> int \<times> Service" where
  "expire_step acc server =
    (case transitionServer server EventExpired (snd acc) of
       (True, s1) \<Rightarrow> (fst acc + 1, s1\<lparr>sv_index := map_option (Index_Remove (sr_ID server)) (sv_index s1)\<rparr>)
     | (False, s1) \<Rightarrow> (fst acc, s1))"

definition sweepExpired :: "duration \<Rightarrow> Service \<Rightarrow> int \<times> Service" where
  "sweepExpired threshold s =
    (case Store_ListExpired threshold (sv_db s) of
       Inl e \<Rightarrow> (0, s)
     | Inr servers \<Rightarrow> foldl expire_step (0, s) servers)"

definition sweep :: "Service \<Rightarrow> Service" where
  "sweep s =
    (let interval = sweep_interval (sv_config s);
         (staleCount, s1) = sweepStale interval s;
         (expiredCount, s2) = sweepExpired (3 * interval) s1
     in s2)"

section \<open>The subscriber\<close>

text \<open>\<open>handle\<close> of \<open>RegistrationSubscriber\<close> on a decoded event; \<open>None\<close> is a message that does not
  decode.\<close>

definition handle_registration :: "ServerDB \<Rightarrow> (string \<times> string) option \<Rightarrow> CapabilityIndex \<Rightarrow> CapabilityIndex" where
  "handle_registration db evt index =
    (case evt of
       None \<Rightarrow> index
     | Some (eventType, rawID) \<Rightarrow>
         (let serverID = TrimSpace rawID
          in if serverID = '''' then index
             else if eventType = ''registered'' \<or> eventType = ''status_changed''
             then snd (RefreshServer (get_row db) serverID index)
             else if eventType = ''deregistered'' then Index_Remove serverID index
             else index))"

end
