(* ===== verification/Registration_Props.thy ===== *)
theory Registration_Props
  imports Registration_Service
begin

text \<open>
  What the registration service guarantees: who may change which row, how leases fence late
  acknowledgements, what a heartbeat and a sweep do to the table, and how the capability index follows.
\<close>

section \<open>Frames\<close>

text \<open>Emitting audit entries, events, broadcasts and metrics leaves the rest of the service alone.\<close>

lemma emit_frame [simp]:
  "sv_db (AddActiveRegistrations st n s) = sv_db s" "sv_index (AddActiveRegistrations st n s) = sv_index s"
  "sv_config (AddActiveRegistrations st n s) = sv_config s"
  "sv_db (logAudit e s) = sv_db s" "sv_index (logAudit e s) = sv_index s" "sv_config (logAudit e s) = sv_config s"
  "sv_db (publish ev s) = sv_db s" "sv_index (publish ev s) = sv_index s" "sv_config (publish ev s) = sv_config s"
  "sv_db (send_broadcast b s) = sv_db s" "sv_index (send_broadcast b s) = sv_index s"
  "sv_config (send_broadcast b s) = sv_config s"
  "sv_db (publishBroadcast t i s) = sv_db s" "sv_index (publishBroadcast t i s) = sv_index s"
  "sv_config (publishBroadcast t i s) = sv_config s"
  by (simp_all add: AddActiveRegistrations_def logAudit_def publish_def send_broadcast_def publishBroadcast_def)

lemma classify_tool_frame [simp]:
  "sv_db (classify_tool now c s t) = sv_db s" "sv_index (classify_tool now c s t) = sv_index s"
  "sv_config (classify_tool now c s t) = sv_config s"
  by (auto simp: classify_tool_def Let_def split: option.splits sum.splits prod.splits bool.splits)

lemma classifyNewTools_frame [simp]:
  "sv_db (classifyNewTools now cap c s) = sv_db s" "sv_index (classifyNewTools now cap c s) = sv_index s"
  "sv_config (classifyNewTools now cap c s) = sv_config s"
proof -
  have "sv_db (foldl (classify_tool now c) s ts) = sv_db s
      \<and> sv_index (foldl (classify_tool now c) s ts) = sv_index s
      \<and> sv_config (foldl (classify_tool now c) s ts) = sv_config s" for ts
    by (induction ts arbitrary: s) auto
  then show "sv_db (classifyNewTools now cap c s) = sv_db s" "sv_index (classifyNewTools now cap c s) = sv_index s"
    "sv_config (classifyNewTools now cap c s) = sv_config s"
    by (simp_all add: classifyNewTools_def)
qed

lemma postRegister_frame [simp]:
  "sv_db (postRegister R c r cap s) = sv_db s" "sv_index (postRegister R c r cap s) = sv_index s"
  by (simp_all add: postRegister_def Let_def)

lemma registration_response_fields [simp]:
  "rr_InstanceID (registration_response s r) = sr_ID r" "rr_RegistrationID (registration_response s r) = sr_ID r"
  "rr_LeaseEpoch (registration_response s r) = sr_LeaseEpoch r"
  "rr_CapabilityHash (registration_response s r) = sr_CapabilityHash r"
  "rr_Status (registration_response s r) = sr_Status r"
  by (simp_all add: registration_response_def split: prod.split)

section \<open>Rows\<close>

text \<open>The row of an identifier and of a SPIFFE identity.\<close>

lemma Store_Get_Inr: "Store_Get sid db = Inr r \<Longrightarrow> r \<in> set (sd_rows db) \<and> sr_ID r = sid"
  by (auto simp: Store_Get_def find_Some_iff split: if_splits option.splits)

lemma Store_GetBySPIFFEID_Inr: "Store_GetBySPIFFEID i db = Inr r \<Longrightarrow> r \<in> set (sd_rows db) \<and> sr_SPIFFEID r = i"
  by (auto simp: Store_GetBySPIFFEID_def find_Some_iff split: if_splits option.splits)

lemma Store_GetBySPIFFEID_NoRows:
  "Store_GetBySPIFFEID i db = Inl ErrNoRows \<Longrightarrow> \<forall>r\<in>set (sd_rows db). sr_SPIFFEID r \<noteq> i"
  by (auto simp: Store_GetBySPIFFEID_def find_None_iff split: if_splits option.splits)

lemma update_row_set:
  "set (sd_rows (update_row sid f db)) =
    {r \<in> set (sd_rows db). sr_ID r \<noteq> sid} \<union> f ` {r \<in> set (sd_rows db). sr_ID r = sid}"
  by (auto simp: update_row_def)

lemma same_id: "db_ok db \<Longrightarrow> r \<in> set (sd_rows db) \<Longrightarrow> r' \<in> set (sd_rows db) \<Longrightarrow> sr_ID r = sr_ID r' \<Longrightarrow> r = r'"
  by (auto simp: db_ok_def distinct_map dest: inj_onD)

lemma same_spiffe:
  "db_ok db \<Longrightarrow> r \<in> set (sd_rows db) \<Longrightarrow> r' \<in> set (sd_rows db) \<Longrightarrow> sr_SPIFFEID r = sr_SPIFFEID r' \<Longrightarrow> r = r'"
  by (auto simp: db_ok_def distinct_map dest: inj_onD)

text \<open>The rows of all other identities.\<close>

definition other_rows :: "string \<Rightarrow> ServerDB \<Rightarrow> ServerRecord set" where
  "other_rows spiffe db = {r \<in> set (sd_rows db). sr_SPIFFEID r \<noteq> spiffe}"

text \<open>The row a registration leaves: what the request said, active and not acknowledged.\<close>

definition registered_row :: "Identity \<Rightarrow> RegistrationRequest \<Rightarrow> int \<Rightarrow> ServerRecord \<Rightarrow> bool" where
  "registered_row c req lease row \<longleftrightarrow>
     sr_SPIFFEID row = id_ID c \<and> sr_Name row = TrimSpace (rg_ServiceName req)
     \<and> sr_Host row = TrimSpace (lc_Host (rg_Listen req)) \<and> sr_Port row = lc_Port (rg_Listen req)
     \<and> sr_Capabilities row = rg_Capabilities req \<and> sr_Status row = StatusActive
     \<and> sr_SyncState row = SyncStateUnacked \<and> sr_LeaseEpoch row = lease"

lemma new_record_fields [simp]:
  "sr_ID (new_record R cfg c req) = rv_newUUID R" "sr_SPIFFEID (new_record R cfg c req) = id_ID c"
  "sr_Name (new_record R cfg c req) = TrimSpace (rg_ServiceName req)"
  "sr_Host (new_record R cfg c req) = TrimSpace (lc_Host (rg_Listen req))"
  "sr_Port (new_record R cfg c req) = lc_Port (rg_Listen req)"
  "sr_Capabilities (new_record R cfg c req) = rg_Capabilities req"
  "sr_Status (new_record R cfg c req) = StatusActive" "sr_LeaseEpoch (new_record R cfg c req) = 1"
  "sr_SyncState (new_record R cfg c req) = SyncStateUnacked" "sr_LastHeartbeat (new_record R cfg c req) = None"
  "sr_RoutingStrategy (new_record R cfg c req) = ''''"
  "sr_CapabilityHash (new_record R cfg c req) = hashCapabilities (rv_digest R) (rg_Capabilities req)"
  "sr_PolicyProfile (new_record R cfg c req) = ''default''"
  by (simp_all add: new_record_def zero_ServerRecord_def defaultPolicyProfile_def)

lemma sync_unacked [simp]: "parseSyncState (normalizedSyncState SyncStateUnacked) = SyncStateUnacked"
proof -
  have "TrimSpace ''unacked'' = ''unacked''" by (rule TrimSpace_word) (simp add: trimmed_word_def visible_def)
  moreover have "ToLower ''unacked'' = ''unacked''" by (simp add: ToLower_def lower_char_def)
  ultimately show ?thesis by (simp add: parseSyncState_def normalizedSyncState_def)
qed

lemma status_literals [simp]:
  "ServerStatus_of_string ''active'' = StatusActive" "ServerStatus_of_string ''stale'' = StatusStale"
  "ServerStatus_of_string ''expired'' = StatusExpired"
  by (simp_all add: ServerStatus_of_string_def)

section \<open>Registration\<close>

lemma Store_Create_frame:
  "Store_Create dbid rec db = (e, db') \<Longrightarrow> sd_fails db' = sd_fails db \<and> sd_now db' = sd_now db"
  by (auto simp: Store_Create_def Let_def split: if_splits)

lemma Register_cases:
  assumes "Register R caller req s = (Inr resp, s')"
  obtains c rec s1 where "caller = Some c" and "id_Type c = IdentityMTLS" and "Validate req = None"
    and "ValidateSPIFFEID (rv_urlParse R) (id_ID c) (copyStringSlice (sv_spiffeAllowList s))"
    and "store_registration R (new_record R (sv_config s) c req) s = (Inr rec, s1)"
    and "s' = postRegister R (id_ID c) rec (rg_Capabilities req) s1"
    and "resp = registration_response s' rec"
  using assms
  by (auto simp: Register_def Let_def split: option.splits if_splits prod.splits sum.splits)

text \<open>A first registration appends a row under the identifier the database draws.\<close>

lemma store_registration_new:
  assumes "store_registration R (new_record R cfg c req) s = (Inr rec, s1)"
    and "\<forall>r\<in>set (sd_rows (sv_db s)). sr_SPIFFEID r \<noteq> id_ID c"
  obtains row where "sd_rows (sv_db s1) = sd_rows (sv_db s) @ [row]" and "rec = new_record R cfg c req"
    and "sr_ID row = rv_dbUUID R" and "registered_row c req 1 row" and "sr_LastHeartbeat row = None"
    and "sr_CapabilityHash row = TrimSpace (hashCapabilities (rv_digest R) (rg_Capabilities req))"
    and "Store_Create (rv_dbUUID R) (new_record R cfg c req) (sv_db s) = (None, sv_db s1)"
proof -
  have g: "Store_GetBySPIFFEID (id_ID c) (sv_db s) = Inl ErrNoRows"
    using assms by (auto simp: store_registration_def dest: Store_GetBySPIFFEID_Inr
        split: sum.splits store_error.splits prod.splits option.splits)
  from assms(1) obtain db where cr: "Store_Create (rv_dbUUID R) (new_record R cfg c req) (sv_db s) = (None, db)"
    and rec: "rec = new_record R cfg c req" and db: "sv_db s1 = db"
    by (auto simp: store_registration_def g split: prod.splits option.splits)
  let ?row = "(written_columns (new_record R cfg c req))\<lparr> sr_ID := rv_dbUUID R, sr_RateLimit := None,
      sr_RateBurst := None, sr_CreatedAt := sd_now (sv_db s), sr_UpdatedAt := sd_now (sv_db s) \<rparr>"
  have "sd_rows db = sd_rows (sv_db s) @ [?row]"
    using cr by (auto simp: Store_Create_def Let_def split: if_splits)
  then show thesis using that [of ?row] rec db cr by (simp add: registered_row_def maxInt64_def)
qed

text \<open>A repeated registration rewrites the row of the identity under the next lease.\<close>

lemma store_registration_again:
  assumes "store_registration R (new_record R cfg c req) s = (Inr rec, s1)" and "db_ok (sv_db s)"
    and "old \<in> set (sd_rows (sv_db s))" and "sr_SPIFFEID old = id_ID c"
  defines "record \<equiv> (new_record R cfg c req)\<lparr>sr_ID := sr_ID old, sr_CreatedAt := sr_CreatedAt old,
      sr_LeaseEpoch := nextLeaseEpoch (sr_LeaseEpoch old)\<rparr>"
  shows "rec = record" and "sv_db s1 = update_row (sr_ID old) (updated_by (sd_now (sv_db s)) record) (sv_db s)"
    and "Store_Update record (sv_db s) = (None, sv_db s1)"
proof -
  obtain existing where g: "Store_GetBySPIFFEID (id_ID c) (sv_db s) = Inr existing"
    using assms(1,3,4) by (auto simp: store_registration_def dest: Store_GetBySPIFFEID_NoRows
        split: sum.splits store_error.splits prod.splits option.splits)
  then have "existing = old"
    using Store_GetBySPIFFEID_Inr [OF g] same_spiffe [OF assms(2), of existing old] assms(3,4) by auto
  with g assms(1) obtain db where u: "Store_Update record (sv_db s) = (None, db)"
    and rec: "rec = record" and db: "sv_db s1 = db"
    by (auto simp: store_registration_def record_def Let_def split: prod.splits option.splits)
  then show "rec = record" "Store_Update record (sv_db s) = (None, sv_db s1)" by auto
  show "sv_db s1 = update_row (sr_ID old) (updated_by (sd_now (sv_db s)) record) (sv_db s)"
    using u db by (auto simp: Store_Update_def record_def split: if_splits)
qed

lemma lease_next: "1 \<le> l \<Longrightarrow> l < MaxInt64 \<Longrightarrow> nextLeaseEpoch l = l + 1"
  by (simp add: nextLeaseEpoch_def int64_id MaxInt64_def)

text \<open>The previous lease of an identity, zero if it has none.\<close>

definition previous_lease :: "string \<Rightarrow> ServerDB \<Rightarrow> int" where
  "previous_lease spiffe db =
    (case find (\<lambda>r. sr_SPIFFEID r = spiffe) (sd_rows db) of None \<Rightarrow> 0 | Some r \<Rightarrow> sr_LeaseEpoch r)"

lemma previous_lease_row:
  assumes "db_ok db"
  shows "(\<forall>r\<in>set (sd_rows db). sr_SPIFFEID r \<noteq> spiffe) \<and> previous_lease spiffe db = 0
    \<or> (\<exists>r\<in>set (sd_rows db). sr_SPIFFEID r = spiffe \<and> previous_lease spiffe db = sr_LeaseEpoch r)"
proof (cases "find (\<lambda>r. sr_SPIFFEID r = spiffe) (sd_rows db)")
  case None
  then have "\<forall>r\<in>set (sd_rows db). sr_SPIFFEID r \<noteq> spiffe" by (auto simp: find_None_iff)
  with None show ?thesis by (simp add: previous_lease_def)
next
  case (Some r)
  then have "r \<in> set (sd_rows db)" "sr_SPIFFEID r = spiffe" by (auto simp: find_Some_iff)
  with Some show ?thesis by (auto simp: previous_lease_def)
qed

text \<open>The effect of a successful registration on the table.\<close>

definition registration_effect :: "Identity \<Rightarrow> RegistrationRequest \<Rightarrow> ServerDB \<Rightarrow> ServerDB \<Rightarrow> int \<Rightarrow> bool" where
  "registration_effect c req db db' lease \<longleftrightarrow>
     db_ok db' \<and> other_rows (id_ID c) db' = other_rows (id_ID c) db
     \<and> lease = previous_lease (id_ID c) db + 1
     \<and> (\<exists>row. {r \<in> set (sd_rows db'). sr_SPIFFEID r = id_ID c} = {row} \<and> registered_row c req lease row)"

lemma first_registration_effect:
  assumes "db_ok (sv_db s)" and st: "store_registration R (new_record R cfg c req) s = (Inr rec, s1)"
    and new: "\<forall>r\<in>set (sd_rows (sv_db s)). sr_SPIFFEID r \<noteq> id_ID c"
  shows "registration_effect c req (sv_db s) (sv_db s1) (sr_LeaseEpoch rec)"
proof -
  obtain row where rows: "sd_rows (sv_db s1) = sd_rows (sv_db s) @ [row]" "rec = new_record R cfg c req"
    "registered_row c req 1 row" "Store_Create (rv_dbUUID R) (new_record R cfg c req) (sv_db s) = (None, sv_db s1)"
    using store_registration_new [OF st new] by metis
  have sp: "sr_SPIFFEID row = id_ID c" using rows(3) by (simp add: registered_row_def)
  have "previous_lease (id_ID c) (sv_db s) = 0" using previous_lease_row [OF assms(1)] new by blast
  moreover have "db_ok (sv_db s1)" using rows(4) assms(1) by (auto intro: inv_intros)
  moreover have "other_rows (id_ID c) (sv_db s1) = other_rows (id_ID c) (sv_db s)"
    using sp by (auto simp: other_rows_def rows(1))
  moreover have "{r \<in> set (sd_rows (sv_db s1)). sr_SPIFFEID r = id_ID c} = {row}"
    using sp new by (auto simp: rows(1))
  ultimately show ?thesis using rows(2,3) by (auto simp: registration_effect_def)
qed

lemma repeated_registration_effect:
  assumes "db_ok (sv_db s)" and "\<forall>r\<in>set (sd_rows (sv_db s)). sr_LeaseEpoch r < MaxInt64"
    and st: "store_registration R (new_record R cfg c req) s = (Inr rec, s1)"
    and old: "old \<in> set (sd_rows (sv_db s))" "sr_SPIFFEID old = id_ID c"
  shows "registration_effect c req (sv_db s) (sv_db s1) (sr_LeaseEpoch rec)"
proof -
  let ?rec = "(new_record R cfg c req)\<lparr>sr_ID := sr_ID old, sr_CreatedAt := sr_CreatedAt old,
      sr_LeaseEpoch := nextLeaseEpoch (sr_LeaseEpoch old)\<rparr>"
  let ?row = "updated_by (sd_now (sv_db s)) ?rec old"
  note again = store_registration_again [OF st assms(1) old]
  have lease: "nextLeaseEpoch (sr_LeaseEpoch old) = sr_LeaseEpoch old + 1" "1 \<le> sr_LeaseEpoch old"
    using lease_next old assms(1,2) by (auto simp: db_ok_def row_ok_def)
  have prev: "previous_lease (id_ID c) (sv_db s) = sr_LeaseEpoch old"
    using previous_lease_row [OF assms(1), of "id_ID c"] old same_spiffe [OF assms(1)] by metis
  have only: "{r \<in> set (sd_rows (sv_db s)). sr_ID r = sr_ID old} = {old}"
    using same_id [OF assms(1)] old by auto
  have set: "set (sd_rows (sv_db s1)) = {r \<in> set (sd_rows (sv_db s)). sr_ID r \<noteq> sr_ID old} \<union> {?row}"
    unfolding again(2) update_row_set only by simp
  have sp: "sr_SPIFFEID ?row = id_ID c" by (simp add: updated_by_def)
  have others: "sr_ID r \<noteq> sr_ID old \<longleftrightarrow> sr_SPIFFEID r \<noteq> id_ID c" if "r \<in> set (sd_rows (sv_db s))" for r
    using same_id [OF assms(1) that old(1)] same_spiffe [OF assms(1) that old(1)] old(2) by auto
  have "db_ok (sv_db s1)" using again(3) assms(1) by (auto intro: inv_intros)
  moreover have "other_rows (id_ID c) (sv_db s1) = other_rows (id_ID c) (sv_db s)"
    using others sp by (auto simp: other_rows_def set)
  moreover have "{r \<in> set (sd_rows (sv_db s1)). sr_SPIFFEID r = id_ID c} = {?row}"
    using others sp by (auto simp: set)
  moreover have "registered_row c req (sr_LeaseEpoch old + 1) ?row"
    using lease by (simp add: registered_row_def updated_by_def maxInt64_def)
  ultimately show ?thesis using again(1) lease prev by (auto simp: registration_effect_def)
qed

lemma refused_registration_rows:
  "store_registration R rec s = (Inl e, s1) \<Longrightarrow> sd_rows (sv_db s1) = sd_rows (sv_db s)"
  by (auto simp: store_registration_def Let_def Store_Update_def Store_Create_def
      split: sum.splits store_error.splits prod.splits option.splits if_splits)

text \<open>C13.  Registration writes one row, the caller's.  A successful registration has an mTLS caller on the
  allow list and a valid request; it leaves exactly one row for the caller's identity, holding what the
  request said, active and not yet acknowledged; the rows of all other identities are untouched and the
  table stays well formed; and the lease in the row and in the response is one more than the previous
  lease of that identity (one, for a first registration).  A refused registration changes no row.\<close>

theorem Register_writes_own_row:
  assumes "db_ok (sv_db s)" and "\<forall>r\<in>set (sd_rows (sv_db s)). sr_LeaseEpoch r < MaxInt64"
    and "Register R caller req s = (res, s')"
  shows "case res of
      Inl e \<Rightarrow> sd_rows (sv_db s') = sd_rows (sv_db s)
    | Inr resp \<Rightarrow>
        (\<exists>c. caller = Some c \<and> id_Type c = IdentityMTLS \<and> Validate req = None
         \<and> ValidateSPIFFEID (rv_urlParse R) (id_ID c) (copyStringSlice (sv_spiffeAllowList s))
         \<and> registration_effect c req (sv_db s) (sv_db s') (rr_LeaseEpoch resp))"
proof (cases res)
  case (Inl e)
  then have "sd_rows (sv_db s') = sd_rows (sv_db s)"
    using assms(3)
    by (auto simp: Register_def Let_def refused_registration_rows split: option.splits if_splits prod.splits sum.splits)
  with Inl show ?thesis by simp
next
  case (Inr resp)
  then have "Register R caller req s = (Inr resp, s')" using assms(3) by simp
  then obtain c rec s1 where c: "caller = Some c" "id_Type c = IdentityMTLS" "Validate req = None"
    "ValidateSPIFFEID (rv_urlParse R) (id_ID c) (copyStringSlice (sv_spiffeAllowList s))"
    and st: "store_registration R (new_record R (sv_config s) c req) s = (Inr rec, s1)"
    and db: "sv_db s' = sv_db s1" and resp: "resp = registration_response s' rec"
    by (elim Register_cases) auto
  have "registration_effect c req (sv_db s) (sv_db s1) (sr_LeaseEpoch rec)"
    using first_registration_effect [OF assms(1) st] repeated_registration_effect [OF assms(1,2) st] by blast
  with c db resp Inr show ?thesis by simp
qed

section \<open>A concrete service\<close>

definition demo_env :: reg_env where
  "demo_env = \<lparr> rv_now = 100, rv_newUUID = ''u1'', rv_dbUUID = ''u2'',
     rv_urlParse = (\<lambda>x. Some \<lparr>url_Scheme = ''spiffe'', url_Host = ''td'', url_EscapedPath = ''/k8s''\<rparr>),
     rv_digest = (\<lambda>c. ''h'') \<rparr>"

definition demo_caller :: Identity where
  "demo_caller = \<lparr>id_Type = IdentityMTLS, id_ID = ''spiffe://td/k8s'', id_Scopes = [''admin''], id_Metadata = []\<rparr>"

definition demo_service :: "ServerRecord list \<Rightarrow> Service" where
  "demo_service rows = NewService \<lparr>sd_rows = rows, sd_now = 100, sd_fails = (\<lambda>c. False)\<rparr> False None"

lemma demo_words [simp]:
  "TrimSpace ''k8s'' = ''k8s''" "TrimSpace ''1'' = ''1''" "TrimSpace ''10.0.0.5'' = ''10.0.0.5''"
  "TrimSpace ''list_pods'' = ''list_pods''" "TrimSpace ''https'' = ''https''" "TrimSpace ''h'' = ''h''"
  "TrimSpace ''spiffe://td/k8s'' = ''spiffe://td/k8s''" "TrimSpace ''td'' = ''td''" "TrimSpace ''/k8s'' = ''/k8s''"
  "TrimSpace ''u1'' = ''u1''" "TrimSpace ''u2'' = ''u2''"
  by (rule TrimSpace_word, simp add: trimmed_word_def visible_def)+

lemma demo_request_valid: "Validate (example_request ''10.0.0.5'') = None"
proof -
  have "ParseIP ''10.0.0.5'' = Some [0, 0, 0, 0, 0, 65535, 2560, 5]"
    by (simp add: ParseIP_def parse_quad_def parse_octet_def number_in_def digit_value_def)
  moreover have "\<not> forbidden_address [0, 0, 0, 0, 0, 65535, 2560, 5]"
    by (simp add: forbidden_address_def IsLoopback_def IsLinkLocalUnicast_def IsLinkLocalMulticast_def
        IsUnspecified_def To4_def ParseIP_def parse_quad_def parse_octet_def number_in_def digit_value_def)
  ultimately have "validateHost ''10.0.0.5'' = None"
    by (simp add: validateHost_def normalized_host_def ToLower_def lower_char_def suffix_def
        validateIP_forbidden [symmetric])
  then show ?thesis
    by (simp add: Validate_def example_request_def serviceNamePattern_def alnum_def validateCapabilityNames_def
        ToLower_def lower_char_def)
qed

lemma demo_caller_allowed:
  "ValidateSPIFFEID (rv_urlParse demo_env) (id_ID demo_caller) (copyStringSlice (sv_spiffeAllowList (demo_service rows)))"
proof -
  have "path_Clean ''/k8s'' = ''/k8s''" by code_simp
  moreover have "\<not> Contains ''/k8s'' ''..''" by code_simp
  ultimately show ?thesis
    by (simp add: ValidateSPIFFEID_def ParseSPIFFEID_def demo_env_def demo_caller_def EqualFold_def TrimPrefix_def
        demo_service_def NewService_def copyStringSlice_def)
qed

lemma demo_register:
  assumes "store_registration demo_env (new_record demo_env None demo_caller (example_request ''10.0.0.5'')) (demo_service rows)
    = (Inr rec, s1)"
  shows "\<exists>s'. Register demo_env (Some demo_caller) (example_request ''10.0.0.5'') (demo_service rows) =
    (Inr (registration_response s' rec), s')"
proof -
  have "sv_config (demo_service rows) = None" by (simp add: demo_service_def NewService_def)
  moreover have "id_Type demo_caller = IdentityMTLS" by (simp add: demo_caller_def)
  ultimately show ?thesis using assms demo_request_valid demo_caller_allowed [of rows] by (simp add: Register_def Let_def)
qed

lemma demo_first_registration:
  "\<exists>s1. store_registration demo_env (new_record demo_env None demo_caller (example_request ''10.0.0.5'')) (demo_service [])
    = (Inr (new_record demo_env None demo_caller (example_request ''10.0.0.5'')), s1)"
  by (simp add: store_registration_def Store_GetBySPIFFEID_def demo_service_def NewService_def Store_Create_def)

theorem Register_writes_own_row_witness:
  "\<exists>resp s'. Register demo_env (Some demo_caller) (example_request ''10.0.0.5'') (demo_service []) = (Inr resp, s')
     \<and> registration_effect demo_caller (example_request ''10.0.0.5'') (sv_db (demo_service [])) (sv_db s') (rr_LeaseEpoch resp)"
proof -
  obtain resp s' where r: "Register demo_env (Some demo_caller) (example_request ''10.0.0.5'') (demo_service []) = (Inr resp, s')"
    using demo_first_registration demo_register [of "[]"] by blast
  have "db_ok (sv_db (demo_service []))" "\<forall>r\<in>set (sd_rows (sv_db (demo_service []))). sr_LeaseEpoch r < MaxInt64"
    by (simp_all add: demo_service_def NewService_def db_ok_def)
  from Register_writes_own_row [OF this r] r show ?thesis by auto
qed

section \<open>The identifier of a first registration\<close>

text \<open>The response of a first registration carries the identifier the gateway drew, and the row the one
  the database drew.\<close>

text \<open>C14.  After a first registration, when the database does not happen to draw the identifier that the
  gateway drew, the identifier in the response names no row: a heartbeat with it is refused as not found,
  and the broadcast that announces the registration does not bring the server into any index.\<close>

theorem first_registration_identifier:
  assumes "Register R (Some c) req s = (Inr resp, s')"
    and "\<forall>r\<in>set (sd_rows (sv_db s)). sr_SPIFFEID r \<noteq> id_ID c \<and> sr_ID r \<noteq> rv_newUUID R"
    and "rv_newUUID R \<noteq> rv_dbUUID R" and "TrimSpace (rv_newUUID R) = rv_newUUID R" and "rv_newUUID R \<noteq> ''''"
    and "\<not> sd_fails (sv_db s) (CallGet (rv_newUUID R))"
  shows "Heartbeat R' (Some c) (rr_InstanceID resp) hb s' = (Inl ErrNotFound, s')
       \<and> handle_registration (sv_db s') (Some (''registered'', rr_InstanceID resp)) index = index"
proof -
  obtain rec s1 where c: "id_Type c = IdentityMTLS"
    and st: "store_registration R (new_record R (sv_config s) c req) s = (Inr rec, s1)"
    and db: "sv_db s' = sv_db s1" and resp: "resp = registration_response s' rec"
    using assms(1) by (elim Register_cases) auto
  obtain row where rows: "sd_rows (sv_db s1) = sd_rows (sv_db s) @ [row]" "rec = new_record R (sv_config s) c req"
    "sr_ID row = rv_dbUUID R" "Store_Create (rv_dbUUID R) (new_record R (sv_config s) c req) (sv_db s) = (None, sv_db s1)"
    using store_registration_new [OF st] assms(2) by metis
  have "sd_fails (sv_db s1) = sd_fails (sv_db s)" using Store_Create_frame [OF rows(4)] by simp
  then have get: "Store_Get (rv_newUUID R) (sv_db s') = Inl ErrNoRows"
    using assms(2,3,6) rows(1,3) by (auto simp: Store_Get_def db find_None_iff split: option.splits)
  have id: "rr_InstanceID resp = rv_newUUID R" using resp rows(2) by simp
  show ?thesis
    using get id c assms(4,5)
    by (simp add: Heartbeat_def lookupHeartbeatRecord_def handle_registration_def RefreshServer_def get_row_def)
qed

theorem first_registration_identifier_witness:
  "\<exists>resp s'. Register demo_env (Some demo_caller) (example_request ''10.0.0.5'') (demo_service []) = (Inr resp, s')
     \<and> Heartbeat demo_env (Some demo_caller) (rr_InstanceID resp)
         \<lparr>hb_RegistrationID = '''', hb_LeaseEpoch = 0, hb_CapabilityHash = ''''\<rparr> s' = (Inl ErrNotFound, s')"
proof -
  obtain resp s' where r: "Register demo_env (Some demo_caller) (example_request ''10.0.0.5'') (demo_service []) = (Inr resp, s')"
    using demo_first_registration demo_register [of "[]"] by blast
  from first_registration_identifier [OF r] r show ?thesis
    by (auto simp: demo_env_def demo_service_def NewService_def)
qed

section \<open>Acknowledgements\<close>

lemma Acknowledge_hit:
  assumes "TrimSpace sid \<noteq> ''''" and "0 < lease" and "\<not> sd_fails (sv_db s) (CallAcknowledge sid)"
    and "row \<in> set (sd_rows (sv_db s))" and "ack_matches sid lease hash row"
  obtains s' where "AcknowledgeServerRegistration R sid lease hash ver at' s = (None, s')"
    and "\<exists>row'\<in>set (sd_rows (sv_db s')). sr_ID row' = sr_ID row \<and> sr_SyncState row' = SyncStateAcked
           \<and> sr_LeaseEpoch row' = lease \<and> sr_Status row' = sr_Status row"
proof -
  let ?t = "case at' of None \<Rightarrow> rv_now R | Some t \<Rightarrow> t"
  let ?f = "\<lambda>r. if ack_matches sid lease hash r
      then r\<lparr>sr_SyncState := SyncStateAcked, sr_LastPlatformAckVersion := TrimSpace ver,
             sr_LastPlatformAckAt := Some ?t, sr_UpdatedAt := sd_now (sv_db s)\<rparr> else r"
  let ?s' = "s\<lparr>sv_db := (sv_db s)\<lparr>sd_rows := map ?f (sd_rows (sv_db s))\<rparr>\<rparr>"
  have "AcknowledgeServerRegistration R sid lease hash ver at' s = (None, ?s')"
    using assms
    by (auto simp: AcknowledgeServerRegistration_def Store_AcknowledgeRegistration_def Let_def list_ex_iff)
  moreover have "?f row \<in> set (sd_rows (sv_db ?s'))" using assms(4) by simp
  moreover have "sr_ID (?f row) = sr_ID row \<and> sr_SyncState (?f row) = SyncStateAcked
      \<and> sr_LeaseEpoch (?f row) = lease \<and> sr_Status (?f row) = sr_Status row"
    using assms(5) by (simp add: ack_matches_def)
  ultimately show thesis using that by blast
qed

lemma Acknowledge_miss:
  assumes "\<forall>row\<in>set (sd_rows (sv_db s)). \<not> ack_matches sid lease hash row"
  shows "\<exists>e. AcknowledgeServerRegistration R sid lease hash ver at' s = (Some e, s)"
proof -
  have "s\<lparr>sv_db := sv_db s\<rparr> = s" by simp
  then show ?thesis
    using assms
    by (auto simp: AcknowledgeServerRegistration_def Store_AcknowledgeRegistration_def Let_def list_ex_iff)
qed

lemma Register_again:
  assumes "db_ok (sv_db s)" and "old \<in> set (sd_rows (sv_db s))" and "sr_SPIFFEID old = id_ID c"
    and "sr_LeaseEpoch old < MaxInt64" and "Register R (Some c) req s = (Inr resp, s')"
  obtains rec where "resp = registration_response s' rec" and "sr_ID rec = sr_ID old"
    and "sr_LeaseEpoch rec = sr_LeaseEpoch old + 1" and "0 < sr_LeaseEpoch rec"
    and "sd_fails (sv_db s') = sd_fails (sv_db s)"
    and "set (sd_rows (sv_db s')) =
      {r \<in> set (sd_rows (sv_db s)). sr_ID r \<noteq> sr_ID old} \<union> {updated_by (sd_now (sv_db s)) rec old}"
proof -
  obtain rec s1 where st: "store_registration R (new_record R (sv_config s) c req) s = (Inr rec, s1)"
    and db: "sv_db s' = sv_db s1" and resp: "resp = registration_response s' rec"
    using assms(5) by (elim Register_cases) auto
  note again = store_registration_again [OF st assms(1-3)]
  have lease: "sr_LeaseEpoch rec = sr_LeaseEpoch old + 1" "0 < sr_LeaseEpoch rec"
    using again(1) lease_next [of "sr_LeaseEpoch old"] assms by (auto simp: db_ok_def row_ok_def)
  have only: "r = old" if "r \<in> set (sd_rows (sv_db s))" "sr_ID r = sr_ID old" for r
    using same_id [OF assms(1) that(1) assms(2) that(2)] .
  have "set (sd_rows (sv_db s')) =
      {r \<in> set (sd_rows (sv_db s)). sr_ID r \<noteq> sr_ID old} \<union> {updated_by (sd_now (sv_db s)) rec old}"
    unfolding db again(2) update_row_set using only assms(2) again(1) by auto
  moreover have "sd_fails (sv_db s') = sd_fails (sv_db s)" "sr_ID rec = sr_ID old"
    using again(1) by (simp_all add: db again(2) update_row_def)
  ultimately show thesis using that resp lease by blast
qed

text \<open>C4.  Leases fence late acknowledgements.  After a server has registered again, an acknowledgement of
  its previous lease fails and changes nothing, whatever capability hash and version it carries, while an
  acknowledgement with the identifier, lease and hash of the response succeeds and marks exactly the new
  lease as acknowledged, unless the database fails.\<close>

theorem stale_acknowledgement_refused:
  assumes "db_ok (sv_db s)" and "old \<in> set (sd_rows (sv_db s))" and "sr_SPIFFEID old = id_ID c"
    and "sr_LeaseEpoch old < MaxInt64" and "Register R (Some c) req s = (Inr resp, s')"
    and "TrimSpace (sr_ID old) = sr_ID old" and "sr_ID old \<noteq> ''''"
    and "\<not> sd_fails (sv_db s) (CallAcknowledge (sr_ID old))"
  shows "(\<exists>e. AcknowledgeServerRegistration R' (sr_ID old) (sr_LeaseEpoch old) hash ver at' s' = (Some e, s'))
       \<and> (\<exists>s''. AcknowledgeServerRegistration R' (rr_RegistrationID resp) (rr_LeaseEpoch resp) (rr_CapabilityHash resp)
                  ver at' s' = (None, s'')
            \<and> (\<exists>row\<in>set (sd_rows (sv_db s'')). sr_ID row = sr_ID old \<and> sr_SyncState row = SyncStateAcked
                 \<and> sr_LeaseEpoch row = sr_LeaseEpoch old + 1))"
proof -
  obtain rec where rec: "resp = registration_response s' rec" "sr_ID rec = sr_ID old"
    "sr_LeaseEpoch rec = sr_LeaseEpoch old + 1" "0 < sr_LeaseEpoch rec" "sd_fails (sv_db s') = sd_fails (sv_db s)"
    and rows: "set (sd_rows (sv_db s')) =
      {r \<in> set (sd_rows (sv_db s)). sr_ID r \<noteq> sr_ID old} \<union> {updated_by (sd_now (sv_db s)) rec old}"
    by (rule Register_again [OF assms(1-5)])
  let ?row = "updated_by (sd_now (sv_db s)) rec old"
  have row: "sr_ID ?row = sr_ID old" "sr_LeaseEpoch ?row = sr_LeaseEpoch old + 1"
    "sr_CapabilityHash ?row = TrimSpace (sr_CapabilityHash rec)"
    using rec by (auto simp: updated_by_def maxInt64_def)
  have "\<forall>r\<in>set (sd_rows (sv_db s')). \<not> ack_matches (sr_ID old) (sr_LeaseEpoch old) hash r"
    using row assms(6) by (auto simp: rows ack_matches_def)
  then have refused: "\<exists>e. AcknowledgeServerRegistration R' (sr_ID old) (sr_LeaseEpoch old) hash ver at' s' = (Some e, s')"
    by (rule Acknowledge_miss)
  have "ack_matches (sr_ID old) (sr_LeaseEpoch rec) (sr_CapabilityHash rec) ?row"
    using assms(6) row rec by (simp add: ack_matches_def)
  moreover have "TrimSpace (sr_ID old) \<noteq> ''''" "\<not> sd_fails (sv_db s') (CallAcknowledge (sr_ID old))"
    "?row \<in> set (sd_rows (sv_db s'))"
    using assms(6-8) rec(5) by (simp_all add: rows)
  ultimately obtain s'' where hit:
    "AcknowledgeServerRegistration R' (sr_ID old) (sr_LeaseEpoch rec) (sr_CapabilityHash rec) ver at' s' = (None, s'')"
    "\<exists>row'\<in>set (sd_rows (sv_db s'')). sr_ID row' = sr_ID ?row \<and> sr_SyncState row' = SyncStateAcked
         \<and> sr_LeaseEpoch row' = sr_LeaseEpoch rec \<and> sr_Status row' = sr_Status ?row"
    using rec(4) by (elim Acknowledge_hit [where ver = ver and at' = at' and R = R']) 
  show ?thesis
    using refused hit rec(2,3) row(1) by (simp add: rec(1)) blast
qed

definition demo_row :: ServerRecord where
  "demo_row = (example_server ''u2'' ''k8s'' [''list_pods''])\<lparr>sr_SPIFFEID := ''spiffe://td/k8s'', sr_LeaseEpoch := 4,
     sr_SyncState := SyncStateAcked, sr_RoutingStrategy := ''round_robin'', sr_Protocol := ''https''\<rparr>"

lemma demo_row_ok: "db_ok (sv_db (demo_service [demo_row]))"
  by (simp add: db_ok_def demo_service_def NewService_def row_ok_def demo_row_def example_server_def zero_ServerRecord_def)

lemma demo_again:
  "\<exists>rec s1. store_registration demo_env (new_record demo_env None demo_caller (example_request ''10.0.0.5'')) (demo_service [demo_row])
    = (Inr rec, s1)"
  by (simp add: store_registration_def Store_GetBySPIFFEID_def demo_service_def NewService_def Store_Update_def
      demo_row_def demo_caller_def Let_def)

theorem stale_acknowledgement_refused_witness:
  "\<exists>resp s' e. Register demo_env (Some demo_caller) (example_request ''10.0.0.5'') (demo_service [demo_row]) = (Inr resp, s')
     \<and> AcknowledgeServerRegistration demo_env ''u2'' 4 '''' ''v1'' None s' = (Some e, s')"
proof -
  obtain resp s' where r: "Register demo_env (Some demo_caller) (example_request ''10.0.0.5'') (demo_service [demo_row]) = (Inr resp, s')"
    using demo_again demo_register [of "[demo_row]"] by blast
  have d: "sr_ID demo_row = ''u2''" "sr_LeaseEpoch demo_row = 4" "sr_SPIFFEID demo_row = id_ID demo_caller"
    "demo_row \<in> set (sd_rows (sv_db (demo_service [demo_row])))"
    "\<not> sd_fails (sv_db (demo_service [demo_row])) (CallAcknowledge (sr_ID demo_row))"
    by (simp_all add: demo_row_def example_server_def demo_caller_def demo_service_def NewService_def)
  from stale_acknowledgement_refused [OF demo_row_ok d(4,3) _ r _ _ d(5)] d(1,2) r show ?thesis
    by (auto simp: MaxInt64_def)
qed

end
