(* ===== verification/Registration_Lifecycle.thy ===== *)
theory Registration_Lifecycle
  imports Registration_Props
begin

text \<open>
  What keeps a registration alive and what ends it: the effect of a heartbeat on the table of servers, and
  the effect of one run of the sweeper.
\<close>

section \<open>Changes to one row\<close>

text \<open>From one database to the next, at most the row with the given identifier changes.\<close>

definition only_row :: "string \<Rightarrow> ServerDB \<Rightarrow> ServerDB \<Rightarrow> bool" where
  "only_row sid db db' \<longleftrightarrow>
     sd_now db' = sd_now db \<and> sd_fails db' = sd_fails db
     \<and> list_all2 (\<lambda>r r'. sr_ID r' = sr_ID r \<and> (sr_ID r \<noteq> sid \<longrightarrow> r' = r)) (sd_rows db) (sd_rows db')"

lemma only_row_refl [simp]: "only_row sid db db"
  by (simp add: only_row_def list.rel_refl)

lemma only_row_trans:
  assumes "only_row sid db db'" and "only_row sid db' db''"
  shows "only_row sid db db''"
proof -
  let ?P = "\<lambda>r r'. sr_ID r' = sr_ID r \<and> (sr_ID r \<noteq> sid \<longrightarrow> r' = r)"
  have l: "list_all2 ?P (sd_rows db) (sd_rows db')" "list_all2 ?P (sd_rows db') (sd_rows db'')"
    using assms unfolding only_row_def by blast+
  have "?P r r''" if "?P r r'" "?P r' r''" for r r' r''
    using that by (cases "sr_ID r = sid") auto
  then have "list_all2 ?P (sd_rows db) (sd_rows db'')" by (rule list_all2_trans [OF _ l])
  moreover have "sd_now db'' = sd_now db" "sd_fails db'' = sd_fails db" using assms by (auto simp: only_row_def)
  ultimately show ?thesis unfolding only_row_def by blast
qed

lemma only_row_update: "(\<And>r. sr_ID (f r) = sr_ID r) \<Longrightarrow> only_row sid db (update_row sid f db)"
  by (simp add: only_row_def update_row_def list_all2_map2 list.rel_refl)

lemma only_row_Update: "Store_Update record db = (e, db') \<Longrightarrow> only_row (sr_ID record) db db'"
  by (auto simp: Store_Update_def updated_by_def split: if_splits intro!: only_row_update)

lemma only_row_UpdateStatus: "Store_UpdateStatus sid st db = (e, db') \<Longrightarrow> only_row sid db db'"
  by (auto simp: Store_UpdateStatus_def split: if_splits intro!: only_row_update)

lemma only_row_UpdateHeartbeat: "Store_UpdateHeartbeat sid db = (e, db') \<Longrightarrow> only_row sid db db'"
  by (auto simp: Store_UpdateHeartbeat_def split: if_splits intro!: only_row_update)

lemmas only_row_writes = only_row_Update only_row_UpdateStatus only_row_UpdateHeartbeat

section \<open>Heartbeats\<close>

lemma only_row_transition:
  "applyHeartbeatTransition sid record s = (r, s') \<Longrightarrow> only_row sid (sv_db s) (sv_db s')"
  by (auto simp: applyHeartbeatTransition_def Let_def split: option.splits if_splits prod.splits
      dest!: only_row_UpdateStatus)

lemma only_row_RefreshCapabilities:
  "RefreshCapabilities record hash s = (r, s') \<Longrightarrow> only_row (sr_ID record) (sv_db s) (sv_db s')"
  by (auto simp: RefreshCapabilities_def Let_def split: option.splits prod.splits dest!: only_row_Update)

lemma only_row_refresh:
  "heartbeat_refresh hash record s = (h, s') \<Longrightarrow> only_row (sr_ID record) (sv_db s) (sv_db s')"
  by (auto simp: heartbeat_refresh_def split: if_splits option.splits prod.splits dest: only_row_RefreshCapabilities)

lemma heartbeat_response_fields [simp]:
  "hs_ServerStatus (heartbeat_response R s srv st sync act hash) = st"
  "hs_Action (heartbeat_response R s srv st sync act hash) = act"
  "hs_CapabilityHash (heartbeat_response R s srv st sync act hash) = hash"
  by (simp_all add: heartbeat_response_def split: prod.split)

text \<open>The ways a heartbeat can go.\<close>

lemma Heartbeat_run:
  assumes "Heartbeat R (Some c) sid req s = (r, s')"
  obtains (refused) "s' = s" and "\<forall>resp. r = Inr resp \<longrightarrow> hs_Action resp = ActionReRegister"
  | (written) srv where "Store_Get sid (sv_db s) = Inr srv" and "id_ID c = sr_SPIFFEID srv"
      and "id_Type c = IdentityMTLS" and "\<forall>resp. r \<noteq> Inr resp"
      and "only_row sid (sv_db s) (sv_db s')"
  | (completed) srv status s1 db hash resp where "Store_Get sid (sv_db s) = Inr srv" and "id_ID c = sr_SPIFFEID srv"
      and "id_Type c = IdentityMTLS"
      and "applyHeartbeatTransition sid srv s = (Inr status, s1)" and "Store_UpdateHeartbeat sid (sv_db s1) = (None, db)"
      and "heartbeat_refresh (TrimSpace (hb_CapabilityHash req)) srv (s1\<lparr>sv_db := db\<rparr>) = (hash, s')"
      and "r = Inr resp" and "hs_ServerStatus resp = status" and "hs_CapabilityHash resp = hash"
      and "hs_Action resp = (if TrimSpace (hb_CapabilityHash req) \<noteq> ''''
             \<and> TrimSpace (hb_CapabilityHash req) \<noteq> TrimSpace (sr_CapabilityHash srv)
           then ActionResendCapabilities else ActionNone)"
proof -
  show thesis
  proof (cases "s' = s \<and> (\<forall>resp. r = Inr resp \<longrightarrow> hs_Action resp = ActionReRegister)")
    case True
    then show ?thesis using refused by blast
  next
    case False
    with assms obtain srv where rec: "TrimSpace sid \<noteq> ''''" "id_Type c = IdentityMTLS"
      "lookupHeartbeatRecord c sid s = Inr srv" "resolveHeartbeatAction req srv \<noteq> ActionReRegister"
      by (auto simp: Heartbeat_def Let_def split: if_splits sum.splits)
    from rec(3) have get: "Store_Get sid (sv_db s) = Inr srv" "id_ID c = sr_SPIFFEID srv"
      by (auto simp: lookupHeartbeatRecord_def split: sum.splits store_error.splits if_splits)
    have none: "resolveHeartbeatAction req srv = ActionNone"
      using rec(4) by (auto simp: resolveHeartbeatAction_def Let_def split: if_splits)
    obtain t s1 where t: "applyHeartbeatTransition sid srv s = (t, s1)" by fastforce
    obtain e db where u: "Store_UpdateHeartbeat sid (sv_db s1) = (e, db)" by fastforce
    note row = only_row_transition [OF t] only_row_UpdateHeartbeat [OF u]
    obtain hash s2 where h: "heartbeat_refresh (TrimSpace (hb_CapabilityHash req)) srv (s1\<lparr>sv_db := db\<rparr>) = (hash, s2)"
      by fastforce
    show ?thesis
    proof (cases t)
      case (Inl x)
      then have "r = Inl x \<and> s' = s1"
        using assms rec t by (simp add: Heartbeat_def Let_def none)
      with written [OF get rec(2)] row(1) show ?thesis by simp
    next
      case (Inr status)
      show ?thesis
      proof (cases e)
        case (Some x)
        then have "r = Inl ErrStore \<and> s' = s1\<lparr>sv_db := db\<rparr>"
          using assms rec t u Inr by (simp add: Heartbeat_def Let_def none)
        with written [OF get rec(2)] only_row_trans [OF row] show ?thesis by simp
      next
        case None
        let ?sync = "if sr_SyncState srv = SyncStateOther '''' then SyncStateUnacked else sr_SyncState srv"
        let ?act = "if TrimSpace (hb_CapabilityHash req) \<noteq> ''''
             \<and> TrimSpace (hb_CapabilityHash req) \<noteq> TrimSpace (sr_CapabilityHash srv)
           then ActionResendCapabilities else ActionNone"
        have "r = Inr (heartbeat_response R s srv status ?sync ?act hash)" "s' = s2"
          using assms rec t u h Inr None by (simp_all add: Heartbeat_def Let_def none)
        with t u h Inr None show ?thesis
          by (intro completed [OF get rec(2), of status s1 db hash
                "heartbeat_response R s srv status ?sync ?act hash"]) simp_all
      qed
    qed
  qed
qed

lemma update_row_cong:
  "(\<And>r. r \<in> set (sd_rows db) \<Longrightarrow> sr_ID r = sid \<Longrightarrow> f r = g r) \<Longrightarrow> update_row sid f db = update_row sid g db"
  by (simp add: update_row_def)

text \<open>The row after a heartbeat.\<close>

definition beat :: "time \<Rightarrow> ServerRecord \<Rightarrow> ServerRecord" where
  "beat now r = r\<lparr>sr_Status := StatusActive, sr_LastHeartbeat := Some now, sr_UpdatedAt := now\<rparr>"

lemma heartbeat_writes:
  assumes "db_ok (sv_db s)" and "Store_Get sid (sv_db s) = Inr srv"
    and "applyHeartbeatTransition sid srv s = (Inr status, s1)" and "Store_UpdateHeartbeat sid (sv_db s1) = (None, db)"
  shows "status = StatusActive" and "db = update_row sid (beat (sd_now (sv_db s))) (sv_db s)"
proof -
  have srv: "srv \<in> set (sd_rows (sv_db s))" "sr_ID srv = sid" using Store_Get_Inr [OF assms(2)] by auto
  have t: "Transition (sr_Status srv) EventHeartbeat = Some status"
    using assms(3) by (auto simp: applyHeartbeatTransition_def split: option.splits if_splits prod.splits)
  then show active: "status = StatusActive" by (elim Transition_Some) auto
  have db: "db = update_row sid (\<lambda>r. r\<lparr>sr_LastHeartbeat := Some (sd_now (sv_db s1)), sr_UpdatedAt := sd_now (sv_db s1)\<rparr>) (sv_db s1)"
    using assms(4) by (simp add: Store_UpdateHeartbeat_def split: if_splits)
  have now: "sd_now (sv_db s1) = sd_now (sv_db s)" using only_row_transition [OF assms(3)] by (simp add: only_row_def)
  have only: "r = srv" if "r \<in> set (sd_rows (sv_db s))" "sr_ID r = sid" for r
    using same_id [OF assms(1) that(1) srv(1)] that(2) srv(2) by simp
  have "sv_db s1 = update_row sid (\<lambda>r. r\<lparr>sr_Status := StatusActive, sr_UpdatedAt := sd_now (sv_db s)\<rparr>) (sv_db s)
      \<or> (sr_Status srv = StatusActive \<and> s1 = s)"
    using assms(3) active
    by (auto simp: applyHeartbeatTransition_def Store_UpdateStatus_def Let_def split: option.splits if_splits prod.splits)
  then show "db = update_row sid (beat (sd_now (sv_db s))) (sv_db s)"
  proof
    assume "sv_db s1 = update_row sid (\<lambda>r. r\<lparr>sr_Status := StatusActive, sr_UpdatedAt := sd_now (sv_db s)\<rparr>) (sv_db s)"
    then show ?thesis unfolding db now by (simp add: update_row_def beat_def comp_def)
  next
    assume "sr_Status srv = StatusActive \<and> s1 = s"
    then have s1: "s1 = s" and "srv = srv\<lparr>sr_Status := StatusActive\<rparr>" by (cases srv, simp)+
    then have "r = r\<lparr>sr_Status := StatusActive\<rparr>" if "r \<in> set (sd_rows (sv_db s))" "sr_ID r = sid" for r
      using only [OF that] by simp
    then show ?thesis unfolding db s1 beat_def by (intro update_row_cong) (metis (no_types, lifting))
  qed
qed

text \<open>C15.  A heartbeat can change no row but the one it names, and that one only for the mutually
  authenticated caller whose SPIFFE identity the row carries.  When it is answered without asking for a
  new registration or for the capabilities, the row has become active with the database's time as its last
  heartbeat, and nothing else in the table has changed.\<close>

theorem Heartbeat_effect:
  assumes "db_ok (sv_db s)" and "Heartbeat R (Some c) sid req s = (r, s')"
  shows "only_row sid (sv_db s) (sv_db s')
    \<and> (s' = s \<or> id_Type c = IdentityMTLS \<and> (\<exists>row\<in>set (sd_rows (sv_db s)). sr_ID row = sid \<and> sr_SPIFFEID row = id_ID c))
    \<and> (\<forall>resp. r = Inr resp \<and> hs_Action resp = ActionNone \<longrightarrow>
         hs_ServerStatus resp = StatusActive \<and> sv_db s' = update_row sid (beat (sd_now (sv_db s))) (sv_db s))"
  using assms(2)
proof (cases rule: Heartbeat_run)
  case refused
  then show ?thesis by auto
next
  case (written srv)
  then show ?thesis using Store_Get_Inr by metis
next
  case (completed srv status s1 db hash resp)
  note w = heartbeat_writes [OF assms(1) completed(1,4,5)]
  have id: "srv \<in> set (sd_rows (sv_db s))" "sr_ID srv = sid" using Store_Get_Inr [OF completed(1)] by auto
  have "only_row sid (sv_db s) db" unfolding w(2) by (rule only_row_update) (simp add: beat_def)
  with only_row_refresh [OF completed(6)] id have "only_row sid (sv_db s) (sv_db s')"
    by (auto intro: only_row_trans)
  moreover have "sv_db s' = db" if "hs_Action resp = ActionNone"
    using that completed(6,10) by (auto simp: heartbeat_refresh_def split: if_splits)
  ultimately show ?thesis using completed(2,3,7,8) id w by auto
qed

definition demo_beat :: HeartbeatRequest where
  "demo_beat = \<lparr>hb_RegistrationID = '''', hb_LeaseEpoch = 4, hb_CapabilityHash = ''''\<rparr>"

theorem Heartbeat_effect_witness:
  "\<exists>resp s'. Heartbeat demo_env (Some demo_caller) ''u2'' demo_beat (demo_service [demo_row]) = (Inr resp, s')
     \<and> sv_db s' = update_row ''u2'' (beat 100) (sv_db (demo_service [demo_row]))"
proof -
  have "\<exists>resp s'. Heartbeat demo_env (Some demo_caller) ''u2'' demo_beat (demo_service [demo_row]) = (Inr resp, s')
      \<and> hs_Action resp = ActionNone"
    by (simp add: Heartbeat_def lookupHeartbeatRecord_def Store_Get_def demo_service_def NewService_def demo_row_def
        example_server_def demo_caller_def demo_beat_def resolveHeartbeatAction_def applyHeartbeatTransition_def
        Store_UpdateHeartbeat_def heartbeat_refresh_def Let_def)
  then obtain resp s' where h: "Heartbeat demo_env (Some demo_caller) ''u2'' demo_beat (demo_service [demo_row]) = (Inr resp, s')"
    and a: "hs_Action resp = ActionNone" by blast
  have "sd_now (sv_db (demo_service [demo_row])) = 100" by (simp add: demo_service_def NewService_def)
  with Heartbeat_effect [OF demo_row_ok h] h a show ?thesis by auto
qed

text \<open>When a heartbeat triggers a refresh of the capabilities, the refresh writes the whole record that was
  read before the heartbeat: the status and the last heartbeat fall back to their old values, although the
  response reports the server as active.\<close>

lemma heartbeat_refresh_loses_beat:
  assumes "db_ok (sv_db s)" and "Heartbeat R (Some c) sid req s = (Inr resp, s')"
    and "hs_Action resp = ActionResendCapabilities"
    and "Store_Get sid (sv_db s) = Inr srv" and "hs_CapabilityHash resp \<noteq> sr_CapabilityHash srv"
  shows "hs_ServerStatus resp = StatusActive
    \<and> (\<exists>row\<in>set (sd_rows (sv_db s')). sr_ID row = sid \<and> sr_Status row = sr_Status srv
         \<and> sr_LastHeartbeat row = sr_LastHeartbeat srv)"
  using assms(2)
proof (cases rule: Heartbeat_run)
  case (completed srv' status s1 db hash resp')
  then have eq: "srv' = srv" "resp' = resp" using assms(4) by auto
  note w = heartbeat_writes [OF assms(1) completed(1,4,5), unfolded eq]
  have srv: "srv \<in> set (sd_rows (sv_db s))" "sr_ID srv = sid" using Store_Get_Inr [OF assms(4)] by auto
  obtain tools where
    u: "Store_Update (srv\<lparr>sr_CapabilityHash := hash, sr_Capabilities := (sr_Capabilities srv)\<lparr>cap_Tools := tools\<rparr>\<rparr>) db
          = (None, sv_db s')"
    using completed(6,9) assms(5)
    by (auto simp: heartbeat_refresh_def RefreshCapabilities_def Let_def eq split: if_splits option.splits prod.splits)
  let ?srv1 = "srv\<lparr>sr_CapabilityHash := hash, sr_Capabilities := (sr_Capabilities srv)\<lparr>cap_Tools := tools\<rparr>\<rparr>"
  have "sv_db s' = update_row sid (updated_by (sd_now db) ?srv1) db"
    using u srv by (auto simp: Store_Update_def split: if_splits)
  moreover have "beat (sd_now (sv_db s)) srv \<in> set (sd_rows db)"
    using srv by (auto simp: w(2) update_row_def)
  moreover have "sr_ID (beat (sd_now (sv_db s)) srv) = sid" using srv by (simp add: beat_def)
  ultimately have "updated_by (sd_now db) ?srv1 (beat (sd_now (sv_db s)) srv) \<in> set (sd_rows (sv_db s'))"
    by (auto simp: update_row_def)
  moreover have "ServerStatus_of_string (ServerStatus_String (sr_Status srv)) = sr_Status srv"
    using assms(1) srv by (auto simp: db_ok_def row_ok_def)
  ultimately show ?thesis
    using w(1) completed(8) eq srv
    by (intro conjI bexI [of _ "updated_by (sd_now db) ?srv1 (beat (sd_now (sv_db s)) srv)"])
      (simp_all add: updated_by_def beat_def)
qed (use assms(3) in auto)

section \<open>The sweeper\<close>

definition mark :: "time \<Rightarrow> ServerStatus \<Rightarrow> ServerRecord \<Rightarrow> ServerRecord" where
  "mark now st r = r\<lparr>sr_Status := st, sr_UpdatedAt := now\<rparr>"

lemma mark_fields [simp]:
  "sr_ID (mark now st r) = sr_ID r" "sr_Status (mark now st r) = st" "mark now st (mark now st' r) = mark now st r"
  "sr_LastHeartbeat (mark now st r) = sr_LastHeartbeat r"
  by (simp_all add: mark_def)

text \<open>Marking all rows of a set of identifiers.\<close>

definition mark_rows :: "ServerStatus \<Rightarrow> string set \<Rightarrow> ServerDB \<Rightarrow> ServerDB" where
  "mark_rows st A db = db\<lparr>sd_rows := map (\<lambda>r. if sr_ID r \<in> A then mark (sd_now db) st r else r) (sd_rows db)\<rparr>"

lemma mark_rows_empty [simp]: "mark_rows st {} db = db"
  by (simp add: mark_rows_def)

lemma mark_rows_insert: "update_row x (mark (sd_now db) st) (mark_rows st A db) = mark_rows st (insert x A) db"
  by (auto simp: mark_rows_def update_row_def)

lemma mark_rows_frame [simp]: "sd_now (mark_rows st A db) = sd_now db" "sd_fails (mark_rows st A db) = sd_fails db"
  by (simp_all add: mark_rows_def)

lemma transitionServer_writes:
  assumes "Transition (sr_Status server) ev = Some st" and "ServerStatus_of_string (ServerStatus_String st) = st"
    and "\<not> sd_fails (sv_db s) (CallUpdateStatus (sr_ID server))"
  shows "\<exists>s1. transitionServer server ev s = (True, s1) \<and> sv_index s1 = sv_index s \<and> sv_config s1 = sv_config s
    \<and> sv_db s1 = update_row (sr_ID server) (mark (sd_now (sv_db s)) st) (sv_db s)"
  using assms by (simp add: transitionServer_def Store_UpdateStatus_def Let_def mark_def [abs_def])

lemma stale_steps:
  assumes "\<forall>x\<in>set l. sr_Status x = StatusActive" and "\<forall>c. \<not> sd_fails (sv_db s) c"
  shows "\<exists>n' s1. foldl stale_step (n, s) l = (n', s1) \<and> sv_index s1 = sv_index s \<and> sv_config s1 = sv_config s
    \<and> sv_db s1 = mark_rows StatusStale (sr_ID ` set l) (sv_db s)"
  using assms(1)
proof (induction l rule: rev_induct)
  case (snoc x l)
  then obtain n1 s1 where s1: "foldl stale_step (n, s) l = (n1, s1)" "sv_index s1 = sv_index s" "sv_config s1 = sv_config s"
    "sv_db s1 = mark_rows StatusStale (sr_ID ` set l) (sv_db s)" by auto
  have "Transition (sr_Status x) EventHeartbeatMissed = Some StatusStale" using snoc.prems by simp
  from transitionServer_writes [OF this, of s1] s1 assms(2) show ?case
    by (auto simp: stale_step_def [of _ x] mark_rows_insert)
qed simp

lemma expire_steps:
  assumes "\<forall>x\<in>set l. sr_Status x = StatusActive \<or> sr_Status x = StatusStale" and "\<forall>c. \<not> sd_fails (sv_db s) c"
  shows "\<exists>n' s1. foldl expire_step (n, s) l = (n', s1)
    \<and> sv_index s1 = map_option (\<lambda>i. foldl (\<lambda>i x. Index_Remove (sr_ID x) i) i l) (sv_index s)
    \<and> sv_db s1 = mark_rows StatusExpired (sr_ID ` set l) (sv_db s)"
  using assms(1)
proof (induction l rule: rev_induct)
  case Nil
  then show ?case by (simp add: option.map_ident)
next
  case (snoc x l)
  then obtain n1 s1 where s1: "foldl expire_step (n, s) l = (n1, s1)"
    "sv_index s1 = map_option (\<lambda>i. foldl (\<lambda>i x. Index_Remove (sr_ID x) i) i l) (sv_index s)"
    "sv_db s1 = mark_rows StatusExpired (sr_ID ` set l) (sv_db s)" by auto
  have "Transition (sr_Status x) EventExpired = Some StatusExpired" using snoc.prems by auto
  from transitionServer_writes [OF this, of s1] s1 assms(2) show ?case
    by (auto simp: expire_step_def [of _ x] mark_rows_insert option.map_comp comp_def)
qed

lemma removals_refine:
  assumes "index_ok i" and "\<forall>x\<in>set l. TrimSpace (sr_ID x) \<noteq> ''''"
  shows "index_ok (foldl (\<lambda>i x. Index_Remove (sr_ID x) i) i l)
    \<and> tool_offers (foldl (\<lambda>i x. Index_Remove (sr_ID x) i) i l) = {(k, y) \<in> tool_offers i. sr_ID y \<notin> sr_ID ` set l}
    \<and> resource_offers (foldl (\<lambda>i x. Index_Remove (sr_ID x) i) i l) = {(k, y) \<in> resource_offers i. sr_ID y \<notin> sr_ID ` set l}"
  using assms
proof (induction l arbitrary: i)
  case (Cons x l)
  have "index_ok (Index_Remove (sr_ID x) i)"
    "tool_offers (Index_Remove (sr_ID x) i) = remove_spec (sr_ID x) (tool_offers i)"
    "resource_offers (Index_Remove (sr_ID x) i) = remove_spec (sr_ID x) (resource_offers i)"
    using Cons.prems removeLocked_refines [OF Cons.prems(1)] by (simp_all add: Index_Remove_def)
  with Cons.IH [of "Index_Remove (sr_ID x) i"] Cons.prems(2) show ?case by (auto simp: remove_spec_def)
qed auto

text \<open>What one sweep makes of a row, \<open>ttl\<close> being the heartbeat interval.\<close>

definition expiring :: "time \<Rightarrow> duration \<Rightarrow> ServerRecord \<Rightarrow> bool" where
  "expiring now ttl r \<longleftrightarrow> older_than now (9 * ttl) r \<and> (sr_Status r = StatusActive \<or> sr_Status r = StatusStale)"

definition aged :: "time \<Rightarrow> duration \<Rightarrow> ServerRecord \<Rightarrow> ServerRecord" where
  "aged now ttl r =
    (if expiring now ttl r then mark now StatusExpired r
     else if older_than now ttl r \<and> sr_Status r = StatusActive then mark now StatusStale r else r)"

lemma sweep_interval_pos: "0 < sweep_interval cfg"
  by (simp add: sweep_interval_def split: option.split)

lemma older_than_mono: "older_than now d' r \<Longrightarrow> d \<le> d' \<Longrightarrow> older_than now d r"
  by (auto simp: older_than_def split: option.splits)

lemma sweepStale_marks:
  assumes "distinct (map sr_ID (sd_rows (sv_db s)))" and "\<forall>c. \<not> sd_fails (sv_db s) c" and "0 < ttl"
  obtains n s1 where "sweepStale ttl s = (n, s1)" and "sv_index s1 = sv_index s" and "sv_config s1 = sv_config s"
    and "sv_db s1 = (sv_db s)\<lparr>sd_rows := map (\<lambda>r. if older_than (sd_now (sv_db s)) ttl r \<and> sr_Status r = StatusActive
           then mark (sd_now (sv_db s)) StatusStale r else r) (sd_rows (sv_db s))\<rparr>"
proof -
  let ?p = "\<lambda>r. older_than (sd_now (sv_db s)) ttl r \<and> sr_Status r = StatusActive"
  let ?l = "sort_key heartbeat_order (filter ?p (sd_rows (sv_db s)))"
  have "sweepStale ttl s = foldl stale_step (0, s) ?l"
    using assms by (simp add: sweepStale_def Store_ListStale_def)
  moreover obtain n s1 where "foldl stale_step (0, s) ?l = (n, s1)" "sv_index s1 = sv_index s" "sv_config s1 = sv_config s"
    "sv_db s1 = mark_rows StatusStale (sr_ID ` set ?l) (sv_db s)"
    using stale_steps [of ?l s 0] assms(2) by auto
  moreover have "sr_ID r \<in> sr_ID ` set ?l \<longleftrightarrow> ?p r" if "r \<in> set (sd_rows (sv_db s))" for r
    using assms(1) that by (auto simp: distinct_map dest: inj_onD)
  then have "mark_rows StatusStale (sr_ID ` set ?l) (sv_db s) =
    (sv_db s)\<lparr>sd_rows := map (\<lambda>r. if ?p r then mark (sd_now (sv_db s)) StatusStale r else r) (sd_rows (sv_db s))\<rparr>"
    by (simp add: mark_rows_def cong: map_cong)
  ultimately show thesis using that by simp
qed

lemma sweepExpired_marks:
  assumes "distinct (map sr_ID (sd_rows (sv_db s)))" and "\<forall>c. \<not> sd_fails (sv_db s) c" and "0 < ttl"
  obtains n s1 l where "sweepExpired (3 * ttl) s = (n, s1)"
    and "sv_index s1 = map_option (\<lambda>i. foldl (\<lambda>i x. Index_Remove (sr_ID x) i) i l) (sv_index s)"
    and "set l = {r \<in> set (sd_rows (sv_db s)). expiring (sd_now (sv_db s)) ttl r}"
    and "sv_db s1 = (sv_db s)\<lparr>sd_rows := map (\<lambda>r. if expiring (sd_now (sv_db s)) ttl r
           then mark (sd_now (sv_db s)) StatusExpired r else r) (sd_rows (sv_db s))\<rparr>"
proof -
  let ?p = "expiring (sd_now (sv_db s)) ttl"
  let ?l = "sort_key heartbeat_order (filter ?p (sd_rows (sv_db s)))"
  have "3 * ttl * 3 = 9 * ttl" by simp
  then have "sweepExpired (3 * ttl) s = foldl expire_step (0, s) ?l"
    using assms by (simp add: sweepExpired_def Store_ListExpired_def expiring_def [abs_def])
  moreover obtain n s1 where "foldl expire_step (0, s) ?l = (n, s1)"
    "sv_index s1 = map_option (\<lambda>i. foldl (\<lambda>i x. Index_Remove (sr_ID x) i) i ?l) (sv_index s)"
    "sv_db s1 = mark_rows StatusExpired (sr_ID ` set ?l) (sv_db s)"
    using expire_steps [of ?l s 0] assms(2) by (auto simp: expiring_def)
  moreover have "sr_ID r \<in> sr_ID ` set ?l \<longleftrightarrow> ?p r" if "r \<in> set (sd_rows (sv_db s))" for r
    using assms(1) that by (auto simp: distinct_map dest: inj_onD)
  then have "mark_rows StatusExpired (sr_ID ` set ?l) (sv_db s) =
    (sv_db s)\<lparr>sd_rows := map (\<lambda>r. if ?p r then mark (sd_now (sv_db s)) StatusExpired r else r) (sd_rows (sv_db s))\<rparr>"
    by (simp add: mark_rows_def cong: map_cong)
  ultimately show thesis using that [of n s1 ?l] by simp
qed

lemma stale_then_expired:
  assumes "0 < ttl"
  shows "(let r1 = if older_than now ttl r \<and> sr_Status r = StatusActive then mark now StatusStale r else r
          in if expiring now ttl r1 then mark now StatusExpired r1 else r1) = aged now ttl r"
    and "expiring now ttl (if older_than now ttl r \<and> sr_Status r = StatusActive then mark now StatusStale r else r)
      = expiring now ttl r"
  using older_than_mono [of now "9 * ttl" r ttl] assms
  by (auto simp: aged_def expiring_def older_than_def Let_def split: option.splits)

text \<open>C16.  One sweep of a database that answers ages every row exactly once: a row that is active or stale
  and was last heard of more than nine heartbeat intervals ago expires, an active one that was last heard
  of more than one interval ago becomes stale, and every other row is left as it is, those that never sent
  a heartbeat included.  The capability index loses exactly the servers that expired; a server that became
  stale stays in it.\<close>

theorem sweep_ages_rows:
  assumes "db_ok (sv_db s)" and "\<forall>c. \<not> sd_fails (sv_db s) c" and "\<forall>r\<in>set (sd_rows (sv_db s)). TrimSpace (sr_ID r) \<noteq> ''''"
    and "sv_index s = Some i" and "index_ok i"
  defines "ttl \<equiv> sweep_interval (sv_config s)" and "now \<equiv> sd_now (sv_db s)"
  shows "sd_rows (sv_db (sweep s)) = map (aged now ttl) (sd_rows (sv_db s))
    \<and> (\<exists>i'. sv_index (sweep s) = Some i' \<and> index_ok i'
         \<and> tool_offers i' = {(k, y) \<in> tool_offers i. \<not> (\<exists>r\<in>set (sd_rows (sv_db s)). sr_ID r = sr_ID y \<and> expiring now ttl r)}
         \<and> resource_offers i' = {(k, y) \<in> resource_offers i. \<not> (\<exists>r\<in>set (sd_rows (sv_db s)). sr_ID r = sr_ID y \<and> expiring now ttl r)})"
proof -
  have ttl: "0 < ttl" by (simp add: ttl_def sweep_interval_pos)
  let ?st = "\<lambda>r. if older_than now ttl r \<and> sr_Status r = StatusActive then mark now StatusStale r else r"
  have d: "distinct (map sr_ID (sd_rows (sv_db s)))" using assms(1) by (simp add: db_ok_def)
  obtain n s1 where s1: "sweepStale ttl s = (n, s1)" "sv_index s1 = sv_index s" "sv_config s1 = sv_config s"
    "sv_db s1 = (sv_db s)\<lparr>sd_rows := map ?st (sd_rows (sv_db s))\<rparr>"
    unfolding now_def by (rule sweepStale_marks [OF d assms(2) ttl])
  have ids: "map sr_ID (sd_rows (sv_db s1)) = map sr_ID (sd_rows (sv_db s))" and now: "sd_now (sv_db s1) = now"
    by (auto simp: s1(4) now_def)
  have rows1: "sd_rows (sv_db s1) = map ?st (sd_rows (sv_db s))" by (simp add: s1(4))
  have d1: "distinct (map sr_ID (sd_rows (sv_db s1)))" and f1: "\<forall>c. \<not> sd_fails (sv_db s1) c"
    unfolding ids using d assms(2) by (simp_all add: s1(4))
  obtain m s2 l where s2: "sweepExpired (3 * ttl) s1 = (m, s2)"
    "sv_index s2 = map_option (\<lambda>i. foldl (\<lambda>i x. Index_Remove (sr_ID x) i) i l) (sv_index s1)"
    "set l = {r \<in> set (sd_rows (sv_db s1)). expiring now ttl r}"
    "sv_db s2 = (sv_db s1)\<lparr>sd_rows := map (\<lambda>r. if expiring now ttl r then mark now StatusExpired r else r) (sd_rows (sv_db s1))\<rparr>"
    by (rule sweepExpired_marks [OF d1 f1 ttl, unfolded now])
  have sweep: "sweep s = s2" using s1(1) s2(1) by (simp add: sweep_def ttl_def)
  have expired: "(\<exists>r\<in>set (sd_rows (sv_db s)). sr_ID r = x \<and> expiring now ttl r) \<longleftrightarrow> x \<in> sr_ID ` set l" for x
  proof -
    have "{r \<in> f ` S. expiring now ttl r} = f ` {r \<in> S. expiring now ttl (f r)}" for f :: "ServerRecord \<Rightarrow> ServerRecord" and S
      by auto
    then have "set l = ?st ` {r \<in> set (sd_rows (sv_db s)). expiring now ttl r}"
      unfolding s2(3) rows1 by (simp only: set_map stale_then_expired(2) [OF ttl])
    moreover have "sr_ID (?st r) = sr_ID r" for r by simp
    ultimately have "sr_ID ` set l = sr_ID ` {r \<in> set (sd_rows (sv_db s)). expiring now ttl r}" by (simp only: image_image)
    then show ?thesis by auto
  qed
  have "\<forall>x\<in>set l. TrimSpace (sr_ID x) \<noteq> ''''" using assms(3) unfolding s2(3) by (auto simp: s1(4))
  note refine = removals_refine [OF assms(5) this]
  have "sd_rows (sv_db s2) = map (aged now ttl) (sd_rows (sv_db s))"
    using stale_then_expired(1) [OF ttl, of now] by (simp add: s2(4) s1(4) Let_def comp_def)
  then show ?thesis unfolding sweep using refine s2(2) s1(2) assms(4) by (simp add: expired)
qed

theorem sweep_ages_rows_witness:
  "sd_rows (sv_db (sweep ((demo_service [demo_row\<lparr>sr_LastHeartbeat := Some (- 31 * Second)\<rparr>])\<lparr>sv_index := Some NewCapabilityIndex\<rparr>)))
     = [demo_row\<lparr>sr_LastHeartbeat := Some (- 31 * Second), sr_Status := StatusStale, sr_UpdatedAt := 100\<rparr>]"
proof -
  let ?r = "demo_row\<lparr>sr_LastHeartbeat := Some (- 31 * Second)\<rparr>"
  let ?s = "(demo_service [?r])\<lparr>sv_index := Some NewCapabilityIndex\<rparr>"
  have s: "sv_db ?s = \<lparr>sd_rows = [?r], sd_now = 100, sd_fails = (\<lambda>c. False)\<rparr>" "sv_config ?s = None"
    by (simp_all add: demo_service_def NewService_def)
  have r: "sr_ID demo_row = ''u2''" "sr_Status demo_row = StatusActive" by (simp_all add: demo_row_def example_server_def)
  have "db_ok (sv_db ?s)" unfolding s
    by (simp add: db_ok_def row_ok_def demo_row_def example_server_def zero_ServerRecord_def)
  from sweep_ages_rows [OF this, of NewCapabilityIndex] r
  have "sd_rows (sv_db (sweep ?s)) = [aged 100 (30 * Second) ?r]"
    by (simp add: demo_service_def NewService_def sweep_interval_def)
  also have "aged 100 (30 * Second) ?r = mark 100 StatusStale ?r"
    using r by (simp add: aged_def expiring_def older_than_def)
  finally show ?thesis by (simp add: mark_def)
qed

section \<open>Deregistration\<close>

lemma remove_row_spec: "remove_spec sid (rows_spec ns rows) = rows_spec ns (filter (\<lambda>r. sr_ID r \<noteq> sid) rows)"
  by (auto simp: remove_spec_def rows_spec_def)

lemma send_broadcast_last: "sv_hasBroadcaster s \<Longrightarrow> sv_broadcasts (publishBroadcast t sid s) = sv_broadcasts s @ [RegistryUpdated t sid]"
  by (simp add: publishBroadcast_def send_broadcast_def)

lemma emit_broadcasts [simp]:
  "sv_broadcasts (AddActiveRegistrations st n s) = sv_broadcasts s" "sv_broadcasts (logAudit e s) = sv_broadcasts s"
  "sv_broadcasts (publish ev s) = sv_broadcasts s"
  "sv_hasBroadcaster (AddActiveRegistrations st n s) = sv_hasBroadcaster s" "sv_hasBroadcaster (logAudit e s) = sv_hasBroadcaster s"
  "sv_hasBroadcaster (publish ev s) = sv_hasBroadcaster s"
  by (simp_all add: AddActiveRegistrations_def logAudit_def publish_def)

text \<open>C17.  A server is removed only by an administrator or by the server itself under its own mutually
  authenticated identity.  The removal deletes exactly its row, announces it, and a replica of the gateway
  whose index stood for the table before and that applies the announcement has an index that stands for the
  table after.\<close>

theorem deregistration_converges:
  assumes "db_ok (sv_db s)" and "Deregister (Some c) sid s = (None, s')" and "TrimSpace sid = sid"
    and "index_ok i" and "agrees i (sd_rows (sv_db s))" and "sv_hasBroadcaster s"
  shows "\<exists>row\<in>set (sd_rows (sv_db s)). sr_ID row = sid
    \<and> (HasScope (Some c) ''admin'' \<or> id_Type c = IdentityMTLS \<and> id_ID c = sr_SPIFFEID row)
    \<and> sd_rows (sv_db s') = filter (\<lambda>r. sr_ID r \<noteq> sid) (sd_rows (sv_db s))
    \<and> sv_broadcasts s' = sv_broadcasts s @ [RegistryUpdated ''deregistered'' sid]
    \<and> index_ok (handle_registration (sv_db s') (Some (''deregistered'', sid)) i)
    \<and> agrees (handle_registration (sv_db s') (Some (''deregistered'', sid)) i) (sd_rows (sv_db s'))"
proof -
  obtain row where get: "Store_Get sid (sv_db s) = Inr row" and sid: "sid \<noteq> ''''"
    and auth: "HasScope (Some c) ''admin'' \<or> id_Type c = IdentityMTLS \<and> id_ID c = sr_SPIFFEID row"
    and ok: "\<not> sd_fails (sv_db s) (CallDelete sid)"
    using assms(2,3) by (auto simp: Deregister_def Store_Delete_def split: if_splits sum.splits store_error.splits)
  have row: "row \<in> set (sd_rows (sv_db s))" "sr_ID row = sid" using Store_Get_Inr [OF get] by auto
  have db: "sv_db s' = (sv_db s)\<lparr>sd_rows := filter (\<lambda>r. sr_ID r \<noteq> sid) (sd_rows (sv_db s))\<rparr>"
    and b: "sv_broadcasts s' = sv_broadcasts s @ [RegistryUpdated ''deregistered'' sid]"
    using assms(2,3,6) get sid auth ok row(2)
    by (auto simp: Deregister_def Store_Delete_def Let_def send_broadcast_last)
  have "handle_registration (sv_db s') (Some (''deregistered'', sid)) i = removeLocked sid i"
    using assms(3) sid by (simp add: handle_registration_def Index_Remove_def)
  moreover have "agrees (removeLocked sid i) (sd_rows (sv_db s'))"
    using removeLocked_refines(2,3) [OF assms(4)] assms(5) by (simp add: agrees_def remove_row_spec db)
  ultimately show ?thesis using row auth db b removeLocked_refines(1) [OF assms(4)] by auto
qed

theorem deregistration_converges_witness:
  "\<exists>s'. Deregister (Some demo_caller) ''u2'' ((demo_service [demo_row])\<lparr>sv_hasBroadcaster := True\<rparr>) = (None, s')
     \<and> sd_rows (sv_db s') = [] \<and> agrees (handle_registration (sv_db s') (Some (''deregistered'', ''u2'')) (Rebuild [demo_row] NewCapabilityIndex)) []"
proof -
  let ?s = "(demo_service [demo_row])\<lparr>sv_hasBroadcaster := True\<rparr>"
  have "\<exists>s'. Deregister (Some demo_caller) ''u2'' ?s = (None, s')"
    by (simp add: Deregister_def Store_Get_def Store_Delete_def demo_service_def NewService_def demo_row_def
        example_server_def demo_caller_def HasScope_def)
  then obtain s' where d: "Deregister (Some demo_caller) ''u2'' ?s = (None, s')" by blast
  have s: "sd_rows (sv_db ?s) = [demo_row]" "sv_db ?s = sv_db (demo_service [demo_row])" "sv_hasBroadcaster ?s"
    by (simp_all add: demo_service_def NewService_def)
  have "index_ok (Rebuild [demo_row] NewCapabilityIndex)" "agrees (Rebuild [demo_row] NewCapabilityIndex) [demo_row]"
    using rebuild_steps [of "[demo_row]" NewCapabilityIndex] by (simp_all add: Rebuild_def agrees_def)
  with deregistration_converges [OF _ d, of "Rebuild [demo_row] NewCapabilityIndex"] demo_row_ok s d show ?thesis
    by (auto simp: demo_row_def example_server_def)
qed

end
