(* ===== verification/Routing.thy ===== *)
theory Routing
  imports Rate_Limit Capability_Index "HOL-Library.Word" "HOL-Library.Sublist"
begin

unbundle bit_operations_syntax

text \<open>
  \<open>internal/proxy\<close>: \<open>namespace.go\<close> (federated tool names), the routing strategies of \<open>router.go\<close> and
  \<open>session_affinity.go\<close>, \<open>Route\<close> with its scope and rate-limit checks, the cache of resilient backend
  clients, and \<open>CallTool\<close> of \<open>client.go\<close>.

  The MCP client library, the session it keeps with a backend, and the network behind it are the record
  \<open>mcp_lib\<close> over an abstract world.  Metrics and trace spans are not modelled.
\<close>

section \<open>Namespaces\<close>

datatype NamespaceMode = NamespaceModeReject | NamespaceModeAlways | NamespaceModeOnConflict

record NamespaceResolver =
  nr_mode :: NamespaceMode
  nr_separator :: string
  nr_hasIndex :: bool

definition NewNamespaceResolver :: "string \<Rightarrow> string \<Rightarrow> bool \<Rightarrow> NamespaceResolver" where
  "NewNamespaceResolver mode separator hasIndex =
    (let m = TrimSpace mode
     in \<lparr> nr_mode = (if m = ''namespace_always'' then NamespaceModeAlways
                     else if m = ''namespace_on_conflict'' then NamespaceModeOnConflict else NamespaceModeReject),
          nr_separator = (if separator = '''' then ''.'' else separator), nr_hasIndex = hasIndex \<rparr>)"

definition Mode :: "NamespaceResolver option \<Rightarrow> NamespaceMode" where
  "Mode r = (case r of None \<Rightarrow> NamespaceModeReject | Some n \<Rightarrow> nr_mode n)"

text \<open>The resolver shares the capability index; \<open>i\<close> is its contents at the call.\<close>

definition IsConflict :: "CapabilityIndex \<Rightarrow> NamespaceResolver option \<Rightarrow> string \<Rightarrow> bool" where
  "IsConflict i r toolName =
    (case r of None \<Rightarrow> False
     | Some n \<Rightarrow> nr_hasIndex n \<and> length (LookupTool i (TrimSpace toolName)) > 1)"

definition ApplyNamespace :: "CapabilityIndex \<Rightarrow> NamespaceResolver option \<Rightarrow> string \<Rightarrow> string \<Rightarrow> string" where
  "ApplyNamespace i r toolName serverName =
    (case r of
       None \<Rightarrow> toolName
     | Some n \<Rightarrow>
         (let tool = TrimSpace toolName; server = TrimSpace serverName
          in if tool = '''' \<or> server = '''' then tool
             else let displayName = TrimPrefix server ''mcp-''
                  in case nr_mode n of
                       NamespaceModeAlways \<Rightarrow> displayName @ nr_separator n @ tool
                     | NamespaceModeOnConflict \<Rightarrow>
                         if IsConflict i r tool then displayName @ nr_separator n @ tool else tool
                     | NamespaceModeReject \<Rightarrow> tool))"

definition ResolveNamespace :: "NamespaceResolver option \<Rightarrow> string \<Rightarrow> string \<times> string" where
  "ResolveNamespace r namespacedName =
    (case r of
       None \<Rightarrow> ('''', namespacedName)
     | Some n \<Rightarrow>
         (let name = TrimSpace namespacedName
          in case index_of name (nr_separator n) of
               None \<Rightarrow> ('''', name)
             | Some idx \<Rightarrow>
                 if idx = 0 then ('''', name)
                 else (take idx name, drop (idx + length (nr_separator n)) name)))"

section \<open>Strategies\<close>

record RoutingRequest =
  rq_SessionID :: string
  rq_ToolName :: string

type_synonym 's select_op = "ServerRecord list \<Rightarrow> RoutingRequest option \<Rightarrow> 's \<Rightarrow> (goerr + ServerRecord option) \<times> 's"

type_synonym u64 = "64 word"

text \<open>The state of the round-robin strategy is its atomic counter, which wraps; a length is below \<open>2 ^ 64\<close>, so
  its conversion is exact.\<close>

definition RoundRobin_Select :: "u64 select_op" where
  "RoundRobin_Select candidates req counter =
    (if candidates = [] then (Inr None, counter)
     else let counter1 = counter + 1; next' = counter1 - 1
          in (Inr (Some (candidates ! (unat next' mod length candidates))), counter1))"

text \<open>\<open>hash/fnv\<close>: the 64-bit FNV-1a hash.\<close>

definition fnv_write :: "u64 \<Rightarrow> string \<Rightarrow> u64" where
  "fnv_write h bytes = foldl (\<lambda>h c. (h XOR of_nat (of_char c)) * 1099511628211) h bytes"

definition hrwScore :: "string \<Rightarrow> string \<Rightarrow> u64" where
  "hrwScore sessionID candidateID = fnv_write (fnv_write 14695981039346656037 sessionID) candidateID"

definition better :: "string \<Rightarrow> (ServerRecord \<times> u64) option \<Rightarrow> ServerRecord \<Rightarrow> (ServerRecord \<times> u64) option" where
  "better sessionID best c =
    (let score = hrwScore sessionID (sr_ID c)
     in case best of
          None \<Rightarrow> Some (c, score)
        | Some (b, bestScore) \<Rightarrow> if score > bestScore then Some (c, score) else best)"

definition SessionAffinity_Select :: "'s select_op \<Rightarrow> 's select_op" where
  "SessionAffinity_Select fallback candidates req s =
    (if candidates = [] then (Inr None, s)
     else case req of
            None \<Rightarrow> fallback candidates req s
          | Some q \<Rightarrow>
              if rq_SessionID q = '''' then fallback candidates req s
              else (Inr (map_option fst (foldl (better (rq_SessionID q)) None candidates)), s))"

section \<open>The backend client\<close>

text \<open>A content block of a result is text, or a value given by its JSON encoding or the error of encoding it.\<close>

datatype mcp_content = TextContent string string | OtherContent "goerr + string"

record ToolResult =
  tr_Content :: "(string \<times> string) list"
  tr_IsError :: bool

text \<open>The MCP client of one URL: create it with a timeout, start it, initialise the session, call a tool.\<close>

record 'w mcp_lib =
  mcp_New :: "string \<Rightarrow> duration \<Rightarrow> 'w \<Rightarrow> goerr option \<times> 'w"
  mcp_Start :: "string \<Rightarrow> 'w \<Rightarrow> goerr option \<times> 'w"
  mcp_Initialize :: "string \<Rightarrow> 'w \<Rightarrow> goerr option \<times> 'w"
  mcp_CallTool :: "string \<Rightarrow> string \<Rightarrow> (string, json) gomap \<Rightarrow> 'w \<Rightarrow> (goerr + mcp_content list \<times> bool) \<times> 'w"

record BackendClient =
  bc_record :: ServerRecord
  bc_timeout :: duration
  bc_baseURL :: string
  bc_client :: bool
  bc_initialized :: bool

abbreviation defaultBackendTimeout :: duration where
  "defaultBackendTimeout \<equiv> 30 * Second"

definition backendScheme :: "string \<Rightarrow> string" where
  "backendScheme protocol = (if ToLower (TrimSpace protocol) = ''http'' then ''http'' else ''https'')"

definition NewBackendClient :: "ServerRecord \<Rightarrow> duration \<Rightarrow> BackendClient" where
  "NewBackendClient record timeout =
    \<lparr> bc_record = record, bc_timeout = (if timeout \<le> 0 then defaultBackendTimeout else timeout),
      bc_baseURL = backendScheme (sr_Protocol record) @ ''://'' @ TrimSpace (sr_Host record) @ '':''
                     @ Itoa (sr_Port record) @ ''/mcp'',
      bc_client = False, bc_initialized = False \<rparr>"

definition ensureInitialized :: "'w mcp_lib \<Rightarrow> BackendClient \<Rightarrow> 'w \<Rightarrow> goerr option \<times> BackendClient \<times> 'w" where
  "ensureInitialized M c w =
    (if TrimSpace (sr_Host (bc_record c)) = '''' \<or> sr_Port (bc_record c) \<le> 0
     then (Some (PlainError ''invalid backend address''), c, w)
     else
       let (e, w1) = (if bc_client c then (None, w) else mcp_New M (bc_baseURL c) (bc_timeout c) w)
       in case e of
            Some e \<Rightarrow> (Some (WrapError (OtherContext ''create streamable http client'') e), c, w1)
          | None \<Rightarrow>
              (let c1 = c\<lparr>bc_client := True\<rparr>
               in if bc_initialized c1 then (None, c1, w1)
                  else case mcp_Start M (bc_baseURL c) w1 of
                    (Some e, w2) \<Rightarrow> (Some (WrapError (OtherContext ''start mcp client'') e), c1, w2)
                  | (None, w2) \<Rightarrow>
                      (case mcp_Initialize M (bc_baseURL c) w2 of
                         (Some e, w3) \<Rightarrow> (Some (WrapError (OtherContext ''initialize mcp client'') e), c1, w3)
                       | (None, w3) \<Rightarrow> (None, c1\<lparr>bc_initialized := True\<rparr>, w3))))"

fun content_blocks :: "mcp_content list \<Rightarrow> goerr + (string \<times> string) list" where
  "content_blocks [] = Inr []"
| "content_blocks (TextContent type text # rest) = map_sum id (\<lambda>bs. (type, text) # bs) (content_blocks rest)"
| "content_blocks (OtherContent (Inl e) # rest) = Inl e"
| "content_blocks (OtherContent (Inr bytes) # rest) = map_sum id (\<lambda>bs. (''json'', bytes) # bs) (content_blocks rest)"

definition BackendClient_CallTool ::
  "'w mcp_lib \<Rightarrow> string \<Rightarrow> (string, json) gomap \<Rightarrow> BackendClient \<times> 'w \<Rightarrow> (goerr + ToolResult) \<times> BackendClient \<times> 'w" where
  "BackendClient_CallTool M name args st =
    (let (c, w) = st
     in case ensureInitialized M c w of
          (Some e, c1, w1) \<Rightarrow> (Inl (WrapError (OtherContext ''call tool'') e), c1, w1)
        | (None, c1, w1) \<Rightarrow>
            (case mcp_CallTool M (bc_baseURL c1) name args w1 of
               (Inl e, w2) \<Rightarrow> (Inl (WrapError (OtherContext ''call tool: backend call'') e), c1, w2)
             | (Inr (items, isErr), w2) \<Rightarrow>
                 (case content_blocks items of
                    Inl e \<Rightarrow> (Inl (WrapError (OtherContext ''call tool: marshal content block'') e), c1, w2)
                  | Inr bs \<Rightarrow> (Inr \<lparr>tr_Content = bs, tr_IsError = isErr\<rparr>, c1, w2))))"

section \<open>The router\<close>

text \<open>A resilient client is its backend client and its retry configuration; its breaker is the one the
  registry holds for the server, which the router never removes.\<close>

record ResilientClient =
  rsc_backend :: BackendClient
  rsc_retryCfg :: RetryConfig

record ('s, 'b) Router =
  rt_index :: "CapabilityIndex option"
  rt_clients :: "(string, ResilientClient) gomap"
  rt_strategy :: 's
  rt_limiter :: "'b option"
  rt_nsResolver :: "NamespaceResolver option"
  rt_backendTimeout :: duration
  rt_breakers :: BreakerRegistry
  rt_retryCfg :: RetryConfig
  rt_circuitTimeout :: duration
  rt_circuitThresh :: int

text \<open>\<open>cfg\<close> is the circuit threshold, the circuit timeout and the retry attempts of the loaded configuration,
  \<open>None\<close> when it does not load.\<close>

definition NewRouter :: "CapabilityIndex option \<Rightarrow> 's \<Rightarrow> duration \<Rightarrow> (int \<times> duration \<times> int) option \<Rightarrow> ('s, 'b) Router" where
  "NewRouter index strategy backendTimeout cfg =
    \<lparr> rt_index = index, rt_clients = [], rt_strategy = strategy, rt_limiter = None, rt_nsResolver = None,
      rt_backendTimeout = (if backendTimeout \<le> 0 then defaultBackendTimeout else backendTimeout),
      rt_breakers = [], rt_retryCfg = DefaultRetryConfig (map_option (\<lambda>(threshold, timeout, attempts). attempts) cfg),
      rt_circuitTimeout = (case cfg of None \<Rightarrow> 30 * Second | Some (threshold, timeout, attempts) \<Rightarrow> timeout),
      rt_circuitThresh = (case cfg of None \<Rightarrow> 5 | Some (threshold, timeout, attempts) \<Rightarrow> threshold) \<rparr>"

definition matchesServerHint :: "string \<Rightarrow> string \<Rightarrow> bool" where
  "matchesServerHint actual hint =
    (let a = TrimSpace actual in EqualFold a hint \<or> EqualFold (TrimPrefix a ''mcp-'') hint)"

definition filterCandidatesByServer :: "ServerRecord list \<Rightarrow> string \<Rightarrow> ServerRecord list" where
  "filterCandidatesByServer candidates requested =
    filter (\<lambda>c. matchesServerHint (sr_Name c) requested \<or> matchesServerHint (sr_ID c) requested) candidates"

definition split_at_dot :: "string \<Rightarrow> (string \<times> string) option" where
  "split_at_dot name = (case index_of name ''.'' of None \<Rightarrow> None | Some i \<Rightarrow> Some (take i name, drop (Suc i) name))"

text \<open>The last two rules of \<open>resolveFederatedName\<close>.\<close>

definition legacy_name :: "string \<Rightarrow> string \<times> string" where
  "legacy_name name =
    (case split_at_dot name of
       Some (p0, rest) \<Rightarrow>
         (case split_at_dot rest of
            Some (p1, p2) \<Rightarrow> if p0 = ''mcp'' then (p2, p1) else (name, '''')
          | None \<Rightarrow> (name, ''''))
     | None \<Rightarrow> (name, ''''))"

definition dotted_name :: "CapabilityIndex \<Rightarrow> string \<Rightarrow> string \<times> string" where
  "dotted_name i name =
    (case split_at_dot name of
       Some (hint, rest) \<Rightarrow>
         if hint \<noteq> '''' \<and> LookupTool i rest \<noteq> [] then (rest, hint) else legacy_name name
     | None \<Rightarrow> legacy_name name)"

definition resolveFederatedName :: "CapabilityIndex \<Rightarrow> NamespaceResolver option \<Rightarrow> string \<Rightarrow> string \<times> string" where
  "resolveFederatedName i ns name =
    (if LookupTool i name \<noteq> [] then (name, '''')
     else if ns \<noteq> None \<and> Mode ns \<noteq> NamespaceModeReject
     then (let (hint, bare) = ResolveNamespace ns name
           in if hint \<noteq> '''' \<and> bare \<noteq> '''' \<and> LookupTool i bare \<noteq> [] then (bare, hint) else dotted_name i name)
     else dotted_name i name)"

datatype route_error =
    ErrRouterIndex
  | ErrMissingToolName
  | ErrToolNotFound string
  | ErrStrategySelect goerr
  | ErrServerScopeDenied string
  | ServerRateLimitError string string duration
  | ErrServerRateLimitCheck string
  | ErrBackend string goerr

definition checkServerRateLimit ::
  "'b allow_op \<Rightarrow> time \<Rightarrow> ServerRecord \<Rightarrow> 'b option \<Rightarrow> route_error option \<times> 'b option" where
  "checkServerRateLimit allow now server limiter =
    (case sr_RateLimit server of
       None \<Rightarrow> (None, limiter)
     | Some limit \<Rightarrow>
         if limit \<le> 0 then (Some (ServerRateLimitError (sr_ID server) (sr_Name server) 0), limiter)
         else case limiter of
           None \<Rightarrow> (None, None)
         | Some b \<Rightarrow>
             (let burst = (case sr_RateBurst server of Some n \<Rightarrow> if n > 0 then n else limit | None \<Rightarrow> limit);
                  key = \<lparr>lk_ClientID = ''server:'' @ sr_ID server, lk_Route = ''global''\<rparr>
              in case allow now key (of_int limit) burst b of
                   (Inl e, b') \<Rightarrow> (Some (ErrServerRateLimitCheck e), Some b')
                 | (Inr (allowed, remaining, retryAfter), b') \<Rightarrow>
                     (if allowed then None else Some (ServerRateLimitError (sr_ID server) (sr_Name server) retryAfter),
                      Some b')))"

definition GetOrCreateClient :: "ServerRecord \<Rightarrow> ('s, 'b) Router \<Rightarrow> ResilientClient \<times> ('s, 'b) Router" where
  "GetOrCreateClient record r =
    (case map_of (rt_clients r) (sr_ID record) of
       Some client \<Rightarrow> (client, r)
     | None \<Rightarrow>
         (let client = \<lparr>rsc_backend = NewBackendClient record (rt_backendTimeout r),
                        rsc_retryCfg = normalizeRetryConfig (rt_retryCfg r)\<rparr>;
              (breaker, breakers) = Breaker_GetOrCreate (sr_ID record) (rt_circuitThresh r) (rt_circuitTimeout r) (rt_breakers r)
          in (client, r\<lparr>rt_breakers := breakers, rt_clients := mput (sr_ID record) client (rt_clients r)\<rparr>)))"

definition StoreBackendClient :: "ServerRecord \<Rightarrow> BackendClient \<Rightarrow> ('s, 'b) Router \<Rightarrow> ('s, 'b) Router" where
  "StoreBackendClient record backend r =
    (let client = \<lparr>rsc_backend = backend, rsc_retryCfg = normalizeRetryConfig (rt_retryCfg r)\<rparr>;
         (breaker, breakers) = Breaker_GetOrCreate (sr_ID record) (rt_circuitThresh r) (rt_circuitTimeout r) (rt_breakers r)
     in r\<lparr>rt_breakers := breakers, rt_clients := mput (sr_ID record) client (rt_clients r)\<rparr>)"

definition pair_env :: "'w env \<Rightarrow> (BackendClient \<times> 'w) env" where
  "pair_env E =
    \<lparr> clock = (\<lambda>(c, w). clock E w), ctx_err = (\<lambda>(c, w). ctx_err E w),
      sleep = (\<lambda>d (c, w). case sleep E d w of (e, w') \<Rightarrow> (e, c, w')),
      rand_int = (\<lambda>(c, w). rand_int E w) \<rparr>"

text \<open>The call through the resilient client of the selected server, with the client and the breaker as the
  call leaves them put back.\<close>

definition forward ::
  "'w mcp_lib \<Rightarrow> 'w env \<Rightarrow> ServerRecord \<Rightarrow> string \<Rightarrow> (string, json) gomap \<Rightarrow> ('s, 'b) Router \<Rightarrow> 'w
   \<Rightarrow> (goerr + ToolResult option) \<times> ('s, 'b) Router \<times> 'w" where
  "forward M E selected tool args r w =
    (let (client, r1) = GetOrCreateClient selected r;
         sid = sr_ID selected;
         (res, breaker, backend, w1) =
           CallTool (pair_env E) (Some (BackendClient_CallTool M tool args)) (rsc_retryCfg client) tool
             (map_of (rt_breakers r1) sid) (rsc_backend client, w)
     in (res,
         r1\<lparr>rt_clients := mput sid (client\<lparr>rsc_backend := backend\<rparr>) (rt_clients r1),
            rt_breakers := (case breaker of Some b \<Rightarrow> mput sid b (rt_breakers r1) | None \<Rightarrow> rt_breakers r1)\<rparr>, w1))"

definition Route ::
  "'s select_op \<Rightarrow> 'b allow_op \<Rightarrow> 'w mcp_lib \<Rightarrow> 'w env \<Rightarrow> Ctx \<Rightarrow> string \<Rightarrow> (string, json) gomap
   \<Rightarrow> ('s, 'b) Router \<Rightarrow> 'w \<Rightarrow> (route_error + ToolResult option) \<times> ('s, 'b) Router \<times> 'w" where
  "Route select allow M E ctx toolName args r w =
    (case rt_index r of
       None \<Rightarrow> (Inl ErrRouterIndex, r, w)
     | Some i \<Rightarrow>
         (let name = TrimSpace toolName
          in if name = '''' then (Inl ErrMissingToolName, r, w)
             else
               let (backendToolName, requestedServer) = resolveFederatedName i (rt_nsResolver r) name;
                   candidates = LookupTool i backendToolName;
                   candidates = (if requestedServer \<noteq> '''' then filterCandidatesByServer candidates requestedServer
                                 else candidates)
               in if candidates = [] then (Inl (ErrToolNotFound name), r, w)
                  else
                    let (sel, strategy) = select candidates (Some \<lparr>rq_SessionID = '''', rq_ToolName = name\<rparr>) (rt_strategy r);
                        r1 = r\<lparr>rt_strategy := strategy\<rparr>
                    in case sel of
                         Inl e \<Rightarrow> (Inl (ErrStrategySelect e), r1, w)
                       | Inr None \<Rightarrow> (Inl (ErrToolNotFound name), r1, w)
                       | Inr (Some selected) \<Rightarrow>
                           if \<not> CheckServerScope ctx (sr_Name selected)
                           then (Inl (ErrServerScopeDenied (sr_Name selected)), r1, w)
                           else (case checkServerRateLimit allow (clock E w) selected (rt_limiter r1) of
                                   (Some e, limiter) \<Rightarrow> (Inl e, r1\<lparr>rt_limiter := limiter\<rparr>, w)
                                 | (None, limiter) \<Rightarrow>
                                     (case forward M E selected backendToolName args (r1\<lparr>rt_limiter := limiter\<rparr>) w of
                                        (Inl e, r2, w1) \<Rightarrow> (Inl (ErrBackend (sr_ID selected) e), r2, w1)
                                      | (Inr result, r2, w1) \<Rightarrow> (Inr result, r2, w1)))))"

section \<open>The contract of a routing strategy\<close>

text \<open>A strategy selects one of the candidates whenever there is one, and does not fail.\<close>

locale routing_strategy =
  fixes select :: "'s select_op"
  assumes select_empty: "select [] req s = (Inr None, s)"
    and select_member: "candidates \<noteq> [] \<Longrightarrow> \<exists>c\<in>set candidates. \<exists>s'. select candidates req s = (Inr (Some c), s')"

interpretation round_robin: routing_strategy RoundRobin_Select
proof unfold_locales
  show "RoundRobin_Select [] req s = (Inr None, s)" for req s by (simp add: RoundRobin_Select_def)
  fix candidates :: "ServerRecord list" and req and s :: u64
  assume ne: "candidates \<noteq> []"
  then have "unat s mod length candidates < length candidates" by simp
  with ne show "\<exists>c\<in>set candidates. \<exists>s'. RoundRobin_Select candidates req s = (Inr (Some c), s')"
    by (simp add: RoundRobin_Select_def Let_def)
qed

text \<open>What the rendezvous loop computes: the first candidate with the greatest score.\<close>

definition first_best :: "string \<Rightarrow> ServerRecord list \<Rightarrow> ServerRecord \<Rightarrow> bool" where
  "first_best sid cs m \<longleftrightarrow>
    (\<exists>xs ys. cs = xs @ m # ys \<and> (\<forall>x\<in>set xs. hrwScore sid (sr_ID x) < hrwScore sid (sr_ID m))
       \<and> (\<forall>y\<in>set ys. hrwScore sid (sr_ID y) \<le> hrwScore sid (sr_ID m)))"

lemma subseq_set: "subseq xs ys \<Longrightarrow> set xs \<subseteq> set ys"
  by (auto elim: list_emb_set)

lemma better_first_best: "cs \<noteq> [] \<Longrightarrow> \<exists>m. foldl (better sid) None cs = Some (m, hrwScore sid (sr_ID m)) \<and> first_best sid cs m"
proof (induction cs rule: rev_induct)
  case (snoc x cs)
  show ?case
  proof (cases "cs = []")
    case True
    have "first_best sid [x] x" unfolding first_best_def by (intro exI [of _ "[]"]) simp
    with True show ?thesis by (simp add: better_def)
  next
    case False
    with snoc.IH obtain m xs ys where m: "foldl (better sid) None cs = Some (m, hrwScore sid (sr_ID m))" "cs = xs @ m # ys"
      "\<forall>x\<in>set xs. hrwScore sid (sr_ID x) < hrwScore sid (sr_ID m)"
      "\<forall>y\<in>set ys. hrwScore sid (sr_ID y) \<le> hrwScore sid (sr_ID m)"
      unfolding first_best_def by blast
    show ?thesis
    proof (cases "hrwScore sid (sr_ID x) > hrwScore sid (sr_ID m)")
      case True
      then have "\<forall>z\<in>set cs. hrwScore sid (sr_ID z) < hrwScore sid (sr_ID x)" using m(2-4) by fastforce
      then have "first_best sid (cs @ [x]) x" unfolding first_best_def by (intro exI [of _ cs] exI [of _ "[]"]) simp
      then show ?thesis using True m(1) by (simp add: better_def [of sid _ x])
    next
      case False
      then have "first_best sid (cs @ [x]) m"
        unfolding first_best_def using m(2-4) by (intro exI [of _ xs] exI [of _ "ys @ [x]"]) auto
      then show ?thesis using False m(1) by (simp add: better_def [of sid _ x])
    qed
  qed
qed simp

lemma first_best_unique:
  assumes "first_best sid cs m" and "first_best sid cs m'"
  shows "m = m'"
proof -
  let ?h = "\<lambda>x. hrwScore sid (sr_ID x)"
  obtain xs ys where m: "cs = xs @ m # ys" "\<forall>x\<in>set xs. ?h x < ?h m" "\<forall>y\<in>set ys. ?h y \<le> ?h m"
    using assms(1) unfolding first_best_def by blast
  obtain xs' ys' where m': "cs = xs' @ m' # ys'" "\<forall>x\<in>set xs'. ?h x < ?h m'" "\<forall>y\<in>set ys'. ?h y \<le> ?h m'"
    using assms(2) unfolding first_best_def by blast
  have "?h m = ?h m'"
  proof (rule antisym)
    have "m \<in> set (xs' @ m' # ys')" using m(1) m'(1) by (metis in_set_conv_decomp)
    then show "?h m \<le> ?h m'" using m'(2,3) by (auto intro: less_imp_le)
    have "m' \<in> set (xs @ m # ys)" using m(1) m'(1) by (metis in_set_conv_decomp)
    then show "?h m' \<le> ?h m" using m(2,3) by (auto intro: less_imp_le)
  qed
  then have "\<forall>x\<in>set xs. x \<noteq> m'" "\<forall>x\<in>set xs'. x \<noteq> m" using m(2) m'(2) by auto
  moreover have "m = m' \<or> m' \<in> set xs \<or> m \<in> set xs'"
  proof (cases "length xs" "length xs'" rule: linorder_cases)
    case less
    then have "xs' ! length xs = m" using m(1) m'(1) by (metis nth_append nth_append_length)
    with less show ?thesis by (metis nth_mem)
  next
    case equal
    then show ?thesis using m(1) m'(1) by simp
  next
    case greater
    then have "xs ! length xs' = m'" using m(1) m'(1) by (metis nth_append nth_append_length)
    with greater show ?thesis by (metis nth_mem)
  qed
  ultimately show "m = m'" by blast
qed

text \<open>Dropping candidates other than the chosen one does not change the choice.\<close>

lemma first_best_subseq:
  assumes "first_best sid cs m" and "distinct cs" and "subseq cs' cs" and "m \<in> set cs'"
  shows "first_best sid cs' m"
proof -
  obtain xs ys where cs: "cs = xs @ m # ys" and h: "\<forall>x\<in>set xs. hrwScore sid (sr_ID x) < hrwScore sid (sr_ID m)"
    "\<forall>y\<in>set ys. hrwScore sid (sr_ID y) \<le> hrwScore sid (sr_ID m)"
    using assms(1) unfolding first_best_def by blast
  obtain u v where uv: "cs' = u @ v" "subseq u xs" "subseq v (m # ys)"
    using assms(3) unfolding cs by (elim subseq_appendE)
  have u: "set u \<subseteq> set xs" using uv(2) by (rule subseq_set)
  then have "m \<in> set v" using assms(2,4) uv(1) cs by auto
  moreover have "m \<notin> set ys" using assms(2) cs by simp
  ultimately obtain v' where v: "v = m # v'" "subseq v' ys"
    using uv(3) subseq_set [of v ys] by (cases v) (auto split: if_splits)
  have "set v' \<subseteq> set ys" using v(2) by (rule subseq_set)
  with u h uv(1) v(1) show ?thesis unfolding first_best_def by blast
qed

interpretation session_affinity: routing_strategy "SessionAffinity_Select RoundRobin_Select"
proof unfold_locales
  show "SessionAffinity_Select RoundRobin_Select [] req s = (Inr None, s)" for req s
    by (simp add: SessionAffinity_Select_def)
  fix candidates :: "ServerRecord list" and req and s :: u64
  assume ne: "candidates \<noteq> []"
  have "\<exists>c\<in>set candidates. map_option fst (foldl (better sid) None candidates) = Some c" for sid
    using better_first_best [OF ne, of sid] unfolding first_best_def by auto
  with round_robin.select_member [OF ne]
  show "\<exists>c\<in>set candidates. \<exists>s'. SessionAffinity_Select RoundRobin_Select candidates req s = (Inr (Some c), s')"
    using ne by (auto simp: SessionAffinity_Select_def split: option.split)
qed

end
