(* ===== verification/Routing_Props.thy ===== *)
theory Routing_Props
  imports Routing Registration_Request
begin

text \<open>
  What routing guarantees: round robin is fair, session affinity is stable when other backends come and go,
  a call reaches a backend only past the checks, and a namespaced name leads back to its server.
\<close>

section \<open>Round robin\<close>

text \<open>What a strategy selects in a number of consecutive calls.\<close>

fun selections :: "'s select_op \<Rightarrow> ServerRecord list \<Rightarrow> nat \<Rightarrow> 's \<Rightarrow> (goerr + ServerRecord option) list" where
  "selections select cs 0 s = []"
| "selections select cs (Suc n) s = (case select cs None s of (r, s') \<Rightarrow> r # selections select cs n s')"

lemma selections_round_robin:
  assumes "cs \<noteq> []" and "unat c + n \<le> 2 ^ 64"
  shows "selections RoundRobin_Select cs n c = map (\<lambda>j. Inr (Some (cs ! ((unat c + j) mod length cs)))) [0..<n]"
  using assms(2)
proof (induction n arbitrary: c)
  case (Suc n)
  have first: "RoundRobin_Select cs None c = (Inr (Some (cs ! (unat c mod length cs))), c + 1)"
    using assms(1) by (simp add: RoundRobin_Select_def Let_def)
  show ?case
  proof (cases n)
    case 0
    then show ?thesis using first by simp
  next
    case (Suc m)
    with Suc.prems have "Suc (unat c) < 2 ^ 64" by simp
    then have "unat (c + 1) = Suc (unat c)" by (simp add: unat_word_ariths(1))
    with Suc.IH [of "c + 1"] Suc.prems first show ?thesis
      by (simp add: map_upt_Suc del: upt_Suc)
  qed
qed simp

lemma count_list_distinct: "distinct ys \<Longrightarrow> x \<in> set ys \<Longrightarrow> count_list ys x = 1"
  by (induction ys) auto

lemma block_count:
  assumes "distinct cs" and "x \<in> set cs"
  shows "count_list (map (\<lambda>j. Inr (Some (cs ! ((a + j) mod length cs))) :: goerr + ServerRecord option) [0..<length cs]) (Inr (Some x)) = 1"
proof -
  have "map (\<lambda>j. cs ! ((a + j) mod length cs)) [0..<length cs] = rotate a cs"
    by (rule nth_equalityI) (simp_all add: nth_rotate)
  then have "map (\<lambda>j. Inr (Some (cs ! ((a + j) mod length cs))) :: goerr + ServerRecord option) [0..<length cs]
      = map (\<lambda>s. Inr (Some s)) (rotate a cs)"
    by (metis (no_types, lifting) list.map_comp comp_apply map_eq_conv)
  moreover have "count_list (map (\<lambda>s. Inr (Some s) :: goerr + ServerRecord option) ys) (Inr (Some x)) = count_list ys x" for ys
    by (induction ys) auto
  moreover have "count_list (rotate a cs) x = 1"
    using assms by (simp add: count_list_distinct)
  ultimately show ?thesis by simp
qed

lemma blocks_count:
  assumes "distinct cs" and "x \<in> set cs"
  shows "count_list (map (\<lambda>j. Inr (Some (cs ! ((a + j) mod length cs))) :: goerr + ServerRecord option) [0..<k * length cs]) (Inr (Some x)) = k"
proof (induction k)
  case (Suc k)
  let ?n = "length cs" and ?f = "\<lambda>j. Inr (Some (cs ! ((a + j) mod length cs))) :: goerr + ServerRecord option"
  have "[0..<Suc k * ?n] = [0..<k * ?n] @ map (\<lambda>j. k * ?n + j) [0..<?n]"
    using upt_add_eq_append [of 0 "k * ?n" ?n] map_add_upt [of "k * ?n" ?n] by (simp add: add.commute)
  then have "map ?f [0..<Suc k * ?n] = map ?f [0..<k * ?n] @ map (\<lambda>j. ?f (k * ?n + j)) [0..<?n]" by (simp add: comp_def)
  moreover have "map (\<lambda>j. ?f (k * ?n + j)) [0..<?n] = map ?f [0..<?n]"
    by (simp add: add.left_commute [of a])
  ultimately show ?case using Suc block_count [OF assms, of a] by simp
qed simp

text \<open>Round robin is fair: as long as the 64-bit counter does not wrap, in any \<open>k\<close> rounds of as many
  consecutive selections as there are candidates every candidate is selected exactly \<open>k\<close> times, wherever
  the counter stands at the start.\<close>

theorem round_robin_fair:
  assumes "distinct cs" and "unat c + k * length cs \<le> 2 ^ 64" and "x \<in> set cs"
  shows "count_list (selections RoundRobin_Select cs (k * length cs) c) (Inr (Some x)) = k"
proof -
  have "cs \<noteq> []" using assms(3) by auto
  from selections_round_robin [OF this assms(2)] blocks_count [OF assms(1,3)] show ?thesis by simp
qed

theorem round_robin_fair_witness:
  "count_list (selections RoundRobin_Select [example_server ''1'' ''a'' [], example_server ''2'' ''b'' []] 6 7)
     (Inr (Some (example_server ''2'' ''b'' []))) = 3"
proof -
  have "sr_ID (example_server ''1'' ''a'' []) \<noteq> sr_ID (example_server ''2'' ''b'' [])" by (simp add: example_server_def)
  then have "distinct [example_server ''1'' ''a'' [], example_server ''2'' ''b'' []]" by auto
  from round_robin_fair [OF this, of 7 3 "example_server ''2'' ''b'' []"] show ?thesis by simp
qed

section \<open>Session affinity\<close>

text \<open>Session affinity keeps a session where it is: the backend chosen for a session is chosen again,
  whatever the state of the fallback strategy, from any part of the candidates that still contains it, so
  that only the sessions of a backend that disappears are moved.\<close>

theorem session_affinity_stable:
  assumes "distinct (map sr_ID cs)" and "rq_SessionID q \<noteq> ''''" and "subseq cs' cs" and "m \<in> set cs'"
    and "SessionAffinity_Select RoundRobin_Select cs (Some q) s = (Inr (Some m), s1)"
  shows "SessionAffinity_Select RoundRobin_Select cs' (Some q) s' = (Inr (Some m), s')"
proof -
  have ne: "cs \<noteq> []" "cs' \<noteq> []" using subseq_set [OF assms(3)] assms(4) by force+
  obtain b where b: "foldl (better (rq_SessionID q)) None cs = Some (b, hrwScore (rq_SessionID q) (sr_ID b))"
    "first_best (rq_SessionID q) cs b" using better_first_best [OF ne(1)] by blast
  then have "b = m" using assms(2,5) ne by (simp add: SessionAffinity_Select_def)
  then have "first_best (rq_SessionID q) cs m" using b(2) by simp
  moreover have "distinct cs" using assms(1) by (simp add: distinct_map)
  ultimately have "first_best (rq_SessionID q) cs' m" using assms(3,4) by (rule first_best_subseq)
  moreover obtain b' where b': "foldl (better (rq_SessionID q)) None cs' = Some (b', hrwScore (rq_SessionID q) (sr_ID b'))"
    "first_best (rq_SessionID q) cs' b'" using better_first_best [OF ne(2)] by blast
  ultimately have "b' = m" by (blast dest: first_best_unique)
  with b'(1) assms(2) ne(2) show ?thesis by (simp add: SessionAffinity_Select_def)
qed

theorem session_affinity_stable_witness:
  "\<exists>m. SessionAffinity_Select RoundRobin_Select [example_server ''1'' ''a'' [], example_server ''2'' ''b'' []]
         (Some \<lparr>rq_SessionID = ''s1'', rq_ToolName = ''t''\<rparr>) 0 = (Inr (Some m), 0)
     \<and> SessionAffinity_Select RoundRobin_Select [m] (Some \<lparr>rq_SessionID = ''s1'', rq_ToolName = ''t''\<rparr>) 9 = (Inr (Some m), 9)"
proof -
  let ?cs = "[example_server ''1'' ''a'' [], example_server ''2'' ''b'' []]"
    and ?q = "\<lparr>rq_SessionID = ''s1'', rq_ToolName = ''t''\<rparr>"
  obtain m s where m: "m \<in> set ?cs" "SessionAffinity_Select RoundRobin_Select ?cs (Some ?q) 0 = (Inr (Some m), s)"
    using session_affinity.select_member [of ?cs "Some ?q" 0] by auto
  then have "s = 0" by (simp add: SessionAffinity_Select_def)
  moreover have "distinct (map sr_ID ?cs)" by (simp add: example_server_def)
  moreover have "subseq [m] ?cs" using m(1) by auto
  ultimately show ?thesis using session_affinity_stable [of ?cs ?q "[m]" m 0 s 9] m(2) by auto
qed

section \<open>Routing a call\<close>

text \<open>When the per-server limit lets a call pass: there is none, or it is positive and the limiter, if one is
  configured, admits the bucket of the server.\<close>

definition passes_limit :: "'b allow_op \<Rightarrow> time \<Rightarrow> ServerRecord \<Rightarrow> 'b option \<Rightarrow> bool" where
  "passes_limit allow now srv limiter \<longleftrightarrow>
    (\<forall>limit. sr_RateLimit srv = Some limit \<longrightarrow> 0 < limit
       \<and> (\<forall>b. limiter = Some b \<longrightarrow>
            (\<exists>burst remaining b'. 0 < burst
               \<and> allow now \<lparr>lk_ClientID = ''server:'' @ sr_ID srv, lk_Route = ''global''\<rparr> (of_int limit) burst b
                   = (Inr (True, remaining, 0), b'))))"

text \<open>The backends a call may be sent to.\<close>

definition may_serve :: "Ctx \<Rightarrow> CapabilityIndex \<Rightarrow> string \<Rightarrow> string \<Rightarrow> ServerRecord \<Rightarrow> bool" where
  "may_serve ctx i tool hint srv \<longleftrightarrow>
     srv \<in> set (LookupTool i tool) \<and> IsRoutable (sr_Status srv) \<and> TrimSpace tool \<in> tools_of srv
     \<and> (hint \<noteq> '''' \<longrightarrow> matchesServerHint (sr_Name srv) hint \<or> matchesServerHint (sr_ID srv) hint)
     \<and> CheckServerScope ctx (sr_Name srv)"

context limiter_backend
begin

lemma rate_check:
  assumes "checkServerRateLimit allow now srv limiter = (None, limiter')"
  shows "passes_limit allow now srv limiter"
proof -
  have "0 < limit \<and> (\<forall>b. limiter = Some b \<longrightarrow> (\<exists>burst remaining b'. 0 < burst
      \<and> allow now \<lparr>lk_ClientID = ''server:'' @ sr_ID srv, lk_Route = ''global''\<rparr> (of_int limit) burst b
          = (Inr (True, remaining, 0), b')))" if limit: "sr_RateLimit srv = Some limit" for limit
  proof (cases limiter)
    case None
    then show ?thesis using assms limit by (auto simp: checkServerRateLimit_def split: if_splits)
  next
    case (Some b)
    let ?key = "\<lparr>lk_ClientID = ''server:'' @ sr_ID srv, lk_Route = ''global''\<rparr>"
    define burst where "burst = (case sr_RateBurst srv of Some n \<Rightarrow> if n > 0 then n else limit | None \<Rightarrow> limit)"
    have pos: "0 < limit" using assms limit by (auto simp: checkServerRateLimit_def split: if_splits)
    then have "0 < burst" by (auto simp: burst_def split: option.split)
    moreover obtain remaining ra b' where a: "allow now ?key (of_int limit) burst b = (Inr (True, remaining, ra), b')"
      using assms limit pos Some
      by (auto simp: checkServerRateLimit_def burst_def Let_def split: prod.splits sum.splits if_splits)
    moreover have "ra = 0" using allowed_no_wait [OF a] .
    ultimately show ?thesis using pos Some by blast
  qed
  then show ?thesis unfolding passes_limit_def by blast
qed

end

lemma candidate_may_serve:
  assumes "index_ok i" and "c \<in> set (if hint \<noteq> '''' then filterCandidatesByServer (LookupTool i tool) hint else LookupTool i tool)"
    and "CheckServerScope ctx (sr_Name c)"
  shows "may_serve ctx i tool hint c"
proof -
  have "c \<in> set (LookupTool i tool)" using assms(2) by (auto simp: filterCandidatesByServer_def split: if_splits)
  moreover have "hint \<noteq> '''' \<longrightarrow> matchesServerHint (sr_Name c) hint \<or> matchesServerHint (sr_ID c) hint"
    using assms(2) by (auto simp: filterCandidatesByServer_def)
  ultimately show ?thesis
    using capability_lookup.lookup_routable [OF assms(1)] capability_lookup.lookup_offers [OF assms(1)] assms(3)
    by (auto simp: may_serve_def)
qed

text \<open>What a routed call does, for any strategy and any limiter that keep their contracts.\<close>

locale routed_calls = routing_strategy select + limiter_backend allow
  for select :: "'s select_op" and allow :: "'b allow_op"
begin

lemma route_outcome:
  assumes "rt_index r = Some i" and "index_ok i" and "Route select allow M E ctx t args r w = (res, r', w')"
  shows "(\<exists>e. res = Inl e \<and> (\<forall>sid g. e \<noteq> ErrBackend sid g) \<and> w' = w \<and> rt_clients r' = rt_clients r
            \<and> rt_breakers r' = rt_breakers r)
    \<or> (\<exists>srv tool hint r1 out. resolveFederatedName i (rt_nsResolver r) (TrimSpace t) = (tool, hint)
          \<and> may_serve ctx i tool hint srv \<and> passes_limit allow (clock E w) srv (rt_limiter r)
          \<and> rt_clients r1 = rt_clients r \<and> rt_breakers r1 = rt_breakers r
          \<and> forward M E srv tool args r1 w = (out, r', w') \<and> res = map_sum (ErrBackend (sr_ID srv)) id out)"
proof -
  obtain tool hint where tool: "resolveFederatedName i (rt_nsResolver r) (TrimSpace t) = (tool, hint)" by fastforce
  let ?cs = "if hint \<noteq> '''' then filterCandidatesByServer (LookupTool i tool) hint else LookupTool i tool"
  show ?thesis
  proof (cases "TrimSpace t = '''' \<or> ?cs = []")
    case True
    then show ?thesis using assms(1,3) tool by (intro disjI1) (auto simp: Route_def Let_def split: if_splits)
  next
    case False
    let ?q = "Some \<lparr>rq_SessionID = '''', rq_ToolName = TrimSpace t\<rparr>"
    obtain c s' where c: "c \<in> set ?cs" "select ?cs ?q (rt_strategy r) = (Inr (Some c), s')"
      using select_member [of ?cs ?q "rt_strategy r"] False by blast
    obtain v limiter where v: "checkServerRateLimit allow (clock E w) c (rt_limiter r) = (v, limiter)" by fastforce
    let ?r1 = "r\<lparr>rt_strategy := s', rt_limiter := limiter\<rparr>"
    obtain out r2 w2 where f: "forward M E c tool args ?r1 w = (out, r2, w2)" by (cases "forward M E c tool args ?r1 w") auto
    have run: "Route select allow M E ctx t args r w =
      (if \<not> CheckServerScope ctx (sr_Name c) then (Inl (ErrServerScopeDenied (sr_Name c)), r\<lparr>rt_strategy := s'\<rparr>, w)
       else case v of Some e \<Rightarrow> (Inl e, ?r1, w) | None \<Rightarrow> (map_sum (ErrBackend (sr_ID c)) id out, r2, w2))"
      using assms(1) tool False c(2) v f by (simp add: Route_def Let_def split: option.split sum.split)
    show ?thesis
    proof (cases "CheckServerScope ctx (sr_Name c) \<and> v = None")
      case True
      then show ?thesis
        using run assms(3) tool f candidate_may_serve [OF assms(2) c(1)] rate_check v
        by (intro disjI2) (rule exI [of _ c], rule exI [of _ tool], rule exI [of _ hint], rule exI [of _ ?r1], rule exI [of _ out], auto)
    next
      case False
      moreover have "v = Some (ErrBackend sid g) \<Longrightarrow> False" for sid g
        using v by (auto simp: checkServerRateLimit_def Let_def split: option.splits if_splits prod.splits sum.splits)
      ultimately show ?thesis using run assms(3) by (intro disjI1) (auto split: if_splits option.splits)
    qed
  qed
qed

end

interpretation default_routing: routed_calls RoundRobin_Select "Memory_Allow L" for L
  by (rule routed_calls.intro [OF round_robin.routing_strategy_axioms memory_limiter.limiter_backend_axioms])

text \<open>C3.  A call is sent to a backend only past every check.  With round robin and the in-memory limiter,
  whatever the tool name, either the call is refused without any backend being contacted and without a
  change to the clients and the breakers, or it is forwarded to one server that the index lists as
  routable and offering the resolved tool, that matches the server the name asks for, that lies in the
  caller's server scope, and whose own rate limit admits the call; the answer is then that of the
  resilient client.\<close>

theorem Route_checked:
  assumes "rt_index r = Some i" and "index_ok i"
    and "Route RoundRobin_Select (Memory_Allow L) M E ctx t args r w = (res, r', w')"
  shows "(\<exists>e. res = Inl e \<and> (\<forall>sid g. e \<noteq> ErrBackend sid g) \<and> w' = w \<and> rt_clients r' = rt_clients r
            \<and> rt_breakers r' = rt_breakers r)
    \<or> (\<exists>srv tool hint r1 out. resolveFederatedName i (rt_nsResolver r) (TrimSpace t) = (tool, hint)
          \<and> may_serve ctx i tool hint srv \<and> passes_limit (Memory_Allow L) (clock E w) srv (rt_limiter r)
          \<and> rt_clients r1 = rt_clients r \<and> rt_breakers r1 = rt_breakers r
          \<and> forward M E srv tool args r1 w = (out, r', w') \<and> res = map_sum (ErrBackend (sr_ID srv)) id out)"
  by (rule default_routing.route_outcome [OF assms])

definition idle_env :: "unit env" where
  "idle_env = \<lparr>clock = (\<lambda>w. 0), ctx_err = (\<lambda>w. None), sleep = (\<lambda>d w. (None, w)), rand_int = (\<lambda>w. None)\<rparr>"

definition echo_mcp :: "unit mcp_lib" where
  "echo_mcp = \<lparr>mcp_New = (\<lambda>url t w. (None, w)), mcp_Start = (\<lambda>url w. (None, w)), mcp_Initialize = (\<lambda>url w. (None, w)),
     mcp_CallTool = (\<lambda>url name args w. (Inr ([TextContent ''text'' name], False), w))\<rparr>"

definition k8s_index :: CapabilityIndex where
  "k8s_index = Rebuild [example_server ''1'' ''k8s'' [''list_pods'']] NewCapabilityIndex"

lemma k8s_index_ok: "index_ok k8s_index"
  using rebuild_steps [of "[example_server ''1'' ''k8s'' [''list_pods'']]" NewCapabilityIndex] by (simp add: k8s_index_def Rebuild_def)

lemma k8s_words [simp]: "TrimSpace ''list_pods'' = ''list_pods''" "TrimSpace ''k8s'' = ''k8s''" "TrimSpace ''git'' = ''git''"
  "TrimSpace ''repo://'' = ''repo://''"
  by (rule TrimSpace_word, simp add: trimmed_word_def visible_def)+

lemma k8s_lookup: "LookupTool k8s_index ''list_pods'' = [example_server ''1'' ''k8s'' [''list_pods'']]"
  by (simp add: k8s_index_def Rebuild_def rebuild_step_def addLocked_def add_name_def LookupTool_def servers_at_def
      NewCapabilityIndex_def example_server_def set_gauge_def IsRoutable_def)

definition count_lib :: "int rate_lib" where
  "count_lib = \<lparr>NewLimiter = (\<lambda>limit burst. burst), take_token = (\<lambda>now n. if 0 < n then (True, n - 1) else (False, n)),
     Tokens = (\<lambda>now n. of_int n), Limit = (\<lambda>n. 1)\<rparr>"

definition k8s_router :: "(u64, int MemoryBackend) Router" where
  "k8s_router = NewRouter (Some k8s_index) 0 0 None"

theorem Route_checked_witness:
  "\<exists>r'. Route RoundRobin_Select (Memory_Allow count_lib) echo_mcp idle_env \<lparr>cx_identity = None, cx_serverScope = [''git'']\<rparr>
      ''list_pods'' [] k8s_router () = (Inl (ErrServerScopeDenied ''k8s''), r', ()) \<and> rt_clients r' = []"
proof -
  let ?ctx = "\<lparr>cx_identity = None, cx_serverScope = [''git'']\<rparr>"
  have i: "rt_index k8s_router = Some k8s_index" "rt_clients k8s_router = []" by (simp_all add: k8s_router_def NewRouter_def)
  have n: "sr_Name (example_server ''1'' ''k8s'' [''list_pods'']) = ''k8s''" by (simp add: example_server_def)
  have "resolveFederatedName k8s_index (rt_nsResolver k8s_router) ''list_pods'' = (''list_pods'', '''')"
    by (simp add: resolveFederatedName_def k8s_lookup)
  moreover have "\<not> CheckServerScope ?ctx ''k8s''"
    by (simp add: CheckServerScope_def serverInScope_def EqualFold_def ToLower_def lower_char_def TrimPrefix_def)
  ultimately obtain r' where r: "Route RoundRobin_Select (Memory_Allow count_lib) echo_mcp idle_env ?ctx ''list_pods'' [] k8s_router ()
      = (Inl (ErrServerScopeDenied ''k8s''), r', ())"
    using i(1) n by (simp add: Route_def k8s_lookup RoundRobin_Select_def Let_def)
  from Route_checked [OF i(1) k8s_index_ok r] have "rt_clients r' = []"
    by (auto simp: i(2) split: sum.splits) (metis map_sum.simps old.sum.exhaust route_error.distinct sum.inject(1) sum.distinct)
  with r show ?thesis by blast
qed

section \<open>Namespaced names\<close>

lemma index_of_dot: "CHR ''.'' \<notin> set d \<Longrightarrow> index_of (d @ ''.'' @ t) ''.'' = Some (length d)"
  by (induction d) auto

lemma name_char_visible: "alnum c \<or> c \<in> {CHR ''_'', CHR ''.'', CHR ''-''} \<Longrightarrow> visible c"
  by (auto simp: alnum_def visible_def Let_def)

lemma serviceName_visible:
  assumes "serviceNamePattern s" shows "\<forall>c\<in>set s. visible c"
proof (cases s)
  case (Cons c cs)
  then show ?thesis using assms name_char_visible by (auto simp: serviceNamePattern_def list_all_iff)
qed simp

lemma serviceName_trimmed: "serviceNamePattern s \<Longrightarrow> TrimSpace s = s"
proof -
  assume s: "serviceNamePattern s"
  then have "s \<noteq> []" by (auto simp: serviceNamePattern_def)
  with serviceName_visible [OF s] show "TrimSpace s = s"
    by (intro TrimSpace_word) (simp add: trimmed_word_def)
qed

text \<open>The name a server is advertised under.\<close>

lemma display_name:
  assumes "serviceNamePattern name" and "CHR ''.'' \<notin> set name" and "name \<noteq> ''mcp-''"
  shows "TrimPrefix name ''mcp-'' \<noteq> ''''" and "CHR ''.'' \<notin> set (TrimPrefix name ''mcp-'')"
    and "\<forall>c\<in>set (TrimPrefix name ''mcp-''). visible c" and "matchesServerHint name (TrimPrefix name ''mcp-'')"
proof -
  have "name \<noteq> ''''" using assms(1) by (auto simp: serviceNamePattern_def)
  then show "TrimPrefix name ''mcp-'' \<noteq> ''''"
    using assms(3) by (auto simp: TrimPrefix_def elim!: prefixE)
  have sub: "set (TrimPrefix name ''mcp-'') \<subseteq> set name" by (auto simp: TrimPrefix_def dest: in_set_dropD)
  then show "CHR ''.'' \<notin> set (TrimPrefix name ''mcp-'')" using assms(2) by auto
  show "\<forall>c\<in>set (TrimPrefix name ''mcp-''). visible c" using sub serviceName_visible [OF assms(1)] by auto
  show "matchesServerHint name (TrimPrefix name ''mcp-'')"
    using serviceName_trimmed [OF assms(1)] by (simp add: matchesServerHint_def EqualFold_def)
qed

text \<open>C18.  A namespaced tool name leads back to its server.  For a server whose registered name has no dot and
  is not the bare prefix, with names always qualified by the default separator: the name under which its
  tool is advertised is resolved to that tool and to the server's display name, provided no tool carries
  the qualified name as its own, and the server is among the candidates the router then considers.\<close>

theorem namespaced_name_resolves:
  assumes "serviceNamePattern (sr_Name srv)" and "CHR ''.'' \<notin> set (sr_Name srv)" and "sr_Name srv \<noteq> ''mcp-''"
    and "trimmed_word tool" and "srv \<in> set (LookupTool i tool)"
    and "ns = Some (NewNamespaceResolver ''namespace_always'' '''' True)"
    and "LookupTool i (ApplyNamespace i ns tool (sr_Name srv)) = []"
  shows "resolveFederatedName i ns (ApplyNamespace i ns tool (sr_Name srv)) = (tool, TrimPrefix (sr_Name srv) ''mcp-'')
       \<and> srv \<in> set (filterCandidatesByServer (LookupTool i tool) (TrimPrefix (sr_Name srv) ''mcp-''))"
proof -
  let ?d = "TrimPrefix (sr_Name srv) ''mcp-''"
  note d = display_name [OF assms(1-3)]
  have ns: "ns = Some \<lparr>nr_mode = NamespaceModeAlways, nr_separator = ''.'', nr_hasIndex = True\<rparr>"
  proof -
    have "TrimSpace ''namespace_always'' = ''namespace_always''"
      by (rule TrimSpace_word) (simp add: trimmed_word_def visible_def)
    then show ?thesis using assms(6) by (simp add: NewNamespaceResolver_def)
  qed
  have tool: "TrimSpace tool = tool" "tool \<noteq> ''''" using assms(4) TrimSpace_word by (auto simp: trimmed_word_def)
  have name: "TrimSpace (sr_Name srv) = sr_Name srv" "sr_Name srv \<noteq> ''''"
    using serviceName_trimmed assms(1) by (auto simp: serviceNamePattern_def)
  have fed: "ApplyNamespace i ns tool (sr_Name srv) = ?d @ ''.'' @ tool"
    using tool name by (simp add: ApplyNamespace_def ns)
  have "trimmed_word (?d @ ''.'' @ tool)"
    using assms(4) d(1,3) by (cases ?d) (auto simp: trimmed_word_def)
  then have "TrimSpace (?d @ ''.'' @ tool) = ?d @ ''.'' @ tool" by (rule TrimSpace_word)
  then have "ResolveNamespace ns (?d @ ''.'' @ tool) = (?d, tool)"
    using index_of_dot [OF d(2), of tool] d(1) by (simp add: ResolveNamespace_def ns)
  moreover have "LookupTool i tool \<noteq> []" using assms(5) by auto
  ultimately have "resolveFederatedName i ns (?d @ ''.'' @ tool) = (tool, ?d)"
    using assms(7) d(1) tool(2) by (simp add: resolveFederatedName_def fed) (simp add: ns Mode_def)
  then show ?thesis using fed assms(5) d(4) by (simp add: filterCandidatesByServer_def)
qed

theorem namespaced_name_resolves_witness:
  "resolveFederatedName k8s_index (Some (NewNamespaceResolver ''namespace_always'' '''' True)) ''k8s.list_pods'' = (''list_pods'', ''k8s'')"
proof -
  let ?srv = "example_server ''1'' ''k8s'' [''list_pods'']" and ?ns = "Some (NewNamespaceResolver ''namespace_always'' '''' True)"
  have n: "sr_Name ?srv = ''k8s''" by (simp add: example_server_def)
  have "TrimSpace ''namespace_always'' = ''namespace_always''" "TrimSpace ''k8s.list_pods'' = ''k8s.list_pods''"
    by (rule TrimSpace_word, simp add: trimmed_word_def visible_def)+
  then have fed: "ApplyNamespace k8s_index ?ns ''list_pods'' (sr_Name ?srv) = ''k8s.list_pods''"
    and none: "LookupTool k8s_index ''k8s.list_pods'' = []"
    by (simp_all add: ApplyNamespace_def NewNamespaceResolver_def TrimPrefix_def n k8s_index_def Rebuild_def rebuild_step_def
        addLocked_def add_name_def LookupTool_def servers_at_def NewCapabilityIndex_def example_server_def set_gauge_def
        IsRoutable_def Let_def)
  have "resolveFederatedName k8s_index ?ns (ApplyNamespace k8s_index ?ns ''list_pods'' (sr_Name ?srv))
      = (''list_pods'', TrimPrefix (sr_Name ?srv) ''mcp-'')"
    using namespaced_name_resolves [of ?srv "''list_pods''" k8s_index ?ns] none
    by (simp add: n fed [unfolded n] k8s_lookup serviceNamePattern_def alnum_def trimmed_word_def visible_def)
  then show ?thesis by (simp add: fed [unfolded n] n TrimPrefix_def)
qed

text \<open>The condition on dots is needed although registration accepts them: the tool of a server named \<open>a.b\<close> is
  advertised under a name that resolves to another server and another tool.\<close>

lemma dotted_server_name_misresolved:
  "serviceNamePattern ''a.b''
   \<and> ResolveNamespace (Some (NewNamespaceResolver ''namespace_always'' '''' True))
       (ApplyNamespace i (Some (NewNamespaceResolver ''namespace_always'' '''' True)) ''list'' ''a.b'') = (''a'', ''b.list'')"
proof -
  have "TrimSpace ''namespace_always'' = ''namespace_always''" "TrimSpace ''a.b.list'' = ''a.b.list''"
    "TrimSpace ''a.b'' = ''a.b''" "TrimSpace ''list'' = ''list''"
    by (rule TrimSpace_word, simp add: trimmed_word_def visible_def)+
  then show ?thesis
    by (simp add: serviceNamePattern_def alnum_def ApplyNamespace_def ResolveNamespace_def NewNamespaceResolver_def TrimPrefix_def)
qed

text \<open>Two servers that differ only by the prefix share a display name, so that their qualified names collide.\<close>

lemma prefixed_names_collide:
  "ApplyNamespace i (Some (NewNamespaceResolver ''namespace_always'' '''' True)) ''list'' ''mcp-a''
   = ApplyNamespace i (Some (NewNamespaceResolver ''namespace_always'' '''' True)) ''list'' ''a''"
proof -
  have "TrimSpace ''namespace_always'' = ''namespace_always''" "TrimSpace ''mcp-a'' = ''mcp-a''" "TrimSpace ''a'' = ''a''"
    "TrimSpace ''list'' = ''list''"
    by (rule TrimSpace_word, simp add: trimmed_word_def visible_def)+
  then show ?thesis by (simp add: ApplyNamespace_def NewNamespaceResolver_def TrimPrefix_def)
qed

section \<open>The client cache\<close>

text \<open>A client is created once per server identifier and kept: when the server registers again at another
  address, calls still go to the first one.\<close>

lemma client_address_pinned:
  assumes "map_of (rt_clients r) (sr_ID srv) = Some client"
  shows "fst (GetOrCreateClient (srv\<lparr>sr_Host := host, sr_Port := port\<rparr>) r) = client"
    and "snd (GetOrCreateClient (srv\<lparr>sr_Host := host, sr_Port := port\<rparr>) r) = r"
  using assms by (simp_all add: GetOrCreateClient_def)

end
