(* ===== verification/Dangerous.thy ===== *)
theory Dangerous
  imports Gateway_Types
begin

text \<open>
  \<open>internal/policy/dangerous.go\<close>: the regular expressions that mark dangerous arguments, a matcher for the
  part of Go's \<open>regexp\<close> they use, and the scan of all strings nested in the arguments of a call.

  A pattern is matched on the bytes of a string.  The patterns are all case insensitive: a letter stands
  for both its cases, and \<open>s\<close> also for the long s, the one other character that folds to a letter they
  use.  A dot is any byte but a line feed; in these patterns it only occurs under a star, where this
  matches the same strings as characters would.
\<close>

section \<open>Regular expressions\<close>

datatype regexp = RChar "char \<Rightarrow> bool" | RBoundary | RSeq "regexp list" | RAlt "regexp list" | RStar regexp

text \<open>A position in a string is the byte before it, if there is one, and the bytes after it.\<close>

type_synonym position = "char option \<times> string"

definition word_char :: "char \<Rightarrow> bool" where
  "word_char c = (let n = of_char c :: nat
                  in (48 \<le> n \<and> n \<le> 57) \<or> (65 \<le> n \<and> n \<le> 90) \<or> (97 \<le> n \<and> n \<le> 122) \<or> n = 95)"

definition at_boundary :: "position \<Rightarrow> bool" where
  "at_boundary p =
    ((case fst p of None \<Rightarrow> False | Some c \<Rightarrow> word_char c)
     \<noteq> (case snd p of [] \<Rightarrow> False | c # cs \<Rightarrow> word_char c))"

text \<open>Repetitions that make progress, at most \<open>n\<close> of them.\<close>

fun repeat :: "(position \<Rightarrow> position list) \<Rightarrow> nat \<Rightarrow> position \<Rightarrow> position list" where
  "repeat f 0 p = [p]"
| "repeat f (Suc n) p =
    p # concat (map (\<lambda>q. if length (snd q) < length (snd p) then repeat f n q else []) (f p))"

text \<open>The positions at which a match that starts at a position can end.\<close>

primrec ends :: "regexp \<Rightarrow> position \<Rightarrow> position list" where
  "ends (RChar P) = (\<lambda>p. case snd p of [] \<Rightarrow> [] | c # cs \<Rightarrow> if P c then [(Some c, cs)] else [])"
| "ends RBoundary = (\<lambda>p. if at_boundary p then [p] else [])"
| "ends (RSeq rs) = foldr (\<lambda>f rest p. concat (map rest (f p))) (map ends rs) (\<lambda>p. [p])"
| "ends (RAlt rs) = (\<lambda>p. concat (map (\<lambda>f. f p) (map ends rs)))"
| "ends (RStar r) = (\<lambda>p. repeat (ends r) (length (snd p)) p)"

text \<open>\<open>MatchString\<close>: a match may start anywhere.\<close>

fun search :: "regexp \<Rightarrow> position \<Rightarrow> bool" where
  "search r (before, []) = (ends r (before, []) \<noteq> [])"
| "search r (before, c # cs) = (ends r (before, c # cs) \<noteq> [] \<or> search r (Some c, cs))"

definition MatchString :: "regexp \<Rightarrow> string \<Rightarrow> bool" where
  "MatchString r s = search r (None, s)"

section \<open>The patterns\<close>

definition byte :: "nat \<Rightarrow> regexp" where
  "byte n = RChar (\<lambda>c. of_char c = n)"

definition letter :: "char \<Rightarrow> regexp" where
  "letter c =
    (if c = CHR ''s'' then RAlt [RChar (\<lambda>d. lower_char d = c), RSeq [byte 0xC5, byte 0xBF]]
     else RChar (\<lambda>d. lower_char d = c))"

definition literal :: "string \<Rightarrow> regexp" where
  "literal w = RSeq (map letter w)"

definition space :: regexp where
  "space = RChar (\<lambda>c. of_char c \<in> {9, 10, 12, 13, 32 :: nat})"

definition spaces1 :: regexp where
  "spaces1 = RSeq [space, RStar space]"

definition anything :: regexp where
  "anything = RStar (RChar (\<lambda>c. of_char c \<noteq> (10 :: nat)))"

definition shell :: regexp where
  "shell = RAlt [literal ''sh'', literal ''bash'']"

text \<open>Each with its source text, in which \<open>bs\<close> stands for a backslash.\<close>

definition bs :: "string \<Rightarrow> string" where
  "bs w = CHR 0x5C # w"

definition DefaultDangerousPatterns :: "(string \<times> regexp) list" where
  "DefaultDangerousPatterns =
    [ (''(?i)rm'' @ bs ''s+-rf'' @ bs ''s+/'', RSeq [literal ''rm'', spaces1, literal ''-rf'', spaces1, literal ''/'']),
      (''(?i)'' @ bs ''bsudo'' @ bs ''s+'', RSeq [RBoundary, literal ''sudo'', spaces1]),
      (''(?i);'' @ bs ''s*(sh|bash)'' @ bs ''b'', RSeq [literal '';'', RStar space, shell, RBoundary]),
      (''(?i)curl.*'' @ bs ''|'' @ bs ''s*(sh|bash)'', RSeq [literal ''curl'', anything, literal ''|'', RStar space, shell]),
      (''(?i)>(/dev/tcp|/dev/udp)'', RSeq [literal ''>'', RAlt [literal ''/dev/tcp'', literal ''/dev/udp'']]),
      (''(?i)chmod'' @ bs ''s+777'', RSeq [literal ''chmod'', spaces1, literal ''777'']),
      (''(?i)eval'' @ bs ''s*'' @ bs ''('', RSeq [literal ''eval'', RStar space, literal ''('']),
      (''(?i)'' @ bs ''bexec'' @ bs ''b.*'' @ bs ''bsh'' @ bs ''b'',
         RSeq [RBoundary, literal ''exec'', RBoundary, anything, RBoundary, literal ''sh'', RBoundary]) ]"

section \<open>Scanning the arguments\<close>

fun collectStrings :: "json \<Rightarrow> string list" where
  "collectStrings (JStr s) = [s]"
| "collectStrings (JArr items) = concat (map collectStrings items)"
| "collectStrings (JObj m) = concat (map (\<lambda>(k, v). collectStrings v) m)"
| "collectStrings JNull = []"
| "collectStrings (JBool b) = []"
| "collectStrings (JNum n) = []"

text \<open>The patterns that a scan finds, one for each match of a string with a pattern.\<close>

definition CheckDangerous :: "(string, json) gomap \<Rightarrow> (string \<times> regexp) list \<Rightarrow> string list" where
  "CheckDangerous args patterns =
    (let values = concat (map (\<lambda>(k, v). collectStrings v) args)
     in concat (map (\<lambda>v. map fst (filter (\<lambda>(src, re). MatchString re v) patterns)) values))"

section \<open>Lemmas\<close>

text \<open>The strings nested in a value.\<close>

inductive nested :: "string \<Rightarrow> json \<Rightarrow> bool" where
  here: "nested s (JStr s)"
| item: "nested s v \<Longrightarrow> v \<in> set items \<Longrightarrow> nested s (JArr items)"
| field: "nested s v \<Longrightarrow> (k, v) \<in> set m \<Longrightarrow> nested s (JObj m)"

inductive_cases nested_cases [elim!]: "nested s (JArr items)" "nested s (JObj m)" "nested s (JStr t)" "nested s JNull"
  "nested s (JBool b)" "nested s (JNum n)"

lemma collectStrings_nested: "s \<in> set (collectStrings v) \<longleftrightarrow> nested s v"
proof
  assume "s \<in> set (collectStrings v)"
  then show "nested s v" by (induction v rule: collectStrings.induct) (fastforce intro: nested.intros)+
next
  assume "nested s v"
  then show "s \<in> set (collectStrings v)" by induction force+
qed

lemma search_suffix: "ends r (b, t) \<noteq> [] \<Longrightarrow> (a = '''' \<longrightarrow> b = b0) \<and> (a \<noteq> '''' \<longrightarrow> b = Some (last a)) \<Longrightarrow> search r (b0, a @ t)"
proof (induction a arbitrary: b0)
  case Nil
  then show ?case by (cases t) auto
next
  case (Cons c a)
  then show ?case by (cases a) auto
qed

lemma CheckDangerous_iff:
  "CheckDangerous args patterns \<noteq> [] \<longleftrightarrow>
    (\<exists>s src re. nested s (JObj args) \<and> (src, re) \<in> set patterns \<and> MatchString re s)"
proof -
  have strings: "s \<in> set (concat (map (\<lambda>(k, v). collectStrings v) args)) \<longleftrightarrow> nested s (JObj args)" for s
    using collectStrings_nested [of s "JObj args"] by simp
  have "CheckDangerous args patterns \<noteq> [] \<longleftrightarrow>
      (\<exists>s\<in>set (concat (map (\<lambda>(k, v). collectStrings v) args)). \<exists>(src, re)\<in>set patterns. MatchString re s)"
    unfolding CheckDangerous_def Let_def concat_eq_Nil_conv
    by (simp only: set_map ball_simps map_is_Nil_conv filter_empty_conv not_all) auto
  then show ?thesis unfolding Bex_def strings by (simp add: split_paired_Ex)
qed

text \<open>A removal of everything is found wherever it stands in a string.\<close>

lemma rm_rf_matches: "MatchString (snd (hd DefaultDangerousPatterns)) (a @ ''rm -rf /'' @ t)"
proof -
  have "ends (snd (hd DefaultDangerousPatterns)) (b, ''rm -rf /'' @ t) \<noteq> []" for b
    by (simp add: DefaultDangerousPatterns_def literal_def letter_def spaces1_def space_def lower_char_def)
  then show ?thesis
    unfolding MatchString_def by (intro search_suffix [where b = "if a = '''' then None else Some (last a)"]) auto
qed

end
