(* ===== verification/Policy.thy ===== *)
theory Policy
  imports Dangerous Classification Identity_Auth
begin

text \<open>
  \<open>internal/policy\<close>: the schema checks (\<open>schema.go\<close>), what the audit log records (\<open>audit.go\<close>), the engine
  that decides on a tool call (\<open>engine.go\<close>), and the middleware that enforces the decision
  (\<open>middleware.go\<close>).

  Decoding JSON is a parameter: \<open>unmarshal\<close> maps the text of a schema to an object or to the error it
  reports, \<open>envelope\<close> the body of a request to its fields.  The engine's state includes what it has written
  to the audit log and what it has published, in order.
\<close>

section \<open>Requests and decisions\<close>

datatype ViolationType = ViolationDenylist | ViolationDangerousPattern | ViolationSchemaViolation | ViolationAllowlist | ViolationDestructive

datatype ViolationSeverity = SeverityLow | SeverityMedium | SeverityHigh | SeverityCritical

text \<open>The messages, with the values they print.\<close>

datatype violation_detail =
    NotInAllowlist string | InDenylist string | PatternMatched string | InvalidSchema string | MissingRequired string
  | WrongType string string | NotInEnum string | ClassifiedDestructive string

record PolicyRequest =
  pr_ToolName :: string
  pr_Arguments :: "(string, json) gomap"
  pr_ClientID :: string
  pr_ProfileName :: string
  pr_Schema :: string

record Violation =
  vi_Type :: ViolationType
  vi_Detail :: violation_detail
  vi_Severity :: ViolationSeverity

datatype decision_reason = ReasonAllowed | ReasonViolations | ReasonAuditMode | ReasonDestructive

record PolicyDecision =
  pd_Allowed :: bool
  pd_Reason :: decision_reason
  pd_Violations :: "Violation list"
  pd_EnforcementMode :: EnforcementMode

section \<open>Schema checks\<close>

definition schema_violation :: "violation_detail \<Rightarrow> Violation" where
  "schema_violation d = \<lparr>vi_Type = ViolationSchemaViolation, vi_Detail = d, vi_Severity = SeverityMedium\<rparr>"

definition required_names :: "json option \<Rightarrow> string list" where
  "required_names requiredRaw =
    (case requiredRaw of
       Some (JArr items) \<Rightarrow>
         filter (\<lambda>n. n \<noteq> '''') (map TrimSpace (concat (map (\<lambda>v. case v of JStr s \<Rightarrow> [s] | _ \<Rightarrow> []) items)))
     | _ \<Rightarrow> [])"

definition validateRequired :: "(string, json) gomap \<Rightarrow> json option \<Rightarrow> Violation list" where
  "validateRequired args requiredRaw =
    map (\<lambda>n. schema_violation (MissingRequired n)) (filter (\<lambda>n. map_of args n = None) (required_names requiredRaw))"

fun numericValue :: "json \<Rightarrow> real option" where
  "numericValue (JNum n) = Some n"
| "numericValue _ = None"

definition matchesJSONType :: "json \<Rightarrow> string \<Rightarrow> bool" where
  "matchesJSONType v expectedType =
    (let t = TrimSpace expectedType
     in if t = ''string'' then (case v of JStr s \<Rightarrow> True | _ \<Rightarrow> False)
        else if t = ''boolean'' then (case v of JBool b \<Rightarrow> True | _ \<Rightarrow> False)
        else if t = ''number'' then numericValue v \<noteq> None
        else if t = ''integer'' then (case numericValue v of Some n \<Rightarrow> n = of_int \<lfloor>n\<rfloor> | None \<Rightarrow> False)
        else if t = ''object'' then (case v of JObj m \<Rightarrow> True | _ \<Rightarrow> False)
        else if t = ''array'' then (case v of JArr l \<Rightarrow> True | _ \<Rightarrow> False)
        else True)"

text \<open>\<open>reflect.DeepEqual\<close> on decoded values: objects are equal when they have the same keys with equal
  values.\<close>

function (sequential) DeepEqual :: "json \<Rightarrow> json \<Rightarrow> bool" where
  "DeepEqual (JArr xs) (JArr ys) = (length xs = length ys \<and> list_all (\<lambda>(x, y). DeepEqual x y) (zip xs ys))"
| "DeepEqual (JObj m) (JObj n) =
    (length m = length n
     \<and> list_all (\<lambda>(k, v). case map_of n k of Some v' \<Rightarrow> DeepEqual v v' | None \<Rightarrow> False) m)"
| "DeepEqual v v' = (v = v')"
  by pat_completeness auto
termination
proof (relation "measure (\<lambda>(v, v'). size v)", goal_cases)
  case (2 xs ys p x y)
  then have "x \<in> set xs" by (auto dest: set_zip_leftD)
  then show ?case by (simp add: le_imp_less_Suc size_list_estimation')
next
  case (3 m n p k v v')
  then have "(k, v) \<in> set m" by auto
  then have "size v \<le> size_list (size_prod (\<lambda>x. 0) size) m" by (auto intro: size_list_estimation')
  then show ?case by (simp add: le_imp_less_Suc)
qed simp

definition valueInEnum :: "json \<Rightarrow> json list \<Rightarrow> bool" where
  "valueInEnum v enumValues =
    list_ex (\<lambda>candidate. DeepEqual v candidate
      \<or> (numericValue v \<noteq> None \<and> numericValue v = numericValue candidate)
      \<or> (case (v, candidate) of (JStr a, JStr b) \<Rightarrow> a = b | _ \<Rightarrow> False)) enumValues"

definition property_violations :: "(string, json) gomap \<Rightarrow> string \<times> json \<Rightarrow> Violation list" where
  "property_violations properties arg =
    (let (name, v) = arg
     in case map_of properties name of
          Some (JObj prop) \<Rightarrow>
            (case map_of prop ''type'' of
               Some (JStr expectedType) \<Rightarrow>
                 if matchesJSONType v expectedType then [] else [schema_violation (WrongType name expectedType)]
             | _ \<Rightarrow> [])
            @ (case map_of prop ''enum'' of
                 Some (JArr enumValues) \<Rightarrow>
                   if enumValues \<noteq> [] \<and> \<not> valueInEnum v enumValues then [schema_violation (NotInEnum name)] else []
               | _ \<Rightarrow> [])
        | _ \<Rightarrow> [])"

definition validateProperties :: "(string, json) gomap \<Rightarrow> json option \<Rightarrow> Violation list" where
  "validateProperties args propertiesRaw =
    (case propertiesRaw of
       Some (JObj properties) \<Rightarrow> concat (map (property_violations properties) args)
     | _ \<Rightarrow> [])"

definition ValidateArguments :: "(string \<Rightarrow> string + (string, json) gomap) \<Rightarrow> (string, json) gomap \<Rightarrow> string \<Rightarrow> Violation list" where
  "ValidateArguments unmarshal args schema =
    (let trimmed = TrimSpace schema
     in if trimmed = '''' \<or> trimmed = ''null'' \<or> trimmed = ''{}'' then []
        else case unmarshal schema of
               Inl err \<Rightarrow> [schema_violation (InvalidSchema err)]
             | Inr raw \<Rightarrow> validateRequired args (map_of raw ''required'') @ validateProperties args (map_of raw ''properties''))"

section \<open>The audit log\<close>

definition isSensitiveKey :: "string \<Rightarrow> bool" where
  "isSensitiveKey key =
    (key \<noteq> '''' \<and> (Contains key ''password'' \<or> Contains key ''secret'' \<or> Contains key ''token'' \<or> suffix ''key'' key))"

abbreviation audit_key :: "string \<Rightarrow> string" where
  "audit_key k \<equiv> TrimSpace (ToLower k)"

fun sanitizeValue :: "string \<Rightarrow> json \<Rightarrow> json" where
  "sanitizeValue key v =
    (if isSensitiveKey key then JStr ''[redacted]''
     else case v of
            JObj m \<Rightarrow> JObj (map (\<lambda>(k, v). (k, sanitizeValue (audit_key k) v)) m)
          | JArr items \<Rightarrow> JArr (map (sanitizeValue key) items)
          | _ \<Rightarrow> v)"

declare sanitizeValue.simps [simp del]

definition sanitizeForAudit :: "(string, json) gomap \<Rightarrow> (string, json) gomap" where
  "sanitizeForAudit args = map (\<lambda>(k, v). (k, sanitizeValue (audit_key k) v)) args"

text \<open>An entry of \<open>LogDecision\<close>: the client, the tool, and the details.\<close>

record policy_entry =
  pe_ClientID :: string
  pe_Tool :: string
  pe_Allowed :: bool
  pe_EnforcementMode :: EnforcementMode
  pe_Violations :: "Violation list"
  pe_Arguments :: "(string, json) gomap"

section \<open>The engine\<close>

record Engine =
  eg_profiles :: "(string, PolicyProfile option) gomap"
  eg_dangerousPatterns :: "(string \<times> regexp) list"
  eg_hasAudit :: bool
  eg_auditFails :: bool
  eg_classificationStore :: "ClassificationStore option"
  eg_classificationCache :: "ClassificationCache option"
  eg_hasPublisher :: bool
  eg_log :: "policy_entry list"
  eg_events :: "(string \<times> string \<times> violation_detail list \<times> bool) list"

definition default_profile :: PolicyProfile where
  "default_profile = \<lparr>pp_Name = ''default'', pp_RateLimit = 0, pp_RateBurst = 0, pp_ToolAllowlist = [], pp_ToolDenylist = [],
     pp_EnforcementMode = ModeEnforce\<rparr>"

definition copy_profiles :: "(string, PolicyProfile option) gomap \<Rightarrow> (string, PolicyProfile option) gomap" where
  "copy_profiles profiles =
    (let copied = foldl (\<lambda>m (name, profile). mput (TrimSpace name) profile m) [] profiles
     in if map_of copied ''default'' = None then mput ''default'' (Some default_profile) copied else copied)"

definition NewEngine :: "(string, PolicyProfile option) gomap \<Rightarrow> bool \<Rightarrow> Engine" where
  "NewEngine profiles hasAudit =
    \<lparr> eg_profiles = copy_profiles profiles, eg_dangerousPatterns = DefaultDangerousPatterns, eg_hasAudit = hasAudit,
      eg_auditFails = False, eg_classificationStore = None, eg_classificationCache = None, eg_hasPublisher = False,
      eg_log = [], eg_events = [] \<rparr>"

definition SetClassificationStore :: "ClassificationStore option \<Rightarrow> Engine \<Rightarrow> Engine" where
  "SetClassificationStore store e =
    e\<lparr>eg_classificationStore := store, eg_classificationCache := Some (NewClassificationCache (5 * Minute))\<rparr>"

definition ReplaceProfiles :: "(string, PolicyProfile option) gomap \<Rightarrow> Engine \<Rightarrow> Engine" where
  "ReplaceProfiles profiles e = e\<lparr>eg_profiles := copy_profiles profiles\<rparr>"

definition LogDecision :: "PolicyRequest \<Rightarrow> PolicyDecision \<Rightarrow> Engine \<Rightarrow> Engine" where
  "LogDecision req decision e =
    (if eg_hasAudit e \<and> \<not> eg_auditFails e
     then e\<lparr>eg_log := eg_log e @
            [\<lparr> pe_ClientID = pr_ClientID req, pe_Tool = pr_ToolName req, pe_Allowed = pd_Allowed decision,
               pe_EnforcementMode = pd_EnforcementMode decision, pe_Violations = pd_Violations decision,
               pe_Arguments = sanitizeForAudit (pr_Arguments req) \<rparr>]\<rparr>
     else e)"

definition resolveProfile_name :: "string \<Rightarrow> Engine \<Rightarrow> PolicyProfile" where
  "resolveProfile_name name e =
    (let profileName = TrimSpace name;
         named = (if profileName = '''' then None
                  else (case map_of (eg_profiles e) profileName of Some p \<Rightarrow> p | None \<Rightarrow> None))
     in case named of
          Some p \<Rightarrow> p
        | None \<Rightarrow>
            (case map_of (eg_profiles e) ''default'' of Some (Some p) \<Rightarrow> p | _ \<Rightarrow> default_profile))"

text \<open>\<open>cs\<close> is the classification store, which the caller has found to be set.\<close>

definition resolveRiskLevel :: "time \<Rightarrow> string \<Rightarrow> ClassificationStore \<Rightarrow> Engine \<Rightarrow> RiskLevel \<times> Engine" where
  "resolveRiskLevel now toolName cs e =
    (let (cached, cache1) =
           (case eg_classificationCache e of
              None \<Rightarrow> (None, None)
            | Some c \<Rightarrow> (let (r, c1) = Cache_Get now toolName c in (r, Some c1)));
         e1 = e\<lparr>eg_classificationCache := cache1\<rparr>
     in case cached of
          Some tc \<Rightarrow> (tc_RiskLevel tc, e1)
        | None \<Rightarrow>
            (case Classification_Get toolName cs of
               Inl _ \<Rightarrow> (RiskUnknown, e1)
             | Inr None \<Rightarrow> (fst (AutoClassify toolName ''''), e1)
             | Inr (Some tc) \<Rightarrow>
                 (tc_RiskLevel tc, e1\<lparr>eg_classificationCache := map_option (Cache_Set now toolName tc) cache1\<rparr>)))"

definition destructive_decision :: "string \<Rightarrow> PolicyDecision" where
  "destructive_decision toolName =
    \<lparr> pd_Allowed = False, pd_Reason = ReasonDestructive,
      pd_Violations = [\<lparr>vi_Type = ViolationDestructive, vi_Detail = ClassifiedDestructive toolName, vi_Severity = SeverityCritical\<rparr>],
      pd_EnforcementMode = ModeEnforce \<rparr>"

definition checkDestructiveRisk :: "time \<Rightarrow> string \<Rightarrow> PolicyRequest \<Rightarrow> Engine \<Rightarrow> PolicyDecision option \<times> Engine" where
  "checkDestructiveRisk now toolName req e =
    (case eg_classificationStore e of
       None \<Rightarrow> (None, e)
     | Some cs \<Rightarrow>
         (let (riskLevel, e1) = resolveRiskLevel now toolName cs e
          in if riskLevel \<noteq> RiskDestructive then (None, e1)
             else (Some (destructive_decision toolName), LogDecision req (destructive_decision toolName) e1)))"

definition contains_trimmed :: "string list \<Rightarrow> string \<Rightarrow> bool" where
  "contains_trimmed values expected = list_ex (\<lambda>v. TrimSpace v = TrimSpace expected) values"

definition collectViolations ::
  "(string \<Rightarrow> string + (string, json) gomap) \<Rightarrow> (string \<times> regexp) list \<Rightarrow> PolicyProfile \<Rightarrow> string \<Rightarrow> PolicyRequest \<Rightarrow> Violation list" where
  "collectViolations unmarshal patterns profile toolName req =
    (if pp_ToolAllowlist profile \<noteq> [] \<and> \<not> contains_trimmed (pp_ToolAllowlist profile) toolName
     then [\<lparr>vi_Type = ViolationAllowlist, vi_Detail = NotInAllowlist toolName, vi_Severity = SeverityHigh\<rparr>] else [])
    @ (if contains_trimmed (pp_ToolDenylist profile) toolName
       then [\<lparr>vi_Type = ViolationDenylist, vi_Detail = InDenylist toolName, vi_Severity = SeverityHigh\<rparr>] else [])
    @ map (\<lambda>src. \<lparr>vi_Type = ViolationDangerousPattern, vi_Detail = PatternMatched src, vi_Severity = SeverityCritical\<rparr>)
        (CheckDangerous (pr_Arguments req) patterns)
    @ ValidateArguments unmarshal (pr_Arguments req) (pr_Schema req)"

definition buildDecision :: "Violation list \<Rightarrow> EnforcementMode \<Rightarrow> PolicyDecision" where
  "buildDecision violations mode =
    \<lparr> pd_Allowed = (violations = [] \<or> mode = ModeAudit),
      pd_Reason = (if violations = [] then ReasonAllowed else if mode = ModeAudit then ReasonAuditMode else ReasonViolations),
      pd_Violations = violations, pd_EnforcementMode = mode \<rparr>"

definition logAndPublishDecision :: "PolicyRequest \<Rightarrow> PolicyDecision \<Rightarrow> string \<Rightarrow> Violation list \<Rightarrow> Engine \<Rightarrow> Engine" where
  "logAndPublishDecision req decision toolName violations e =
    (let e1 = LogDecision req decision e
     in if violations = [] \<or> \<not> eg_hasPublisher e1 then e1
        else e1\<lparr>eg_events := eg_events e1 @ [(pr_ClientID req, toolName, map vi_Detail violations, pd_Allowed decision)]\<rparr>)"

definition Evaluate ::
  "(string \<Rightarrow> string + (string, json) gomap) \<Rightarrow> time \<Rightarrow> PolicyRequest \<Rightarrow> Engine \<Rightarrow> PolicyDecision \<times> Engine" where
  "Evaluate unmarshal now req e =
    (let toolName = TrimSpace (pr_ToolName req)
     in case checkDestructiveRisk now toolName req e of
          (Some decision, e1) \<Rightarrow> (decision, e1)
        | (None, e1) \<Rightarrow>
            (let profile = resolveProfile_name (pr_ProfileName req) e1;
                 mode = (if pp_EnforcementMode profile = ModeOther '''' then ModeEnforce else pp_EnforcementMode profile);
                 violations = collectViolations unmarshal (eg_dangerousPatterns e1) profile toolName req;
                 decision = buildDecision violations mode
             in (decision, logAndPublishDecision req decision toolName violations e1)))"

section \<open>The middleware\<close>

text \<open>The fields of the body of a request: its method, and the name, the arguments and the two schemas of its
  parameters.\<close>

record rpc_envelope =
  rp_Method :: string
  rp_Name :: string
  rp_Arguments :: "(string, json) gomap"
  rp_Schema :: string
  rp_InputSchema :: string

definition parsePolicyRequest :: "(string \<Rightarrow> rpc_envelope option) \<Rightarrow> Ctx \<Rightarrow> string \<Rightarrow> PolicyRequest option" where
  "parsePolicyRequest envelope ctx body =
    (case envelope body of
       None \<Rightarrow> None
     | Some env \<Rightarrow>
         if TrimSpace (rp_Method env) \<noteq> ''tools/call'' then None
         else Some
           \<lparr> pr_ToolName = TrimSpace (rp_Name env),
             pr_Arguments = rp_Arguments env,
             pr_ClientID = (case FromContext ctx of
                              Some d \<Rightarrow> if TrimSpace (id_ID d) \<noteq> '''' then TrimSpace (id_ID d) else ''anonymous''
                            | None \<Rightarrow> ''anonymous''),
             pr_ProfileName = (case FromContext ctx of
                                 Some d \<Rightarrow> (let p = TrimSpace (metadata d ''policy_profile'') in if p \<noteq> '''' then p else ''default'')
                               | None \<Rightarrow> ''default''),
             pr_Schema = (if rp_Schema env = '''' then rp_InputSchema env else rp_Schema env) \<rparr>)"

text \<open>What the middleware does with a request: pass it on, with the header it sets, or answer 403 with the
  violations, after telling the observer the reason.\<close>

datatype policy_outcome = PassOn "string option" | Forbidden "Violation list" "ViolationType option"

text \<open>\<open>None\<close> for a missing engine, a missing body, or one that cannot be read.\<close>

definition policy_serve ::
  "(string \<Rightarrow> string + (string, json) gomap) \<Rightarrow> (string \<Rightarrow> rpc_envelope option) \<Rightarrow> time \<Rightarrow> Ctx \<Rightarrow> string option \<Rightarrow> Engine option
   \<Rightarrow> policy_outcome \<times> Engine option" where
  "policy_serve unmarshal envelope now ctx body engine =
    (case (engine, body) of
       (Some e, Some bytes) \<Rightarrow>
         if bytes = '''' then (PassOn None, engine)
         else (case parsePolicyRequest envelope ctx bytes of
                 None \<Rightarrow> (PassOn None, engine)
               | Some req \<Rightarrow>
                   (let (decision, e1) = Evaluate unmarshal now req e
                    in if pd_Allowed decision then (PassOn (Some ''allowed''), Some e1)
                       else (Forbidden (pd_Violations decision)
                               (case pd_Violations decision of [] \<Rightarrow> None | v # vs \<Rightarrow> Some (vi_Type v)), Some e1)))
     | _ \<Rightarrow> (PassOn None, engine))"

end
