(* ===== verification/Policy_Props.thy ===== *)
theory Policy_Props
  imports Policy
begin

text \<open>
  What the policy engine guarantees: the exact condition under which a call is allowed, that a destructive
  tool is never allowed, and that the audit log carries no value stored under a sensitive key.
\<close>

section \<open>Schemas\<close>

text \<open>When arguments conform to a decoded schema, stated without the checks.\<close>

definition conforms :: "(string, json) gomap \<Rightarrow> (string, json) gomap \<Rightarrow> bool" where
  "conforms raw args \<longleftrightarrow>
    (\<forall>n\<in>set (required_names (map_of raw ''required'')). n \<in> dom (map_of args))
    \<and> (\<forall>properties name v prop. map_of raw ''properties'' = Some (JObj properties) \<and> (name, v) \<in> set args
         \<and> map_of properties name = Some (JObj prop) \<longrightarrow>
         (\<forall>t. map_of prop ''type'' = Some (JStr t) \<longrightarrow> matchesJSONType v t)
         \<and> (\<forall>vs. map_of prop ''enum'' = Some (JArr vs) \<and> vs \<noteq> [] \<longrightarrow> (\<exists>c\<in>set vs. DeepEqual v c)))"

lemma valueInEnum_DeepEqual: "valueInEnum v vs \<longleftrightarrow> (\<exists>c\<in>set vs. DeepEqual v c)"
proof -
  have "DeepEqual v c" if "numericValue v \<noteq> None" "numericValue v = numericValue c" for c
    using that by (cases v; cases c) auto
  moreover have "DeepEqual v c" if "case (v, c) of (JStr a, JStr b) \<Rightarrow> a = b | _ \<Rightarrow> False" for c
    using that by (cases v; cases c) auto
  ultimately show ?thesis unfolding valueInEnum_def list_ex_iff by blast
qed

lemma property_violations_Nil:
  "property_violations properties (name, v) = [] \<longleftrightarrow>
    (\<forall>prop. map_of properties name = Some (JObj prop) \<longrightarrow>
       (\<forall>t. map_of prop ''type'' = Some (JStr t) \<longrightarrow> matchesJSONType v t)
       \<and> (\<forall>vs. map_of prop ''enum'' = Some (JArr vs) \<and> vs \<noteq> [] \<longrightarrow> (\<exists>c\<in>set vs. DeepEqual v c)))"
  by (auto simp: property_violations_def valueInEnum_DeepEqual split: option.split json.split)

lemma validate_conforms:
  "validateRequired args (map_of raw ''required'') @ validateProperties args (map_of raw ''properties'') = []
    \<longleftrightarrow> conforms raw args"
proof -
  have "validateRequired args (map_of raw ''required'') = [] \<longleftrightarrow>
      (\<forall>n\<in>set (required_names (map_of raw ''required'')). n \<in> dom (map_of args))"
    by (auto simp: validateRequired_def filter_empty_conv)
  moreover have "validateProperties args (map_of raw ''properties'') = [] \<longleftrightarrow>
      (\<forall>properties name v. map_of raw ''properties'' = Some (JObj properties) \<and> (name, v) \<in> set args \<longrightarrow>
         property_violations properties (name, v) = [])"
    by (auto simp: validateProperties_def split: option.split json.split)
  ultimately show ?thesis unfolding conforms_def property_violations_Nil by auto
qed

text \<open>When a schema accepts arguments: it is empty, or it decodes and the arguments conform.\<close>

definition schema_accepts :: "(string \<Rightarrow> string + (string, json) gomap) \<Rightarrow> string \<Rightarrow> (string, json) gomap \<Rightarrow> bool" where
  "schema_accepts unmarshal schema args \<longleftrightarrow>
    TrimSpace schema \<in> {'''', ''null'', ''{}''} \<or> (\<exists>raw. unmarshal schema = Inr raw \<and> conforms raw args)"

lemma ValidateArguments_Nil: "ValidateArguments unmarshal args schema = [] \<longleftrightarrow> schema_accepts unmarshal schema args"
  using validate_conforms
  by (auto simp: ValidateArguments_def schema_accepts_def Let_def schema_violation_def split: sum.split)

section \<open>Decisions\<close>

text \<open>What a profile permits.\<close>

definition permits :: "(string \<Rightarrow> string + (string, json) gomap) \<Rightarrow> PolicyProfile \<Rightarrow> PolicyRequest \<Rightarrow> bool" where
  "permits unmarshal profile req \<longleftrightarrow>
    (pp_ToolAllowlist profile = [] \<or> TrimSpace (pr_ToolName req) \<in> TrimSpace ` set (pp_ToolAllowlist profile))
    \<and> TrimSpace (pr_ToolName req) \<notin> TrimSpace ` set (pp_ToolDenylist profile)
    \<and> (\<forall>s src re. nested s (JObj (pr_Arguments req)) \<and> (src, re) \<in> set DefaultDangerousPatterns \<longrightarrow> \<not> MatchString re s)
    \<and> schema_accepts unmarshal (pr_Schema req) (pr_Arguments req)"

lemma collectViolations_Nil:
  "collectViolations unmarshal DefaultDangerousPatterns profile (TrimSpace (pr_ToolName req)) req = [] \<longleftrightarrow> permits unmarshal profile req"
proof -
  have "contains_trimmed l (TrimSpace t) \<longleftrightarrow> TrimSpace t \<in> TrimSpace ` set l" for l t
    by (auto simp: contains_trimmed_def list_ex_iff image_iff) metis
  moreover have "CheckDangerous (pr_Arguments req) DefaultDangerousPatterns = [] \<longleftrightarrow>
      (\<forall>s src re. nested s (JObj (pr_Arguments req)) \<and> (src, re) \<in> set DefaultDangerousPatterns \<longrightarrow> \<not> MatchString re s)"
    using CheckDangerous_iff [of "pr_Arguments req" DefaultDangerousPatterns] by metis
  ultimately show ?thesis
    unfolding collectViolations_def permits_def by (simp add: ValidateArguments_Nil)
qed

lemma checkDestructiveRisk_frame:
  assumes "checkDestructiveRisk now t req e = (None, e1)"
  shows "eg_profiles e1 = eg_profiles e" and "eg_dangerousPatterns e1 = eg_dangerousPatterns e"
  using assms
  by (auto simp: checkDestructiveRisk_def resolveRiskLevel_def Let_def split: option.splits prod.splits sum.splits if_splits)

lemma Evaluate_unclassified:
  assumes "checkDestructiveRisk now (TrimSpace (pr_ToolName req)) req e = (None, e1)"
    and "eg_dangerousPatterns e = DefaultDangerousPatterns"
  shows "pd_Allowed (fst (Evaluate unmarshal now req e)) \<longleftrightarrow>
     pp_EnforcementMode (resolveProfile_name (pr_ProfileName req) e) = ModeAudit
     \<or> permits unmarshal (resolveProfile_name (pr_ProfileName req) e) req"
proof -
  have p: "resolveProfile_name (pr_ProfileName req) e1 = resolveProfile_name (pr_ProfileName req) e"
    by (simp only: resolveProfile_name_def checkDestructiveRisk_frame(1) [OF assms(1)])
  show ?thesis
    using assms p collectViolations_Nil checkDestructiveRisk_frame(2) [OF assms(1)]
    by (auto simp: Evaluate_def buildDecision_def Let_def)
qed

text \<open>The risk the engine assigns to a tool: the classification that is cached and fresh, else the one that is
  stored, else the one derived from the name; a failing store gives none.\<close>

definition risk_of :: "time \<Rightarrow> string \<Rightarrow> ClassificationStore \<Rightarrow> Engine \<Rightarrow> RiskLevel" where
  "risk_of now tool cs e =
    (case Option.bind (eg_classificationCache e) (\<lambda>c. fst (Cache_Get now tool c)) of
       Some tc \<Rightarrow> tc_RiskLevel tc
     | None \<Rightarrow>
         (case Classification_Get tool cs of
            Inl _ \<Rightarrow> RiskUnknown
          | Inr (Some tc) \<Rightarrow> tc_RiskLevel tc
          | Inr None \<Rightarrow> fst (AutoClassify tool '''')))"

lemma resolveRiskLevel_risk: "fst (resolveRiskLevel now tool cs e) = risk_of now tool cs e"
  by (auto simp: resolveRiskLevel_def risk_of_def Let_def split: option.split prod.split sum.split)

text \<open>C2.  The policy decision is exact.  With the built-in patterns, a call is allowed if and only if the
  engine does not classify its tool as destructive, and either the caller's profile is in audit mode or
  the profile permits the call: the allowlist is empty or has the tool, the denylist does not have it, no string nested
  anywhere in the arguments matches a dangerous pattern, and the schema accepts the arguments.\<close>

theorem Evaluate_exact:
  assumes "eg_dangerousPatterns e = DefaultDangerousPatterns"
  shows "pd_Allowed (fst (Evaluate unmarshal now req e)) \<longleftrightarrow>
    (\<forall>cs. eg_classificationStore e = Some cs \<longrightarrow> risk_of now (TrimSpace (pr_ToolName req)) cs e \<noteq> RiskDestructive)
    \<and> (pp_EnforcementMode (resolveProfile_name (pr_ProfileName req) e) = ModeAudit
       \<or> permits unmarshal (resolveProfile_name (pr_ProfileName req) e) req)"
proof (cases "\<exists>cs. eg_classificationStore e = Some cs \<and> risk_of now (TrimSpace (pr_ToolName req)) cs e = RiskDestructive")
  case True
  then obtain cs e1 where "eg_classificationStore e = Some cs"
    "resolveRiskLevel now (TrimSpace (pr_ToolName req)) cs e = (RiskDestructive, e1)"
    by (metis resolveRiskLevel_risk prod.collapse)
  then have "\<not> pd_Allowed (fst (Evaluate unmarshal now req e))"
    by (simp add: Evaluate_def checkDestructiveRisk_def destructive_decision_def Let_def)
  with True show ?thesis by auto
next
  case False
  then have "fst (checkDestructiveRisk now (TrimSpace (pr_ToolName req)) req e) = None"
    by (auto simp: checkDestructiveRisk_def resolveRiskLevel_risk [symmetric] split: option.split prod.split)
  then obtain e1 where "checkDestructiveRisk now (TrimSpace (pr_ToolName req)) req e = (None, e1)"
    by (metis prod.collapse)
  from Evaluate_unclassified [OF this assms] False show ?thesis by auto
qed

definition wipe_request :: PolicyRequest where
  "wipe_request = \<lparr>pr_ToolName = ''run'', pr_Arguments = [(''spec'', JObj [(''steps'', JArr [JStr ''cd / && rm -rf / # x''])])],
     pr_ClientID = ''c'', pr_ProfileName = ''default'', pr_Schema = ''''\<rparr>"

theorem Evaluate_exact_witness: "\<not> pd_Allowed (fst (Evaluate (\<lambda>s. Inr []) 0 wipe_request (NewEngine [] False)))"
proof -
  let ?e = "NewEngine [] False"
  have "nested ''cd / && rm -rf / # x'' (JObj (pr_Arguments wipe_request))"
    by (simp add: collectStrings_nested [symmetric] wipe_request_def)
  moreover have "MatchString (snd (hd DefaultDangerousPatterns)) ''cd / && rm -rf / # x''"
    using rm_rf_matches [of "''cd / && ''" "'' # x''"] by simp
  moreover have "hd DefaultDangerousPatterns \<in> set DefaultDangerousPatterns" by (simp add: DefaultDangerousPatterns_def)
  ultimately have "\<not> permits (\<lambda>s. Inr []) p wipe_request" for p
    unfolding permits_def by (metis prod.collapse)
  moreover have "resolveProfile_name (pr_ProfileName wipe_request) ?e = default_profile"
    by (simp add: resolveProfile_name_def NewEngine_def copy_profiles_def Let_def split: option.split)
  ultimately show ?thesis
    using Evaluate_exact [of ?e "\<lambda>s. Inr []" 0 wipe_request] by (simp add: NewEngine_def default_profile_def)
qed

section \<open>Destructive tools\<close>

text \<open>The policy middleware lets no call of a destructive tool pass.  When a word of the tool's name is a
  destructive keyword, and neither the cache nor the store of classifications holds anything else for it,
  then the middleware answers a call of the tool with 403 and the one violation that says so, whoever
  calls, whatever profile the caller has, its enforcement mode included, and whatever the arguments are.\<close>

theorem destructive_call_forbidden:
  assumes "envelope body = Some env" and "body \<noteq> ''''" and "TrimSpace (rp_Method env) = ''tools/call''"
    and "eg_classificationStore e = Some cs" and "Classification_Get (TrimSpace (rp_Name env)) cs = Inr None"
    and "\<forall>c. eg_classificationCache e = Some c \<longrightarrow> map_of (cc_entries c) (TrimSpace (rp_Name env)) = None"
    and "t \<in> set (splitToolName (TrimSpace (rp_Name env)))" and "t \<in> set destructiveKeywords"
  shows "\<exists>e'. policy_serve unmarshal envelope now ctx (Some body) (Some e) =
    (Forbidden [\<lparr>vi_Type = ViolationDestructive, vi_Detail = ClassifiedDestructive (TrimSpace (rp_Name env)),
                 vi_Severity = SeverityCritical\<rparr>] (Some ViolationDestructive), Some e')"
proof -
  let ?tool = "TrimSpace (rp_Name env)"
  obtain req where req: "parsePolicyRequest envelope ctx body = Some req" "pr_ToolName req = ?tool"
    using assms(1,3) by (simp add: parsePolicyRequest_def)
  have "fst (AutoClassify ?tool '''') = RiskDestructive" using assms(7,8) AutoClassify_by_name by auto
  then have "risk_of now ?tool cs e = RiskDestructive"
    using assms(5,6) by (auto simp: risk_of_def Cache_Get_def split: option.split bind_splits)
  then obtain e1 where "resolveRiskLevel now ?tool cs e = (RiskDestructive, e1)"
    by (metis resolveRiskLevel_risk prod.collapse)
  then have "Evaluate unmarshal now req e = (destructive_decision ?tool, LogDecision req (destructive_decision ?tool) e1)"
    using assms(4) req(2) by (simp add: Evaluate_def checkDestructiveRisk_def Let_def)
  then show ?thesis using assms(2) req(1) by (simp add: policy_serve_def destructive_decision_def)
qed

definition delete_envelope :: rpc_envelope where
  "delete_envelope = \<lparr>rp_Method = ''tools/call'', rp_Name = ''delete_pod'', rp_Arguments = [], rp_Schema = '''', rp_InputSchema = ''''\<rparr>"

theorem destructive_call_forbidden_witness:
  "\<exists>e'. policy_serve (\<lambda>s. Inr []) (\<lambda>b. Some delete_envelope) 0 \<lparr>cx_identity = None, cx_serverScope = []\<rparr> (Some ''x'')
      (Some (SetClassificationStore (Some \<lparr>cs_rows = [], cs_fails = (\<lambda>t. False)\<rparr>) (NewEngine [] False))) =
    (Forbidden [\<lparr>vi_Type = ViolationDestructive, vi_Detail = ClassifiedDestructive ''delete_pod'',
                 vi_Severity = SeverityCritical\<rparr>] (Some ViolationDestructive), Some e')"
proof -
  let ?e = "SetClassificationStore (Some \<lparr>cs_rows = [], cs_fails = (\<lambda>t. False)\<rparr>) (NewEngine [] False)"
  have w: "TrimSpace ''delete_pod'' = ''delete_pod''" "TrimSpace ''tools/call'' = ''tools/call''"
    by (rule TrimSpace_word, simp add: trimmed_word_def visible_def)+
  have "''delete'' \<in> set (splitToolName ''delete_pod'')" by code_simp
  moreover have "''delete'' \<in> set destructiveKeywords" by (simp add: destructiveKeywords_def)
  ultimately show ?thesis
    using destructive_call_forbidden [of "\<lambda>b. Some delete_envelope" "''x''" delete_envelope ?e] w
    by (simp add: delete_envelope_def SetClassificationStore_def Classification_Get_def NewClassificationCache_def)
qed

section \<open>The audit log\<close>

text \<open>The scalar values in a document, each with the keys that lead to it.\<close>

fun leaves :: "json \<Rightarrow> (string list \<times> json) list" where
  "leaves (JObj m) = concat (map (\<lambda>(k, v). map (\<lambda>(p, x). (k # p, x)) (leaves v)) m)"
| "leaves (JArr items) = concat (map leaves items)"
| "leaves v = [([], v)]"

definition sensitive_path :: "string list \<Rightarrow> bool" where
  "sensitive_path p \<longleftrightarrow> (\<exists>k\<in>set p. isSensitiveKey (audit_key k))"

lemma sensitive_path_simps [simp]:
  "\<not> sensitive_path []" "sensitive_path (k # p) \<longleftrightarrow> isSensitiveKey (audit_key k) \<or> sensitive_path p"
  by (auto simp: sensitive_path_def)

text \<open>Redaction of a document against its leaves.\<close>

definition redacts :: "json \<Rightarrow> json \<Rightarrow> bool" where
  "redacts v v' \<longleftrightarrow>
    (\<forall>p x. (p, x) \<in> set (leaves v') \<and> sensitive_path p \<longrightarrow> x = JStr ''[redacted]'')
    \<and> (\<forall>p x. \<not> sensitive_path p \<longrightarrow> (p, x) \<in> set (leaves v') \<longleftrightarrow> (p, x) \<in> set (leaves v))"

lemma redacts_hidden: "redacts v v' \<Longrightarrow> sensitive_path p \<Longrightarrow> (p, x) \<in> set (leaves v') \<Longrightarrow> x = JStr ''[redacted]''"
  by (simp add: redacts_def)

lemma redacts_kept: "redacts v v' \<Longrightarrow> \<not> sensitive_path p \<Longrightarrow> (p, x) \<in> set (leaves v) \<Longrightarrow> (p, x) \<in> set (leaves v')"
  by (simp add: redacts_def)

lemma sensitive_redacted: "isSensitiveKey key \<Longrightarrow> sanitizeValue key v = JStr ''[redacted]''"
  by (simp add: sanitizeValue.simps)

lemma leaves_fields: "(p, x) \<in> set (leaves (JObj m)) \<longleftrightarrow> (\<exists>k v q. (k, v) \<in> set m \<and> p = k # q \<and> (q, x) \<in> set (leaves v))"
  by force

lemma redacts_fields:
  assumes "\<And>k v. (k, v) \<in> set m \<Longrightarrow> \<not> isSensitiveKey (audit_key k) \<Longrightarrow> redacts v (sanitizeValue (audit_key k) v)"
  shows "redacts (JObj m) (JObj (map (\<lambda>(k, v). (k, sanitizeValue (audit_key k) v)) m))"
proof -
  have redacted: "x = JStr ''[redacted]''" if kv: "(k, v) \<in> set m" "(q, x) \<in> set (leaves (sanitizeValue (audit_key k) v))"
    "sensitive_path (k # q)" for k v q x
    using that assms [OF kv(1)] by (cases "isSensitiveKey (audit_key k)") (auto simp: sensitive_redacted redacts_def)
  have kept: "(q, x) \<in> set (leaves (sanitizeValue (audit_key k) v)) \<longleftrightarrow> (q, x) \<in> set (leaves v)"
    if "(k, v) \<in> set m" "\<not> sensitive_path (k # q)" for k v q x
    using that assms [OF that(1)] by (auto simp: redacts_def)
  show ?thesis unfolding redacts_def leaves_fields using redacted kept by fastforce
qed

lemma redacts_value: "\<not> isSensitiveKey key \<Longrightarrow> redacts v (sanitizeValue key v)"
proof (induction v arbitrary: key)
  case (JArr items)
  have "sanitizeValue key (JArr items) = JArr (map (sanitizeValue key) items)"
    using JArr.prems by (simp add: sanitizeValue.simps)
  then show ?case using JArr by (fastforce simp: redacts_def)
next
  case (JObj m)
  have "sanitizeValue key (JObj m) = JObj (map (\<lambda>(k, v). (k, sanitizeValue (audit_key k) v)) m)"
    using JObj.prems by (simp add: sanitizeValue.simps)
  moreover have "redacts (JObj m) (JObj (map (\<lambda>(k, v). (k, sanitizeValue (audit_key k) v)) m))"
    using JObj.IH by (intro redacts_fields) (auto elim: snds.cases)
  ultimately show ?case by simp
qed (simp_all add: sanitizeValue.simps redacts_def)

text \<open>C19.  The audit log is complete and carries no secret.  With a working audit store, every evaluation adds
  exactly one entry, for the caller and the tool, with the decision that is returned; in the arguments it
  records, every value below a key that names a password, a secret, a token or a key is replaced, at any
  depth and through lists, and every value below other keys only is recorded as it is.\<close>

theorem audit_entry_redacted:
  assumes "eg_hasAudit e" and "\<not> eg_auditFails e" and "Evaluate unmarshal now req e = (d, e')"
  shows "\<exists>entry. eg_log e' = eg_log e @ [entry] \<and> pe_ClientID entry = pr_ClientID req \<and> pe_Tool entry = pr_ToolName req
    \<and> pe_Allowed entry = pd_Allowed d \<and> pe_Violations entry = pd_Violations d
    \<and> redacts (JObj (pr_Arguments req)) (JObj (pe_Arguments entry))"
proof -
  let ?t = "TrimSpace (pr_ToolName req)"
  have log: "\<exists>entry. eg_log (LogDecision req d e1) = eg_log e1 @ [entry] \<and> pe_ClientID entry = pr_ClientID req
      \<and> pe_Tool entry = pr_ToolName req \<and> pe_Allowed entry = pd_Allowed d \<and> pe_Violations entry = pd_Violations d
      \<and> redacts (JObj (pr_Arguments req)) (JObj (pe_Arguments entry))"
    if "eg_hasAudit e1" "\<not> eg_auditFails e1" for e1
    using that redacts_fields [of "pr_Arguments req"] redacts_value
    by (simp add: LogDecision_def sanitizeForAudit_def)
  have risk: "eg_hasAudit e1 = eg_hasAudit e \<and> eg_auditFails e1 = eg_auditFails e \<and> eg_log e1 = eg_log e"
    if "resolveRiskLevel now ?t cs e = (r, e1)" for cs r e1
    using that by (auto simp: resolveRiskLevel_def Let_def split: option.splits prod.splits sum.splits)
  obtain dec e1 where c: "checkDestructiveRisk now ?t req e = (dec, e1)" by fastforce
  show ?thesis
  proof (cases dec)
    case None
    then have "eg_hasAudit e1 \<and> \<not> eg_auditFails e1 \<and> eg_log e1 = eg_log e"
      using c assms(1,2) risk by (auto simp: checkDestructiveRisk_def split: option.splits prod.splits if_splits)
    moreover obtain vs where "e' = logAndPublishDecision req d ?t vs e1"
      using assms(3) c None by (auto simp: Evaluate_def Let_def)
    then have "eg_log e' = eg_log (LogDecision req d e1)" by (simp add: logAndPublishDecision_def Let_def)
    ultimately show ?thesis using log [of e1] by simp
  next
    case (Some d1)
    then obtain e2 where "e' = LogDecision req d e2" "eg_hasAudit e2" "\<not> eg_auditFails e2" "eg_log e2 = eg_log e"
      using assms c risk
      by (auto simp: Evaluate_def Let_def checkDestructiveRisk_def split: option.splits prod.splits if_splits)
    then show ?thesis using log [of e2] by simp
  qed
qed

theorem audit_entry_redacted_witness:
  "\<exists>d e' entry. Evaluate (\<lambda>s. Inr []) 0 (wipe_request\<lparr>pr_Arguments := [(''opts'', JObj [(''API_Key'', JStr ''k1''), (''n'', JNum 1)])]\<rparr>)
       (NewEngine [] True) = (d, e')
     \<and> eg_log e' = [entry] \<and> ([''opts'', ''n''], JNum 1) \<in> set (leaves (JObj (pe_Arguments entry)))
     \<and> (\<forall>x. ([''opts'', ''API_Key''], x) \<in> set (leaves (JObj (pe_Arguments entry))) \<longrightarrow> x = JStr ''[redacted]'')"
proof -
  let ?req = "wipe_request\<lparr>pr_Arguments := [(''opts'', JObj [(''API_Key'', JStr ''k1''), (''n'', JNum 1)])]\<rparr>"
  obtain d e' where ev: "Evaluate (\<lambda>s. Inr []) 0 ?req (NewEngine [] True) = (d, e')" by fastforce
  have n: "eg_hasAudit (NewEngine [] True)" "\<not> eg_auditFails (NewEngine [] True)" "eg_log (NewEngine [] True) = []"
    by (simp_all add: NewEngine_def)
  from audit_entry_redacted [OF n(1,2) ev] n(3) obtain entry where
    log: "eg_log e' = [entry]" and red: "redacts (JObj (pr_Arguments ?req)) (JObj (pe_Arguments entry))" by auto
  have "isSensitiveKey (audit_key ''API_Key'')" "\<not> isSensitiveKey (audit_key ''opts'')" "\<not> isSensitiveKey (audit_key ''n'')"
    by code_simp+
  then have path: "sensitive_path [''opts'', ''API_Key'']" "\<not> sensitive_path [''opts'', ''n'']" by simp_all
  have "([''opts'', ''n''], JNum 1) \<in> set (leaves (JObj (pr_Arguments ?req)))" by simp
  then have "([''opts'', ''n''], JNum 1) \<in> set (leaves (JObj (pe_Arguments entry)))"
    by (rule redacts_kept [OF red path(2)])
  moreover have "\<forall>x. ([''opts'', ''API_Key''], x) \<in> set (leaves (JObj (pe_Arguments entry))) \<longrightarrow> x = JStr ''[redacted]''"
    by (intro allI impI) (rule redacts_hidden [OF red path(1)])
  ultimately show ?thesis using ev log by (intro exI [of _ d] exI [of _ e'] exI [of _ entry] conjI)
qed

end
