(* ===== verification/Search_BM25.thy ===== *)
theory Search_BM25
  imports Gateway_Types "HOL-Library.Product_Lexorder"
begin

text \<open>
  The lexical search of \<^verbatim>\<open>src/internal/search\<close>: \<^verbatim>\<open>tokenize.go\<close>, \<^verbatim>\<open>synonyms.go\<close>, \<^verbatim>\<open>engine.go\<close> and \<^verbatim>\<open>bm25.go\<close>.
  An engine holds one partition of documents per server, each with four inverted indexes, and the
  inverse document frequencies over all partitions.  Scores are reals.

  The lemmas show that an engine is at every moment a function of the documents of its partitions,
  and that a search returns exactly the documents that share a term with the expanded query, ordered
  by score.
\<close>

section \<open>Documents and tokens\<close>

record Document =
  doc_Key :: string
  doc_Name :: string
  doc_Title :: string
  doc_Description :: string
  doc_Tags :: "string list"

record ScoredResult =
  sc_Key :: string
  sc_Score :: real

definition Tokenize :: "string \<Rightarrow> string list" where
  "Tokenize s = fields_by (white_space @ [''.'', ''_'', ''-'']) [] (ToLower s)"

section \<open>Synonyms\<close>

text \<open>A slice of a synonym map may be nil, which \<open>Lookup\<close> reports as \<open>None\<close>.\<close>

definition synonym_groups :: "string list list" where
  "synonym_groups =
    [[''kubernetes'', ''k8s'', ''kube'', ''kubectl''],
     [''docker'', ''container'', ''containerized''],
     [''postgres'', ''postgresql'', ''pg''],
     [''database'', ''db''],
     [''repository'', ''repo''],
     [''delete'', ''remove'', ''rm''],
     [''create'', ''new'', ''add''],
     [''list'', ''ls'', ''enumerate''],
     [''get'', ''fetch'', ''retrieve''],
     [''update'', ''modify'', ''edit'', ''patch''],
     [''javascript'', ''js''],
     [''typescript'', ''ts''],
     [''python'', ''py''],
     [''message'', ''msg''],
     [''configuration'', ''config'', ''cfg''],
     [''environment'', ''env''],
     [''application'', ''app'']]"

definition synonymMap :: "(string, string list) gomap" where
  "synonymMap = foldl (\<lambda>m syns. foldl (\<lambda>m member. mput member syns m) m syns) [] synonym_groups"

datatype SynonymProvider =
  StaticSynonymProvider
| MapSynonymProvider "(string, string list option) gomap option"
| MergedSynonymProvider SynonymProvider SynonymProvider

fun Lookup :: "SynonymProvider \<Rightarrow> string \<Rightarrow> string list option" where
  "Lookup StaticSynonymProvider token = map_of synonymMap token"
| "Lookup (MapSynonymProvider None) token = None"
| "Lookup (MapSynonymProvider (Some entries)) token =
    (case map_of entries token of Some syns \<Rightarrow> syns | None \<Rightarrow> None)"
| "Lookup (MergedSynonymProvider primary fallback) token =
    (case Lookup primary token of Some syns \<Rightarrow> Some syns | None \<Rightarrow> Lookup fallback token)"

text \<open>The map of seen tokens has the elements of the expansion so far as its keys.\<close>

definition add_unseen :: "string list \<Rightarrow> string \<Rightarrow> string list" where
  "add_unseen expanded tok = (if tok \<in> set expanded then expanded else expanded @ [tok])"

definition ExpandQueryWith :: "string list \<Rightarrow> SynonymProvider \<Rightarrow> string list" where
  "ExpandQueryWith tokens provider =
    (if tokens = [] then []
     else
       let expanded = foldl add_unseen [] tokens
       in foldl (\<lambda>expanded tok. case Lookup provider tok of
                   None \<Rightarrow> expanded
                 | Some syns \<Rightarrow> foldl add_unseen expanded syns) expanded tokens)"

definition ExpandQuery :: "string list \<Rightarrow> string list" where
  "ExpandQuery tokens = ExpandQueryWith tokens StaticSynonymProvider"

section \<open>Inverted indexes\<close>

record fieldIndex =
  fi_postings :: "(string, (nat, nat) gomap) gomap"
  fi_docLens :: "nat list"
  fi_avgDocLen :: real

record bm25Partition =
  bp_serverID :: string
  bp_docs :: "Document list"
  bp_nameIdx :: fieldIndex
  bp_titleIdx :: fieldIndex
  bp_descIdx :: fieldIndex
  bp_tagsIdx :: fieldIndex

record BM25Engine =
  be_partitions :: "(string, bm25Partition) gomap"
  be_synonyms :: SynonymProvider
  be_globalIDF :: "(string, real) gomap"

definition newFieldIndex :: "nat \<Rightarrow> fieldIndex" where
  "newFieldIndex docCount = \<lparr>fi_postings = [], fi_docLens = replicate docCount 0, fi_avgDocLen = 0\<rparr>"

definition bump :: "nat \<Rightarrow> (string, (nat, nat) gomap) gomap \<Rightarrow> string \<Rightarrow> (string, (nat, nat) gomap) gomap" where
  "bump docIdx postings tok =
    (let posting = (case map_of postings tok of None \<Rightarrow> [] | Some p \<Rightarrow> p);
         tf = (case map_of posting docIdx of None \<Rightarrow> 0 | Some n \<Rightarrow> n)
     in mput tok (mput docIdx (tf + 1) posting) postings)"

definition indexField :: "fieldIndex \<Rightarrow> nat \<Rightarrow> string list \<Rightarrow> fieldIndex" where
  "indexField fi docIdx tokens =
    fi\<lparr>fi_docLens := (fi_docLens fi)[docIdx := length tokens],
       fi_postings := foldl (bump docIdx) (fi_postings fi) tokens\<rparr>"

definition computeAvgDocLen :: "fieldIndex \<Rightarrow> fieldIndex" where
  "computeAvgDocLen fi =
    (if fi_docLens fi = [] then fi
     else fi\<lparr>fi_avgDocLen := real (sum_list (fi_docLens fi)) / real (length (fi_docLens fi))\<rparr>)"

text \<open>The loop of \<open>buildPartition\<close> for one field, whose tokens in a document are \<open>tokens_of doc\<close>; the
  four indexes do not share anything.\<close>

fun index_from :: "(Document \<Rightarrow> string list) \<Rightarrow> nat \<Rightarrow> Document list \<Rightarrow> fieldIndex \<Rightarrow> fieldIndex" where
  "index_from tokens_of i [] fi = fi"
| "index_from tokens_of i (doc # docs) fi = index_from tokens_of (Suc i) docs (indexField fi i (tokens_of doc))"

definition index_docs :: "(Document \<Rightarrow> string list) \<Rightarrow> Document list \<Rightarrow> fieldIndex" where
  "index_docs tokens_of docs = computeAvgDocLen (index_from tokens_of 0 docs (newFieldIndex (length docs)))"

definition name_tokens :: "Document \<Rightarrow> string list" where
  "name_tokens doc = Tokenize (doc_Name doc)"

definition title_tokens :: "Document \<Rightarrow> string list" where
  "title_tokens doc = Tokenize (doc_Title doc)"

definition desc_tokens :: "Document \<Rightarrow> string list" where
  "desc_tokens doc = Tokenize (doc_Description doc)"

definition tag_tokens :: "Document \<Rightarrow> string list" where
  "tag_tokens doc = concat (map Tokenize (doc_Tags doc))"

definition buildPartition :: "string \<Rightarrow> Document list \<Rightarrow> bm25Partition" where
  "buildPartition serverID docs =
    \<lparr>bp_serverID = serverID, bp_docs = docs,
     bp_nameIdx = index_docs name_tokens docs,
     bp_titleIdx = index_docs title_tokens docs,
     bp_descIdx = index_docs desc_tokens docs,
     bp_tagsIdx = index_docs tag_tokens docs\<rparr>"

section \<open>Inverse document frequencies\<close>

definition partition_fields :: "bm25Partition \<Rightarrow> fieldIndex list" where
  "partition_fields p = [bp_nameIdx p, bp_titleIdx p, bp_descIdx p, bp_tagsIdx p]"

text \<open>The documents in which each term occurs, as pairs of partition and position.\<close>

type_synonym doc_sets = "(string, (string \<times> nat) list) gomap"

definition add_refs :: "string \<Rightarrow> doc_sets \<Rightarrow> string \<times> (nat, nat) gomap \<Rightarrow> doc_sets" where
  "add_refs serverID sets tp =
    (case tp of (tm, posting) \<Rightarrow>
       let refs = (case map_of sets tm of None \<Rightarrow> [] | Some refs \<Rightarrow> refs)
       in mput tm (foldl (\<lambda>refs (docIdx, tf). List.insert (serverID, docIdx) refs) refs posting) sets)"

definition termDocSets :: "(string, bm25Partition) gomap \<Rightarrow> doc_sets" where
  "termDocSets partitions =
    foldl (\<lambda>sets (pid, p). foldl (\<lambda>sets fi. foldl (add_refs (bp_serverID p)) sets (fi_postings fi))
             sets (partition_fields p)) [] partitions"

definition idf_of :: "nat \<Rightarrow> nat \<Rightarrow> real" where
  "idf_of n df = ln ((real n - real df + 1 / 2) / (real df + 1 / 2) + 1)"

definition recomputeGlobalIDFLocked :: "BM25Engine \<Rightarrow> BM25Engine" where
  "recomputeGlobalIDFLocked e =
    (let totalDocs = sum_list (map (\<lambda>(pid, p). length (bp_docs p)) (be_partitions e));
         idf = map (\<lambda>(tm, docSet). (tm, idf_of totalDocs (length docSet))) (termDocSets (be_partitions e))
     in e\<lparr>be_globalIDF := idf\<rparr>)"

section \<open>The engine\<close>

definition NewBM25EngineWithSynonyms :: "SynonymProvider option \<Rightarrow> BM25Engine" where
  "NewBM25EngineWithSynonyms provider =
    \<lparr>be_partitions = [],
     be_synonyms = (case provider of None \<Rightarrow> StaticSynonymProvider | Some p \<Rightarrow> p),
     be_globalIDF = []\<rparr>"

definition NewBM25Engine :: BM25Engine where
  "NewBM25Engine = \<lparr>be_partitions = [], be_synonyms = StaticSynonymProvider, be_globalIDF = []\<rparr>"

definition defaultPartitionID :: string where
  "defaultPartitionID = ''__default__''"

definition BM25_Index :: "Document list \<Rightarrow> BM25Engine \<Rightarrow> BM25Engine" where
  "BM25_Index docs e =
    recomputeGlobalIDFLocked
      (e\<lparr>be_partitions := [(defaultPartitionID, buildPartition defaultPartitionID docs)]\<rparr>)"

definition tfScore :: "nat \<Rightarrow> nat \<Rightarrow> real \<Rightarrow> real" where
  "tfScore tf dl avgdl =
    (real tf * (3 / 2 + 1)) / (real tf + 3 / 2 * (1 - 3 / 4 + 3 / 4 * real dl / avgdl))"

definition accumulateFieldPartitioned ::
  "real list \<Rightarrow> fieldIndex \<Rightarrow> string \<Rightarrow> real \<Rightarrow> real \<Rightarrow> real list" where
  "accumulateFieldPartitioned scores fi tm idf weight =
    (case map_of (fi_postings fi) tm of
       None \<Rightarrow> scores
     | Some posting \<Rightarrow>
         let avgdl = (if fi_avgDocLen fi = 0 then 1 else fi_avgDocLen fi)
         in foldl (\<lambda>scores (docIdx, tf).
                     scores[docIdx := scores ! docIdx + weight * idf * tfScore tf (fi_docLens fi ! docIdx) avgdl])
              scores posting)"

text \<open>The variant with the frequencies of one index, which no caller in the repository uses.\<close>

definition accumulateField :: "real list \<Rightarrow> fieldIndex \<Rightarrow> string \<Rightarrow> nat \<Rightarrow> real \<Rightarrow> real list" where
  "accumulateField scores fi tm n weight =
    (case map_of (fi_postings fi) tm of
       None \<Rightarrow> scores
     | Some posting \<Rightarrow>
         let df = length posting;
             idf = idf_of n df;
             avgdl = (if fi_avgDocLen fi = 0 then 1 else fi_avgDocLen fi)
         in foldl (\<lambda>scores (docIdx, tf).
                     scores[docIdx := scores ! docIdx + weight * idf * tfScore tf (fi_docLens fi ! docIdx) avgdl])
              scores posting)"

definition weightName :: real where "weightName = 3"
definition weightTitle :: real where "weightTitle = 2"
definition weightDescription :: real where "weightDescription = 1"
definition weightTags :: real where "weightTags = 2"

definition score_term :: "(string, real) gomap \<Rightarrow> bm25Partition \<Rightarrow> real list \<Rightarrow> string \<Rightarrow> real list" where
  "score_term globalIDF p scores tm =
    (let idf = (case map_of globalIDF tm of None \<Rightarrow> 0 | Some v \<Rightarrow> v);
         scores = accumulateFieldPartitioned scores (bp_nameIdx p) tm idf weightName;
         scores = accumulateFieldPartitioned scores (bp_titleIdx p) tm idf weightTitle;
         scores = accumulateFieldPartitioned scores (bp_descIdx p) tm idf weightDescription
     in accumulateFieldPartitioned scores (bp_tagsIdx p) tm idf weightTags)"

definition partition_scores :: "(string, real) gomap \<Rightarrow> string list \<Rightarrow> bm25Partition \<Rightarrow> real list" where
  "partition_scores globalIDF expanded p =
    foldl (score_term globalIDF p) (replicate (length (bp_docs p)) 0) expanded"

definition add_positive :: "(string, real) gomap \<Rightarrow> Document \<times> real \<Rightarrow> (string, real) gomap" where
  "add_positive scores ds =
    (case ds of (doc, score) \<Rightarrow>
       if score > 0
       then mput (doc_Key doc) ((case map_of scores (doc_Key doc) of None \<Rightarrow> 0 | Some v \<Rightarrow> v) + score) scores
       else scores)"

text \<open>The order of results: descending score, then ascending key.\<close>

definition by_rank :: "ScoredResult list \<Rightarrow> ScoredResult list" where
  "by_rank results = sort_key (\<lambda>r. (- sc_Score r, sc_Key r)) results"

definition take_limit :: "int \<Rightarrow> 'a list \<Rightarrow> 'a list" where
  "take_limit limit xs = (if limit > 0 \<and> int (length xs) > limit then take (nat limit) xs else xs)"

definition results_of :: "(string, real) gomap \<Rightarrow> ScoredResult list" where
  "results_of scores = map (\<lambda>(key, score). \<lparr>sc_Key = key, sc_Score = score\<rparr>) scores"

definition BM25_Search :: "string \<Rightarrow> int \<Rightarrow> BM25Engine \<Rightarrow> ScoredResult list" where
  "BM25_Search query limit e =
    (let tokens = Tokenize query
     in if tokens = [] then []
        else
          let expanded = ExpandQueryWith tokens (be_synonyms e)
          in if be_partitions e = [] then []
             else
               let scores =
                     foldl (\<lambda>scores (pid, p).
                              if bp_docs p = [] then scores
                              else foldl add_positive scores
                                     (zip (bp_docs p) (partition_scores (be_globalIDF e) expanded p)))
                       [] (be_partitions e)
               in take_limit limit (by_rank (results_of scores)))"

fun remove_key :: "string \<Rightarrow> Document list \<Rightarrow> Document list option" where
  "remove_key key [] = None"
| "remove_key key (d # ds) =
    (if doc_Key d = key then Some ds else map_option ((#) d) (remove_key key ds))"

fun remove_from_partitions :: "string \<Rightarrow> (string, bm25Partition) gomap \<Rightarrow> (string, bm25Partition) gomap option" where
  "remove_from_partitions key [] = None"
| "remove_from_partitions key ((pid, p) # ps) =
    (case remove_key key (bp_docs p) of
       None \<Rightarrow> map_option ((#) (pid, p)) (remove_from_partitions key ps)
     | Some remaining \<Rightarrow>
         Some (if remaining = [] then ps else (pid, buildPartition pid remaining) # ps))"

definition BM25_Remove :: "string \<Rightarrow> BM25Engine \<Rightarrow> BM25Engine" where
  "BM25_Remove key e =
    (case remove_from_partitions key (be_partitions e) of
       None \<Rightarrow> e
     | Some ps \<Rightarrow> recomputeGlobalIDFLocked (e\<lparr>be_partitions := ps\<rparr>))"

definition BM25_AddPartition :: "string \<Rightarrow> Document list \<Rightarrow> BM25Engine \<Rightarrow> BM25Engine" where
  "BM25_AddPartition serverID docs e =
    recomputeGlobalIDFLocked (e\<lparr>be_partitions := mput serverID (buildPartition serverID docs) (be_partitions e)\<rparr>)"

definition BM25_RemovePartition :: "string \<Rightarrow> BM25Engine \<Rightarrow> BM25Engine" where
  "BM25_RemovePartition serverID e =
    recomputeGlobalIDFLocked (e\<lparr>be_partitions := mdel serverID (be_partitions e)\<rparr>)"

section \<open>What an inverted index holds\<close>

text \<open>The number a family of postings records for a term in a document, and the shape every family
  keeps: distinct terms, distinct documents, no zero entry.\<close>

definition posting_count :: "(string, (nat, nat) gomap) gomap \<Rightarrow> string \<Rightarrow> nat \<Rightarrow> nat" where
  "posting_count postings t i =
    (case map_of postings t of None \<Rightarrow> 0 | Some p \<Rightarrow> case map_of p i of None \<Rightarrow> 0 | Some n \<Rightarrow> n)"

definition postings_ok :: "(string, (nat, nat) gomap) gomap \<Rightarrow> bool" where
  "postings_ok postings =
    (wf_map postings
     \<and> (\<forall>t p. map_of postings t = Some p \<longrightarrow> p \<noteq> [] \<and> wf_map p \<and> (\<forall>i n. map_of p i = Some n \<longrightarrow> 0 < n)))"

lemma count_list_pos [simp]: "0 < count_list xs x \<longleftrightarrow> x \<in> set xs"
  by (metis count_list_0_iff neq0_conv)

lemma bump_count: "posting_count (bump d P tok) t i = posting_count P t i + (if t = tok \<and> i = d then 1 else 0)"
  by (auto simp: posting_count_def bump_def Let_def split: option.splits)

lemma mput_not_Nil [simp]: "mput k v m \<noteq> []"
  by (cases m) auto

lemma bump_ok: "postings_ok P \<Longrightarrow> postings_ok (bump d P tok)"
  by (auto simp: postings_ok_def bump_def Let_def split: option.splits if_splits)

lemma bumps_count:
  "posting_count (foldl (bump d) P toks) t i = posting_count P t i + (if i = d then count_list toks t else 0)"
  by (induction toks arbitrary: P) (auto simp: bump_count)

lemma bumps_ok: "postings_ok P \<Longrightarrow> postings_ok (foldl (bump d) P toks)"
  by (induction toks arbitrary: P) (auto intro: bump_ok)

lemma computeAvgDocLen_simps [simp]:
  "fi_postings (computeAvgDocLen fi) = fi_postings fi"
  "fi_docLens (computeAvgDocLen fi) = fi_docLens fi"
  by (simp_all add: computeAvgDocLen_def)

lemma index_from_count:
  "posting_count (fi_postings (index_from tok k docs fi)) t i =
   posting_count (fi_postings fi) t i
   + (if k \<le> i \<and> i < k + length docs then count_list (tok (docs ! (i - k))) t else 0)"
proof (induction docs arbitrary: k fi)
  case (Cons d ds)
  show ?case
    using Cons.IH [of "Suc k" "indexField fi k (tok d)"]
    by (auto simp: indexField_def bumps_count nth_Cons' Suc_diff_Suc)
qed simp

lemma index_from_ok: "postings_ok (fi_postings fi) \<Longrightarrow> postings_ok (fi_postings (index_from tok k docs fi))"
  by (induction docs arbitrary: k fi) (simp_all add: indexField_def bumps_ok)

lemma index_from_lens: "length (fi_docLens (index_from tok k docs fi)) = length (fi_docLens fi)"
  by (induction docs arbitrary: k fi) (auto simp: indexField_def)

lemma index_docs_count:
  "posting_count (fi_postings (index_docs tok docs)) t i = (if i < length docs then count_list (tok (docs ! i)) t else 0)"
  using index_from_count [of tok 0 docs "newFieldIndex (length docs)" t i]
  by (simp add: index_docs_def newFieldIndex_def posting_count_def)

lemma index_docs_ok: "postings_ok (fi_postings (index_docs tok docs))"
  using index_from_ok [of "newFieldIndex (length docs)" tok 0 docs]
  by (simp add: index_docs_def newFieldIndex_def postings_ok_def)

lemma index_docs_lens: "length (fi_docLens (index_docs tok docs)) = length docs"
  using index_from_lens [of tok 0 docs "newFieldIndex (length docs)"]
  by (simp add: index_docs_def newFieldIndex_def)

lemma index_docs_posting:
  assumes "map_of (fi_postings (index_docs tok docs)) t = Some p"
  shows "p \<noteq> []" "wf_map p"
    "map_of p i = (if i < length docs \<and> t \<in> set (tok (docs ! i)) then Some (count_list (tok (docs ! i)) t) else None)"
proof -
  have ok: "postings_ok (fi_postings (index_docs tok docs))" by (rule index_docs_ok)
  with assms show "p \<noteq> []" "wf_map p" by (auto simp: postings_ok_def)
  have "posting_count (fi_postings (index_docs tok docs)) t i = (case map_of p i of None \<Rightarrow> 0 | Some n \<Rightarrow> n)"
    using assms by (simp add: posting_count_def)
  moreover have "map_of p i = Some n \<Longrightarrow> 0 < n" for n
    using ok assms by (auto simp: postings_ok_def)
  ultimately show "map_of p i = (if i < length docs \<and> t \<in> set (tok (docs ! i))
                                 then Some (count_list (tok (docs ! i)) t) else None)"
    by (auto simp: index_docs_count count_list_0_iff split: option.splits if_splits)
qed

lemma index_docs_absent:
  assumes "map_of (fi_postings (index_docs tok docs)) t = None" "d \<in> set docs"
  shows "t \<notin> set (tok d)"
proof -
  obtain i where "i < length docs" "d = docs ! i" using assms(2) by (auto simp: in_set_conv_nth)
  moreover have "posting_count (fi_postings (index_docs tok docs)) t i = 0"
    using assms(1) by (simp add: posting_count_def)
  ultimately show ?thesis by (simp add: index_docs_count count_list_0_iff)
qed

section \<open>The inverse document frequencies are positive\<close>

definition refs_of :: "doc_sets \<Rightarrow> string \<Rightarrow> (string \<times> nat) list" where
  "refs_of sets t = (case map_of sets t of None \<Rightarrow> [] | Some refs \<Rightarrow> refs)"

lemma insert_refs:
  "set (foldl (\<lambda>refs (d, tf). List.insert (sid, d) refs) refs posting) = set refs \<union> Pair sid ` fst ` set posting"
  "distinct refs \<Longrightarrow> distinct (foldl (\<lambda>refs (d, tf). List.insert (sid, d) refs) refs posting)"
  by (induction posting arbitrary: refs) auto

lemma add_refs_set:
  "set (refs_of (add_refs sid sets tp) t) =
   set (refs_of sets t) \<union> (if t = fst tp then Pair sid ` fst ` set (snd tp) else {})"
  by (cases tp) (auto simp: refs_of_def add_refs_def Let_def insert_refs split: option.splits)

lemma add_refs_wf:
  assumes "wf_map sets" "\<And>t. distinct (refs_of sets t)"
  shows "wf_map (add_refs sid sets tp)" "distinct (refs_of (add_refs sid sets tp) t)"
  using assms(1) assms(2) [of t] assms(2) [of "fst tp"]
  by (cases tp; auto simp: refs_of_def add_refs_def Let_def insert_refs split: option.splits)+

definition sets_ok :: "doc_sets \<Rightarrow> bool" where
  "sets_ok sets = (wf_map sets \<and> (\<forall>t. distinct (refs_of sets t)))"

lemma add_refs_fold:
  "set (refs_of (foldl (add_refs sid) sets P) t) =
   set (refs_of sets t) \<union> (\<Union>(t', q)\<in>set P. if t = t' then Pair sid ` fst ` set q else {})"
  by (induction P arbitrary: sets) (simp_all add: add_refs_set Un_assoc split_beta)

lemma add_refs_fold_ok: "sets_ok sets \<Longrightarrow> sets_ok (foldl (add_refs sid) sets P)"
  by (induction P arbitrary: sets) (simp_all add: add_refs_wf sets_ok_def)

text \<open>The documents of a partition in which a term is posted in some field.\<close>

definition posted_in :: "bm25Partition \<Rightarrow> string \<Rightarrow> nat set" where
  "posted_in p t = (\<Union>fi\<in>set (partition_fields p). \<Union>(t', q)\<in>set (fi_postings fi). if t = t' then fst ` set q else {})"

lemma fields_fold:
  "set (refs_of (foldl (\<lambda>sets fi. foldl (add_refs sid) sets (fi_postings fi)) sets fs) t) =
   set (refs_of sets t)
   \<union> (\<Union>fi\<in>set fs. \<Union>(t', q)\<in>set (fi_postings fi). if t = t' then Pair sid ` fst ` set q else {})"
  "sets_ok sets \<Longrightarrow> sets_ok (foldl (\<lambda>sets fi. foldl (add_refs sid) sets (fi_postings fi)) sets fs)"
  by (induction fs arbitrary: sets) (simp_all add: add_refs_fold add_refs_fold_ok Un_assoc)

lemma termDocSets_fold:
  fixes ps :: "(string, bm25Partition) gomap"
  shows "set (refs_of (foldl (\<lambda>sets (pid, p). foldl (\<lambda>sets fi. foldl (add_refs (bp_serverID p)) sets (fi_postings fi))
             sets (partition_fields p)) sets ps) t) =
         set (refs_of sets t) \<union> (\<Union>(pid, p)\<in>set ps. Pair (bp_serverID p) ` posted_in p t)"
    and "sets_ok sets \<Longrightarrow> sets_ok (foldl (\<lambda>sets (pid, p). foldl (\<lambda>sets fi. foldl (add_refs (bp_serverID p)) sets
             (fi_postings fi)) sets (partition_fields p)) sets ps)"
proof -
  have img: "Pair sid ` posted_in p t =
      (\<Union>fi\<in>set (partition_fields p). \<Union>(t', q)\<in>set (fi_postings fi). if t = t' then Pair sid ` fst ` set q else {})"
    for sid p by (simp add: posted_in_def image_UN split_beta if_distrib [of "image (Pair sid)"])
  show "set (refs_of (foldl (\<lambda>sets (pid, p). foldl (\<lambda>sets fi. foldl (add_refs (bp_serverID p)) sets (fi_postings fi))
             sets (partition_fields p)) sets ps) t) =
         set (refs_of sets t) \<union> (\<Union>(pid, p)\<in>set ps. Pair (bp_serverID p) ` posted_in p t)"
    by (induction ps arbitrary: sets) (simp_all add: fields_fold img Un_assoc split_beta)
  show "sets_ok sets \<Longrightarrow> sets_ok (foldl (\<lambda>sets (pid, p). foldl (\<lambda>sets fi. foldl (add_refs (bp_serverID p)) sets
             (fi_postings fi)) sets (partition_fields p)) sets ps)"
    by (induction ps arbitrary: sets) (simp_all add: fields_fold split_beta)
qed

lemma termDocSets_refs:
  "set (refs_of (termDocSets ps) t) = (\<Union>(pid, p)\<in>set ps. Pair (bp_serverID p) ` posted_in p t)"
  "sets_ok (termDocSets ps)"
proof -
  show "set (refs_of (termDocSets ps) t) = (\<Union>(pid, p)\<in>set ps. Pair (bp_serverID p) ` posted_in p t)"
    unfolding termDocSets_def termDocSets_fold(1) by (simp add: refs_of_def)
  show "sets_ok (termDocSets ps)"
    unfolding termDocSets_def by (rule termDocSets_fold(2)) (simp add: sets_ok_def refs_of_def)
qed

text \<open>The terms of a document, over all fields.\<close>

definition doc_terms :: "Document \<Rightarrow> string set" where
  "doc_terms d = set (name_tokens d) \<union> set (title_tokens d) \<union> set (desc_tokens d) \<union> set (tag_tokens d)"

lemma UN_pair_select: "(\<Union>(t', q)\<in>S. if t = t' then f q else {}) = (\<Union>q\<in>{q. (t, q) \<in> S}. f q)"
proof (rule set_eqI)
  fix x
  have "x \<in> (\<Union>(t', q)\<in>S. if t = t' then f q else {}) \<longleftrightarrow> (\<exists>t' q. (t', q) \<in> S \<and> t = t' \<and> x \<in> f q)"
    by (force split: if_splits)
  then show "x \<in> (\<Union>(t', q)\<in>S. if t = t' then f q else {}) \<longleftrightarrow> x \<in> (\<Union>q\<in>{q. (t, q) \<in> S}. f q)" by simp
qed

lemma posted_in_field:
  "(\<Union>(t', q)\<in>set (fi_postings (index_docs tok docs)). if t = t' then fst ` set q else {}) =
   {i. i < length docs \<and> t \<in> set (tok (docs ! i))}" (is "?lhs = ?rhs")
proof (cases "map_of (fi_postings (index_docs tok docs)) t")
  case None
  then have "?lhs = {}" by (auto simp: map_of_eq_None_iff image_iff split: if_splits)
  moreover have "?rhs = {}" using index_docs_absent [OF None] by auto
  ultimately show ?thesis by simp
next
  case (Some q)
  have wf: "wf_map (fi_postings (index_docs tok docs))" using index_docs_ok by (auto simp: postings_ok_def)
  have only: "{q'. (t, q') \<in> set (fi_postings (index_docs tok docs))} = {q}"
    using Some by (auto simp flip: map_of_eq_Some_iff [OF wf])
  have "?lhs = (\<Union>q'\<in>{q'. (t, q') \<in> set (fi_postings (index_docs tok docs))}. fst ` set q')"
    by (rule UN_pair_select)
  then have "?lhs = fst ` set q" unfolding only by simp
  also have "\<dots> = dom (map_of q)" by (simp add: dom_map_of_conv_image_fst)
  also have "\<dots> = ?rhs" using index_docs_posting(3) [OF Some] by (auto simp: dom_def)
  finally show ?thesis .
qed

lemma posted_in_build: "posted_in (buildPartition sid docs) t = {i. i < length docs \<and> t \<in> doc_terms (docs ! i)}"
  by (auto simp: posted_in_def partition_fields_def buildPartition_def posted_in_field doc_terms_def)

text \<open>The engine is a function of the documents of its partitions.\<close>

definition built :: "string \<Rightarrow> bm25Partition \<Rightarrow> bool" where
  "built pid p \<longleftrightarrow> p = buildPartition pid (bp_docs p)"

definition partitions_ok :: "(string, bm25Partition) gomap \<Rightarrow> bool" where
  "partitions_ok ps = (wf_map ps \<and> (\<forall>pid p. (pid, p) \<in> set ps \<longrightarrow> built pid p))"

lemma built_buildPartition [simp]: "built pid (buildPartition pid docs)"
  by (simp add: built_def buildPartition_def)

lemma built_fields:
  assumes "built pid p"
  shows "bp_serverID p = pid"
    "bp_nameIdx p = index_docs name_tokens (bp_docs p)" "bp_titleIdx p = index_docs title_tokens (bp_docs p)"
    "bp_descIdx p = index_docs desc_tokens (bp_docs p)" "bp_tagsIdx p = index_docs tag_tokens (bp_docs p)"
    "posted_in p t = {i. i < length (bp_docs p) \<and> t \<in> doc_terms (bp_docs p ! i)}"
proof -
  have p: "p = buildPartition pid (bp_docs p)" using assms unfolding built_def .
  show "bp_serverID p = pid" by (subst p) (simp add: buildPartition_def)
  show "bp_nameIdx p = index_docs name_tokens (bp_docs p)" by (subst p) (simp add: buildPartition_def)
  show "bp_titleIdx p = index_docs title_tokens (bp_docs p)" by (subst p) (simp add: buildPartition_def)
  show "bp_descIdx p = index_docs desc_tokens (bp_docs p)" by (subst p) (simp add: buildPartition_def)
  show "bp_tagsIdx p = index_docs tag_tokens (bp_docs p)" by (subst p) (simp add: buildPartition_def)
  show "posted_in p t = {i. i < length (bp_docs p) \<and> t \<in> doc_terms (bp_docs p ! i)}"
    by (subst p) (simp add: posted_in_build)
qed

definition bm25_ok :: "BM25Engine \<Rightarrow> bool" where
  "bm25_ok e = (partitions_ok (be_partitions e) \<and> recomputeGlobalIDFLocked e = e)"

lemma idf_of_pos: "df \<le> n \<Longrightarrow> 0 < idf_of n df"
proof -
  assume "df \<le> n"
  then have "0 < (real n - real df + 1 / 2) / (real df + 1 / 2)" by simp
  then show ?thesis unfolding idf_of_def by (intro ln_gt_zero) simp
qed

lemma refs_bound:
  assumes "partitions_ok ps"
  shows "length (refs_of (termDocSets ps) t) \<le> sum_list (map (\<lambda>(pid, p). length (bp_docs p)) ps)"
proof -
  let ?D = "\<lambda>x. Pair (fst x) ` {..<length (bp_docs (snd x))}"
  have sub: "Pair (bp_serverID p) ` posted_in p t \<subseteq> Pair pid ` {..<length (bp_docs p)}"
    if "(pid, p) \<in> set ps" for pid p
  proof -
    have "built pid p" using that assms by (auto simp: partitions_ok_def)
    then show ?thesis using built_fields(1,6) [of pid p] by auto
  qed
  have "set (refs_of (termDocSets ps) t) \<subseteq> (\<Union>x\<in>set ps. ?D x)"
    unfolding termDocSets_refs(1)
  proof (rule UN_mono [OF subset_refl])
    fix x assume "x \<in> set ps"
    then show "(case x of (pid, p) \<Rightarrow> Pair (bp_serverID p) ` posted_in p t) \<subseteq> ?D x"
      using sub [of "fst x" "snd x"] by (simp add: split_beta)
  qed
  then have "card (set (refs_of (termDocSets ps) t)) \<le> card (\<Union>x\<in>set ps. ?D x)"
    by (intro card_mono) auto
  also have "\<dots> \<le> (\<Sum>x\<in>set ps. card (?D x))" by (rule card_UN_le) simp
  also have "\<dots> = (\<Sum>x\<in>set ps. length (bp_docs (snd x)))"
    by (intro sum.cong refl) (simp add: card_image inj_on_def)
  also have "\<dots> = sum_list (map (\<lambda>(pid, p). length (bp_docs p)) ps)"
    using assms by (simp add: partitions_ok_def distinct_map sum_list_distinct_conv_sum_set split_beta)
  finally show ?thesis
    using termDocSets_refs(2) [of ps] by (simp add: sets_ok_def distinct_card)
qed

lemma globalIDF_pos:
  assumes "bm25_ok e" "(pid, p) \<in> set (be_partitions e)" "d \<in> set (bp_docs p)" "t \<in> doc_terms d"
  shows "\<exists>v. map_of (be_globalIDF e) t = Some v \<and> 0 < v"
proof -
  let ?ps = "be_partitions e" and ?N = "sum_list (map (\<lambda>(pid, p). length (bp_docs p)) (be_partitions e))"
  have ok: "partitions_ok ?ps" using assms(1) by (simp add: bm25_ok_def)
  then have p: "built pid p" using assms(2) by (auto simp: partitions_ok_def)
  obtain i where "i < length (bp_docs p)" "t \<in> doc_terms (bp_docs p ! i)"
    using assms(3,4) by (auto simp: in_set_conv_nth)
  then have "i \<in> posted_in p t" by (simp add: built_fields(6) [OF p])
  then have "(bp_serverID p, i) \<in> set (refs_of (termDocSets ?ps) t)"
    unfolding termDocSets_refs(1) using assms(2) by auto
  then obtain refs where refs: "map_of (termDocSets ?ps) t = Some refs" "refs = refs_of (termDocSets ?ps) t"
    by (cases "map_of (termDocSets ?ps) t") (auto simp: refs_of_def)
  have "be_globalIDF e = be_globalIDF (recomputeGlobalIDFLocked e)" using assms(1) by (simp add: bm25_ok_def)
  also have "\<dots> = map (\<lambda>(tm, docSet). (tm, idf_of ?N (length docSet))) (termDocSets ?ps)"
    by (simp add: recomputeGlobalIDFLocked_def Let_def)
  finally have "map_of (be_globalIDF e) t = Some (idf_of ?N (length refs))"
    using refs(1) by (simp add: map_of_map)
  then show ?thesis using idf_of_pos refs_bound [OF ok, of t] refs(2) by simp
qed

section \<open>Scores\<close>

text \<open>What one field adds to the score of a document.\<close>

definition field_score :: "fieldIndex \<Rightarrow> string \<Rightarrow> real \<Rightarrow> real \<Rightarrow> nat \<Rightarrow> real" where
  "field_score fi t idf w i =
    (case map_of (fi_postings fi) t of
       None \<Rightarrow> 0
     | Some q \<Rightarrow>
         (case map_of q i of
            None \<Rightarrow> 0
          | Some tf \<Rightarrow> w * idf * tfScore tf (fi_docLens fi ! i) (if fi_avgDocLen fi = 0 then 1 else fi_avgDocLen fi)))"

lemma posting_fold:
  "wf_map q \<Longrightarrow> \<forall>(d, tf)\<in>set q. d < length s \<Longrightarrow> i < length s \<Longrightarrow>
   foldl (\<lambda>s (d, tf). s[d := s ! d + f d tf]) s q ! i =
   s ! i + (case map_of q i of None \<Rightarrow> 0 | Some tf \<Rightarrow> (f i tf :: real))"
proof (induction q arbitrary: s)
  case (Cons x q)
  obtain d tf where x: "x = (d, tf)" by (cases x)
  have IH: "foldl (\<lambda>s (d, tf). s[d := s ! d + f d tf]) (s[d := s ! d + f d tf]) q ! i =
            s[d := s ! d + f d tf] ! i + (case map_of q i of None \<Rightarrow> 0 | Some tf \<Rightarrow> f i tf)"
    by (rule Cons.IH) (use Cons.prems x in auto)
  have "d = i \<Longrightarrow> map_of q i = None" using Cons.prems(1) x by (auto simp: map_of_eq_None_iff)
  then show ?case using IH Cons.prems x by (auto simp: nth_list_update)
qed simp

lemma posting_fold_length: "length (foldl (\<lambda>s (d, tf). s[d := s ! d + f d tf]) s q) = length (s :: real list)"
  by (induction q arbitrary: s) auto

lemma accumulateField_agrees:
  "accumulateField scores fi t n w =
   accumulateFieldPartitioned scores fi t
     (idf_of n (case map_of (fi_postings fi) t of None \<Rightarrow> 0 | Some q \<Rightarrow> length q)) w"
  by (simp add: accumulateField_def accumulateFieldPartitioned_def Let_def split: option.split)

lemma accumulate_length [simp]: "length (accumulateFieldPartitioned s fi t idf w) = length s"
  by (simp add: accumulateFieldPartitioned_def Let_def posting_fold_length split: option.split)

lemma accumulate_nth:
  assumes "fi = index_docs tok docs" "length s = length docs" "i < length docs"
  shows "accumulateFieldPartitioned s fi t idf w ! i = s ! i + field_score fi t idf w i"
proof (cases "map_of (fi_postings fi) t")
  case None
  then show ?thesis by (simp add: accumulateFieldPartitioned_def field_score_def)
next
  case (Some q)
  have q: "wf_map q" "map_of q j = (if j < length docs \<and> t \<in> set (tok (docs ! j)) then Some (count_list (tok (docs ! j)) t) else None)" for j
    using index_docs_posting [of tok docs t q] Some assms(1) by auto
  have "\<forall>(d, tf)\<in>set q. d < length s"
    using q assms(2) by (metis (mono_tags, lifting) case_prodI2 map_of_is_SomeI option.distinct(1))
  then show ?thesis
    using posting_fold [OF q(1), of s i "\<lambda>d tf. w * idf * tfScore tf (fi_docLens fi ! d)
                           (if fi_avgDocLen fi = 0 then 1 else fi_avgDocLen fi)"] Some assms(2,3)
    by (simp only: accumulateFieldPartitioned_def field_score_def Let_def option.case)
qed

lemma tfScore_pos: "0 < tf \<Longrightarrow> 0 < a \<Longrightarrow> 0 < tfScore tf dl a"
  unfolding tfScore_def by (intro divide_pos_pos add_pos_nonneg) auto

lemma index_docs_avg: "0 \<le> fi_avgDocLen (index_docs tok docs)"
proof -
  have "fi_avgDocLen (index_from tok k ds fi) = fi_avgDocLen fi" for k ds fi
    by (induction ds arbitrary: k fi) (auto simp: indexField_def)
  then show ?thesis by (simp add: index_docs_def computeAvgDocLen_def newFieldIndex_def)
qed

lemma field_score_value:
  assumes "fi = index_docs tok docs" "i < length docs"
  shows "\<exists>K>0. field_score fi t idf w i = (if t \<in> set (tok (docs ! i)) then w * idf * K else 0)"
proof (cases "map_of (fi_postings fi) t")
  case None
  then have "t \<notin> set (tok (docs ! i))"
    using index_docs_absent [of tok docs t] assms by simp
  then show ?thesis using None by (auto simp: field_score_def intro: exI [of _ 1])
next
  case (Some r)
  define a where "a = (if fi_avgDocLen fi = 0 then 1 else fi_avgDocLen fi)"
  define K where "K = tfScore (count_list (tok (docs ! i)) t) (fi_docLens fi ! i) a"
  have "0 < a" using index_docs_avg [of tok docs] assms(1) by (simp add: a_def)
  then have "0 < K" if "t \<in> set (tok (docs ! i))"
    unfolding K_def using that by (intro tfScore_pos) simp_all
  moreover have "field_score fi t idf w i = (if t \<in> set (tok (docs ! i)) then w * idf * K else 0)"
    using Some index_docs_posting(3) [of tok docs t r i] assms by (simp add: field_score_def K_def a_def)
  ultimately show ?thesis by (cases "t \<in> set (tok (docs ! i))") (auto intro: exI [of _ 1])
qed

lemma field_score_sign:
  assumes "fi = index_docs tok docs" "i < length docs" "0 < w"
  shows "0 \<le> idf \<Longrightarrow> 0 \<le> field_score fi t idf w i"
    and "0 < idf \<Longrightarrow> 0 < field_score fi t idf w i \<longleftrightarrow> t \<in> set (tok (docs ! i))"
    and "t \<notin> set (tok (docs ! i)) \<Longrightarrow> field_score fi t idf w i = 0"
  using field_score_value [OF assms(1,2), of t idf w] assms(3) by (auto split: if_splits)

text \<open>What one term adds to the score of a document, over all fields.\<close>

definition doc_score :: "bm25Partition \<Rightarrow> string \<Rightarrow> real \<Rightarrow> nat \<Rightarrow> real" where
  "doc_score p t idf i =
    field_score (bp_nameIdx p) t idf weightName i + field_score (bp_titleIdx p) t idf weightTitle i
    + field_score (bp_descIdx p) t idf weightDescription i + field_score (bp_tagsIdx p) t idf weightTags i"

lemmas weight_defs = weightName_def weightTitle_def weightDescription_def weightTags_def

lemma doc_score_sign:
  assumes "built pid p" "i < length (bp_docs p)" "0 \<le> idf" "t \<in> doc_terms (bp_docs p ! i) \<Longrightarrow> 0 < idf"
  shows "0 \<le> doc_score p t idf i" "0 < doc_score p t idf i \<longleftrightarrow> t \<in> doc_terms (bp_docs p ! i)"
proof -
  note fs = built_fields(2-5) [OF assms(1)]
  note sg = field_score_sign [OF fs(1) assms(2), where w = weightName and idf = idf and t = t] field_score_sign [OF fs(2) assms(2), where w = weightTitle and idf = idf and t = t]
    field_score_sign [OF fs(3) assms(2), where w = weightDescription and idf = idf and t = t] field_score_sign [OF fs(4) assms(2), where w = weightTags and idf = idf and t = t]
  note nonneg = sg(1) sg(4) sg(7) sg(10) and pos = sg(2) sg(5) sg(8) sg(11) and zero = sg(3) sg(6) sg(9) sg(12)
  show "0 \<le> doc_score p t idf i"
    unfolding doc_score_def using nonneg assms(3) by (simp add: weight_defs)
  show "0 < doc_score p t idf i \<longleftrightarrow> t \<in> doc_terms (bp_docs p ! i)"
  proof (cases "t \<in> doc_terms (bp_docs p ! i)")
    case True
    then have "0 < idf" using assms(4) by simp
    with True show ?thesis
      unfolding doc_score_def using nonneg pos by (auto simp: weight_defs doc_terms_def)
  next
    case False
    then show ?thesis unfolding doc_score_def using zero by (simp add: weight_defs doc_terms_def)
  qed
qed

definition idf_in :: "(string, real) gomap \<Rightarrow> string \<Rightarrow> real" where
  "idf_in G t = (case map_of G t of None \<Rightarrow> 0 | Some v \<Rightarrow> v)"

lemma scores_fold:
  assumes "built pid p" "length s = length (bp_docs p)"
  shows "length (foldl (score_term G p) s ts) = length s"
    and "i < length (bp_docs p) \<Longrightarrow> foldl (score_term G p) s ts ! i = s ! i + sum_list (map (\<lambda>t. doc_score p t (idf_in G t) i) ts)"
proof -
  note fs = built_fields(2-5) [OF assms(1)]
  have len [simp]: "length (score_term G p s t) = length s" for s t by (simp add: score_term_def Let_def)
  show "length (foldl (score_term G p) s ts) = length s" by (induction ts arbitrary: s) auto
  assume i: "i < length (bp_docs p)"
  have step: "score_term G p s t ! i = s ! i + doc_score p t (idf_in G t) i" if "length s = length (bp_docs p)" for s t
    using that i
    by (simp add: score_term_def Let_def doc_score_def idf_in_def accumulate_nth [OF fs(1)] accumulate_nth [OF fs(2)]
          accumulate_nth [OF fs(3)] accumulate_nth [OF fs(4)])
  show "foldl (score_term G p) s ts ! i = s ! i + sum_list (map (\<lambda>t. doc_score p t (idf_in G t) i) ts)"
    using assms(2)
  proof (induction ts arbitrary: s)
    case (Cons t ts)
    show ?case using Cons.IH [of "score_term G p s t"] Cons.prems step [of s t] by simp
  qed simp
qed

lemma sum_list_pos_iff:
  "(\<And>x. x \<in> set xs \<Longrightarrow> 0 \<le> f x) \<Longrightarrow> 0 < sum_list (map f xs) \<longleftrightarrow> (\<exists>x\<in>set xs. 0 < (f x :: real))"
proof (induction xs)
  case (Cons x xs)
  have "0 \<le> sum_list (map f xs)" using Cons.prems by (intro sum_list_nonneg) auto
  moreover have "0 \<le> f x" using Cons.prems by simp
  ultimately show ?case using Cons by (auto simp: add_pos_nonneg add_nonneg_pos)
qed simp

lemma globalIDF_nonneg:
  assumes "bm25_ok e"
  shows "0 \<le> idf_in (be_globalIDF e) t"
proof -
  let ?ps = "be_partitions e" and ?N = "sum_list (map (\<lambda>(pid, p). length (bp_docs p)) (be_partitions e))"
  have ok: "partitions_ok ?ps" using assms(1) by (simp add: bm25_ok_def)
  have "be_globalIDF e = be_globalIDF (recomputeGlobalIDFLocked e)" using assms(1) by (simp add: bm25_ok_def)
  also have "\<dots> = map (\<lambda>(tm, docSet). (tm, idf_of ?N (length docSet))) (termDocSets ?ps)"
    by (simp add: recomputeGlobalIDFLocked_def Let_def)
  finally have "map_of (be_globalIDF e) t = map_option (\<lambda>r. idf_of ?N (length r)) (map_of (termDocSets ?ps) t)"
    by (simp add: map_of_map)
  then show ?thesis
    using refs_bound [OF ok, of t] idf_of_pos
    by (auto simp: idf_in_def refs_of_def less_imp_le split: option.splits)
qed

lemma partition_scores_sign:
  assumes "bm25_ok e" "(pid, p) \<in> set (be_partitions e)" "i < length (bp_docs p)"
  shows "0 < partition_scores (be_globalIDF e) ts p ! i \<longleftrightarrow> doc_terms (bp_docs p ! i) \<inter> set ts \<noteq> {}"
proof -
  let ?d = "\<lambda>t. doc_score p t (idf_in (be_globalIDF e) t) i"
  have b: "built pid p" using assms(1,2) by (auto simp: bm25_ok_def partitions_ok_def)
  have pos: "0 < idf_in (be_globalIDF e) t" if "t \<in> doc_terms (bp_docs p ! i)" for t
    using globalIDF_pos [OF assms(1,2) nth_mem [OF assms(3)] that] by (auto simp: idf_in_def)
  note sg = doc_score_sign [OF b assms(3) globalIDF_nonneg [OF assms(1)] pos]
  have "partition_scores (be_globalIDF e) ts p ! i = sum_list (map ?d ts)"
    unfolding partition_scores_def using scores_fold(2) [OF b _ assms(3)] assms(3) by simp
  moreover have "0 < sum_list (map ?d ts) \<longleftrightarrow> (\<exists>t\<in>set ts. 0 < ?d t)"
    by (rule sum_list_pos_iff) (rule sg(1))
  ultimately show ?thesis using sg(2) by auto
qed

lemma partition_scores_length: "built pid p \<Longrightarrow> length (partition_scores G ts p) = length (bp_docs p)"
  unfolding partition_scores_def using scores_fold(1) [of pid p "replicate (length (bp_docs p)) 0"] by simp

section \<open>Queries\<close>

text \<open>The terms of a query: its tokens and the members of their synonym groups.\<close>

definition query_terms :: "SynonymProvider \<Rightarrow> string \<Rightarrow> string set" where
  "query_terms P q =
    set (Tokenize q) \<union> {s. \<exists>tok syns. tok \<in> set (Tokenize q) \<and> Lookup P tok = Some syns \<and> s \<in> set syns}"

lemma add_unseen_set [simp]: "set (add_unseen xs x) = insert x (set xs)"
  by (auto simp: add_unseen_def)

lemma add_unseens_set [simp]: "set (foldl add_unseen xs ys) = set xs \<union> set ys"
  by (induction ys arbitrary: xs) auto

lemma add_unseen_distinct: "distinct xs \<Longrightarrow> distinct (foldl add_unseen xs ys)"
  by (induction ys arbitrary: xs) (auto simp: add_unseen_def)

lemma expansion_set:
  "set (foldl (\<lambda>xs tok. case Lookup P tok of None \<Rightarrow> xs | Some syns \<Rightarrow> foldl add_unseen xs syns) xs toks) =
   set xs \<union> {s. \<exists>tok syns. tok \<in> set toks \<and> Lookup P tok = Some syns \<and> s \<in> set syns}"
  by (induction toks arbitrary: xs) (auto split: option.splits)

lemma expansion_distinct:
  "distinct xs \<Longrightarrow>
   distinct (foldl (\<lambda>xs tok. case Lookup P tok of None \<Rightarrow> xs | Some syns \<Rightarrow> foldl add_unseen xs syns) xs toks)"
  by (induction toks arbitrary: xs) (auto simp: add_unseen_distinct split: option.splits)

lemma ExpandQueryWith_terms: "set (ExpandQueryWith (Tokenize q) P) = query_terms P q"
  by (auto simp: ExpandQueryWith_def Let_def expansion_set query_terms_def)

lemma ExpandQueryWith_distinct: "distinct (ExpandQueryWith toks P)"
  by (simp add: ExpandQueryWith_def Let_def expansion_distinct add_unseen_distinct)

section \<open>Results\<close>

text \<open>The accumulated scores are positive, and keyed by the documents with a positive score.\<close>

definition scores_ok :: "(string, real) gomap \<Rightarrow> bool" where
  "scores_ok m = (wf_map m \<and> (\<forall>k v. map_of m k = Some v \<longrightarrow> 0 < v))"

lemma add_positive_ok: "scores_ok m \<Longrightarrow> scores_ok (add_positive m ds)"
  by (cases ds) (auto simp: scores_ok_def add_positive_def add_pos_pos simp del: map_of_eq_Some_iff
      split: option.split if_splits)

lemma add_positive_dom:
  "dom (map_of (add_positive m ds)) = dom (map_of m) \<union> (if 0 < snd ds then {doc_Key (fst ds)} else {})"
  by (cases ds) (auto simp: add_positive_def dom_def split: if_splits)

lemma add_positives_ok: "scores_ok m \<Longrightarrow> scores_ok (foldl add_positive m xs)"
  by (induction xs arbitrary: m) (simp_all add: add_positive_ok)

lemma add_positives_dom:
  "dom (map_of (foldl add_positive m xs)) = dom (map_of m) \<union> doc_Key ` fst ` set (filter (\<lambda>x. 0 < snd x) xs)"
  by (induction xs arbitrary: m) (simp_all add: add_positive_dom)

text \<open>The keys that match in one partition.\<close>

definition matching_keys :: "string set \<Rightarrow> Document list \<Rightarrow> string set" where
  "matching_keys ts docs = {doc_Key d |d. d \<in> set docs \<and> doc_terms d \<inter> ts \<noteq> {}}"

definition score_partition ::
  "(string, real) gomap \<Rightarrow> string list \<Rightarrow> (string, real) gomap \<Rightarrow> string \<times> bm25Partition \<Rightarrow> (string, real) gomap" where
  "score_partition G ts scores x =
    (case x of (pid, p) \<Rightarrow>
       if bp_docs p = [] then scores else foldl add_positive scores (zip (bp_docs p) (partition_scores G ts p)))"

lemma score_partition_dom:
  assumes "bm25_ok e" "x \<in> set (be_partitions e)"
  shows "dom (map_of (score_partition (be_globalIDF e) ts m x)) =
         dom (map_of m) \<union> matching_keys (set ts) (bp_docs (snd x))"
proof -
  obtain pid p where x: "x = (pid, p)" by (cases x)
  have b: "built pid p" using assms x by (auto simp: bm25_ok_def partitions_ok_def)
  have "doc_Key ` fst ` set (filter (\<lambda>x. 0 < snd x) (zip (bp_docs p) (partition_scores (be_globalIDF e) ts p))) =
        (\<lambda>i. doc_Key (bp_docs p ! i)) ` {i. i < length (bp_docs p) \<and> 0 < partition_scores (be_globalIDF e) ts p ! i}"
    by (auto simp: set_zip partition_scores_length [OF b] image_iff) force+
  also have "\<dots> = (\<lambda>i. doc_Key (bp_docs p ! i)) ` {i. i < length (bp_docs p) \<and> doc_terms (bp_docs p ! i) \<inter> set ts \<noteq> {}}"
    using partition_scores_sign [OF assms(1), of pid p] assms(2) x by (intro arg_cong2 [of _ _ _ _ image]) auto
  also have "\<dots> = matching_keys (set ts) (bp_docs p)"
    by (auto simp: matching_keys_def in_set_conv_nth)
  finally show ?thesis
    using x by (simp add: score_partition_def add_positives_dom matching_keys_def)
qed

lemma score_partition_ok: "scores_ok m \<Longrightarrow> scores_ok (score_partition G ts m x)"
  by (cases x) (simp add: score_partition_def add_positives_ok)

lemma score_partitions:
  assumes "bm25_ok e" "set ps \<subseteq> set (be_partitions e)"
  shows "scores_ok m \<Longrightarrow> scores_ok (foldl (score_partition (be_globalIDF e) ts) m ps)"
    and "dom (map_of (foldl (score_partition (be_globalIDF e) ts) m ps)) =
         dom (map_of m) \<union> (\<Union>x\<in>set ps. matching_keys (set ts) (bp_docs (snd x)))"
  using assms(2)
  by (induction ps arbitrary: m)
    (simp_all add: score_partition_ok score_partition_dom [OF assms(1)] Un_assoc)

text \<open>The ranking.\<close>

definition ranks_before :: "ScoredResult \<Rightarrow> ScoredResult \<Rightarrow> bool" where
  "ranks_before a b = (sc_Score b < sc_Score a \<or> sc_Score a = sc_Score b \<and> sc_Key a \<le> sc_Key b)"

lemma by_rank_sorted: "sorted_wrt ranks_before (by_rank rs)"
proof -
  have "sorted (map (\<lambda>r. (- sc_Score r, sc_Key r)) (by_rank rs))" by (simp add: by_rank_def)
  then have "sorted_wrt (\<lambda>a b. (- sc_Score a, sc_Key a) \<le> (- sc_Score b, sc_Key b)) (by_rank rs)"
    by (simp only: sorted_map)
  then show ?thesis by (rule sorted_wrt_mono_rel [rotated]) (auto simp: ranks_before_def less_eq_prod_def)
qed

lemma by_rank_set [simp]: "set (by_rank rs) = set rs"
  by (simp add: by_rank_def)

lemma by_rank_keys: "distinct (map sc_Key rs) \<Longrightarrow> distinct (map sc_Key (by_rank rs))"
proof -
  assume "distinct (map sc_Key rs)"
  then have "distinct rs" "inj_on sc_Key (set rs)" by (auto simp: distinct_map)
  then show ?thesis by (simp add: distinct_map by_rank_def)
qed

lemma sorted_take_limit: "sorted_wrt P xs \<Longrightarrow> sorted_wrt P (take_limit n xs)"
  by (simp add: take_limit_def sorted_wrt_take)

lemma take_limit_none [simp]: "take_limit 0 xs = xs"
  by (simp add: take_limit_def)

lemma take_limit_pos: "0 < n \<Longrightarrow> take_limit n xs = take (nat n) xs"
  by (simp add: take_limit_def)

lemma BM25_Search_ranked:
  "BM25_Search q limit e =
   (if Tokenize q = [] \<or> be_partitions e = [] then []
    else take_limit limit (by_rank (results_of
           (foldl (score_partition (be_globalIDF e) (ExpandQueryWith (Tokenize q) (be_synonyms e))) [] (be_partitions e)))))"
proof -
  have "(\<lambda>scores (pid, p). if bp_docs p = [] then scores
           else foldl add_positive scores (zip (bp_docs p) (partition_scores G ts p))) = score_partition G ts" for G ts
    by (intro ext) (auto simp: score_partition_def)
  then show ?thesis by (simp add: BM25_Search_def Let_def)
qed

lemma BM25_Search_limit:
  "BM25_Search q limit e = (if 0 < limit then take (nat limit) (BM25_Search q 0 e) else BM25_Search q 0 e)"
  by (simp add: BM25_Search_ranked take_limit_def)

lemma BM25_Search_sorted: "sorted_wrt ranks_before (BM25_Search q limit e)"
  by (simp add: BM25_Search_ranked sorted_take_limit by_rank_sorted)

lemma results_of_keys: "map sc_Key (results_of m) = map fst m"
  by (simp add: results_of_def split_beta)

lemma BM25_Search_keys:
  assumes "bm25_ok e"
  shows "sc_Key ` set (BM25_Search q 0 e) =
         (\<Union>x\<in>set (be_partitions e). matching_keys (query_terms (be_synonyms e) q) (bp_docs (snd x)))"
    and "distinct (map sc_Key (BM25_Search q 0 e))"
    and "r \<in> set (BM25_Search q 0 e) \<Longrightarrow> 0 < sc_Score r"
proof -
  let ?ts = "ExpandQueryWith (Tokenize q) (be_synonyms e)"
  let ?m = "foldl (score_partition (be_globalIDF e) ?ts) [] (be_partitions e)"
  have ok: "scores_ok ?m" by (rule score_partitions(1) [OF assms]) (simp_all add: scores_ok_def)
  have "dom (map_of ?m) = (\<Union>x\<in>set (be_partitions e). matching_keys (query_terms (be_synonyms e) q) (bp_docs (snd x)))"
    using score_partitions(2) [OF assms subset_refl, of ?ts "[]"] by (simp add: ExpandQueryWith_terms)
  moreover have "sc_Key ` set (results_of ?m) = dom (map_of ?m)"
    by (metis dom_map_of_conv_image_fst list.set_map results_of_keys)
  moreover have "Tokenize q = [] \<Longrightarrow> query_terms (be_synonyms e) q = {}" by (simp add: query_terms_def)
  ultimately show "sc_Key ` set (BM25_Search q 0 e) =
         (\<Union>x\<in>set (be_partitions e). matching_keys (query_terms (be_synonyms e) q) (bp_docs (snd x)))"
    by (auto simp: BM25_Search_ranked matching_keys_def)
  show "distinct (map sc_Key (BM25_Search q 0 e))"
    using ok by (auto simp: BM25_Search_ranked scores_ok_def results_of_keys intro: by_rank_keys)
  show "r \<in> set (BM25_Search q 0 e) \<Longrightarrow> 0 < sc_Score r"
    using ok by (auto simp: BM25_Search_ranked results_of_def scores_ok_def split: if_splits)
qed

section \<open>Sequences of operations\<close>

datatype bm25_op =
  OpIndex "Document list"
| OpRemove string
| OpAddPartition string "Document list"
| OpRemovePartition string

fun bm25_apply :: "BM25Engine \<Rightarrow> bm25_op \<Rightarrow> BM25Engine" where
  "bm25_apply e (OpIndex docs) = BM25_Index docs e"
| "bm25_apply e (OpRemove key) = BM25_Remove key e"
| "bm25_apply e (OpAddPartition serverID docs) = BM25_AddPartition serverID docs e"
| "bm25_apply e (OpRemovePartition serverID) = BM25_RemovePartition serverID e"

text \<open>The specification: the documents of each partition, without any index.\<close>

fun remove_first :: "string \<Rightarrow> (string, Document list) gomap \<Rightarrow> (string, Document list) gomap" where
  "remove_first key [] = []"
| "remove_first key ((pid, docs) # m) =
    (case remove_key key docs of
       None \<Rightarrow> (pid, docs) # remove_first key m
     | Some ds \<Rightarrow> if ds = [] then m else (pid, ds) # m)"

fun library_apply :: "(string, Document list) gomap \<Rightarrow> bm25_op \<Rightarrow> (string, Document list) gomap" where
  "library_apply m (OpIndex docs) = [(defaultPartitionID, docs)]"
| "library_apply m (OpRemove key) = remove_first key m"
| "library_apply m (OpAddPartition serverID docs) = mput serverID docs m"
| "library_apply m (OpRemovePartition serverID) = mdel serverID m"

definition library_of :: "BM25Engine \<Rightarrow> (string, Document list) gomap" where
  "library_of e = map (\<lambda>(pid, p). (pid, bp_docs p)) (be_partitions e)"

lemma recompute_simps [simp]:
  "be_partitions (recomputeGlobalIDFLocked e) = be_partitions e"
  "be_synonyms (recomputeGlobalIDFLocked e) = be_synonyms e"
  "recomputeGlobalIDFLocked (recomputeGlobalIDFLocked e) = recomputeGlobalIDFLocked e"
  by (simp_all add: recomputeGlobalIDFLocked_def Let_def)

lemma recompute_ok: "partitions_ok (be_partitions e) \<Longrightarrow> bm25_ok (recomputeGlobalIDFLocked e)"
  by (simp add: bm25_ok_def)

lemma bp_docs_build [simp]: "bp_docs (buildPartition pid docs) = docs"
  by (simp add: buildPartition_def)

lemma map_mput: "map (\<lambda>(k, v). (k, f v)) (mput k v m) = mput k (f v) (map (\<lambda>(k, v). (k, f v)) m)"
  by (induction m) auto

lemma map_mdel: "map (\<lambda>(k, v). (k, f v)) (mdel k m) = mdel k (map (\<lambda>(k, v). (k, f v)) m)"
  by (induction m) (auto simp: AList.delete_eq)

lemma remove_from_library:
  "map (\<lambda>(pid, p). (pid, bp_docs p)) (case remove_from_partitions key ps of None \<Rightarrow> ps | Some ps' \<Rightarrow> ps') =
   remove_first key (map (\<lambda>(pid, p). (pid, bp_docs p)) ps)"
  by (induction key ps rule: remove_from_partitions.induct) (auto split: option.split option.splits)

lemma library_step: "library_of (bm25_apply e op) = library_apply (library_of e) op"
proof (cases op)
  case (OpRemove key)
  then show ?thesis
    using remove_from_library [where key = key and ps = "be_partitions e"]
    by (auto simp: library_of_def BM25_Remove_def split: option.splits)
qed (simp_all add: library_of_def BM25_Index_def BM25_AddPartition_def BM25_RemovePartition_def map_mput map_mdel)

lemma partitions_ok_subset:
  "partitions_ok ps \<Longrightarrow> wf_map qs \<Longrightarrow> (\<And>x. x \<in> set qs \<Longrightarrow> x \<in> set ps \<or> built (fst x) (snd x)) \<Longrightarrow> partitions_ok qs"
  by (fastforce simp: partitions_ok_def)

lemma remove_from_partitions_sub:
  "remove_from_partitions key ps = Some qs \<Longrightarrow>
   set (map fst qs) \<subseteq> set (map fst ps) \<and> (wf_map ps \<longrightarrow> wf_map qs)
   \<and> (\<forall>x. x \<in> set qs \<longrightarrow> x \<in> set ps \<or> built (fst x) (snd x))"
proof (induction key ps arbitrary: qs rule: remove_from_partitions.induct)
  case (2 key pid p ps)
  show ?case
  proof (cases "remove_key key (bp_docs p)")
    case None
    then obtain z where z: "remove_from_partitions key ps = Some z" "qs = (pid, p) # z"
      using "2.prems" by auto
    have "set (map fst z) \<subseteq> set (map fst ps)" "wf_map ps \<longrightarrow> wf_map z"
      "\<forall>x. x \<in> set z \<longrightarrow> x \<in> set ps \<or> built (fst x) (snd x)"
      using "2.IH" [OF None z(1)] by blast+
    then show ?thesis unfolding z(2) by (simp del: set_map split_paired_All) blast
  qed (use "2.prems" in \<open>auto split: if_splits\<close>)
qed simp

lemma mput_elem: "x \<in> set (mput k v m) \<Longrightarrow> x \<in> set m \<or> x = (k, v)"
  by (induction m) (auto split: if_splits)

lemma mdel_elem: "x \<in> set (mdel k m) \<Longrightarrow> x \<in> set m"
  by (simp add: AList.delete_eq)

lemma partitions_ok_mput:
  assumes "partitions_ok ps"
  shows "partitions_ok (mput pid (buildPartition pid docs) ps)"
proof (rule partitions_ok_subset [OF assms])
  show "wf_map (mput pid (buildPartition pid docs) ps)" using assms by (simp add: partitions_ok_def)
  show "x \<in> set ps \<or> built (fst x) (snd x)" if "x \<in> set (mput pid (buildPartition pid docs) ps)" for x
    using mput_elem [OF that] by (cases "x = (pid, buildPartition pid docs)") simp_all
qed

lemma partitions_ok_mdel:
  assumes "partitions_ok ps"
  shows "partitions_ok (mdel pid ps)"
proof (rule partitions_ok_subset [OF assms])
  show "wf_map (mdel pid ps)" using assms by (simp add: partitions_ok_def)
  show "x \<in> set ps \<or> built (fst x) (snd x)" if "x \<in> set (mdel pid ps)" for x
    using mdel_elem [OF that] by blast
qed

lemma partitions_ok_remove:
  assumes "remove_from_partitions key ps = Some qs" "partitions_ok ps"
  shows "partitions_ok qs"
proof (rule partitions_ok_subset [OF assms(2)])
  show "wf_map qs" using remove_from_partitions_sub [OF assms(1)] assms(2) by (simp add: partitions_ok_def)
  show "x \<in> set ps \<or> built (fst x) (snd x)" if "x \<in> set qs" for x
    using remove_from_partitions_sub [OF assms(1)] that by blast
qed

lemma bm25_apply_ok [inv_intros]: "bm25_ok e \<Longrightarrow> bm25_ok (bm25_apply e op)"
proof (cases op)
  case (OpRemove key)
  assume e: "bm25_ok e"
  show ?thesis
  proof (cases "remove_from_partitions key (be_partitions e)")
    case (Some qs)
    then have "partitions_ok qs" using e by (auto simp: bm25_ok_def intro: partitions_ok_remove)
    then show ?thesis using OpRemove Some by (simp add: BM25_Remove_def recompute_ok)
  qed (use e OpRemove in \<open>simp add: BM25_Remove_def\<close>)
qed (simp_all add: BM25_Index_def BM25_AddPartition_def BM25_RemovePartition_def recompute_ok bm25_ok_def
      partitions_ok_mput partitions_ok_mdel, simp add: partitions_ok_def)

lemma bm25_apply_synonyms [simp]: "be_synonyms (bm25_apply e op) = be_synonyms e"
  by (cases op) (simp_all add: BM25_Index_def BM25_Remove_def BM25_AddPartition_def BM25_RemovePartition_def
      split: option.split)

lemma bm25_run:
  "bm25_ok e \<Longrightarrow> bm25_ok (foldl bm25_apply e ops)"
  "library_of (foldl bm25_apply e ops) = foldl library_apply (library_of e) ops"
  "be_synonyms (foldl bm25_apply e ops) = be_synonyms e"
  by (induction ops arbitrary: e) (simp_all add: bm25_apply_ok library_step)

lemma NewBM25Engine_simps [simp]:
  "bm25_ok (NewBM25EngineWithSynonyms P)" "library_of (NewBM25EngineWithSynonyms P) = []"
  "be_synonyms (NewBM25EngineWithSynonyms P) = (case P of None \<Rightarrow> StaticSynonymProvider | Some p \<Rightarrow> p)"
  by (simp_all add: NewBM25EngineWithSynonyms_def bm25_ok_def partitions_ok_def library_of_def
      recomputeGlobalIDFLocked_def termDocSets_def)

text \<open>C20.  Whatever operations built an engine, an unlimited search returns each key once, exactly the
  keys of the documents that share a term with the query or a synonym of one of its tokens, each with
  a positive score, in descending order of score and ascending order of key among equals; a limit
  keeps the first results of it.\<close>

theorem bm25_search_exact:
  "let e = foldl bm25_apply (NewBM25EngineWithSynonyms (Some P)) ops;
       library = foldl library_apply [] ops;
       rs = BM25_Search q 0 e
   in sc_Key ` set rs =
        {doc_Key d |d pid docs. (pid, docs) \<in> set library \<and> d \<in> set docs \<and> doc_terms d \<inter> query_terms P q \<noteq> {}}
      \<and> distinct (map sc_Key rs)
      \<and> set rs \<subseteq> {r. 0 < sc_Score r}
      \<and> sorted_wrt ranks_before rs
      \<and> BM25_Search q limit e = (if 0 < limit then take (nat limit) rs else rs)"
proof -
  define e where "e = foldl bm25_apply (NewBM25EngineWithSynonyms (Some P)) ops"
  define library where "library = foldl library_apply [] ops"
  have ok: "bm25_ok e" by (simp add: e_def bm25_run)
  have syn: "be_synonyms e = P" by (simp add: e_def bm25_run)
  have "library_of e = library" by (simp add: e_def library_def bm25_run)
  then have lib: "set library = (\<lambda>(pid, p). (pid, bp_docs p)) ` set (be_partitions e)"
    by (simp add: library_of_def flip: set_map)
  have "sc_Key ` set (BM25_Search q 0 e) =
         {doc_Key d |d pid docs. (pid, docs) \<in> set library \<and> d \<in> set docs \<and> doc_terms d \<inter> query_terms P q \<noteq> {}}"
    unfolding BM25_Search_keys(1) [OF ok] syn lib by (force simp: matching_keys_def)
  then show ?thesis
    using BM25_Search_keys(2) [OF ok, of q] BM25_Search_keys(3) [OF ok, of _ q] BM25_Search_sorted [of q 0 e] BM25_Search_limit [of q limit e]
    by (simp add: Let_def subset_iff flip: e_def library_def)
qed

end
