(* ===== verification/Search_Vector.thy ===== *)
theory Search_Vector
  imports Search_BM25
begin

text \<open>
  The semantic search of \<^verbatim>\<open>src/internal/search\<close>: \<^verbatim>\<open>embedder.go\<close>, the pooling of \<^verbatim>\<open>onnx_embedder.go\<close>,
  \<^verbatim>\<open>embedding_cache.go\<close>, \<^verbatim>\<open>vector.go\<close> and \<^verbatim>\<open>hybrid.go\<close>.  An embedder is a parameter: a function that
  advances a state of its own.  Vectors are lists of reals.

  The locale \<open>search_engine\<close> states what the users of the interface \<open>Engine\<close> rely on; the three
  engines interpret it.  The cache is shown to refine a list of the most recently used entries, and
  the fused ranking is characterised by the two rankings it is made of.
\<close>

section \<open>Errors\<close>

datatype search_error =
  ErrEmbedder string
| ErrEmbedAttempts nat "search_error option"
| ErrEmbedDocuments search_error
| ErrCountMismatch nat nat
| ErrEmbedQuery search_error
| ErrNoVectors
| ErrAddVectorPartition search_error
| PanicIndexOutOfRange

type_synonym 'w embedder = "string list \<Rightarrow> 'w \<Rightarrow> (search_error + real list list) \<times> 'w"

section \<open>The HTTP embedder\<close>

datatype embed_reply =
  SendFailed string
| Response int string

text \<open>One exchange: \<open>post\<close> sends the body and returns the status and the body of the answer, \<open>decode\<close> is
  the JSON decoding of the answer.\<close>

definition doEmbed ::
  "(string list \<Rightarrow> 'w \<Rightarrow> embed_reply \<times> 'w) \<Rightarrow> (string \<Rightarrow> string + real list list) \<Rightarrow> 'w embedder" where
  "doEmbed post decode texts w =
    (case post texts w of
       (SendFailed e, w') \<Rightarrow> (Inl (ErrEmbedder (''send request: '' @ e)), w')
     | (Response status body, w') \<Rightarrow>
         if status \<noteq> 200 then (Inl (ErrEmbedder (''embed returned status '' @ Itoa status @ '': '' @ take 512 body)), w')
         else (case decode body of
                 Inl e \<Rightarrow> (Inl (ErrEmbedder (''decode embed response: '' @ e)), w')
               | Inr embeddings \<Rightarrow> (Inr embeddings, w')))"

definition maxRetries :: nat where
  "maxRetries = 2"

text \<open>The loop over the attempts; \<open>pause\<close> waits for the given number of milliseconds and reports the
  error of the context when it ends first.\<close>

fun embed_attempts ::
  "(nat \<Rightarrow> 'w \<Rightarrow> search_error option \<times> 'w) \<Rightarrow> 'w embedder \<Rightarrow> string list \<Rightarrow> nat list \<Rightarrow> search_error option \<Rightarrow> 'w
   \<Rightarrow> (search_error + real list list) \<times> 'w" where
  "embed_attempts pause once texts [] lastErr w =
    (Inl (ErrEmbedAttempts (maxRetries + 1) lastErr), w)"
| "embed_attempts pause once texts (attempt # rest) lastErr w =
    (let (stop, w1) = (if attempt > 0 then pause (attempt * 100) w else (None, w))
     in case stop of
          Some e \<Rightarrow> (Inl e, w1)
        | None \<Rightarrow>
            (case once texts w1 of
               (Inr result, w2) \<Rightarrow> (Inr result, w2)
             | (Inl e, w2) \<Rightarrow> embed_attempts pause once texts rest (Some e) w2))"

definition HTTP_Embed ::
  "(nat \<Rightarrow> 'w \<Rightarrow> search_error option \<times> 'w) \<Rightarrow> (string list \<Rightarrow> 'w \<Rightarrow> embed_reply \<times> 'w)
   \<Rightarrow> (string \<Rightarrow> string + real list list) \<Rightarrow> 'w embedder" where
  "HTTP_Embed pause post decode texts w =
    (if texts = [] then (Inr [], w)
     else embed_attempts pause (doEmbed post decode) texts [0..<maxRetries + 1] None w)"

section \<open>Mean pooling\<close>

definition hiddenSize :: nat where
  "hiddenSize = 384"

text \<open>The weighted sum of the token vectors of one sentence, \<open>width\<close> components each, divided by the
  weights and scaled to length one.\<close>

definition pool_sum :: "nat \<Rightarrow> real list \<Rightarrow> int list \<Rightarrow> nat \<Rightarrow> nat \<Rightarrow> real list" where
  "pool_sum width hidden maskv seqLen b =
    foldl (\<lambda>vec t. map (\<lambda>h. vec ! h + hidden ! ((b * seqLen + t) * width + h) * of_int (maskv ! (b * seqLen + t)))
                     [0..<width])
      (replicate width 0) [0..<seqLen]"

definition pool_mean :: "nat \<Rightarrow> real list \<Rightarrow> int list \<Rightarrow> nat \<Rightarrow> nat \<Rightarrow> real list" where
  "pool_mean width hidden maskv seqLen b =
    (let vec = pool_sum width hidden maskv seqLen b;
         maskSum = foldl (\<lambda>s t. s + of_int (maskv ! (b * seqLen + t))) 0 [0..<seqLen]
     in if maskSum > 0 then map (\<lambda>v. v / maskSum) vec else vec)"

definition normalize :: "real list \<Rightarrow> real list" where
  "normalize vec =
    (let norm = foldl (\<lambda>s v. s + v * v) 0 vec
     in if norm > 0 then map (\<lambda>v. v * (1 / sqrt norm)) vec else vec)"

definition meanPool :: "nat \<Rightarrow> real list \<Rightarrow> int list \<Rightarrow> nat \<Rightarrow> nat \<Rightarrow> string + real list list" where
  "meanPool width hidden maskv batchSize seqLen =
    (let expected = batchSize * seqLen * width
     in if length hidden \<noteq> expected
        then Inl (''output size mismatch: got '' @ Itoa (int (length hidden)) @ '', want '' @ Itoa (int expected))
        else Inr (map (\<lambda>b. normalize (pool_mean width hidden maskv seqLen b)) [0..<batchSize]))"

section \<open>The embedding cache\<close>

record EmbeddingCache =
  ec_entries :: "(string, real list) gomap"
  ec_order :: "string list"
  ec_maxSize :: int

definition NewEmbeddingCache :: "int \<Rightarrow> EmbeddingCache" where
  "NewEmbeddingCache maxSize = \<lparr>ec_entries = [], ec_order = [], ec_maxSize = (if maxSize \<le> 0 then 0 else maxSize)\<rparr>"

definition moveToEndLocked :: "string \<Rightarrow> EmbeddingCache \<Rightarrow> EmbeddingCache" where
  "moveToEndLocked key c =
    (if key \<in> set (ec_order c) then c\<lparr>ec_order := remove1 key (ec_order c) @ [key]\<rparr> else c)"

definition evictLocked :: "EmbeddingCache \<Rightarrow> EmbeddingCache" where
  "evictLocked c =
    (case ec_order c of
       [] \<Rightarrow> c
     | oldest # rest \<Rightarrow> c\<lparr>ec_order := rest, ec_entries := mdel oldest (ec_entries c)\<rparr>)"

definition Embedding_Get :: "string \<Rightarrow> EmbeddingCache \<Rightarrow> real list option \<times> EmbeddingCache" where
  "Embedding_Get key c =
    (case map_of (ec_entries c) key of
       None \<Rightarrow> (None, c)
     | Some e \<Rightarrow> (Some e, moveToEndLocked key c))"

definition Embedding_Set :: "string \<Rightarrow> real list \<Rightarrow> EmbeddingCache \<Rightarrow> EmbeddingCache" where
  "Embedding_Set key embedding c =
    (if map_of (ec_entries c) key \<noteq> None
     then moveToEndLocked key (c\<lparr>ec_entries := mput key embedding (ec_entries c)\<rparr>)
     else
       let c1 = (if ec_maxSize c > 0 \<and> int (length (ec_entries c)) \<ge> ec_maxSize c then evictLocked c else c)
       in c1\<lparr>ec_entries := mput key embedding (ec_entries c1), ec_order := ec_order c1 @ [key]\<rparr>)"

definition Embedding_Len :: "EmbeddingCache \<Rightarrow> nat" where
  "Embedding_Len c = length (ec_entries c)"

text \<open>\<open>digest\<close> is the hexadecimal SHA-256.\<close>

definition ContentHash :: "(string \<Rightarrow> string) \<Rightarrow> string \<Rightarrow> string \<Rightarrow> string" where
  "ContentHash digest name description = digest (name @ [CHR 0x00] @ description)"

section \<open>The vector engine\<close>

record vectorPartition =
  vp_serverID :: string
  vp_docs :: "Document list"
  vp_embeddings :: "real list list"

record 'w VectorEngine =
  ve_partitions :: "(string, vectorPartition) gomap"
  ve_embedder :: 'w
  ve_cache :: "EmbeddingCache option"
  ve_docs :: "Document list"
  ve_embeddings :: "real list list"

definition NewVectorEngine :: "'w \<Rightarrow> 'w VectorEngine" where
  "NewVectorEngine embedder =
    \<lparr>ve_partitions = [], ve_embedder = embedder, ve_cache = None, ve_docs = [], ve_embeddings = []\<rparr>"

definition SetEmbeddingCache :: "EmbeddingCache option \<Rightarrow> 'w VectorEngine \<Rightarrow> 'w VectorEngine" where
  "SetEmbeddingCache cache e = e\<lparr>ve_cache := cache\<rparr>"

fun join_with :: "string \<Rightarrow> string list \<Rightarrow> string" where
  "join_with sep [] = []"
| "join_with sep [s] = s"
| "join_with sep (s # ss) = s @ sep @ join_with sep ss"

definition buildEmbedText :: "Document \<Rightarrow> string" where
  "buildEmbedText doc =
    join_with ''. ''
      ((if doc_Name doc \<noteq> ''''
        then [map (\<lambda>c. if c = CHR ''.'' \<or> c = CHR ''_'' then CHR '' '' else c) (doc_Name doc)] else [])
       @ (if doc_Title doc \<noteq> '''' then [doc_Title doc] else [])
       @ (if doc_Description doc \<noteq> '''' then [doc_Description doc] else [])
       @ (if doc_Tags doc \<noteq> [] then [join_with '' '' (doc_Tags doc)] else []))"

definition dot :: "real list \<Rightarrow> real list \<Rightarrow> real" where
  "dot a b = foldl (\<lambda>s (x, y). s + x * y) 0 (zip a b)"

definition cosineSimilarity :: "real list \<Rightarrow> real list \<Rightarrow> real" where
  "cosineSimilarity a b =
    (if length a \<noteq> length b \<or> a = [] then 0
     else
       let denom = sqrt (dot a a) * sqrt (dot b b)
       in if denom = 0 then 0 else dot a b / denom)"

definition rebuildFlatLocked :: "'w VectorEngine \<Rightarrow> 'w VectorEngine" where
  "rebuildFlatLocked e =
    e\<lparr>ve_docs := concat (map (vp_docs \<circ> snd) (ve_partitions e)),
      ve_embeddings := concat (map (vp_embeddings \<circ> snd) (ve_partitions e))\<rparr>"

definition Vector_Index ::
  "'w embedder \<Rightarrow> Document list \<Rightarrow> 'w VectorEngine \<Rightarrow> search_error option \<times> 'w VectorEngine" where
  "Vector_Index embedding_of docs e =
    (if docs = [] then (None, e\<lparr>ve_docs := [], ve_embeddings := [], ve_partitions := []\<rparr>)
     else
       case embedding_of (map buildEmbedText docs) (ve_embedder e) of
         (Inl err, w) \<Rightarrow> (Some (ErrEmbedDocuments err), e\<lparr>ve_embedder := w\<rparr>)
       | (Inr embeddings, w) \<Rightarrow>
           if length embeddings \<noteq> length docs
           then (Some (ErrCountMismatch (length embeddings) (length docs)), e\<lparr>ve_embedder := w\<rparr>)
           else (None, e\<lparr>ve_embedder := w, ve_docs := docs, ve_embeddings := embeddings,
                         ve_partitions := [(defaultPartitionID,
                           \<lparr>vp_serverID = defaultPartitionID, vp_docs = docs, vp_embeddings = embeddings\<rparr>)]\<rparr>))"

text \<open>The similar documents of one partition; indexing the documents past their end panics.\<close>

fun similar_docs :: "real list \<Rightarrow> Document list \<Rightarrow> real list list \<Rightarrow> ScoredResult list option" where
  "similar_docs qVec docs [] = Some []"
| "similar_docs qVec [] (emb # embs) =
    (if cosineSimilarity qVec emb > 0 then None else similar_docs qVec [] embs)"
| "similar_docs qVec (doc # docs) (emb # embs) =
    (let sim = cosineSimilarity qVec emb
     in map_option (\<lambda>rs. if sim > 0 then \<lparr>sc_Key = doc_Key doc, sc_Score = sim\<rparr> # rs else rs)
          (similar_docs qVec docs embs))"

fun similar_all :: "real list \<Rightarrow> (string, vectorPartition) gomap \<Rightarrow> ScoredResult list option" where
  "similar_all qVec [] = Some []"
| "similar_all qVec ((pid, p) # ps) =
    (case similar_docs qVec (vp_docs p) (vp_embeddings p) of
       None \<Rightarrow> None
     | Some rs \<Rightarrow> map_option ((@) rs) (similar_all qVec ps))"

definition Vector_Search ::
  "'w embedder \<Rightarrow> string \<Rightarrow> int \<Rightarrow> 'w VectorEngine \<Rightarrow> (search_error + ScoredResult list) \<times> 'w VectorEngine" where
  "Vector_Search embedding_of query limit e =
    (if TrimSpace query = '''' then (Inr [], e)
     else if ve_partitions e = [] then (Inr [], e)
     else
       case embedding_of [query] (ve_embedder e) of
         (Inl err, w) \<Rightarrow> (Inl (ErrEmbedQuery err), e\<lparr>ve_embedder := w\<rparr>)
       | (Inr [], w) \<Rightarrow> (Inl ErrNoVectors, e\<lparr>ve_embedder := w\<rparr>)
       | (Inr (qVec # rest), w) \<Rightarrow>
           (case similar_all qVec (ve_partitions e) of
              None \<Rightarrow> (Inl PanicIndexOutOfRange, e\<lparr>ve_embedder := w\<rparr>)
            | Some results \<Rightarrow> (Inr (take_limit limit (by_rank results)), e\<lparr>ve_embedder := w\<rparr>)))"

definition Vector_RemovePartition :: "string \<Rightarrow> 'w VectorEngine \<Rightarrow> 'w VectorEngine" where
  "Vector_RemovePartition serverID e =
    rebuildFlatLocked (e\<lparr>ve_partitions := mdel serverID (ve_partitions e)\<rparr>)"

text \<open>The first pass of \<open>embedWithCache\<close> looks every document up; the second stores the fresh vectors.\<close>

fun cached_embeddings ::
  "(string \<Rightarrow> string) \<Rightarrow> Document list \<Rightarrow> EmbeddingCache \<Rightarrow> real list option list \<times> EmbeddingCache" where
  "cached_embeddings digest [] c = ([], c)"
| "cached_embeddings digest (doc # docs) c =
    (let (hit, c1) = Embedding_Get (ContentHash digest (doc_Name doc) (doc_Description doc)) c;
         (hits, c2) = cached_embeddings digest docs c1
     in (hit # hits, c2))"

fun fill_missing ::
  "(string \<Rightarrow> string) \<Rightarrow> Document list \<Rightarrow> real list option list \<Rightarrow> real list list \<Rightarrow> EmbeddingCache
   \<Rightarrow> real list list \<times> EmbeddingCache" where
  "fill_missing digest (doc # docs) (Some emb # hits) fresh c =
    (let (embs, c1) = fill_missing digest docs hits fresh c in (emb # embs, c1))"
| "fill_missing digest (doc # docs) (None # hits) (f # fresh) c =
    (let c1 = Embedding_Set (ContentHash digest (doc_Name doc) (doc_Description doc)) f c;
         (embs, c2) = fill_missing digest docs hits fresh c1
     in (f # embs, c2))"
| "fill_missing digest docs hits fresh c = ([], c)"

definition embedWithCache ::
  "'w embedder \<Rightarrow> (string \<Rightarrow> string) \<Rightarrow> Document list \<Rightarrow> 'w VectorEngine
   \<Rightarrow> (search_error + real list list) \<times> 'w VectorEngine" where
  "embedWithCache embedding_of digest docs e =
    (case ve_cache e of
       None \<Rightarrow> (let (r, w) = embedding_of (map buildEmbedText docs) (ve_embedder e) in (r, e\<lparr>ve_embedder := w\<rparr>))
     | Some cache \<Rightarrow>
         (let (hits, cache1) = cached_embeddings digest docs cache;
              needEmbed = map fst (filter (\<lambda>(doc, hit). hit = None) (zip docs hits));
              e1 = e\<lparr>ve_cache := Some cache1\<rparr>
          in if needEmbed = [] then (Inr (map the hits), e1)
             else
               case embedding_of (map buildEmbedText needEmbed) (ve_embedder e1) of
                 (Inl err, w) \<Rightarrow> (Inl err, e1\<lparr>ve_embedder := w\<rparr>)
               | (Inr fresh, w) \<Rightarrow>
                   if length fresh \<noteq> length needEmbed
                   then (Inl (ErrCountMismatch (length fresh) (length needEmbed)), e1\<lparr>ve_embedder := w\<rparr>)
                   else (let (result, cache2) = fill_missing digest docs hits fresh cache1
                         in (Inr result, e1\<lparr>ve_embedder := w, ve_cache := Some cache2\<rparr>))))"

definition Vector_AddPartition ::
  "'w embedder \<Rightarrow> (string \<Rightarrow> string) \<Rightarrow> string \<Rightarrow> Document list \<Rightarrow> 'w VectorEngine
   \<Rightarrow> search_error option \<times> 'w VectorEngine" where
  "Vector_AddPartition embedding_of digest serverID docs e =
    (if docs = [] then (None, Vector_RemovePartition serverID e)
     else
       case embedWithCache embedding_of digest docs e of
         (Inl err, e1) \<Rightarrow> (Some (ErrAddVectorPartition err), e1)
       | (Inr embeddings, e1) \<Rightarrow>
           (None, rebuildFlatLocked (e1\<lparr>ve_partitions := mput serverID
              \<lparr>vp_serverID = serverID, vp_docs = docs, vp_embeddings = embeddings\<rparr> (ve_partitions e1)\<rparr>)))"

definition key_index :: "string \<Rightarrow> Document list \<Rightarrow> nat option" where
  "key_index key docs = find (\<lambda>i. doc_Key (docs ! i) = key) [0..<length docs]"

definition drop_nth :: "nat \<Rightarrow> 'a list \<Rightarrow> 'a list" where
  "drop_nth i xs = take i xs @ drop (Suc i) xs"

fun vector_remove :: "string \<Rightarrow> (string, vectorPartition) gomap \<Rightarrow> (string, vectorPartition) gomap option" where
  "vector_remove key [] = None"
| "vector_remove key ((pid, p) # ps) =
    (case key_index key (vp_docs p) of
       None \<Rightarrow> map_option ((#) (pid, p)) (vector_remove key ps)
     | Some idx \<Rightarrow>
         (let docs = drop_nth idx (vp_docs p)
          in Some (if docs = [] then ps
                   else (pid, p\<lparr>vp_docs := docs, vp_embeddings := drop_nth idx (vp_embeddings p)\<rparr>) # ps)))"

definition Vector_Remove :: "string \<Rightarrow> 'w VectorEngine \<Rightarrow> 'w VectorEngine" where
  "Vector_Remove key e =
    (case vector_remove key (ve_partitions e) of
       None \<Rightarrow> e
     | Some ps \<Rightarrow> rebuildFlatLocked (e\<lparr>ve_partitions := ps\<rparr>))"

section \<open>The hybrid engine\<close>

record 'w HybridEngine =
  he_bm25 :: BM25Engine
  he_vector :: "'w VectorEngine"
  he_vectorSearchFallbacks :: "64 word"
  he_vectorIndexFallbacks :: "64 word"

definition NewHybridEngine :: "BM25Engine \<Rightarrow> 'w VectorEngine \<Rightarrow> 'w HybridEngine" where
  "NewHybridEngine bm25 vector =
    \<lparr>he_bm25 = bm25, he_vector = vector, he_vectorSearchFallbacks = 0, he_vectorIndexFallbacks = 0\<rparr>"

definition Hybrid_Index ::
  "'w embedder \<Rightarrow> Document list \<Rightarrow> 'w HybridEngine \<Rightarrow> search_error option \<times> 'w HybridEngine" where
  "Hybrid_Index embedding_of docs e =
    (let e1 = e\<lparr>he_bm25 := BM25_Index docs (he_bm25 e)\<rparr>
     in case Vector_Index embedding_of docs (he_vector e1) of
          (Some err, v) \<Rightarrow>
            (None, e1\<lparr>he_vector := v, he_vectorIndexFallbacks := he_vectorIndexFallbacks e1 + 1\<rparr>)
        | (None, v) \<Rightarrow> (None, e1\<lparr>he_vector := v\<rparr>))"

definition rrfK :: nat where
  "rrfK = 60"

fun add_ranks :: "nat \<Rightarrow> ScoredResult list \<Rightarrow> (string, real) gomap \<Rightarrow> (string, real) gomap" where
  "add_ranks rank [] scores = scores"
| "add_ranks rank (r # rs) scores =
    add_ranks (Suc rank) rs
      (mput (sc_Key r) ((case map_of scores (sc_Key r) of None \<Rightarrow> 0 | Some v \<Rightarrow> v) + 1 / real (rrfK + rank + 1)) scores)"

definition fuseRRF :: "ScoredResult list \<Rightarrow> ScoredResult list \<Rightarrow> ScoredResult list" where
  "fuseRRF a b = by_rank (results_of (add_ranks 0 b (add_ranks 0 a [])))"

definition Hybrid_Search ::
  "'w embedder \<Rightarrow> string \<Rightarrow> int \<Rightarrow> 'w HybridEngine \<Rightarrow> (search_error + ScoredResult list) \<times> 'w HybridEngine" where
  "Hybrid_Search embedding_of query limit e =
    (let bm25Results = BM25_Search query 0 (he_bm25 e);
         (vectorAnswer, v) = Vector_Search embedding_of query 0 (he_vector e);
         e1 = e\<lparr>he_vector := v\<rparr>
     in case vectorAnswer of
          Inl err \<Rightarrow>
            if err = PanicIndexOutOfRange then (Inl err, e1)
            else (Inr (take_limit limit bm25Results),
                  e1\<lparr>he_vectorSearchFallbacks := he_vectorSearchFallbacks e1 + 1\<rparr>)
        | Inr vectorResults \<Rightarrow>
            (let fused = fuseRRF bm25Results vectorResults
             in if fused = [] then (Inr [], e1) else (Inr (take_limit limit fused), e1)))"

definition Hybrid_Remove :: "string \<Rightarrow> 'w HybridEngine \<Rightarrow> 'w HybridEngine" where
  "Hybrid_Remove key e = e\<lparr>he_bm25 := BM25_Remove key (he_bm25 e), he_vector := Vector_Remove key (he_vector e)\<rparr>"

definition Hybrid_UpdatePartition ::
  "'w embedder \<Rightarrow> (string \<Rightarrow> string) \<Rightarrow> string \<Rightarrow> Document list \<Rightarrow> 'w HybridEngine
   \<Rightarrow> search_error option \<times> 'w HybridEngine" where
  "Hybrid_UpdatePartition embedding_of digest serverID docs e =
    (let e1 = e\<lparr>he_bm25 := BM25_AddPartition serverID docs (he_bm25 e)\<rparr>
     in case Vector_AddPartition embedding_of digest serverID docs (he_vector e1) of
          (Some err, v) \<Rightarrow>
            (None, e1\<lparr>he_vector := v, he_vectorIndexFallbacks := he_vectorIndexFallbacks e1 + 1\<rparr>)
        | (None, v) \<Rightarrow> (None, e1\<lparr>he_vector := v\<rparr>))"

definition Hybrid_RemovePartition :: "string \<Rightarrow> 'w HybridEngine \<Rightarrow> 'w HybridEngine" where
  "Hybrid_RemovePartition serverID e =
    e\<lparr>he_bm25 := BM25_RemovePartition serverID (he_bm25 e),
      he_vector := Vector_RemovePartition serverID (he_vector e)\<rparr>"

section \<open>The cache keeps the most recently used entries\<close>

definition cache_ok :: "EmbeddingCache \<Rightarrow> bool" where
  "cache_ok c =
    (wf_map (ec_entries c) \<and> distinct (ec_order c) \<and> set (ec_order c) = dom (map_of (ec_entries c))
     \<and> 0 \<le> ec_maxSize c \<and> (0 < ec_maxSize c \<longrightarrow> int (length (ec_entries c)) \<le> ec_maxSize c))"

text \<open>The specification: a list of entries, the most recently used one last, of which at most \<open>n\<close> are
  kept when \<open>n\<close> is positive.\<close>

type_synonym lru = "(string \<times> real list) list"

definition lru_touch :: "string \<Rightarrow> real list \<Rightarrow> lru \<Rightarrow> lru" where
  "lru_touch k v r = filter (\<lambda>e. fst e \<noteq> k) r @ [(k, v)]"

definition lru_get :: "string \<Rightarrow> lru \<Rightarrow> real list option \<times> lru" where
  "lru_get k r = (case map_of r k of None \<Rightarrow> (None, r) | Some v \<Rightarrow> (Some v, lru_touch k v r))"

definition lru_set :: "nat \<Rightarrow> string \<Rightarrow> real list \<Rightarrow> lru \<Rightarrow> lru" where
  "lru_set n k v r = (let r' = lru_touch k v r in if 0 < n then drop (length r' - n) r' else r')"

definition recent :: "EmbeddingCache \<Rightarrow> lru" where
  "recent c = map (\<lambda>k. (k, the (map_of (ec_entries c) k))) (ec_order c)"

lemma map_of_recent:
  assumes "cache_ok c"
  shows "map_of (recent c) = map_of (ec_entries c)"
proof (rule ext)
  fix k
  show "map_of (recent c) k = map_of (ec_entries c) k"
  proof (cases "map_of (ec_entries c) k")
    case None
    then have "k \<notin> set (ec_order c)" using assms by (metis cache_ok_def domIff)
    then show ?thesis using None by (simp add: recent_def map_of_map_restrict)
  next
    case (Some v)
    then have "k \<in> set (ec_order c)" using assms by (metis cache_ok_def domI)
    then show ?thesis using Some by (simp add: recent_def map_of_map_restrict)
  qed
qed

lemma length_recent: "cache_ok c \<Longrightarrow> length (recent c) = length (ec_entries c)"
proof -
  assume c: "cache_ok c"
  then have "length (ec_order c) = card (dom (map_of (ec_entries c)))" by (auto simp: cache_ok_def distinct_card [symmetric])
  also have "\<dots> = length (ec_entries c)"
    using c by (simp add: cache_ok_def dom_map_of_conv_image_fst distinct_card flip: set_map)
  finally show ?thesis by (simp add: recent_def)
qed

lemma remove1_filter: "distinct xs \<Longrightarrow> remove1 k xs = filter (\<lambda>x. x \<noteq> k) xs"
  by (induction xs) (auto intro!: filter_True [symmetric])

lemma recent_touch:
  assumes "cache_ok c" "map_of (ec_entries c) k = Some v"
  shows "recent (moveToEndLocked k c) = lru_touch k v (recent c)"
proof -
  have "k \<in> set (ec_order c)" "distinct (ec_order c)" using assms by (metis cache_ok_def domI) (metis assms(1) cache_ok_def)
  then show ?thesis
    using assms(2) by (simp add: recent_def lru_touch_def moveToEndLocked_def remove1_filter filter_map comp_def)
qed

lemma moveToEnd_ok: "cache_ok c \<Longrightarrow> cache_ok (moveToEndLocked k c)"
  by (auto simp: cache_ok_def moveToEndLocked_def)

lemma cache_get:
  assumes "cache_ok c"
  shows "cache_ok (snd (Embedding_Get k c))" "ec_maxSize (snd (Embedding_Get k c)) = ec_maxSize c"
    "fst (Embedding_Get k c) = fst (lru_get k (recent c))" "recent (snd (Embedding_Get k c)) = snd (lru_get k (recent c))"
proof -
  show "cache_ok (snd (Embedding_Get k c))"
    using assms by (simp add: Embedding_Get_def moveToEnd_ok split: option.split)
  show "ec_maxSize (snd (Embedding_Get k c)) = ec_maxSize c"
    by (simp add: Embedding_Get_def moveToEndLocked_def split: option.split)
  show "fst (Embedding_Get k c) = fst (lru_get k (recent c))"
    by (simp add: Embedding_Get_def lru_get_def map_of_recent [OF assms] split: option.split)
  show "recent (snd (Embedding_Get k c)) = snd (lru_get k (recent c))"
    by (cases "map_of (ec_entries c) k")
      (simp_all add: Embedding_Get_def lru_get_def map_of_recent [OF assms] recent_touch [OF assms] del: map_of_eq_Some_iff)
qed

text \<open>Storing a value under a new key appends it; eviction drops the head of the list.\<close>

lemma recent_cong:
  "ec_order c = ec_order d \<Longrightarrow> (\<And>k. k \<in> set (ec_order c) \<Longrightarrow> map_of (ec_entries c) k = map_of (ec_entries d) k)
   \<Longrightarrow> recent c = recent d"
  by (simp add: recent_def)

lemma cache_set_old:
  assumes "cache_ok c" "map_of (ec_entries c) k = Some u"
  shows "cache_ok (Embedding_Set k v c)" "recent (Embedding_Set k v c) = lru_touch k v (recent c)"
proof -
  let ?c = "c\<lparr>ec_entries := mput k v (ec_entries c)\<rparr>"
  have len: "length (mput k v (ec_entries c)) = length (ec_entries c)"
  proof -
    have "length (mput k v m) = length m" if "map_of m k = Some u" for m :: "(string, real list) gomap"
      using that by (induction m) (auto split: if_splits)
    then show ?thesis using assms(2) by simp
  qed
  have ok: "cache_ok ?c"
    using assms(1) len domI [of "map_of (ec_entries c)", OF assms(2)] by (auto simp: cache_ok_def dom_mput insert_absorb)
  then show "cache_ok (Embedding_Set k v c)"
    using assms(2) by (simp add: Embedding_Set_def moveToEnd_ok)
  have "filter (\<lambda>e. fst e \<noteq> k) (recent ?c) = filter (\<lambda>e. fst e \<noteq> k) (recent c)"
    by (simp add: recent_def filter_map comp_def)
  then have "lru_touch k v (recent ?c) = lru_touch k v (recent c)" by (simp add: lru_touch_def)
  then show "recent (Embedding_Set k v c) = lru_touch k v (recent c)"
    using recent_touch [OF ok, of k v] assms(2) by (simp add: Embedding_Set_def)
qed

lemma evict:
  assumes "cache_ok c"
  shows "recent (evictLocked c) = drop 1 (recent c)"
    "length (ec_entries c) > 0 \<Longrightarrow> length (ec_entries (evictLocked c)) < length (ec_entries c)"
    "cache_ok (evictLocked c)" "ec_maxSize (evictLocked c) = ec_maxSize c"
    "map_of (ec_entries c) k = None \<Longrightarrow> map_of (ec_entries (evictLocked c)) k = None"
proof -
  have len: "length (recent (evictLocked c)) = length (ec_entries (evictLocked c))" if "cache_ok (evictLocked c)"
    using length_recent [OF that] .
  show rec: "recent (evictLocked c) = drop 1 (recent c)"
    using assms by (cases "ec_order c") (auto simp: evictLocked_def recent_def cache_ok_def)
  have dom: "set (ec_order (evictLocked c)) = dom (map_of (ec_entries (evictLocked c)))"
    using assms by (cases "ec_order c") (auto simp: evictLocked_def cache_ok_def dom_mdel simp flip: dom_map_of_conv_image_fst)
  have le: "int (length m) \<le> n \<Longrightarrow> int (length (mdel x m)) \<le> n" for x n and m :: "(string, real list) gomap"
    by (simp add: AList.delete_eq) (metis length_filter_le of_nat_le_iff order_trans)
  show ok: "cache_ok (evictLocked c)"
    using assms dom by (cases "ec_order c") (auto simp: evictLocked_def cache_ok_def intro: le)
  show "length (ec_entries c) > 0 \<Longrightarrow> length (ec_entries (evictLocked c)) < length (ec_entries c)"
    using len [OF ok] rec length_recent [OF assms] by (cases "ec_entries c") auto
  show "ec_maxSize (evictLocked c) = ec_maxSize c"
    by (simp add: evictLocked_def split: list.split)
  show "map_of (ec_entries c) k = None \<Longrightarrow> map_of (ec_entries (evictLocked c)) k = None"
    by (simp add: evictLocked_def split: list.split)
qed

lemma cache_append:
  fixes v :: "real list"
  assumes "cache_ok c" "map_of (ec_entries c) k = None" "0 < ec_maxSize c \<Longrightarrow> int (length (ec_entries c)) < ec_maxSize c"
  defines "d \<equiv> c\<lparr>ec_entries := mput k v (ec_entries c), ec_order := ec_order c @ [k]\<rparr>"
  shows "cache_ok d" "recent d = recent c @ [(k, v)]"
proof -
  have fresh: "k \<notin> set (ec_order c)" using assms(1,2) by (metis cache_ok_def domIff)
  have "length (mput k v m) = Suc (length m)" if "map_of m k = None" for m :: "(string, real list) gomap"
    using that by (induction m) (auto split: if_splits)
  then have "length (mput k v (ec_entries c)) = Suc (length (ec_entries c))" using assms(2) by simp
  then show "cache_ok d"
    using assms(1,3) fresh by (auto simp: cache_ok_def d_def dom_mput)
  show "recent d = recent c @ [(k, v)]"
    using fresh by (auto simp: recent_def d_def)
qed

lemma cache_set_new:
  assumes "cache_ok c" "map_of (ec_entries c) k = None"
  shows "cache_ok (Embedding_Set k v c)" "recent (Embedding_Set k v c) = lru_set (nat (ec_maxSize c)) k v (recent c)"
proof -
  let ?full = "ec_maxSize c > 0 \<and> int (length (ec_entries c)) \<ge> ec_maxSize c"
  define c1 where "c1 = (if ?full then evictLocked c else c)"
  have set: "Embedding_Set k v c = c1\<lparr>ec_entries := mput k v (ec_entries c1), ec_order := ec_order c1 @ [k]\<rparr>"
    using assms(2) by (simp add: Embedding_Set_def c1_def Let_def)
  have c1: "cache_ok c1" "map_of (ec_entries c1) k = None" "ec_maxSize c1 = ec_maxSize c"
    using assms evict [OF assms(1)] by (simp_all add: c1_def)
  have room: "int (length (ec_entries c1)) < ec_maxSize c1" if "0 < ec_maxSize c1"
    using that evict(2,4) [OF assms(1)] assms(1)
    by (cases "ec_entries c = []") (auto simp: c1_def cache_ok_def split: if_splits)
  note app = cache_append [OF c1(1,2) room, of v]
  show "cache_ok (Embedding_Set k v c)" unfolding set by (rule app(1))
  have "k \<notin> fst ` set (recent c)"
    using assms map_of_recent [OF assms(1)] by (metis map_of_eq_None_iff)
  then have "filter (\<lambda>e. fst e \<noteq> k) (recent c) = recent c" by (auto simp: filter_id_conv)
  then have touch: "lru_touch k v (recent c) = recent c @ [(k, v)]" by (simp add: lru_touch_def)
  have "recent (Embedding_Set k v c) = recent c1 @ [(k, v)]" unfolding set by (rule app(2))
  also have "\<dots> = lru_set (nat (ec_maxSize c)) k v (recent c)"
  proof (cases ?full)
    case True
    then have "length (recent c) = nat (ec_maxSize c)"
      using assms(1) length_recent [OF assms(1)] by (auto simp: cache_ok_def)
    moreover from this have "lru_set (nat (ec_maxSize c)) k v (recent c) = drop 1 (recent c @ [(k, v)])"
      using True by (simp add: lru_set_def touch)
    moreover have "recent c \<noteq> []" using True calculation by auto
    ultimately show ?thesis
      using True evict(1) [OF assms(1)] by (cases "recent c") (simp_all add: c1_def)
  next
    case False
    then show ?thesis
      using length_recent [OF assms(1)] by (auto simp: c1_def lru_set_def touch Let_def)
  qed
  finally show "recent (Embedding_Set k v c) = lru_set (nat (ec_maxSize c)) k v (recent c)" .
qed

lemma lru_touch_length: "distinct (map fst r) \<Longrightarrow> map_of r k = Some u \<Longrightarrow> length (lru_touch k v r) = length r"
proof -
  assume r: "distinct (map fst r)" "map_of r k = Some u"
  have "length (filter (\<lambda>e. fst e \<noteq> k) r) + 1 = length r"
    using r
  proof (induction r)
    case (Cons e r)
    have "filter (\<lambda>x. fst x \<noteq> fst e) r = r" using Cons.prems(1) by (auto simp: filter_id_conv image_iff)
    then show ?case using Cons by (cases "fst e = k") (auto split: if_splits)
  qed simp
  then show ?thesis by (simp add: lru_touch_def)
qed

lemma cache_set:
  assumes "cache_ok c"
  shows "cache_ok (Embedding_Set k v c)" "ec_maxSize (Embedding_Set k v c) = ec_maxSize c"
    "recent (Embedding_Set k v c) = lru_set (nat (ec_maxSize c)) k v (recent c)"
proof -
  show "cache_ok (Embedding_Set k v c)"
    using cache_set_new(1) [OF assms, of k v] cache_set_old(1) [OF assms, of k _ v]
    by (cases "map_of (ec_entries c) k") auto
  show "ec_maxSize (Embedding_Set k v c) = ec_maxSize c"
    using evict(4) [OF assms] by (simp add: Embedding_Set_def moveToEndLocked_def Let_def)
  show "recent (Embedding_Set k v c) = lru_set (nat (ec_maxSize c)) k v (recent c)"
  proof (cases "map_of (ec_entries c) k")
    case (Some u)
    have "distinct (map fst (recent c))" using assms by (simp add: recent_def cache_ok_def comp_def)
    then have "length (lru_touch k v (recent c)) = length (ec_entries c)"
      using lru_touch_length [of "recent c" k u v] Some map_of_recent [OF assms] length_recent [OF assms] by simp
    then show ?thesis
      using assms cache_set_old(2) [OF assms Some, of v] by (auto simp: lru_set_def Let_def cache_ok_def)
  qed (rule cache_set_new(2) [OF assms])
qed

datatype cache_op = GetOp string | SetOp string "real list"

fun cache_run :: "cache_op list \<Rightarrow> EmbeddingCache \<Rightarrow> real list option list \<times> EmbeddingCache" where
  "cache_run [] c = ([], c)"
| "cache_run (GetOp k # ops) c =
    (let (v, c1) = Embedding_Get k c; (vs, c2) = cache_run ops c1 in (v # vs, c2))"
| "cache_run (SetOp k v # ops) c = cache_run ops (Embedding_Set k v c)"

fun lru_run :: "nat \<Rightarrow> cache_op list \<Rightarrow> lru \<Rightarrow> real list option list \<times> lru" where
  "lru_run n [] r = ([], r)"
| "lru_run n (GetOp k # ops) r =
    (let (v, r1) = lru_get k r; (vs, r2) = lru_run n ops r1 in (v # vs, r2))"
| "lru_run n (SetOp k v # ops) r = lru_run n ops (lru_set n k v r)"

lemma cache_run_refines:
  "cache_ok c \<Longrightarrow>
   cache_ok (snd (cache_run ops c)) \<and> ec_maxSize (snd (cache_run ops c)) = ec_maxSize c
   \<and> fst (cache_run ops c) = fst (lru_run (nat (ec_maxSize c)) ops (recent c))
   \<and> recent (snd (cache_run ops c)) = snd (lru_run (nat (ec_maxSize c)) ops (recent c))"
proof (induction ops arbitrary: c)
  case (Cons op ops)
  show ?case
  proof (cases op)
    case (GetOp k)
    show ?thesis
      using Cons.IH [OF cache_get(1) [OF Cons.prems, of k]] cache_get(2-4) [OF Cons.prems, of k]
      by (simp add: GetOp Let_def split_beta)
  next
    case (SetOp k v)
    show ?thesis
      using Cons.IH [OF cache_set(1) [OF Cons.prems, of k v]] cache_set(2,3) [OF Cons.prems, of k v]
      by (simp add: SetOp)
  qed
qed simp

lemma NewEmbeddingCache_simps [simp]:
  "cache_ok (NewEmbeddingCache n)" "ec_maxSize (NewEmbeddingCache n) = max 0 n" "recent (NewEmbeddingCache n) = []"
  by (simp_all add: NewEmbeddingCache_def cache_ok_def recent_def)

text \<open>C21.  The embedding cache is a least-recently-used cache: any sequence of lookups and stores gives
  the answers of a list of entries ordered by their last use, of which the newest \<open>n\<close> are kept, and
  the cache never holds more than \<open>n\<close> entries, unless \<open>n\<close> is not positive, which disables eviction.\<close>

theorem embedding_cache_lru:
  "fst (cache_run ops (NewEmbeddingCache n)) = fst (lru_run (nat n) ops [])
   \<and> recent (snd (cache_run ops (NewEmbeddingCache n))) = snd (lru_run (nat n) ops [])
   \<and> (n \<le> 0 \<or> int (Embedding_Len (snd (cache_run ops (NewEmbeddingCache n)))) \<le> n)"
proof -
  have n: "nat (max 0 n) = nat n" by simp
  have ok: "cache_ok (snd (cache_run ops (NewEmbeddingCache n)))"
    and max: "ec_maxSize (snd (cache_run ops (NewEmbeddingCache n))) = max 0 n"
    using cache_run_refines [of "NewEmbeddingCache n" ops] by simp_all
  have "n \<le> 0 \<or> int (Embedding_Len (snd (cache_run ops (NewEmbeddingCache n)))) \<le> n"
    using ok max by (auto simp: cache_ok_def Embedding_Len_def)
  then show ?thesis
    using cache_run_refines [of "NewEmbeddingCache n" ops] by (simp add: n)
qed

section \<open>Vectors\<close>

lemma foldl_plus: "foldl (\<lambda>s x. s + f x) a xs = a + sum_list (map f xs)" for a :: real
  by (induction xs arbitrary: a) (simp_all add: algebra_simps)

lemma dot_sum: "dot a b = sum_list (map (\<lambda>(x, y). x * y) (zip a b))"
  unfolding dot_def using foldl_plus [of "\<lambda>(x, y). x * y" 0 "zip a b"] by (simp add: case_prod_beta')

lemma dot_Cons [simp]: "dot (x # xs) (y # ys) = x * y + dot xs ys" "dot [] b = 0" "dot a [] = 0"
  by (simp_all add: dot_sum)

lemma dot_self_nonneg [simp]: "0 \<le> dot a a"
  by (induction a) simp_all

lemma cauchy_schwarz: "length a = length b \<Longrightarrow> (dot a b)\<^sup>2 \<le> dot a a * dot b b"
proof (induction a b rule: list_induct2)
  case (Cons x xs y ys)
  let ?A = "dot xs xs" and ?B = "dot ys ys" and ?D = "dot xs ys"
  have "(2 * (?D * (x * y)))\<^sup>2 = 4 * (?D\<^sup>2 * (x * y)\<^sup>2)" by (simp add: power_mult_distrib)
  also have "\<dots> \<le> 4 * (?A * ?B * (x * y)\<^sup>2)"
    using Cons.IH by (intro mult_left_mono mult_right_mono) simp_all
  also have "\<dots> \<le> (x\<^sup>2 * ?B + y\<^sup>2 * ?A)\<^sup>2"
  proof -
    have "0 \<le> (x\<^sup>2 * ?B - y\<^sup>2 * ?A)\<^sup>2" by simp
    then show ?thesis by (simp add: power2_eq_square algebra_simps)
  qed
  finally have "2 * (?D * (x * y)) \<le> x\<^sup>2 * ?B + y\<^sup>2 * ?A"
    by (rule power2_le_imp_le) simp
  then show ?case using Cons.IH by (simp add: power2_eq_square algebra_simps)
qed simp

lemma cosineSimilarity_bounds: "\<bar>cosineSimilarity a b\<bar> \<le> 1"
proof (cases "length a \<noteq> length b \<or> a = [] \<or> sqrt (dot a a) * sqrt (dot b b) = 0")
  case False
  let ?d = "sqrt (dot a a) * sqrt (dot b b)"
  have pos: "0 < ?d" using False by (metis dot_self_nonneg mult_nonneg_nonneg order_le_less real_sqrt_ge_zero)
  have "(dot a b)\<^sup>2 \<le> ?d\<^sup>2" using cauchy_schwarz [of a b] False by (simp add: power_mult_distrib)
  then have "\<bar>dot a b\<bar> \<le> ?d" using pos abs_le_square_iff [of "dot a b" ?d] by simp
  then show ?thesis using False pos by (simp add: cosineSimilarity_def Let_def abs_if divide_simps split: if_splits)
qed (auto simp: cosineSimilarity_def Let_def)

lemma dot_scale: "dot (map (\<lambda>v. v * c) a) (map (\<lambda>v. v * c) a) = c\<^sup>2 * dot a a"
  by (induction a) (simp_all add: power2_eq_square algebra_simps)

lemma normalize_norm: "dot (normalize v) (normalize v) = (if dot v v = 0 then 0 else 1)"
proof -
  have "foldl (\<lambda>s x. s + x * x) 0 v = dot v v"
    using foldl_plus [of "\<lambda>x. x * x" 0 v] by (induction v) (simp_all add: foldl_plus [of "\<lambda>x. x * x"])
  then have "normalize v = (if 0 < dot v v then map (\<lambda>x. x * (1 / sqrt (dot v v))) v else v)"
    by (simp add: normalize_def Let_def)
  moreover have "0 < dot v v \<longleftrightarrow> dot v v \<noteq> 0" using dot_self_nonneg [of v] by linarith
  ultimately show ?thesis
    by (auto simp: dot_scale power_divide simp del: times_divide_eq_right mult_1_right)
qed

text \<open>The vectors of the pooling have length one, or are zero, so that their similarity is their inner
  product.\<close>

lemma meanPool_unit:
  assumes "meanPool width hidden maskv batch seqLen = Inr vs"
  shows "length vs = batch" "v \<in> set vs \<Longrightarrow> dot v v = 0 \<or> dot v v = 1"
  using assms normalize_norm by (auto simp: meanPool_def Let_def split: if_splits)

lemma cosine_unit:
  "dot a a = 1 \<Longrightarrow> dot b b = 1 \<Longrightarrow> length a = length b \<Longrightarrow> cosineSimilarity a b = dot a b"
  by (auto simp: cosineSimilarity_def)

section \<open>Fusion\<close>

text \<open>What a ranking adds to the score of a key: the sum of the reciprocal ranks at which it occurs.\<close>

fun reciprocal :: "nat \<Rightarrow> ScoredResult list \<Rightarrow> string \<Rightarrow> real" where
  "reciprocal rank [] k = 0"
| "reciprocal rank (r # rs) k = (if sc_Key r = k then 1 / real (rrfK + rank + 1) else 0) + reciprocal (Suc rank) rs k"

lemma add_ranks_score:
  "(case map_of (add_ranks rank rs m) k of None \<Rightarrow> 0 | Some v \<Rightarrow> v) =
   (case map_of m k of None \<Rightarrow> 0 | Some v \<Rightarrow> v) + reciprocal rank rs k"
  by (induction rs arbitrary: rank m) (auto split: option.split)

lemma add_ranks_dom: "dom (map_of (add_ranks rank rs m)) = dom (map_of m) \<union> sc_Key ` set rs"
  by (induction rs arbitrary: rank m) (simp_all add: dom_mput Un_commute)

lemma add_ranks_wf: "wf_map m \<Longrightarrow> wf_map (add_ranks rank rs m)"
  by (induction rs arbitrary: rank m) simp_all

lemma fuseRRF_exact:
  "sc_Key ` set (fuseRRF a b) = sc_Key ` set a \<union> sc_Key ` set b"
  "distinct (map sc_Key (fuseRRF a b))"
  "sorted_wrt ranks_before (fuseRRF a b)"
  "r \<in> set (fuseRRF a b) \<Longrightarrow> sc_Score r = reciprocal 0 a (sc_Key r) + reciprocal 0 b (sc_Key r)"
proof -
  define m where "m = add_ranks 0 b (add_ranks 0 a [])"
  have wf: "wf_map m" by (simp add: m_def add_ranks_wf)
  have fuse: "fuseRRF a b = by_rank (results_of m)" by (simp add: fuseRRF_def m_def)
  have "sc_Key ` set (results_of m) = dom (map_of m)"
    by (metis dom_map_of_conv_image_fst list.set_map results_of_keys)
  then show "sc_Key ` set (fuseRRF a b) = sc_Key ` set a \<union> sc_Key ` set b"
    unfolding fuse by (simp add: m_def add_ranks_dom)
  show "distinct (map sc_Key (fuseRRF a b))"
    unfolding fuse using wf by (intro by_rank_keys) (simp add: results_of_keys)
  show "sorted_wrt ranks_before (fuseRRF a b)" unfolding fuse by (rule by_rank_sorted)
  assume "r \<in> set (fuseRRF a b)"
  then have "(sc_Key r, sc_Score r) \<in> set m" unfolding fuse by (auto simp: results_of_def)
  then have "map_of m (sc_Key r) = Some (sc_Score r)" using wf by simp
  then show "sc_Score r = reciprocal 0 a (sc_Key r) + reciprocal 0 b (sc_Key r)"
    using add_ranks_score [of 0 b "add_ranks 0 a []" "sc_Key r"] add_ranks_score [of 0 a "[]" "sc_Key r"]
    by (simp add: m_def)
qed

text \<open>A hybrid search never fails because the vector engine does: it then answers what the BM25
  engine answers for the same limit and counts the fallback.  Otherwise it returns each key of either
  ranking once, scored by the sum of the reciprocal ranks, in descending order of that score, cut at
  the limit.\<close>

theorem hybrid_search_fuses:
  "case Vector_Search embedding_of q 0 (he_vector e) of
     (Inl err, v) \<Rightarrow>
       err = PanicIndexOutOfRange
       \<or> Hybrid_Search embedding_of q limit e =
         (Inr (BM25_Search q limit (he_bm25 e)),
          e\<lparr>he_vector := v, he_vectorSearchFallbacks := he_vectorSearchFallbacks e + 1\<rparr>)
   | (Inr vs, v) \<Rightarrow>
       (\<exists>fused. Hybrid_Search embedding_of q limit e =
                 (Inr (if 0 < limit then take (nat limit) fused else fused), e\<lparr>he_vector := v\<rparr>)
          \<and> sc_Key ` set fused = sc_Key ` set (BM25_Search q 0 (he_bm25 e)) \<union> sc_Key ` set vs
          \<and> distinct (map sc_Key fused) \<and> sorted_wrt ranks_before fused
          \<and> map sc_Score fused =
            map (\<lambda>k. reciprocal 0 (BM25_Search q 0 (he_bm25 e)) k + reciprocal 0 vs k) (map sc_Key fused))"
proof (cases "Vector_Search embedding_of q 0 (he_vector e)")
  case (Pair ans v)
  have lim: "take_limit limit xs = (if 0 < limit then take (nat limit) xs else xs)" for xs :: "ScoredResult list"
    by (simp add: take_limit_def)
  show ?thesis
  proof (cases ans)
    case (Inl err)
    then show ?thesis
      using Pair BM25_Search_limit [of q limit "he_bm25 e"] by (simp add: Hybrid_Search_def lim Let_def)
  next
    case (Inr vs)
    have "Hybrid_Search embedding_of q limit e =
            (Inr (take_limit limit (fuseRRF (BM25_Search q 0 (he_bm25 e)) vs)), e\<lparr>he_vector := v\<rparr>)"
      using Pair Inr by (simp add: Hybrid_Search_def Let_def take_limit_def)
    then show ?thesis
      using Pair Inr fuseRRF_exact [where a = "BM25_Search q 0 (he_bm25 e)" and b = vs]
      by (auto simp: lim intro!: exI [of _ "fuseRRF (BM25_Search q 0 (he_bm25 e)) vs"])
  qed
qed

section \<open>The interface of the search engines\<close>

text \<open>What the users of \<open>Engine\<close> rely on.  \<open>keys\<close> are the keys an engine may return; indexing adds at
  most those of the given documents, a search changes neither them nor the consistency of the engine,
  returns them in order and within the limit, and does not panic.\<close>

locale search_engine =
  fixes index_op :: "Document list \<Rightarrow> 'e \<Rightarrow> search_error option \<times> 'e"
    and search_op :: "string \<Rightarrow> int \<Rightarrow> 'e \<Rightarrow> (search_error + ScoredResult list) \<times> 'e"
    and ok :: "'e \<Rightarrow> bool"
    and keys :: "'e \<Rightarrow> string set"
  assumes index_ok: "ok e \<Longrightarrow> ok (snd (index_op docs e))"
    and index_keys: "ok e \<Longrightarrow> keys (snd (index_op docs e)) \<subseteq> doc_Key ` set docs \<union> keys e"
    and search_ok: "ok e \<Longrightarrow> ok (snd (search_op q l e))"
    and search_same_keys: "ok e \<Longrightarrow> keys (snd (search_op q l e)) = keys e"
    and search_keys: "ok e \<Longrightarrow> fst (search_op q l e) = Inr rs \<Longrightarrow> sc_Key ` set rs \<subseteq> keys e"
    and search_sorted: "ok e \<Longrightarrow> fst (search_op q l e) = Inr rs \<Longrightarrow> sorted_wrt ranks_before rs"
    and search_limit: "ok e \<Longrightarrow> fst (search_op q l e) = Inr rs \<Longrightarrow> 0 < l \<Longrightarrow> int (length rs) \<le> l"
    and search_no_panic: "ok e \<Longrightarrow> fst (search_op q l e) \<noteq> Inl PanicIndexOutOfRange"
begin

text \<open>Indexing and searching in any order.\<close>

inductive used :: "'e \<Rightarrow> Document list \<Rightarrow> 'e \<Rightarrow> bool" where
  fresh: "used e [] e"
| reindexed: "used e ds e1 \<Longrightarrow> used e (docs @ ds) (snd (index_op docs e1))"
| searched: "used e ds e1 \<Longrightarrow> used e ds (snd (search_op q l e1))"

lemma used_ok: "used e ds e' \<Longrightarrow> ok e \<Longrightarrow> ok e'"
  by (induction rule: used.induct) (simp_all add: index_ok search_ok)

lemma used_keys: "used e ds e' \<Longrightarrow> ok e \<Longrightarrow> keys e' \<subseteq> doc_Key ` set ds \<union> keys e"
proof (induction rule: used.induct)
  case (reindexed e ds e1 docs)
  then show ?case using index_keys [of e1 docs] used_ok [OF reindexed.hyps] by fastforce
qed (simp_all add: search_same_keys used_ok)

lemma results_were_indexed:
  assumes "used e ds e'" "ok e" "keys e = {}" "fst (search_op q l e') = Inr rs"
  shows "sc_Key ` set rs \<subseteq> doc_Key ` set ds"
  using search_keys [OF used_ok [OF assms(1,2)] assms(4)] used_keys [OF assms(1,2)] assms(3) by blast

end

definition bm25_keys :: "BM25Engine \<Rightarrow> string set" where
  "bm25_keys e = (\<Union>x\<in>set (be_partitions e). doc_Key ` set (bp_docs (snd x)))"

definition vector_keys :: "'w VectorEngine \<Rightarrow> string set" where
  "vector_keys e = (\<Union>x\<in>set (ve_partitions e). doc_Key ` set (vp_docs (snd x)))"

definition vector_ok :: "'w VectorEngine \<Rightarrow> bool" where
  "vector_ok e = list_all (\<lambda>(pid, p). length (vp_docs p) = length (vp_embeddings p)) (ve_partitions e)"

lemma BM25_Search_in_keys:
  assumes "bm25_ok e"
  shows "sc_Key ` set (BM25_Search q l e) \<subseteq> bm25_keys e"
proof -
  have "set (BM25_Search q l e) \<subseteq> set (BM25_Search q 0 e)"
    using BM25_Search_limit [of q l e] by (cases "0 < l") (simp_all add: set_take_subset)
  then have "sc_Key ` set (BM25_Search q l e) \<subseteq> sc_Key ` set (BM25_Search q 0 e)" by blast
  also have "\<dots> \<subseteq> bm25_keys e"
    unfolding BM25_Search_keys(1) [OF assms] bm25_keys_def by (rule UN_mono) (auto simp: matching_keys_def)
  finally show ?thesis .
qed

lemma BM25_Search_length: "0 < l \<Longrightarrow> int (length (BM25_Search q l e)) \<le> l"
  using BM25_Search_limit [of q l e] by simp

interpretation bm25_engine: search_engine
  "\<lambda>docs e. (None, BM25_Index docs e)" "\<lambda>q l e. (Inr (BM25_Search q l e), e)" bm25_ok bm25_keys
proof unfold_locales
  show "bm25_ok (snd (None, BM25_Index docs e))" if "bm25_ok e" for e docs
    using bm25_apply_ok [OF that, of "OpIndex docs"] by simp
  show "bm25_keys (snd (None, BM25_Index docs e)) \<subseteq> doc_Key ` set docs \<union> bm25_keys e" if "bm25_ok e" for e docs
    by (simp add: bm25_keys_def BM25_Index_def)
  fix e q l rs
  assume e: "bm25_ok e" and "fst (Inr (BM25_Search q l e), e) = Inr rs"
  then have rs: "rs = BM25_Search q l e" by simp
  show "sc_Key ` set rs \<subseteq> bm25_keys e" unfolding rs by (rule BM25_Search_in_keys [OF e])
  show "sorted_wrt ranks_before rs" unfolding rs by (rule BM25_Search_sorted)
  show "0 < l \<Longrightarrow> int (length rs) \<le> l" unfolding rs by (rule BM25_Search_length)
qed simp_all

lemma similar_docs_total:
  "length docs = length embs \<Longrightarrow> \<exists>rs. similar_docs qv docs embs = Some rs \<and> sc_Key ` set rs \<subseteq> doc_Key ` set docs"
proof (induction docs embs rule: list_induct2)
  case (Cons d ds emb embs)
  then obtain rs where "similar_docs qv ds embs = Some rs" "sc_Key ` set rs \<subseteq> doc_Key ` set ds" by blast
  then show ?case by (auto simp: Let_def)
qed simp

lemma similar_all_total:
  "list_all (\<lambda>(pid, p). length (vp_docs p) = length (vp_embeddings p)) ps \<Longrightarrow>
   \<exists>rs. similar_all qv ps = Some rs \<and> sc_Key ` set rs \<subseteq> (\<Union>x\<in>set ps. doc_Key ` set (vp_docs (snd x)))"
proof (induction ps)
  case (Cons x ps)
  obtain pid p where x: "x = (pid, p)" by (cases x)
  obtain rs where rs: "similar_docs qv (vp_docs p) (vp_embeddings p) = Some rs" "sc_Key ` set rs \<subseteq> doc_Key ` set (vp_docs p)"
    using similar_docs_total [of "vp_docs p" "vp_embeddings p" qv] Cons.prems x by auto
  obtain ss where "similar_all qv ps = Some ss" "sc_Key ` set ss \<subseteq> (\<Union>x\<in>set ps. doc_Key ` set (vp_docs (snd x)))"
    using Cons x by auto
  then show ?case using rs x by (auto simp: image_Un)
qed simp

lemma Vector_Search_result:
  assumes "vector_ok e"
  shows "fst (Vector_Search embedding_of q l e) \<noteq> Inl PanicIndexOutOfRange"
    and "fst (Vector_Search embedding_of q l e) = Inr rs \<Longrightarrow>
         sc_Key ` set rs \<subseteq> vector_keys e \<and> sorted_wrt ranks_before rs \<and> (0 < l \<longrightarrow> int (length rs) \<le> l)"
    and "ve_partitions (snd (Vector_Search embedding_of q l e)) = ve_partitions e"
proof -
  have tot: "\<exists>ss. similar_all qv (ve_partitions e) = Some ss \<and> sc_Key ` set ss \<subseteq> vector_keys e" for qv
    using similar_all_total [of "ve_partitions e" qv] assms by (simp add: vector_ok_def vector_keys_def)
  show "fst (Vector_Search embedding_of q l e) \<noteq> Inl PanicIndexOutOfRange"
  proof -
    have some: "similar_all qv (ve_partitions e) \<noteq> None" for qv using tot [of qv] by auto
    show ?thesis using some by (auto simp: Vector_Search_def split: prod.split sum.split list.split option.split simp del: not_None_eq)
  qed
  show "ve_partitions (snd (Vector_Search embedding_of q l e)) = ve_partitions e"
    by (simp add: Vector_Search_def split: prod.split sum.split list.split option.split)
  assume r: "fst (Vector_Search embedding_of q l e) = Inr rs"
  then consider "rs = []"
    | qv ss where "similar_all qv (ve_partitions e) = Some ss" "rs = take_limit l (by_rank ss)"
    by (auto simp: Vector_Search_def split: prod.splits sum.splits list.splits option.splits if_splits)
  then show "sc_Key ` set rs \<subseteq> vector_keys e \<and> sorted_wrt ranks_before rs \<and> (0 < l \<longrightarrow> int (length rs) \<le> l)"
  proof cases
    case 2
    have "set rs \<subseteq> set ss" using 2(2) set_take_subset [of "nat l" "by_rank ss"] by (simp add: take_limit_def)
    moreover have "sc_Key ` set ss \<subseteq> vector_keys e" using tot [of qv] 2(1) by auto
    ultimately have "sc_Key ` set rs \<subseteq> vector_keys e" by blast
    moreover have "sorted_wrt ranks_before rs" using 2(2) by (simp add: sorted_take_limit by_rank_sorted)
    ultimately show ?thesis using 2(2) by (simp add: take_limit_def)
  qed simp
qed

lemma Vector_Index_result:
  assumes "vector_ok e"
  shows "vector_ok (snd (Vector_Index embedding_of docs e))"
    and "vector_keys (snd (Vector_Index embedding_of docs e)) \<subseteq> doc_Key ` set docs \<union> vector_keys e"
  using assms
  by (auto simp: Vector_Index_def vector_ok_def vector_keys_def split: prod.split sum.split)

interpretation vector_engine: search_engine
  "Vector_Index embedding_of" "Vector_Search embedding_of" vector_ok vector_keys
  for embedding_of :: "'w embedder"
proof unfold_locales
  fix e :: "'w VectorEngine" and q l rs docs
  assume e: "vector_ok e"
  note r = Vector_Search_result [OF e, where embedding_of = embedding_of and q = q and l = l]
  show "vector_ok (snd (Vector_Index embedding_of docs e))"
    "vector_keys (snd (Vector_Index embedding_of docs e)) \<subseteq> doc_Key ` set docs \<union> vector_keys e"
    by (rule Vector_Index_result [OF e])+
  show "vector_ok (snd (Vector_Search embedding_of q l e))" using e r(3) by (simp add: vector_ok_def)
  show "vector_keys (snd (Vector_Search embedding_of q l e)) = vector_keys e" using r(3) by (simp add: vector_keys_def)
  show "fst (Vector_Search embedding_of q l e) \<noteq> Inl PanicIndexOutOfRange" by (rule r(1))
  assume "fst (Vector_Search embedding_of q l e) = Inr rs"
  from r(2) [OF this] show "sc_Key ` set rs \<subseteq> vector_keys e" "sorted_wrt ranks_before rs" "0 < l \<Longrightarrow> int (length rs) \<le> l"
    by blast+
qed

definition hybrid_ok :: "'w HybridEngine \<Rightarrow> bool" where
  "hybrid_ok e = (bm25_ok (he_bm25 e) \<and> vector_ok (he_vector e))"

definition hybrid_keys :: "'w HybridEngine \<Rightarrow> string set" where
  "hybrid_keys e = bm25_keys (he_bm25 e) \<union> vector_keys (he_vector e)"

lemma Hybrid_Search_result:
  assumes "hybrid_ok e"
  shows "\<exists>rs v fb. Hybrid_Search embedding_of q l e = (Inr rs, e\<lparr>he_vector := v, he_vectorSearchFallbacks := fb\<rparr>)
           \<and> v = snd (Vector_Search embedding_of q 0 (he_vector e))
           \<and> sc_Key ` set rs \<subseteq> hybrid_keys e \<and> sorted_wrt ranks_before rs \<and> (0 < l \<longrightarrow> int (length rs) \<le> l)"
proof -
  let ?b = "BM25_Search q 0 (he_bm25 e)"
  obtain ans v where vs: "Vector_Search embedding_of q 0 (he_vector e) = (ans, v)" by fastforce
  have ok: "bm25_ok (he_bm25 e)" "vector_ok (he_vector e)" using assms by (simp_all add: hybrid_ok_def)
  note V = Vector_Search_result [OF ok(2), where embedding_of = embedding_of and q = q and l = 0]
  have cut: "sc_Key ` set (take_limit l xs) \<subseteq> sc_Key ` set xs" "0 < l \<Longrightarrow> int (length (take_limit l xs)) \<le> l"
    for xs :: "ScoredResult list"
    using set_take_subset [of "nat l" xs] by (auto simp: take_limit_def)
  have b: "sc_Key ` set ?b \<subseteq> hybrid_keys e" using BM25_Search_in_keys [OF ok(1)] by (auto simp: hybrid_keys_def)
  show ?thesis
  proof (cases ans)
    case (Inl err)
    have "Hybrid_Search embedding_of q l e =
        (Inr (take_limit l ?b), e\<lparr>he_vector := v, he_vectorSearchFallbacks := he_vectorSearchFallbacks e + 1\<rparr>)"
      using vs Inl V(1) by (simp add: Hybrid_Search_def Let_def)
    moreover have "sc_Key ` set (take_limit l ?b) \<subseteq> hybrid_keys e" using cut(1) b by (rule order_trans)
    ultimately show ?thesis
      using vs cut(2) [of ?b] sorted_take_limit [OF BM25_Search_sorted, of l q 0 "he_bm25 e"]
      by (intro exI [of _ "take_limit l ?b"] exI conjI) simp_all
  next
    case (Inr rs)
    let ?f = "fuseRRF ?b rs"
    have "Hybrid_Search embedding_of q l e =
        (Inr (take_limit l ?f), e\<lparr>he_vector := v, he_vectorSearchFallbacks := he_vectorSearchFallbacks e\<rparr>)"
      using vs Inr by (simp add: Hybrid_Search_def Let_def take_limit_def)
    moreover have "sc_Key ` set ?f \<subseteq> hybrid_keys e"
      using b V(2) [of rs] vs Inr fuseRRF_exact(1) [of ?b rs] by (auto simp: hybrid_keys_def)
    moreover from this have "sc_Key ` set (take_limit l ?f) \<subseteq> hybrid_keys e" using cut(1) [of ?f] by (rule order_trans [rotated])
    ultimately show ?thesis
      using vs cut(2) [of ?f] sorted_take_limit [OF fuseRRF_exact(3), of l ?b rs]
      by (intro exI [of _ "take_limit l ?f"] exI [of _ v] exI [of _ "he_vectorSearchFallbacks e"] conjI) simp_all
  qed
qed

lemma Hybrid_Index_parts:
  "he_bm25 (snd (Hybrid_Index embedding_of docs e)) = BM25_Index docs (he_bm25 e)"
  "he_vector (snd (Hybrid_Index embedding_of docs e)) = snd (Vector_Index embedding_of docs (he_vector e))"
  by (simp_all add: Hybrid_Index_def Let_def split: prod.split option.split)

interpretation hybrid_engine: search_engine
  "Hybrid_Index embedding_of" "Hybrid_Search embedding_of" hybrid_ok hybrid_keys
  for embedding_of :: "'w embedder"
proof unfold_locales
  fix e :: "'w HybridEngine" and q l rs docs
  assume e: "hybrid_ok e"
  note he = e [unfolded hybrid_ok_def]
  note parts = Hybrid_Index_parts [of embedding_of docs e]
  show "hybrid_ok (snd (Hybrid_Index embedding_of docs e))"
    using he bm25_engine.index_ok [of "he_bm25 e" docs] Vector_Index_result(1) [of "he_vector e" embedding_of docs]
    by (simp add: hybrid_ok_def parts)
  show "hybrid_keys (snd (Hybrid_Index embedding_of docs e)) \<subseteq> doc_Key ` set docs \<union> hybrid_keys e"
    using he bm25_engine.index_keys [of "he_bm25 e" docs] Vector_Index_result(2) [of "he_vector e" embedding_of docs]
    by (auto simp: hybrid_keys_def parts)
  obtain ss v fb where S: "Hybrid_Search embedding_of q l e = (Inr ss, e\<lparr>he_vector := v, he_vectorSearchFallbacks := fb\<rparr>)"
    "v = snd (Vector_Search embedding_of q 0 (he_vector e))" "sc_Key ` set ss \<subseteq> hybrid_keys e"
    "sorted_wrt ranks_before ss" "0 < l \<longrightarrow> int (length ss) \<le> l"
    using Hybrid_Search_result [OF e] by blast
  have same: "ve_partitions v = ve_partitions (he_vector e)"
    using Vector_Search_result(3) [of "he_vector e" embedding_of q 0] he S(2) by simp
  show "hybrid_ok (snd (Hybrid_Search embedding_of q l e))"
    using he same by (simp add: S(1) hybrid_ok_def vector_ok_def)
  show "hybrid_keys (snd (Hybrid_Search embedding_of q l e)) = hybrid_keys e"
    using same by (simp add: S(1) hybrid_keys_def vector_keys_def)
  show "fst (Hybrid_Search embedding_of q l e) \<noteq> Inl PanicIndexOutOfRange" by (simp add: S(1))
  assume "fst (Hybrid_Search embedding_of q l e) = Inr rs"
  then have "rs = ss" by (simp add: S(1))
  then show "sc_Key ` set rs \<subseteq> hybrid_keys e" "sorted_wrt ranks_before rs" "0 < l \<Longrightarrow> int (length rs) \<le> l"
    using S(3-5) by blast+
qed

text \<open>The cache is keyed by name and description alone, while the embedded text has the title and the
  tags as well: a document whose title or tags changed keeps its old vector.\<close>

lemma cached_embedding_ignores_title:
  assumes "ve_cache e = Some c" "map_of (ec_entries c) (ContentHash digest (doc_Name d) (doc_Description d)) = Some v"
  shows "fst (embedWithCache embedding_of digest [d\<lparr>doc_Title := t, doc_Tags := ts\<rparr>] e) = Inr [v]"
    and "ve_embedder (snd (embedWithCache embedding_of digest [d\<lparr>doc_Title := t, doc_Tags := ts\<rparr>] e)) = ve_embedder e"
  using assms by (simp_all add: embedWithCache_def Embedding_Get_def Let_def)

end
