(* ===== verification/Discovery.thy ===== *)
theory Discovery
  imports Search_Vector
begin

text \<open>
  \<^verbatim>\<open>src/internal/proxy/types.go\<close> and \<^verbatim>\<open>discovery.go\<close>: the index over the definitions of the federated tools,
  searched by substring or through one of the engines, and its enrichment with metadata.

  The engine is given by its two operations, over a state of its own; the laws of the locale
  \<open>search_engine\<close> are not needed, since every result is looked up among the entries.  Go leaves the
  order of entries with equal rank open; the model keeps the order of the map.
\<close>

section \<open>Tool definitions\<close>

text \<open>Of the annotations, which are a type of the MCP library, the gateway reads the title.  Raw JSON is
  a string of bytes; the other values of that library are passed on as they are.\<close>

record ToolAnnotation =
  ta_Title :: string
  ta_Hints :: json

record ToolDefinition =
  td_Name :: string
  td_Description :: string
  td_InputSchema :: string
  td_OutputSchema :: string
  td_Annotations :: "ToolAnnotation option"
  td_DeferLoading :: bool
  td_Icons :: "json list"
  td_Execution :: "json option"
  td_Meta :: "json option"

section \<open>The index\<close>

record ToolMetadata =
  tm_ToolName :: string
  tm_Category :: string
  tm_Summary :: string
  tm_Tags :: "string list"
  tm_Priority :: int

record DiscoveryStats =
  ds_TotalTools :: nat
  ds_Categories :: "(string, nat) gomap"

record discoveryEntry =
  de_definition :: ToolDefinition
  de_nameLower :: string
  de_descLower :: string
  de_titleLower :: string
  de_category :: string
  de_summary :: string
  de_tagsLower :: "string list"
  de_priority :: int

record 'e DiscoveryIndex =
  di_entries :: "(string, discoveryEntry) gomap"
  di_metadata :: "ToolMetadata list"
  di_engine :: "'e option"
  di_engineErrorFallbacks :: "64 word"

type_synonym 'e index_op = "Document list \<Rightarrow> 'e \<Rightarrow> search_error option \<times> 'e"
type_synonym 'e search_op = "string \<Rightarrow> int \<Rightarrow> 'e \<Rightarrow> (search_error + ScoredResult list) \<times> 'e"

definition NewDiscoveryIndex :: "'e DiscoveryIndex" where
  "NewDiscoveryIndex = \<lparr>di_entries = [], di_metadata = [], di_engine = None, di_engineErrorFallbacks = 0\<rparr>"

definition SetEngine :: "'e option \<Rightarrow> 'e DiscoveryIndex \<Rightarrow> 'e DiscoveryIndex" where
  "SetEngine e d = d\<lparr>di_engine := e\<rparr>"

definition categoryFromFederatedName :: "string \<Rightarrow> string" where
  "categoryFromFederatedName name =
    (if HasPrefix name ''mcp.'' then
       (let rest = drop 4 name
        in case index_of rest ''.'' of
             Some dotIdx \<Rightarrow> if dotIdx > 0 then take dotIdx rest else ''''
           | None \<Rightarrow> '''')
     else case index_of name ''.'' of
            Some dotIdx \<Rightarrow> if dotIdx > 0 then take dotIdx name else ''''
          | None \<Rightarrow> '''')"

definition maxSummaryLen :: nat where
  "maxSummaryLen = 100"

definition extractSummary :: "string \<Rightarrow> string" where
  "extractSummary description =
    (if description = '''' then ''''
     else
       let short = (if length description \<le> maxSummaryLen then description
                    else take (maxSummaryLen - 3) description @ ''...'')
       in case find (\<lambda>i. description ! i = CHR ''.'' \<and> description ! (i + 1) = CHR '' '') [0..<length description - 1] of
            Some i \<Rightarrow> (let sentence = take (i + 1) description
                       in if length sentence \<le> maxSummaryLen then sentence else short)
          | None \<Rightarrow> short)"

definition new_entry :: "ToolDefinition \<Rightarrow> discoveryEntry" where
  "new_entry tool =
    (let title = (case td_Annotations tool of None \<Rightarrow> '''' | Some a \<Rightarrow> ta_Title a)
     in \<lparr>de_definition = tool, de_nameLower = ToLower (td_Name tool), de_descLower = ToLower (td_Description tool),
         de_titleLower = ToLower title, de_category = categoryFromFederatedName (td_Name tool),
         de_summary = extractSummary (td_Description tool), de_tagsLower = [], de_priority = 0\<rparr>)"

definition enrich :: "ToolMetadata \<Rightarrow> discoveryEntry \<Rightarrow> discoveryEntry" where
  "enrich m entry =
    (let e1 = (if tm_Category m \<noteq> '''' then entry\<lparr>de_category := tm_Category m\<rparr> else entry);
         e2 = (if tm_Summary m \<noteq> '''' then e1\<lparr>de_summary := tm_Summary m, de_descLower := ToLower (tm_Summary m)\<rparr> else e1);
         e3 = (if tm_Tags m \<noteq> [] then e2\<lparr>de_tagsLower := map ToLower (tm_Tags m)\<rparr> else e2)
     in if tm_Priority m \<noteq> 0 then e3\<lparr>de_priority := tm_Priority m\<rparr> else e3)"

definition applyMetadataLocked ::
  "ToolMetadata list \<Rightarrow> (string, discoveryEntry) gomap \<Rightarrow> (string, discoveryEntry) gomap" where
  "applyMetadataLocked metadata entries =
    foldl (\<lambda>entries m. case map_of entries (tm_ToolName m) of
                          None \<Rightarrow> entries
                        | Some entry \<Rightarrow> mput (tm_ToolName m) (enrich m entry) entries) entries metadata"

definition entry_document :: "string \<Rightarrow> discoveryEntry \<Rightarrow> Document" where
  "entry_document key entry =
    (let title = (case td_Annotations (de_definition entry) of None \<Rightarrow> de_titleLower entry | Some a \<Rightarrow> ta_Title a);
         desc = td_Description (de_definition entry);
         desc = (if de_summary entry \<noteq> '''' \<and> de_summary entry \<noteq> desc then desc @ '' '' @ de_summary entry else desc)
     in \<lparr>doc_Key = key, doc_Name = td_Name (de_definition entry), doc_Title = title, doc_Description = desc,
         doc_Tags = de_tagsLower entry\<rparr>)"

definition reindexEngineLocked :: "'e index_op \<Rightarrow> 'e DiscoveryIndex \<Rightarrow> 'e DiscoveryIndex" where
  "reindexEngineLocked index_op d =
    (case di_engine d of
       None \<Rightarrow> d
     | Some e \<Rightarrow> d\<lparr>di_engine := Some (snd (index_op (map (\<lambda>(key, entry). entry_document key entry) (di_entries d)) e))\<rparr>)"

definition Discovery_Index :: "'e index_op \<Rightarrow> ToolDefinition list \<Rightarrow> 'e DiscoveryIndex \<Rightarrow> 'e DiscoveryIndex" where
  "Discovery_Index index_op tools d =
    (let entries = foldl (\<lambda>entries tool. mput (td_Name tool) (new_entry tool) entries) [] tools
     in reindexEngineLocked index_op (d\<lparr>di_entries := applyMetadataLocked (di_metadata d) entries\<rparr>))"

definition ApplyMetadata :: "'e index_op \<Rightarrow> ToolMetadata list \<Rightarrow> 'e DiscoveryIndex \<Rightarrow> 'e DiscoveryIndex" where
  "ApplyMetadata index_op metadata d =
    reindexEngineLocked index_op
      (d\<lparr>di_metadata := metadata, di_entries := applyMetadataLocked metadata (di_entries d)\<rparr>)"

section \<open>Searching\<close>

definition scoreEntry :: "discoveryEntry \<Rightarrow> string \<Rightarrow> real" where
  "scoreEntry entry q =
    (if de_nameLower entry = q then 10 else if Contains (de_nameLower entry) q then 5 else 0)
    + (if Contains (de_titleLower entry) q then 3 else 0)
    + (if Contains (de_descLower entry) q then 1 else 0)
    + sum_list (map (\<lambda>tag. if Contains tag q then 2 else 0) (de_tagsLower entry))"

definition defaultSearchLimit :: int where "defaultSearchLimit = 10"
definition maxSearchLimit :: int where "maxSearchLimit = 50"

definition clampLimit :: "int \<Rightarrow> int" where
  "clampLimit limit =
    (if limit \<le> 0 then defaultSearchLimit else if limit > maxSearchLimit then maxSearchLimit else limit)"

definition in_category :: "string \<Rightarrow> discoveryEntry \<Rightarrow> bool" where
  "in_category cat entry = (cat = '''' \<or> ToLower (de_category entry) = cat)"

definition collectScoredEntriesSubstring ::
  "string \<Rightarrow> string \<Rightarrow> (string, discoveryEntry) gomap \<Rightarrow> (discoveryEntry \<times> real) list" where
  "collectScoredEntriesSubstring q cat entries =
    concat (map (\<lambda>(name, entry).
              if \<not> in_category cat entry then []
              else let score = scoreEntry entry q
                   in if score > 0 then [(entry, score + of_int (de_priority entry))] else []) entries)"

definition collectScoredEntriesEngine ::
  "'e search_op \<Rightarrow> string \<Rightarrow> string \<Rightarrow> 'e \<Rightarrow> 'e DiscoveryIndex \<Rightarrow> (discoveryEntry \<times> real) list \<times> 'e DiscoveryIndex" where
  "collectScoredEntriesEngine search_op q cat engine d =
    (case search_op q 0 engine of
       (Inl err, engine') \<Rightarrow>
         (collectScoredEntriesSubstring q cat (di_entries d),
          d\<lparr>di_engine := Some engine', di_engineErrorFallbacks := di_engineErrorFallbacks d + 1\<rparr>)
     | (Inr results, engine') \<Rightarrow>
         (concat (map (\<lambda>r. case map_of (di_entries d) (sc_Key r) of
                              None \<Rightarrow> []
                            | Some entry \<Rightarrow>
                                if \<not> in_category cat entry then []
                                else [(entry, sc_Score r + of_int (de_priority entry))]) results),
          d\<lparr>di_engine := Some engine'\<rparr>))"

definition collectScoredEntries ::
  "'e search_op \<Rightarrow> string \<Rightarrow> string \<Rightarrow> 'e DiscoveryIndex \<Rightarrow> (discoveryEntry \<times> real) list \<times> 'e DiscoveryIndex" where
  "collectScoredEntries search_op q cat d =
    (case di_engine d of
       Some engine \<Rightarrow> collectScoredEntriesEngine search_op q cat engine d
     | None \<Rightarrow> (collectScoredEntriesSubstring q cat (di_entries d), d))"

definition paginate :: "'a list \<Rightarrow> int \<Rightarrow> int \<Rightarrow> 'a list" where
  "paginate scored offset limit =
    (let offset = (if offset < 0 then 0 else offset)
     in if offset \<ge> int (length scored) then []
        else let stop = offset + limit;
                 stop = (if stop > int (length scored) then int (length scored) else stop)
             in take (nat (stop - offset)) (drop (nat offset) scored))"

definition stripped :: "discoveryEntry \<Rightarrow> ToolDefinition" where
  "stripped entry =
    \<lparr>td_Name = td_Name (de_definition entry), td_Description = de_summary entry, td_InputSchema = ''{}'',
     td_OutputSchema = '''', td_Annotations = None, td_DeferLoading = True, td_Icons = [], td_Execution = None,
     td_Meta = None\<rparr>"

definition by_score :: "(discoveryEntry \<times> real) list \<Rightarrow> (discoveryEntry \<times> real) list" where
  "by_score scored = sort_key (\<lambda>(entry, score). (- score, de_nameLower entry)) scored"

definition Discovery_Search ::
  "'e search_op \<Rightarrow> string \<Rightarrow> string \<Rightarrow> int \<Rightarrow> int \<Rightarrow> 'e DiscoveryIndex
   \<Rightarrow> (ToolDefinition list \<times> nat) \<times> 'e DiscoveryIndex" where
  "Discovery_Search search_op query category offset limit d =
    (if TrimSpace query = '''' then (([], 0), d)
     else
       let limit = clampLimit limit;
           q = ToLower (TrimSpace query);
           cat = ToLower (TrimSpace category);
           (scored, d1) = collectScoredEntries search_op q cat d;
           scored = by_score scored
       in ((map (stripped \<circ> fst) (paginate scored offset limit), length scored), d1))"

definition maxGetToolsNames :: nat where "maxGetToolsNames = 20"

definition GetTools :: "string list \<Rightarrow> 'e DiscoveryIndex \<Rightarrow> ToolDefinition list" where
  "GetTools names d =
    concat (map (\<lambda>name. case map_of (di_entries d) (TrimSpace name) of
                           Some entry \<Rightarrow> [de_definition entry]
                         | None \<Rightarrow> []) (take maxGetToolsNames names))"

definition Stats :: "'e DiscoveryIndex \<Rightarrow> DiscoveryStats" where
  "Stats d =
    \<lparr>ds_TotalTools = length (di_entries d),
     ds_Categories =
       foldl (\<lambda>m (name, entry).
                let cat = (if de_category entry = '''' then ''uncategorized'' else de_category entry)
                in mput cat ((case map_of m cat of None \<Rightarrow> 0 | Some n \<Rightarrow> n) + 1) m) [] (di_entries d)\<rparr>"

definition Browse :: "string \<Rightarrow> int \<Rightarrow> int \<Rightarrow> 'e DiscoveryIndex \<Rightarrow> ToolDefinition list \<times> nat" where
  "Browse category offset limit d =
    (let limit = (if limit \<le> 0 then defaultSearchLimit else limit);
         limit = (if limit > maxSearchLimit then maxSearchLimit else limit);
         cat = ToLower (TrimSpace category);
         matching = sort_key de_nameLower (filter (in_category cat) (map snd (di_entries d)))
     in (map stripped (paginate matching offset limit), length matching))"

section \<open>Summaries and pages\<close>

lemma extractSummary_bound: "length (extractSummary description) \<le> 100"
  by (auto simp: extractSummary_def maxSummaryLen_def Let_def split: option.split)

lemma GetTools_bound: "length (GetTools names d) \<le> 20"
proof -
  have "length (concat (map (\<lambda>n. case map_of (di_entries d) (TrimSpace n) of Some e \<Rightarrow> [de_definition e] | None \<Rightarrow> []) ns))
          \<le> length ns" for ns
    by (induction ns) (auto split: option.split)
  then show ?thesis unfolding GetTools_def maxGetToolsNames_def by (rule order_trans) simp
qed

lemma GetTools_indexed: "t \<in> set (GetTools names d) \<Longrightarrow> \<exists>n e. map_of (di_entries d) n = Some e \<and> t = de_definition e"
  by (auto simp: GetTools_def simp del: map_of_eq_Some_iff split: option.splits) metis

lemma paginate_slice: "0 \<le> limit \<Longrightarrow> 0 \<le> offset \<Longrightarrow> paginate xs offset limit = take (nat limit) (drop (nat offset) xs)"
  by (auto simp: paginate_def Let_def min_def nat_le_iff intro!: arg_cong [of _ _ "\<lambda>n. take n _"] take_all)

lemma pages_cover:
  "concat (map (\<lambda>k. take n (drop (k * n) xs)) [0..<m]) = take (m * n) xs"
proof (induction m)
  case (Suc m)
  then show ?case using take_add [of "m * n" n xs] by (simp add: add.commute)
qed simp

lemma clampLimit_range: "1 \<le> clampLimit limit \<and> clampLimit limit \<le> 50"
  by (simp add: clampLimit_def defaultSearchLimit_def maxSearchLimit_def)

lemma clampLimit_id: "1 \<le> limit \<Longrightarrow> limit \<le> 50 \<Longrightarrow> clampLimit limit = limit"
  by (simp add: clampLimit_def defaultSearchLimit_def maxSearchLimit_def)

lemma Discovery_Search_pages:
  assumes "TrimSpace query \<noteq> ''''" "1 \<le> limit" "limit \<le> 50"
    and "collectScoredEntries search_op (ToLower (TrimSpace query)) (ToLower (TrimSpace category)) d = (scored, d1)"
  shows "Discovery_Search search_op query category (int page * limit) limit d =
         ((map (stripped \<circ> fst) (take (nat limit) (drop (page * nat limit) (by_score scored))), length scored), d1)"
proof -
  have "nat (int page * limit) = page * nat limit" using assms(2) by (simp add: nat_mult_distrib)
  moreover have "0 \<le> int page * limit" using assms(2) by simp
  moreover have "length (by_score scored) = length scored" by (simp add: by_score_def)
  ultimately show ?thesis
    using assms by (simp add: Discovery_Search_def Let_def clampLimit_id paginate_slice)
qed

section \<open>The entries\<close>

text \<open>Every entry is stored under the name of its tool.\<close>

definition entries_ok :: "(string, discoveryEntry) gomap \<Rightarrow> bool" where
  "entries_ok entries = (wf_map entries \<and> (\<forall>n e. map_of entries n = Some e \<longrightarrow> td_Name (de_definition e) = n))"

lemma enrich_definition [simp]: "de_definition (enrich m e) = de_definition e"
  by (simp add: enrich_def Let_def)

lemma entries_ok_mput: "entries_ok entries \<Longrightarrow> td_Name (de_definition e) = n \<Longrightarrow> entries_ok (mput n e entries)"
  by (simp add: entries_ok_def del: map_of_eq_Some_iff)

lemma entries_ok_name: "entries_ok entries \<Longrightarrow> map_of entries n = Some e \<Longrightarrow> td_Name (de_definition e) = n"
  by (simp add: entries_ok_def del: map_of_eq_Some_iff)

lemma applyMetadata_ok: "entries_ok entries \<Longrightarrow> entries_ok (applyMetadataLocked metadata entries)"
  unfolding applyMetadataLocked_def
proof (induction metadata arbitrary: entries)
  case (Cons m ms)
  show ?case
  proof (cases "map_of entries (tm_ToolName m)")
    case (Some e)
    then have "entries_ok (mput (tm_ToolName m) (enrich m e) entries)"
      using Cons.prems entries_ok_name by (intro entries_ok_mput) simp_all
    then show ?thesis using Some Cons.IH by simp
  qed (simp add: Cons)
qed simp

lemma applyMetadata_dom: "dom (map_of (applyMetadataLocked metadata entries)) = dom (map_of entries)"
  unfolding applyMetadataLocked_def
proof (induction metadata arbitrary: entries)
  case (Cons m ms)
  then show ?case by (auto simp: dom_mput insert_absorb domIff simp del: map_of_mput split: option.split)
qed simp

lemma new_entries:
  "entries_ok entries \<Longrightarrow> entries_ok (foldl (\<lambda>entries tool. mput (td_Name tool) (new_entry tool) entries) entries tools)"
  "dom (map_of (foldl (\<lambda>entries tool. mput (td_Name tool) (new_entry tool) entries) entries tools)) =
   dom (map_of entries) \<union> td_Name ` set tools"
proof (induction tools arbitrary: entries)
  case (Cons t ts)
  {
    case 1
    then have "entries_ok (mput (td_Name t) (new_entry t) entries)"
      by (intro entries_ok_mput) (simp_all add: new_entry_def)
    then show ?case using Cons.IH(1) by simp
  next
    case 2
    show ?case by (simp add: Cons.IH(2) dom_mput del: map_of_mput)
  }
qed simp_all

lemma Discovery_Index_entries:
  "entries_ok (di_entries (Discovery_Index index_op tools d))"
  "dom (map_of (di_entries (Discovery_Index index_op tools d))) = td_Name ` set tools"
proof -
  have e: "di_entries (Discovery_Index index_op tools d) =
      applyMetadataLocked (di_metadata d) (foldl (\<lambda>entries tool. mput (td_Name tool) (new_entry tool) entries) [] tools)"
    by (simp add: Discovery_Index_def Let_def reindexEngineLocked_def split: option.split)
  have "entries_ok []" by (simp add: entries_ok_def)
  then show "entries_ok (di_entries (Discovery_Index index_op tools d))"
    unfolding e by (intro applyMetadata_ok new_entries(1))
  show "dom (map_of (di_entries (Discovery_Index index_op tools d))) = td_Name ` set tools"
    unfolding e applyMetadata_dom new_entries(2) by simp
qed

text \<open>Metadata applied before the tools are known takes effect once they are indexed.\<close>

lemma metadata_before_index:
  assumes "di_metadata d = []"
  shows "di_entries (Discovery_Index index_op tools (ApplyMetadata index_op ms d)) =
         di_entries (ApplyMetadata index_op ms (Discovery_Index index_op tools d))"
  using assms
  by (simp add: Discovery_Index_def ApplyMetadata_def Let_def reindexEngineLocked_def applyMetadataLocked_def
      split: option.split)

section \<open>Searching by substring\<close>

definition mentions :: "string \<Rightarrow> discoveryEntry \<Rightarrow> bool" where
  "mentions q entry =
    (Contains (de_nameLower entry) q \<or> Contains (de_titleLower entry) q \<or> Contains (de_descLower entry) q
     \<or> list_ex (\<lambda>tag. Contains tag q) (de_tagsLower entry))"

lemma Contains_refl [simp]: "Contains s s"
  by (cases s) (simp_all add: Contains_def)

lemma scoreEntry_pos: "0 < scoreEntry entry q \<longleftrightarrow> mentions q entry"
proof -
  let ?f = "\<lambda>tag. if Contains tag q then 2 else (0 :: real)"
  have "0 \<le> sum_list (map ?f (de_tagsLower entry))" by (intro sum_list_nonneg) auto
  moreover have "0 < sum_list (map ?f (de_tagsLower entry)) \<longleftrightarrow> (\<exists>tag\<in>set (de_tagsLower entry). 0 < ?f tag)"
    by (rule sum_list_pos_iff) simp
  then have "0 < sum_list (map ?f (de_tagsLower entry)) \<longleftrightarrow> list_ex (\<lambda>tag. Contains tag q) (de_tagsLower entry)"
    by (auto simp: list_ex_iff)
  ultimately show ?thesis by (auto simp: scoreEntry_def mentions_def)
qed

lemma collect_substring:
  "map fst (collectScoredEntriesSubstring q cat entries) =
   filter (\<lambda>e. in_category cat e \<and> mentions q e) (map snd entries)"
  by (induction entries) (auto simp: collectScoredEntriesSubstring_def Let_def scoreEntry_pos)

text \<open>An engine that fails is replaced by the search for substrings, and counted.\<close>

lemma engine_failure_falls_back:
  assumes "di_engine d = Some engine" "search_op q 0 engine = (Inl err, engine')"
  shows "collectScoredEntries search_op q cat d =
         (collectScoredEntriesSubstring q cat (di_entries d),
          d\<lparr>di_engine := Some engine', di_engineErrorFallbacks := di_engineErrorFallbacks d + 1\<rparr>)"
  using assms by (simp add: collectScoredEntries_def collectScoredEntriesEngine_def)

section \<open>Searching with BM25\<close>

definition bm25_index_op :: "BM25Engine index_op" where
  "bm25_index_op docs e = (None, BM25_Index docs e)"

definition bm25_search_op :: "BM25Engine search_op" where
  "bm25_search_op q limit e = (Inr (BM25_Search q limit e), e)"

abbreviation entry_name :: "discoveryEntry \<times> real \<Rightarrow> string" where
  "entry_name x \<equiv> td_Name (de_definition (fst x))"

lemma engine_names:
  assumes "entries_ok E" "sc_Key ` set rs \<subseteq> dom (map_of E)"
  shows "map entry_name (concat (map (\<lambda>r. case map_of E (sc_Key r) of
             None \<Rightarrow> []
           | Some entry \<Rightarrow> if \<not> in_category cat entry then [] else [(entry, sc_Score r + of_int (de_priority entry))]) rs)) =
         filter (\<lambda>n. in_category cat (the (map_of E n))) (map sc_Key rs)"
  using assms(2)
proof (induction rs)
  case (Cons r rs)
  then obtain e where e: "map_of E (sc_Key r) = Some e" by auto
  have "td_Name (de_definition e) = sc_Key r" using entries_ok_name [OF assms(1) e] .
  then show ?case using Cons e by simp
qed simp

lemma by_score_names: "distinct (map entry_name xs) \<Longrightarrow> distinct (map entry_name (by_score xs))"
  "set (by_score xs) = set xs"
  by (auto simp: by_score_def distinct_map)

text \<open>The keys an engine finds right after it was indexed with the entries.\<close>

lemma bm25_after_index:
  fixes E :: "(string, discoveryEntry) gomap"
  assumes "bm25_ok e0"
  defines "docs \<equiv> map (\<lambda>(key, entry). entry_document key entry) E"
  shows "bm25_ok (BM25_Index docs e0)"
    "sc_Key ` set (BM25_Search q 0 (BM25_Index docs e0)) =
     {n. \<exists>entry. (n, entry) \<in> set E \<and> doc_terms (entry_document n entry) \<inter> query_terms (be_synonyms e0) q \<noteq> {}}"
proof -
  show ok: "bm25_ok (BM25_Index docs e0)" using bm25_apply_ok [OF assms(1), of "OpIndex docs"] by simp
  have "be_partitions (BM25_Index docs e0) = [(defaultPartitionID, buildPartition defaultPartitionID docs)]"
    "be_synonyms (BM25_Index docs e0) = be_synonyms e0"
    by (simp_all add: BM25_Index_def)
  then have "sc_Key ` set (BM25_Search q 0 (BM25_Index docs e0)) = matching_keys (query_terms (be_synonyms e0) q) docs"
    using BM25_Search_keys(1) [OF ok, of q] by simp
  also have "\<dots> = {n. \<exists>entry. (n, entry) \<in> set E \<and> doc_terms (entry_document n entry) \<inter> query_terms (be_synonyms e0) q \<noteq> {}}"
  proof -
    have key: "doc_Key (entry_document n entry) = n" for n entry by (simp add: entry_document_def Let_def)
    have docs: "set docs = {entry_document n entry |n entry. (n, entry) \<in> set E}"
      by (auto simp: docs_def image_iff split_beta) (metis prod.collapse, metis fst_conv snd_conv)
    show ?thesis unfolding matching_keys_def docs mem_Collect_eq by (intro Collect_cong) (metis key)
  qed
  finally show "sc_Key ` set (BM25_Search q 0 (BM25_Index docs e0)) =
     {n. \<exists>entry. (n, entry) \<in> set E \<and> doc_terms (entry_document n entry) \<inter> query_terms (be_synonyms e0) q \<noteq> {}}" .
qed


definition sample_tool :: ToolDefinition where
  "sample_tool = \<lparr>td_Name = ''k8s.list_pods'', td_Description = ''List pods.'', td_InputSchema = ''{}'',
     td_OutputSchema = '''', td_Annotations = None, td_DeferLoading = False, td_Icons = [], td_Execution = None,
     td_Meta = None\<rparr>"

lemma NewBM25Engine_ok: "bm25_ok NewBM25Engine"
  using NewBM25Engine_simps(1) [of None] by (simp add: NewBM25Engine_def NewBM25EngineWithSynonyms_def)


end
