(* ===== verification/Stores.thy ===== *)
theory Stores
  imports Identity_Auth Classification
begin

text \<open>
  The tables of \<^verbatim>\<open>src/internal/store\<close> beside the server table: users and their tool permissions
  (\<^verbatim>\<open>user_store.go\<close>), API keys (\<^verbatim>\<open>apikey_store.go\<close>), the audit log with its retention (\<^verbatim>\<open>audit_store.go\<close>,
  \<^verbatim>\<open>retention.go\<close>), the queries on tool classifications, synonyms and the log of reindexing; and the
  registration of users by \<^verbatim>\<open>src/internal/auth/oidc_middleware.go\<close>.

  A database is its rows, the time at which a statement runs and whether it answers at all.  Each
  method is the table operation its SQL statement denotes, with the constraints of
  \<^verbatim>\<open>src/migrations\<close>.  Text is sorted by its bytes
  (the C collation) and rows with equal sort keys keep the order of the table.  Array columns are NOT NULL,
  and every caller passes an allocated slice, so an array is a list.

  The lemmas show that escaped search terms match literally, that permissions are replaced as a whole
  or not at all, that registration never changes a role, and that a revoked API key stays refused.
\<close>

section \<open>Patterns\<close>

text \<open>\<open>ILIKE\<close> with its default escape character; a pattern that ends in an escape is an error.\<close>

datatype like_token = AnyString | AnyChar | Literal char

abbreviation backslash :: char where "backslash \<equiv> CHR 0x5C"

fun like_tokens :: "string \<Rightarrow> like_token list option" where
  "like_tokens [] = Some []"
| "like_tokens (c # cs) =
    (if c = backslash then (case cs of [] \<Rightarrow> None | d # ds \<Rightarrow> map_option ((#) (Literal d)) (like_tokens ds))
     else map_option ((#) (if c = CHR ''%'' then AnyString else if c = CHR ''_'' then AnyChar else Literal c))
            (like_tokens cs))"

fun like_match :: "like_token list \<Rightarrow> string \<Rightarrow> bool" where
  "like_match [] s = (s = [])"
| "like_match (AnyString # ts) [] = like_match ts []"
| "like_match (AnyString # ts) (c # cs) = (like_match ts (c # cs) \<or> like_match (AnyString # ts) cs)"
| "like_match (AnyChar # ts) [] = False"
| "like_match (AnyChar # ts) (c # cs) = like_match ts cs"
| "like_match (Literal d # ts) [] = False"
| "like_match (Literal d # ts) (c # cs) = (lower_char c = lower_char d \<and> like_match ts cs)"

definition ILIKE :: "string \<Rightarrow> string \<Rightarrow> bool" where
  "ILIKE s pat = (case like_tokens pat of None \<Rightarrow> False | Some ts \<Rightarrow> like_match ts s)"

definition replace_char :: "char \<Rightarrow> string \<Rightarrow> string \<Rightarrow> string" where
  "replace_char c r s = concat (map (\<lambda>x. if x = c then r else [x]) s)"

definition escapeILikePattern :: "string \<Rightarrow> string" where
  "escapeILikePattern s =
    (let s = replace_char backslash [backslash, backslash] s;
         s = replace_char (CHR ''%'') [backslash, CHR ''%''] s
     in replace_char (CHR ''_'') [backslash, CHR ''_''] s)"

definition optionalILikeString :: "string \<Rightarrow> string option" where
  "optionalILikeString value =
    (let trimmed = TrimSpace value in if trimmed = '''' then None else Some (escapeILikePattern trimmed))"

definition optionalString :: "string \<Rightarrow> string option" where
  "optionalString value = (let trimmed = TrimSpace value in if trimmed = '''' then None else Some trimmed)"

text \<open>The condition \<open>column ILIKE '%' || $n || '%'\<close>.\<close>

definition like_anywhere :: "string \<Rightarrow> string \<Rightarrow> bool" where
  "like_anywhere column param = ILIKE column (''%'' @ param @ ''%'')"

section \<open>Users\<close>

record User =
  us_ID :: string
  us_OIDCSub :: string
  us_Email :: string
  us_DisplayName :: string
  us_Role :: UserRole
  us_CreatedAt :: time
  us_UpdatedAt :: time

record UserToolPermission =
  up_UserID :: string
  up_ToolName :: string
  up_GrantedBy :: string
  up_GrantedAt :: time

record UserFilter =
  uf_Query :: string
  uf_Role :: UserRole
  uf_Limit :: int
  uf_Offset :: int

datatype user_error = ErrUserDatabase | ErrUserDuplicate | ErrInvalidRole UserRole | ErrEmptyUserID | ErrUnknownUser

record UserDB =
  ud_users :: "User list"
  ud_perms :: "UserToolPermission list"
  ud_now :: time
  ud_fails :: bool

definition User_Upsert :: "User \<Rightarrow> UserDB \<Rightarrow> user_error option \<times> UserDB" where
  "User_Upsert user db =
    (let uid = (let i = TrimSpace (us_ID user) in if i = '''' then ''auto'' else i);
         sub = TrimSpace (us_OIDCSub user);
         row = \<lparr>us_ID = uid, us_OIDCSub = sub, us_Email = TrimSpace (us_Email user),
                us_DisplayName = TrimSpace (us_DisplayName user),
                us_Role = (if UserRole_IsValid (us_Role user) then us_Role user else RoleUser),
                us_CreatedAt = ud_now db, us_UpdatedAt = ud_now db\<rparr>
     in if ud_fails db then (Some ErrUserDatabase, db)
        else if list_ex (\<lambda>u. us_OIDCSub u = sub) (ud_users db)
        then (None, db\<lparr>ud_users := map (\<lambda>u. if us_OIDCSub u = sub
                                         then u\<lparr>us_Email := us_Email row, us_DisplayName := us_DisplayName row,
                                                us_UpdatedAt := us_UpdatedAt row\<rparr> else u) (ud_users db)\<rparr>)
        else if list_ex (\<lambda>u. us_ID u = uid) (ud_users db) then (Some ErrUserDuplicate, db)
        else (None, db\<lparr>ud_users := ud_users db @ [row]\<rparr>))"

definition User_Get :: "string \<Rightarrow> UserDB \<Rightarrow> user_error + User option" where
  "User_Get uid db =
    (if ud_fails db then Inl ErrUserDatabase else Inr (find (\<lambda>u. us_ID u = TrimSpace uid) (ud_users db)))"

definition GetByOIDCSub :: "string \<Rightarrow> UserDB \<Rightarrow> user_error + User option" where
  "GetByOIDCSub sub db =
    (if ud_fails db then Inl ErrUserDatabase else Inr (find (\<lambda>u. us_OIDCSub u = TrimSpace sub) (ud_users db)))"

definition page :: "int \<Rightarrow> int \<Rightarrow> 'a list \<Rightarrow> 'a list" where
  "page limit offset rows = take (nat limit) (drop (nat offset) rows)"

definition User_Search :: "UserFilter \<Rightarrow> UserDB \<Rightarrow> user_error + User list \<times> nat" where
  "User_Search f db =
    (let q = TrimSpace (uf_Query f);
         hit = (\<lambda>u. (q = '''' \<or> like_anywhere (us_Email u) (escapeILikePattern q)
                     \<or> like_anywhere (us_DisplayName u) (escapeILikePattern q))
                   \<and> (\<not> UserRole_IsValid (uf_Role f) \<or> us_Role u = uf_Role f));
         rows = filter hit (ud_users db);
         limit = (if uf_Limit f \<le> 0 then 50 else uf_Limit f)
     in if ud_fails db then Inl ErrUserDatabase
        else Inr (page limit (max (uf_Offset f) 0) (sort_key us_Email rows), length rows))"

definition UpdateRole :: "string \<Rightarrow> UserRole \<Rightarrow> UserDB \<Rightarrow> user_error option \<times> UserDB" where
  "UpdateRole uid role db =
    (if \<not> UserRole_IsValid role then (Some (ErrInvalidRole role), db)
     else if ud_fails db then (Some ErrUserDatabase, db)
     else (None, db\<lparr>ud_users := map (\<lambda>u. if us_ID u = TrimSpace uid
                                        then u\<lparr>us_Role := role, us_UpdatedAt := ud_now db\<rparr> else u) (ud_users db)\<rparr>))"

text \<open>Deleting a user deletes its permissions.\<close>

definition User_Delete :: "string \<Rightarrow> UserDB \<Rightarrow> user_error option \<times> UserDB" where
  "User_Delete uid db =
    (if ud_fails db then (Some ErrUserDatabase, db)
     else (None, db\<lparr>ud_users := filter (\<lambda>u. us_ID u \<noteq> TrimSpace uid) (ud_users db),
                    ud_perms := filter (\<lambda>p. up_UserID p \<noteq> TrimSpace uid) (ud_perms db)\<rparr>))"

definition GetToolPermissions :: "string \<Rightarrow> UserDB \<Rightarrow> user_error + UserToolPermission list" where
  "GetToolPermissions uid db =
    (if ud_fails db then Inl ErrUserDatabase
     else Inr (sort_key up_ToolName (filter (\<lambda>p. up_UserID p = TrimSpace uid) (ud_perms db))))"

definition HasToolPermission :: "string \<Rightarrow> string \<Rightarrow> UserDB \<Rightarrow> user_error + bool" where
  "HasToolPermission uid tool db =
    (if ud_fails db then Inl ErrUserDatabase
     else Inr (length (filter (\<lambda>p. up_UserID p = TrimSpace uid \<and> up_ToolName p = TrimSpace tool) (ud_perms db)) > 0))"

text \<open>The insertion fails on a repeated name (the primary key) and on an unknown user (the foreign key);
  then the transaction is rolled back.\<close>

definition SetToolPermissions :: "string \<Rightarrow> string list \<Rightarrow> string \<Rightarrow> UserDB \<Rightarrow> user_error option \<times> UserDB" where
  "SetToolPermissions userID toolNames grantedBy db =
    (let uid = TrimSpace userID;
         kept = filter (\<lambda>p. up_UserID p \<noteq> uid) (ud_perms db);
         added = map (\<lambda>n. \<lparr>up_UserID = uid, up_ToolName = TrimSpace n, up_GrantedBy = TrimSpace grantedBy,
                           up_GrantedAt = ud_now db\<rparr>) toolNames
     in if uid = '''' then (Some ErrEmptyUserID, db)
        else if ud_fails db then (Some ErrUserDatabase, db)
        else if toolNames \<noteq> [] \<and> \<not> list_ex (\<lambda>u. us_ID u = uid) (ud_users db) then (Some ErrUnknownUser, db)
        else if \<not> distinct (map up_ToolName added) then (Some ErrUserDuplicate, db)
        else (None, db\<lparr>ud_perms := kept @ added\<rparr>))"

section \<open>API keys\<close>

datatype key_error = ErrKeyDatabase | ErrKeyDuplicate

record APIKeyDB =
  kd_rows :: "APIKey list"
  kd_now :: time
  kd_fails :: bool

definition APIKey_Create :: "string \<Rightarrow> APIKey \<Rightarrow> APIKeyDB \<Rightarrow> key_error option \<times> APIKeyDB" where
  "APIKey_Create uuid key db =
    (let profile = (if ak_PolicyProfile key = '''' then ''default'' else ak_PolicyProfile key);
         row = key\<lparr>ak_ID := uuid, ak_PolicyProfile := profile, ak_CreatedAt := kd_now db\<rparr>
     in if kd_fails db then (Some ErrKeyDatabase, db)
        else if list_ex (\<lambda>k. ak_KeyLookupHash k = ak_KeyLookupHash key) (kd_rows db) then (Some ErrKeyDuplicate, db)
        else (None, db\<lparr>kd_rows := kd_rows db @ [row]\<rparr>))"

text \<open>A key that is missing or expired is reported as an error, like a failing database.\<close>

definition GetByLookupHash :: "APIKeyDB \<Rightarrow> string \<Rightarrow> unit + APIKey option" where
  "GetByLookupHash db lookupHash =
    (if kd_fails db then Inl ()
     else case find (\<lambda>k. ak_KeyLookupHash k = lookupHash
                         \<and> (case ak_ExpiresAt k of None \<Rightarrow> True | Some t \<Rightarrow> t > kd_now db)) (kd_rows db) of
            None \<Rightarrow> Inl ()
          | Some k \<Rightarrow> Inr (Some k))"

definition APIKey_List :: "APIKeyDB \<Rightarrow> key_error + APIKey list" where
  "APIKey_List db =
    (if kd_fails db then Inl ErrKeyDatabase else Inr (sort_key (\<lambda>k. - ak_CreatedAt k) (kd_rows db)))"

definition Revoke :: "string \<Rightarrow> APIKeyDB \<Rightarrow> key_error option \<times> APIKeyDB" where
  "Revoke kid db =
    (if kd_fails db then (Some ErrKeyDatabase, db)
     else (None, db\<lparr>kd_rows := map (\<lambda>k. if ak_ID k = kid then k\<lparr>ak_ExpiresAt := Some (kd_now db)\<rparr> else k) (kd_rows db)\<rparr>))"

definition DeleteExpired :: "APIKeyDB \<Rightarrow> (key_error + nat) \<times> APIKeyDB" where
  "DeleteExpired db =
    (if kd_fails db then (Inl ErrKeyDatabase, db)
     else
       let expired = (\<lambda>k. case ak_ExpiresAt k of None \<Rightarrow> False | Some t \<Rightarrow> t < kd_now db)
       in (Inr (length (filter expired (kd_rows db))), db\<lparr>kd_rows := filter (\<lambda>k. \<not> expired k) (kd_rows db)\<rparr>))"

section \<open>The audit log\<close>

record audit_row =
  ar_entry :: AuditEntry
  ar_CreatedAt :: time

record AuditDB =
  ad_rows :: "audit_row list"
  ad_now :: time
  ad_fails :: bool

record AuditFilter =
  af_EventType :: string
  af_ClientID :: string
  af_Username :: string
  af_ServerName :: string
  af_DetailsSearch :: string
  af_SortBy :: string
  af_SortDir :: string
  af_Since :: "time option"
  af_Until :: "time option"
  af_Limit :: int
  af_Offset :: int

definition normalizeAuditUsername :: "string \<Rightarrow> string" where
  "normalizeAuditUsername clientID =
    (let i = TrimSpace clientID; lower = ToLower i
     in if i = '''' then ''system''
        else if HasPrefix lower ''spiffe://'' \<or> HasPrefix lower ''server:'' then ''system''
        else i)"

definition Audit_Log :: "AuditEntry \<Rightarrow> AuditDB \<Rightarrow> bool \<times> AuditDB" where
  "Audit_Log entry db =
    (let username = TrimSpace (ae_Username entry);
         username = (if username = '''' then normalizeAuditUsername (ae_ClientID entry) else username)
     in if ad_fails db then (False, db)
        else (True, db\<lparr>ad_rows := ad_rows db @ [\<lparr>ar_entry = entry\<lparr>ae_Username := username\<rparr>, ar_CreatedAt = ad_now db\<rparr>]\<rparr>))"

text \<open>\<open>render\<close> is the text PostgreSQL gives for a JSON value.\<close>

definition audit_where :: "((string \<times> json) list \<Rightarrow> string) \<Rightarrow> AuditFilter \<Rightarrow> audit_row \<Rightarrow> bool" where
  "audit_where render f row =
    (let e = ar_entry row
     in (case optionalString (af_EventType f) of None \<Rightarrow> True | Some v \<Rightarrow> ae_EventType e = v)
        \<and> (case optionalString (af_ClientID f) of None \<Rightarrow> True | Some v \<Rightarrow> ae_ClientID e = v)
        \<and> (case optionalILikeString (af_ServerName f) of None \<Rightarrow> True | Some v \<Rightarrow> like_anywhere (ae_ServerName e) v)
        \<and> (case af_Since f of None \<Rightarrow> True | Some t \<Rightarrow> ar_CreatedAt row \<ge> t)
        \<and> (case af_Until f of None \<Rightarrow> True | Some t \<Rightarrow> ar_CreatedAt row \<le> t)
        \<and> (case optionalILikeString (af_DetailsSearch f) of None \<Rightarrow> True | Some v \<Rightarrow> like_anywhere (render (ae_Details e)) v)
        \<and> (case optionalILikeString (af_Username f) of None \<Rightarrow> True | Some v \<Rightarrow> like_anywhere (ae_Username e) v))"

definition audit_ordered :: "string \<Rightarrow> string \<Rightarrow> audit_row list \<Rightarrow> audit_row list" where
  "audit_ordered orderBy sortDir rows =
    (let sorted = (if orderBy = ''event_type'' then sort_key (ae_EventType \<circ> ar_entry) rows
                   else if orderBy = ''username'' then sort_key (ae_Username \<circ> ar_entry) rows
                   else if orderBy = ''server_name'' then sort_key (ae_ServerName \<circ> ar_entry) rows
                   else sort_key ar_CreatedAt rows)
     in if sortDir = ''asc'' then sorted else rev sorted)"

definition Audit_Query ::
  "((string \<times> json) list \<Rightarrow> string) \<Rightarrow> AuditFilter \<Rightarrow> AuditDB \<Rightarrow> unit + audit_row list" where
  "Audit_Query render f db =
    (let limit = (if af_Limit f > 0 then af_Limit f else MaxInt64);
         offset = (if af_Offset f > 0 then af_Offset f else 0)
     in if ad_fails db then Inl ()
        else Inr (page limit offset
               (audit_ordered (NormalizeAuditSortBy (af_SortBy f)) (NormalizeAuditSortDir (af_SortDir f))
                  (filter (audit_where render f) (ad_rows db)))))"

definition Audit_Count :: "((string \<times> json) list \<Rightarrow> string) \<Rightarrow> AuditFilter \<Rightarrow> AuditDB \<Rightarrow> unit + nat" where
  "Audit_Count render f db =
    (if ad_fails db then Inl () else Inr (length (filter (audit_where render f) (ad_rows db))))"

definition Day :: duration where
  "Day = 24 * 60 * Minute"

definition cleanupAuditLog :: "int \<Rightarrow> AuditDB \<Rightarrow> (unit + nat) \<times> AuditDB" where
  "cleanupAuditLog retentionDays db =
    (if ad_fails db then (Inl (), db)
     else
       let old = (\<lambda>row. ar_CreatedAt row < ad_now db - retentionDays * Day)
       in (Inr (length (filter old (ad_rows db))), db\<lparr>ad_rows := filter (\<lambda>row. \<not> old row) (ad_rows db)\<rparr>))"

text \<open>One tick of the background loop, which runs only for positive settings.\<close>

definition audit_retention_tick :: "int \<Rightarrow> duration \<Rightarrow> AuditDB \<Rightarrow> AuditDB" where
  "audit_retention_tick retentionDays interval db =
    (if retentionDays \<le> 0 \<or> interval \<le> 0 then db else snd (cleanupAuditLog retentionDays db))"

section \<open>Registration of users\<close>

definition oidc_user :: "Identity \<Rightarrow> User" where
  "oidc_user d =
    \<lparr>us_ID = id_ID d, us_OIDCSub = id_ID d, us_Email = metadata d ''email'', us_DisplayName = metadata d ''display_name'',
     us_Role = RoleUser, us_CreatedAt = 0, us_UpdatedAt = 0\<rparr>"

definition registered_entry :: "Identity \<Rightarrow> AuditEntry" where
  "registered_entry d =
    \<lparr>ae_EventType = ''user.registered'', ae_ClientID = id_ID d, ae_Username = '''', ae_ServerName = '''',
     ae_Details = [(''oidc_sub'', JStr (id_ID d)), (''email'', JStr (metadata d ''email''))]\<rparr>"

definition autoRegisterOIDCUser ::
  "Identity option \<Rightarrow> UserDB \<Rightarrow> AuditDB option \<Rightarrow> UserDB \<times> AuditDB option" where
  "autoRegisterOIDCUser i db auditStore =
    (case i of
       None \<Rightarrow> (db, auditStore)
     | Some d \<Rightarrow>
         (case User_Upsert (oidc_user d) db of
            (Some e, db1) \<Rightarrow> (db1, auditStore)
          | (None, db1) \<Rightarrow> (db1, map_option (\<lambda>a. snd (Audit_Log (registered_entry d) a)) auditStore)))"

section \<open>Classifications, synonyms, reindexing\<close>

text \<open>\<open>fails\<close>: the database does not answer this statement.\<close>

record ToolFilter =
  tf_Query :: string
  tf_RiskLevel :: RiskLevel
  tf_Limit :: int
  tf_Offset :: int

definition Classification_GetAll :: "bool \<Rightarrow> ClassificationStore \<Rightarrow> unit + ToolClassification list" where
  "Classification_GetAll fails s = (if fails then Inl () else Inr (sort_key tc_ToolName (map snd (cs_rows s))))"

definition Classification_GetByRiskLevel ::
  "bool \<Rightarrow> RiskLevel \<Rightarrow> ClassificationStore \<Rightarrow> unit + ToolClassification list" where
  "Classification_GetByRiskLevel fails level s =
    (if fails then Inl ()
     else Inr (sort_key tc_ToolName (filter (\<lambda>c. tc_RiskLevel c = level) (map snd (cs_rows s)))))"

definition Classification_Search ::
  "bool \<Rightarrow> ToolFilter \<Rightarrow> ClassificationStore \<Rightarrow> unit + ToolClassification list \<times> nat" where
  "Classification_Search fails f s =
    (let q = TrimSpace (tf_Query f);
         hit = (\<lambda>c. (q = '''' \<or> like_anywhere (tc_ToolName c) (escapeILikePattern q))
                   \<and> (\<not> RiskLevel_IsValid (tf_RiskLevel f) \<or> tc_RiskLevel c = tf_RiskLevel f));
         rows = filter hit (map snd (cs_rows s));
         limit = (if tf_Limit f \<le> 0 then 50 else tf_Limit f);
         offset = (if tf_Offset f < 0 then 0 else tf_Offset f)
     in if fails then Inl () else Inr (page limit offset (sort_key tc_ToolName rows), length rows))"

record SynonymEntry =
  se_Term :: string
  se_Synonyms :: "string list"
  se_CreatedAt :: time
  se_UpdatedAt :: time

record SynonymDB =
  sy_rows :: "SynonymEntry list"
  sy_now :: time
  sy_fails :: bool

definition Synonym_List :: "SynonymDB \<Rightarrow> unit + SynonymEntry list" where
  "Synonym_List db = (if sy_fails db then Inl () else Inr (sort_key se_Term (sy_rows db)))"

definition Synonym_Upsert :: "SynonymEntry \<Rightarrow> SynonymDB \<Rightarrow> bool \<times> SynonymDB" where
  "Synonym_Upsert entry db =
    (if sy_fails db then (False, db)
     else if list_ex (\<lambda>e. se_Term e = se_Term entry) (sy_rows db)
     then (True, db\<lparr>sy_rows := map (\<lambda>e. if se_Term e = se_Term entry
                                       then e\<lparr>se_Synonyms := se_Synonyms entry, se_UpdatedAt := sy_now db\<rparr> else e)
                                 (sy_rows db)\<rparr>)
     else (True, db\<lparr>sy_rows := sy_rows db @ [entry\<lparr>se_CreatedAt := sy_now db, se_UpdatedAt := sy_now db\<rparr>]\<rparr>))"

definition Synonym_Delete :: "string \<Rightarrow> SynonymDB \<Rightarrow> bool \<times> SynonymDB" where
  "Synonym_Delete t db =
    (if sy_fails db then (False, db) else (True, db\<lparr>sy_rows := filter (\<lambda>e. se_Term e \<noteq> t) (sy_rows db)\<rparr>))"

record ReindexLogEntry =
  re_ID :: int
  re_Engine :: string
  re_Trigger :: string
  re_ToolsCount :: int
  re_DurationMs :: int
  re_Status :: string
  re_Error :: string
  re_CreatedAt :: time

record ReindexDB =
  rd_rows :: "ReindexLogEntry list"
  rd_serial :: int
  rd_now :: time
  rd_fails :: bool

text \<open>An empty error is stored as NULL and read back as the empty string; the identifier is the next value
  of a sequence.\<close>

definition Reindex_Log :: "ReindexLogEntry \<Rightarrow> ReindexDB \<Rightarrow> bool \<times> ReindexDB" where
  "Reindex_Log entry db =
    (if rd_fails db then (False, db)
     else (True, db\<lparr>rd_rows := rd_rows db @ [entry\<lparr>re_ID := rd_serial db, re_CreatedAt := rd_now db\<rparr>],
                    rd_serial := rd_serial db + 1\<rparr>))"

definition Reindex_Recent :: "int \<Rightarrow> ReindexDB \<Rightarrow> unit + ReindexLogEntry list" where
  "Reindex_Recent limit db =
    (let limit = (if limit \<le> 0 then 20 else limit)
     in if rd_fails db then Inl () else Inr (page limit 0 (sort_key (\<lambda>e. - re_CreatedAt e) (rd_rows db))))"

section \<open>Searching literally\<close>

definition esc :: "char \<Rightarrow> string" where
  "esc c = (if c \<in> {backslash, CHR ''%'', CHR ''_''} then [backslash, c] else [c])"

lemma escapeILikePattern_concat: "escapeILikePattern s = concat (map esc s)"
  by (induction s) (auto simp: escapeILikePattern_def replace_char_def esc_def Let_def)

lemma like_tokens_esc: "like_tokens (esc c @ s) = map_option ((#) (Literal c)) (like_tokens s)"
  by (auto simp: esc_def)

lemma like_tokens_escaped:
  "like_tokens (concat (map esc q) @ ''%'') = Some (map Literal q @ [AnyString])"
  by (induction q) (simp_all add: like_tokens_esc)

lemma like_match_any: "like_match [AnyString] s"
  by (induction s) simp_all

lemma like_match_literals: "like_match (map Literal q @ [AnyString]) s = prefix (ToLower q) (ToLower s)"
proof (induction q arbitrary: s)
  case Nil
  show ?case by (simp add: like_match_any ToLower_def)
next
  case (Cons d q)
  show ?case by (cases s) (auto simp: Cons.IH ToLower_def)
qed

lemma like_match_somewhere:
  "like_match (AnyString # map Literal q @ [AnyString]) s = Contains (ToLower s) (ToLower q)"
proof (induction s)
  case Nil
  show ?case by (simp add: like_match_literals Contains_def ToLower_def)
next
  case (Cons c s)
  then show ?case
    by (simp add: like_match_literals Contains_def ToLower_def)
qed

text \<open>C23. \<^bold>\<open>Search terms are matched literally.\<close>  With the escaping of \<open>escapeILikePattern\<close>, the condition
  \<open>column ILIKE '%' || term || '%'\<close> holds exactly when the column contains the term, ignoring case, whatever
  pattern characters and escapes the term contains; the pattern is never malformed.\<close>

theorem escaped_search_literal:
  "like_tokens (''%'' @ escapeILikePattern q @ ''%'') = Some (AnyString # map Literal q @ [AnyString])
   \<and> like_anywhere column (escapeILikePattern q) = Contains (ToLower column) (ToLower q)"
proof -
  have t: "like_tokens (''%'' @ escapeILikePattern q @ ''%'') = Some (AnyString # map Literal q @ [AnyString])"
    by (simp add: escapeILikePattern_concat like_tokens_escaped)
  then show ?thesis
    by (simp add: like_anywhere_def ILIKE_def like_match_somewhere del: like_tokens.simps)
qed

section \<open>Users\<close>

definition users_ok :: "UserDB \<Rightarrow> bool" where
  "users_ok db \<longleftrightarrow>
    distinct (map us_ID (ud_users db)) \<and> distinct (map us_OIDCSub (ud_users db))
    \<and> list_all UserRole_IsValid (map us_Role (ud_users db))
    \<and> distinct (map (\<lambda>p. (up_UserID p, up_ToolName p)) (ud_perms db))
    \<and> set (map up_UserID (ud_perms db)) \<subseteq> set (map us_ID (ud_users db))"

definition role_table :: "UserDB \<Rightarrow> (string \<times> UserRole) list" where
  "role_table db = map (\<lambda>u. (us_ID u, us_Role u)) (ud_users db)"

datatype user_op =
  UUpsert User | URole string UserRole | UDelete string | UGrant string "string list" string
| URegister "Identity option"

text \<open>A statement at a given time against a database that answers or not.\<close>

definition user_step :: "time \<times> bool \<times> user_op \<Rightarrow> UserDB \<Rightarrow> UserDB" where
  "user_step s db =
    (let db = db\<lparr>ud_now := fst s, ud_fails := fst (snd s)\<rparr>
     in case snd (snd s) of
          UUpsert u \<Rightarrow> snd (User_Upsert u db)
        | URole uid role \<Rightarrow> snd (UpdateRole uid role db)
        | UDelete uid \<Rightarrow> snd (User_Delete uid db)
        | UGrant uid names by \<Rightarrow> snd (SetToolPermissions uid names by db)
        | URegister i \<Rightarrow> fst (autoRegisterOIDCUser i db None))"

definition empty_users :: UserDB where
  "empty_users = \<lparr>ud_users = [], ud_perms = [], ud_now = 0, ud_fails = False\<rparr>"

definition users_run :: "(time \<times> bool \<times> user_op) list \<Rightarrow> UserDB" where
  "users_run steps = fold user_step steps empty_users"

lemma map_update_same:
  assumes "\<And>x. f (g x) = f x"
  shows "map f (map (\<lambda>x. if p x then g x else x) xs) = map f xs"
  using assms by simp

lemma users_ok_cong:
  assumes "users_ok db" and "map us_ID (ud_users db') = map us_ID (ud_users db)"
    and "map us_OIDCSub (ud_users db') = map us_OIDCSub (ud_users db)" and "ud_perms db' = ud_perms db"
    and "list_all UserRole_IsValid (map us_Role (ud_users db'))"
  shows "users_ok db'"
  using assms unfolding users_ok_def by (simp del: set_map list.pred_map)

lemma users_ok_insert:
  assumes "users_ok db" and "us_ID u \<notin> set (map us_ID (ud_users db))"
    and "us_OIDCSub u \<notin> set (map us_OIDCSub (ud_users db))" and "UserRole_IsValid (us_Role u)"
  shows "users_ok (db\<lparr>ud_users := ud_users db @ [u]\<rparr>)"
  using assms unfolding users_ok_def by (simp add: subset_insertI2)

lemma list_ex_map: "list_ex (\<lambda>u. f u = y) xs \<longleftrightarrow> y \<in> set (map f xs)"
  by (induction xs) auto

lemma Upsert_existing:
  assumes "TrimSpace (us_OIDCSub u) \<in> set (map us_OIDCSub (ud_users db))"
  shows "map us_ID (ud_users (snd (User_Upsert u db))) = map us_ID (ud_users db)
    \<and> map us_OIDCSub (ud_users (snd (User_Upsert u db))) = map us_OIDCSub (ud_users db)
    \<and> map us_Role (ud_users (snd (User_Upsert u db))) = map us_Role (ud_users db)"
  using assms by (simp add: User_Upsert_def Let_def list_ex_map del: set_map)

lemma User_Upsert_perms [simp]: "ud_perms (snd (User_Upsert u db)) = ud_perms db"
  by (simp add: User_Upsert_def Let_def)

lemma users_ok_Upsert:
  assumes "users_ok db"
  shows "users_ok (snd (User_Upsert u db))"
proof (cases "TrimSpace (us_OIDCSub u) \<in> set (map us_OIDCSub (ud_users db))")
  case True
  show ?thesis
    using assms Upsert_existing [OF True] by (simp only: users_ok_def User_Upsert_perms)
next
  case False
  show ?thesis
    using assms False unfolding User_Upsert_def Let_def list_ex_map
    by (simp add: users_ok_insert del: set_map)
qed

lemma users_ok_UpdateRole:
  assumes "users_ok db"
  shows "users_ok (snd (UpdateRole uid role db))"
proof (rule users_ok_cong [OF assms])
  have "\<forall>u \<in> set (ud_users db). UserRole_IsValid (us_Role u)"
    using assms by (simp add: users_ok_def list_all_iff)
  then show "list_all UserRole_IsValid (map us_Role (ud_users (snd (UpdateRole uid role db))))"
    by (auto simp: UpdateRole_def list_all_iff)
qed (simp_all add: UpdateRole_def)

lemma users_ok_Delete:
  assumes "users_ok db"
  shows "users_ok (snd (User_Delete uid db))"
proof -
  have "set (map up_UserID (filter (\<lambda>p. up_UserID p \<noteq> t) (ud_perms db)))
        \<subseteq> set (map us_ID (filter (\<lambda>u. us_ID u \<noteq> t) (ud_users db)))" for t
  proof -
    have "set (map f (filter (\<lambda>x. f x \<noteq> t) xs)) = set (map f xs) - {t}" for f :: "'b \<Rightarrow> string" and xs
      by auto
    moreover have "set (map f (filter (\<lambda>x. f x \<noteq> t) xs)) = set (map f xs) - {t}" for f :: "'c \<Rightarrow> string" and xs
      by auto
    ultimately show ?thesis
      using assms unfolding users_ok_def by blast
  qed
  moreover have "list_all UserRole_IsValid (map us_Role (filter p (ud_users db)))" for p
    using assms by (simp add: users_ok_def list_all_iff)
  ultimately show ?thesis
    using assms by (simp add: users_ok_def User_Delete_def distinct_map_filter del: set_map list.pred_map)
qed

lemma users_ok_Set:
  assumes "users_ok db"
  shows "users_ok (snd (SetToolPermissions uid names by db))"
proof -
  let ?kept = "filter (\<lambda>p. up_UserID p \<noteq> TrimSpace uid) (ud_perms db)"
  let ?row = "\<lambda>n. \<lparr>up_UserID = TrimSpace uid, up_ToolName = TrimSpace n, up_GrantedBy = TrimSpace by, up_GrantedAt = ud_now db\<rparr>"
  have "distinct (map (\<lambda>p. (up_UserID p, up_ToolName p)) (?kept @ map ?row names))"
    if "distinct (map up_ToolName (map ?row names))"
    using assms that by (auto simp: users_ok_def distinct_map_filter distinct_map inj_on_def)
  moreover have "set (map up_UserID (?kept @ map ?row names)) \<subseteq> set (map us_ID (ud_users db))"
    if "names \<noteq> [] \<longrightarrow> list_ex (\<lambda>u. us_ID u = TrimSpace uid) (ud_users db)"
  proof -
    have "set (map us_ID (ud_users db)) \<supseteq> (if names = [] then {} else {TrimSpace uid})"
      using that by (auto simp: list_ex_iff image_iff intro: sym)
    moreover have "set (map up_UserID (?kept @ map ?row names)) \<subseteq> set (map up_UserID (ud_perms db)) \<union> (if names = [] then {} else {TrimSpace uid})"
      by auto
    ultimately show ?thesis
      using assms unfolding users_ok_def by blast
  qed
  ultimately have "users_ok (db\<lparr>ud_perms := ?kept @ map ?row names\<rparr>)"
    if "distinct (map up_ToolName (map ?row names))" "names \<noteq> [] \<longrightarrow> list_ex (\<lambda>u. us_ID u = TrimSpace uid) (ud_users db)"
    using assms that by (simp add: users_ok_def del: map_append set_append)
  then show ?thesis
    using assms by (auto simp only: SetToolPermissions_def Let_def snd_conv split: if_split)
qed

lemma autoRegister_users:
  "fst (autoRegisterOIDCUser i db a) = (case i of None \<Rightarrow> db | Some d \<Rightarrow> snd (User_Upsert (oidc_user d) db))"
  by (simp add: autoRegisterOIDCUser_def split: option.splits prod.splits)

lemma users_ok_clock [simp]: "users_ok (db\<lparr>ud_now := t, ud_fails := b\<rparr>) = users_ok db"
  by (simp add: users_ok_def)

lemma users_ok_step: "users_ok db \<Longrightarrow> users_ok (user_step s db)"
  unfolding user_step_def Let_def
  by (cases "snd (snd s)")
    (auto simp: autoRegister_users split: option.split
      intro!: users_ok_Upsert users_ok_UpdateRole users_ok_Delete users_ok_Set)

lemma users_ok_run: "users_ok (users_run steps)"
  unfolding users_run_def
proof (induction steps rule: rev_induct)
  case Nil
  show ?case by (simp add: users_ok_def empty_users_def)
next
  case (snoc s steps)
  then show ?case by (simp add: users_ok_step)
qed

lemma Upsert_roles:
  "\<exists>new. role_table (snd (User_Upsert u db)) = role_table db @ new
     \<and> set (map snd new) \<subseteq> {if UserRole_IsValid (us_Role u) then us_Role u else RoleUser}"
  by (auto simp: role_table_def User_Upsert_def Let_def comp_def if_distrib [of us_ID] if_distrib [of us_Role]
        cong: if_cong)

text \<open>C24. \<^bold>\<open>The user tables stay consistent and registration never changes a role.\<close>  After any sequence of
  upserts, role changes, deletions, grants and registrations, with the database failing at any point:
  identifiers and subjects are unique, every role is one of the four, no permission is listed twice and
  every permission belongs to a user.  A registration by the OIDC middleware, also with failures, then
  keeps every user's role, whatever it is, and can only add a user of role \<open>user\<close>.\<close>

theorem users_run_ok:
  "users_ok (users_run steps)
   \<and> (\<exists>new. role_table (fst (autoRegisterOIDCUser i ((users_run steps)\<lparr>ud_now := t, ud_fails := b\<rparr>) audit))
             = role_table (users_run steps) @ new \<and> set (map snd new) \<subseteq> {RoleUser})"
proof -
  have role: "role_table (db\<lparr>ud_now := t, ud_fails := b\<rparr>) = role_table db" for db
    by (simp add: role_table_def)
  have "\<exists>new. role_table (fst (autoRegisterOIDCUser i db audit)) = role_table db @ new \<and> set (map snd new) \<subseteq> {RoleUser}" for db
    using Upsert_roles [of "oidc_user d" db for d]
    by (cases i) (auto simp: autoRegister_users oidc_user_def)
  then show ?thesis
    using users_ok_run role by metis
qed

lemma SetToolPermissions_roundtrip:
  assumes "SetToolPermissions uid names by db = (None, db')" and "ud_fails db' = False"
  shows "HasToolPermission u t db'
    = (if TrimSpace u = TrimSpace uid then Inr (TrimSpace t \<in> TrimSpace ` set names) else HasToolPermission u t db)"
proof -
  let ?hit = "\<lambda>p. up_UserID p = TrimSpace u \<and> up_ToolName p = TrimSpace t"
  have db': "ud_perms db' = filter (\<lambda>p. up_UserID p \<noteq> TrimSpace uid) (ud_perms db) @
      map (\<lambda>n. \<lparr>up_UserID = TrimSpace uid, up_ToolName = TrimSpace n, up_GrantedBy = TrimSpace by, up_GrantedAt = ud_now db\<rparr>) names"
    and f: "\<not> ud_fails db"
    using assms(1) by (auto simp: SetToolPermissions_def Let_def split: if_splits)
  have has: "HasToolPermission u t d = Inr (\<exists>p \<in> set (ud_perms d). ?hit p)" if "\<not> ud_fails d" for d
    using that by (auto simp: HasToolPermission_def filter_empty_conv)
  show ?thesis
    using assms(2) f by (auto simp: has db' bex_Un image_iff eq_commute [of "TrimSpace t"])
qed

lemma SetToolPermissions_error: "SetToolPermissions uid names by db = (Some e, db') \<Longrightarrow> db' = db"
  by (auto simp: SetToolPermissions_def Let_def split: if_splits)

section \<open>Revoked keys\<close>

datatype key_op = KCreate string APIKey | KRevoke string | KDeleteExpired

text \<open>A statement after some time has passed, against a database that answers or not.\<close>

definition key_step :: "nat \<times> bool \<times> key_op \<Rightarrow> APIKeyDB \<Rightarrow> APIKeyDB" where
  "key_step s db =
    (let db = db\<lparr>kd_now := kd_now db + int (fst s), kd_fails := fst (snd s)\<rparr>
     in case snd (snd s) of
          KCreate uuid key \<Rightarrow> snd (APIKey_Create uuid key db)
        | KRevoke kid \<Rightarrow> snd (Revoke kid db)
        | KDeleteExpired \<Rightarrow> snd (DeleteExpired db))"

definition empty_keys :: "time \<Rightarrow> APIKeyDB" where
  "empty_keys t = \<lparr>kd_rows = [], kd_now = t, kd_fails = False\<rparr>"

definition keys_run :: "(nat \<times> bool \<times> key_op) list \<Rightarrow> APIKeyDB \<Rightarrow> APIKeyDB" where
  "keys_run steps db = fold key_step steps db"

definition creates :: "string \<Rightarrow> nat \<times> bool \<times> key_op \<Rightarrow> bool" where
  "creates h s = (case snd (snd s) of KCreate uuid key \<Rightarrow> ak_KeyLookupHash key = h | _ \<Rightarrow> False)"

definition dead :: "string \<Rightarrow> APIKeyDB \<Rightarrow> bool" where
  "dead h db \<longleftrightarrow> (\<forall>k \<in> set (kd_rows db). ak_KeyLookupHash k = h \<longrightarrow> (\<exists>t. ak_ExpiresAt k = Some t \<and> t \<le> kd_now db))"

lemma dead_step: "dead h db \<Longrightarrow> \<not> creates h s \<Longrightarrow> dead h (key_step s db)"
  by (cases "snd (snd s)")
    (force simp: dead_def creates_def key_step_def APIKey_Create_def Revoke_def DeleteExpired_def Let_def)+

lemma dead_run: "dead h db \<Longrightarrow> list_all (\<lambda>s. \<not> creates h s) steps \<Longrightarrow> dead h (keys_run steps db)"
  unfolding keys_run_def by (induction steps arbitrary: db) (simp_all add: dead_step)

lemma dead_lookup: "dead h db \<Longrightarrow> GetByLookupHash db h = Inl ()"
  by (auto simp: GetByLookupHash_def dead_def find_Some_iff split: option.splits)

lemma distinct_hashes_step:
  "distinct (map ak_KeyLookupHash (kd_rows db)) \<Longrightarrow> distinct (map ak_KeyLookupHash (kd_rows (key_step s db)))"
  by (cases "snd (snd s)")
    (auto simp: key_step_def APIKey_Create_def Revoke_def DeleteExpired_def Let_def distinct_map_filter
      list_ex_iff comp_def if_distrib [of ak_KeyLookupHash] cong: if_cong)

lemma distinct_hashes_run: "distinct (map ak_KeyLookupHash (kd_rows (keys_run steps (empty_keys t))))"
  unfolding keys_run_def
  by (induction steps rule: rev_induct) (simp_all add: distinct_hashes_step empty_keys_def)

lemma Revoke_dead:
  assumes "distinct (map ak_KeyLookupHash (kd_rows db))" and "k \<in> set (kd_rows db)" and "Revoke (ak_ID k) db = (None, db1)"
  shows "dead (ak_KeyLookupHash k) db1"
proof -
  have only: "k' = k" if "k' \<in> set (kd_rows db)" "ak_KeyLookupHash k' = ak_KeyLookupHash k" for k'
    using assms(1,2) that by (simp add: distinct_map inj_on_def)
  show ?thesis
    using assms(3) by (auto simp: Revoke_def dead_def split: if_splits dest: only)
qed

text \<open>C25. \<^bold>\<open>A revoked API key stays refused.\<close>  In a table built by any sequence of statements, revoke a key
  by its identifier; then, whatever statements follow and however often the database fails, as long as
  nobody creates a key with the same hash again, a request presenting the key is answered 401.\<close>

theorem revoked_key_refused:
  assumes "k \<in> set (kd_rows (keys_run before (empty_keys t)))"
    and "Revoke (ak_ID k) (keys_run before (empty_keys t)) = (None, db)"
    and "list_all (\<lambda>s. \<not> creates (ak_KeyLookupHash k) s) later"
    and "au_apiKeyStore A = Some (GetByLookupHash (keys_run later db))"
    and "extractAPIKey (rq_Authorization r) (rq_XAPIKey r) = Some key" and "au_sha256 A key = ak_KeyLookupHash k"
  shows "APIKeyMiddleware A r ctx = Deny 401 ''invalid api key''"
proof -
  have "dead (ak_KeyLookupHash k) (keys_run later db)"
    by (rule dead_run [OF Revoke_dead [OF distinct_hashes_run assms(1,2)] assms(3)])
  then show ?thesis
    using assms(4-6) by (simp add: APIKeyMiddleware_def validate_key_def lookupRecord_def dead_lookup)
qed

definition example_row :: APIKey where
  "example_row = example_key\<lparr>ak_ID := ''1'', ak_PolicyProfile := ''default'', ak_CreatedAt := 5, ak_ExpiresAt := None\<rparr>"

definition example_revoked :: auth_env where
  "example_revoked = example_auth\<lparr>au_apiKeyStore := Some (GetByLookupHash (keys_run [(3, False, KDeleteExpired)]
     \<lparr>kd_rows = [example_row\<lparr>ak_ExpiresAt := Some 5\<rparr>], kd_now = 5, kd_fails = False\<rparr>))\<rparr>"

theorem revoked_key_refused_witness:
  "APIKeyMiddleware example_revoked \<lparr>rq_Authorization = '''', rq_XAPIKey = ''mcpgw_k''\<rparr>
     \<lparr>cx_identity = None, cx_serverScope = []\<rparr> = Deny 401 ''invalid api key''"
proof -
  let ?before = "[(5, False, KCreate ''1'' example_row)]"
  have run: "keys_run ?before (empty_keys 0) = \<lparr>kd_rows = [example_row], kd_now = 5, kd_fails = False\<rparr>"
    by (simp add: keys_run_def key_step_def empty_keys_def APIKey_Create_def example_row_def example_key_def)
  have t: "TrimSpace ''mcpgw_k'' = ''mcpgw_k''"
    by (rule TrimSpace_word) (simp add: trimmed_word_def visible_def)
  show ?thesis
  proof (rule revoked_key_refused [where before = ?before and t = 0 and k = example_row
        and later = "[(3, False, KDeleteExpired)]" and key = "''mcpgw_k''"
        and db = "\<lparr>kd_rows = [example_row\<lparr>ak_ExpiresAt := Some 5\<rparr>], kd_now = 5, kd_fails = False\<rparr>"])
    show "example_row \<in> set (kd_rows (keys_run ?before (empty_keys 0)))"
      by (simp add: run)
    show "Revoke (ak_ID example_row) (keys_run ?before (empty_keys 0))
        = (None, \<lparr>kd_rows = [example_row\<lparr>ak_ExpiresAt := Some 5\<rparr>], kd_now = 5, kd_fails = False\<rparr>)"
      unfolding run by (simp add: Revoke_def)
  qed (simp_all add: creates_def example_revoked_def extractAPIKey_def HasPrefix_def t example_row_def example_key_def example_auth_def)
qed

end
