(* ===== verification/Tool_Catalog.thy ===== *)
theory Tool_Catalog
  imports Routing Discovery Stores
begin

text \<open>
  The tools and resources the gateway advertises: the listing calls of \<^verbatim>\<open>src/internal/proxy/client.go\<close>, the
  cache and the aggregation of \<^verbatim>\<open>tools.go\<close>, \<^verbatim>\<open>catalog.go\<close>, \<^verbatim>\<open>resources.go\<close>, the client table of \<^verbatim>\<open>server.go\<close>, and
  the handlers of \<^verbatim>\<open>server_list.go\<close>, \<^verbatim>\<open>discovery_doc.go\<close> and \<^verbatim>\<open>virtual_server.go\<close>.

  The proxy and its router share backend clients by pointer: once the proxy has created the client of a
  server, the router's resilient client of that server wraps the same one.  The model keeps the client in
  the router's table and, for the proxy, the identifiers of the servers it created a client for.

  The lemmas show that a listing has no duplicate names, that every listed tool is offered by a server of
  the index under that name, that the cache serves nothing older than its lifetime, and that the address of
  a backend is the one its client was created with.
\<close>

section \<open>Listing calls\<close>

text \<open>A tool as the MCP library decodes it; a schema that is not raw is given by the result of encoding it, and
  absent hints of the annotations are \<open>JNull\<close>.\<close>

record mcp_tool =
  mt_Name :: string
  mt_Description :: string
  mt_RawInputSchema :: string
  mt_InputSchema :: "goerr + string"
  mt_RawOutputSchema :: string
  mt_OutputType :: string
  mt_OutputSchema :: "goerr + string"
  mt_Annotations :: ToolAnnotation
  mt_DeferLoading :: bool
  mt_Icons :: "json list"
  mt_Execution :: "json option"
  mt_Meta :: "json option"

record ResourceDefinition =
  rd_URI :: string
  rd_Name :: string
  rd_Description :: string
  rd_MimeType :: string

record ResourceContent =
  rc_URI :: string
  rc_MimeType :: string
  rc_Text :: string

datatype resource_contents = TextResource string string string | BlobResource string string string | OtherResource

record 'w mcp_lists =
  ml_ListTools :: "string \<Rightarrow> 'w \<Rightarrow> (goerr + mcp_tool list) \<times> 'w"
  ml_ListResources :: "string \<Rightarrow> 'w \<Rightarrow> (goerr + ResourceDefinition list) \<times> 'w"
  ml_ReadResource :: "string \<Rightarrow> string \<Rightarrow> 'w \<Rightarrow> (goerr + resource_contents list) \<times> 'w"

definition toolInputSchemaJSON :: "mcp_tool \<Rightarrow> goerr + string" where
  "toolInputSchemaJSON tool =
    (if mt_RawInputSchema tool \<noteq> '''' then Inr (mt_RawInputSchema tool)
     else case mt_InputSchema tool of
            Inl e \<Rightarrow> Inl e
          | Inr bytes \<Rightarrow> Inr (if bytes = '''' \<or> bytes = ''null'' then ''{}'' else bytes))"

definition toolOutputSchemaJSON :: "mcp_tool \<Rightarrow> goerr + string" where
  "toolOutputSchemaJSON tool =
    (if mt_RawOutputSchema tool \<noteq> '''' then Inr (mt_RawOutputSchema tool)
     else if mt_OutputType tool \<noteq> '''' then mt_OutputSchema tool
     else Inr '''')"

definition annotationsFromTool :: "mcp_tool \<Rightarrow> ToolAnnotation option" where
  "annotationsFromTool tool =
    (let a = mt_Annotations tool in if ta_Title a = '''' \<and> ta_Hints a = JNull then None else Some a)"

fun tool_definitions :: "mcp_tool list \<Rightarrow> goerr + ToolDefinition list" where
  "tool_definitions [] = Inr []"
| "tool_definitions (tool # rest) =
    (case toolInputSchemaJSON tool of
       Inl e \<Rightarrow> Inl (WrapError (OtherContext ''list tools: encode schema'') e)
     | Inr schema \<Rightarrow>
         (case toolOutputSchemaJSON tool of
            Inl e \<Rightarrow> Inl (WrapError (OtherContext ''list tools: encode output schema'') e)
          | Inr outSchema \<Rightarrow>
              map_sum id
                (\<lambda>defs. \<lparr>td_Name = mt_Name tool, td_Description = mt_Description tool, td_InputSchema = schema,
                         td_OutputSchema = outSchema, td_Annotations = annotationsFromTool tool,
                         td_DeferLoading = mt_DeferLoading tool, td_Icons = mt_Icons tool,
                         td_Execution = mt_Execution tool, td_Meta = mt_Meta tool\<rparr> # defs)
                (tool_definitions rest)))"

definition BackendClient_ListTools ::
  "'w mcp_lib \<Rightarrow> 'w mcp_lists \<Rightarrow> BackendClient \<times> 'w \<Rightarrow> (goerr + ToolDefinition list) \<times> BackendClient \<times> 'w" where
  "BackendClient_ListTools M L st =
    (let (c, w) = st
     in case ensureInitialized M c w of
          (Some e, c1, w1) \<Rightarrow> (Inl (WrapError (OtherContext ''list tools'') e), c1, w1)
        | (None, c1, w1) \<Rightarrow>
            (case ml_ListTools L (bc_baseURL c1) w1 of
               (Inl e, w2) \<Rightarrow> (Inl (WrapError (OtherContext ''list tools: backend call'') e), c1, w2)
             | (Inr tools, w2) \<Rightarrow> (tool_definitions tools, c1, w2)))"

definition BackendClient_ListResources ::
  "'w mcp_lib \<Rightarrow> 'w mcp_lists \<Rightarrow> BackendClient \<times> 'w \<Rightarrow> (goerr + ResourceDefinition list) \<times> BackendClient \<times> 'w" where
  "BackendClient_ListResources M L st =
    (let (c, w) = st
     in case ensureInitialized M c w of
          (Some e, c1, w1) \<Rightarrow> (Inl (WrapError (OtherContext ''list resources'') e), c1, w1)
        | (None, c1, w1) \<Rightarrow>
            (case ml_ListResources L (bc_baseURL c1) w1 of
               (Inl e, w2) \<Rightarrow> (Inl (WrapError (OtherContext ''list resources: backend call'') e), c1, w2)
             | (Inr resources, w2) \<Rightarrow> (Inr resources, c1, w2)))"

definition BackendClient_ReadResource ::
  "'w mcp_lib \<Rightarrow> 'w mcp_lists \<Rightarrow> string \<Rightarrow> BackendClient \<times> 'w \<Rightarrow> (goerr + ResourceContent) \<times> BackendClient \<times> 'w" where
  "BackendClient_ReadResource M L uri st =
    (let (c, w) = st
     in case ensureInitialized M c w of
          (Some e, c1, w1) \<Rightarrow> (Inl (WrapError (OtherContext ''read resource'') e), c1, w1)
        | (None, c1, w1) \<Rightarrow>
            (case ml_ReadResource L (bc_baseURL c1) (TrimSpace uri) w1 of
               (Inl e, w2) \<Rightarrow> (Inl (WrapError (OtherContext ''read resource: backend call'') e), c1, w2)
             | (Inr [], w2) \<Rightarrow> (Inl (PlainError ''read resource: empty content''), c1, w2)
             | (Inr (content # rest), w2) \<Rightarrow>
                 (case content of
                    TextResource u mime text \<Rightarrow> Inr \<lparr>rc_URI = u, rc_MimeType = mime, rc_Text = text\<rparr>
                  | BlobResource u mime blob \<Rightarrow> Inr \<lparr>rc_URI = u, rc_MimeType = mime, rc_Text = blob\<rparr>
                  | OtherResource \<Rightarrow> Inl (PlainError ''read resource: unsupported resource content type''), c1, w2)))"

definition BackendClient_Close :: "goerr option \<Rightarrow> BackendClient \<Rightarrow> goerr option \<times> BackendClient" where
  "BackendClient_Close close_err c =
    (if \<not> bc_client c then (None, c)
     else case close_err of
            Some e \<Rightarrow> (Some (WrapError (OtherContext ''close backend client'') e), c)
          | None \<Rightarrow> (None, c\<lparr>bc_client := False, bc_initialized := False\<rparr>))"

section \<open>The tool cache\<close>

abbreviation defaultToolCacheTTL :: duration where
  "defaultToolCacheTTL \<equiv> 30 * Second"

record cachedTool =
  ct_definition :: ToolDefinition
  ct_fetchedAt :: time
  ct_serverID :: string
  ct_serverName :: string

record ToolCache =
  tl_tools :: "(string, cachedTool) gomap"
  tl_ttl :: duration

definition NewToolCache :: "duration \<Rightarrow> ToolCache" where
  "NewToolCache ttl = \<lparr>tl_tools = [], tl_ttl = (if ttl \<le> 0 then defaultToolCacheTTL else ttl)\<rparr>"

definition GetWithMeta :: "time \<Rightarrow> string \<Rightarrow> ToolCache \<Rightarrow> cachedTool option \<times> ToolCache" where
  "GetWithMeta now name c =
    (let key = TrimSpace name
     in if key = '''' then (None, c)
        else case map_of (tl_tools c) key of
               None \<Rightarrow> (None, c)
             | Some entry \<Rightarrow>
                 if now - ct_fetchedAt entry > tl_ttl c then (None, c\<lparr>tl_tools := mdel key (tl_tools c)\<rparr>)
                 else (Some entry, c))"

definition ToolCache_Get :: "time \<Rightarrow> string \<Rightarrow> ToolCache \<Rightarrow> ToolDefinition option \<times> ToolCache" where
  "ToolCache_Get now name c =
    (let key = TrimSpace name
     in if key = '''' then (None, c)
        else case map_of (tl_tools c) key of
               None \<Rightarrow> (None, c)
             | Some entry \<Rightarrow>
                 if now - ct_fetchedAt entry > tl_ttl c then (None, c\<lparr>tl_tools := mdel key (tl_tools c)\<rparr>)
                 else (Some (ct_definition entry), c))"

definition ToolCache_Set :: "time \<Rightarrow> string \<Rightarrow> ToolDefinition \<Rightarrow> string \<Rightarrow> string \<Rightarrow> ToolCache \<Rightarrow> ToolCache" where
  "ToolCache_Set now name def serverID serverName c =
    (let key = TrimSpace name
     in if key = '''' then c
        else c\<lparr>tl_tools := mput key \<lparr>ct_definition = def, ct_fetchedAt = now, ct_serverID = TrimSpace serverID,
                                     ct_serverName = TrimSpace serverName\<rparr> (tl_tools c)\<rparr>)"

definition ToolCache_Invalidate :: "ToolCache \<Rightarrow> ToolCache" where
  "ToolCache_Invalidate c = c\<lparr>tl_tools := []\<rparr>"

definition InvalidateServer :: "string \<Rightarrow> ToolCache \<Rightarrow> ToolCache" where
  "InvalidateServer serverID c =
    (let sid = TrimSpace serverID
     in if sid = '''' then c else c\<lparr>tl_tools := filter (\<lambda>(name, entry). ct_serverID entry \<noteq> sid) (tl_tools c)\<rparr>)"

section \<open>The proxy server\<close>

text \<open>A tool of the MCP server's registry is one of a backend or one of the gateway's own.\<close>

datatype registered_tool = BackendTool ToolDefinition | SearchTools | GetToolSchema | Orchestrate | RequestAccess

text \<open>A user or audit store that is not configured is \<open>None\<close>.  The capability index is the router's.\<close>

record ('s, 'b, 'e) ProxyServer =
  ps_router :: "('s, 'b) Router"
  ps_clients :: "string list"
  ps_toolCache :: ToolCache
  ps_backendTimeout :: duration
  ps_nsResolver :: "NamespaceResolver option"
  ps_progressive :: bool
  ps_orchestrator :: bool
  ps_audit :: "AuditDB option"
  ps_users :: "UserDB option"
  ps_discovery :: "'e DiscoveryIndex option"
  ps_lastSync :: "time option"
  ps_tools :: "(string, registered_tool) gomap"
  ps_resources :: "(string, ResourceDefinition) gomap"

definition getOrCreateClient :: "ServerRecord \<Rightarrow> ('s, 'b, 'e) ProxyServer \<Rightarrow> ('s, 'b, 'e) ProxyServer" where
  "getOrCreateClient record p =
    (case (if sr_ID record \<in> set (ps_clients p) then map_of (rt_clients (ps_router p)) (sr_ID record) else None) of
       Some client \<Rightarrow> p\<lparr>ps_router := StoreBackendClient record (rsc_backend client) (ps_router p)\<rparr>
     | None \<Rightarrow>
         p\<lparr>ps_clients := sr_ID record # ps_clients p,
           ps_router := StoreBackendClient record (NewBackendClient record (ps_backendTimeout p)) (ps_router p)\<rparr>)"

text \<open>A call on the client of a server, which leaves its session state in the shared client.\<close>

definition with_client ::
  "(BackendClient \<times> 'w \<Rightarrow> 'a \<times> BackendClient \<times> 'w) \<Rightarrow> ServerRecord \<Rightarrow> ('s, 'b, 'e) ProxyServer \<Rightarrow> 'w
   \<Rightarrow> 'a \<times> ('s, 'b, 'e) ProxyServer \<times> 'w" where
  "with_client call record p w =
    (let p1 = getOrCreateClient record p; sid = sr_ID record; r = ps_router p1;
         client = the (map_of (rt_clients r) sid);
         (res, backend, w1) = call (rsc_backend client, w)
     in (res, p1\<lparr>ps_router := r\<lparr>rt_clients := mput sid (client\<lparr>rsc_backend := backend\<rparr>) (rt_clients r)\<rparr>\<rparr>, w1))"

definition federatedToolName :: "ServerRecord \<Rightarrow> string \<Rightarrow> string" where
  "federatedToolName server toolName =
    (let base = TrimSpace toolName;
         serverName = (let n = TrimSpace (sr_Name server) in if n = '''' then TrimSpace (sr_ID server) else n);
         displayName = TrimPrefix serverName ''mcp-''
     in if base = '''' \<or> serverName = '''' then ''''
        else if HasPrefix base (displayName @ ''.'') then base
        else displayName @ ''.'' @ base)"

definition aggregated_name :: "CapabilityIndex \<Rightarrow> NamespaceResolver option \<Rightarrow> ServerRecord \<Rightarrow> string \<Rightarrow> string" where
  "aggregated_name i ns server toolName =
    (if ns \<noteq> None \<and> Mode ns \<noteq> NamespaceModeReject
     then ApplyNamespace i ns toolName (let n = TrimSpace (sr_Name server) in if n = '''' then TrimSpace (sr_ID server) else n)
     else federatedToolName server toolName)"

section \<open>Aggregation\<close>

record toolAggregator =
  ag_result :: "ToolDefinition list"
  ag_seen :: "string list"
  ag_backendDefs :: "(string, (string, ToolDefinition) gomap) gomap"

type_synonym ('s, 'b, 'e, 'w) agg_state = "toolAggregator \<times> ('s, 'b, 'e) ProxyServer \<times> 'w"

definition by_tool_name :: "ToolDefinition list \<Rightarrow> (string, ToolDefinition) gomap" where
  "by_tool_name defs =
    foldl (\<lambda>m def. let name = TrimSpace (td_Name def) in if name = '''' then m else mput name def m) [] defs"

definition loadBackendDefinitions ::
  "'w mcp_lib \<Rightarrow> 'w mcp_lists \<Rightarrow> ServerRecord \<Rightarrow> ('s, 'b, 'e, 'w) agg_state
   \<Rightarrow> (string, ToolDefinition) gomap \<times> ('s, 'b, 'e, 'w) agg_state" where
  "loadBackendDefinitions M L backend st =
    (let (ag, p, w) = st
     in case map_of (ag_backendDefs ag) (sr_ID backend) of
          Some defs \<Rightarrow> (defs, st)
        | None \<Rightarrow>
            (let (res, p1, w1) = with_client (BackendClient_ListTools M L) backend p w;
                 byName = (case res of Inl e \<Rightarrow> [] | Inr defs \<Rightarrow> by_tool_name defs)
             in (byName, ag\<lparr>ag_backendDefs := mput (sr_ID backend) byName (ag_backendDefs ag)\<rparr>, p1, w1)))"

definition resolveFromBackend ::
  "'w mcp_lib \<Rightarrow> 'w mcp_lists \<Rightarrow> 'w env \<Rightarrow> ServerRecord \<Rightarrow> string \<Rightarrow> string \<Rightarrow> ('s, 'b, 'e, 'w) agg_state
   \<Rightarrow> ToolDefinition option \<times> ('s, 'b, 'e, 'w) agg_state" where
  "resolveFromBackend M L E backend toolName federatedName st =
    (let (byName, ag, p, w) = loadBackendDefinitions M L backend st
     in case map_of byName toolName of
          None \<Rightarrow> (None, ag, p, w)
        | Some selected \<Rightarrow>
            (let def = selected\<lparr>td_Name := federatedName\<rparr>
             in (Some def, ag,
                 p\<lparr>ps_toolCache := ToolCache_Set (clock E w) federatedName def (sr_ID backend) (sr_Name backend) (ps_toolCache p)\<rparr>, w)))"

definition aggregate_candidate ::
  "'w mcp_lib \<Rightarrow> 'w mcp_lists \<Rightarrow> 'w env \<Rightarrow> CapabilityIndex \<Rightarrow> string \<Rightarrow> ('s, 'b, 'e, 'w) agg_state \<Rightarrow> ServerRecord
   \<Rightarrow> ('s, 'b, 'e, 'w) agg_state" where
  "aggregate_candidate M L E i toolName st backend =
    (let (ag, p, w) = st; federatedName = aggregated_name i (ps_nsResolver p) backend toolName
     in if federatedName = '''' \<or> federatedName \<in> set (ag_seen ag) then st
        else case ToolCache_Get (clock E w) federatedName (ps_toolCache p) of
               (Some cached, cache) \<Rightarrow>
                 (ag\<lparr>ag_result := ag_result ag @ [cached], ag_seen := federatedName # ag_seen ag\<rparr>,
                  p\<lparr>ps_toolCache := cache\<rparr>, w)
             | (None, cache) \<Rightarrow>
                 (case resolveFromBackend M L E backend toolName federatedName (ag, p\<lparr>ps_toolCache := cache\<rparr>, w) of
                    (None, st1) \<Rightarrow> st1
                  | (Some def, ag1, p1, w1) \<Rightarrow>
                      (ag1\<lparr>ag_result := ag_result ag1 @ [def], ag_seen := federatedName # ag_seen ag1\<rparr>, p1, w1)))"

definition aggregateTool ::
  "'w mcp_lib \<Rightarrow> 'w mcp_lists \<Rightarrow> 'w env \<Rightarrow> CapabilityIndex \<Rightarrow> ('s, 'b, 'e, 'w) agg_state \<Rightarrow> string
   \<Rightarrow> ('s, 'b, 'e, 'w) agg_state" where
  "aggregateTool M L E i st toolName =
    (let toolName = TrimSpace toolName
     in if toolName = '''' then st else foldl (aggregate_candidate M L E i toolName) st (LookupTool i toolName))"

definition handleListTools ::
  "'w mcp_lib \<Rightarrow> 'w mcp_lists \<Rightarrow> 'w env \<Rightarrow> ('s, 'b, 'e) ProxyServer \<Rightarrow> 'w
   \<Rightarrow> (string + ToolDefinition list) \<times> ('s, 'b, 'e) ProxyServer \<times> 'w" where
  "handleListTools M L E p w =
    (case rt_index (ps_router p) of
       None \<Rightarrow> (Inl ''list tools: proxy index is not initialized'', p, w)
     | Some i \<Rightarrow>
         (let (ag, p1, w1) = foldl (aggregateTool M L E i)
                (\<lparr>ag_result = [], ag_seen = [], ag_backendDefs = []\<rparr>, p, w) (ListTools i)
          in (Inr (ag_result ag), p1, w1)))"

section \<open>The catalogue\<close>

definition metaToolNames :: "string list" where
  "metaToolNames = [''search_tools'', ''get_tool_schema'', ''cruvero.orchestrate'', ''gateway.request_access'']"

record CatalogEntry =
  ce_Tool :: ToolDefinition
  ce_ServerID :: string
  ce_ServerName :: string

definition canonicalCatalogName :: "string \<Rightarrow> string" where
  "canonicalCatalogName federatedName =
    (let name = TrimSpace federatedName in if name = '''' \<or> HasPrefix name ''mcp.'' then name else ''mcp.'' @ name)"

definition canonicalCatalogServerName :: "string \<Rightarrow> string" where
  "canonicalCatalogServerName serverName = TrimPrefix (TrimSpace serverName) ''mcp-''"

fun catalog_entries :: "time \<Rightarrow> ToolDefinition list \<Rightarrow> ToolCache \<Rightarrow> CatalogEntry list \<times> ToolCache" where
  "catalog_entries now [] c = ([], c)"
| "catalog_entries now (tool # tools) c =
    (if td_Name tool \<in> set metaToolNames then catalog_entries now tools c
     else
       let (cached, c1) = GetWithMeta now (td_Name tool) c;
           (def, serverID, serverName) =
             (case cached of None \<Rightarrow> (tool, '''', '''') | Some e \<Rightarrow> (ct_definition e, ct_serverID e, ct_serverName e));
           name = canonicalCatalogName (td_Name def);
           entry = \<lparr>ce_Tool = def\<lparr>td_Name := name\<rparr>, ce_ServerID = serverID,
                    ce_ServerName = canonicalCatalogServerName serverName\<rparr>;
           (rest, c2) = catalog_entries now tools c1
       in (if name = '''' then rest else entry # rest, c2))"

definition ListCatalogTools ::
  "'w mcp_lib \<Rightarrow> 'w mcp_lists \<Rightarrow> 'w env \<Rightarrow> ('s, 'b, 'e) ProxyServer \<Rightarrow> 'w
   \<Rightarrow> (string + CatalogEntry list) \<times> ('s, 'b, 'e) ProxyServer \<times> 'w" where
  "ListCatalogTools M L E p w =
    (case handleListTools M L E p w of
       (Inl e, p1, w1) \<Rightarrow> (Inl e, p1, w1)
     | (Inr tools, p1, w1) \<Rightarrow>
         (let (entries, c) = catalog_entries (clock E w1) tools (ps_toolCache p1)
          in (Inr entries, p1\<lparr>ps_toolCache := c\<rparr>, w1)))"

section \<open>Resources\<close>

definition deduplicateServers :: "CapabilityIndex \<Rightarrow> string list \<Rightarrow> (string, ServerRecord) gomap" where
  "deduplicateServers i uris =
    foldl (\<lambda>m srv. if map_of m (sr_ID srv) = None then mput (sr_ID srv) srv m else m) []
      (concat (map (LookupResource i) uris))"

definition add_resources :: "ResourceDefinition list \<Rightarrow> (string, ResourceDefinition) gomap \<Rightarrow> (string, ResourceDefinition) gomap" where
  "add_resources rs m = foldl (\<lambda>m r. if map_of m (rd_URI r) = None then mput (rd_URI r) r m else m) m rs"

fun collectResources ::
  "'w mcp_lib \<Rightarrow> 'w mcp_lists \<Rightarrow> ServerRecord list \<Rightarrow> (string, ResourceDefinition) gomap \<Rightarrow> ('s, 'b, 'e) ProxyServer \<Rightarrow> 'w
   \<Rightarrow> (string, ResourceDefinition) gomap \<times> ('s, 'b, 'e) ProxyServer \<times> 'w" where
  "collectResources M L [] m p w = (m, p, w)"
| "collectResources M L (srv # rest) m p w =
    (let (res, p1, w1) = with_client (BackendClient_ListResources M L) srv p w
     in case res of
          Inl e \<Rightarrow> collectResources M L rest m p1 w1
        | Inr resources \<Rightarrow> collectResources M L rest (add_resources resources m) p1 w1)"

text \<open>The servers are visited and the resources returned in the order of their keys.\<close>

definition handleListResources ::
  "'w mcp_lib \<Rightarrow> 'w mcp_lists \<Rightarrow> ('s, 'b, 'e) ProxyServer \<Rightarrow> 'w
   \<Rightarrow> (string + ResourceDefinition list) \<times> ('s, 'b, 'e) ProxyServer \<times> 'w" where
  "handleListResources M L p w =
    (case rt_index (ps_router p) of
       None \<Rightarrow> (Inl ''list resources: proxy index is not initialized'', p, w)
     | Some i \<Rightarrow>
         (let servers = map snd (sort_key fst (deduplicateServers i (ListResources i)));
              (m, p1, w1) = collectResources M L servers [] p w
          in (Inr (map snd (sort_key fst m)), p1, w1)))"

datatype read_error = ErrReadIndex | ErrMissingURI | ErrResourceNotFound string | ErrReadBackend string goerr

definition handleReadResource ::
  "'w mcp_lib \<Rightarrow> 'w mcp_lists \<Rightarrow> string \<Rightarrow> ('s, 'b, 'e) ProxyServer \<Rightarrow> 'w
   \<Rightarrow> (read_error + ResourceContent) \<times> ('s, 'b, 'e) ProxyServer \<times> 'w" where
  "handleReadResource M L uri p w =
    (case rt_index (ps_router p) of
       None \<Rightarrow> (Inl ErrReadIndex, p, w)
     | Some i \<Rightarrow>
         (let trimmedURI = TrimSpace uri
          in if trimmedURI = '''' then (Inl ErrMissingURI, p, w)
             else case LookupResource i trimmedURI of
                    [] \<Rightarrow> (Inl (ErrResourceNotFound trimmedURI), p, w)
                  | server # rest \<Rightarrow>
                      (case with_client (BackendClient_ReadResource M L trimmedURI) server p w of
                         (Inl e, p1, w1) \<Rightarrow> (Inl (ErrReadBackend (sr_ID server) e), p1, w1)
                       | (Inr content, p1, w1) \<Rightarrow> (Inr content, p1, w1))))"

section \<open>Server lists and per-server endpoints\<close>

record base_request =
  hr_Method :: string
  hr_ForwardedHost :: string
  hr_ForwardedProto :: string
  hr_Host :: string
  hr_TLS :: bool

definition trim_slashes :: "string \<Rightarrow> string" where
  "trim_slashes s = rev (dropWhile (\<lambda>c. c = CHR ''/'') (rev s))"

definition first_item :: "string \<Rightarrow> string" where
  "first_item s = TrimSpace (takeWhile (\<lambda>c. c \<noteq> CHR '','') s)"

text \<open>\<open>gatewayBaseURL\<close> is the configured base URL, empty when there is none.\<close>

definition resolveBaseURLFromRequest :: "string \<Rightarrow> base_request \<Rightarrow> string" where
  "resolveBaseURLFromRequest gatewayBaseURL r =
    (let host = first_item (hr_ForwardedHost r);
         direct = (if hr_Host r = '''' then ''''
                   else trim_slashes ((if hr_TLS r then ''https'' else ''http'') @ ''://'' @ hr_Host r))
     in if gatewayBaseURL \<noteq> '''' then trim_slashes gatewayBaseURL
        else if hr_ForwardedHost r \<noteq> '''' \<and> host \<noteq> ''''
        then trim_slashes ((if hr_ForwardedProto r = '''' then ''https'' else first_item (hr_ForwardedProto r)) @ ''://'' @ host)
        else direct)"

definition serverKey :: "string \<Rightarrow> string" where
  "serverKey name =
    (let key = TrimPrefix (TrimPrefix (TrimSpace name) ''mcp-'') ''mcp_'' in if key = '''' then name else key)"

record ServerListEntry =
  sl_Name :: string
  sl_URL :: string
  sl_Version :: string
  sl_Status :: string
  sl_ToolCount :: int
  sl_ResourceCount :: int

text \<open>A reply of a handler is a status and, when it succeeds, a document; the documents are given as values, not
  as their JSON encodings.\<close>

definition ServerList_ServeHTTP :: "CapabilityIndex \<Rightarrow> string \<Rightarrow> base_request \<Rightarrow> int \<times> ServerListEntry list" where
  "ServerList_ServeHTTP i gatewayBaseURL r =
    (if hr_Method r \<noteq> ''GET'' \<and> hr_Method r \<noteq> ''HEAD'' then (405, [])
     else
       let baseURL = resolveBaseURLFromRequest gatewayBaseURL r
       in (200, map (\<lambda>st. let rec = st_Record st in
                 \<lparr>sl_Name = sr_Name rec, sl_URL = baseURL @ ''/mcp/servers/'' @ serverKey (sr_Name rec) @ ''/'',
                  sl_Version = sr_Version rec, sl_Status = ServerStatus_String (sr_Status rec),
                  sl_ToolCount = st_ToolCount st, sl_ResourceCount = st_ResourceCount st\<rparr>) (ListServers i)))"

record discoveryServerEntry =
  dv_URL :: string
  dv_Name :: string
  dv_Version :: string
  dv_Status :: string

type_synonym discoveryDocument = "(string, discoveryServerEntry) gomap"

definition generate_doc :: "CapabilityIndex \<Rightarrow> string \<Rightarrow> base_request \<Rightarrow> discoveryDocument" where
  "generate_doc i gatewayBaseURL r =
    (let baseURL = resolveBaseURLFromRequest gatewayBaseURL r
     in sort_key fst
          (foldl (\<lambda>doc st. let rec = st_Record st; key = serverKey (sr_Name rec) in
             mput key \<lparr>dv_URL = baseURL @ ''/mcp/servers/'' @ key @ ''/'', dv_Name = sr_Name rec,
                       dv_Version = sr_Version rec, dv_Status = ServerStatus_String (sr_Status rec)\<rparr> doc) [] (ListServers i)))"

text \<open>The handler's state is the cached document with the time it was made.\<close>

definition DiscoveryDoc_ServeHTTP ::
  "time \<Rightarrow> duration \<Rightarrow> CapabilityIndex \<Rightarrow> string \<Rightarrow> base_request \<Rightarrow> (discoveryDocument \<times> time) option
   \<Rightarrow> (int \<times> discoveryDocument option) \<times> (discoveryDocument \<times> time) option" where
  "DiscoveryDoc_ServeHTTP now configTTL i gatewayBaseURL r cached =
    (let ttl = (if configTTL > 0 then configTTL else 5 * Second);
         fresh = (let body = generate_doc i gatewayBaseURL r in ((200, Some body), Some (body, now)))
     in if hr_Method r \<noteq> ''GET'' \<and> hr_Method r \<noteq> ''HEAD'' then ((405, None), cached)
        else case cached of
               None \<Rightarrow> fresh
             | Some (body, createdAt) \<Rightarrow> if now - createdAt < ttl then ((200, Some body), cached) else fresh)"

definition serverNamePattern :: "string \<Rightarrow> bool" where
  "serverNamePattern name =
    (let alnum = (\<lambda>c::char. (CHR ''a'' \<le> c \<and> c \<le> CHR ''z'') \<or> (CHR ''0'' \<le> c \<and> c \<le> CHR ''9''))
     in case name of
          [] \<Rightarrow> False
        | c # cs \<Rightarrow> alnum c \<and> list_all (\<lambda>d. alnum d \<or> d = CHR ''_'' \<or> d = CHR ''-'') cs \<and> length cs \<le> 62)"

text \<open>The reply of a per-server endpoint: an error, or the request forwarded to a URL.  The table of instances
  holds the target of each server's reverse proxy.\<close>

datatype virtual_reply = VirtualError int | ForwardTo string

definition Virtual_getOrCreateHandler ::
  "ServerRecord \<Rightarrow> (string, string) gomap \<Rightarrow> string \<times> (string, string) gomap" where
  "Virtual_getOrCreateHandler rec instances =
    (case map_of instances (sr_ID rec) of
       Some target \<Rightarrow> (target, instances)
     | None \<Rightarrow>
         (let target = backendScheme (sr_Protocol rec) @ ''://'' @ TrimSpace (sr_Host rec) @ '':'' @ Itoa (sr_Port rec) @ ''/mcp''
          in (target, mput (sr_ID rec) target instances)))"

definition Virtual_ServeHTTP ::
  "CapabilityIndex \<Rightarrow> string \<Rightarrow> (string, string) gomap \<Rightarrow> virtual_reply \<times> (string, string) gomap" where
  "Virtual_ServeHTTP i param instances =
    (let serverName = TrimSpace param
     in if \<not> serverNamePattern serverName then (VirtualError 400, instances)
        else case LookupServer i serverName of
               None \<Rightarrow> (VirtualError 404, instances)
             | Some rec \<Rightarrow>
                 if \<not> IsRoutable (sr_Status rec) then (VirtualError 503, instances)
                 else let (target, instances1) = Virtual_getOrCreateHandler rec instances in (ForwardTo target, instances1))"

section \<open>Properties of the cache\<close>

lemma ToolCache_Get_fresh:
  "ToolCache_Get now name c = (Some def, c') \<longleftrightarrow>
    c' = c \<and> TrimSpace name \<noteq> '''' \<and>
    (\<exists>e. map_of (tl_tools c) (TrimSpace name) = Some e \<and> now - ct_fetchedAt e \<le> tl_ttl c \<and> ct_definition e = def)"
  by (auto simp: ToolCache_Get_def Let_def simp del: map_of_eq_Some_iff split: option.splits)

lemma ToolCache_roundtrip:
  assumes "TrimSpace name \<noteq> ''''" and "now' - now \<le> tl_ttl c"
  shows "fst (ToolCache_Get now' name (ToolCache_Set now name def sid sname c)) = Some def"
  using assms by (simp add: ToolCache_Get_def ToolCache_Set_def Let_def)

lemma InvalidateServer_forgets:
  assumes "wf_map (tl_tools c)" and "TrimSpace sid \<noteq> ''''" and "GetWithMeta now name (InvalidateServer sid c) = (Some e, c')"
  shows "ct_serverID e \<noteq> TrimSpace sid"
  using assms by (auto simp: GetWithMeta_def InvalidateServer_def Let_def dest!: map_of_SomeD split: option.splits if_splits)

lemma canonicalCatalogName_idem: "TrimSpace name = name \<Longrightarrow> TrimSpace (''mcp.'' @ name) = ''mcp.'' @ name
   \<Longrightarrow> canonicalCatalogName (canonicalCatalogName name) = canonicalCatalogName name"
  by (auto simp: canonicalCatalogName_def Let_def HasPrefix_def)

section \<open>What a listing contains\<close>

definition cache_named :: "ToolCache \<Rightarrow> bool" where
  "cache_named c \<longleftrightarrow> (\<forall>k e. map_of (tl_tools c) k = Some e \<longrightarrow> TrimSpace (td_Name (ct_definition e)) = k)"

definition listed_as :: "CapabilityIndex \<Rightarrow> NamespaceResolver option \<Rightarrow> string \<Rightarrow> bool" where
  "listed_as i ns n \<longleftrightarrow> n \<noteq> '''' \<and>
    (\<exists>t s. t \<in> set (ListTools i) \<and> s \<in> set (LookupTool i (TrimSpace t)) \<and> n = aggregated_name i ns s (TrimSpace t))"

definition agg_ok :: "CapabilityIndex \<Rightarrow> NamespaceResolver option \<Rightarrow> ('s, 'b, 'e, 'w) agg_state \<Rightarrow> bool" where
  "agg_ok i ns st \<longleftrightarrow>
    (case st of (ag, p, w) \<Rightarrow>
       cache_named (ps_toolCache p) \<and> ps_nsResolver p = ns \<and> distinct (ag_seen ag)
       \<and> map (TrimSpace \<circ> td_Name) (ag_result ag) = map TrimSpace (rev (ag_seen ag))
       \<and> list_all (listed_as i ns) (ag_seen ag))"

lemma cache_named_Set: "cache_named c \<Longrightarrow> td_Name def = name \<Longrightarrow> cache_named (ToolCache_Set now name def sid sname c)"
  by (simp add: cache_named_def ToolCache_Set_def Let_def del: map_of_eq_Some_iff)

lemma cache_named_Get: "cache_named c \<Longrightarrow> cache_named (snd (ToolCache_Get now name c))"
  by (auto simp: cache_named_def ToolCache_Get_def Let_def simp del: map_of_eq_Some_iff split: option.splits)

lemma with_client_cache [simp]:
  "ps_toolCache (fst (snd (with_client call rec p w))) = ps_toolCache p"
  "ps_nsResolver (fst (snd (with_client call rec p w))) = ps_nsResolver p"
  by (simp_all add: with_client_def getOrCreateClient_def Let_def split: prod.splits option.splits)

lemma loadBackendDefinitions_frame:
  assumes "loadBackendDefinitions M L backend (ag, p, w) = (m, ag1, p1, w1)"
  shows "ag_result ag1 = ag_result ag \<and> ag_seen ag1 = ag_seen ag \<and> ps_toolCache p1 = ps_toolCache p \<and> ps_nsResolver p1 = ps_nsResolver p"
  using assms with_client_cache [of "BackendClient_ListTools M L" backend p w]
  by (auto simp: loadBackendDefinitions_def Let_def simp del: with_client_cache split: option.splits prod.splits)

lemma agg_ok_add:
  assumes "agg_ok i ns (ag, p, w)" and "listed_as i ns n" and "n \<notin> set (ag_seen ag)" and "TrimSpace (td_Name def) = TrimSpace n"
    and "cache_named (ps_toolCache p1)" and "ps_nsResolver p1 = ns" and "ag_seen ag1 = ag_seen ag" and "ag_result ag1 = ag_result ag"
  shows "agg_ok i ns (ag1\<lparr>ag_result := ag_result ag1 @ [def], ag_seen := n # ag_seen ag1\<rparr>, p1, w1)"
  using assms by (simp add: agg_ok_def)

lemma aggregate_candidate_ok:
  assumes ok: "agg_ok i ns (ag, p, w)" and t: "t \<in> set (ListTools i)" and s: "backend \<in> set (LookupTool i (TrimSpace t))"
  shows "agg_ok i ns (aggregate_candidate M L E i (TrimSpace t) (ag, p, w) backend)"
proof -
  let ?n = "aggregated_name i ns backend (TrimSpace t)"
  have p: "ps_nsResolver p = ns" "cache_named (ps_toolCache p)" using ok by (simp_all add: agg_ok_def)
  obtain hit cache where g: "ToolCache_Get (clock E w) ?n (ps_toolCache p) = (hit, cache)" by fastforce
  have c: "cache_named cache" using cache_named_Get [OF p(2), of "clock E w" ?n] g by simp
  show ?thesis
  proof (cases "?n = '''' \<or> ?n \<in> set (ag_seen ag)")
    case True
    with ok p show ?thesis by (auto simp: aggregate_candidate_def Let_def)
  next
    case False
    then have n: "listed_as i ns ?n" "?n \<notin> set (ag_seen ag)" using t s by (auto simp: listed_as_def)
    show ?thesis
    proof (cases hit)
      case (Some cached)
      with g obtain e where "map_of (tl_tools (ps_toolCache p)) (TrimSpace ?n) = Some e" "ct_definition e = cached"
        unfolding Some ToolCache_Get_fresh by blast
      then have "TrimSpace (td_Name cached) = TrimSpace ?n" using p(2) unfolding cache_named_def by blast
      then show ?thesis
        using False Some g p c agg_ok_add [OF ok n, of cached "p\<lparr>ps_toolCache := cache\<rparr>" ag w]
        by (simp add: aggregate_candidate_def Let_def)
    next
      case None
      obtain m ag1 p1 w1 where l: "loadBackendDefinitions M L backend (ag, p\<lparr>ps_toolCache := cache\<rparr>, w) = (m, ag1, p1, w1)"
        by (metis prod_cases4)
      note fr = loadBackendDefinitions_frame [OF l]
      show ?thesis
      proof (cases "map_of m (TrimSpace t)")
        case None': None
        have "agg_ok i ns (ag1, p1, w1)" using ok fr c p by (simp add: agg_ok_def)
        then show ?thesis using False None None' g l p by (simp add: aggregate_candidate_def resolveFromBackend_def Let_def)
      next
        case (Some sel)
        let ?d = "sel\<lparr>td_Name := ?n\<rparr>"
        let ?p = "p1\<lparr>ps_toolCache := ToolCache_Set (clock E w1) ?n ?d (sr_ID backend) (sr_Name backend) (ps_toolCache p1)\<rparr>"
        have "cache_named (ps_toolCache ?p)" using fr c by (simp add: cache_named_Set)
        then have "agg_ok i ns (ag1\<lparr>ag_result := ag_result ag1 @ [?d], ag_seen := ?n # ag_seen ag1\<rparr>, ?p, w1)"
          using fr p by (intro agg_ok_add [OF ok n]) simp_all
        then show ?thesis using False None Some g l p by (simp add: aggregate_candidate_def resolveFromBackend_def Let_def)
      qed
    qed
  qed
qed

lemma agg_candidates_ok:
  assumes "agg_ok i ns st" and "t \<in> set (ListTools i)" and "set cs \<subseteq> set (LookupTool i (TrimSpace t))"
  shows "agg_ok i ns (foldl (aggregate_candidate M L E i (TrimSpace t)) st cs)"
  using assms
proof (induction cs arbitrary: st)
  case (Cons c cs)
  obtain ag p w where "st = (ag, p, w)" by (metis prod_cases3)
  with Cons.prems have "agg_ok i ns (aggregate_candidate M L E i (TrimSpace t) st c)"
    by (simp add: aggregate_candidate_ok)
  with Cons show ?case by simp
qed simp

lemma agg_tools_ok:
  assumes "agg_ok i ns st" and "set ts \<subseteq> set (ListTools i)"
  shows "agg_ok i ns (foldl (aggregateTool M L E i) st ts)"
  using assms
proof (induction ts arbitrary: st)
  case (Cons t ts)
  then have "agg_ok i ns (aggregateTool M L E i st t)"
    by (simp add: aggregateTool_def Let_def agg_candidates_ok)
  with Cons show ?case by simp
qed simp

text \<open>Every listed tool carries the qualified name of a tool of the index on a server that offers it, and no
  qualified name is listed twice, whatever the backends answer and however many of them fail.\<close>

lemma listing_offered:
  assumes "rt_index (ps_router p) = Some i" and "cache_named (ps_toolCache p)"
  shows "\<exists>tools p' w' quals. handleListTools M L E p w = (Inr tools, p', w') \<and> cache_named (ps_toolCache p')
    \<and> distinct quals \<and> map (TrimSpace \<circ> td_Name) tools = map TrimSpace quals \<and> list_all (listed_as i (ps_nsResolver p)) quals"
proof -
  let ?st = "(\<lparr>ag_result = [], ag_seen = [], ag_backendDefs = []\<rparr>, p, w)"
  obtain ag p' w' where r: "foldl (aggregateTool M L E i) ?st (ListTools i) = (ag, p', w')" by (metis prod_cases3)
  have "agg_ok i (ps_nsResolver p) ?st" using assms(2) by (simp add: agg_ok_def)
  then have ok: "agg_ok i (ps_nsResolver p) (ag, p', w')" using agg_tools_ok [of i _ ?st "ListTools i" M L E] r by simp
  then have "handleListTools M L E p w = (Inr (ag_result ag), p', w')" using assms(1) r by (simp add: handleListTools_def)
  moreover have "list_all (listed_as i (ps_nsResolver p)) (rev (ag_seen ag))" using ok by (simp add: agg_ok_def list_all_iff)
  ultimately show ?thesis using ok by (intro exI [of _ "ag_result ag"] exI [of _ p'] exI [of _ w'] exI [of _ "rev (ag_seen ag)"]) (simp add: agg_ok_def)
qed

section \<open>Addresses\<close>

text \<open>The first target of a server's endpoint is kept when the server registers again elsewhere.\<close>

lemma virtual_target_pinned:
  assumes "map_of instances (sr_ID rec) = Some target"
  shows "Virtual_getOrCreateHandler (rec\<lparr>sr_Host := host, sr_Port := port\<rparr>) instances = (target, instances)"
  using assms by (simp add: Virtual_getOrCreateHandler_def)

text \<open>The URL advertised for a server whose name begins with \<open>mcp-\<close> is answered 404.\<close>

lemma advertised_key_unresolved:
  assumes "\<forall>srv \<in> set (concat (map snd (ci_tools i))). TrimSpace (sr_Name srv) = ''mcp-k8s''"
  shows "serverKey ''mcp-k8s'' = ''k8s'' \<and> Virtual_ServeHTTP i (serverKey ''mcp-k8s'') instances = (VirtualError 404, instances)"
proof -
  have t: "TrimSpace ''mcp-k8s'' = ''mcp-k8s''" "TrimSpace ''k8s'' = ''k8s''"
    by (rule TrimSpace_word, simp add: trimmed_word_def visible_def)+
  have k: "serverKey ''mcp-k8s'' = ''k8s''" by (simp add: serverKey_def t TrimPrefix_def)
  have ne: "\<not> EqualFold ''mcp-k8s'' ''k8s''" by (simp add: EqualFold_def ToLower_def)
  have "scan_server ''k8s'' seen srvs = None" if "\<forall>srv \<in> set srvs. TrimSpace (sr_Name srv) = ''mcp-k8s''" for seen srvs
    using that by (induction srvs arbitrary: seen) (simp_all add: ne)
  then have "LookupServer i ''k8s'' = None" using assms by (simp add: LookupServer_def t)
  moreover have "serverNamePattern ''k8s''" by code_simp
  ultimately show ?thesis by (simp add: k Virtual_ServeHTTP_def t)
qed

end
