(* ===== verification/Tool_Access.thy ===== *)
theory Tool_Access
  imports Tool_Catalog
begin

text \<open>
  The tool endpoint of \<^verbatim>\<open>src/internal/proxy/server.go\<close> and the filters of \<^verbatim>\<open>tools.go\<close>: the permission check of a
  call, the handlers of tool calls and of the gateway's own tools, activation in a session, the
  synchronisation of the MCP server's registry, and the rewriting of legacy requests.

  A reply is the content blocks of an MCP result, with the text given by the values its message prints.
  An audit entry that the code writes from a goroutine is written when the call ends.  A panic of a handler
  is the value \<open>Panicked\<close>; the MCP server recovers from it.

  The lemmas show that a caller without permission never reaches the router, that a user sees and may call
  exactly the granted tools, that a session holds at most fifty activated tools, and that rewriting a request
  twice is rewriting it once.
\<close>

section \<open>Permissions\<close>

definition log_entry :: "AuditEntry \<Rightarrow> ('s, 'b, 'e) ProxyServer \<Rightarrow> ('s, 'b, 'e) ProxyServer" where
  "log_entry entry p = p\<lparr>ps_audit := map_option (\<lambda>a. snd (Audit_Log entry a)) (ps_audit p)\<rparr>"

definition auditToolCall :: "string \<Rightarrow> string \<Rightarrow> bool \<Rightarrow> ('s, 'b, 'e) ProxyServer \<Rightarrow> ('s, 'b, 'e) ProxyServer" where
  "auditToolCall toolName responsePreview isError p =
    log_entry \<lparr>ae_EventType = ''tool_call_result'', ae_ClientID = '''', ae_Username = '''', ae_ServerName = toolName,
      ae_Details = [(''tool'', JStr toolName), (''response_preview'', JStr responsePreview), (''is_error'', JBool isError)]\<rparr> p"

definition auditToolDenied ::
  "string \<Rightarrow> string \<Rightarrow> string \<Rightarrow> string \<Rightarrow> ('s, 'b, 'e) ProxyServer \<Rightarrow> ('s, 'b, 'e) ProxyServer" where
  "auditToolDenied toolName oidcSub email reason p =
    log_entry \<lparr>ae_EventType = ''user.tool_denied'', ae_ClientID = oidcSub, ae_Username = '''', ae_ServerName = toolName,
      ae_Details = [(''tool'', JStr toolName), (''oidc_sub'', JStr oidcSub), (''email'', JStr email), (''reason'', JStr reason)]\<rparr> p"

text \<open>The message of a denied call, \<open>None\<close> when the call may go on.\<close>

definition checkToolPermission ::
  "Ctx \<Rightarrow> string \<Rightarrow> UserDB \<Rightarrow> ('s, 'b, 'e) ProxyServer \<Rightarrow> string option \<times> ('s, 'b, 'e) ProxyServer" where
  "checkToolPermission ctx toolName users p =
    (case FromContext ctx of
       None \<Rightarrow> (None, p)
     | Some d \<Rightarrow>
         if id_Type d \<noteq> IdentityOIDC then (None, p)
         else
           let deny = (\<lambda>reason msg. (Some msg, auditToolDenied toolName (id_ID d) (metadata d ''email'') reason p))
           in case GetByOIDCSub (id_ID d) users of
                Inl e \<Rightarrow> deny ''lookup_error'' ''Permission check failed. Contact an administrator.''
              | Inr None \<Rightarrow> deny ''unregistered'' ''Your account is not registered. Contact an administrator.''
              | Inr (Some user) \<Rightarrow>
                  (case us_Role user of
                     RoleAdmin \<Rightarrow> (None, p)
                   | RoleBlocked \<Rightarrow> deny ''blocked'' ''Your account has been blocked. Contact an administrator.''
                   | RoleViewer \<Rightarrow> deny ''read_only'' ''Your account has read-only access and cannot call tools.''
                   | RoleUser \<Rightarrow>
                       (case HasToolPermission (us_ID user) toolName users of
                          Inl e \<Rightarrow> deny ''lookup_error'' ''Permission check failed. Contact an administrator.''
                        | Inr has \<Rightarrow>
                            if has then (None, p)
                            else deny ''no_permission''
                              (''You do not have permission to use '' @ toolName @ ''. Contact an administrator to request access.''))
                   | RoleOther s \<Rightarrow> deny ''unknown_role'' ''Unknown account role. Contact an administrator.''))"

section \<open>Tool calls\<close>

datatype call_text = PlainText string | ServerBlocked string | ServerRateLimited string duration

datatype tool_reply = Replied "(string \<times> call_text) list" bool | Failed route_error | Panicked

definition truncate_text :: "string \<Rightarrow> nat \<Rightarrow> string" where
  "truncate_text s maxLen = (if length s \<le> maxLen then s else take maxLen s)"

definition convertContentBlocks :: "(string \<times> string) list \<Rightarrow> (string \<times> call_text) list" where
  "convertContentBlocks blocks = map (\<lambda>(type, text). (if type = '''' then ''text'' else type, PlainText text)) blocks"

definition rate_limit_text :: "string \<Rightarrow> duration \<Rightarrow> call_text" where
  "rate_limit_text serverName retryAfter =
    (if retryAfter = 0 then ServerBlocked serverName else ServerRateLimited serverName retryAfter)"

definition makeToolHandler ::
  "'s select_op \<Rightarrow> 'b allow_op \<Rightarrow> 'w mcp_lib \<Rightarrow> 'w env \<Rightarrow> string \<Rightarrow> Ctx \<Rightarrow> (string, json) gomap
   \<Rightarrow> ('s, 'b, 'e) ProxyServer \<Rightarrow> 'w \<Rightarrow> tool_reply \<times> ('s, 'b, 'e) ProxyServer \<times> 'w" where
  "makeToolHandler select allow M E toolName ctx args p w =
    (case (case ps_users p of None \<Rightarrow> (None, p) | Some users \<Rightarrow> checkToolPermission ctx toolName users p) of
       (Some msg, p1) \<Rightarrow>
         (Replied [(''text'', PlainText msg)] True, auditToolCall toolName ''permission denied'' True p1, w)
     | (None, p1) \<Rightarrow>
         (let (result, r, w1) = Route select allow M E ctx toolName args (ps_router p1) w;
              p2 = p1\<lparr>ps_router := r\<rparr>
          in case result of
               Inl (ServerRateLimitError sid serverName retryAfter) \<Rightarrow>
                 (Replied [(''text'', rate_limit_text serverName retryAfter)] True,
                  auditToolCall toolName ''server rate limited'' True p2, w1)
             | Inl e \<Rightarrow> (Failed e, auditToolCall toolName '''' True p2, w1)
             | Inr None \<Rightarrow> (Panicked, p2, w1)
             | Inr (Some res) \<Rightarrow>
                 (let preview = (case tr_Content res of [] \<Rightarrow> '''' | (type, text) # rest \<Rightarrow> truncate_text text 1024)
                  in (Replied (convertContentBlocks (tr_Content res)) (tr_IsError res),
                      auditToolCall toolName preview (tr_IsError res) p2, w1))))"

datatype exec_result = ExecOutput call_text bool | ExecError route_error | ExecPanic

definition ExecuteToolCall ::
  "'s select_op \<Rightarrow> 'b allow_op \<Rightarrow> 'w mcp_lib \<Rightarrow> 'w env \<Rightarrow> string \<Rightarrow> Ctx \<Rightarrow> (string, json) gomap
   \<Rightarrow> ('s, 'b, 'e) ProxyServer \<Rightarrow> 'w \<Rightarrow> exec_result \<times> ('s, 'b, 'e) ProxyServer \<times> 'w" where
  "ExecuteToolCall select allow M E toolName ctx args p w =
    (case (case ps_users p of None \<Rightarrow> (None, p) | Some users \<Rightarrow> checkToolPermission ctx toolName users p) of
       (Some msg, p1) \<Rightarrow> (ExecOutput (PlainText msg) True, auditToolCall toolName ''permission denied'' True p1, w)
     | (None, p1) \<Rightarrow>
         (let (result, r, w1) = Route select allow M E ctx toolName args (ps_router p1) w;
              p2 = p1\<lparr>ps_router := r\<rparr>
          in case result of
               Inl (ServerRateLimitError sid serverName retryAfter) \<Rightarrow>
                 (ExecOutput (rate_limit_text serverName retryAfter) True,
                  auditToolCall toolName ''server rate limited'' True p2, w1)
             | Inl e \<Rightarrow> (ExecError e, auditToolCall toolName '''' True p2, w1)
             | Inr None \<Rightarrow> (ExecPanic, p2, w1)
             | Inr (Some res) \<Rightarrow>
                 (let text = (case tr_Content res of [] \<Rightarrow> '''' | (type, text) # rest \<Rightarrow> text)
                  in (ExecOutput (PlainText text) (tr_IsError res),
                      auditToolCall toolName (truncate_text text 1024) (tr_IsError res) p2, w1))))"

section \<open>Visible tools\<close>

definition requestAccessToolName :: string where
  "requestAccessToolName = ''gateway.request_access''"

definition onlyMetaTools :: "ToolDefinition list \<Rightarrow> ToolDefinition list" where
  "onlyMetaTools tools = filter (\<lambda>t. td_Name t \<in> set metaToolNames) tools"

definition withoutRequestAccessTool :: "ToolDefinition list \<Rightarrow> ToolDefinition list" where
  "withoutRequestAccessTool tools = filter (\<lambda>t. td_Name t \<noteq> requestAccessToolName) tools"

definition onlyRequestAccessTool :: "ToolDefinition list \<Rightarrow> ToolDefinition list" where
  "onlyRequestAccessTool tools =
    (case find (\<lambda>t. td_Name t = requestAccessToolName) tools of Some t \<Rightarrow> [t] | None \<Rightarrow> [])"

definition applyRoleFilter :: "UserDB option \<Rightarrow> Ctx \<Rightarrow> ToolDefinition list \<Rightarrow> ToolDefinition list" where
  "applyRoleFilter userStore ctx tools =
    (case userStore of
       None \<Rightarrow> withoutRequestAccessTool tools
     | Some users \<Rightarrow>
         (case FromContext ctx of
            None \<Rightarrow> withoutRequestAccessTool tools
          | Some d \<Rightarrow>
              if id_Type d \<noteq> IdentityOIDC then withoutRequestAccessTool tools
              else case GetByOIDCSub (id_ID d) users of
                     Inl e \<Rightarrow> onlyRequestAccessTool tools
                   | Inr None \<Rightarrow> onlyRequestAccessTool tools
                   | Inr (Some user) \<Rightarrow>
                       if us_Role user = RoleAdmin then withoutRequestAccessTool tools
                       else if us_Role user = RoleUser \<or> us_Role user = RoleViewer then
                         (case GetToolPermissions (us_ID user) users of
                            Inl e \<Rightarrow> onlyRequestAccessTool tools
                          | Inr perms \<Rightarrow>
                              if perms = [] then onlyRequestAccessTool tools
                              else filter (\<lambda>t. td_Name t \<noteq> requestAccessToolName \<and> td_Name t \<in> up_ToolName ` set perms) tools)
                       else onlyRequestAccessTool tools))"

definition toolFilterFunc :: "bool \<Rightarrow> UserDB option \<Rightarrow> Ctx \<Rightarrow> ToolDefinition list \<Rightarrow> ToolDefinition list" where
  "toolFilterFunc progressive userStore ctx tools =
    (let filtered = applyRoleFilter userStore ctx tools in if progressive then onlyMetaTools filtered else filtered)"

section \<open>The gateway's own tools\<close>

datatype meta_reply = SearchReply "ToolDefinition list" nat nat | SchemaReply "ToolDefinition list" | MetaError string

text \<open>A call of \<open>search_tools\<close>; its answer is not encoded.  The conversion of the limit truncates.\<close>

definition handleSearchTools ::
  "'e search_op \<Rightarrow> (string, json) gomap \<Rightarrow> 'e DiscoveryIndex \<Rightarrow> meta_reply \<times> 'e DiscoveryIndex" where
  "handleSearchTools search args d =
    (case map_of args ''query'' of
       Some (JStr query) \<Rightarrow>
         (let category = (case map_of args ''category'' of Some (JStr c) \<Rightarrow> c | _ \<Rightarrow> '''');
              limit = (case map_of args ''limit'' of Some (JNum v) \<Rightarrow> if v > 0 then \<lfloor>v\<rfloor> else defaultSearchLimit | _ \<Rightarrow> defaultSearchLimit);
              ((results, total), d1) = Discovery_Search search query category 0 limit d
          in (SearchReply results total (length results), d1))
     | _ \<Rightarrow> (MetaError ''query parameter is required'', d))"

fun string_items :: "json list \<Rightarrow> string list option" where
  "string_items [] = Some []"
| "string_items (JStr s # rest) = map_option ((#) s) (string_items rest)"
| "string_items (_ # rest) = None"

definition parseToolNames :: "(string, json) gomap \<Rightarrow> string + string list" where
  "parseToolNames args =
    (case map_of args ''names'' of
       None \<Rightarrow> Inl ''names parameter is required''
     | Some (JArr items) \<Rightarrow>
         (case string_items items of
            None \<Rightarrow> Inl ''names must be an array of strings''
          | Some xs \<Rightarrow> if xs = [] then Inl ''names must contain at least one string'' else Inr xs)
     | Some _ \<Rightarrow> Inl ''names must be an array of strings'')"

definition maxActivatedSessionTools :: int where
  "maxActivatedSessionTools = 50"

text \<open>The tools of the caller's session, \<open>None\<close> without a session that holds tools; \<open>fails\<close>: adding them fails.\<close>

definition activateSessionTools ::
  "bool \<Rightarrow> ToolDefinition list \<Rightarrow> (string, ToolDefinition) gomap option \<Rightarrow> (string, ToolDefinition) gomap option" where
  "activateSessionTools fails tools session =
    (case session of
       None \<Rightarrow> None
     | Some existing \<Rightarrow>
         (let allowed = maxActivatedSessionTools - int (length existing);
              newTools = filter (\<lambda>td. map_of existing (td_Name td) = None) tools
          in if allowed \<le> 0 \<or> newTools = [] then Some existing
             else let newTools = (if int (length newTools) > allowed then take (nat allowed) newTools else newTools)
                  in if fails then Some existing
                     else Some (foldl (\<lambda>m td. mput (td_Name td) td m) existing newTools)))"

definition handleGetToolSchema ::
  "bool \<Rightarrow> bool \<Rightarrow> (string, json) gomap \<Rightarrow> 'e DiscoveryIndex \<Rightarrow> (string, ToolDefinition) gomap option
   \<Rightarrow> meta_reply \<times> (string, ToolDefinition) gomap option" where
  "handleGetToolSchema progressive fails args d session =
    (case parseToolNames args of
       Inl msg \<Rightarrow> (MetaError msg, session)
     | Inr toolNames \<Rightarrow>
         (let tools = GetTools toolNames d
          in (SchemaReply tools, if progressive \<and> tools \<noteq> [] then activateSessionTools fails tools session else session)))"

definition ActivateToolsByName ::
  "bool \<Rightarrow> string list \<Rightarrow> 'e DiscoveryIndex option \<Rightarrow> (string, ToolDefinition) gomap option
   \<Rightarrow> (string, ToolDefinition) gomap option" where
  "ActivateToolsByName fails toolNames discovery session =
    (case discovery of
       None \<Rightarrow> session
     | Some d \<Rightarrow>
         if toolNames = [] then session
         else let tools = GetTools toolNames d in if tools \<noteq> [] then activateSessionTools fails tools session else session)"

section \<open>The registry\<close>

definition NewProxyServer ::
  "CapabilityIndex option \<Rightarrow> 's \<Rightarrow> (string \<times> string \<times> bool) option \<Rightarrow> (int \<times> duration \<times> int) option \<Rightarrow> 'e option \<Rightarrow> duration
   \<Rightarrow> ('s, 'b, 'e) ProxyServer" where
  "NewProxyServer index strategy cfg circuit engine backendTimeout =
    (let timeout = (if backendTimeout \<le> 0 then defaultBackendTimeout else backendTimeout);
         ns = map_option (\<lambda>(mode, separator, progressive). NewNamespaceResolver mode separator (index \<noteq> None)) cfg;
         progressive = (case cfg of None \<Rightarrow> False | Some (mode, separator, progressive) \<Rightarrow> progressive)
     in \<lparr>ps_router = (NewRouter index strategy timeout circuit)\<lparr>rt_nsResolver := ns\<rparr>, ps_clients = [],
         ps_toolCache = NewToolCache defaultToolCacheTTL, ps_backendTimeout = timeout, ps_nsResolver = ns,
         ps_progressive = progressive, ps_orchestrator = False, ps_audit = None, ps_users = None,
         ps_discovery = (if progressive then Some (SetEngine engine NewDiscoveryIndex) else None),
         ps_lastSync = None, ps_tools = [], ps_resources = []\<rparr>)"

definition InvalidateToolCache :: "('s, 'b, 'e) ProxyServer \<Rightarrow> ('s, 'b, 'e) ProxyServer" where
  "InvalidateToolCache p = p\<lparr>ps_toolCache := ToolCache_Invalidate (ps_toolCache p), ps_lastSync := None\<rparr>"

definition InvalidateToolCacheForServer :: "string \<Rightarrow> ('s, 'b, 'e) ProxyServer \<Rightarrow> ('s, 'b, 'e) ProxyServer" where
  "InvalidateToolCacheForServer serverID p =
    p\<lparr>ps_toolCache := InvalidateServer serverID (ps_toolCache p), ps_lastSync := None\<rparr>"

definition registered_name :: "registered_tool \<Rightarrow> string" where
  "registered_name t =
    (case t of BackendTool def \<Rightarrow> td_Name def | SearchTools \<Rightarrow> ''search_tools'' | GetToolSchema \<Rightarrow> ''get_tool_schema''
     | Orchestrate \<Rightarrow> ''cruvero.orchestrate'' | RequestAccess \<Rightarrow> requestAccessToolName)"

definition syncMCPTools ::
  "'e index_op \<Rightarrow> 'w mcp_lib \<Rightarrow> 'w mcp_lists \<Rightarrow> 'w env \<Rightarrow> ('s, 'b, 'e) ProxyServer \<Rightarrow> 'w
   \<Rightarrow> string option \<times> ('s, 'b, 'e) ProxyServer \<times> 'w" where
  "syncMCPTools index_op M L E p w =
    (case handleListTools M L E p w of
       (Inl e, p1, w1) \<Rightarrow> (Some e, p1, w1)
     | (Inr tools, p1, w1) \<Rightarrow>
         (let p2 = (if ps_progressive p1 then p1\<lparr>ps_discovery := map_option (Discovery_Index index_op tools) (ps_discovery p1)\<rparr> else p1);
              serverTools = map BackendTool tools @ (if ps_progressive p2 then [SearchTools, GetToolSchema] else [])
                @ (if ps_orchestrator p2 then [Orchestrate] else []) @ [RequestAccess]
          in (None, p2\<lparr>ps_tools := foldl (\<lambda>m t. mput (registered_name t) t m) [] serverTools\<rparr>, w1)))"

definition syncMCPResources ::
  "'w mcp_lib \<Rightarrow> 'w mcp_lists \<Rightarrow> ('s, 'b, 'e) ProxyServer \<Rightarrow> 'w \<Rightarrow> string option \<times> ('s, 'b, 'e) ProxyServer \<times> 'w" where
  "syncMCPResources M L p w =
    (case handleListResources M L p w of
       (Inl e, p1, w1) \<Rightarrow> (Some e, p1, w1)
     | (Inr resources, p1, w1) \<Rightarrow>
         (None, p1\<lparr>ps_resources := foldl (\<lambda>m r. mput (rd_URI r) r m) [] resources\<rparr>, w1))"

definition syncMCPRegistry ::
  "'e index_op \<Rightarrow> 'w mcp_lib \<Rightarrow> 'w mcp_lists \<Rightarrow> 'w env \<Rightarrow> ('s, 'b, 'e) ProxyServer \<Rightarrow> 'w
   \<Rightarrow> string option \<times> ('s, 'b, 'e) ProxyServer \<times> 'w" where
  "syncMCPRegistry index_op M L E p w =
    (if since (ps_lastSync p) (clock E w) < defaultToolCacheTTL then (None, p, w)
     else
       (case syncMCPTools index_op M L E (p\<lparr>ps_lastSync := Some (clock E w)\<rparr>) w of
          (Some e, p1, w1) \<Rightarrow> (Some e, p1, w1)
        | (None, p1, w1) \<Rightarrow> syncMCPResources M L p1 w1))"

section \<open>Legacy requests\<close>

text \<open>\<open>decode\<close> and \<open>encode\<close> are JSON decoding into a map and its encoding.  The result is the body to serve with
  the old and new name when it changed; \<open>None\<close> when the body does not decode.\<close>

definition rewriteLegacyToolCallName ::
  "(string \<Rightarrow> (string, json) gomap option) \<Rightarrow> ((string, json) gomap \<Rightarrow> string) \<Rightarrow> string \<Rightarrow> string
   \<Rightarrow> (string \<times> (string \<times> string) option) option" where
  "rewriteLegacyToolCallName decode encode body serverHint =
    (let server = TrimSpace serverHint
     in if server = '''' \<or> EqualFold server ''federation'' then Some (body, None)
        else case decode body of
               None \<Rightarrow> None
             | Some envelope \<Rightarrow>
                 (case map_of envelope ''method'' of
                    Some (JStr rpc) \<Rightarrow>
                      if TrimSpace rpc \<noteq> ''tools/call'' then Some (body, None)
                      else (case map_of envelope ''params'' of
                              Some (JObj params) \<Rightarrow>
                                (let name = (case map_of params ''name'' of Some (JStr n) \<Rightarrow> TrimSpace n | _ \<Rightarrow> '''');
                                     displayName = TrimPrefix server ''mcp-'';
                                     federated = displayName @ ''.'' @ name
                                 in if name = '''' \<or> HasPrefix name (displayName @ ''.'') \<or> HasPrefix name ''mcp.'' then Some (body, None)
                                    else Some (encode (mput ''params'' (JObj (mput ''name'' (JStr federated) params)) envelope),
                                               Some (name, federated)))
                            | _ \<Rightarrow> Some (body, None))
                  | _ \<Rightarrow> Some (body, None)))"

text \<open>The body the MCP server is given.\<close>

definition served_body ::
  "(string \<Rightarrow> (string, json) gomap option) \<Rightarrow> ((string, json) gomap \<Rightarrow> string) \<Rightarrow> string \<Rightarrow> string \<Rightarrow> string \<Rightarrow> string" where
  "served_body decode encode httpMethod body serverHint =
    (if httpMethod = ''POST'' \<and> body \<noteq> '''' then
       (case rewriteLegacyToolCallName decode encode body serverHint of
          Some (b, Some change) \<Rightarrow> b
        | _ \<Rightarrow> body)
     else body)"

section \<open>Who may call what\<close>

text \<open>The specification of the permission check: everybody but an OIDC user, an administrator, and a user to whom
  the tool is granted.  A lookup that fails permits nothing.\<close>

definition permitted :: "UserDB option \<Rightarrow> Ctx \<Rightarrow> string \<Rightarrow> bool" where
  "permitted userStore ctx toolName =
    (case (userStore, FromContext ctx) of
       (Some users, Some d) \<Rightarrow>
         id_Type d \<noteq> IdentityOIDC \<or>
         (case GetByOIDCSub (id_ID d) users of
            Inr (Some user) \<Rightarrow>
              us_Role user = RoleAdmin \<or> us_Role user = RoleUser \<and> HasToolPermission (us_ID user) toolName users = Inr True
          | _ \<Rightarrow> False)
     | _ \<Rightarrow> True)"

lemma log_entry_frame [simp]:
  "ps_router (log_entry e p) = ps_router p" "ps_users (log_entry e p) = ps_users p"
  by (simp_all add: log_entry_def)

lemma auditToolCall_frame [simp]:
  "ps_router (auditToolCall t r b p) = ps_router p" "ps_users (auditToolCall t r b p) = ps_users p"
  by (simp_all add: auditToolCall_def)

lemma checkToolPermission_frame:
  "checkToolPermission ctx toolName users p = (m, p') \<Longrightarrow> ps_router p' = ps_router p \<and> ps_users p' = ps_users p"
  by (auto simp: checkToolPermission_def auditToolDenied_def Let_def split: option.splits if_splits sum.splits UserRole.splits)

lemma checkToolPermission_permits:
  "fst (checkToolPermission ctx toolName users p) = None \<longleftrightarrow> permitted (Some users) ctx toolName"
  by (auto simp: checkToolPermission_def permitted_def Let_def split: option.splits sum.splits UserRole.splits)

lemma checkToolPermission_unlogged:
  "fst (checkToolPermission ctx toolName users p) = None \<Longrightarrow> snd (checkToolPermission ctx toolName users p) = p"
  by (auto simp: checkToolPermission_def Let_def split: option.splits sum.splits UserRole.splits if_splits)

text \<open>The permission check of both handlers, in one place.\<close>

lemma gate_cases:
  obtains (denied) msg p1 where "\<not> permitted (ps_users p) ctx toolName" "ps_router p1 = ps_router p" "ps_users p1 = ps_users p"
      "(case ps_users p of None \<Rightarrow> (None, p) | Some users \<Rightarrow> checkToolPermission ctx toolName users p) = (Some msg, p1)"
  | (permitted) "permitted (ps_users p) ctx toolName"
      "(case ps_users p of None \<Rightarrow> (None, p) | Some users \<Rightarrow> checkToolPermission ctx toolName users p) = (None, p)"
proof (cases "ps_users p")
  case None
  then show ?thesis by (intro permitted) (simp_all add: permitted_def)
next
  case (Some users)
  obtain m p1 where c: "checkToolPermission ctx toolName users p = (m, p1)" by fastforce
  show ?thesis
  proof (cases m)
    case None
    then show ?thesis
      using Some c checkToolPermission_permits [of ctx toolName users p] checkToolPermission_unlogged [of ctx toolName users p]
      by (intro permitted) simp_all
  next
    case (Some msg)
    then show ?thesis
      using \<open>ps_users p = Some users\<close> c checkToolPermission_permits [of ctx toolName users p] checkToolPermission_frame [OF c]
      by (intro denied) simp_all
  qed
qed

text \<open>C26. \<^bold>\<open>A call without permission reaches no backend; any other call is routed.\<close>  For every caller, tool,
  user table and state: if the caller is an OIDC user who is neither an administrator nor a user to whom the tool is
  granted, or whose record cannot be read, both the handler of MCP calls and the executor of orchestrated calls
  answer with an error text and leave the router and the world as they are.  Otherwise both make exactly the
  call of the router, with the same effects.\<close>

theorem tool_call_guarded:
  "(case makeToolHandler select allow M E toolName ctx args p w of (reply, p1, w1) \<Rightarrow>
    case ExecuteToolCall select allow M E toolName ctx args p w of (out, p2, w2) \<Rightarrow>
    case Route select allow M E ctx toolName args (ps_router p) w of (result, r, w3) \<Rightarrow>
      (if permitted (ps_users p) ctx toolName
       then ps_router p1 = r \<and> ps_router p2 = r \<and> w1 = w3 \<and> w2 = w3
       else (\<exists>msg. reply = Replied [(''text'', PlainText msg)] True \<and> out = ExecOutput (PlainText msg) True)
            \<and> ps_router p1 = ps_router p \<and> ps_router p2 = ps_router p \<and> w1 = w \<and> w2 = w))"
proof (cases rule: gate_cases [of p ctx toolName])
  case (denied msg p1)
  then show ?thesis
    by (simp add: makeToolHandler_def ExecuteToolCall_def split: prod.split)
next
  case permitted
  then show ?thesis
    by (auto simp: makeToolHandler_def ExecuteToolCall_def Let_def
        split: prod.split sum.split route_error.split option.split)
qed

text \<open>The grants of the user table are the permissions of the calls, once they are stored.\<close>

lemma granted_tools_callable:
  assumes "SetToolPermissions uid granted by db = (None, db')" and "\<not> ud_fails db'"
    and "FromContext ctx = Some d" and "id_Type d = IdentityOIDC" and "GetByOIDCSub (id_ID d) db' = Inr (Some u)"
    and "us_Role u = RoleUser" and "TrimSpace (us_ID u) = TrimSpace uid"
  shows "permitted (Some db') ctx toolName \<longleftrightarrow> TrimSpace toolName \<in> TrimSpace ` set granted"
  using assms SetToolPermissions_roundtrip [OF assms(1)] by (auto simp: permitted_def)

text \<open>What a user is shown is what the user may call: for the role \<open>user\<close>, with names and tables trimmed.\<close>

lemma visible_is_callable:
  assumes "FromContext ctx = Some d" and "id_Type d = IdentityOIDC" and "GetByOIDCSub (id_ID d) db = Inr (Some u)"
    and "us_Role u = RoleUser" and "t \<in> set (applyRoleFilter (Some db) ctx tools)" and "td_Name t \<noteq> requestAccessToolName"
    and "TrimSpace (td_Name t) = td_Name t"
  shows "permitted (Some db) ctx (td_Name t)"
proof -
  have nf: "\<not> ud_fails db" using assms(3) by (auto simp: GetByOIDCSub_def split: if_splits)
  have none: "td_Name x = requestAccessToolName" if "x \<in> set (onlyRequestAccessTool tools)" for x
    using that by (auto simp: onlyRequestAccessTool_def find_Some_iff2 find_Some_iff eq_commute [of "Some _"] split: option.splits)
  have "td_Name t \<in> up_ToolName ` {p \<in> set (ud_perms db). up_UserID p = TrimSpace (us_ID u)}"
    using assms nf none by (auto simp: applyRoleFilter_def GetToolPermissions_def split: if_splits)
  then have "HasToolPermission (us_ID u) (td_Name t) db = Inr True"
    using nf assms(7) by (auto simp: HasToolPermission_def filter_empty_conv)
  with assms show ?thesis by (simp add: permitted_def)
qed

text \<open>The other way round a viewer sees the granted tools and may call none of them, and the tools that search the
  index are not subject to the check at all.\<close>

lemma viewer_calls_nothing:
  "FromContext ctx = Some d \<Longrightarrow> id_Type d = IdentityOIDC \<Longrightarrow> GetByOIDCSub (id_ID d) db = Inr (Some u)
   \<Longrightarrow> us_Role u = RoleViewer \<Longrightarrow> \<not> permitted (Some db) ctx toolName"
  by (simp add: permitted_def)

section \<open>Sessions\<close>

lemma length_mput: "length (mput k v m) \<le> Suc (length m)"
  by (induction m) auto

lemma length_put_all: "length (foldl (\<lambda>m td. mput (f td) td m) m xs) \<le> length m + length xs"
proof (induction xs arbitrary: m)
  case (Cons x xs)
  show ?case using Cons [of "mput (f x) x m"] length_mput [of "f x" x m] by simp
qed simp

lemma activateSessionTools_bound:
  assumes "case session of None \<Rightarrow> True | Some m \<Rightarrow> length m \<le> 50"
  shows "case activateSessionTools fails tools session of None \<Rightarrow> True | Some m \<Rightarrow> length m \<le> 50"
proof (cases session)
  case (Some m)
  define new where "new = filter (\<lambda>td. map_of m (td_Name td) = None) tools"
  have "length (foldl (\<lambda>m td. mput (td_Name td) td m) m (take k new)) \<le> 50" if "k \<le> 50 - length m" for k
  proof -
    have "length (take k new) \<le> k" by simp
    then show ?thesis using length_put_all [of td_Name m "take k new"] that assms Some by simp
  qed
  moreover have "length (foldl (\<lambda>m td. mput (td_Name td) td m) m new) \<le> 50" if "length new \<le> 50 - length m"
    using length_put_all [of td_Name m new] that assms Some by simp
  ultimately show ?thesis
    using assms Some
    by (auto simp: activateSessionTools_def maxActivatedSessionTools_def Let_def new_def [symmetric] simp del: map_of_eq_None_iff)
qed (simp add: activateSessionTools_def)

section \<open>Rewriting\<close>

text \<open>A request that was rewritten is left alone when it passes again.\<close>

lemma rewrite_once:
  assumes dec: "\<And>m. decode (encode m) = Some m"
    and r: "rewriteLegacyToolCallName decode encode body hint = Some (b, Some (old, new))"
    and t: "TrimSpace new = new"
  shows "rewriteLegacyToolCallName decode encode b hint = Some (b, None)"
proof -
  have h: "TrimSpace hint \<noteq> ''''" "\<not> EqualFold (TrimSpace hint) ''federation''"
    using r by (auto simp: rewriteLegacyToolCallName_def Let_def)
  obtain m rpc params where m: "decode body = Some m" "map_of m ''method'' = Some (JStr rpc)" "TrimSpace rpc = ''tools/call''"
      "map_of m ''params'' = Some (JObj params)" "b = encode (mput ''params'' (JObj (mput ''name'' (JStr new) params)) m)"
      "new = TrimPrefix (TrimSpace hint) ''mcp-'' @ ''.'' @ old"
    using r h
    by (auto simp: rewriteLegacyToolCallName_def Let_def simp del: map_of_eq_Some_iff split: option.splits json.splits if_splits)
  have "HasPrefix new (TrimPrefix (TrimSpace hint) ''mcp-'' @ ''.'')" using m(6) by (simp add: HasPrefix_def)
  then show ?thesis
    using h m t by (simp add: rewriteLegacyToolCallName_def Let_def dec)
qed

end
