(* ===== verification/Orchestrator.thy ===== *)
theory Orchestrator
  imports Tool_Access
begin

text \<open>
  \<^verbatim>\<open>src/internal/orchestrator\<close> with the failover client of \<^verbatim>\<open>src/internal/llm\<close> and the adapters of
  \<^verbatim>\<open>src/cmd/mcpgw/serve.go\<close>: a language model plans tool calls for an intent, and the gateway validates and runs
  the plan through the handler pipeline of \<open>Tool_Access\<close>.

  The completion call of the client library runs on a state of its own and may answer anything; decoding an answer is
  a parameter that, as \<^verbatim>\<open>json.Unmarshal\<close>, updates the plan it is given also when it fails.  A result is returned
  as a value; its JSON encoding, which succeeds on decoded plans, is left out.

  The main result: whatever the model answers, at most ten calls are made, each of a tool that the search offered
  and the safety level admits, in the order of the plan, and each through the permission check.
\<close>

section \<open>Requests and plans\<close>

datatype SafetyLevel = SafetyStrict | SafetyReadOnly

datatype OrchestrateMode = ModePlan | ModeExecute

record OrchestrateRequest =
  oq_Intent :: string
  oq_Mode :: OrchestrateMode
  oq_SafetyLevel :: SafetyLevel
  oq_Domain :: string

record CandidateTool =
  cd_Name :: string
  cd_Description :: string
  cd_InputSchema :: string
  cd_RiskLevel :: RiskLevel

record PlanStep =
  pt_StepNumber :: int
  pt_ToolName :: string
  pt_Arguments :: "(string, json) gomap"
  pt_Purpose :: string
  pt_DependsOn :: "int list"
  pt_RequiresApproval :: bool

text \<open>A warning of the model, or one of the two that validation adds.\<close>

datatype plan_warning = ModelWarning string | RemovedFabricated string | PlanTruncated nat

record OrchestratePlan =
  pn_Summary :: string
  pn_Steps :: "PlanStep list"
  pn_Warnings :: "plan_warning list"

text \<open>The text of a failed step: the message of the routing error, or the output of the tool.\<close>

datatype step_error = RouteFailed route_error | ToolFailed call_text

record StepResult =
  sp_Step :: PlanStep
  sp_Output :: "call_text option"
  sp_IsError :: bool
  sp_Error :: "step_error option"
  sp_Skipped :: bool
  sp_SkipReason :: string

record OrchestrateResult =
  os_Mode :: OrchestrateMode
  os_Plan :: OrchestratePlan
  os_StepResults :: "StepResult list"

datatype provider_error = CompletionFailed string string | NoChoices string

datatype llm_error = NoProvidersConfigured | ProvidersFailed nat provider_error

datatype orchestrate_error =
    ErrIntentRequired | ErrInvalidMode | ErrInvalidSafety | ErrDiscoveryUnavailable | ErrNoToolsMatch
  | ErrChat llm_error | ErrRetryChat llm_error | ErrInvalidJSON string

text \<open>A mode or level that is given must be one of the two, after trimming.\<close>

definition parseRequest :: "(string, json) gomap \<Rightarrow> orchestrate_error + OrchestrateRequest" where
  "parseRequest args =
    (let str = (\<lambda>k. case map_of args k of Some (JStr s) \<Rightarrow> s | _ \<Rightarrow> '''');
         intent = str ''intent'';
         m = TrimSpace (str ''mode'');
         s = TrimSpace (str ''safety_level'')
     in if TrimSpace intent = '''' then Inl ErrIntentRequired
        else if m \<notin> {'''', ''plan'', ''execute''} then Inl ErrInvalidMode
        else if s \<notin> {'''', ''strict'', ''read_only''} then Inl ErrInvalidSafety
        else Inr \<lparr>oq_Intent = intent, oq_Mode = (if m = ''plan'' then ModePlan else ModeExecute),
                  oq_SafetyLevel = (if s = ''read_only'' then SafetyReadOnly else SafetyStrict), oq_Domain = str ''domain''\<rparr>)"

definition safe_risk :: "SafetyLevel \<Rightarrow> RiskLevel \<Rightarrow> bool" where
  "safe_risk level risk =
    (case level of
       SafetyStrict \<Rightarrow> risk = RiskReadOnly \<or> risk = RiskUnknown
     | SafetyReadOnly \<Rightarrow> risk \<noteq> RiskDestructive)"

definition filterBySafety :: "CandidateTool list \<Rightarrow> SafetyLevel \<Rightarrow> CandidateTool list" where
  "filterBySafety candidates level = filter (\<lambda>c. safe_risk level (cd_RiskLevel c)) candidates"

definition filterByDomain :: "CandidateTool list \<Rightarrow> string \<Rightarrow> CandidateTool list" where
  "filterByDomain candidates domain =
    (let d = ToLower (TrimSpace domain)
     in if d = '''' then candidates else filter (\<lambda>c. Contains (ToLower (cd_Name c)) d) candidates)"

definition extractToolNames :: "OrchestratePlan \<Rightarrow> string list" where
  "extractToolNames plan = foldl add_unseen [] (map pt_ToolName (pn_Steps plan))"

definition maxPlanSteps :: nat where
  "maxPlanSteps = 10"

definition validatePlan :: "OrchestratePlan \<Rightarrow> CandidateTool list \<Rightarrow> OrchestratePlan" where
  "validatePlan plan candidates =
    (let known = (\<lambda>s. pt_ToolName s \<in> cd_Name ` set candidates);
         warnings = pn_Warnings plan @ map (\<lambda>s. RemovedFabricated (pt_ToolName s)) (filter (\<lambda>s. \<not> known s) (pn_Steps plan));
         steps = filter known (pn_Steps plan)
     in if length steps > maxPlanSteps
        then plan\<lparr>pn_Steps := take maxPlanSteps steps, pn_Warnings := warnings @ [PlanTruncated maxPlanSteps]\<rparr>
        else plan\<lparr>pn_Steps := steps, pn_Warnings := warnings\<rparr>)"

section \<open>The language model\<close>

record ChatMessage =
  cm_Role :: string
  cm_Content :: string

record ChatRequest =
  cr_Messages :: "ChatMessage list"
  cr_MaxTokens :: int
  cr_Temperature :: real
  cr_JSONOutput :: bool

record ChatResponse =
  cp_Content :: string
  cp_Provider :: string
  cp_Model :: string

text \<open>
  A provider is its configuration.  \<open>completion\<close> is the completion call of the client library, which fails with a
  message or returns the contents of its choices.
\<close>

record openaiClient =
  oc_azure :: bool
  oc_apiKey :: string
  oc_baseURL :: "string option"
  oc_model :: string
  oc_providerName :: string

datatype provider_config_error = APIKeyRequired string | ModelRequired string | AzureBaseURLRequired

definition NewProviderClient :: "string \<Rightarrow> string \<Rightarrow> string \<Rightarrow> string \<Rightarrow> provider_config_error + openaiClient" where
  "NewProviderClient providerName apiKey baseURL model =
    (if TrimSpace apiKey = '''' then Inl (APIKeyRequired providerName)
     else if TrimSpace model = '''' then Inl (ModelRequired providerName)
     else if ToLower (TrimSpace providerName) = ''azure''
     then (if TrimSpace baseURL = '''' then Inl AzureBaseURLRequired
           else Inr \<lparr>oc_azure = True, oc_apiKey = apiKey, oc_baseURL = Some baseURL, oc_model = model, oc_providerName = providerName\<rparr>)
     else Inr \<lparr>oc_azure = False, oc_apiKey = apiKey,
               oc_baseURL = (if TrimSpace baseURL = '''' then None else Some (TrimSpace baseURL)),
               oc_model = model, oc_providerName = providerName\<rparr>)"

type_synonym 'l complete_op = "openaiClient \<Rightarrow> ChatRequest \<Rightarrow> 'l \<Rightarrow> (string + string list) \<times> 'l"

definition openai_Chat ::
  "'l complete_op \<Rightarrow> openaiClient \<Rightarrow> ChatRequest \<Rightarrow> 'l \<Rightarrow> (provider_error + ChatResponse) \<times> 'l" where
  "openai_Chat completion c req l =
    (case completion c req l of
       (Inl e, l1) \<Rightarrow> (Inl (CompletionFailed (oc_providerName c) e), l1)
     | (Inr [], l1) \<Rightarrow> (Inl (NoChoices (oc_providerName c)), l1)
     | (Inr (content # rest), l1) \<Rightarrow>
         (Inr \<lparr>cp_Content = content, cp_Provider = oc_providerName c, cp_Model = oc_model c\<rparr>, l1))"

text \<open>The clients in order: the first response, or the error of the last one, \<open>None\<close> when there is no client.\<close>

fun try_providers ::
  "'l complete_op \<Rightarrow> openaiClient list \<Rightarrow> ChatRequest \<Rightarrow> provider_error option \<Rightarrow> 'l
   \<Rightarrow> (provider_error option + ChatResponse) \<times> 'l" where
  "try_providers completion [] req lastErr l = (Inl lastErr, l)"
| "try_providers completion (c # rest) req lastErr l =
    (case openai_Chat completion c req l of
       (Inr resp, l1) \<Rightarrow> (Inr resp, l1)
     | (Inl e, l1) \<Rightarrow> try_providers completion rest req (Some e) l1)"

type_synonym 'l chat = "ChatRequest \<Rightarrow> 'l \<Rightarrow> (llm_error + ChatResponse) \<times> 'l"

definition Failover_Chat :: "'l complete_op \<Rightarrow> openaiClient list \<Rightarrow> 'l chat" where
  "Failover_Chat completion providers req l =
    (case try_providers completion providers req None l of
       (Inr resp, l1) \<Rightarrow> (Inr resp, l1)
     | (Inl None, l1) \<Rightarrow> (Inl NoProvidersConfigured, l1)
     | (Inl (Some e), l1) \<Rightarrow> (Inl (ProvidersFailed (length providers) e), l1))"

record OrchestrateProvider =
  op_Name :: string
  op_APIKey :: string
  op_BaseURL :: string
  op_Model :: string

text \<open>The providers of the configuration that can be built; without any, orchestration is disabled.\<close>

definition initOrchestrator :: "bool \<Rightarrow> OrchestrateProvider list \<Rightarrow> openaiClient list option" where
  "initOrchestrator enabled configured =
    (if \<not> enabled \<or> configured = [] then None
     else let providers = List.map_filter (\<lambda>c. case NewProviderClient (op_Name c) (op_APIKey c) (op_BaseURL c) (op_Model c) of
                                                Inl e \<Rightarrow> None | Inr client \<Rightarrow> Some client) configured
          in if providers = [] then None else Some providers)"

abbreviation newline :: string where "newline \<equiv> [CHR 0x0A]"

fun join_lines :: "string list \<Rightarrow> string" where
  "join_lines [] = []"
| "join_lines [line] = line"
| "join_lines (line # rest) = line @ newline @ join_lines rest"

text \<open>The lines of the prompt; \<open>arrow\<close> is the UTF-8 encoding of the arrow it has.\<close>

definition SystemPrompt :: string where
  \<open>SystemPrompt = (let arrow = map char_of [0xE2, 0x86, 0x92 :: nat] in join_lines
    [''You are a safety-first, zero-hallucination MCP tool orchestration router.'',
     '''',
     ''CRITICAL EXTRACTION RULE (NEVER VIOLATE):'',
     ''- EVERY value mentioned in the intent MUST be placed in the correct "arguments" field exactly matching the tool schema.'',
     ''- Never leave required fields empty when the intent contains the value.'',
     ''- Use exact string matching from the intent.'',
     '''',
     ''MULTI-STEP PLANNING RULES:'',
     ''- Use 1 step when possible.'',
     ''- Use 2-3 steps only when one tool's output is logically required for the next.'',
     ''- Set "depends_on": [previous_step_numbers] for chaining.'',
     ''- Reference previous step output with {{stepN.output.field}} syntax in later arguments.'',
     ''- Always set "requires_approval": true for any write/destructive k8s operation.'',
     '''',
     ''EXAMPLES:'',
     '''',
     ''1. Single step'',
     ''Intent: "List all pods in the my-namespace namespace"'',
     ''{'',
     ''  "summary": "List pods in my-namespace namespace",'',
     ''  "steps": [{'',
     ''    "step_number": 1,'',
     ''    "tool_name": "k8s.list_pods",'',
     ''    "arguments": {"namespace": "my-namespace"},'',
     ''    "purpose": "Retrieve all pods in the requested namespace",'',
     ''    "depends_on": [],'',
     ''    "requires_approval": false'',
     ''  }]'',
     ''}'',
     '''',
     ''2. Two-step chain'',
     ''Intent: "Initiate a rolling restart on the portainer deployment in the portainer namespace"'',
     ''{'',
     ''  "summary": "Get deployment details then trigger rolling restart",'',
     ''  "steps": ['',
     ''    {'',
     ''      "step_number": 1,'',
     ''      "tool_name": "k8s.get_deployment",'',
     ''      "arguments": {"name": "portainer", "namespace": "portainer"},'',
     ''      "purpose": "Fetch current state before restart",'',
     ''      "depends_on": [],'',
     ''      "requires_approval": false'',
     ''    },'',
     ''    {'',
     ''      "step_number": 2,'',
     ''      "tool_name": "k8s.restart_rollout",'',
     ''      "arguments": {"deployment": "portainer", "namespace": "portainer"},'',
     ''      "purpose": "Perform rolling restart",'',
     ''      "depends_on": [1],'',
     ''      "requires_approval": true'',
     ''    }'',
     ''  ]'',
     ''}'',
     '''',
     ''3. Three-step chain'',
     ''Intent: "Restart the api deployment in prod then list its pods and show the newest one"'',
     ''{'',
     ''  "summary": "Restart deployment '' @ arrow @ '' list pods '' @ arrow @ '' identify newest",'',
     ''  "steps": ['',
     ''    { "step_number":1, "tool_name":"k8s.restart_rollout", "arguments":{"deployment":"api","namespace":"prod"}, "purpose":"Trigger restart", "depends_on":[], "requires_approval":true },'',
     ''    { "step_number":2, "tool_name":"k8s.list_pods", "arguments":{"namespace":"prod","label_selector":"app=api"}, "purpose":"List pods after restart", "depends_on":[1], "requires_approval":false },'',
     ''    { "step_number":3, "tool_name":"k8s.get_pod", "arguments":{"name":"{{step2.output.pods[0].name}}","namespace":"prod"}, "purpose":"Get details of newest pod", "depends_on":[2], "requires_approval":false }'',
     ''  ]'',
     ''}'',
     '''',
     ''Response format (strict JSON only, no extra text):'',
     ''{'',
     ''  "summary": "one sentence plan description",'',
     ''  "steps": [ ... ],'',
     ''  "warnings": []'',
     ''}''])\<close>

definition safety_string :: "SafetyLevel \<Rightarrow> string" where
  "safety_string level = (case level of SafetyStrict \<Rightarrow> ''strict'' | SafetyReadOnly \<Rightarrow> ''read_only'')"

definition mode_string :: "OrchestrateMode \<Rightarrow> string" where
  "mode_string m = (case m of ModePlan \<Rightarrow> ''plan'' | ModeExecute \<Rightarrow> ''execute'')"

fun tool_sections :: "nat \<Rightarrow> CandidateTool list \<Rightarrow> string" where
  "tool_sections n [] = ''''"
| "tool_sections n (t # ts) =
    newline @ ''### Tool '' @ Itoa (int n) @ '': '' @ cd_Name t @ newline
    @ ''- Description: '' @ cd_Description t @ newline
    @ ''- Risk Level: '' @ RiskLevel_String (cd_RiskLevel t) @ newline
    @ ''- Input Schema: '' @ cd_InputSchema t @ newline @ tool_sections (Suc n) ts"

definition buildUserPrompt :: "string \<Rightarrow> CandidateTool list \<Rightarrow> SafetyLevel \<Rightarrow> string \<Rightarrow> string" where
  "buildUserPrompt intent candidates safetyLevel domain =
    ''## Intent'' @ newline @ intent @ newline @ newline
    @ ''## Safety Level'' @ newline @ safety_string safetyLevel @ newline @ newline
    @ (if domain = '''' then '''' else ''## Domain Filter'' @ newline @ domain @ newline @ newline)
    @ ''## Available Tools'' @ newline @ tool_sections 1 candidates"

definition retry_instruction :: string where
  "retry_instruction = ''Your previous response was not valid JSON. Respond with valid JSON only, matching the schema specified in the system prompt.''"

text \<open>\<open>unmarshal content plan\<close>: whether decoding succeeded, and the plan with the fields it set.\<close>

definition plan_request :: "ChatMessage list \<Rightarrow> ChatRequest" where
  "plan_request messages = \<lparr>cr_Messages = messages, cr_MaxTokens = 4096, cr_Temperature = 0, cr_JSONOutput = True\<rparr>"

definition generatePlan ::
  "'l chat \<Rightarrow> (string \<Rightarrow> OrchestratePlan \<Rightarrow> bool \<times> OrchestratePlan) \<Rightarrow> OrchestrateRequest \<Rightarrow> CandidateTool list \<Rightarrow> 'l
   \<Rightarrow> (orchestrate_error + OrchestratePlan) \<times> 'l" where
  "generatePlan chat unmarshal req candidates l =
    (let userPrompt = buildUserPrompt (oq_Intent req) candidates (oq_SafetyLevel req) (oq_Domain req);
         messages = [\<lparr>cm_Role = ''system'', cm_Content = SystemPrompt\<rparr>, \<lparr>cm_Role = ''user'', cm_Content = userPrompt\<rparr>]
     in case chat (plan_request messages) l of
          (Inl e, l1) \<Rightarrow> (Inl (ErrChat e), l1)
        | (Inr resp, l1) \<Rightarrow>
            (case unmarshal (cp_Content resp) \<lparr>pn_Summary = '''', pn_Steps = [], pn_Warnings = []\<rparr> of
               (True, plan) \<Rightarrow> (Inr plan, l1)
             | (False, plan) \<Rightarrow>
                 (case chat (plan_request (messages @ [\<lparr>cm_Role = ''assistant'', cm_Content = cp_Content resp\<rparr>,
                                                       \<lparr>cm_Role = ''user'', cm_Content = retry_instruction\<rparr>])) l1 of
                    (Inl e, l2) \<Rightarrow> (Inl (ErrRetryChat e), l2)
                  | (Inr retried, l2) \<Rightarrow>
                      (case unmarshal (cp_Content retried) plan of
                         (True, plan) \<Rightarrow> (Inr plan, l2)
                       | (False, plan) \<Rightarrow> (Inl (ErrInvalidJSON (cp_Content retried)), l2)))))"

section \<open>Planning and execution\<close>

definition candidate_risk :: "ClassificationStore option \<Rightarrow> string \<Rightarrow> RiskLevel" where
  "candidate_risk classifications toolName =
    (case classifications of
       None \<Rightarrow> RiskUnknown
     | Some cs \<Rightarrow> (case Classification_Get toolName cs of Inr (Some c) \<Rightarrow> tc_RiskLevel c | _ \<Rightarrow> RiskUnknown))"

definition enrichCandidates :: "ClassificationStore option \<Rightarrow> ToolDefinition list \<Rightarrow> CandidateTool list" where
  "enrichCandidates classifications tools =
    map (\<lambda>t. \<lparr>cd_Name = td_Name t, cd_Description = td_Description t, cd_InputSchema = td_InputSchema t,
              cd_RiskLevel = candidate_risk classifications (td_Name t)\<rparr>) tools"

definition SearchTools_candidates ::
  "'e search_op \<Rightarrow> ClassificationStore option \<Rightarrow> string \<Rightarrow> int \<Rightarrow> ('s, 'b, 'e) ProxyServer
   \<Rightarrow> (orchestrate_error + CandidateTool list) \<times> ('s, 'b, 'e) ProxyServer" where
  "SearchTools_candidates search classifications query limit p =
    (case ps_discovery p of
       None \<Rightarrow> (Inl ErrDiscoveryUnavailable, p)
     | Some d \<Rightarrow>
         (let ((results, total), d1) = Discovery_Search search query '''' 0 limit d
          in (Inr (enrichCandidates classifications results), p\<lparr>ps_discovery := Some d1\<rparr>)))"

definition GetToolSchemas_candidates ::
  "ClassificationStore option \<Rightarrow> string list \<Rightarrow> 'e DiscoveryIndex option \<Rightarrow> orchestrate_error + CandidateTool list" where
  "GetToolSchemas_candidates classifications toolNames discovery =
    (case discovery of
       None \<Rightarrow> Inl ErrDiscoveryUnavailable
     | Some d \<Rightarrow> Inr (enrichCandidates classifications (GetTools toolNames d)))"

definition LogOrchestration :: "string \<Rightarrow> (string, json) gomap \<Rightarrow> ('s, 'b, 'e) ProxyServer \<Rightarrow> ('s, 'b, 'e) ProxyServer" where
  "LogOrchestration eventType details p =
    log_entry \<lparr>ae_EventType = eventType, ae_ClientID = '''', ae_Username = '''', ae_ServerName = '''', ae_Details = details\<rparr> p"

text \<open>The state of an orchestration: the proxy, the tools of the caller's session, the language model.\<close>

type_synonym session_tools = "(string, ToolDefinition) gomap option"

definition plan_intent ::
  "'e search_op \<Rightarrow> ClassificationStore option \<Rightarrow> 'l chat \<Rightarrow> (string \<Rightarrow> OrchestratePlan \<Rightarrow> bool \<times> OrchestratePlan) \<Rightarrow> bool
   \<Rightarrow> OrchestrateRequest \<Rightarrow> ('s, 'b, 'e) ProxyServer \<times> session_tools \<times> 'l
   \<Rightarrow> (orchestrate_error + OrchestrateResult) \<times> ('s, 'b, 'e) ProxyServer \<times> session_tools \<times> 'l" where
  "plan_intent search classifications chat unmarshal fails req st =
    (let (p, session, l) = st
     in case SearchTools_candidates search classifications (oq_Intent req) 20 p of
          (Inl e, p1) \<Rightarrow> (Inl e, p1, session, l)
        | (Inr found, p1) \<Rightarrow>
            (let inDomain = (if oq_Domain req \<noteq> '''' then filterByDomain found (oq_Domain req) else found);
                 candidates = filterBySafety inDomain (oq_SafetyLevel req)
             in if candidates = [] then (Inl ErrNoToolsMatch, p1, session, l)
                else case generatePlan chat unmarshal req candidates l of
                       (Inl e, l1) \<Rightarrow> (Inl e, p1, session, l1)
                     | (Inr generated, l1) \<Rightarrow>
                         (let plan = validatePlan generated candidates;
                              p2 = LogOrchestration ''orchestrate_plan''
                                [(''intent'', JStr (oq_Intent req)),
                                 (''mode'', JStr (mode_string (oq_Mode req))),
                                 (''safety_level'', JStr (safety_string (oq_SafetyLevel req))), (''domain'', JStr (oq_Domain req)),
                                 (''plan_summary'', JStr (pn_Summary plan)), (''step_count'', JNum (real (length (pn_Steps plan))))] p1;
                              toolNames = extractToolNames plan;
                              session1 = (if toolNames \<noteq> [] then ActivateToolsByName fails toolNames (ps_discovery p2) session else session)
                          in (Inr \<lparr>os_Mode = ModePlan, os_Plan = plan, os_StepResults = []\<rparr>, p2, session1, l1))))"

definition step_result :: "PlanStep \<Rightarrow> call_text option \<Rightarrow> bool \<Rightarrow> step_error option \<Rightarrow> StepResult" where
  "step_result s output isError err =
    \<lparr>sp_Step = s, sp_Output = output, sp_IsError = isError, sp_Error = err, sp_Skipped = False, sp_SkipReason = ''''\<rparr>"

text \<open>
  The loop over the steps.  A router that returns neither a result nor an error makes the call panic, and the panic
  leaves the loop: \<open>None\<close>.
\<close>

fun run_steps ::
  "'s select_op \<Rightarrow> 'b allow_op \<Rightarrow> 'w mcp_lib \<Rightarrow> 'w env \<Rightarrow> Ctx \<Rightarrow> PlanStep list \<Rightarrow> StepResult list \<Rightarrow> ('s, 'b, 'e) ProxyServer \<Rightarrow> 'w
   \<Rightarrow> StepResult list option \<times> ('s, 'b, 'e) ProxyServer \<times> 'w" where
  "run_steps select allow M E ctx [] results p w = (Some results, p, w)"
| "run_steps select allow M E ctx (s # rest) results p w =
    (if pt_RequiresApproval s
     then run_steps select allow M E ctx rest
            (results @ [\<lparr>sp_Step = s, sp_Output = None, sp_IsError = False, sp_Error = None,
                         sp_Skipped = True, sp_SkipReason = ''requires human approval''\<rparr>]) p w
     else case ExecuteToolCall select allow M E (pt_ToolName s) ctx (pt_Arguments s) p w of
            (ExecError e, p1, w1) \<Rightarrow>
              run_steps select allow M E ctx rest (results @ [step_result s None True (Some (RouteFailed e))]) p1 w1
          | (ExecOutput text isErr, p1, w1) \<Rightarrow>
              run_steps select allow M E ctx rest
                (results @ [step_result s (Some text) isErr (if isErr then Some (ToolFailed text) else None)]) p1 w1
          | (ExecPanic, p1, w1) \<Rightarrow> (None, p1, w1))"

text \<open>
  The outcome of a request: an error, a result, or \<open>None\<close> for a panic.  \<open>encode_results\<close> is the JSON value of the
  step results in the audit entry.
\<close>

definition execute_intent ::
  "'s select_op \<Rightarrow> 'b allow_op \<Rightarrow> 'w mcp_lib \<Rightarrow> 'w env \<Rightarrow> Ctx \<Rightarrow> (StepResult list \<Rightarrow> json)
   \<Rightarrow> 'e search_op \<Rightarrow> ClassificationStore option \<Rightarrow> 'l chat \<Rightarrow> (string \<Rightarrow> OrchestratePlan \<Rightarrow> bool \<times> OrchestratePlan) \<Rightarrow> bool
   \<Rightarrow> OrchestrateRequest \<Rightarrow> ('s, 'b, 'e) ProxyServer \<times> session_tools \<times> 'l \<Rightarrow> 'w
   \<Rightarrow> (orchestrate_error + OrchestrateResult) option \<times> (('s, 'b, 'e) ProxyServer \<times> session_tools \<times> 'l) \<times> 'w" where
  "execute_intent select allow M E ctx encode_results search classifications chat unmarshal fails req st w =
    (case plan_intent search classifications chat unmarshal fails req st of
       (Inl e, st1) \<Rightarrow> (Some (Inl e), st1, w)
     | (Inr planResult, p1, session1, l1) \<Rightarrow>
         (let plan = os_Plan planResult
          in case run_steps select allow M E ctx (pn_Steps plan) [] p1 w of
               (None, p2, w1) \<Rightarrow> (None, (p2, session1, l1), w1)
             | (Some results, p2, w1) \<Rightarrow>
                 (let p3 = LogOrchestration ''orchestrate_execute''
                    [(''intent'', JStr (oq_Intent req)), (''mode'', JStr (mode_string (oq_Mode req))),
                     (''safety_level'', JStr (safety_string (oq_SafetyLevel req))), (''plan_summary'', JStr (pn_Summary plan)),
                     (''step_count'', JNum (real (length (pn_Steps plan)))), (''results'', encode_results results)] p2
                  in (Some (Inr \<lparr>os_Mode = ModeExecute, os_Plan = plan, os_StepResults = results\<rparr>), (p3, session1, l1), w1))))"

definition Orchestrator_Handle ::
  "'s select_op \<Rightarrow> 'b allow_op \<Rightarrow> 'w mcp_lib \<Rightarrow> 'w env \<Rightarrow> Ctx \<Rightarrow> (StepResult list \<Rightarrow> json)
   \<Rightarrow> 'e search_op \<Rightarrow> ClassificationStore option \<Rightarrow> 'l chat \<Rightarrow> (string \<Rightarrow> OrchestratePlan \<Rightarrow> bool \<times> OrchestratePlan) \<Rightarrow> bool
   \<Rightarrow> (string, json) gomap \<Rightarrow> ('s, 'b, 'e) ProxyServer \<times> session_tools \<times> 'l \<Rightarrow> 'w
   \<Rightarrow> (orchestrate_error + OrchestrateResult) option \<times> (('s, 'b, 'e) ProxyServer \<times> session_tools \<times> 'l) \<times> 'w" where
  "Orchestrator_Handle select allow M E ctx encode_results search classifications chat unmarshal fails args st w =
    (case parseRequest args of
       Inl e \<Rightarrow> (Some (Inl e), st, w)
     | Inr req \<Rightarrow>
         (case oq_Mode req of
            ModePlan \<Rightarrow>
              (case plan_intent search classifications chat unmarshal fails req st of (result, st1) \<Rightarrow> (Some result, st1, w))
          | ModeExecute \<Rightarrow>
              execute_intent select allow M E ctx encode_results search classifications chat unmarshal fails req st w))"

text \<open>The handler of the tool: \<open>Inl\<close> the message of a denied call.\<close>

definition handleOrchestrate ::
  "'s select_op \<Rightarrow> 'b allow_op \<Rightarrow> 'w mcp_lib \<Rightarrow> 'w env \<Rightarrow> Ctx \<Rightarrow> (StepResult list \<Rightarrow> json)
   \<Rightarrow> 'e search_op \<Rightarrow> ClassificationStore option \<Rightarrow> 'l chat \<Rightarrow> (string \<Rightarrow> OrchestratePlan \<Rightarrow> bool \<times> OrchestratePlan) \<Rightarrow> bool
   \<Rightarrow> (string, json) gomap \<Rightarrow> ('s, 'b, 'e) ProxyServer \<times> session_tools \<times> 'l \<Rightarrow> 'w
   \<Rightarrow> (string + (orchestrate_error + OrchestrateResult) option) \<times> (('s, 'b, 'e) ProxyServer \<times> session_tools \<times> 'l) \<times> 'w" where
  "handleOrchestrate select allow M E ctx encode_results search classifications chat unmarshal fails args st w =
    (let (p, session, l) = st
     in case (case ps_users p of None \<Rightarrow> (None, p) | Some users \<Rightarrow> checkToolPermission ctx ''cruvero.orchestrate'' users p) of
          (Some msg, p1) \<Rightarrow> (Inl msg, (p1, session, l), w)
        | (None, p1) \<Rightarrow>
            (case Orchestrator_Handle select allow M E ctx encode_results search classifications chat unmarshal fails args (p1, session, l) w of
               (result, st1, w1) \<Rightarrow> (Inr result, st1, w1)))"

section \<open>Only admitted tools are called\<close>

text \<open>What a request admits, from its arguments and the stores alone: the plan of the model plays no part in it.\<close>

definition admitted ::
  "'e search_op \<Rightarrow> ClassificationStore option \<Rightarrow> 'e DiscoveryIndex option \<Rightarrow> (string, json) gomap \<Rightarrow> string \<Rightarrow> bool" where
  "admitted search classifications discovery args toolName =
    (case (parseRequest args, discovery) of
       (Inr req, Some d) \<Rightarrow>
         oq_Mode req = ModeExecute
         \<and> toolName \<in> td_Name ` set (fst (fst (Discovery_Search search (oq_Intent req) '''' 0 20 d)))
         \<and> safe_risk (oq_SafetyLevel req) (candidate_risk classifications toolName)
         \<and> Contains (ToLower toolName) (ToLower (TrimSpace (oq_Domain req)))
     | _ \<Rightarrow> False)"

definition call_all ::
  "'s select_op \<Rightarrow> 'b allow_op \<Rightarrow> 'w mcp_lib \<Rightarrow> 'w env \<Rightarrow> Ctx \<Rightarrow> PlanStep list \<Rightarrow> ('s, 'b, 'e) ProxyServer \<Rightarrow> 'w
   \<Rightarrow> ('s, 'b, 'e) ProxyServer \<times> 'w" where
  "call_all select allow M E ctx steps p w =
    foldl (\<lambda>(p, w) s. snd (ExecuteToolCall select allow M E (pt_ToolName s) ctx (pt_Arguments s) p w)) (p, w) steps"

abbreviation approved :: "PlanStep list \<Rightarrow> PlanStep list" where
  "approved steps \<equiv> filter (\<lambda>s. \<not> pt_RequiresApproval s) steps"

abbreviation called_steps :: "StepResult list \<Rightarrow> PlanStep list" where
  "called_steps results \<equiv> map sp_Step (filter (\<lambda>r. \<not> sp_Skipped r) results)"

lemma validatePlan_steps:
  "length (pn_Steps (validatePlan plan candidates)) \<le> maxPlanSteps"
  "set (pn_Steps (validatePlan plan candidates)) \<subseteq> {s. pt_ToolName s \<in> cd_Name ` set candidates}"
  by (auto simp: validatePlan_def Let_def dest: in_set_takeD)

lemma step_result_fields [simp]:
  "sp_Step (step_result s output isError err) = s" "\<not> sp_Skipped (step_result s output isError err)"
  by (simp_all add: step_result_def)

lemma run_steps_calls:
  assumes "run_steps select allow M E ctx steps results p w = (out, p1, w1)"
  shows "\<exists>ran rest. approved steps = ran @ rest \<and> (p1, w1) = call_all select allow M E ctx ran p w
    \<and> (case out of None \<Rightarrow> True | Some all \<Rightarrow> rest = [] \<and> (\<exists>new. all = results @ new \<and> called_steps new = ran))"
  using assms
proof (induction steps arbitrary: results p w)
  case Nil
  then show ?case by (auto simp: call_all_def)
next
  case (Cons s steps)
  show ?case
  proof (cases "pt_RequiresApproval s")
    case True
    define r where "r = \<lparr>sp_Step = s, sp_Output = None, sp_IsError = False, sp_Error = None, sp_Skipped = True,
      sp_SkipReason = ''requires human approval''\<rparr>"
    have "run_steps select allow M E ctx steps (results @ [r]) p w = (out, p1, w1)"
      using Cons.prems True by (simp add: r_def)
    from Cons.IH [OF this] obtain ran rest where ih: "approved steps = ran @ rest"
      "(p1, w1) = call_all select allow M E ctx ran p w"
      "case out of None \<Rightarrow> True | Some all \<Rightarrow> rest = [] \<and> (\<exists>new. all = (results @ [r]) @ new \<and> called_steps new = ran)"
      by blast
    have "sp_Skipped r" by (simp add: r_def)
    with ih(3) have "case out of None \<Rightarrow> True | Some all \<Rightarrow> rest = [] \<and> (\<exists>new. all = results @ new \<and> called_steps new = ran)"
      by (cases out) (auto intro: exI [of _ "r # new" for new])
    with ih True show ?thesis by auto
  next
    case False
    obtain res p2 w2 where ex: "ExecuteToolCall select allow M E (pt_ToolName s) ctx (pt_Arguments s) p w = (res, p2, w2)"
      using prod_cases3 by blast
    have step: "call_all select allow M E ctx (s # ran) p w = call_all select allow M E ctx ran p2 w2" for ran
      by (simp add: call_all_def ex)
    show ?thesis
    proof (cases "res = ExecPanic")
      case True
      with Cons.prems False ex have "out = None" "(p1, w1) = (p2, w2)" by simp_all
      then show ?thesis using False step [of "[]"]
        by (intro exI [of _ "[s]"] exI [of _ "approved steps"]) (simp add: call_all_def)
    next
      case went: False
      obtain r where r: "sp_Step r = s" "\<not> sp_Skipped r"
        and run: "run_steps select allow M E ctx steps (results @ [r]) p2 w2 = (out, p1, w1)"
      proof (cases res)
        case (ExecOutput out1 isErr)
        with Cons.prems False ex show ?thesis
          by (intro that [of "step_result s (Some out1) isErr (if isErr then Some (ToolFailed out1) else None)"]) simp_all
      next
        case (ExecError e)
        with Cons.prems False ex show ?thesis by (intro that [of "step_result s None True (Some (RouteFailed e))"]) simp_all
      next
        case ExecPanic
        with went show ?thesis by simp
      qed
      from Cons.IH [OF run] obtain ran rest where ih: "approved steps = ran @ rest"
        "(p1, w1) = call_all select allow M E ctx ran p2 w2"
        "case out of None \<Rightarrow> True | Some all \<Rightarrow> rest = [] \<and> (\<exists>new. all = (results @ [r]) @ new \<and> called_steps new = ran)"
        by blast
      from ih(3) r have "case out of None \<Rightarrow> True | Some all \<Rightarrow> rest = [] \<and> (\<exists>new. all = results @ new \<and> called_steps new = s # ran)"
        by (cases out) (auto intro: exI [of _ "r # new" for new])
      with ih False step show ?thesis
        by (intro exI [of _ "s # ran"] exI [of _ rest]) simp
    qed
  qed
qed

lemma Contains_empty [simp]: "Contains s []"
  by (cases s) (simp_all add: Contains_def)

lemma filterByDomain_set: "set (filterByDomain cs domain) = {c \<in> set cs. Contains (ToLower (cd_Name c)) (ToLower (TrimSpace domain))}"
  by (auto simp: filterByDomain_def Let_def)

lemma enrichCandidates_risk: "c \<in> set (enrichCandidates cls tools) \<Longrightarrow> cd_Name c \<in> td_Name ` set tools \<and> cd_RiskLevel c = candidate_risk cls (cd_Name c)"
  by (auto simp: enrichCandidates_def)

lemma LogOrchestration_frame [simp]:
  "ps_router (LogOrchestration t d p) = ps_router p" "ps_users (LogOrchestration t d p) = ps_users p"
  "ps_discovery (LogOrchestration t d p) = ps_discovery p"
  by (simp_all add: LogOrchestration_def log_entry_def)

lemma plan_intent_frame:
  assumes "plan_intent search cls chat unmarshal fails req (p, session, l) = (result, p1, session1, l1)"
  shows "ps_router p1 = ps_router p" "ps_users p1 = ps_users p"
  using assms
  by (auto simp: plan_intent_def SearchTools_candidates_def Let_def split: option.splits prod.splits sum.splits if_splits)

lemma plan_intent_admits:
  assumes "plan_intent search cls chat unmarshal fails req (p, session, l) = (Inr result, p1, session1, l1)"
  shows "length (pn_Steps (os_Plan result)) \<le> maxPlanSteps"
    "\<exists>d. ps_discovery p = Some d \<and> (\<forall>s \<in> set (pn_Steps (os_Plan result)).
       pt_ToolName s \<in> td_Name ` set (fst (fst (Discovery_Search search (oq_Intent req) '''' 0 20 d)))
       \<and> safe_risk (oq_SafetyLevel req) (candidate_risk cls (pt_ToolName s))
       \<and> Contains (ToLower (pt_ToolName s)) (ToLower (TrimSpace (oq_Domain req))))"
proof -
  from assms obtain d tools total d1 where d: "ps_discovery p = Some d"
    and found: "Discovery_Search search (oq_Intent req) '''' 0 20 d = ((tools, total), d1)"
    by (cases "ps_discovery p") (auto simp: plan_intent_def SearchTools_candidates_def split: prod.splits)
  define cands where "cands = filterBySafety (if oq_Domain req \<noteq> '''' then filterByDomain (enrichCandidates cls tools) (oq_Domain req)
    else enrichCandidates cls tools) (oq_SafetyLevel req)"
  from assms obtain generated where plan: "os_Plan result = validatePlan generated cands"
    by (auto simp: plan_intent_def SearchTools_candidates_def d found Let_def cands_def
        split: if_splits sum.splits prod.splits)
  have cand: "cd_Name c \<in> td_Name ` set tools \<and> safe_risk (oq_SafetyLevel req) (candidate_risk cls (cd_Name c))
      \<and> Contains (ToLower (cd_Name c)) (ToLower (TrimSpace (oq_Domain req)))" if "c \<in> set cands" for c
    using that enrichCandidates_risk [of c cls tools]
    by (auto simp: cands_def filterBySafety_def filterByDomain_set ToLower_def split: if_splits)
  show "length (pn_Steps (os_Plan result)) \<le> maxPlanSteps" by (simp add: plan validatePlan_steps)
  have "pt_ToolName s \<in> td_Name ` set tools \<and> safe_risk (oq_SafetyLevel req) (candidate_risk cls (pt_ToolName s))
      \<and> Contains (ToLower (pt_ToolName s)) (ToLower (TrimSpace (oq_Domain req)))" if "s \<in> set (pn_Steps (os_Plan result))" for s
  proof -
    from that validatePlan_steps(2) [of generated cands] obtain c where "c \<in> set cands" "pt_ToolName s = cd_Name c"
      unfolding plan by blast
    then show ?thesis using cand by simp
  qed
  then show "\<exists>d. ps_discovery p = Some d \<and> (\<forall>s \<in> set (pn_Steps (os_Plan result)).
       pt_ToolName s \<in> td_Name ` set (fst (fst (Discovery_Search search (oq_Intent req) '''' 0 20 d)))
       \<and> safe_risk (oq_SafetyLevel req) (candidate_risk cls (pt_ToolName s))
       \<and> Contains (ToLower (pt_ToolName s)) (ToLower (TrimSpace (oq_Domain req))))"
    using d found by simp
qed

lemma Handle_calls:
  fixes p p' :: "('s, 'b, 'e) ProxyServer"
  assumes "Orchestrator_Handle select allow M E ctx enc search cls chat unmarshal fails args (p, session, l) w = (result, (p', session', l'), w')"
  shows "\<exists>ran (p1 :: ('s, 'b, 'e) ProxyServer). ps_router p1 = ps_router p \<and> ps_users p1 = ps_users p
    \<and> ps_router p' = ps_router (fst (call_all select allow M E ctx ran p1 w)) \<and> w' = snd (call_all select allow M E ctx ran p1 w)
    \<and> length ran \<le> maxPlanSteps
    \<and> list_all (\<lambda>s. \<not> pt_RequiresApproval s \<and> admitted search cls (ps_discovery p) args (pt_ToolName s)) ran
    \<and> (case result of None \<Rightarrow> True | Some (Inl e) \<Rightarrow> ran = [] | Some (Inr res) \<Rightarrow> called_steps (os_StepResults res) = ran)"
    (is "\<exists>ran p1. ?calls ran p1")
proof -
  have none: ?thesis if "ps_router p' = ps_router p" "w' = w"
    "case result of Some (Inr res) \<Rightarrow> os_StepResults res = [] | _ \<Rightarrow> True"
  proof -
    have "?calls [] p" using that by (auto simp: call_all_def split: option.splits sum.splits)
    then show ?thesis by blast
  qed
  show ?thesis
  proof (cases "parseRequest args")
    case (Inl e)
    with assms show ?thesis by (intro none) (auto simp: Orchestrator_Handle_def)
  next
    case (Inr req)
    obtain planned p1 session1 l1 where plan: "plan_intent search cls chat unmarshal fails req (p, session, l) = (planned, p1, session1, l1)"
      using prod_cases4 by blast
    note frame = plan_intent_frame [OF plan]
    show ?thesis
    proof (cases "oq_Mode req = ModePlan \<or> isl planned")
      case True
      have "case planned of Inr res \<Rightarrow> os_StepResults res = [] | _ \<Rightarrow> True"
        using plan by (auto simp: plan_intent_def Let_def split: prod.splits sum.splits if_splits)
      with True assms Inr plan frame show ?thesis
        by (intro none) (auto simp: Orchestrator_Handle_def execute_intent_def split: OrchestrateMode.splits sum.splits)
    next
      case False
      then obtain res where exe: "oq_Mode req = ModeExecute" and res: "planned = Inr res"
        by (cases planned; cases "oq_Mode req") auto
      let ?steps = "pn_Steps (os_Plan res)"
      obtain out p2 w2 where run: "run_steps select allow M E ctx ?steps [] p1 w = (out, p2, w2)"
        using prod_cases3 by blast
      from run_steps_calls [OF run] obtain ran rest where ran: "approved ?steps = ran @ rest"
        "(p2, w2) = call_all select allow M E ctx ran p1 w"
        "case out of None \<Rightarrow> True | Some all \<Rightarrow> rest = [] \<and> (\<exists>new. all = [] @ new \<and> called_steps new = ran)"
        by blast
      note adm = plan_intent_admits [OF plan [unfolded res]]
      have len: "length ran \<le> maxPlanSteps"
        using adm(1) length_filter_le [of "\<lambda>s. \<not> pt_RequiresApproval s" ?steps] ran(1) by simp
      have "set ran \<subseteq> set (approved ?steps)" using ran(1) by simp
      then have ok: "list_all (\<lambda>s. \<not> pt_RequiresApproval s \<and> admitted search cls (ps_discovery p) args (pt_ToolName s)) ran"
        using adm(2) Inr exe by (auto simp: list_all_iff admitted_def)
      have "ps_router p' = ps_router p2 \<and> w' = w2
          \<and> (case result of None \<Rightarrow> True | Some (Inl e) \<Rightarrow> ran = [] | Some (Inr res) \<Rightarrow> called_steps (os_StepResults res) = ran)"
        using assms ran(3) by (auto simp: Orchestrator_Handle_def execute_intent_def Inr exe plan res run Let_def split: option.splits)
      moreover have "p2 = fst (call_all select allow M E ctx ran p1 w)" "w2 = snd (call_all select allow M E ctx ran p1 w)"
        using ran(2) by (metis fst_conv, metis snd_conv)
      ultimately have "?calls ran p1" using frame len ok by blast
      then show ?thesis by blast
    qed
  qed
qed


text \<open>
  The risk of a candidate is read under the name of its definition.  Registration classifies the names of the
  capability; where the definitions carry the name of the server as well, the risk of a candidate is unknown, and the
  strict level, which admits unknown tools, admits a tool that is classified as destructive.
\<close>

lemma federated_destructive_admitted:
  fixes tc :: ToolClassification and cs :: ClassificationStore
  defines "cs \<equiv> \<lparr>cs_rows = [(''delete_pod'', tc\<lparr>tc_ToolName := ''delete_pod'', tc_RiskLevel := RiskDestructive\<rparr>)], cs_fails = (\<lambda>k. False)\<rparr>"
  shows "\<not> safe_risk SafetyStrict (candidate_risk (Some cs) ''delete_pod'')"
    "safe_risk SafetyStrict (candidate_risk (Some cs) ''k8s.delete_pod'')"
proof -
  have "TrimSpace ''delete_pod'' = ''delete_pod''" "TrimSpace ''k8s.delete_pod'' = ''k8s.delete_pod''"
    by code_simp+
  then show "\<not> safe_risk SafetyStrict (candidate_risk (Some cs) ''delete_pod'')"
    "safe_risk SafetyStrict (candidate_risk (Some cs) ''k8s.delete_pod'')"
    by (simp_all add: assms safe_risk_def candidate_risk_def Classification_Get_def)
qed

text \<open>A chat is answered by the first provider that answers, and those after it are not asked.\<close>

lemma Failover_first:
  assumes "openai_Chat completion c req l = (Inr resp, l1)"
  shows "Failover_Chat completion (c # rest) req l = (Inr resp, l1)"
  using assms by (simp add: Failover_Chat_def)

lemma try_providers_error: "try_providers completion cs req e l = (Inl None, l1) \<Longrightarrow> cs = [] \<and> e = None"
  by (induction cs arbitrary: e l) (auto split: prod.splits sum.splits)

lemma Failover_error:
  assumes "Failover_Chat completion cs req l = (Inl e, l1)"
  shows "if cs = [] then e = NoProvidersConfigured else (\<exists>e1. e = ProvidersFailed (length cs) e1)"
  using assms try_providers_error [of completion cs req None l l1]
  by (auto simp: Failover_Chat_def split: prod.splits sum.splits option.splits)

end
