(* ===== verification/Events.thy ===== *)
theory Events
  imports Tool_Access Rate_Limit Policy Registration_Service
begin

text \<open>
  \<^verbatim>\<open>src/internal/events\<close>, with its wiring in \<^verbatim>\<open>src/internal/server/server.go\<close>: events published by the gateway, and
  configuration received over NATS.  A configuration message is routed by its subject to a handler, which decodes and
  validates it, applies it to the gateway and saves its bytes in a table; after a restart the bytes are handled again.

  Decoding of JSON is a parameter, one function per message type.  The NATS client is its connection flag and what
  was published through it.  A handler is a constructor with the flags of its optional dependencies: whether the
  registration service and the callback are bound, and whether a store is set.  Metrics and log lines are left out.

  The main result is that configuration survives a restart when the handlers have a store; the wiring of the
  server gives one to a single handler, and the lemmas at the end show what follows.
\<close>

section \<open>Subjects\<close>

definition gateway_or_unknown :: "string \<Rightarrow> string" where
  "gateway_or_unknown gatewayID = (let g = TrimSpace gatewayID in if g = '''' then ''unknown'' else g)"

definition SubjectForEvent :: "string \<Rightarrow> string \<Rightarrow> string" where
  "SubjectForEvent gatewayID eventType = ''mcpgw.'' @ gateway_or_unknown gatewayID @ ''.events.'' @ TrimSpace eventType"

definition SubjectForConfig :: "string \<Rightarrow> string \<Rightarrow> string" where
  "SubjectForConfig gatewayID scope = ''mcpgw.'' @ gateway_or_unknown gatewayID @ ''.config.'' @ TrimSpace scope"

definition SubjectForConfigRequest :: "string \<Rightarrow> string" where
  "SubjectForConfigRequest gatewayID = ''mcpgw.'' @ gateway_or_unknown gatewayID @ ''.config.request''"

definition SubjectForAck :: "string \<Rightarrow> string \<Rightarrow> string" where
  "SubjectForAck gatewayID scope = ''mcpgw.'' @ gateway_or_unknown gatewayID @ ''.acks.'' @ TrimSpace scope"

section \<open>The configuration table\<close>

record ConfigStore =
  cg_rows :: "(string, string) gomap"
  cg_fails :: bool

definition Config_Save :: "string \<Rightarrow> string \<Rightarrow> ConfigStore \<Rightarrow> bool \<times> ConfigStore" where
  "Config_Save key value s = (if cg_fails s then (False, s) else (True, s\<lparr>cg_rows := mput key value (cg_rows s)\<rparr>))"

definition Config_Load :: "string \<Rightarrow> ConfigStore \<Rightarrow> string option" where
  "Config_Load key s = (if cg_fails s then None else map_of (cg_rows s) key)"

definition Config_Keys :: "ConfigStore \<Rightarrow> string list option" where
  "Config_Keys s = (if cg_fails s then None else Some (map fst (cg_rows s)))"

section \<open>Messages\<close>

record ServerSettingsConfig =
  sg_ServerName :: string
  sg_EffectiveSettings :: "(string, json) gomap"

record ServerRegisteredAckPayload =
  ra_RegistrationID :: string
  ra_LeaseEpoch :: int
  ra_CapabilityHash :: string
  ra_RegistryVersion :: string
  ra_ToolSchemaHash :: string
  ra_AckedAt :: "time option"

record ToolMetadataEntry =
  tn_ToolName :: string
  tn_Category :: string
  tn_DisplayName :: string
  tn_Summary :: string
  tn_Tags :: "string list"
  tn_Priority :: int
  tn_Metadata :: "(string, json) gomap"

record ToolMetadataConfigMessage =
  tg_Version :: int
  tg_Tools :: "ToolMetadataEntry list"

text \<open>
  The decoders of \<^verbatim>\<open>encoding/json\<close>, \<open>None\<close> on an error.  \<open>unmarshal_settings\<close> decodes the whole payload, the others
  its first value.
\<close>

record config_codec =
  decode_policy :: "string \<Rightarrow> PolicyProfile list option"
  decode_servers :: "string \<Rightarrow> string list option"
  decode_settings :: "string \<Rightarrow> (int \<times> ServerSettingsConfig list) option"
  decode_auth :: "string \<Rightarrow> (string \<times> string \<times> string) option"
  decode_ack :: "string \<Rightarrow> ServerRegisteredAckPayload option"
  decode_metadata :: "string \<Rightarrow> ToolMetadataConfigMessage option"
  unmarshal_settings :: "string \<Rightarrow> (int \<times> ServerSettingsConfig list) option"

datatype profile_error = ProfileNameRequired | RateLimitNotPositive string | RateBurstNotPositive string | BadEnforcementMode string

datatype setting_error = EmptySettingKey | SecretLikeKey

datatype config_error =
    ErrDecode | ErrPersist | ErrProfilesEmpty | ErrProfile profile_error | ErrDefaultRequired
  | ErrInvalidSPIFFEPrefix string | ErrVersionNotPositive | ErrServerNameRequired | ErrSettingsEmpty string
  | ErrSetting string string setting_error | ErrApplySettings | ErrRegistrationIDRequired | ErrLeaseEpochNotPositive
  | ErrApplyAck svc_error | ErrListKeys | ErrLoadKey string

section \<open>Validation\<close>

definition normalizeStringList :: "string list \<Rightarrow> string list" where
  "normalizeStringList values =
    foldl (\<lambda>out value. let trimmed = TrimSpace value in if trimmed = '''' \<or> trimmed \<in> set out then out else out @ [trimmed]) [] values"

definition normalizePolicyProfile :: "PolicyProfile \<Rightarrow> profile_error + PolicyProfile" where
  "normalizePolicyProfile profile =
    (let name = TrimSpace (pp_Name profile)
     in if name = '''' then Inl ProfileNameRequired
        else if pp_RateLimit profile \<le> 0 then Inl (RateLimitNotPositive name)
        else if pp_RateBurst profile \<le> 0 then Inl (RateBurstNotPositive name)
        else if pp_EnforcementMode profile \<noteq> ModeEnforce \<and> pp_EnforcementMode profile \<noteq> ModeAudit then Inl (BadEnforcementMode name)
        else Inr \<lparr>pp_Name = name, pp_RateLimit = pp_RateLimit profile, pp_RateBurst = pp_RateBurst profile,
                  pp_ToolAllowlist = normalizeStringList (pp_ToolAllowlist profile),
                  pp_ToolDenylist = normalizeStringList (pp_ToolDenylist profile),
                  pp_EnforcementMode = pp_EnforcementMode profile\<rparr>)"

fun normalized_profiles :: "PolicyProfile list \<Rightarrow> (string, PolicyProfile option) gomap \<Rightarrow> profile_error + (string, PolicyProfile option) gomap" where
  "normalized_profiles [] m = Inr m"
| "normalized_profiles (p # ps) m =
    (case normalizePolicyProfile p of
       Inl e \<Rightarrow> Inl e
     | Inr normalized \<Rightarrow> normalized_profiles ps (mput (pp_Name normalized) (Some normalized) m))"

definition secret_words :: "string list" where
  "secret_words = [''secret'', ''password'', ''token'', ''private_key'', ''apikey'', ''api_key'']"

definition setting_key_error :: "string \<Rightarrow> setting_error option" where
  "setting_key_error key =
    (let trimmed = TrimSpace key
     in if trimmed = '''' then Some EmptySettingKey
        else if list_ex (Contains (ToLower trimmed)) secret_words then Some SecretLikeKey
        else None)"

text \<open>The items of a list are checked under the key of the list; the entries of an object under their own.\<close>

fun validateNonSecretSetting :: "string \<Rightarrow> json \<Rightarrow> setting_error option"
  and validate_items :: "string \<Rightarrow> json list \<Rightarrow> setting_error option"
  and validate_entries :: "(string \<times> json) list \<Rightarrow> setting_error option" where
  "validateNonSecretSetting key value =
    (case setting_key_error key of
       Some e \<Rightarrow> Some e
     | None \<Rightarrow>
         (case value of
            JArr items \<Rightarrow> validate_items (TrimSpace key) items
          | JObj entries \<Rightarrow> validate_entries entries
          | _ \<Rightarrow> None))"
| "validate_items key [] = None"
| "validate_items key (v # vs) = (case validateNonSecretSetting key v of Some e \<Rightarrow> Some e | None \<Rightarrow> validate_items key vs)"
| "validate_entries [] = None"
| "validate_entries ((k, v) # rest) = (case validateNonSecretSetting k v of Some e \<Rightarrow> Some e | None \<Rightarrow> validate_entries rest)"

definition invalid_setting :: "(string, json) gomap \<Rightarrow> (string \<times> setting_error) option" where
  "invalid_setting settings =
    (case find (\<lambda>(k, v). validateNonSecretSetting k v \<noteq> None) settings of
       None \<Rightarrow> None
     | Some (k, v) \<Rightarrow> map_option (Pair k) (validateNonSecretSetting k v))"

text \<open>\<open>cloneSettingsMap\<close> of \<^verbatim>\<open>handlers.go\<close> has the text of \<open>cloneSettings\<close>, which models both.\<close>

fun buildValidatedServerSettings ::
  "ServerSettingsConfig list \<Rightarrow> (string, (string, json) gomap) gomap \<Rightarrow> config_error + (string, (string, json) gomap) gomap" where
  "buildValidatedServerSettings [] out = Inr out"
| "buildValidatedServerSettings (s # rest) out =
    (let serverName = TrimSpace (sg_ServerName s); settings = sg_EffectiveSettings s
     in if serverName = '''' then Inl ErrServerNameRequired
        else if settings = [] then Inl (ErrSettingsEmpty serverName)
        else case invalid_setting settings of
               Some (k, e) \<Rightarrow> Inl (ErrSetting serverName k e)
             | None \<Rightarrow> buildValidatedServerSettings rest (mput serverName (cloneSettings settings) out))"

fun spiffe_prefixes :: "string list \<Rightarrow> config_error + string list" where
  "spiffe_prefixes [] = Inr []"
| "spiffe_prefixes (p # ps) =
    (let trimmed = TrimSpace p
     in if trimmed = '''' then spiffe_prefixes ps
        else if \<not> HasPrefix trimmed ''spiffe://'' then Inl (ErrInvalidSPIFFEPrefix trimmed)
        else map_sum id ((#) trimmed) (spiffe_prefixes ps))"

section \<open>Handlers\<close>

text \<open>What the handlers change; \<open>gw_backend\<close> is \<open>None\<close> when the limiter is not the memory backend.\<close>

record ('l, 'e) Gateway =
  gw_engine :: Engine
  gw_backend :: "'l MemoryBackend option"
  gw_service :: Service
  gw_discovery :: "'e DiscoveryIndex option"
  gw_lastMetadata :: "ToolMetadataConfigMessage option"
  gw_store :: ConfigStore

definition persist :: "bool \<Rightarrow> string \<Rightarrow> string \<Rightarrow> ('l, 'e) Gateway \<Rightarrow> config_error option \<times> ('l, 'e) Gateway" where
  "persist hasStore key data g =
    (if \<not> hasStore then (None, g)
     else case Config_Save key data (gw_store g) of
            (True, s) \<Rightarrow> (None, g\<lparr>gw_store := s\<rparr>)
          | (False, s) \<Rightarrow> (Some ErrPersist, g\<lparr>gw_store := s\<rparr>))"

definition Policy_Handle :: "config_codec \<Rightarrow> bool \<Rightarrow> string \<Rightarrow> ('l, 'e) Gateway \<Rightarrow> config_error option \<times> ('l, 'e) Gateway" where
  "Policy_Handle D hasStore data g =
    (case decode_policy D data of
       None \<Rightarrow> (Some ErrDecode, g)
     | Some [] \<Rightarrow> (Some ErrProfilesEmpty, g)
     | Some received \<Rightarrow>
         (case normalized_profiles received [] of
            Inl e \<Rightarrow> (Some (ErrProfile e), g)
          | Inr profiles \<Rightarrow>
              (case map_of profiles ''default'' of
                 Some (Some d) \<Rightarrow>
                   persist hasStore ''config.policy'' data
                     (g\<lparr>gw_engine := ReplaceProfiles profiles (gw_engine g),
                        gw_backend := map_option (Memory_SetDefaults (real_of_int (pp_RateLimit d)) (pp_RateBurst d)) (gw_backend g)\<rparr>)
               | _ \<Rightarrow> (Some ErrDefaultRequired, g))))"

definition Server_Handle :: "config_codec \<Rightarrow> bool \<Rightarrow> bool \<Rightarrow> string \<Rightarrow> ('l, 'e) Gateway \<Rightarrow> config_error option \<times> ('l, 'e) Gateway" where
  "Server_Handle D bound hasStore data g =
    (case decode_servers D data of
       None \<Rightarrow> (Some ErrDecode, g)
     | Some received \<Rightarrow>
         (case spiffe_prefixes received of
            Inl e \<Rightarrow> (Some e, g)
          | Inr allowList \<Rightarrow>
              persist hasStore ''config.servers'' data
                (if bound then g\<lparr>gw_service := UpdateSPIFFEAllowList allowList (gw_service g)\<rparr> else g)))"

definition applyAndPersistSettings ::
  "bool \<Rightarrow> bool \<Rightarrow> int \<Rightarrow> (string, (string, json) gomap) gomap \<Rightarrow> string \<Rightarrow> ('l, 'e) Gateway
   \<Rightarrow> config_error option \<times> ('l, 'e) Gateway" where
  "applyAndPersistSettings bound hasStore configVersion settingsByServer data g =
    (case (if bound then UpdateEffectiveSettings configVersion settingsByServer (gw_service g) else (True, gw_service g)) of
       (False, s) \<Rightarrow> (Some ErrApplySettings, g\<lparr>gw_service := s\<rparr>)
     | (True, s) \<Rightarrow> persist hasStore ''config.server_settings'' data (g\<lparr>gw_service := s\<rparr>))"

definition ServerSettings_Handle ::
  "config_codec \<Rightarrow> bool \<Rightarrow> bool \<Rightarrow> string \<Rightarrow> ('l, 'e) Gateway \<Rightarrow> config_error option \<times> ('l, 'e) Gateway" where
  "ServerSettings_Handle D bound hasStore data g =
    (case decode_settings D data of
       None \<Rightarrow> (Some ErrDecode, g)
     | Some (configVersion, servers) \<Rightarrow>
         if configVersion \<le> 0 then (Some ErrVersionNotPositive, g)
         else case buildValidatedServerSettings servers [] of
                Inl e \<Rightarrow> (Some e, g)
              | Inr settingsByServer \<Rightarrow> applyAndPersistSettings bound hasStore configVersion settingsByServer data g)"

definition Auth_Handle :: "config_codec \<Rightarrow> bool \<Rightarrow> string \<Rightarrow> ('l, 'e) Gateway \<Rightarrow> config_error option \<times> ('l, 'e) Gateway" where
  "Auth_Handle D hasStore data g =
    (case decode_auth D data of
       None \<Rightarrow> (Some ErrDecode, g)
     | Some message \<Rightarrow> persist hasStore ''config.auth'' data g)"

definition Ack_Handle :: "config_codec \<Rightarrow> reg_env \<Rightarrow> bool \<Rightarrow> string \<Rightarrow> ('l, 'e) Gateway \<Rightarrow> config_error option \<times> ('l, 'e) Gateway" where
  "Ack_Handle D R bound data g =
    (case decode_ack D data of
       None \<Rightarrow> (Some ErrDecode, g)
     | Some m \<Rightarrow>
         (let registrationID = TrimSpace (ra_RegistrationID m)
          in if registrationID = '''' then (Some ErrRegistrationIDRequired, g)
             else if ra_LeaseEpoch m \<le> 0 then (Some ErrLeaseEpochNotPositive, g)
             else let ackedAt = (case ra_AckedAt m of None \<Rightarrow> rv_now R | Some t \<Rightarrow> t)
                  in if bound
                     then (case AcknowledgeServerRegistration R registrationID (ra_LeaseEpoch m) (TrimSpace (ra_CapabilityHash m))
                                  (TrimSpace (ra_RegistryVersion m)) (Some ackedAt) (gw_service g) of
                             (e, s) \<Rightarrow> (map_option ErrApplyAck e, g\<lparr>gw_service := s\<rparr>))
                     else (None, g)))"

text \<open>The callback that \<^verbatim>\<open>serve.go\<close> installs hands the entries to the discovery index of the proxy.\<close>

definition metadata_of :: "ToolMetadataConfigMessage \<Rightarrow> ToolMetadata list" where
  "metadata_of message =
    map (\<lambda>e. \<lparr>tm_ToolName = tn_ToolName e, tm_Category = tn_Category e, tm_Summary = tn_Summary e, tm_Tags = tn_Tags e,
              tm_Priority = tn_Priority e\<rparr>) (tg_Tools message)"

definition toolMetadataCallback :: "'e index_op \<Rightarrow> ToolMetadataConfigMessage \<Rightarrow> ('l, 'e) Gateway \<Rightarrow> ('l, 'e) Gateway" where
  "toolMetadataCallback index_op message g =
    g\<lparr>gw_discovery := map_option (ApplyMetadata index_op (metadata_of message)) (gw_discovery g)\<rparr>"

text \<open>A failed save of metadata is only logged.\<close>

definition ToolMetadata_Handle ::
  "config_codec \<Rightarrow> 'e index_op \<Rightarrow> bool \<Rightarrow> bool \<Rightarrow> string \<Rightarrow> ('l, 'e) Gateway \<Rightarrow> config_error option \<times> ('l, 'e) Gateway" where
  "ToolMetadata_Handle D index_op callback hasStore data g =
    (case decode_metadata D data of
       None \<Rightarrow> (Some ErrDecode, g)
     | Some message \<Rightarrow>
         (let g1 = (snd (persist hasStore ''config.tool_metadata'' data g))\<lparr>gw_lastMetadata := Some message\<rparr>
          in (None, if callback then toolMetadataCallback index_op message g1 else g1)))"

text \<open>Installing the callback replays the message that came before it.\<close>

definition SetOnUpdate :: "'e index_op \<Rightarrow> ('l, 'e) Gateway \<Rightarrow> ('l, 'e) Gateway" where
  "SetOnUpdate index_op g =
    (case gw_lastMetadata g of None \<Rightarrow> g | Some message \<Rightarrow> toolMetadataCallback index_op message g)"

section \<open>The subscriber\<close>

datatype config_handler =
    PolicyConfigHandler bool
  | ServerConfigHandler bool bool
  | ServerSettingsConfigHandler bool bool
  | AuthConfigHandler bool
  | ServerRegisteredAckHandler bool
  | ToolMetadataConfigHandler bool bool

fun handler_Handle ::
  "config_codec \<Rightarrow> 'e index_op \<Rightarrow> reg_env \<Rightarrow> config_handler \<Rightarrow> string \<Rightarrow> ('l, 'e) Gateway \<Rightarrow> config_error option \<times> ('l, 'e) Gateway" where
  "handler_Handle D index_op R (PolicyConfigHandler hasStore) = Policy_Handle D hasStore"
| "handler_Handle D index_op R (ServerConfigHandler bound hasStore) = Server_Handle D bound hasStore"
| "handler_Handle D index_op R (ServerSettingsConfigHandler bound hasStore) = ServerSettings_Handle D bound hasStore"
| "handler_Handle D index_op R (AuthConfigHandler hasStore) = Auth_Handle D hasStore"
| "handler_Handle D index_op R (ServerRegisteredAckHandler bound) = Ack_Handle D R bound"
| "handler_Handle D index_op R (ToolMetadataConfigHandler callback hasStore) = ToolMetadata_Handle D index_op callback hasStore"

record Subscriber =
  sb_gatewayID :: string
  sb_handlers :: "(string, config_handler) gomap"

definition NewSubscriber :: "string \<Rightarrow> Subscriber" where
  "NewSubscriber gatewayID = \<lparr>sb_gatewayID = gatewayID, sb_handlers = []\<rparr>"

definition RegisterHandler :: "string \<Rightarrow> config_handler \<Rightarrow> Subscriber \<Rightarrow> Subscriber" where
  "RegisterHandler subject h s =
    (let normalized = TrimSpace subject
     in if normalized = '''' then s else s\<lparr>sb_handlers := mput normalized h (sb_handlers s)\<rparr>)"

definition RegisterGatewaySubjects ::
  "config_handler \<Rightarrow> config_handler \<Rightarrow> config_handler \<Rightarrow> config_handler \<Rightarrow> Subscriber \<Rightarrow> Subscriber" where
  "RegisterGatewaySubjects policyHandler serversHandler serverSettingsHandler authHandler s =
    (let gid = sb_gatewayID s
     in RegisterHandler (SubjectForConfig gid ''auth'') authHandler
          (RegisterHandler (SubjectForConfig gid ''server_settings'') serverSettingsHandler
            (RegisterHandler (SubjectForConfig gid ''servers'') serversHandler
              (RegisterHandler (SubjectForConfig gid ''policy'') policyHandler s))))"

definition routeMessage ::
  "config_codec \<Rightarrow> 'e index_op \<Rightarrow> reg_env \<Rightarrow> Subscriber \<Rightarrow> string \<Rightarrow> string \<Rightarrow> ('l, 'e) Gateway \<Rightarrow> ('l, 'e) Gateway" where
  "routeMessage D index_op R s subject data g =
    (case map_of (sb_handlers s) subject of None \<Rightarrow> g | Some h \<Rightarrow> snd (handler_Handle D index_op R h data g))"

definition cacheKeyToSubject :: "string \<Rightarrow> string \<Rightarrow> string" where
  "cacheKeyToSubject gatewayID key =
    (let k = TrimSpace key
     in if k = ''config.policy'' then SubjectForConfig gatewayID ''policy''
        else if k = ''config.servers'' then SubjectForConfig gatewayID ''servers''
        else if k = ''config.server_settings'' then SubjectForConfig gatewayID ''server_settings''
        else if k = ''config.auth'' then SubjectForConfig gatewayID ''auth''
        else if k = ''config.tool_metadata'' then SubjectForConfig gatewayID ''tool_metadata''
        else '''')"

fun load_keys ::
  "config_codec \<Rightarrow> 'e index_op \<Rightarrow> reg_env \<Rightarrow> Subscriber \<Rightarrow> string list \<Rightarrow> ('l, 'e) Gateway \<Rightarrow> config_error option \<times> ('l, 'e) Gateway" where
  "load_keys D index_op R s [] g = (None, g)"
| "load_keys D index_op R s (key # rest) g =
    (let subject = cacheKeyToSubject (sb_gatewayID s) key
     in if subject = '''' then load_keys D index_op R s rest g
        else case Config_Load key (gw_store g) of
               None \<Rightarrow> (Some (ErrLoadKey key), g)
             | Some payload \<Rightarrow>
                 (case map_of (sb_handlers s) subject of
                    None \<Rightarrow> load_keys D index_op R s rest g
                  | Some h \<Rightarrow>
                      (case handler_Handle D index_op R h payload g of
                         (Some e, g1) \<Rightarrow> (Some e, g1)
                       | (None, g1) \<Rightarrow> load_keys D index_op R s rest g1)))"

definition Subscriber_LoadCachedConfig ::
  "config_codec \<Rightarrow> 'e index_op \<Rightarrow> reg_env \<Rightarrow> Subscriber \<Rightarrow> ('l, 'e) Gateway \<Rightarrow> config_error option \<times> ('l, 'e) Gateway" where
  "Subscriber_LoadCachedConfig D index_op R s g =
    (case Config_Keys (gw_store g) of
       None \<Rightarrow> (Some ErrListKeys, g)
     | Some ks \<Rightarrow> load_keys D index_op R s (sort ks) g)"

section \<open>Degradation\<close>

datatype DegradationStatus = DegradationStatusConnected | DegradationStatusDegraded | DegradationStatusDisconnected

record nats_client =
  nc_gatewayID :: string
  nc_connected :: bool

record DegradationManager =
  dm_client :: "nats_client option"
  dm_hasStore :: bool
  dm_subscriber :: "Subscriber option"
  dm_status :: DegradationStatus
  dm_everConnected :: bool
  dm_hasCachedConfig :: bool
  dm_lastKnownVersions :: "(string, int) gomap"
  dm_settingsSyncStatus :: string
  dm_settingsConfigVersion :: int

definition NewDegradationManager :: "nats_client option \<Rightarrow> bool \<Rightarrow> Subscriber option \<Rightarrow> DegradationManager" where
  "NewDegradationManager client hasStore subscriber =
    (let connected = (case client of None \<Rightarrow> False | Some c \<Rightarrow> nc_connected c)
     in \<lparr>dm_client = client, dm_hasStore = hasStore, dm_subscriber = subscriber,
         dm_status = (if connected then DegradationStatusConnected else DegradationStatusDisconnected),
         dm_everConnected = connected, dm_hasCachedConfig = False, dm_lastKnownVersions = [],
         dm_settingsSyncStatus = ''unknown'', dm_settingsConfigVersion = 0\<rparr>)"

definition OnDisconnect :: "DegradationManager \<Rightarrow> DegradationManager" where
  "OnDisconnect m = m\<lparr>dm_status := DegradationStatusDegraded\<rparr>"

record snapshotRequestMessage =
  sq_GatewayID :: string
  sq_LastKnownVersions :: "(string, int) gomap"

text \<open>The manager after a reconnection, and the subject and request it publishes.\<close>

definition OnReconnect :: "DegradationManager \<Rightarrow> DegradationManager \<times> (string \<times> snapshotRequestMessage) option" where
  "OnReconnect m =
    (let gatewayID = (case dm_client m of None \<Rightarrow> '''' | Some c \<Rightarrow> nc_gatewayID c);
         request = \<lparr>sq_GatewayID = gatewayID, sq_LastKnownVersions = dm_lastKnownVersions m\<rparr>;
         m1 = m\<lparr>dm_status := DegradationStatusConnected, dm_everConnected := True, dm_settingsSyncStatus := ''resync_requested''\<rparr>
     in case dm_client m of
          None \<Rightarrow> (m1, None)
        | Some c \<Rightarrow> (m1, if nc_connected c then Some (SubjectForConfigRequest gatewayID, request) else None))"

definition extractConfigVersion :: "config_codec \<Rightarrow> string \<Rightarrow> string \<Rightarrow> int" where
  "extractConfigVersion D key payload =
    (if key \<noteq> ''config.server_settings'' then 0
     else case unmarshal_settings D payload of None \<Rightarrow> 0 | Some (configVersion, servers) \<Rightarrow> configVersion)"

definition applyCachedState :: "(string, int) gomap \<Rightarrow> int \<Rightarrow> int \<Rightarrow> DegradationManager \<Rightarrow> DegradationManager" where
  "applyCachedState versions settingsVersion keyCount m =
    (let m1 = m\<lparr>dm_lastKnownVersions := versions, dm_hasCachedConfig := keyCount > 0\<rparr>;
         m2 = (if settingsVersion > 0 then m1\<lparr>dm_settingsSyncStatus := ''cached'', dm_settingsConfigVersion := settingsVersion\<rparr>
               else if keyCount > 0 then m1\<lparr>dm_settingsSyncStatus := ''cached''\<rparr> else m1)
     in if dm_status m2 = DegradationStatusDisconnected \<and> dm_hasCachedConfig m2
        then m2\<lparr>dm_status := DegradationStatusDegraded\<rparr> else m2)"

fun cached_versions :: "config_codec \<Rightarrow> ConfigStore \<Rightarrow> string list \<Rightarrow> (string, int) gomap \<Rightarrow> config_error + (string, int) gomap" where
  "cached_versions D store [] versions = Inr versions"
| "cached_versions D store (key # rest) versions =
    (case Config_Load key store of
       None \<Rightarrow> Inl (ErrLoadKey key)
     | Some payload \<Rightarrow> cached_versions D store rest (mput key (extractConfigVersion D key payload) versions))"

definition Degradation_LoadCachedConfig ::
  "config_codec \<Rightarrow> 'e index_op \<Rightarrow> reg_env \<Rightarrow> DegradationManager \<Rightarrow> ('l, 'e) Gateway
   \<Rightarrow> config_error option \<times> DegradationManager \<times> ('l, 'e) Gateway" where
  "Degradation_LoadCachedConfig D index_op R m g =
    (if \<not> dm_hasStore m then (None, m, g)
     else case Config_Keys (gw_store g) of
            None \<Rightarrow> (Some ErrListKeys, m, g)
          | Some ks \<Rightarrow>
              (case cached_versions D (gw_store g) ks [] of
                 Inl e \<Rightarrow> (Some e, m, g)
               | Inr versions \<Rightarrow>
                   (let settingsVersion = (case map_of versions ''config.server_settings'' of None \<Rightarrow> 0 | Some v \<Rightarrow> v)
                    in case (case dm_subscriber m of None \<Rightarrow> (None, g) | Some s \<Rightarrow> Subscriber_LoadCachedConfig D index_op R s g) of
                         (Some e, g1) \<Rightarrow> (Some e, m, g1)
                       | (None, g1) \<Rightarrow> (None, applyCachedState versions settingsVersion (int (length ks)) m, g1))))"

section \<open>Wiring\<close>

definition initEventSubscriber :: "string \<Rightarrow> bool \<Rightarrow> Subscriber" where
  "initEventSubscriber gatewayID hasStore =
    RegisterHandler (SubjectForConfig gatewayID ''tool_metadata'') (ToolMetadataConfigHandler False hasStore)
      (RegisterHandler (SubjectForAck gatewayID ''server_registered'') (ServerRegisteredAckHandler False)
        (RegisterGatewaySubjects (PolicyConfigHandler False) (ServerConfigHandler False False)
          (ServerSettingsConfigHandler False False) (AuthConfigHandler False) (NewSubscriber gatewayID)))"

text \<open>Binding the registration service and the callback changes the registered handlers in place.\<close>

definition BindRegistrationService :: "Subscriber \<Rightarrow> Subscriber" where
  "BindRegistrationService s =
    s\<lparr>sb_handlers := map (\<lambda>(subject, h). (subject,
        case h of
          ServerConfigHandler bound hasStore \<Rightarrow> ServerConfigHandler True hasStore
        | ServerSettingsConfigHandler bound hasStore \<Rightarrow> ServerSettingsConfigHandler True hasStore
        | ServerRegisteredAckHandler bound \<Rightarrow> ServerRegisteredAckHandler True
        | _ \<Rightarrow> h)) (sb_handlers s)\<rparr>"

definition wireToolMetadataCallback :: "'e index_op \<Rightarrow> Subscriber \<times> ('l, 'e) Gateway \<Rightarrow> Subscriber \<times> ('l, 'e) Gateway" where
  "wireToolMetadataCallback index_op = (\<lambda>(s, g).
    (s\<lparr>sb_handlers := map (\<lambda>(subject, h). (subject,
        case h of ToolMetadataConfigHandler callback hasStore \<Rightarrow> ToolMetadataConfigHandler True hasStore | _ \<Rightarrow> h)) (sb_handlers s)\<rparr>,
     SetOnUpdate index_op g))"

text \<open>The fallback when no manager was made: it has no client and no subscriber.\<close>

definition initDegradationFallback ::
  "config_codec \<Rightarrow> 'e index_op \<Rightarrow> reg_env \<Rightarrow> bool \<Rightarrow> bool \<Rightarrow> DegradationManager option \<Rightarrow> ('l, 'e) Gateway
   \<Rightarrow> DegradationManager option \<times> ('l, 'e) Gateway" where
  "initDegradationFallback D index_op R cruveroEnabled hasStore degradation g =
    (if \<not> cruveroEnabled \<or> degradation \<noteq> None then (degradation, g)
     else let m = NewDegradationManager None hasStore None
          in if dm_everConnected m then (Some m, g)
             else case Degradation_LoadCachedConfig D index_op R m g of (e, m1, g1) \<Rightarrow> (Some m1, g1))"

section \<open>Publishing\<close>

text \<open>The payloads; the tool definitions of the first one are never set by the publisher and are left out.\<close>

datatype event_payload =
    ServerRegisteredPayload string time string string int string string string string Capability string string "string list"
  | ServerDeregisteredPayload string string string
  | ServerHealthChangedPayload string string ServerStatus ServerStatus
  | PolicyViolatedPayload string string "string list" string
  | ServerCapabilitiesChangedPayload string string "string list"

record EventEnvelope =
  en_EventType :: string
  en_Timestamp :: time
  en_GatewayID :: string
  en_Payload :: event_payload

text \<open>The publisher with what it published: subjects and envelopes.\<close>

record Publisher =
  pb_client :: "nats_client option"
  pb_gatewayID :: string
  pb_sent :: "(string \<times> EventEnvelope) list"

definition NewPublisher :: "nats_client option \<Rightarrow> string \<Rightarrow> Publisher" where
  "NewPublisher client gatewayID =
    (let g = TrimSpace gatewayID
     in \<lparr>pb_client = client,
         pb_gatewayID = (if g = '''' then (case client of None \<Rightarrow> '''' | Some c \<Rightarrow> nc_gatewayID c) else g), pb_sent = []\<rparr>)"

text \<open>\<open>fails\<close>: the client library refuses the message.  The result tells whether there was no error.\<close>

definition Publisher_publish :: "bool \<Rightarrow> time \<Rightarrow> string \<Rightarrow> event_payload \<Rightarrow> Publisher \<Rightarrow> bool \<times> Publisher" where
  "Publisher_publish fails now eventType payload p =
    (case pb_client p of
       None \<Rightarrow> (True, p)
     | Some c \<Rightarrow>
         if \<not> nc_connected c then (True, p)
         else if fails then (False, p)
         else (True, p\<lparr>pb_sent := pb_sent p @
                 [(SubjectForEvent (pb_gatewayID p) eventType,
                   \<lparr>en_EventType = TrimSpace eventType, en_Timestamp = now, en_GatewayID = pb_gatewayID p, en_Payload = payload\<rparr>)]\<rparr>))"

definition normalizeEndpointHost :: "string \<Rightarrow> string" where
  "normalizeEndpointHost host =
    (let h = TrimSpace host
     in if length h > 2 \<and> hd h = CHR ''['' \<and> last h = CHR '']'' then TrimSpace (butlast (tl h)) else h)"

definition isValidTCPPort :: "int \<Rightarrow> bool" where
  "isValidTCPPort port = (port > 0 \<and> port \<le> 65535)"

definition isIPv6Literal :: "string \<Rightarrow> bool" where
  "isIPv6Literal host = (CHR '':'' \<in> set host \<and> ParseIP host \<noteq> None)"

definition JoinHostPort :: "string \<Rightarrow> string \<Rightarrow> string" where
  "JoinHostPort host port =
    (if CHR '':'' \<in> set host then ''['' @ host @ '']:'' @ port else host @ '':'' @ port)"

text \<open>The host of a URL as \<open>URL.String\<close> prints it: bytes outside these are written in hexadecimal.\<close>

definition host_char :: "char \<Rightarrow> bool" where
  "host_char c = (alnum c \<or> c \<in> set ''-_.~!$&()*+,;=:[]<>'' \<or> of_char c \<in> {34, 39::nat})"

definition hex_digit :: "nat \<Rightarrow> char" where
  "hex_digit n = char_of (if n < 10 then n + 48 else n + 55)"

definition escape_host :: "string \<Rightarrow> string" where
  "escape_host h =
    concat (map (\<lambda>c. if host_char c then [c] else [CHR ''%'', hex_digit (of_char c div 16), hex_digit (of_char c mod 16)]) h)"

definition canonicalEndpointURL :: "string \<Rightarrow> string \<Rightarrow> int \<Rightarrow> string" where
  "canonicalEndpointURL host protocol port =
    (let h = normalizeEndpointHost host
     in if h = '''' then ''''
        else let scheme = ToLower (TrimSpace protocol);
                 scheme = (if scheme \<noteq> ''http'' \<and> scheme \<noteq> ''https'' then ''https'' else scheme);
                 hostPort = (if isValidTCPPort port then JoinHostPort h (Itoa port)
                             else if isIPv6Literal h then ''['' @ h @ '']'' else h)
             in scheme @ ''://'' @ escape_host hostPort)"

definition PublishServerRegistered :: "bool \<Rightarrow> time \<Rightarrow> string \<Rightarrow> ServerRecord \<Rightarrow> Publisher \<Rightarrow> bool \<times> Publisher" where
  "PublishServerRegistered fails now eventID server p =
    (let host = normalizeEndpointHost (sr_Host server);
         endpoint = (if host \<noteq> '''' \<and> isValidTCPPort (sr_Port server) then JoinHostPort host (Itoa (sr_Port server)) else host);
         endpointURL = canonicalEndpointURL host (sr_Protocol server) (sr_Port server)
     in Publisher_publish fails now ''server.registered''
          (ServerRegisteredPayload eventID now (sr_ID server) (sr_ID server) (sr_LeaseEpoch server) (TrimSpace (sr_CapabilityHash server))
             (TrimSpace (SyncState_String (sr_SyncState server))) (sr_Name server) (sr_SPIFFEID server) (sr_Capabilities server)
             endpoint endpointURL (if endpointURL \<noteq> '''' then [endpointURL] else [])) p)"

definition PublishServerDeregistered :: "bool \<Rightarrow> time \<Rightarrow> string \<Rightarrow> string \<Rightarrow> string \<Rightarrow> Publisher \<Rightarrow> bool \<times> Publisher" where
  "PublishServerDeregistered fails now serverID serverName reason p =
    Publisher_publish fails now ''server.deregistered''
      (ServerDeregisteredPayload (TrimSpace serverID) (TrimSpace serverName) (TrimSpace reason)) p"

definition PublishServerHealthChanged ::
  "bool \<Rightarrow> time \<Rightarrow> string \<Rightarrow> string \<Rightarrow> ServerStatus \<Rightarrow> ServerStatus \<Rightarrow> Publisher \<Rightarrow> bool \<times> Publisher" where
  "PublishServerHealthChanged fails now serverID serverName oldStatus newStatus p =
    Publisher_publish fails now ''server.health_changed''
      (ServerHealthChangedPayload (TrimSpace serverID) (TrimSpace serverName) oldStatus newStatus) p"

definition PublishPolicyViolated ::
  "bool \<Rightarrow> time \<Rightarrow> string \<Rightarrow> string \<Rightarrow> string list \<Rightarrow> string \<Rightarrow> Publisher \<Rightarrow> bool \<times> Publisher" where
  "PublishPolicyViolated fails now clientID toolName violations decision p =
    Publisher_publish fails now ''policy.violated''
      (PolicyViolatedPayload (TrimSpace clientID) (TrimSpace toolName) violations (TrimSpace decision)) p"

definition PublishServerCapabilitiesChanged ::
  "bool \<Rightarrow> time \<Rightarrow> string \<Rightarrow> string \<Rightarrow> string list \<Rightarrow> Publisher \<Rightarrow> bool \<times> Publisher" where
  "PublishServerCapabilitiesChanged fails now serverID capabilitiesHash toolNames p =
    Publisher_publish fails now ''server.capabilities_changed''
      (ServerCapabilitiesChangedPayload (TrimSpace serverID) (TrimSpace capabilitiesHash) toolNames) p"

end
