(* ===== verification/Config_Restore.thy ===== *)
theory Config_Restore
  imports Events
begin

text \<open>
  Configuration survives a restart.  Each handler of \<open>Events\<close> owns one key of the configuration table and one part
  of the gateway, its view.  The locale \<open>config_cell\<close> states the contract of such a handler: an accepted message
  determines the view and is saved under the key, a refused one changes neither, and a saved message is accepted again
  from any earlier view.  The handlers are its interpretations; the theorem composes them over any sequence of
  messages, and the last lemmas apply the development to the wiring the server has.
\<close>

section \<open>The contract of a handler\<close>

definition cell_saved ::
  "string \<Rightarrow> ('g \<Rightarrow> 'v) \<Rightarrow> ('g \<Rightarrow> (string, string) gomap) \<Rightarrow> (string \<Rightarrow> 'v \<Rightarrow> 'v option) \<Rightarrow> ('v \<Rightarrow> 'v \<Rightarrow> bool) \<Rightarrow> 'g \<Rightarrow> 'g \<Rightarrow> bool" where
  "cell_saved key view rows result before g0 g =
    (before (view g0) (view g)
     \<and> (case map_of (rows g) key of None \<Rightarrow> view g = view g0 | Some d \<Rightarrow> result d (view g0) = Some (view g)))"

locale config_cell =
  fixes key :: string
    and handle :: "string \<Rightarrow> 'g \<Rightarrow> 'err option \<times> 'g"
    and view :: "'g \<Rightarrow> 'v"
    and rows :: "'g \<Rightarrow> (string, string) gomap"
    and usable :: "'g \<Rightarrow> bool"
    and result :: "string \<Rightarrow> 'v \<Rightarrow> 'v option"
    and before :: "'v \<Rightarrow> 'v \<Rightarrow> bool"
  assumes refused: "usable g \<Longrightarrow> result d (view g) = None \<Longrightarrow>
      fst (handle d g) \<noteq> None \<and> view (snd (handle d g)) = view g \<and> rows (snd (handle d g)) = rows g"
    and accepted: "usable g \<Longrightarrow> result d (view g) = Some v \<Longrightarrow>
      fst (handle d g) = None \<and> view (snd (handle d g)) = v \<and> rows (snd (handle d g)) = mput key d (rows g)"
    and before_refl: "before v v"
    and before_trans: "before u v \<Longrightarrow> before v w \<Longrightarrow> before u w"
    and grows: "result d v = Some v' \<Longrightarrow> before v v'"
    and replays: "result d v = Some v' \<Longrightarrow> before u v \<Longrightarrow> result d u = Some v'"
    and repeats: "result d v = Some v' \<Longrightarrow> result d v' = Some v'"
begin

abbreviation saved :: "'g \<Rightarrow> 'g \<Rightarrow> bool" where
  "saved \<equiv> cell_saved key view rows result before"

lemma saved_initial: "map_of (rows g) key = None \<Longrightarrow> view g = view g0 \<Longrightarrow> saved g0 g"
  by (simp add: cell_saved_def before_refl)

lemma saved_own:
  assumes "usable g" and "saved g0 g"
  shows "saved g0 (snd (handle d g))"
proof (cases "result d (view g)")
  case None
  with refused [OF assms(1) None] assms(2) show ?thesis by (simp add: cell_saved_def split: option.splits)
next
  case (Some v)
  note acc = accepted [OF assms(1) Some]
  have "before (view g0) (view g)" using assms(2) by (simp add: cell_saved_def)
  then have "result d (view g0) = Some v" "before (view g0) v"
    using replays [OF Some] before_trans [OF _ grows [OF Some]] by blast+
  with acc show ?thesis by (simp add: cell_saved_def)
qed

lemma saved_other:
  assumes "saved g0 g" and "view g' = view g" and "map_of (rows g') key = map_of (rows g) key"
  shows "saved g0 g'"
  using assms by (simp add: cell_saved_def split: option.splits)

lemma restored:
  assumes "saved g0 g" and "map_of (rows g) key = Some d" and "usable h" and "view h = view g0 \<or> view h = view g"
  shows "fst (handle d h) = None" "view (snd (handle d h)) = view g" "rows (snd (handle d h)) = mput key d (rows h)"
proof -
  have r: "result d (view g0) = Some (view g)" using assms(1,2) by (simp add: cell_saved_def)
  then have "result d (view h) = Some (view g)" using assms(4) repeats by metis
  from accepted [OF assms(3) this]
  show "fst (handle d h) = None" "view (snd (handle d h)) = view g" "rows (snd (handle d h)) = mput key d (rows h)"
    by simp_all
qed

lemma restored_view:
  assumes "saved g0 g" and "view h = view g0 \<or> view h = view g" and "map_of (rows g) key \<noteq> None \<Longrightarrow> view h = view g"
  shows "view h = view g"
proof (cases "map_of (rows g) key")
  case None
  with assms(1) have "view g = view g0" by (simp add: cell_saved_def)
  with assms(2) show ?thesis by argo
qed (use assms(3) in simp)

end

section \<open>The handlers\<close>

definition policy_view :: "('l, 'e) Gateway \<Rightarrow> (string, PolicyProfile option) gomap \<times> (real \<times> int) option" where
  "policy_view g = (eg_profiles (gw_engine g), map_option (\<lambda>b. (mb_defaultRate b, mb_defaultBurst b)) (gw_backend g))"

definition servers_view :: "('l, 'e) Gateway \<Rightarrow> string list" where
  "servers_view g = sv_spiffeAllowList (gw_service g)"

definition settings_view :: "('l, 'e) Gateway \<Rightarrow> int \<times> (string, (string, json) gomap) gomap" where
  "settings_view g = (sv_settingsVersion (gw_service g), sv_effectiveSettings (gw_service g))"

definition metadata_view :: "('l, 'e) Gateway \<Rightarrow> ToolMetadataConfigMessage option \<times> ToolMetadata list option" where
  "metadata_view g = (gw_lastMetadata g, map_option di_metadata (gw_discovery g))"

abbreviation config_rows :: "('l, 'e) Gateway \<Rightarrow> (string, string) gomap" where
  "config_rows g \<equiv> cg_rows (gw_store g)"

abbreviation store_usable :: "('l, 'e) Gateway \<Rightarrow> bool" where
  "store_usable g \<equiv> \<not> cg_fails (gw_store g)"

text \<open>What a message makes of the view of its handler.\<close>

definition policy_result ::
  "config_codec \<Rightarrow> string \<Rightarrow> (string, PolicyProfile option) gomap \<times> (real \<times> int) option
   \<Rightarrow> ((string, PolicyProfile option) gomap \<times> (real \<times> int) option) option" where
  "policy_result D data v =
    (case decode_policy D data of
       Some (p # ps) \<Rightarrow>
         (case normalized_profiles (p # ps) [] of
            Inr profiles \<Rightarrow>
              (case map_of profiles ''default'' of
                 Some (Some d) \<Rightarrow>
                   Some (copy_profiles profiles,
                         map_option (\<lambda>_. (if real_of_int (pp_RateLimit d) \<le> 0 then defaultRateLimit else real_of_int (pp_RateLimit d),
                                          if pp_RateBurst d \<le> 0 then defaultRateBurst else pp_RateBurst d)) (snd v))
               | _ \<Rightarrow> None)
          | Inl e \<Rightarrow> None)
     | _ \<Rightarrow> None)"

definition servers_result :: "config_codec \<Rightarrow> string \<Rightarrow> string list \<Rightarrow> string list option" where
  "servers_result D data v =
    (case decode_servers D data of
       None \<Rightarrow> None
     | Some received \<Rightarrow> (case spiffe_prefixes received of Inl e \<Rightarrow> None | Inr allowed \<Rightarrow> Some (copyStringSlice allowed)))"

definition settings_result ::
  "config_codec \<Rightarrow> string \<Rightarrow> int \<times> (string, (string, json) gomap) gomap \<Rightarrow> (int \<times> (string, (string, json) gomap) gomap) option" where
  "settings_result D data v =
    (case decode_settings D data of
       None \<Rightarrow> None
     | Some (version, servers) \<Rightarrow>
         if version \<le> 0 \<or> version < fst v then None
         else case buildValidatedServerSettings servers [] of
                Inl e \<Rightarrow> None
              | Inr m \<Rightarrow> Some (version, foldl (\<lambda>m (serverName, settings).
                  let name = TrimSpace serverName in if name = '''' then m else mput name (cloneSettings settings) m) [] m))"

definition metadata_result ::
  "config_codec \<Rightarrow> string \<Rightarrow> ToolMetadataConfigMessage option \<times> ToolMetadata list option
   \<Rightarrow> (ToolMetadataConfigMessage option \<times> ToolMetadata list option) option" where
  "metadata_result D data v =
    (case decode_metadata D data of None \<Rightarrow> None | Some m \<Rightarrow> Some (Some m, map_option (\<lambda>_. metadata_of m) (snd v)))"

definition auth_result :: "config_codec \<Rightarrow> string \<Rightarrow> unit \<Rightarrow> unit option" where
  "auth_result D data v = map_option (\<lambda>_. ()) (decode_auth D data)"

lemma persist_on [simp]:
  "store_usable g \<Longrightarrow> persist True key data g = (None, g\<lparr>gw_store := (gw_store g)\<lparr>cg_rows := mput key data (config_rows g)\<rparr>\<rparr>)"
  by (simp add: persist_def Config_Save_def)

lemma ApplyMetadata_metadata [simp]: "di_metadata (ApplyMetadata index_op m d) = m"
  by (simp add: ApplyMetadata_def reindexEngineLocked_def split: option.splits)

interpretation policy_cell: config_cell "''config.policy''" "Policy_Handle D True" policy_view config_rows store_usable
  "policy_result D" "\<lambda>u v. (snd u = None) = (snd v = None)" for D
  by unfold_locales
    (auto simp: Policy_Handle_def policy_result_def policy_view_def ReplaceProfiles_def Memory_SetDefaults_def option.map_comp comp_def
      split: option.splits list.splits sum.splits)

interpretation servers_cell: config_cell "''config.servers''" "Server_Handle D True True" servers_view config_rows store_usable
  "servers_result D" "\<lambda>u v. True" for D
  by unfold_locales
    (auto simp: Server_Handle_def servers_result_def servers_view_def UpdateSPIFFEAllowList_def split: option.splits sum.splits)

interpretation settings_cell: config_cell "''config.server_settings''" "ServerSettings_Handle D True True" settings_view config_rows
  store_usable "settings_result D" "\<lambda>u v. fst u \<le> fst v" for D
  by unfold_locales
    (auto simp: ServerSettings_Handle_def applyAndPersistSettings_def settings_result_def settings_view_def UpdateEffectiveSettings_def Let_def
      split: option.splits sum.splits prod.splits if_splits)

interpretation metadata_cell: config_cell "''config.tool_metadata''" "ToolMetadata_Handle D index_op True True" metadata_view config_rows
  store_usable "metadata_result D" "\<lambda>u v. (snd u = None) = (snd v = None)" for D index_op
  by unfold_locales
    (auto simp: ToolMetadata_Handle_def metadata_result_def metadata_view_def toolMetadataCallback_def
      Let_def option.map_comp comp_def split: option.splits)

interpretation auth_cell: config_cell "''config.auth''" "Auth_Handle D True" "\<lambda>g. ()" config_rows store_usable
  "auth_result D" "\<lambda>u v. True" for D
  by unfold_locales (auto simp: Auth_Handle_def auth_result_def split: option.splits)

section \<open>Independence\<close>

text \<open>No handler touches the view or the row of another.\<close>

lemma persist_frame [simp]:
  "gw_engine (snd (persist b key data g)) = gw_engine g" "gw_backend (snd (persist b key data g)) = gw_backend g"
  "gw_service (snd (persist b key data g)) = gw_service g" "gw_discovery (snd (persist b key data g)) = gw_discovery g"
  "gw_lastMetadata (snd (persist b key data g)) = gw_lastMetadata g"
  "cg_fails (gw_store (snd (persist b key data g))) = cg_fails (gw_store g)"
  by (simp_all add: persist_def Config_Save_def)

lemma persist_other [simp]: "k \<noteq> key \<Longrightarrow> map_of (config_rows (snd (persist b key data g))) k = map_of (config_rows g) k"
  by (simp add: persist_def Config_Save_def)

lemma Policy_Handle_frame [simp]:
  "servers_view (snd (Policy_Handle D b data g)) = servers_view g" "settings_view (snd (Policy_Handle D b data g)) = settings_view g"
  "metadata_view (snd (Policy_Handle D b data g)) = metadata_view g"
  "cg_fails (gw_store (snd (Policy_Handle D b data g))) = cg_fails (gw_store g)"
  "k \<noteq> ''config.policy'' \<Longrightarrow> map_of (config_rows (snd (Policy_Handle D b data g))) k = map_of (config_rows g) k"
  by (simp_all add: Policy_Handle_def servers_view_def settings_view_def metadata_view_def split: option.split list.split sum.split)

lemma Server_Handle_frame [simp]:
  "policy_view (snd (Server_Handle D bound b data g)) = policy_view g" "settings_view (snd (Server_Handle D bound b data g)) = settings_view g"
  "metadata_view (snd (Server_Handle D bound b data g)) = metadata_view g"
  "cg_fails (gw_store (snd (Server_Handle D bound b data g))) = cg_fails (gw_store g)"
  "k \<noteq> ''config.servers'' \<Longrightarrow> map_of (config_rows (snd (Server_Handle D bound b data g))) k = map_of (config_rows g) k"
  by (simp_all add: Server_Handle_def UpdateSPIFFEAllowList_def policy_view_def settings_view_def metadata_view_def split: option.split sum.split)

lemma ServerSettings_Handle_frame [simp]:
  "policy_view (snd (ServerSettings_Handle D bound b data g)) = policy_view g"
  "servers_view (snd (ServerSettings_Handle D bound b data g)) = servers_view g"
  "metadata_view (snd (ServerSettings_Handle D bound b data g)) = metadata_view g"
  "cg_fails (gw_store (snd (ServerSettings_Handle D bound b data g))) = cg_fails (gw_store g)"
  "k \<noteq> ''config.server_settings'' \<Longrightarrow> map_of (config_rows (snd (ServerSettings_Handle D bound b data g))) k = map_of (config_rows g) k"
  by (auto simp: ServerSettings_Handle_def applyAndPersistSettings_def UpdateEffectiveSettings_def policy_view_def servers_view_def
      metadata_view_def Let_def split: option.split sum.split prod.split bool.split)

lemma Auth_Handle_frame [simp]:
  "policy_view (snd (Auth_Handle D b data g)) = policy_view g" "servers_view (snd (Auth_Handle D b data g)) = servers_view g"
  "settings_view (snd (Auth_Handle D b data g)) = settings_view g" "metadata_view (snd (Auth_Handle D b data g)) = metadata_view g"
  "cg_fails (gw_store (snd (Auth_Handle D b data g))) = cg_fails (gw_store g)"
  "k \<noteq> ''config.auth'' \<Longrightarrow> map_of (config_rows (snd (Auth_Handle D b data g))) k = map_of (config_rows g) k"
  by (simp_all add: Auth_Handle_def policy_view_def servers_view_def settings_view_def metadata_view_def split: option.split)

lemma ToolMetadata_Handle_frame [simp]:
  "policy_view (snd (ToolMetadata_Handle D ix cb b data g)) = policy_view g" "servers_view (snd (ToolMetadata_Handle D ix cb b data g)) = servers_view g"
  "settings_view (snd (ToolMetadata_Handle D ix cb b data g)) = settings_view g"
  "cg_fails (gw_store (snd (ToolMetadata_Handle D ix cb b data g))) = cg_fails (gw_store g)"
  "k \<noteq> ''config.tool_metadata'' \<Longrightarrow> map_of (config_rows (snd (ToolMetadata_Handle D ix cb b data g))) k = map_of (config_rows g) k"
  by (simp_all add: ToolMetadata_Handle_def toolMetadataCallback_def Let_def policy_view_def servers_view_def settings_view_def split: option.split)

lemma Acknowledge_config_frame:
  "sv_spiffeAllowList (snd (AcknowledgeServerRegistration R i l h v t s)) = sv_spiffeAllowList s"
  "sv_settingsVersion (snd (AcknowledgeServerRegistration R i l h v t s)) = sv_settingsVersion s"
  "sv_effectiveSettings (snd (AcknowledgeServerRegistration R i l h v t s)) = sv_effectiveSettings s"
  by (auto simp: AcknowledgeServerRegistration_def Let_def split: prod.split option.split store_error.split)

lemma Ack_Handle_frame [simp]:
  "policy_view (snd (Ack_Handle D R bound data g)) = policy_view g" "servers_view (snd (Ack_Handle D R bound data g)) = servers_view g"
  "settings_view (snd (Ack_Handle D R bound data g)) = settings_view g" "metadata_view (snd (Ack_Handle D R bound data g)) = metadata_view g"
  "gw_store (snd (Ack_Handle D R bound data g)) = gw_store g"
  using Acknowledge_config_frame
  by (auto simp: Ack_Handle_def Let_def policy_view_def servers_view_def settings_view_def metadata_view_def case_prod_beta split: option.split)

section \<open>Restart\<close>

text \<open>The subscriber with every dependency of its handlers set.\<close>

definition stored_subscriber :: "string \<Rightarrow> Subscriber" where
  "stored_subscriber gatewayID =
    RegisterHandler (SubjectForConfig gatewayID ''tool_metadata'') (ToolMetadataConfigHandler True True)
      (RegisterHandler (SubjectForAck gatewayID ''server_registered'') (ServerRegisteredAckHandler True)
        (RegisterGatewaySubjects (PolicyConfigHandler True) (ServerConfigHandler True True)
          (ServerSettingsConfigHandler True True) (AuthConfigHandler True) (NewSubscriber gatewayID)))"

definition config_keys :: "string list" where
  "config_keys = [''config.policy'', ''config.servers'', ''config.server_settings'', ''config.auth'', ''config.tool_metadata'']"

lemma scope_words [simp]:
  "TrimSpace ''policy'' = ''policy''" "TrimSpace ''servers'' = ''servers''" "TrimSpace ''server_settings'' = ''server_settings''"
  "TrimSpace ''auth'' = ''auth''" "TrimSpace ''tool_metadata'' = ''tool_metadata''" "TrimSpace ''server_registered'' = ''server_registered''"
  "TrimSpace ''config.policy'' = ''config.policy''" "TrimSpace ''config.servers'' = ''config.servers''"
  "TrimSpace ''config.server_settings'' = ''config.server_settings''" "TrimSpace ''config.auth'' = ''config.auth''"
  "TrimSpace ''config.tool_metadata'' = ''config.tool_metadata''"
  by (rule TrimSpace_word; code_simp)+

lemma subject_trimmed:
  "w \<noteq> [] \<Longrightarrow> visible (last w) \<Longrightarrow> TrimSpace (''mcpgw.'' @ g @ w) = ''mcpgw.'' @ g @ w"
  by (rule TrimSpace_word) (simp add: trimmed_word_def visible_def)

lemma subjects_trimmed [simp]:
  "TrimSpace (SubjectForConfig gid ''policy'') = SubjectForConfig gid ''policy''"
  "TrimSpace (SubjectForConfig gid ''servers'') = SubjectForConfig gid ''servers''"
  "TrimSpace (SubjectForConfig gid ''server_settings'') = SubjectForConfig gid ''server_settings''"
  "TrimSpace (SubjectForConfig gid ''auth'') = SubjectForConfig gid ''auth''"
  "TrimSpace (SubjectForConfig gid ''tool_metadata'') = SubjectForConfig gid ''tool_metadata''"
  "TrimSpace (SubjectForAck gid ''server_registered'') = SubjectForAck gid ''server_registered''"
  unfolding SubjectForConfig_def SubjectForAck_def
  by (simp_all only: scope_words append_assoc) (rule subject_trimmed; simp add: visible_def)+

lemma subject_nonempty [simp]: "SubjectForConfig gid scope \<noteq> []" "SubjectForAck gid scope \<noteq> []"
  by (simp_all add: SubjectForConfig_def SubjectForAck_def)

lemma subject_distinct [simp]:
  "SubjectForConfig gid s = SubjectForConfig gid t \<longleftrightarrow> TrimSpace s = TrimSpace t"
  "SubjectForConfig gid s \<noteq> SubjectForAck gid t" "SubjectForAck gid t \<noteq> SubjectForConfig gid s"
  by (auto simp: SubjectForConfig_def SubjectForAck_def)

lemma stored_subscriber_handlers:
  "sb_gatewayID (stored_subscriber gid) = gid"
  "map_of (sb_handlers (stored_subscriber gid)) =
    [SubjectForConfig gid ''policy'' \<mapsto> PolicyConfigHandler True, SubjectForConfig gid ''servers'' \<mapsto> ServerConfigHandler True True,
     SubjectForConfig gid ''server_settings'' \<mapsto> ServerSettingsConfigHandler True True, SubjectForConfig gid ''auth'' \<mapsto> AuthConfigHandler True,
     SubjectForAck gid ''server_registered'' \<mapsto> ServerRegisteredAckHandler True,
     SubjectForConfig gid ''tool_metadata'' \<mapsto> ToolMetadataConfigHandler True True]"
  by (simp_all add: stored_subscriber_def RegisterHandler_def RegisterGatewaySubjects_def NewSubscriber_def Let_def update_conv fun_upd_twist)

lemma stored_handler_cases:
  assumes "map_of (sb_handlers (stored_subscriber gid)) subject = Some h"
  obtains "h = PolicyConfigHandler True" | "h = ServerConfigHandler True True" | "h = ServerSettingsConfigHandler True True"
    | "h = AuthConfigHandler True" | "h = ServerRegisteredAckHandler True" | "h = ToolMetadataConfigHandler True True"
  using assms by (auto simp: stored_subscriber_handlers split: if_splits)

definition all_saved :: "config_codec \<Rightarrow> ('l, 'e) Gateway \<Rightarrow> ('l, 'e) Gateway \<Rightarrow> bool" where
  "all_saved D g0 g =
    (store_usable g \<and> (\<forall>k. k \<notin> set config_keys \<longrightarrow> map_of (config_rows g) k = None)
     \<and> policy_cell.saved D g0 g \<and> servers_cell.saved D g0 g \<and> settings_cell.saved D g0 g
     \<and> metadata_cell.saved D g0 g \<and> auth_cell.saved D g0 g)"

lemma all_saved_kept:
  assumes "all_saved D g0 g" and "store_usable g'" and "\<forall>k. k \<notin> set config_keys \<longrightarrow> map_of (config_rows g') k = map_of (config_rows g) k"
    and "policy_cell.saved D g0 g' \<or> policy_view g' = policy_view g \<and> map_of (config_rows g') ''config.policy'' = map_of (config_rows g) ''config.policy''"
    and "servers_cell.saved D g0 g' \<or> servers_view g' = servers_view g \<and> map_of (config_rows g') ''config.servers'' = map_of (config_rows g) ''config.servers''"
    and "settings_cell.saved D g0 g' \<or> settings_view g' = settings_view g \<and> map_of (config_rows g') ''config.server_settings'' = map_of (config_rows g) ''config.server_settings''"
    and "metadata_cell.saved D g0 g' \<or> metadata_view g' = metadata_view g \<and> map_of (config_rows g') ''config.tool_metadata'' = map_of (config_rows g) ''config.tool_metadata''"
    and "auth_cell.saved D g0 g' \<or> map_of (config_rows g') ''config.auth'' = map_of (config_rows g) ''config.auth''"
  shows "all_saved D g0 g'"
  unfolding all_saved_def
proof (intro conjI)
  note s = assms(1) [unfolded all_saved_def]
  show "store_usable g'" by fact
  show "\<forall>k. k \<notin> set config_keys \<longrightarrow> map_of (config_rows g') k = None" using s assms(3) by metis
  show "policy_cell.saved D g0 g'" using s assms(4) policy_cell.saved_other by blast
  show "servers_cell.saved D g0 g'" using s assms(5) servers_cell.saved_other by blast
  show "settings_cell.saved D g0 g'" using s assms(6) settings_cell.saved_other by blast
  show "metadata_cell.saved D g0 g'" using s assms(7) metadata_cell.saved_other by blast
  show "auth_cell.saved D g0 g'" using s assms(8) auth_cell.saved_other by blast
qed

lemma all_saved_step:
  assumes "map_of (sb_handlers (stored_subscriber gid)) subject = Some h" and "all_saved D g0 g"
  shows "all_saved D g0 (snd (handler_Handle D ix R h data g))"
proof -
  note s = assms(2) [unfolded all_saved_def]
  note kept = all_saved_kept [OF assms(2)]
  have u: "store_usable g" using s by simp
  have own: "policy_cell.saved D g0 (snd (Policy_Handle D True data g))" "servers_cell.saved D g0 (snd (Server_Handle D True True data g))"
    "settings_cell.saved D g0 (snd (ServerSettings_Handle D True True data g))" "auth_cell.saved D g0 (snd (Auth_Handle D True data g))"
    "metadata_cell.saved D g0 (snd (ToolMetadata_Handle D ix True True data g))"
    using s by (blast intro: policy_cell.saved_own servers_cell.saved_own settings_cell.saved_own auth_cell.saved_own metadata_cell.saved_own)+
  have keys: "k \<notin> set config_keys \<Longrightarrow> k \<noteq> ''config.policy'' \<and> k \<noteq> ''config.servers'' \<and> k \<noteq> ''config.server_settings''
      \<and> k \<noteq> ''config.auth'' \<and> k \<noteq> ''config.tool_metadata''" for k
    by (simp add: config_keys_def)
  from assms(1) show ?thesis
  proof (cases rule: stored_handler_cases)
    case 1
    then show ?thesis by (simp only: handler_Handle.simps) (rule kept; simp add: own u keys)
  next
    case 2
    then show ?thesis by (simp only: handler_Handle.simps) (rule kept; simp add: own u keys)
  next
    case 3
    then show ?thesis by (simp only: handler_Handle.simps) (rule kept; simp add: own u keys)
  next
    case 4
    then show ?thesis by (simp only: handler_Handle.simps) (rule kept; simp add: own u keys)
  next
    case 5
    then show ?thesis by (simp only: handler_Handle.simps) (rule kept; simp add: own u keys)
  next
    case 6
    then show ?thesis by (simp only: handler_Handle.simps) (rule kept; simp add: own u keys)
  qed
qed

text \<open>A state of the loading: the same rows, and each view is that at the start or that to be restored.\<close>

definition between :: "('l, 'e) Gateway \<Rightarrow> ('l, 'e) Gateway \<Rightarrow> ('l, 'e) Gateway \<Rightarrow> bool" where
  "between g0 g h =
    (store_usable h \<and> map_of (config_rows h) = map_of (config_rows g)
     \<and> (policy_view h = policy_view g0 \<or> policy_view h = policy_view g)
     \<and> (servers_view h = servers_view g0 \<or> servers_view h = servers_view g)
     \<and> (settings_view h = settings_view g0 \<or> settings_view h = settings_view g)
     \<and> (metadata_view h = metadata_view g0 \<or> metadata_view h = metadata_view g))"

definition restored_key :: "('l, 'e) Gateway \<Rightarrow> ('l, 'e) Gateway \<Rightarrow> string \<Rightarrow> bool" where
  "restored_key g h k =
    ((k = ''config.policy'' \<longrightarrow> policy_view h = policy_view g) \<and> (k = ''config.servers'' \<longrightarrow> servers_view h = servers_view g)
     \<and> (k = ''config.server_settings'' \<longrightarrow> settings_view h = settings_view g)
     \<and> (k = ''config.tool_metadata'' \<longrightarrow> metadata_view h = metadata_view g))"

lemma same_rows: "map_of m k = Some d \<Longrightarrow> map_of (mput k d m) = map_of m"
  by (auto simp: update_conv)

lemma between_step:
  assumes "between g0 g h" and "store_usable h'" and "map_of (config_rows h') = map_of (config_rows h)"
    and "policy_view h' = policy_view h \<or> policy_view h' = policy_view g" and "servers_view h' = servers_view h \<or> servers_view h' = servers_view g"
    and "settings_view h' = settings_view h \<or> settings_view h' = settings_view g"
    and "metadata_view h' = metadata_view h \<or> metadata_view h' = metadata_view g"
  shows "between g0 g h'" "restored_key g h k' \<Longrightarrow> restored_key g h' k'"
proof -
  note b = assms(1) [unfolded between_def]
  show "between g0 g h'" unfolding between_def
  proof (intro conjI)
    show "store_usable h'" by fact
    show "map_of (config_rows h') = map_of (config_rows g)" using b assms(3) by simp
    show "policy_view h' = policy_view g0 \<or> policy_view h' = policy_view g" using b assms(4) by argo
    show "servers_view h' = servers_view g0 \<or> servers_view h' = servers_view g" using b assms(5) by argo
    show "settings_view h' = settings_view g0 \<or> settings_view h' = settings_view g" using b assms(6) by argo
    show "metadata_view h' = metadata_view g0 \<or> metadata_view h' = metadata_view g" using b assms(7) by argo
  qed
  show "restored_key g h k' \<Longrightarrow> restored_key g h' k'"
    unfolding restored_key_def using assms(4-7) by argo
qed

text \<open>The handler that loading a key finds.\<close>

definition key_handler :: "string \<Rightarrow> config_handler" where
  "key_handler k =
    (if k = ''config.policy'' then PolicyConfigHandler True else if k = ''config.servers'' then ServerConfigHandler True True
     else if k = ''config.server_settings'' then ServerSettingsConfigHandler True True else if k = ''config.auth'' then AuthConfigHandler True
     else ToolMetadataConfigHandler True True)"

lemma config_key_cases:
  assumes "k \<in> set config_keys"
  obtains "k = ''config.policy''" | "k = ''config.servers''" | "k = ''config.server_settings''" | "k = ''config.auth''" | "k = ''config.tool_metadata''"
proof -
  have "k = ''config.policy'' \<or> k = ''config.servers'' \<or> k = ''config.server_settings'' \<or> k = ''config.auth'' \<or> k = ''config.tool_metadata''"
    using assms by (simp add: config_keys_def)
  then show ?thesis using that by argo
qed

lemma key_subjects [simp]:
  "cacheKeyToSubject gid ''config.policy'' = SubjectForConfig gid ''policy''"
  "cacheKeyToSubject gid ''config.servers'' = SubjectForConfig gid ''servers''"
  "cacheKeyToSubject gid ''config.server_settings'' = SubjectForConfig gid ''server_settings''"
  "cacheKeyToSubject gid ''config.auth'' = SubjectForConfig gid ''auth''"
  "cacheKeyToSubject gid ''config.tool_metadata'' = SubjectForConfig gid ''tool_metadata''"
  by (simp_all add: cacheKeyToSubject_def)

lemma key_handlers [simp]:
  "key_handler ''config.policy'' = PolicyConfigHandler True" "key_handler ''config.servers'' = ServerConfigHandler True True"
  "key_handler ''config.server_settings'' = ServerSettingsConfigHandler True True" "key_handler ''config.auth'' = AuthConfigHandler True"
  "key_handler ''config.tool_metadata'' = ToolMetadataConfigHandler True True"
  by (simp_all add: key_handler_def)

lemma key_handler_found:
  assumes "k \<in> set config_keys"
  shows "map_of (sb_handlers (stored_subscriber gid)) (cacheKeyToSubject gid k) = Some (key_handler k) \<and> cacheKeyToSubject gid k \<noteq> ''''"
  using assms by (rule config_key_cases) (simp_all add: stored_subscriber_handlers)

lemma load_key:
  fixes g h :: "('l, 'e) Gateway" and ix :: "'e index_op" and R :: reg_env
  assumes s: "all_saved D g0 g" and b: "between g0 g h" and k: "k \<in> set config_keys" and d: "map_of (config_rows g) k = Some d"
  defines "h' \<equiv> snd (handler_Handle D ix R (key_handler k) d h)"
  shows "fst (handler_Handle D ix R (key_handler k) d h) = None" "between g0 g h'" "restored_key g h' k" "restored_key g h k' \<Longrightarrow> restored_key g h' k'"
proof -
  note saved = s [unfolded all_saved_def] and bet = b [unfolded between_def]
  have u: "store_usable h" and rows: "map_of (config_rows h) = map_of (config_rows g)" using bet by simp_all
  have row: "map_of (config_rows h) k = Some d" using d rows by simp
  note same = same_rows [OF row]
  have cells: "policy_cell.saved D g0 g" "servers_cell.saved D g0 g" "settings_cell.saved D g0 g" "metadata_cell.saved D g0 g" "auth_cell.saved D g0 g"
    and views: "policy_view h = policy_view g0 \<or> policy_view h = policy_view g" "servers_view h = servers_view g0 \<or> servers_view h = servers_view g"
      "settings_view h = settings_view g0 \<or> settings_view h = settings_view g" "metadata_view h = metadata_view g0 \<or> metadata_view h = metadata_view g"
    using saved bet by argo+
  have step: "fst r = None \<and> restored_key g (snd r) k \<and> between g0 g (snd r) \<and> (restored_key g h k' \<longrightarrow> restored_key g (snd r) k')"
    if "fst r = None" "restored_key g (snd r) k" "store_usable (snd r)" "map_of (config_rows (snd r)) = map_of (config_rows h)"
      "policy_view (snd r) = policy_view h \<or> policy_view (snd r) = policy_view g" "servers_view (snd r) = servers_view h \<or> servers_view (snd r) = servers_view g"
      "settings_view (snd r) = settings_view h \<or> settings_view (snd r) = settings_view g"
      "metadata_view (snd r) = metadata_view h \<or> metadata_view (snd r) = metadata_view g" for r :: "config_error option \<times> ('l, 'e) Gateway"
    using that(1,2) between_step [OF b that(3-8)] by blast
  from k have "let r = handler_Handle D ix R (key_handler k) d h in
      fst r = None \<and> restored_key g (snd r) k \<and> between g0 g (snd r) \<and> (restored_key g h k' \<longrightarrow> restored_key g (snd r) k')"
  proof (cases rule: config_key_cases)
    case 1
    note r = policy_cell.restored [OF cells(1) d [unfolded 1] u views(1)]
    have e: "handler_Handle D ix R (key_handler k) d h = Policy_Handle D True d h" by (simp add: 1)
    show ?thesis unfolding Let_def e
      by (rule step) (simp_all add: r u restored_key_def 1 same [unfolded 1])
  next
    case 2
    note r = servers_cell.restored [OF cells(2) d [unfolded 2] u views(2)]
    have e: "handler_Handle D ix R (key_handler k) d h = Server_Handle D True True d h" by (simp add: 2)
    show ?thesis unfolding Let_def e
      by (rule step) (simp_all add: r u restored_key_def 2 same [unfolded 2])
  next
    case 3
    note r = settings_cell.restored [OF cells(3) d [unfolded 3] u views(3)]
    have e: "handler_Handle D ix R (key_handler k) d h = ServerSettings_Handle D True True d h" by (simp add: 3)
    show ?thesis unfolding Let_def e
      by (rule step) (simp_all add: r u restored_key_def 3 same [unfolded 3])
  next
    case 4
    note r = auth_cell.restored [OF cells(5) d [unfolded 4] u]
    have e: "handler_Handle D ix R (key_handler k) d h = Auth_Handle D True d h" by (simp add: 4)
    show ?thesis unfolding Let_def e
      by (rule step) (simp_all add: r(1,3) u restored_key_def 4 same [unfolded 4])
  next
    case 5
    note r = metadata_cell.restored [OF cells(4) d [unfolded 5] u views(4)]
    have e: "handler_Handle D ix R (key_handler k) d h = ToolMetadata_Handle D ix True True d h" by (simp add: 5)
    show ?thesis unfolding Let_def e
      by (rule step) (simp_all add: r u restored_key_def 5 same [unfolded 5])
  qed
  then show "fst (handler_Handle D ix R (key_handler k) d h) = None" "between g0 g h'" "restored_key g h' k"
    "restored_key g h k' \<Longrightarrow> restored_key g h' k'" unfolding h'_def Let_def by blast+
qed

lemma load_keys_restores:
  assumes s: "all_saved D g0 g" and "between g0 g h" and "set ks \<subseteq> dom (map_of (config_rows g))"
  shows "\<exists>h'. load_keys D ix R (stored_subscriber gid) ks h = (None, h') \<and> between g0 g h' \<and> (\<forall>k \<in> set ks. restored_key g h' k)
    \<and> (\<forall>k. restored_key g h k \<longrightarrow> restored_key g h' k)"
  using assms(2,3)
proof (induction ks arbitrary: h)
  case Nil
  then show ?case by simp
next
  case (Cons k ks)
  from Cons.prems(2) obtain d where d: "map_of (config_rows g) k = Some d" by auto
  have k: "k \<in> set config_keys" using d s by (force simp: all_saved_def)
  define h1 where "h1 = snd (handler_Handle D ix R (key_handler k) d h)"
  note step = load_key [OF s Cons.prems(1) k d, where ix = ix and R = R, folded h1_def]
  have call: "handler_Handle D ix R (key_handler k) d h = (None, h1)" by (simp add: prod_eq_iff h1_def step(1))
  have load: "Config_Load k (gw_store h) = Some d" using Cons.prems(1) d by (simp add: between_def Config_Load_def)
  have "set ks \<subseteq> dom (map_of (config_rows g))" using Cons.prems(2) by simp
  from Cons.IH [OF step(2) this] obtain h' where ih: "load_keys D ix R (stored_subscriber gid) ks h1 = (None, h')" "between g0 g h'"
    "\<forall>k \<in> set ks. restored_key g h' k" "\<forall>k. restored_key g h1 k \<longrightarrow> restored_key g h' k" by blast
  have "load_keys D ix R (stored_subscriber gid) (k # ks) h = (None, h')"
    using ih(1) key_handler_found [OF k, of gid] call load by (simp add: stored_subscriber_handlers(1))
  then show ?case using ih step(3,4) by auto
qed

text \<open>The running configuration of a gateway.\<close>

definition running_config where
  "running_config g = (policy_view g, servers_view g, settings_view g, metadata_view g)"

lemma restored_views:
  assumes "all_saved D g0 g" and "between g0 g h" and "\<forall>k \<in> dom (map_of (config_rows g)). restored_key g h k"
  shows "running_config h = running_config g"
proof -
  note s = assms(1) [unfolded all_saved_def] and b = assms(2) [unfolded between_def]
  have key: "map_of (config_rows g) k \<noteq> None \<Longrightarrow> restored_key g h k" for k using assms(3) by blast
  have "policy_view h = policy_view g"
    using s b key [of "''config.policy''"] policy_cell.restored_view [of D g0 g h] unfolding restored_key_def by argo
  moreover have "servers_view h = servers_view g"
    using s b key [of "''config.servers''"] servers_cell.restored_view [of D g0 g h] unfolding restored_key_def by argo
  moreover have "settings_view h = settings_view g"
    using s b key [of "''config.server_settings''"] settings_cell.restored_view [of D g0 g h] unfolding restored_key_def by argo
  moreover have "metadata_view h = metadata_view g"
    using s b key [of "''config.tool_metadata''"] metadata_cell.restored_view [of D g0 g h] unfolding restored_key_def by argo
  ultimately show ?thesis by (simp add: running_config_def)
qed

text \<open>A message: the environment at its arrival, its subject and its bytes.\<close>

definition receive_all ::
  "config_codec \<Rightarrow> 'e index_op \<Rightarrow> Subscriber \<Rightarrow> (reg_env \<times> string \<times> string) list \<Rightarrow> ('l, 'e) Gateway \<Rightarrow> ('l, 'e) Gateway" where
  "receive_all D index_op s messages g = foldl (\<lambda>g (R, subject, data). routeMessage D index_op R s subject data g) g messages"

lemma receive_all_saved:
  assumes "all_saved D g0 g"
  shows "all_saved D g0 (receive_all D index_op (stored_subscriber gid) messages g)"
  using assms
proof (induction messages arbitrary: g)
  case (Cons m ms)
  obtain R subject data where m: "m = (R, subject, data)" by (cases m)
  have "all_saved D g0 (routeMessage D index_op R (stored_subscriber gid) subject data g)"
    using Cons.prems all_saved_step by (fastforce simp: routeMessage_def split: option.split)
  with Cons.IH show ?case by (simp add: receive_all_def m)
qed (simp add: receive_all_def)


section \<open>The wiring of the server\<close>

text \<open>
  The subscriber of \<^verbatim>\<open>server.go\<close> gives its store to the metadata handler alone: whatever messages arrive, no other row
  of the table changes, although the handlers apply them.
\<close>

definition saves_metadata_only :: "config_handler \<Rightarrow> bool" where
  "saves_metadata_only h =
    (case h of PolicyConfigHandler b \<Rightarrow> \<not> b | ServerConfigHandler u b \<Rightarrow> \<not> b | ServerSettingsConfigHandler u b \<Rightarrow> \<not> b
     | AuthConfigHandler b \<Rightarrow> \<not> b | _ \<Rightarrow> True)"

lemma persist_off [simp]: "persist False key data g = (None, g)"
  by (simp add: persist_def)

lemma handler_saves_metadata_only:
  assumes "saves_metadata_only h" and "k \<noteq> ''config.tool_metadata''"
  shows "map_of (config_rows (snd (handler_Handle D ix R h data g))) k = map_of (config_rows g) k"
  using assms
  by (cases h) (simp_all add: saves_metadata_only_def Policy_Handle_def Server_Handle_def ServerSettings_Handle_def applyAndPersistSettings_def
      Auth_Handle_def split: option.split list.split sum.split prod.split bool.split)

lemma mput_all: "list_all (P \<circ> snd) m \<Longrightarrow> P v \<Longrightarrow> list_all (P \<circ> snd) (mput k v m)"
  by (induction m) auto

lemma RegisterHandler_all:
  "list_all (P \<circ> snd) (sb_handlers s) \<Longrightarrow> P h \<Longrightarrow> list_all (P \<circ> snd) (sb_handlers (RegisterHandler subject h s))"
  by (simp add: RegisterHandler_def Let_def mput_all)

lemma server_wiring_saves_metadata_only:
  assumes "k \<noteq> ''config.tool_metadata''"
  shows "map_of (config_rows (receive_all D ix (BindRegistrationService (initEventSubscriber gid hasStore)) messages g)) k = map_of (config_rows g) k"
proof -
  have "list_all (saves_metadata_only \<circ> snd) (sb_handlers (initEventSubscriber gid hasStore))"
    unfolding initEventSubscriber_def RegisterGatewaySubjects_def Let_def
    by (intro RegisterHandler_all) (simp_all add: NewSubscriber_def saves_metadata_only_def)
  then have all: "list_all (saves_metadata_only \<circ> snd) (sb_handlers (BindRegistrationService (initEventSubscriber gid hasStore)))"
    by (auto simp: BindRegistrationService_def list_all_iff saves_metadata_only_def split: config_handler.splits)
  have step: "map_of (config_rows (routeMessage D ix R (BindRegistrationService (initEventSubscriber gid hasStore)) subject data g)) k
      = map_of (config_rows g) k" for R subject data g
    using all assms by (auto simp: routeMessage_def list_all_iff handler_saves_metadata_only split: option.split dest!: map_of_SomeD)
  show ?thesis unfolding receive_all_def by (induction messages arbitrary: g) (auto simp: step)
qed

text \<open>
  Without a connection at the start, the fallback manager has no subscriber: it reports the cached configuration as
  loaded and applies none of it.
\<close>

lemma cached_versions_total:
  "\<not> cg_fails s \<Longrightarrow> set ks \<subseteq> dom (map_of (cg_rows s)) \<Longrightarrow> \<exists>versions. cached_versions D s ks m = Inr versions"
  by (induction ks arbitrary: m) (auto simp: Config_Load_def)

lemma fallback_applies_nothing:
  assumes "store_usable g" and "config_rows g \<noteq> []"
  shows "\<exists>m. initDegradationFallback D ix R True True None g = (Some m, g) \<and> dm_hasCachedConfig m \<and> dm_status m = DegradationStatusDegraded"
proof -
  obtain versions where "cached_versions D (gw_store g) (map fst (config_rows g)) [] = Inr versions"
    using cached_versions_total [of "gw_store g" "map fst (config_rows g)" D "[]"] assms(1)
    by (auto simp: dom_map_of_conv_image_fst)
  then show ?thesis
    using assms by (simp add: initDegradationFallback_def NewDegradationManager_def Degradation_LoadCachedConfig_def Config_Keys_def
        applyCachedState_def Let_def)
qed

text \<open>The versions a reconnection reports are those of the last loading, whatever was received since.\<close>

lemma reconnect_reports_loaded_versions:
  "snd (OnReconnect m) = Some (subject, request) \<Longrightarrow> sq_LastKnownVersions request = dm_lastKnownVersions m"
  by (auto simp: OnReconnect_def Let_def split: option.splits if_splits)

end
