(* ===== verification/Http_Handlers.thy ===== *)
theory Http_Handlers
  imports Events Identity_Auth Classification
begin

text \<open>
  HTTP handlers over the modelled services: registration (\<^verbatim>\<open>src/internal/registration/handler.go\<close>), the pushed
  capability refresh (\<^verbatim>\<open>refresh_handler.go\<close>), classification events (\<^verbatim>\<open>classification_subscriber.go\<close>), and the
  readiness and metadata endpoints of \<^verbatim>\<open>src/internal/server/server.go\<close> with their limiter.

  A request is what the handler reads of it: the identity in its context, its path parameter, its query and its
  decoded body.  A reply is its status with the value or message it carries.  The lemmas show that the
  handlers report each error of the service by its status without changing the service, that a refresh is run only for
  the server that asks, at most ten times in a minute, and that the limiter of the metadata endpoint is bounded.
\<close>

section \<open>Replies\<close>

datatype reply_message = Message string | ServiceMessage svc_error

datatype 'a reply = JSONReply int 'a | ErrorReply int reply_message | EmptyReply int

text \<open>The message of an internal error is not shown.\<close>

definition writeServiceError :: "svc_error \<Rightarrow> 'a reply" where
  "writeServiceError e =
    (case e of
       ErrInvalidRequest \<Rightarrow> ErrorReply 400 (ServiceMessage e)
     | ErrUnauthorized \<Rightarrow> ErrorReply 401 (ServiceMessage e)
     | ErrForbidden \<Rightarrow> ErrorReply 403 (ServiceMessage e)
     | ErrNotFound \<Rightarrow> ErrorReply 404 (ServiceMessage e)
     | ErrStore \<Rightarrow> ErrorReply 500 (Message ''internal server error''))"

section \<open>Registration\<close>

text \<open>\<open>body\<close> is the decoded request, \<open>None\<close> when decoding fails.\<close>

definition handleRegister ::
  "reg_env \<Rightarrow> Ctx \<Rightarrow> RegistrationRequest option \<Rightarrow> Service \<Rightarrow> RegistrationResponse reply \<times> Service" where
  "handleRegister R ctx body s =
    (case body of
       None \<Rightarrow> (ErrorReply 400 (Message ''invalid request body''), s)
     | Some req \<Rightarrow>
         (case FromContext ctx of
            None \<Rightarrow> (ErrorReply 401 (Message ''missing identity''), s)
          | Some caller \<Rightarrow>
              (case Register R (Some caller) req s of
                 (Inl e, s1) \<Rightarrow> (writeServiceError e, s1)
               | (Inr resp, s1) \<Rightarrow> (JSONReply 201 resp, s1))))"

text \<open>\<open>strconv.Atoi\<close>: an optional sign and decimal digits, within 64 bits.\<close>

definition decimal :: "string \<Rightarrow> nat option" where
  "decimal s = (if s = '''' then None else number_in 10 s)"

definition Atoi :: "string \<Rightarrow> int option" where
  "Atoi s =
    (let (negative, digits) = (case s of
           [] \<Rightarrow> (False, [])
         | c # rest \<Rightarrow> if c = CHR ''-'' then (True, rest) else if c = CHR ''+'' then (False, rest) else (False, s))
     in case decimal digits of
          None \<Rightarrow> None
        | Some n \<Rightarrow>
            (let v = (if negative then - int n else int n)
             in if - (2 ^ 63) \<le> v \<and> v < 2 ^ 63 then Some v else None))"

definition optional_count :: "string \<Rightarrow> int option" where
  "optional_count value =
    (let v = TrimSpace value
     in if v = '''' then Some 0 else case Atoi v of None \<Rightarrow> None | Some n \<Rightarrow> if n < 0 then None else Some n)"

definition parseServerFilter :: "(string \<Rightarrow> string) \<Rightarrow> string + ServerFilter" where
  "parseServerFilter query =
    (let statusValue = TrimSpace (query ''status'');
         status = ServerStatus_of_string statusValue
     in if statusValue \<noteq> '''' \<and> (case status of StatusOther other \<Rightarrow> True | _ \<Rightarrow> False) then Inl ''invalid status filter''
        else case optional_count (query ''limit'') of
               None \<Rightarrow> Inl ''invalid limit''
             | Some limit \<Rightarrow>
                 (case optional_count (query ''offset'') of
                    None \<Rightarrow> Inl ''invalid offset''
                  | Some offset \<Rightarrow>
                      Inr \<lparr>sf_Status = (if statusValue = '''' then None else Some status), sf_NamePattern = TrimSpace (query ''name''),
                           sf_Limit = limit, sf_Offset = offset\<rparr>))"

text \<open>The route of the list requires the scope \<open>admin\<close>.\<close>

definition handleList :: "Ctx \<Rightarrow> (string \<Rightarrow> string) \<Rightarrow> Service \<Rightarrow> ServerRecord list reply" where
  "handleList ctx query s =
    (case RequireScope ''admin'' ctx of
       Deny status msg \<Rightarrow> ErrorReply status (Message msg)
     | Proceed ctx1 \<Rightarrow>
         (case parseServerFilter query of
            Inl msg \<Rightarrow> ErrorReply 400 (Message msg)
          | Inr flt \<Rightarrow> (case Service_List flt s of Inl e \<Rightarrow> writeServiceError e | Inr rows \<Rightarrow> JSONReply 200 rows)))"

text \<open>A body that is missing or empty is the zero request.\<close>

datatype heartbeat_body = NoBody | EmptyBody | BadBody | HeartbeatBody HeartbeatRequest

definition handleHeartbeat ::
  "reg_env \<Rightarrow> Ctx \<Rightarrow> string \<Rightarrow> heartbeat_body \<Rightarrow> Service \<Rightarrow> HeartbeatResponse reply \<times> Service" where
  "handleHeartbeat R ctx param body s =
    (let sid = TrimSpace param;
         run = (\<lambda>caller req. case Heartbeat R (Some caller) sid req s of
                  (Inl e, s1) \<Rightarrow> (writeServiceError e, s1)
                | (Inr resp, s1) \<Rightarrow> (JSONReply 200 resp, s1));
         zero = \<lparr>hb_RegistrationID = '''', hb_LeaseEpoch = 0, hb_CapabilityHash = ''''\<rparr>
     in if sid = '''' then (ErrorReply 400 (Message ''missing registration id''), s)
        else case FromContext ctx of
               None \<Rightarrow> (ErrorReply 401 (Message ''missing identity''), s)
             | Some caller \<Rightarrow>
                 (case body of
                    BadBody \<Rightarrow> (ErrorReply 400 (Message ''invalid request body''), s)
                  | NoBody \<Rightarrow> run caller zero
                  | EmptyBody \<Rightarrow> run caller zero
                  | HeartbeatBody req \<Rightarrow> run caller req))"

definition handleDeregister :: "Ctx \<Rightarrow> string \<Rightarrow> Service \<Rightarrow> unit reply \<times> Service" where
  "handleDeregister ctx param s =
    (let sid = TrimSpace param
     in if sid = '''' then (ErrorReply 400 (Message ''missing registration id''), s)
        else case FromContext ctx of
               None \<Rightarrow> (ErrorReply 401 (Message ''missing identity''), s)
             | Some caller \<Rightarrow>
                 (case Deregister (Some caller) sid s of
                    (Some e, s1) \<Rightarrow> (writeServiceError e, s1)
                  | (None, s1) \<Rightarrow> (EmptyReply 204, s1)))"

section \<open>Pushed refresh\<close>

record rateBucket =
  rb_count :: int
  rb_windowEnd :: time

definition allowRequest :: "time \<Rightarrow> string \<Rightarrow> (string, rateBucket) gomap \<Rightarrow> bool \<times> (string, rateBucket) gomap" where
  "allowRequest now serverID counters =
    (let fresh = (True, mput serverID \<lparr>rb_count = 1, rb_windowEnd = now + Minute\<rparr> counters)
     in case map_of counters serverID of
          None \<Rightarrow> fresh
        | Some bucket \<Rightarrow>
            if now > rb_windowEnd bucket then fresh
            else if rb_count bucket \<ge> 10 then (False, counters)
            else (True, mput serverID (bucket\<lparr>rb_count := rb_count bucket + 1\<rparr>) counters))"

definition Refresh_ServeHTTP ::
  "time \<Rightarrow> Ctx \<Rightarrow> string \<Rightarrow> (string, rateBucket) gomap \<times> Service \<Rightarrow> string list reply \<times> (string, rateBucket) gomap \<times> Service" where
  "Refresh_ServeHTTP now ctx param st =
    (let (counters, s) = st; sid = TrimSpace param
     in if sid = '''' then (ErrorReply 400 (Message ''missing registration id''), counters, s)
        else case FromContext ctx of
               None \<Rightarrow> (ErrorReply 401 (Message ''missing identity''), counters, s)
             | Some caller \<Rightarrow>
                 (case Store_Get sid (sv_db s) of
                    Inl e \<Rightarrow> (ErrorReply 404 (Message ''server not found''), counters, s)
                  | Inr record \<Rightarrow>
                      if id_ID caller \<noteq> sr_SPIFFEID record then (ErrorReply 403 (Message ''SPIFFE ID mismatch''), counters, s)
                      else (case allowRequest now sid counters of
                              (False, counters1) \<Rightarrow> (ErrorReply 429 (Message ''rate limit exceeded''), counters1, s)
                            | (True, counters1) \<Rightarrow>
                                (case Service_RefreshCapabilities sid s of
                                   (None, s1) \<Rightarrow> (ErrorReply 500 (Message ''refresh failed''), counters1, s1)
                                 | (Some toolNames, s1) \<Rightarrow> (JSONReply 200 toolNames, counters1, s1)))))"

section \<open>Classification events\<close>

text \<open>\<open>event\<close> is the tool name of the decoded event, \<open>None\<close> when decoding fails.\<close>

definition classification_handle :: "string option \<Rightarrow> ClassificationCache option \<Rightarrow> ClassificationCache option" where
  "classification_handle event cache =
    (case event of
       None \<Rightarrow> cache
     | Some name \<Rightarrow>
         (let toolName = TrimSpace name
          in if toolName = '''' then cache
             else map_option (if toolName = ''*'' then Cache_InvalidateAll else Cache_Invalidate toolName) cache))"

section \<open>Client addresses\<close>

text \<open>\<open>net.SplitHostPort\<close>: the host, \<open>None\<close> on an error.\<close>

definition last_colon :: "string \<Rightarrow> nat option" where
  "last_colon s =
    (case index_of (rev s) '':'' of None \<Rightarrow> None | Some k \<Rightarrow> Some (length s - 1 - k))"

definition SplitHostPort :: "string \<Rightarrow> string option" where
  "SplitHostPort hostport =
    (case last_colon hostport of
       None \<Rightarrow> None
     | Some i \<Rightarrow>
         if hd hostport = CHR ''[''
         then (case index_of hostport '']'' of
                 None \<Rightarrow> None
               | Some e \<Rightarrow>
                   if Suc e \<noteq> i then None
                   else if CHR ''['' \<in> set (drop 1 hostport) \<or> CHR '']'' \<in> set (drop (Suc e) hostport) then None
                   else Some (take (e - 1) (drop 1 hostport)))
         else if CHR '':'' \<in> set (take i hostport) then None
         else if CHR ''['' \<in> set hostport \<or> CHR '']'' \<in> set hostport then None
         else Some (take i hostport))"

text \<open>\<open>ip.String\<close>: dotted for IPv4, else groups in hexadecimal with the first longest run of two or more zeros left out.\<close>

fun hex_digits :: "nat \<Rightarrow> string" where
  "hex_digits n = (let d = (\<lambda>k. char_of (if k < 10 then k + 48 else k + 87 :: nat))
                   in if n < 16 then [d n] else hex_digits (n div 16) @ [d (n mod 16)])"

declare hex_digits.simps [simp del]

definition zero_run :: "nat list \<Rightarrow> nat" where
  "zero_run gs = length (takeWhile (\<lambda>g. g = 0) gs)"

definition longest_zeros :: "nat list \<Rightarrow> nat \<times> nat" where
  "longest_zeros gs =
    foldl (\<lambda>(start, len) i. if zero_run (drop i gs) > len then (i, zero_run (drop i gs)) else (start, len)) (0, 0) [0..<length gs]"

fun join_groups :: "nat list \<Rightarrow> string" where
  "join_groups [] = []"
| "join_groups [g] = hex_digits g"
| "join_groups (g # gs) = hex_digits g @ '':'' @ join_groups gs"

definition ip_String :: "ip \<Rightarrow> string" where
  "ip_String a =
    (case To4 a of
       Some (hi, lo) \<Rightarrow> nat_digits (hi div 256) @ ''.'' @ nat_digits (hi mod 256) @ ''.'' @ nat_digits (lo div 256) @ ''.'' @ nat_digits (lo mod 256)
     | None \<Rightarrow>
         (case longest_zeros a of
            (start, len) \<Rightarrow> if len < 2 then join_groups a else join_groups (take start a) @ ''::'' @ join_groups (drop (start + len) a)))"

definition IsPrivate :: "ip \<Rightarrow> bool" where
  "IsPrivate a =
    (case To4 a of
       Some (hi, lo) \<Rightarrow> hi div 256 = 10 \<or> (hi div 256 = 172 \<and> (hi mod 256) div 16 = 1) \<or> hi = 192 * 256 + 168
     | None \<Rightarrow> a \<noteq> [] \<and> hd a div 512 = 126)"

definition parseIPToken :: "string \<Rightarrow> string" where
  "parseIPToken raw =
    (let token = TrimSpace raw
     in if token = '''' then ''''
        else let host = (case SplitHostPort token of None \<Rightarrow> token | Some h \<Rightarrow> h);
                 bracket = (\<lambda>c. c = CHR ''['' \<or> c = CHR '']'');
                 inner = rev (dropWhile bracket (rev (dropWhile bracket (TrimSpace host))))
             in case ParseIP inner of None \<Rightarrow> '''' | Some a \<Rightarrow> ip_String a)"

definition firstForwardedIP :: "string \<Rightarrow> string" where
  "firstForwardedIP forwardedFor =
    (case find (\<lambda>token. parseIPToken token \<noteq> '''') (split_char (CHR '','') forwardedFor) of
       None \<Rightarrow> '''' | Some token \<Rightarrow> parseIPToken token)"

definition isTrustedProxyIP :: "string \<Rightarrow> bool" where
  "isTrustedProxyIP ipRaw = (case ParseIP (TrimSpace ipRaw) of None \<Rightarrow> False | Some a \<Rightarrow> IsLoopback a \<or> IsPrivate a)"

definition clientIPFromRequest :: "string \<Rightarrow> string \<Rightarrow> string \<Rightarrow> string" where
  "clientIPFromRequest remoteAddr forwardedFor realIP =
    (let remote = parseIPToken remoteAddr
     in if remote = '''' then ''unknown''
        else if isTrustedProxyIP remote
        then (let forwarded = firstForwardedIP forwardedFor; realAddr = parseIPToken realIP
              in if forwarded \<noteq> '''' then forwarded else if realAddr \<noteq> '''' then realAddr else remote)
        else remote)"

section \<open>The limiter of the metadata endpoint\<close>

record metaRateLimiter =
  ml_rate :: real
  ml_burst :: real
  ml_maxEntries :: int
  ml_tokens :: "(string, real) gomap"
  ml_last :: "(string, time) gomap"

definition newMetaRateLimiter :: "real \<Rightarrow> real \<Rightarrow> int \<Rightarrow> metaRateLimiter option" where
  "newMetaRateLimiter ratePerSecond burst maxEntries =
    (if ratePerSecond \<le> 0 \<or> burst \<le> 0 \<or> maxEntries \<le> 0 then None
     else Some \<lparr>ml_rate = ratePerSecond, ml_burst = burst, ml_maxEntries = maxEntries, ml_tokens = [], ml_last = []\<rparr>)"

definition evictOldest :: "metaRateLimiter \<Rightarrow> metaRateLimiter" where
  "evictOldest l =
    (let oldest = foldl (\<lambda>(k0, t0) (k, t). if k0 = '''' \<or> t < t0 then (k, t) else (k0, t0)) ('''', 0) (ml_last l)
     in if fst oldest = '''' then l
        else l\<lparr>ml_last := mdel (fst oldest) (ml_last l), ml_tokens := mdel (fst oldest) (ml_tokens l)\<rparr>)"

definition Meta_Allow :: "time \<Rightarrow> string \<Rightarrow> metaRateLimiter \<Rightarrow> bool \<times> metaRateLimiter" where
  "Meta_Allow now raw l =
    (let key = (if TrimSpace raw = '''' then ''unknown'' else raw);
         prev = map_of (ml_last l) key;
         l1 = (if prev = None \<and> int (length (ml_last l)) \<ge> ml_maxEntries l then evictOldest l else l);
         held = (case map_of (ml_tokens l1) key of None \<Rightarrow> 0 | Some t \<Rightarrow> t);
         tokens = (case prev of
                     None \<Rightarrow> ml_burst l1
                   | Some t0 \<Rightarrow> min (ml_burst l1) (held + real_of_int (now - t0) / real_of_int Second * ml_rate l1));
         allowed = (\<not> tokens < 1)
     in (allowed, l1\<lparr>ml_tokens := mput key (if allowed then tokens - 1 else tokens) (ml_tokens l1),
                     ml_last := mput key now (ml_last l1)\<rparr>))"

section \<open>Readiness and metadata\<close>

record SearchStatus =
  se_Engine :: string
  se_Embedder :: string
  se_IndexedTools :: int
  se_Ready :: bool
  se_VectorReady :: "bool option"
  se_VectorSearchFallbacks :: int
  se_VectorIndexFallbacks :: int
  se_EngineErrorFallbacks :: int

definition ok_or_degraded :: "bool \<Rightarrow> string" where
  "ok_or_degraded ok = (if ok then ''ok'' else ''degraded'')"

definition addSearchStatus :: "SearchStatus option \<Rightarrow> (string, json) gomap \<Rightarrow> (string, json) gomap" where
  "addSearchStatus status payload =
    (case status of
       None \<Rightarrow> payload
     | Some st \<Rightarrow>
         mput ''search'' (JObj (
             [(''engine'', JStr (se_Engine st)), (''status'', JStr (ok_or_degraded (se_Ready st)))]
             @ (if se_Embedder st \<noteq> '''' then [(''embedder'', JStr (se_Embedder st))] else [])
             @ (if se_IndexedTools st > 0 then [(''indexed_tools'', JNum (real_of_int (se_IndexedTools st)))] else [])
             @ (case se_VectorReady st of None \<Rightarrow> [] | Some ready \<Rightarrow> [(''vector_status'', JStr (ok_or_degraded ready))])
             @ (if se_VectorSearchFallbacks st > 0 \<or> se_VectorIndexFallbacks st > 0 \<or> se_EngineErrorFallbacks st > 0
                then [(''fallbacks'', JObj [(''vector_search'', JNum (real_of_int (se_VectorSearchFallbacks st))),
                                            (''vector_index'', JNum (real_of_int (se_VectorIndexFallbacks st))),
                                            (''engine_error'', JNum (real_of_int (se_EngineErrorFallbacks st)))])]
                else []))) payload)"

definition handleReady ::
  "bool \<Rightarrow> bool \<Rightarrow> DegradationManager option \<Rightarrow> int option \<Rightarrow> SearchStatus option \<Rightarrow> int \<times> (string, json) gomap" where
  "handleReady ready cruveroEnabled degradation toolCount searchStatus =
    (let active = (case toolCount of None \<Rightarrow> [] | Some n \<Rightarrow> [(''active_tools'', JNum (real_of_int n))])
     in if \<not> ready then (503, [(''status'', JStr ''not_ready'')])
        else if cruveroEnabled
        then (let connected = (case degradation of None \<Rightarrow> False | Some m \<Rightarrow> dm_status m = DegradationStatusConnected);
                  everConnected = (case degradation of None \<Rightarrow> False | Some m \<Rightarrow> dm_everConnected m);
                  hasCached = (case degradation of None \<Rightarrow> False | Some m \<Rightarrow> dm_hasCachedConfig m);
                  sync = (case degradation of None \<Rightarrow> ''unknown'' | Some m \<Rightarrow> dm_settingsSyncStatus m);
                  version = (case degradation of None \<Rightarrow> 0 | Some m \<Rightarrow> dm_settingsConfigVersion m);
                  payload = addSearchStatus searchStatus
                    ([(''status'', JStr (ok_or_degraded connected)), (''nats'', JStr (if connected then ''connected'' else ''disconnected''))]
                     @ (if sync \<noteq> '''' then [(''settings_sync_status'', JStr sync)] else [])
                     @ (if version > 0 then [(''settings_config_version'', JNum (real_of_int version))] else []) @ active)
              in if \<not> everConnected \<and> \<not> hasCached then (503, mput ''status'' (JStr ''not_ready'') payload) else (200, payload))
        else (200, addSearchStatus searchStatus ([(''status'', JStr ''ok'')] @ active)))"

definition handleMeta ::
  "time \<Rightarrow> string \<Rightarrow> string \<Rightarrow> string \<Rightarrow> (string \<times> string) option \<Rightarrow> string \<Rightarrow> metaRateLimiter option
   \<Rightarrow> (int \<times> (string, string) gomap) \<times> metaRateLimiter option" where
  "handleMeta now remoteAddr forwardedFor realIP cfg buildVersion limiter =
    (let (allowed, limiter1) = (case limiter of
           None \<Rightarrow> (True, None)
         | Some l \<Rightarrow> (case Meta_Allow now (clientIPFromRequest remoteAddr forwardedFor realIP) l of (a, l1) \<Rightarrow> (a, Some l1)));
         mode = (case cfg of None \<Rightarrow> ''standalone'' | Some (adminMode, gatewayID) \<Rightarrow>
                   if TrimSpace adminMode = ''integrated'' then ''integrated'' else ''standalone'');
         gateway = (case cfg of None \<Rightarrow> '''' | Some (adminMode, gatewayID) \<Rightarrow> TrimSpace gatewayID)
     in if \<not> allowed then ((429, [(''status'', ''rate_limited'')]), limiter1)
        else ((200, [(''admin_mode'', mode), (''version'', buildVersion), (''gateway_id'', gateway)]), limiter1))"

section \<open>Lemmas\<close>

text \<open>A refused request changes nothing, and a refresh runs for the server that asks.\<close>

lemma refresh_only_by_owner:
  assumes "Refresh_ServeHTTP now ctx param (counters, s) = (reply, counters', s')" and "s' \<noteq> s"
  shows "\<exists>caller record. FromContext ctx = Some caller \<and> Store_Get (TrimSpace param) (sv_db s) = Inr record
    \<and> id_ID caller = sr_SPIFFEID record \<and> fst (allowRequest now (TrimSpace param) counters)"
  using assms
  by (auto simp: Refresh_ServeHTTP_def Let_def split: if_splits option.splits sum.splits prod.splits bool.splits)

text \<open>Within a window the first ten requests of a server are allowed, and no other.\<close>

fun allow_all :: "string \<Rightarrow> time list \<Rightarrow> (string, rateBucket) gomap \<Rightarrow> bool list" where
  "allow_all sid [] counters = []"
| "allow_all sid (t # ts) counters = (case allowRequest t sid counters of (a, counters1) \<Rightarrow> a # allow_all sid ts counters1)"

lemma allow_all_window:
  assumes "map_of counters sid = Some b" and "1 \<le> rb_count b" and "rb_count b \<le> 10" and "list_all (\<lambda>t. t \<le> rb_windowEnd b) ts"
  shows "allow_all sid ts counters = map (\<lambda>k. rb_count b + int k < 10) [0..<length ts]"
  using assms
proof (induction ts arbitrary: counters b)
  case (Cons t ts)
  show ?case
  proof (cases "rb_count b < 10")
    case True
    let ?b = "b\<lparr>rb_count := rb_count b + 1\<rparr>"
    have a: "allowRequest t sid counters = (True, mput sid ?b counters)"
      using Cons.prems True by (simp add: allowRequest_def)
    have "allow_all sid ts (mput sid ?b counters) = map (\<lambda>k. rb_count ?b + int k < 10) [0..<length ts]"
      using Cons.prems True by (intro Cons.IH) simp_all
    then show ?thesis using a True
      by (simp add: upt_conv_Cons map_Suc_upt [symmetric] comp_def algebra_simps del: upt_Suc)
  next
    case False
    then have a: "allowRequest t sid counters = (False, counters)"
      using Cons.prems by (simp add: allowRequest_def)
    have "allow_all sid ts counters = map (\<lambda>k. rb_count b + int k < 10) [0..<length ts]"
      using Cons.prems by (intro Cons.IH) simp_all
    then show ?thesis using a False
      by (simp add: upt_conv_Cons map_Suc_upt [symmetric] comp_def del: upt_Suc)
  qed
qed simp

text \<open>The limiter of the metadata endpoint holds at most as many clients as configured and no client more than the burst.\<close>

definition meta_ok :: "metaRateLimiter \<Rightarrow> bool" where
  "meta_ok l = (0 < ml_maxEntries l \<and> 0 < ml_burst l \<and> wf_map (ml_last l) \<and> '''' \<notin> fst ` set (ml_last l)
    \<and> int (length (ml_last l)) \<le> ml_maxEntries l \<and> (\<forall>k t. map_of (ml_tokens l) k = Some t \<longrightarrow> t \<le> ml_burst l))"

lemma oldest_member:
  assumes "k0 = '''' \<and> m \<noteq> [] \<or> (k0, t0) \<in> M" and "set m \<subseteq> M"
  shows "foldl (\<lambda>(k0, t0) (k, t). if k0 = '''' \<or> t < t0 then (k, t) else (k0, t0)) (k0, t0 :: time) m \<in> M"
  using assms
proof (induction m arbitrary: k0 t0)
  case (Cons x m)
  obtain k t where x: "x = (k, t)" by (cases x)
  show ?case using Cons.prems Cons.IH [of k t] Cons.IH [of k0 t0] by (auto simp: x)
qed auto

lemma evictOldest_room:
  assumes "meta_ok l" and "ml_last l \<noteq> []"
  shows "meta_ok (evictOldest l)" "length (ml_last (evictOldest l)) < length (ml_last l)"
    "ml_burst (evictOldest l) = ml_burst l" "ml_maxEntries (evictOldest l) = ml_maxEntries l"
proof -
  obtain k t where o: "foldl (\<lambda>(k0, t0) (k, t). if k0 = '''' \<or> t < t0 then (k, t) else (k0, t0)) ('''', 0) (ml_last l) = (k, t)" by fastforce
  have "(k, t) \<in> set (ml_last l)" using oldest_member [of "''''" "ml_last l" 0 "set (ml_last l)"] assms(2) o by simp
  then have k: "k \<in> fst ` set (ml_last l)" "k \<noteq> ''''" using assms(1) by (force simp: meta_ok_def)+
  have e: "evictOldest l = l\<lparr>ml_last := mdel k (ml_last l), ml_tokens := mdel k (ml_tokens l)\<rparr>"
    using o k by (simp add: evictOldest_def)
  have len: "length (mdel k (ml_last l)) < length (ml_last l)"
    using k(1) by (auto simp: AList.delete_eq intro!: length_filter_less)
  show "length (ml_last (evictOldest l)) < length (ml_last l)" using len e by simp
  show "ml_burst (evictOldest l) = ml_burst l" "ml_maxEntries (evictOldest l) = ml_maxEntries l" by (simp_all add: e)
  have "'''' \<notin> fst ` set (mdel k (ml_last l))" using assms(1) by (auto simp: meta_ok_def AList.delete_eq)
  then show "meta_ok (evictOldest l)"
    using assms(1) len by (auto simp: e meta_ok_def)
qed

lemma mput_length: "length (mput k v m) = (if k \<in> fst ` set m then length m else Suc (length m))"
  by (induction m) auto

lemma Meta_Allow_ok:
  assumes "meta_ok l"
  shows "meta_ok (snd (Meta_Allow now raw l))"
proof -
  define key where "key = (if TrimSpace raw = '''' then ''unknown'' else raw)"
  define l1 where "l1 = (if map_of (ml_last l) key = None \<and> int (length (ml_last l)) \<ge> ml_maxEntries l then evictOldest l else l)"
  have key: "key \<noteq> ''''" by (auto simp: key_def)
  have full: "int (length (ml_last l)) \<ge> ml_maxEntries l \<Longrightarrow> ml_last l \<noteq> []" and fits: "int (length (ml_last l)) \<le> ml_maxEntries l"
    using assms by (auto simp: meta_ok_def)
  have l1: "meta_ok l1" "ml_burst l1 = ml_burst l" and room: "map_of (ml_last l1) key \<noteq> None \<or> int (length (ml_last l1)) < ml_maxEntries l1"
  proof -
    show "meta_ok l1" "ml_burst l1 = ml_burst l"
      using assms evictOldest_room [OF assms] full by (auto simp: l1_def)
    show "map_of (ml_last l1) key \<noteq> None \<or> int (length (ml_last l1)) < ml_maxEntries l1"
      using evictOldest_room [OF assms] full fits by (auto simp: l1_def)
  qed
  define t0 where "t0 = (case map_of (ml_last l) key of None \<Rightarrow> ml_burst l1
    | Some t \<Rightarrow> min (ml_burst l1) ((case map_of (ml_tokens l1) key of None \<Rightarrow> 0 | Some t \<Rightarrow> t) + real_of_int (now - t) / real_of_int Second * ml_rate l1))"
  define tokens where "tokens = (if \<not> t0 < 1 then t0 - 1 else t0)"
  have "t0 \<le> ml_burst l" by (simp add: t0_def l1(2) split: option.split)
  then have t: "tokens \<le> ml_burst l" by (simp add: tokens_def)
  have r: "snd (Meta_Allow now raw l) = l1\<lparr>ml_tokens := mput key tokens (ml_tokens l1), ml_last := mput key now (ml_last l1)\<rparr>"
    by (simp only: Meta_Allow_def Let_def key_def [symmetric] l1_def [symmetric] t0_def [symmetric] tokens_def snd_conv)
  have "fst ` set (mput key now (ml_last l1)) = insert key (fst ` set (ml_last l1))" by (simp add: dom_map_of_conv_image_fst [symmetric] dom_mput)
  then show ?thesis
    using l1 room key t by (simp add: r meta_ok_def mput_length map_of_eq_None_iff) (elim disjE; simp)
qed

text \<open>Behind an untrusted address the forwarding headers have no effect.\<close>

lemma untrusted_headers_ignored:
  assumes "\<not> isTrustedProxyIP (parseIPToken remoteAddr)"
  shows "clientIPFromRequest remoteAddr forwardedFor realIP = clientIPFromRequest remoteAddr '''' ''''"
  using assms by (simp add: clientIPFromRequest_def Let_def)

text \<open>With the wiring of the server, a start without a connection and with saved rows reports ready.\<close>

lemma fallback_reports_ready:
  assumes "dm_hasCachedConfig m"
  shows "fst (handleReady True True (Some m) toolCount searchStatus) = 200"
  using assms by (simp add: handleReady_def Let_def)

end
