(* ===== verification/Gateway_Config.thy ===== *)
theory Gateway_Config
  imports Http_Handlers
begin

text \<open>
  The configuration of the gateway, \<open>internal/config/config.go\<close>: reading the environment into
  \<open>GatewayConfig\<close> (\<open>Config\<close> in the source) and validating it.

  The environment is a function from names to values; an unset variable is the empty string, as
  \<open>os.Getenv\<close> gives it.  Decoding the JSON list of language model providers and reading random
  bytes are parameters.  \<open>time.ParseDuration\<close>, \<open>strconv.ParseBool\<close>, \<open>hex.DecodeString\<close> and
  \<open>hex.EncodeToString\<close> are written out; the fraction of a duration is computed exactly, where Go
  multiplies floats.
\<close>

unbundle bit_operations_syntax

section \<open>Standard library\<close>

text \<open>\<open>strings.ToUpper\<close> on ASCII.\<close>

definition upper_char :: "char \<Rightarrow> char" where
  "upper_char c = (if 97 \<le> (of_char c :: nat) \<and> (of_char c :: nat) \<le> 122
                   then char_of ((of_char c :: nat) - 32) else c)"

definition ToUpper :: "string \<Rightarrow> string" where
  "ToUpper s = map upper_char s"

definition is_digit :: "char \<Rightarrow> bool" where
  "is_digit c = (48 \<le> (of_char c :: nat) \<and> (of_char c :: nat) \<le> 57)"

definition dec_value :: "char \<Rightarrow> nat" where
  "dec_value c = (of_char c :: nat) - 48"

text \<open>\<open>time.ParseDuration\<close>: \<open>leadingInt\<close>, \<open>leadingFraction\<close> (digits that no longer fit are skipped), the
  table of units and the loop over the numbers with their units.  The sum is kept in 64 bits.\<close>

fun leadingInt :: "nat \<Rightarrow> string \<Rightarrow> (nat \<times> string) option" where
  "leadingInt x [] = Some (x, [])"
| "leadingInt x (c # cs) =
    (if \<not> is_digit c then Some (x, c # cs)
     else if x > 2 ^ 63 div 10 then None
     else let y = x * 10 + dec_value c in if y > 2 ^ 63 then None else leadingInt y cs)"

fun leadingFraction :: "nat \<Rightarrow> nat \<Rightarrow> bool \<Rightarrow> string \<Rightarrow> nat \<times> nat \<times> string" where
  "leadingFraction x scale full [] = (x, scale, [])"
| "leadingFraction x scale full (c # cs) =
    (if \<not> is_digit c then (x, scale, c # cs)
     else if full \<or> x > (2 ^ 63 - 1) div 10 \<or> x * 10 + dec_value c > 2 ^ 63 then leadingFraction x scale True cs
     else leadingFraction (x * 10 + dec_value c) (scale * 10) False cs)"

definition unitMap :: "(string \<times> nat) list" where
  "unitMap =
    [(''ns'', 1), (''us'', 1000), ([CHR 0xC2, CHR 0xB5, CHR ''s''], 1000), ([CHR 0xCE, CHR 0xBC, CHR ''s''], 1000),
     (''ms'', 1000000), (''s'', 1000000000), (''m'', 60000000000), (''h'', 3600000000000)]"

abbreviation number_start :: "char \<Rightarrow> bool" where
  "number_start c \<equiv> c = CHR ''.'' \<or> is_digit c"

definition read_number :: "string \<Rightarrow> (nat \<times> nat \<times> nat \<times> string) option" where
  "read_number s =
    (case leadingInt 0 s of
       None \<Rightarrow> None
     | Some (v, s1) \<Rightarrow>
         let pre = (length s1 \<noteq> length s);
             (f, scale, s2, post) =
               (case s1 of
                  c # cs \<Rightarrow> if c = CHR ''.''
                            then let (f, scale, s2) = leadingFraction 0 1 False cs in (f, scale, s2, length s2 \<noteq> length cs)
                            else (0, 1, s1, False)
                | [] \<Rightarrow> (0, 1, s1, False))
         in if \<not> pre \<and> \<not> post then None else Some (v, f, scale, s2))"

definition read_term :: "string \<Rightarrow> (nat \<times> string) option" where
  "read_term s =
    (case s of
       [] \<Rightarrow> None
     | c # cs \<Rightarrow>
         if \<not> number_start c then None
         else case read_number s of
             None \<Rightarrow> None
           | Some (v, f, scale, s2) \<Rightarrow>
               let u = takeWhile (\<lambda>c. \<not> number_start c) s2
               in if u = [] then None
                  else case map_of unitMap u of
                      None \<Rightarrow> None
                    | Some unit_ns \<Rightarrow>
                        if v > 2 ^ 63 div unit_ns then None
                        else let v2 = v * unit_ns + (f * unit_ns) div scale
                             in if f > 0 \<and> v2 > 2 ^ 63 then None
                                else Some (v2, dropWhile (\<lambda>c. \<not> number_start c) s2))"

lemma leadingInt_length: "leadingInt x s = Some (v, r) \<Longrightarrow> length r \<le> length s"
  by (induction x s rule: leadingInt.induct) (auto simp: Let_def split: if_splits)

lemma leadingFraction_length: "leadingFraction x k b s = (f, sc, r) \<Longrightarrow> length r \<le> length s"
  by (induction x k b s rule: leadingFraction.induct) (auto split: if_splits)

lemma read_number_length:
  assumes "read_number s = Some (v, f, sc, r)"
  shows "length r \<le> length s"
proof -
  obtain v1 s1 where one: "leadingInt 0 s = Some (v1, s1)"
    using assms by (auto simp: read_number_def split: option.splits)
  note bound = leadingInt_length [OF one]
  show ?thesis
  proof (cases s1)
    case Nil
    then show ?thesis using assms by (simp add: read_number_def one split: if_splits)
  next
    case (Cons c cs)
    obtain f2 sc2 s2 where two: "leadingFraction 0 1 False cs = (f2, sc2, s2)" by (cases "leadingFraction 0 1 False cs")
    then show ?thesis
      using assms bound leadingFraction_length [OF two] Cons
      by (auto simp: read_number_def one Let_def split: if_splits)
  qed
qed

lemma read_term_length: "read_term s = Some (v, r) \<Longrightarrow> length r < length s"
proof -
  assume a: "read_term s = Some (v, r)"
  then obtain v1 f sc s2 where n: "read_number s = Some (v1, f, sc, s2)"
    and u: "takeWhile (\<lambda>c. \<not> number_start c) s2 \<noteq> []" and r: "r = dropWhile (\<lambda>c. \<not> number_start c) s2"
    by (auto simp: read_term_def Let_def split: list.splits if_splits option.splits)
  have "length r < length s2"
    using u unfolding r by (cases s2) (auto simp: length_dropWhile_le le_imp_less_Suc split: if_splits)
  then show ?thesis using read_number_length [OF n] by simp
qed

function read_terms :: "nat \<Rightarrow> string \<Rightarrow> nat option" where
  "read_terms d s =
    (if s = [] then Some d
     else case read_term s of
         None \<Rightarrow> None
       | Some (v, rest) \<Rightarrow>
           let d2 = (d + v) mod 2 ^ 64 in if d2 > 2 ^ 63 then None else read_terms d2 rest)"
  by auto
termination by (relation "measure (\<lambda>(d, s). length s)") (auto dest: read_term_length)

declare read_terms.simps [simp del]

definition ParseDuration :: "string \<Rightarrow> duration option" where
  "ParseDuration raw =
    (let (neg, s) = (case raw of
           [] \<Rightarrow> (False, [])
         | c # cs \<Rightarrow> if c = CHR ''-'' then (True, cs) else if c = CHR ''+'' then (False, cs) else (False, raw))
     in if s = ''0'' then Some 0
        else if s = '''' then None
        else case read_terms 0 s of
            None \<Rightarrow> None
          | Some d \<Rightarrow> if neg then Some (- int d) else if d > 2 ^ 63 - 1 then None else Some (int d))"

definition ParseBool :: "string \<Rightarrow> bool option" where
  "ParseBool s =
    (if s \<in> set [''1'', ''t'', ''T'', ''TRUE'', ''true'', ''True''] then Some True
     else if s \<in> set [''0'', ''f'', ''F'', ''FALSE'', ''false'', ''False''] then Some False
     else None)"

text \<open>\<open>encoding/hex\<close>.\<close>

fun hex_DecodeString :: "string \<Rightarrow> string option" where
  "hex_DecodeString [] = Some []"
| "hex_DecodeString [c] = None"
| "hex_DecodeString (a # b # cs) =
    (case (digit_value a, digit_value b, hex_DecodeString cs) of
       (Some x, Some y, Some rest) \<Rightarrow> Some (char_of (x * 16 + y) # rest)
     | _ \<Rightarrow> None)"

definition hex_lower :: "nat \<Rightarrow> char" where
  "hex_lower n = char_of (if n < 10 then n + 48 else n + 87)"

definition hex_EncodeToString :: "string \<Rightarrow> string" where
  "hex_EncodeToString raw = concat (map (\<lambda>b. [hex_lower ((of_char b :: nat) div 16), hex_lower (of_char b mod 16)]) raw)"

section \<open>Configuration\<close>

datatype config_error =
    ErrParseVar string
  | ErrConfig string
  | ErrSessionKeyLength nat
  | ErrRandomBytes

record LLMProviderConfig =
  lp_Name :: string
  lp_APIKey :: string
  lp_BaseURL :: string
  lp_Model :: string
  lp_Priority :: int

record OrchestrateConfig =
  oc_Enabled :: bool
  oc_Providers :: "LLMProviderConfig list"

record GatewayConfig =
  gc_ListenAddr :: string
  gc_TLSCertPath :: string
  gc_TLSKeyPath :: string
  gc_TLSCAPath :: string
  gc_DBURL :: string
  gc_NATSURL :: string
  gc_NATSTLSEnabled :: bool
  gc_NATSTLSCert :: string
  gc_NATSTLSKey :: string
  gc_NATSTLSCa :: string
  gc_OIDCIssuer :: string
  gc_OIDCAudience :: string
  gc_HeartbeatTTL :: duration
  gc_RateDefault :: int
  gc_RateBurst :: int
  gc_CircuitThreshold :: int
  gc_CircuitTimeout :: duration
  gc_RetryMax :: int
  gc_SPIFFEAllowList :: "string list"
  gc_PlatformSPIFFEPrefixes :: "string list"
  gc_LogFormat :: string
  gc_LogLevel :: string
  gc_MetricsAddr :: string
  gc_CruveroEnabled :: bool
  gc_GatewayID :: string
  gc_CORSEnabled :: bool
  gc_CORSAllowedOrigins :: "string list"
  gc_DBMaxOpenConns :: int
  gc_DBMaxIdleConns :: int
  gc_DBConnMaxLifetime :: duration
  gc_AuditRetentionDays :: int
  gc_AuditCleanupInterval :: duration
  gc_ShutdownTimeout :: duration
  gc_RateLimitBackend :: string
  gc_DragonflyURL :: string
  gc_OTLPExporterEndpoint :: string
  gc_OTELServiceName :: string
  gc_DeviceFlowEnabled :: bool
  gc_DeviceFlowIDPDeviceURL :: string
  gc_DeviceFlowIDPTokenURL :: string
  gc_DeviceFlowClientID :: string
  gc_DeviceFlowClientSecret :: string
  gc_AdminEnabled :: bool
  gc_AdminMode :: string
  gc_PlatformServiceToken :: string
  gc_AdminExternalURL :: string
  gc_AdminOIDCClientID :: string
  gc_AdminOIDCClientSecret :: string
  gc_AdminRequiredScope :: string
  gc_AdminSessionKey :: string
  gc_AdminSessionTTL :: duration
  gc_AdminDevMode :: bool
  gc_ProgressiveDiscovery :: bool
  gc_SearchEngine :: string
  gc_OnnxRuntimePath :: string
  gc_OnnxModelPath :: string
  gc_TokenizerPath :: string
  gc_Orchestrate :: OrchestrateConfig
  gc_PerServerEndpoints :: bool
  gc_WellKnownEnabled :: bool
  gc_WellKnownCacheTTL :: duration
  gc_CapabilityRefreshEnabled :: bool
  gc_CapabilityPushEnabled :: bool
  gc_EmbeddingCacheMaxSize :: int
  gc_ServerScopeEnforcement :: bool
  gc_DefaultRoutingStrategy :: string
  gc_ToolNamespaceMode :: string
  gc_NamespaceSeparator :: string
  gc_GatewayBaseURL :: string

type_synonym environment = "string \<Rightarrow> string"

subsection \<open>Reading variables\<close>

definition getEnv :: "environment \<Rightarrow> string \<Rightarrow> string \<Rightarrow> string" where
  "getEnv env key defaultValue = (let value = env key in if TrimSpace value = '''' then defaultValue else value)"

definition parseDuration :: "environment \<Rightarrow> string \<Rightarrow> duration \<Rightarrow> config_error + duration" where
  "parseDuration env key defaultValue =
    (let raw = env key
     in if TrimSpace raw = '''' then Inr defaultValue
        else case ParseDuration raw of None \<Rightarrow> Inl (ErrParseVar key) | Some parsed \<Rightarrow> Inr parsed)"

definition parseInt :: "environment \<Rightarrow> string \<Rightarrow> int \<Rightarrow> config_error + int" where
  "parseInt env key defaultValue =
    (let raw = env key
     in if TrimSpace raw = '''' then Inr defaultValue
        else case Atoi raw of None \<Rightarrow> Inl (ErrParseVar key) | Some parsed \<Rightarrow> Inr parsed)"

definition parseBool :: "environment \<Rightarrow> string \<Rightarrow> bool \<Rightarrow> config_error + bool" where
  "parseBool env key defaultValue =
    (let raw = env key
     in if TrimSpace raw = '''' then Inr defaultValue
        else case ParseBool raw of None \<Rightarrow> Inl (ErrParseVar key) | Some parsed \<Rightarrow> Inr parsed)"

definition parseCSV :: "environment \<Rightarrow> string \<Rightarrow> string list" where
  "parseCSV env key =
    (let raw = env key
     in if TrimSpace raw = '''' then []
        else filter (\<lambda>v. v \<noteq> '''') (map TrimSpace (split_char (CHR '','') raw)))"

text \<open>The loops of \<open>loadIntegers\<close> and \<open>loadBooleans\<close> over a table of variable, default value and field;
  \<open>loadDurations\<close> reads its variables one after the other in the same way.\<close>

fun load_fields ::
  "(string \<Rightarrow> 'a \<Rightarrow> config_error + 'a) \<Rightarrow> (string \<times> 'a \<times> ('a \<Rightarrow> 'p \<Rightarrow> 'p)) list \<Rightarrow> 'p \<Rightarrow> config_error + 'p" where
  "load_fields parse [] p = Inr p"
| "load_fields parse ((envKey, defaultVal, dest) # rest) p =
    (case parse envKey defaultVal of
       Inl e \<Rightarrow> Inl e
     | Inr v \<Rightarrow> load_fields parse rest (dest v p))"

record parsedDurations =
  pd_heartbeatTTL :: duration
  pd_circuitTimeout :: duration
  pd_dbConnMaxLifetime :: duration
  pd_auditCleanupInterval :: duration
  pd_shutdownTimeout :: duration
  pd_adminSessionTTL :: duration
  pd_wellKnownCacheTTL :: duration

definition duration_fields :: "(string \<times> duration \<times> (duration \<Rightarrow> parsedDurations \<Rightarrow> parsedDurations)) list" where
  "duration_fields =
    [(''MCPGW_HEARTBEAT_TTL'', 30 * Second, \<lambda>v. pd_heartbeatTTL_update (\<lambda>_. v)),
     (''MCPGW_CIRCUIT_TIMEOUT'', 30 * Second, \<lambda>v. pd_circuitTimeout_update (\<lambda>_. v)),
     (''MCPGW_DB_CONN_MAX_LIFETIME'', 5 * Minute, \<lambda>v. pd_dbConnMaxLifetime_update (\<lambda>_. v)),
     (''MCPGW_AUDIT_CLEANUP_INTERVAL'', 60 * Minute, \<lambda>v. pd_auditCleanupInterval_update (\<lambda>_. v)),
     (''MCPGW_SHUTDOWN_TIMEOUT'', 30 * Second, \<lambda>v. pd_shutdownTimeout_update (\<lambda>_. v)),
     (''MCPGW_ADMIN_SESSION_TTL'', 8 * (60 * Minute), \<lambda>v. pd_adminSessionTTL_update (\<lambda>_. v)),
     (''MCPGW_WELL_KNOWN_CACHE_TTL'', 5 * Second, \<lambda>v. pd_wellKnownCacheTTL_update (\<lambda>_. v))]"

definition loadDurations :: "environment \<Rightarrow> config_error + parsedDurations" where
  "loadDurations env = load_fields (parseDuration env) duration_fields
    \<lparr>pd_heartbeatTTL = 0, pd_circuitTimeout = 0, pd_dbConnMaxLifetime = 0, pd_auditCleanupInterval = 0,
     pd_shutdownTimeout = 0, pd_adminSessionTTL = 0, pd_wellKnownCacheTTL = 0\<rparr>"

record parsedIntegers =
  pi_rateDefault :: int
  pi_rateBurst :: int
  pi_circuitThreshold :: int
  pi_retryMax :: int
  pi_dbMaxOpenConns :: int
  pi_dbMaxIdleConns :: int
  pi_auditRetentionDays :: int
  pi_embeddingCacheMaxSize :: int

definition integer_fields :: "(string \<times> int \<times> (int \<Rightarrow> parsedIntegers \<Rightarrow> parsedIntegers)) list" where
  "integer_fields =
    [(''MCPGW_RATE_DEFAULT'', 10, \<lambda>v. pi_rateDefault_update (\<lambda>_. v)),
     (''MCPGW_RATE_BURST'', 20, \<lambda>v. pi_rateBurst_update (\<lambda>_. v)),
     (''MCPGW_CIRCUIT_THRESHOLD'', 5, \<lambda>v. pi_circuitThreshold_update (\<lambda>_. v)),
     (''MCPGW_RETRY_MAX'', 3, \<lambda>v. pi_retryMax_update (\<lambda>_. v)),
     (''MCPGW_DB_MAX_OPEN_CONNS'', 25, \<lambda>v. pi_dbMaxOpenConns_update (\<lambda>_. v)),
     (''MCPGW_DB_MAX_IDLE_CONNS'', 10, \<lambda>v. pi_dbMaxIdleConns_update (\<lambda>_. v)),
     (''MCPGW_AUDIT_RETENTION_DAYS'', 90, \<lambda>v. pi_auditRetentionDays_update (\<lambda>_. v)),
     (''MCPGW_EMBEDDING_CACHE_MAX_SIZE'', 10000, \<lambda>v. pi_embeddingCacheMaxSize_update (\<lambda>_. v))]"

definition loadIntegers :: "environment \<Rightarrow> config_error + parsedIntegers" where
  "loadIntegers env = load_fields (parseInt env) integer_fields
    \<lparr>pi_rateDefault = 0, pi_rateBurst = 0, pi_circuitThreshold = 0, pi_retryMax = 0, pi_dbMaxOpenConns = 0,
     pi_dbMaxIdleConns = 0, pi_auditRetentionDays = 0, pi_embeddingCacheMaxSize = 0\<rparr>"

record parsedBooleans =
  pb_cruveroEnabled :: bool
  pb_corsEnabled :: bool
  pb_natsTLSEnabled :: bool
  pb_deviceFlowEnabled :: bool
  pb_adminEnabled :: bool
  pb_adminDevMode :: bool
  pb_progressiveDiscovery :: bool
  pb_orchestrateEnabled :: bool
  pb_perServerEndpoints :: bool
  pb_wellKnownEnabled :: bool
  pb_capabilityRefreshEnabled :: bool
  pb_capabilityPushEnabled :: bool
  pb_serverScopeEnforcement :: bool

definition boolean_fields :: "(string \<times> bool \<times> (bool \<Rightarrow> parsedBooleans \<Rightarrow> parsedBooleans)) list" where
  "boolean_fields =
    [(''MCPGW_CRUVERO_ENABLED'', False, \<lambda>v. pb_cruveroEnabled_update (\<lambda>_. v)),
     (''MCPGW_CORS_ENABLED'', False, \<lambda>v. pb_corsEnabled_update (\<lambda>_. v)),
     (''MCPGW_NATS_TLS_ENABLED'', False, \<lambda>v. pb_natsTLSEnabled_update (\<lambda>_. v)),
     (''MCPGW_DEVICE_FLOW_ENABLED'', False, \<lambda>v. pb_deviceFlowEnabled_update (\<lambda>_. v)),
     (''MCPGW_ADMIN_ENABLED'', False, \<lambda>v. pb_adminEnabled_update (\<lambda>_. v)),
     (''MCPGW_ADMIN_DEV_MODE'', False, \<lambda>v. pb_adminDevMode_update (\<lambda>_. v)),
     (''MCPGW_PROGRESSIVE_DISCOVERY'', False, \<lambda>v. pb_progressiveDiscovery_update (\<lambda>_. v)),
     (''MCPGW_ORCHESTRATE_ENABLED'', False, \<lambda>v. pb_orchestrateEnabled_update (\<lambda>_. v)),
     (''MCPGW_PER_SERVER_ENDPOINTS'', True, \<lambda>v. pb_perServerEndpoints_update (\<lambda>_. v)),
     (''MCPGW_WELL_KNOWN_ENABLED'', True, \<lambda>v. pb_wellKnownEnabled_update (\<lambda>_. v)),
     (''MCPGW_CAPABILITY_REFRESH_ENABLED'', True, \<lambda>v. pb_capabilityRefreshEnabled_update (\<lambda>_. v)),
     (''MCPGW_CAPABILITY_PUSH_ENABLED'', True, \<lambda>v. pb_capabilityPushEnabled_update (\<lambda>_. v)),
     (''MCPGW_SERVER_SCOPE_ENFORCEMENT'', True, \<lambda>v. pb_serverScopeEnforcement_update (\<lambda>_. v))]"

definition loadBooleans :: "environment \<Rightarrow> config_error + parsedBooleans" where
  "loadBooleans env = load_fields (parseBool env) boolean_fields
    \<lparr>pb_cruveroEnabled = False, pb_corsEnabled = False, pb_natsTLSEnabled = False, pb_deviceFlowEnabled = False,
     pb_adminEnabled = False, pb_adminDevMode = False, pb_progressiveDiscovery = False,
     pb_orchestrateEnabled = False, pb_perServerEndpoints = False, pb_wellKnownEnabled = False,
     pb_capabilityRefreshEnabled = False, pb_capabilityPushEnabled = False, pb_serverScopeEnforcement = False\<rparr>"

subsection \<open>Language model providers\<close>

record llm_entry =
  le_Name :: string
  le_BaseURL :: string
  le_Model :: string
  le_Priority :: int

text \<open>The insertion sort on the slice: \<open>shift_provider ps key j\<close> is the inner loop with \<open>j\<close> one above the
  source's \<open>j\<close>, which goes down to \<open>-1\<close>.\<close>

fun shift_provider :: "LLMProviderConfig list \<Rightarrow> LLMProviderConfig \<Rightarrow> nat \<Rightarrow> LLMProviderConfig list" where
  "shift_provider providers key 0 = providers[0 := key]"
| "shift_provider providers key (Suc j) =
    (if lp_Priority (providers ! j) > lp_Priority key
     then shift_provider (providers[Suc j := providers ! j]) key j
     else providers[Suc j := key])"

definition sortProvidersByPriority :: "LLMProviderConfig list \<Rightarrow> LLMProviderConfig list" where
  "sortProvidersByPriority providers =
    foldl (\<lambda>ps i. shift_provider ps (ps ! i) i) providers [1..<length providers]"

definition provider_of :: "environment \<Rightarrow> llm_entry \<Rightarrow> LLMProviderConfig option" where
  "provider_of env e =
    (let name = TrimSpace (le_Name e)
     in if name = '''' \<or> TrimSpace (le_Model e) = '''' then None
        else let apiKey = TrimSpace (env (''MCPGW_LLM_'' @ ToUpper name @ ''_API_KEY''))
             in if apiKey = '''' then None
                else Some \<lparr>lp_Name = name, lp_APIKey = apiKey, lp_BaseURL = TrimSpace (le_BaseURL e),
                           lp_Model = TrimSpace (le_Model e), lp_Priority = le_Priority e\<rparr>)"

definition loadLLMProviders ::
  "(string \<Rightarrow> llm_entry list option) \<Rightarrow> environment \<Rightarrow> config_error + LLMProviderConfig list" where
  "loadLLMProviders unmarshal env =
    (let raw = TrimSpace (env ''MCPGW_LLM_PROVIDERS'')
     in if raw = '''' then Inr []
        else case unmarshal raw of
            None \<Rightarrow> Inl (ErrParseVar ''MCPGW_LLM_PROVIDERS'')
          | Some entries \<Rightarrow> Inr (sortProvidersByPriority (List.map_filter (provider_of env) entries)))"

definition loadOrchestrateConfig ::
  "(string \<Rightarrow> llm_entry list option) \<Rightarrow> environment \<Rightarrow> bool \<Rightarrow> config_error + OrchestrateConfig" where
  "loadOrchestrateConfig unmarshal env enabled =
    (case loadLLMProviders unmarshal env of
       Inl e \<Rightarrow> Inl e
     | Inr providers \<Rightarrow> Inr \<lparr>oc_Enabled = enabled, oc_Providers = providers\<rparr>)"

subsection \<open>Gateway identifier and session key\<close>

text \<open>\<open>random\<close> is the result of \<open>rand.Read\<close> on 16 bytes.\<close>

definition generateUUID :: "string option \<Rightarrow> config_error + string" where
  "generateUUID random =
    (case random of
       None \<Rightarrow> Inl ErrRandomBytes
     | Some raw \<Rightarrow>
         let b1 = raw[6 := char_of (((of_char (raw ! 6) :: nat) AND 0x0f) OR 0x40)];
             b2 = b1[8 := char_of (((of_char (b1 ! 8) :: nat) AND 0x3f) OR 0x80)];
             part = (\<lambda>i j. hex_EncodeToString (drop i (take j b2)))
         in Inr (part 0 4 @ ''-'' @ part 4 6 @ ''-'' @ part 6 8 @ ''-'' @ part 8 10 @ ''-'' @ part 10 16))"

definition resolveGatewayID :: "string option \<Rightarrow> environment \<Rightarrow> config_error + string" where
  "resolveGatewayID random env =
    (let i = getEnv env ''MCPGW_GATEWAY_ID'' ''auto''
     in if i \<noteq> ''auto'' then Inr i else generateUUID random)"

definition emptyKey :: string where
  "emptyKey = replicate 32 (CHR 0x00)"

definition loadAdminSessionKey :: "environment \<Rightarrow> config_error + string" where
  "loadAdminSessionKey env =
    (let rawKey = TrimSpace (env ''MCPGW_ADMIN_SESSION_KEY'')
     in if rawKey = '''' then Inr emptyKey
        else case hex_DecodeString rawKey of
            None \<Rightarrow> Inl (ErrParseVar ''MCPGW_ADMIN_SESSION_KEY'')
          | Some decoded \<Rightarrow>
              if length decoded \<noteq> 32 then Inl (ErrSessionKeyLength (length decoded)) else Inr decoded)"

subsection \<open>Validation\<close>

abbreviation config_message :: "string \<Rightarrow> config_error" where
  "config_message m \<equiv> ErrConfig (''validate config: '' @ m)"

abbreviation blank :: "string \<Rightarrow> bool" where
  "blank s \<equiv> TrimSpace s = ''''"

fun positive_checks :: "(int \<times> string) list \<Rightarrow> config_error option" where
  "positive_checks [] = None"
| "positive_checks ((value, name) # checks) =
    (if value \<le> 0 then Some (config_message (name @ '' must be positive'')) else positive_checks checks)"

definition validateTLS :: "GatewayConfig \<Rightarrow> config_error option" where
  "validateTLS c =
    (if (\<not> blank (gc_TLSCertPath c)) \<noteq> (\<not> blank (gc_TLSKeyPath c))
     then Some (config_message ''MCPGW_TLS_CERT and MCPGW_TLS_KEY must be set together'') else None)"

definition validateResilienceFields :: "GatewayConfig \<Rightarrow> config_error option" where
  "validateResilienceFields c = positive_checks
    [(gc_RateDefault c, ''MCPGW_RATE_DEFAULT''), (gc_RateBurst c, ''MCPGW_RATE_BURST''),
     (gc_CircuitThreshold c, ''MCPGW_CIRCUIT_THRESHOLD''), (gc_RetryMax c, ''MCPGW_RETRY_MAX'')]"

definition validateNATS :: "GatewayConfig \<Rightarrow> config_error option" where
  "validateNATS c =
    (if gc_CruveroEnabled c \<and> blank (gc_NATSURL c)
     then Some (config_message ''MCPGW_NATS_URL is required when MCPGW_CRUVERO_ENABLED is true'')
     else if gc_NATSTLSEnabled c \<and> (blank (gc_NATSTLSCert c) \<or> blank (gc_NATSTLSKey c) \<or> blank (gc_NATSTLSCa c))
     then Some (config_message ''MCPGW_NATS_TLS_CERT, MCPGW_NATS_TLS_KEY, and MCPGW_NATS_TLS_CA are all required when MCPGW_NATS_TLS_ENABLED is true'')
     else None)"

definition validateCORS :: "GatewayConfig \<Rightarrow> config_error option" where
  "validateCORS c =
    (if gc_CORSEnabled c \<and> length (gc_CORSAllowedOrigins c) = 0
     then Some (config_message ''MCPGW_CORS_ALLOWED_ORIGINS is required when MCPGW_CORS_ENABLED is true'') else None)"

definition validateDBAndAuditFields :: "GatewayConfig \<Rightarrow> config_error option" where
  "validateDBAndAuditFields c =
    (case positive_checks
        [(gc_DBMaxOpenConns c, ''MCPGW_DB_MAX_OPEN_CONNS''), (gc_DBMaxIdleConns c, ''MCPGW_DB_MAX_IDLE_CONNS''),
         (gc_AuditRetentionDays c, ''MCPGW_AUDIT_RETENTION_DAYS'')] of
       Some e \<Rightarrow> Some e
     | None \<Rightarrow> positive_checks
        [(gc_DBConnMaxLifetime c, ''MCPGW_DB_CONN_MAX_LIFETIME''),
         (gc_AuditCleanupInterval c, ''MCPGW_AUDIT_CLEANUP_INTERVAL'')])"

definition validateShutdown :: "GatewayConfig \<Rightarrow> config_error option" where
  "validateShutdown c =
    (if gc_ShutdownTimeout c \<le> 0 then Some (config_message ''MCPGW_SHUTDOWN_TIMEOUT must be positive'')
     else if gc_ShutdownTimeout c > 120 * Second then Some (config_message ''MCPGW_SHUTDOWN_TIMEOUT must not exceed 120s'')
     else None)"

definition validateRateLimitBackend :: "GatewayConfig \<Rightarrow> config_error option" where
  "validateRateLimitBackend c =
    (if gc_RateLimitBackend c \<notin> set [''memory'', ''dragonfly'', ''nats'', '''']
     then Some (config_message ''MCPGW_RATE_LIMIT_BACKEND must be memory, dragonfly, or nats'')
     else if gc_RateLimitBackend c = ''dragonfly'' \<and> blank (gc_DragonflyURL c)
     then Some (config_message ''MCPGW_DRAGONFLY_URL is required when MCPGW_RATE_LIMIT_BACKEND is dragonfly'')
     else if gc_RateLimitBackend c = ''nats'' \<and> \<not> gc_CruveroEnabled c
     then Some (config_message ''MCPGW_CRUVERO_ENABLED must be true when MCPGW_RATE_LIMIT_BACKEND is nats'')
     else None)"

definition validateAdmin :: "GatewayConfig \<Rightarrow> config_error option" where
  "validateAdmin c =
    (if TrimSpace (gc_AdminMode c) = ''integrated'' then None
     else if gc_AdminDevMode c \<and> \<not> gc_AdminEnabled c
     then Some (config_message ''MCPGW_ADMIN_ENABLED must be true when MCPGW_ADMIN_DEV_MODE is true'')
     else let gwID = ToLower (TrimSpace (gc_GatewayID c))
          in if gc_AdminDevMode c \<and> (Contains gwID ''prod'' \<or> Contains gwID ''staging'')
             then Some (config_message ''MCPGW_ADMIN_DEV_MODE must not be true when MCPGW_GATEWAY_ID contains prod or staging'')
             else if \<not> gc_AdminEnabled c \<or> gc_AdminDevMode c then None
             else if blank (gc_AdminOIDCClientID c)
             then Some (config_message ''MCPGW_ADMIN_OIDC_CLIENT_ID is required when MCPGW_ADMIN_ENABLED is true'')
             else if blank (gc_OIDCIssuer c)
             then Some (config_message ''MCPGW_OIDC_ISSUER is required when MCPGW_ADMIN_ENABLED is true'')
             else if gc_AdminSessionKey c = emptyKey
             then Some (config_message ''MCPGW_ADMIN_SESSION_KEY is required when MCPGW_ADMIN_ENABLED is true'')
             else None)"

text \<open>\<open>validateAdminMode\<close> also writes the canonical mode into the configuration.\<close>

definition validateAdminMode :: "GatewayConfig \<Rightarrow> config_error + GatewayConfig" where
  "validateAdminMode c =
    (let mode = ToLower (TrimSpace (gc_AdminMode c))
     in if mode = '''' \<or> mode = ''standalone'' then Inr (c\<lparr>gc_AdminMode := ''standalone''\<rparr>)
        else if mode = ''integrated''
        then let c2 = c\<lparr>gc_AdminMode := ''integrated''\<rparr>
             in if blank (gc_PlatformServiceToken c2)
                then Inl (config_message ''MCPGW_PLATFORM_SERVICE_TOKEN is required when MCPGW_ADMIN_MODE is integrated'')
                else Inr c2
        else Inl (config_message ''MCPGW_ADMIN_MODE must be standalone or integrated''))"

definition validateSearchEngine :: "GatewayConfig \<Rightarrow> config_error option" where
  "validateSearchEngine c =
    (if gc_SearchEngine c \<notin> set ['''', ''substring'', ''bm25'', ''vector'', ''hybrid'']
     then Some (config_message ''MCPGW_SEARCH_ENGINE must be substring, bm25, vector, or hybrid'') else None)"

definition validateDeviceFlow :: "GatewayConfig \<Rightarrow> config_error option" where
  "validateDeviceFlow c =
    (if \<not> gc_DeviceFlowEnabled c then None
     else if blank (gc_DeviceFlowIDPDeviceURL c)
     then Some (config_message ''MCPGW_DEVICE_FLOW_IDP_DEVICE_URL is required when MCPGW_DEVICE_FLOW_ENABLED is true'')
     else if blank (gc_DeviceFlowIDPTokenURL c)
     then Some (config_message ''MCPGW_DEVICE_FLOW_IDP_TOKEN_URL is required when MCPGW_DEVICE_FLOW_ENABLED is true'')
     else if blank (gc_DeviceFlowClientID c)
     then Some (config_message ''MCPGW_DEVICE_FLOW_CLIENT_ID is required when MCPGW_DEVICE_FLOW_ENABLED is true'')
     else None)"

fun first_failure :: "(GatewayConfig \<Rightarrow> config_error option) list \<Rightarrow> GatewayConfig \<Rightarrow> config_error option" where
  "first_failure [] c = None"
| "first_failure (check # checks) c = (case check c of Some e \<Rightarrow> Some e | None \<Rightarrow> first_failure checks c)"

definition Validate :: "GatewayConfig \<Rightarrow> config_error + GatewayConfig" where
  "Validate c =
    (if blank (gc_DBURL c) then Inl (config_message ''MCPGW_DB_URL is required'')
     else case first_failure [validateTLS, validateResilienceFields, validateNATS, validateCORS,
             validateDBAndAuditFields, validateShutdown, validateRateLimitBackend] c of
         Some e \<Rightarrow> Inl e
       | None \<Rightarrow>
           case validateAdminMode c of
             Inl e \<Rightarrow> Inl e
           | Inr c2 \<Rightarrow>
               case first_failure [validateAdmin, validateSearchEngine, validateDeviceFlow] c2 of
                 Some e \<Rightarrow> Inl e
               | None \<Rightarrow> Inr c2)"

definition IsTLSConfigured :: "GatewayConfig \<Rightarrow> bool" where
  "IsTLSConfigured c = (\<not> blank (gc_TLSCertPath c) \<and> \<not> blank (gc_TLSKeyPath c))"

subsection \<open>Loading\<close>

definition assemble ::
  "environment \<Rightarrow> parsedDurations \<Rightarrow> parsedIntegers \<Rightarrow> parsedBooleans \<Rightarrow> string \<Rightarrow> string \<Rightarrow> OrchestrateConfig
    \<Rightarrow> GatewayConfig" where
  "assemble env dur ints bools gatewayID adminSessionKey orch =
    \<lparr>gc_ListenAddr = getEnv env ''MCPGW_LISTEN_ADDR'' '':8443'',
     gc_TLSCertPath = env ''MCPGW_TLS_CERT'',
     gc_TLSKeyPath = env ''MCPGW_TLS_KEY'',
     gc_TLSCAPath = env ''MCPGW_TLS_CA'',
     gc_DBURL = env ''MCPGW_DB_URL'',
     gc_NATSURL = env ''MCPGW_NATS_URL'',
     gc_NATSTLSEnabled = pb_natsTLSEnabled bools,
     gc_NATSTLSCert = env ''MCPGW_NATS_TLS_CERT'',
     gc_NATSTLSKey = env ''MCPGW_NATS_TLS_KEY'',
     gc_NATSTLSCa = env ''MCPGW_NATS_TLS_CA'',
     gc_OIDCIssuer = env ''MCPGW_OIDC_ISSUER'',
     gc_OIDCAudience = env ''MCPGW_OIDC_AUDIENCE'',
     gc_HeartbeatTTL = pd_heartbeatTTL dur,
     gc_RateDefault = pi_rateDefault ints,
     gc_RateBurst = pi_rateBurst ints,
     gc_CircuitThreshold = pi_circuitThreshold ints,
     gc_CircuitTimeout = pd_circuitTimeout dur,
     gc_RetryMax = pi_retryMax ints,
     gc_SPIFFEAllowList = parseCSV env ''MCPGW_SPIFFE_ALLOW_PREFIX'',
     gc_PlatformSPIFFEPrefixes = parseCSV env ''MCPGW_PLATFORM_SPIFFE_PREFIXES'',
     gc_LogFormat = getEnv env ''MCPGW_LOG_FORMAT'' ''json'',
     gc_LogLevel = getEnv env ''MCPGW_LOG_LEVEL'' ''info'',
     gc_MetricsAddr = getEnv env ''MCPGW_METRICS_ADDR'' '':9090'',
     gc_CruveroEnabled = pb_cruveroEnabled bools,
     gc_GatewayID = gatewayID,
     gc_CORSEnabled = pb_corsEnabled bools,
     gc_CORSAllowedOrigins = parseCSV env ''MCPGW_CORS_ALLOWED_ORIGINS'',
     gc_DBMaxOpenConns = pi_dbMaxOpenConns ints,
     gc_DBMaxIdleConns = pi_dbMaxIdleConns ints,
     gc_DBConnMaxLifetime = pd_dbConnMaxLifetime dur,
     gc_AuditRetentionDays = pi_auditRetentionDays ints,
     gc_AuditCleanupInterval = pd_auditCleanupInterval dur,
     gc_ShutdownTimeout = pd_shutdownTimeout dur,
     gc_RateLimitBackend = getEnv env ''MCPGW_RATE_LIMIT_BACKEND'' ''memory'',
     gc_DragonflyURL = env ''MCPGW_DRAGONFLY_URL'',
     gc_OTLPExporterEndpoint = getEnv env ''OTEL_EXPORTER_OTLP_ENDPOINT'' '''',
     gc_OTELServiceName = getEnv env ''OTEL_SERVICE_NAME'' ''mcpgw'',
     gc_DeviceFlowEnabled = pb_deviceFlowEnabled bools,
     gc_DeviceFlowIDPDeviceURL = env ''MCPGW_DEVICE_FLOW_IDP_DEVICE_URL'',
     gc_DeviceFlowIDPTokenURL = env ''MCPGW_DEVICE_FLOW_IDP_TOKEN_URL'',
     gc_DeviceFlowClientID = env ''MCPGW_DEVICE_FLOW_CLIENT_ID'',
     gc_DeviceFlowClientSecret = env ''MCPGW_DEVICE_FLOW_CLIENT_SECRET'',
     gc_AdminEnabled = pb_adminEnabled bools,
     gc_AdminMode = ToLower (TrimSpace (getEnv env ''MCPGW_ADMIN_MODE'' ''standalone'')),
     gc_PlatformServiceToken = TrimSpace (env ''MCPGW_PLATFORM_SERVICE_TOKEN''),
     gc_AdminExternalURL = env ''MCPGW_ADMIN_EXTERNAL_URL'',
     gc_AdminOIDCClientID = env ''MCPGW_ADMIN_OIDC_CLIENT_ID'',
     gc_AdminOIDCClientSecret = env ''MCPGW_ADMIN_OIDC_CLIENT_SECRET'',
     gc_AdminRequiredScope = getEnv env ''MCPGW_ADMIN_REQUIRED_SCOPE'' ''admin'',
     gc_AdminSessionKey = adminSessionKey,
     gc_AdminSessionTTL = pd_adminSessionTTL dur,
     gc_AdminDevMode = pb_adminDevMode bools,
     gc_ProgressiveDiscovery = pb_progressiveDiscovery bools,
     gc_SearchEngine = getEnv env ''MCPGW_SEARCH_ENGINE'' '''',
     gc_OnnxRuntimePath = getEnv env ''MCPGW_ONNX_RUNTIME_PATH'' ''/usr/lib/libonnxruntime.so'',
     gc_OnnxModelPath = getEnv env ''MCPGW_ONNX_MODEL_PATH'' ''/models/all-MiniLM-L6-v2.onnx'',
     gc_TokenizerPath = getEnv env ''MCPGW_TOKENIZER_PATH'' ''/models/tokenizer.json'',
     gc_Orchestrate = orch,
     gc_PerServerEndpoints = pb_perServerEndpoints bools,
     gc_WellKnownEnabled = pb_wellKnownEnabled bools,
     gc_WellKnownCacheTTL = pd_wellKnownCacheTTL dur,
     gc_CapabilityRefreshEnabled = pb_capabilityRefreshEnabled bools,
     gc_CapabilityPushEnabled = pb_capabilityPushEnabled bools,
     gc_EmbeddingCacheMaxSize = pi_embeddingCacheMaxSize ints,
     gc_ServerScopeEnforcement = pb_serverScopeEnforcement bools,
     gc_DefaultRoutingStrategy = getEnv env ''MCPGW_DEFAULT_ROUTING_STRATEGY'' ''round_robin'',
     gc_ToolNamespaceMode = getEnv env ''MCPGW_TOOL_NAMESPACE_MODE'' ''reject'',
     gc_NamespaceSeparator = getEnv env ''MCPGW_NAMESPACE_SEPARATOR'' ''.'',
     gc_GatewayBaseURL = TrimSpace (env ''MCPGW_GATEWAY_BASE_URL'')\<rparr>"

definition Load ::
  "(string \<Rightarrow> llm_entry list option) \<Rightarrow> string option \<Rightarrow> environment \<Rightarrow> config_error + GatewayConfig" where
  "Load unmarshal random env =
    (case loadDurations env of Inl e \<Rightarrow> Inl e | Inr dur \<Rightarrow>
     case loadIntegers env of Inl e \<Rightarrow> Inl e | Inr ints \<Rightarrow>
     case loadBooleans env of Inl e \<Rightarrow> Inl e | Inr bools \<Rightarrow>
     case resolveGatewayID random env of Inl e \<Rightarrow> Inl e | Inr gatewayID \<Rightarrow>
     case loadAdminSessionKey env of Inl e \<Rightarrow> Inl e | Inr adminSessionKey \<Rightarrow>
     case loadOrchestrateConfig unmarshal env (pb_orchestrateEnabled bools) of Inl e \<Rightarrow> Inl e | Inr orch \<Rightarrow>
     Validate (assemble env dur ints bools gatewayID adminSessionKey orch))"

section \<open>The provider sort is a stable sort\<close>

lemma length_shift_provider [simp]: "length (shift_provider ps key j) = length ps"
  by (induction ps key j rule: shift_provider.induct) auto

text \<open>The inner loop moves the key down past the elements of larger priority at the end of the sorted part.\<close>

lemma shift_provider_split:
  assumes "j < length ps"
  shows "shift_provider ps key j =
    (let hi = rev (takeWhile (\<lambda>p. lp_Priority p > lp_Priority key) (rev (take j ps)));
         lo = take (j - length hi) ps
     in lo @ key # hi @ drop (Suc j) ps)"
  using assms
proof (induction j arbitrary: ps)
  case 0
  then show ?case by (cases ps) auto
next
  case (Suc j)
  have tk: "take (Suc j) ps = take j ps @ [ps ! j]" using Suc.prems by (simp add: take_Suc_conv_app_nth)
  show ?case
  proof (cases "lp_Priority (ps ! j) > lp_Priority key")
    case True
    have "drop (Suc j) (ps[Suc j := ps ! j]) = (ps ! j) # drop (Suc (Suc j)) ps"
      using Suc.prems by (simp add: drop_update_swap Cons_nth_drop_Suc [symmetric])
    then show ?thesis
      using True Suc.IH [of "ps[Suc j := ps ! j]"] Suc.prems by (simp add: tk Let_def)
  next
    case False
    then show ?thesis using Suc.prems by (simp add: tk upd_conv_take_nth_drop Let_def)
  qed
qed

lemma sort_key_snoc:
  assumes split: "sort_key f xs = lo @ hi"
    and lo: "\<And>x. x \<in> set lo \<Longrightarrow> f x \<le> f k" and hi: "\<And>x. x \<in> set hi \<Longrightarrow> f k < f x"
  shows "sort_key f (xs @ [k]) = lo @ k # hi"
proof (rule properties_for_sort_key)
  have "mset (lo @ hi) = mset xs" using mset_sort [of f xs] by (simp only: split)
  then show "mset (lo @ k # hi) = mset (xs @ [k])" by simp
next
  have sorted: "sorted (map f (lo @ hi))" using sorted_sort_key [of f xs] by (simp only: split)
  then show "sorted (map f (lo @ k # hi))"
    using lo hi by (auto simp: sorted_append less_imp_le)
next
  fix x
  have same: "filter (\<lambda>y. f x = f y) (lo @ hi) = filter (\<lambda>y. f x = f y) xs"
    using sort_key_stable [of "\<lambda>y. f y" "f x" xs] by (simp add: split eq_commute [of _ "f x"])
  show "filter (\<lambda>y. f x = f y) (lo @ k # hi) = filter (\<lambda>y. f x = f y) (xs @ [k])"
  proof (cases "f x = f k")
    case True
    then have "filter (\<lambda>y. f x = f y) hi = []" using hi by (fastforce simp: filter_empty_conv)
    then show ?thesis using same True by simp
  next
    case False
    then show ?thesis using same by simp
  qed
qed

lemma shift_provider_inserts:
  assumes "i < length ps" and "take i ps = sort_key lp_Priority xs"
  shows "shift_provider ps (ps ! i) i = sort_key lp_Priority (xs @ [ps ! i]) @ drop (Suc i) ps"
proof -
  define big where "big = (\<lambda>p :: LLMProviderConfig. lp_Priority p > lp_Priority (ps ! i))"
  define hi where "hi = rev (takeWhile big (rev (take i ps)))"
  define lo where "lo = rev (dropWhile big (rev (take i ps)))"
  have parts: "take i ps = lo @ hi"
    unfolding hi_def lo_def rev_append [symmetric] by simp
  have len: "length hi \<le> i" using parts assms(1) by (metis le_add2 length_append length_take min.absorb2 less_imp_le)
  have lo_take: "lo = take (i - length hi) ps"
  proof -
    have "take (i - length hi) (take i ps) = lo" unfolding parts using parts assms(1)
      by (metis add_diff_cancel_right' append_eq_conv_conj length_append length_take min.absorb2 less_imp_le)
    then show ?thesis by (simp add: min_def)
  qed
  have hi_big: "lp_Priority (ps ! i) < lp_Priority x" if "x \<in> set hi" for x
    using that set_takeWhileD [of x big "rev (take i ps)"] by (simp add: hi_def big_def)
  have sorted: "sorted (map lp_Priority (lo @ hi))" using sorted_sort_key [of lp_Priority xs] assms(2) parts by simp
  have lo_small: "lp_Priority x \<le> lp_Priority (ps ! i)" if x: "x \<in> set lo" for x
  proof -
    have ne: "lo \<noteq> []" using x by auto
    then have "\<not> big (last lo)" unfolding lo_def by (simp add: last_rev hd_dropWhile)
    moreover have "lp_Priority x \<le> lp_Priority (last lo)"
    proof -
      have "lo = butlast lo @ [last lo]" using ne by simp
      then have "sorted (map lp_Priority (butlast lo @ [last lo]))" and "x \<in> set (butlast lo @ [last lo])"
        using sorted x by (simp_all add: sorted_append)
      then show ?thesis by (auto simp: sorted_append)
    qed
    ultimately show ?thesis by (simp add: big_def)
  qed
  have "shift_provider ps (ps ! i) i = lo @ (ps ! i) # hi @ drop (Suc i) ps"
    using shift_provider_split [OF assms(1), of "ps ! i"] by (simp add: Let_def lo_take hi_def big_def)
  moreover have "sort_key lp_Priority (xs @ [ps ! i]) = lo @ (ps ! i) # hi"
    by (rule sort_key_snoc) (use assms(2) parts lo_small hi_big in auto)
  ultimately show ?thesis by simp
qed

lemma sort_loop:
  assumes "n < length ps"
  shows "foldl (\<lambda>ps i. shift_provider ps (ps ! i) i) ps [1..<Suc n] = sort_key lp_Priority (take (Suc n) ps) @ drop (Suc n) ps"
  using assms
proof (induction n)
  case 0
  then show ?case by (cases ps) auto
next
  case (Suc n)
  let ?qs = "sort_key lp_Priority (take (Suc n) ps) @ drop (Suc n) ps"
  have len: "length (sort_key lp_Priority (take (Suc n) ps)) = Suc n" using Suc.prems by simp
  have nth: "?qs ! Suc n = ps ! Suc n" using Suc.prems len by (simp add: nth_append)
  have drop: "drop (Suc (Suc n)) ?qs = drop (Suc (Suc n)) ps" using Suc.prems len by simp
  have "shift_provider ?qs (?qs ! Suc n) (Suc n)
      = sort_key lp_Priority (take (Suc n) ps @ [ps ! Suc n]) @ drop (Suc (Suc n)) ps"
    unfolding nth [symmetric] drop [symmetric] by (rule shift_provider_inserts) (use Suc.prems len in simp_all)
  then show ?case using Suc by (simp add: take_Suc_conv_app_nth)
qed

lemma sorted_providers: "sortProvidersByPriority ps = sort_key lp_Priority ps"
proof (cases "length ps")
  case 0
  then show ?thesis by (simp add: sortProvidersByPriority_def)
next
  case (Suc n)
  then show ?thesis using sort_loop [of n ps] by (simp add: sortProvidersByPriority_def)
qed

section \<open>What validation guarantees\<close>

text \<open>The requirements on a configuration, stated without reference to the order of the checks.\<close>

definition admin_mode :: "GatewayConfig \<Rightarrow> string" where
  "admin_mode c = (if ToLower (TrimSpace (gc_AdminMode c)) = ''integrated'' then ''integrated'' else ''standalone'')"

definition limits_ok :: "GatewayConfig \<Rightarrow> bool" where
  "limits_ok c =
    (0 < gc_RateDefault c \<and> 0 < gc_RateBurst c \<and> 0 < gc_CircuitThreshold c \<and> 0 < gc_RetryMax c \<and>
     0 < gc_DBMaxOpenConns c \<and> 0 < gc_DBMaxIdleConns c \<and> 0 < gc_AuditRetentionDays c \<and>
     0 < gc_DBConnMaxLifetime c \<and> 0 < gc_AuditCleanupInterval c \<and>
     0 < gc_ShutdownTimeout c \<and> gc_ShutdownTimeout c \<le> 120 * Second)"

definition services_ok :: "GatewayConfig \<Rightarrow> bool" where
  "services_ok c =
    (\<not> blank (gc_DBURL c) \<and>
     (blank (gc_TLSCertPath c) \<longleftrightarrow> blank (gc_TLSKeyPath c)) \<and>
     (gc_CruveroEnabled c \<longrightarrow> \<not> blank (gc_NATSURL c)) \<and>
     (gc_NATSTLSEnabled c \<longrightarrow> \<not> blank (gc_NATSTLSCert c) \<and> \<not> blank (gc_NATSTLSKey c) \<and> \<not> blank (gc_NATSTLSCa c)) \<and>
     (gc_CORSEnabled c \<longrightarrow> gc_CORSAllowedOrigins c \<noteq> []) \<and>
     gc_RateLimitBackend c \<in> {''memory'', ''dragonfly'', ''nats'', ''''} \<and>
     (gc_RateLimitBackend c = ''dragonfly'' \<longrightarrow> \<not> blank (gc_DragonflyURL c)) \<and>
     (gc_RateLimitBackend c = ''nats'' \<longrightarrow> gc_CruveroEnabled c) \<and>
     gc_SearchEngine c \<in> {'''', ''substring'', ''bm25'', ''vector'', ''hybrid''} \<and>
     (gc_DeviceFlowEnabled c \<longrightarrow> \<not> blank (gc_DeviceFlowIDPDeviceURL c) \<and> \<not> blank (gc_DeviceFlowIDPTokenURL c) \<and>
        \<not> blank (gc_DeviceFlowClientID c)))"

definition production_like :: "string \<Rightarrow> bool" where
  "production_like gatewayID =
    (Contains (ToLower (TrimSpace gatewayID)) ''prod'' \<or> Contains (ToLower (TrimSpace gatewayID)) ''staging'')"

definition admin_ok :: "GatewayConfig \<Rightarrow> bool" where
  "admin_ok c =
    (ToLower (TrimSpace (gc_AdminMode c)) \<in> {'''', ''standalone'', ''integrated''} \<and>
     (if admin_mode c = ''integrated'' then \<not> blank (gc_PlatformServiceToken c)
      else (gc_AdminDevMode c \<longrightarrow> gc_AdminEnabled c \<and> \<not> production_like (gc_GatewayID c)) \<and>
           (gc_AdminEnabled c \<and> \<not> gc_AdminDevMode c \<longrightarrow>
              \<not> blank (gc_AdminOIDCClientID c) \<and> \<not> blank (gc_OIDCIssuer c) \<and> gc_AdminSessionKey c \<noteq> emptyKey)))"

lemma positive_checks_None: "positive_checks checks = None \<longleftrightarrow> (\<forall>(v, n) \<in> set checks. 0 < v)"
  by (induction checks rule: positive_checks.induct) auto

lemma limits_checked:
  "validateResilienceFields c = None \<and> validateDBAndAuditFields c = None \<and> validateShutdown c = None \<longleftrightarrow> limits_ok c"
proof -
  have res: "validateResilienceFields c = None \<longleftrightarrow>
      0 < gc_RateDefault c \<and> 0 < gc_RateBurst c \<and> 0 < gc_CircuitThreshold c \<and> 0 < gc_RetryMax c"
    by (simp add: validateResilienceFields_def positive_checks_None)
  have db: "validateDBAndAuditFields c = None \<longleftrightarrow>
      0 < gc_DBMaxOpenConns c \<and> 0 < gc_DBMaxIdleConns c \<and> 0 < gc_AuditRetentionDays c \<and>
      0 < gc_DBConnMaxLifetime c \<and> 0 < gc_AuditCleanupInterval c"
    unfolding validateDBAndAuditFields_def
    by (simp only: option.case_eq_if, simp add: positive_checks_None)
  have sh: "validateShutdown c = None \<longleftrightarrow> 0 < gc_ShutdownTimeout c \<and> gc_ShutdownTimeout c \<le> 120 * Second"
    by (simp add: validateShutdown_def)
  show ?thesis unfolding res db sh limits_ok_def by argo
qed

lemma validateTLS_None: "validateTLS c = None \<longleftrightarrow> (blank (gc_TLSCertPath c) \<longleftrightarrow> blank (gc_TLSKeyPath c))"
  by (simp add: validateTLS_def)

lemma validateNATS_None:
  "validateNATS c = None \<longleftrightarrow> (gc_CruveroEnabled c \<longrightarrow> \<not> blank (gc_NATSURL c)) \<and>
    (gc_NATSTLSEnabled c \<longrightarrow> \<not> blank (gc_NATSTLSCert c) \<and> \<not> blank (gc_NATSTLSKey c) \<and> \<not> blank (gc_NATSTLSCa c))"
  by (simp add: validateNATS_def)

lemma validateCORS_None: "validateCORS c = None \<longleftrightarrow> (gc_CORSEnabled c \<longrightarrow> gc_CORSAllowedOrigins c \<noteq> [])"
  by (simp add: validateCORS_def)

lemma validateRateLimitBackend_None:
  "validateRateLimitBackend c = None \<longleftrightarrow>
    gc_RateLimitBackend c \<in> {''memory'', ''dragonfly'', ''nats'', ''''} \<and>
    (gc_RateLimitBackend c = ''dragonfly'' \<longrightarrow> \<not> blank (gc_DragonflyURL c)) \<and>
    (gc_RateLimitBackend c = ''nats'' \<longrightarrow> gc_CruveroEnabled c)"
  unfolding validateRateLimitBackend_def set_simps by simp

lemma validateSearchEngine_None:
  "validateSearchEngine c = None \<longleftrightarrow> gc_SearchEngine c \<in> {'''', ''substring'', ''bm25'', ''vector'', ''hybrid''}"
  unfolding validateSearchEngine_def set_simps by simp

lemma validateDeviceFlow_None:
  "validateDeviceFlow c = None \<longleftrightarrow> (gc_DeviceFlowEnabled c \<longrightarrow>
    \<not> blank (gc_DeviceFlowIDPDeviceURL c) \<and> \<not> blank (gc_DeviceFlowIDPTokenURL c) \<and> \<not> blank (gc_DeviceFlowClientID c))"
  by (simp add: validateDeviceFlow_def)

lemma first_failure_None: "first_failure checks c = None \<longleftrightarrow> (\<forall>check \<in> set checks. check c = None)"
  by (induction checks) (auto split: option.splits)

lemma validateAdminMode_Inr:
  "validateAdminMode c = Inr c2 \<longleftrightarrow>
    ToLower (TrimSpace (gc_AdminMode c)) \<in> {'''', ''standalone'', ''integrated''} \<and>
    (admin_mode c = ''integrated'' \<longrightarrow> \<not> blank (gc_PlatformServiceToken c)) \<and>
    c2 = c\<lparr>gc_AdminMode := admin_mode c\<rparr>"
  by (auto simp: validateAdminMode_def admin_mode_def Let_def)

lemma TrimSpace_modes: "TrimSpace ''integrated'' = ''integrated''" "TrimSpace ''standalone'' = ''standalone''"
  by code_simp+

lemma validateAdmin_None:
  assumes "gc_AdminMode c = ''integrated'' \<or> gc_AdminMode c = ''standalone''"
  shows "validateAdmin c = None \<longleftrightarrow> gc_AdminMode c = ''integrated'' \<or>
    ((gc_AdminDevMode c \<longrightarrow> gc_AdminEnabled c \<and> \<not> production_like (gc_GatewayID c)) \<and>
     (gc_AdminEnabled c \<and> \<not> gc_AdminDevMode c \<longrightarrow>
        \<not> blank (gc_AdminOIDCClientID c) \<and> \<not> blank (gc_OIDCIssuer c) \<and> gc_AdminSessionKey c \<noteq> emptyKey))"
  using assms
proof
  assume "gc_AdminMode c = ''integrated''"
  then show ?thesis by (simp add: validateAdmin_def TrimSpace_modes)
next
  assume mode: "gc_AdminMode c = ''standalone''"
  show ?thesis
    by (cases "gc_AdminDevMode c"; cases "gc_AdminEnabled c")
      (simp_all add: validateAdmin_def TrimSpace_modes mode production_like_def Let_def)
qed

lemmas check_None =
  validateTLS_None validateNATS_None validateCORS_None validateRateLimitBackend_None
  validateSearchEngine_None validateDeviceFlow_None

lemma Validate_Inr:
  "Validate c = Inr c2 \<longleftrightarrow>
    limits_ok c \<and> services_ok c \<and> admin_ok c \<and> c2 = c\<lparr>gc_AdminMode := admin_mode c\<rparr>"
proof -
  let ?d = "c\<lparr>gc_AdminMode := admin_mode c\<rparr>"
  let ?first = "[validateTLS, validateResilienceFields, validateNATS, validateCORS, validateDBAndAuditFields,
      validateShutdown, validateRateLimitBackend]"
  let ?second = "[validateAdmin, validateSearchEngine, validateDeviceFlow]"
  have modes: "gc_AdminMode ?d = ''integrated'' \<or> gc_AdminMode ?d = ''standalone''" by (simp add: admin_mode_def)
  have "Validate c = Inr c2 \<longleftrightarrow>
      \<not> blank (gc_DBURL c) \<and> first_failure ?first c = None \<and> validateAdminMode c = Inr c2 \<and> first_failure ?second c2 = None"
    by (auto simp: Validate_def simp del: first_failure.simps split: option.splits sum.splits)
  also have "\<dots> \<longleftrightarrow> \<not> blank (gc_DBURL c) \<and> first_failure ?first c = None \<and> validateAdminMode c = Inr c2 \<and>
      first_failure ?second ?d = None"
    by (auto simp: validateAdminMode_Inr simp del: first_failure.simps)
  also have "\<dots> \<longleftrightarrow> limits_ok c \<and> services_ok c \<and> admin_ok c \<and> c2 = ?d"
    unfolding limits_checked [symmetric] first_failure_None set_simps
    by (simp add: check_None validateAdminMode_Inr validateAdmin_None [OF modes] services_ok_def admin_ok_def) argo
  finally show ?thesis .
qed


section \<open>What a loaded configuration is\<close>

definition int_typed :: "int \<Rightarrow> bool" where
  "int_typed v = (- (2 ^ 63) \<le> v \<and> v \<le> 2 ^ 63 - 1)"

lemma Atoi_typed: "Atoi s = Some v \<Longrightarrow> int_typed v"
  by (auto simp: Atoi_def int_typed_def Let_def split: prod.splits option.splits if_splits)

lemma read_terms_bound: "read_terms d s = Some v \<Longrightarrow> d \<le> 2 ^ 63 \<Longrightarrow> v \<le> 2 ^ 63"
proof (induction d s rule: read_terms.induct)
  case (1 d s)
  show ?case
  proof (cases "s = []")
    case True
    then show ?thesis using "1.prems" by (simp add: read_terms.simps)
  next
    case False
    then obtain x rest where t: "read_term s = Some (x, rest)"
      using "1.prems"(1) by (subst (asm) read_terms.simps) (auto split: option.splits)
    define d2 where "d2 = (d + x) mod 2 ^ 64"
    have step: "read_terms d s = (if d2 > 2 ^ 63 then None else read_terms d2 rest)"
      by (subst read_terms.simps) (simp add: False t d2_def Let_def)
    have small: "\<not> d2 > 2 ^ 63" and rec: "read_terms d2 rest = Some v"
      using "1.prems"(1) unfolding step by (auto split: if_splits)
    show ?thesis
      using "1.IH" [OF False t refl, of d2] small rec d2_def by simp
  qed
qed

lemma ParseDuration_typed:
  assumes "ParseDuration raw = Some v"
  shows "int_typed v"
proof -
  obtain neg s where ns: "(case raw of [] \<Rightarrow> (False, [])
      | c # cs \<Rightarrow> if c = CHR ''-'' then (True, cs) else if c = CHR ''+'' then (False, cs) else (False, raw)) = (neg, s)"
    by fastforce
  consider "v = 0" | d where "read_terms 0 s = Some d" "v = (if neg then - int d else int d)" "neg \<or> d \<le> 2 ^ 63 - 1"
    using assms unfolding ParseDuration_def ns by (auto split: if_splits option.splits)
  then show ?thesis
  proof cases
    case 1
    then show ?thesis by (simp add: int_typed_def)
  next
    case (2 d)
    have "int d \<le> 2 ^ 63" using read_terms_bound [OF 2(1)] by simp
    then show ?thesis using 2(2,3) by (auto simp: int_typed_def split: if_splits)
  qed
qed

lemma load_fields_invariant:
  assumes "load_fields parse fs p = Inr q" and "keeps p"
    and "\<And>k d dest v. (k, d, dest) \<in> set fs \<Longrightarrow> parse k d = Inr v \<Longrightarrow> good v"
    and "\<And>k d dest v p. (k, d, dest) \<in> set fs \<Longrightarrow> good v \<Longrightarrow> keeps p \<Longrightarrow> keeps (dest v p)"
  shows "keeps q"
  using assms
proof (induction parse fs p rule: load_fields.induct)
  case (2 parse k d dest rest p)
  from "2.prems"(1) obtain v where v: "parse k d = Inr v" and rest: "load_fields parse rest (dest v p) = Inr q"
    by (auto split: sum.splits)
  have "good v" using "2.prems"(3) [of k d dest] v by simp
  then have "keeps (dest v p)" using "2.prems"(2) "2.prems"(4) [of k d dest] by simp
  then show ?case
  proof (rule "2.IH" [OF v rest])
    show "good v" if "(k, d, dest) \<in> set rest" "parse k d = Inr v" for k d dest v
      using "2.prems"(3) [of k d dest] that by simp
    show "keeps (dest v p)" if "(k, d, dest) \<in> set rest" "good v" "keeps p" for k d dest v p
      using "2.prems"(4) [of k d dest] that by simp
  qed
qed simp

definition durations_typed :: "parsedDurations \<Rightarrow> bool" where
  "durations_typed p =
    (int_typed (pd_heartbeatTTL p) \<and> int_typed (pd_circuitTimeout p) \<and> int_typed (pd_dbConnMaxLifetime p) \<and>
     int_typed (pd_auditCleanupInterval p) \<and> int_typed (pd_shutdownTimeout p) \<and>
     int_typed (pd_adminSessionTTL p) \<and> int_typed (pd_wellKnownCacheTTL p))"

definition integers_typed :: "parsedIntegers \<Rightarrow> bool" where
  "integers_typed p =
    (int_typed (pi_rateDefault p) \<and> int_typed (pi_rateBurst p) \<and> int_typed (pi_circuitThreshold p) \<and>
     int_typed (pi_retryMax p) \<and> int_typed (pi_dbMaxOpenConns p) \<and> int_typed (pi_dbMaxIdleConns p) \<and>
     int_typed (pi_auditRetentionDays p) \<and> int_typed (pi_embeddingCacheMaxSize p))"

lemma loadDurations_typed:
  assumes "loadDurations env = Inr p"
  shows "durations_typed p"
proof (rule load_fields_invariant [OF assms [unfolded loadDurations_def]])
  fix k d dest v
  assume "(k, d, dest) \<in> set duration_fields" and v: "parseDuration env k d = Inr v"
  then have "int_typed d" by (auto simp: duration_fields_def int_typed_def)
  then show "int_typed v"
    using v ParseDuration_typed by (auto simp: parseDuration_def Let_def split: if_splits option.splits)
next
  fix k d v p and dest :: "duration \<Rightarrow> parsedDurations \<Rightarrow> parsedDurations"
  assume "(k, d, dest) \<in> set duration_fields" "int_typed v" "durations_typed p"
  then show "durations_typed (dest v p)" by (auto simp: duration_fields_def durations_typed_def)
qed (simp add: durations_typed_def int_typed_def)

lemma loadIntegers_typed:
  assumes "loadIntegers env = Inr p"
  shows "integers_typed p"
proof (rule load_fields_invariant [OF assms [unfolded loadIntegers_def]])
  fix k d dest v
  assume "(k, d, dest) \<in> set integer_fields" and v: "parseInt env k d = Inr v"
  then have "int_typed d" by (auto simp: integer_fields_def int_typed_def)
  then show "int_typed v"
    using v Atoi_typed by (auto simp: parseInt_def Let_def split: if_splits option.splits)
next
  fix k d v p and dest :: "int \<Rightarrow> parsedIntegers \<Rightarrow> parsedIntegers"
  assume "(k, d, dest) \<in> set integer_fields" "int_typed v" "integers_typed p"
  then show "integers_typed (dest v p)" by (auto simp: integer_fields_def integers_typed_def)
qed (simp add: integers_typed_def int_typed_def)

lemma loadAdminSessionKey_length: "loadAdminSessionKey env = Inr key \<Longrightarrow> length key = 32"
  by (auto simp: loadAdminSessionKey_def emptyKey_def Let_def split: if_splits option.splits)

definition provider_ok :: "LLMProviderConfig \<Rightarrow> bool" where
  "provider_ok p = (\<not> blank (lp_Name p) \<and> \<not> blank (lp_Model p) \<and> \<not> blank (lp_APIKey p))"

lemma provider_of_ok: "provider_of env e = Some p \<Longrightarrow> provider_ok p"
  by (auto simp: provider_of_def provider_ok_def Let_def split: if_splits)

lemma loadLLMProviders_ok:
  assumes "loadLLMProviders unmarshal env = Inr ps"
  shows "list_all provider_ok ps \<and> sorted (map lp_Priority ps)"
proof -
  consider "ps = []" | entries where "ps = sort_key lp_Priority (List.map_filter (provider_of env) entries)"
    using assms sorted_providers by (auto simp: loadLLMProviders_def Let_def split: if_splits option.splits)
  then show ?thesis
  proof cases
    case (2 entries)
    have "provider_ok p" if "p \<in> set ps" for p
      using that provider_of_ok unfolding 2 by (auto simp: List.map_filter_def)
    then show ?thesis by (simp add: list_all_iff 2)
  qed simp
qed

lemma Load_assembled:
  assumes "Load unmarshal random env = Inr c"
  obtains dur ints bools gatewayID key orch where
    "loadDurations env = Inr dur" "loadIntegers env = Inr ints" "loadBooleans env = Inr bools"
    "loadAdminSessionKey env = Inr key" "loadOrchestrateConfig unmarshal env (pb_orchestrateEnabled bools) = Inr orch"
    "Validate (assemble env dur ints bools gatewayID key orch) = Inr c"
  using assms unfolding Load_def by (auto split: sum.splits)

lemma validated_requirements:
  assumes "Validate c = Inr c2"
  shows "limits_ok c2 \<and> services_ok c2 \<and> admin_ok c2 \<and> gc_AdminMode c2 = admin_mode c2"
proof -
  have ok: "limits_ok c" "services_ok c" "admin_ok c" and c2: "c2 = c\<lparr>gc_AdminMode := admin_mode c\<rparr>"
    using assms by (simp_all add: Validate_Inr)
  have lower: "ToLower ''integrated'' = ''integrated''" "ToLower ''standalone'' = ''standalone''" by code_simp+
  have mode: "admin_mode c2 = admin_mode c" "ToLower (TrimSpace (gc_AdminMode c2)) = admin_mode c"
    unfolding c2 by (simp_all add: admin_mode_def TrimSpace_modes lower)
  have "limits_ok c2" "services_ok c2" using ok by (simp_all add: c2 limits_ok_def services_ok_def)
  moreover have "admin_ok c2"
    using ok(3) unfolding admin_ok_def mode by (simp add: c2 admin_mode_def)
  ultimately show ?thesis by (simp add: mode) (simp add: c2)
qed

text \<open>C35. \<^bold>\<open>What a loaded configuration is.\<close>  When \<open>Load\<close> succeeds, the configuration it returns meets all
  the requirements: positive limits that fit a 64-bit integer, a shutdown timeout of at most two minutes, every
  enabled service with what it needs, an admin interface that is either integrated with a platform token or
  standalone with OIDC and a session key or in development mode outside production.  The session key has exactly
  32 bytes, the durations fit their type, and the language model providers all have a name, a model and a key and
  come in ascending order of priority.\<close>

theorem loaded_config_typed:
  assumes "Load unmarshal random env = Inr c"
  shows "limits_ok c \<and> services_ok c \<and> admin_ok c \<and> gc_AdminMode c = admin_mode c
    \<and> length (gc_AdminSessionKey c) = 32
    \<and> list_all int_typed [gc_RateDefault c, gc_RateBurst c, gc_CircuitThreshold c, gc_RetryMax c, gc_DBMaxOpenConns c,
        gc_DBMaxIdleConns c, gc_AuditRetentionDays c, gc_EmbeddingCacheMaxSize c]
    \<and> list_all int_typed [gc_HeartbeatTTL c, gc_CircuitTimeout c, gc_DBConnMaxLifetime c, gc_AuditCleanupInterval c,
        gc_ShutdownTimeout c, gc_AdminSessionTTL c, gc_WellKnownCacheTTL c]
    \<and> list_all provider_ok (oc_Providers (gc_Orchestrate c))
    \<and> sorted (map lp_Priority (oc_Providers (gc_Orchestrate c)))"
proof -
  obtain dur ints bools gid key orch where
    d: "loadDurations env = Inr dur" and i: "loadIntegers env = Inr ints" and k: "loadAdminSessionKey env = Inr key"
    and o: "loadOrchestrateConfig unmarshal env (pb_orchestrateEnabled bools) = Inr orch"
    and v: "Validate (assemble env dur ints bools gid key orch) = Inr c"
    by (rule Load_assembled [OF assms])
  let ?a = "assemble env dur ints bools gid key orch"
  have c: "c = ?a\<lparr>gc_AdminMode := admin_mode ?a\<rparr>" using v by (simp add: Validate_Inr)
  have ps: "list_all provider_ok (oc_Providers orch) \<and> sorted (map lp_Priority (oc_Providers orch))"
    using o loadLLMProviders_ok by (auto simp: loadOrchestrateConfig_def split: sum.splits)
  have "length (gc_AdminSessionKey c) = 32" using loadAdminSessionKey_length [OF k] by (simp add: c assemble_def)
  moreover have "list_all int_typed [gc_RateDefault c, gc_RateBurst c, gc_CircuitThreshold c, gc_RetryMax c,
      gc_DBMaxOpenConns c, gc_DBMaxIdleConns c, gc_AuditRetentionDays c, gc_EmbeddingCacheMaxSize c]"
    using loadIntegers_typed [OF i] by (simp add: c assemble_def integers_typed_def)
  moreover have "list_all int_typed [gc_HeartbeatTTL c, gc_CircuitTimeout c, gc_DBConnMaxLifetime c,
      gc_AuditCleanupInterval c, gc_ShutdownTimeout c, gc_AdminSessionTTL c, gc_WellKnownCacheTTL c]"
    using loadDurations_typed [OF d] by (simp add: c assemble_def durations_typed_def)
  moreover have "oc_Providers (gc_Orchestrate c) = oc_Providers orch" by (simp add: c assemble_def)
  ultimately show ?thesis using validated_requirements [OF v] ps by simp
qed

definition example_env :: environment where
  "example_env k = (if k = ''MCPGW_DB_URL'' then ''postgres://db'' else if k = ''MCPGW_GATEWAY_ID'' then ''gw'' else '''')"

theorem loaded_config_typed_witness:
  "\<exists>c. Load (\<lambda>_. None) None example_env = Inr c \<and> limits_ok c \<and> gc_AdminMode c = admin_mode c
    \<and> length (gc_AdminSessionKey c) = 32"
proof -
  have "\<not> isl (Load (\<lambda>_. None) None example_env)" by code_simp
  then obtain c where c: "Load (\<lambda>_. None) None example_env = Inr c" by (cases "Load (\<lambda>_. None) None example_env") auto
  then show ?thesis using loaded_config_typed [OF c] by blast
qed

section \<open>Hexadecimal text and generated identifiers\<close>

lemma digit_value_hex_lower: "n < 16 \<Longrightarrow> digit_value (hex_lower n) = Some n"
  by (auto simp: digit_value_def hex_lower_def Let_def)

lemma hex_roundtrip: "hex_DecodeString (hex_EncodeToString raw) = Some raw"
proof (induction raw)
  case Nil
  then show ?case by (simp add: hex_EncodeToString_def)
next
  case (Cons b raw)
  have bound: "(of_char b :: nat) < 256" by (metis of_char_mod_256 mod_less_divisor zero_less_numeral)
  have "hex_EncodeToString (b # raw) = hex_lower (of_char b div 16) # hex_lower (of_char b mod 16) # hex_EncodeToString raw"
    by (simp add: hex_EncodeToString_def)
  then show ?case
    using Cons bound by (simp add: digit_value_hex_lower less_mult_imp_div_less)
qed

lemma length_hex: "length (hex_EncodeToString raw) = 2 * length raw"
  by (induction raw) (simp_all add: hex_EncodeToString_def)

text \<open>A session key written in hexadecimal is read back, with any white space around it.\<close>

lemma session_key_read:
  assumes "length key = 32" and "TrimSpace (env ''MCPGW_ADMIN_SESSION_KEY'') = hex_EncodeToString key"
  shows "loadAdminSessionKey env = Inr key"
proof -
  have "hex_EncodeToString key \<noteq> ''''" using assms(1) length_hex [of key] by auto
  then show ?thesis using assms by (simp add: loadAdminSessionKey_def hex_roundtrip)
qed

text \<open>A generated identifier has the shape of a version 4 UUID, whatever the random bytes.\<close>

lemma version_bits: "((n :: nat) AND 0x0f) OR 0x40 = n mod 16 + 64"
proof -
  have "\<forall>m \<in> set [0..<16]. m OR 0x40 = (m + 64 :: nat)" by code_simp
  moreover have "(n AND 0x0f) = n mod 16"
    using take_bit_eq_mask [of 4 n] by (simp add: take_bit_eq_mod mask_eq_exp_minus_1)
  ultimately show ?thesis by simp
qed

lemma variant_bits: "((n :: nat) AND 0x3f) OR 0x80 = n mod 64 + 128"
proof -
  have "\<forall>m \<in> set [0..<64]. m OR 0x80 = (m + 128 :: nat)" by code_simp
  moreover have "(n AND 0x3f) = n mod 64"
    using take_bit_eq_mask [of 6 n] by (simp add: take_bit_eq_mod mask_eq_exp_minus_1)
  ultimately show ?thesis by simp
qed

lemma generated_id_shape:
  assumes "length raw = 16"
  shows "\<exists>u. generateUUID (Some raw) = Inr u \<and> length u = 36
    \<and> u ! 8 = CHR ''-'' \<and> u ! 13 = CHR ''-'' \<and> u ! 18 = CHR ''-'' \<and> u ! 23 = CHR ''-''
    \<and> u ! 14 = CHR ''4'' \<and> u ! 19 \<in> set ''89ab''"
proof -
  obtain a0 a1 a2 a3 a4 a5 a6 a7 a8 a9 a10 a11 a12 a13 a14 a15 where
    raw: "raw = [a0, a1, a2, a3, a4, a5, a6, a7, a8, a9, a10, a11, a12, a13, a14, a15]"
  proof (rule that)
    have upto: "[0..<16] = [0, 1, 2, 3, 4, 5, 6, 7, 8, 9, 10, 11, 12, 13, 14, 15 :: nat]" by code_simp
    have "raw = map ((!) raw) [0..<16]" using map_nth [of raw, symmetric] unfolding assms .
    then show "raw = [raw ! 0, raw ! 1, raw ! 2, raw ! 3, raw ! 4, raw ! 5, raw ! 6, raw ! 7, raw ! 8, raw ! 9, raw ! 10,
        raw ! 11, raw ! 12, raw ! 13, raw ! 14, raw ! 15]" by (simp only: upto list.map)
  qed
  have four: "hex_lower 4 = CHR ''4''" by code_simp
  have variant: "hex_lower ((n mod 64 + 128) div 16) \<in> set ''89ab''" for n :: nat
  proof -
    have "\<forall>m \<in> set [0..<64]. hex_lower ((m + 128) div 16) \<in> set ''89ab''" by code_simp
    then show ?thesis by (rule bspec) simp
  qed
  define v where "v = (char_of (of_char a6 mod 16 + 64 :: nat) :: char)"
  define w where "w = (char_of (of_char a8 mod 64 + 128 :: nat) :: char)"
  have v: "(of_char v :: nat) div 16 = 4"
  proof -
    have "(of_char a6 mod 16 + 64 :: nat) < 256" by (rule less_le_trans [of _ "16 + 64"]) simp_all
    then show ?thesis by (simp add: v_def)
  qed
  have w: "hex_lower ((of_char w :: nat) div 16) \<in> set ''89ab''"
  proof -
    have "(of_char a8 mod 64 + 128 :: nat) < 256" by (rule less_le_trans [of _ "64 + 128"]) simp_all
    then have "(of_char w :: nat) = of_char a8 mod 64 + 128" by (simp add: w_def)
    then show ?thesis using variant [of "of_char a8"] by (simp only:)
  qed
  define h where "h = (\<lambda>b :: char. hex_lower ((of_char b :: nat) div 16))"
  define l where "l = (\<lambda>b :: char. hex_lower ((of_char b :: nat) mod 16))"
  have hex: "hex_EncodeToString bytes = concat (map (\<lambda>b. [h b, l b]) bytes)" for bytes
    by (simp add: hex_EncodeToString_def h_def l_def)
  have u: "generateUUID (Some raw) = Inr ([h a0, l a0, h a1, l a1, h a2, l a2, h a3, l a3, CHR ''-'', h a4, l a4, h a5, l a5,
      CHR ''-'', h v, l v, h a7, l a7, CHR ''-'', h w, l w, h a9, l a9, CHR ''-'', h a10, l a10, h a11, l a11, h a12, l a12,
      h a13, l a13, h a14, l a14, h a15, l a15])"
    by (simp add: raw generateUUID_def version_bits variant_bits hex v_def [symmetric] w_def [symmetric])
  have hv: "h v = CHR ''4''" by (simp add: h_def v four)
  have hw: "h w \<in> set ''89ab''" using w by (simp only: h_def)
  show ?thesis unfolding u by (rule exI, rule conjI, rule refl) (use hw in \<open>simp add: hv\<close>)
qed

end
