(* ===== verification/Admin_Access.thy ===== *)
theory Admin_Access
  imports Gateway_Config
begin

text \<open>
  Who may use the admin interface: \<open>internal/admin/auth.go\<close>, \<open>middleware.go\<close>, \<open>integrated_auth.go\<close> and
  \<open>integrated_rbac.go\<close>, and the OIDC validator of the gateway itself, \<open>internal/auth/oidc.go\<close>.

  The authenticated cipher (AES-GCM), the JSON texts of sessions and states, the digest and the OIDC client
  library are parameters; what is used of them is stated where a theorem relies on it.  Base64 is written out.
  An admin request carries its method, cookies, headers, query, form and path parameters; a middleware or a
  handler answers a \<open>gate\<close>: an error, a redirect, or the value it hands on.
\<close>

section \<open>Base64 with the URL alphabet\<close>

definition b64_char :: "nat \<Rightarrow> char" where
  "b64_char n = char_of (if n < 26 then n + 65 else if n < 52 then n + 71 else if n < 62 then n - 4
                         else if n = 62 then 45 else 95)"

definition b64_value :: "char \<Rightarrow> nat option" where
  "b64_value c =
    (let n = of_char c :: nat
     in if 65 \<le> n \<and> n \<le> 90 then Some (n - 65)
        else if 97 \<le> n \<and> n \<le> 122 then Some (n - 71)
        else if 48 \<le> n \<and> n \<le> 57 then Some (n + 4)
        else if n = 45 then Some 62
        else if n = 95 then Some 63
        else None)"

fun b64_encode :: "bool \<Rightarrow> string \<Rightarrow> string" where
  "b64_encode pad [] = []"
| "b64_encode pad [a] =
    [b64_char (of_char a div 4), b64_char (of_char a mod 4 * 16)] @ (if pad then ''=='' else [])"
| "b64_encode pad [a, b] =
    [b64_char (of_char a div 4), b64_char (of_char a mod 4 * 16 + of_char b div 16), b64_char (of_char b mod 16 * 4)]
    @ (if pad then ''='' else [])"
| "b64_encode pad (a # b # c # rest) =
    b64_char (of_char a div 4) # b64_char (of_char a mod 4 * 16 + of_char b div 16)
    # b64_char (of_char b mod 16 * 4 + of_char c div 64) # b64_char (of_char c mod 64) # b64_encode pad rest"

text \<open>The padded decoder: line breaks are skipped, padding ends the text.\<close>

fun b64_quanta :: "string \<Rightarrow> string option" where
  "b64_quanta [] = Some []"
| "b64_quanta (a # b # c # d # rest) =
    (case (b64_value a, b64_value b) of
       (Some w, Some x) \<Rightarrow>
         if c = CHR ''='' then (if d = CHR ''='' \<and> rest = [] then Some [char_of (w * 4 + x div 16)] else None)
         else (case b64_value c of
             None \<Rightarrow> None
           | Some y \<Rightarrow>
               if d = CHR ''=''
               then (if rest = [] then Some [char_of (w * 4 + x div 16), char_of (x mod 16 * 16 + y div 4)] else None)
               else (case (b64_value d, b64_quanta rest) of
                   (Some z, Some bytes) \<Rightarrow>
                     Some (char_of (w * 4 + x div 16) # char_of (x mod 16 * 16 + y div 4) # char_of (y mod 4 * 64 + z) # bytes)
                 | _ \<Rightarrow> None))
     | _ \<Rightarrow> None)"
| "b64_quanta _ = None"

definition b64_DecodeString :: "string \<Rightarrow> string option" where
  "b64_DecodeString s = b64_quanta (filter (\<lambda>c. c \<noteq> CHR 0x0A \<and> c \<noteq> CHR 0x0D) s)"

abbreviation b64_EncodeToString :: "string \<Rightarrow> string" where
  "b64_EncodeToString \<equiv> b64_encode True"

abbreviation b64_RawEncode :: "string \<Rightarrow> string" where
  "b64_RawEncode \<equiv> b64_encode False"

lemma byte_bound: "(of_char (c :: char) :: nat) < 256"
  by (metis of_char_mod_256 mod_less_divisor zero_less_numeral)

lemma b64_char_lt: "n < 64 \<Longrightarrow> (of_char (b64_char n) :: nat) =
    (if n < 26 then n + 65 else if n < 52 then n + 71 else if n < 62 then n - 4 else if n = 62 then 45 else 95)"
  by (auto simp: b64_char_def)

lemma b64_value_char [simp]: "n < 64 \<Longrightarrow> b64_value (b64_char n) = Some n"
  unfolding b64_value_def Let_def by (simp only: b64_char_lt) auto

lemma of_char_neq: "(of_char c :: nat) \<noteq> of_char d \<Longrightarrow> c \<noteq> (d :: char)"
  by auto

lemma b64_char_plain [simp]:
  assumes "n < 64"
  shows "b64_char n \<noteq> CHR ''=''" "b64_char n \<noteq> CHR 0x0A" "b64_char n \<noteq> CHR 0x0D"
  using b64_char_lt [OF assms] by (auto intro!: of_char_neq split: if_splits)

lemma sextets:
  fixes x y z :: nat
  assumes "x < 256" "y < 256" "z < 256"
  shows "x div 4 < 64" "x mod 4 * 16 < 64" "x mod 4 * 16 + y div 16 < 64" "y mod 16 * 4 < 64"
    "y mod 16 * 4 + z div 64 < 64" "z mod 64 < 64"
  using assms by (simp_all add: less_mult_imp_div_less)

lemma octets:
  fixes x y z :: nat
  assumes "x < 256" "y < 256" "z < 256"
  shows "x + y div 16 div 16 = x" "y div 16 mod 16 * 16 + (y mod 16 + z div 64 div 4) = y"
    "y div 16 mod 16 * 16 + y mod 16 = y" "z div 64 mod 4 * 64 + z mod 64 = z"
proof -
  show "x + y div 16 div 16 = x" using assms(2) by (simp add: div_mult2_eq [symmetric])
  show "z div 64 mod 4 * 64 + z mod 64 = z" "y div 16 mod 16 * 16 + y mod 16 = y"
    using assms(2,3) by (simp_all add: less_mult_imp_div_less)
  then show "y div 16 mod 16 * 16 + (y mod 16 + z div 64 div 4) = y"
    using assms(3) by (simp add: div_mult2_eq [symmetric])
qed

lemmas char_sextets [simp] = sextets [OF byte_bound byte_bound byte_bound] octets [OF byte_bound byte_bound byte_bound]

lemma b64_no_breaks: "filter (\<lambda>c. c \<noteq> CHR 0x0A \<and> c \<noteq> CHR 0x0D) (b64_encode pad s) = b64_encode pad s"
  by (induction pad s rule: b64_encode.induct) simp_all

lemma b64_quanta_encode: "b64_quanta (b64_encode True s) = Some s"
proof (induction True s rule: b64_encode.induct)
  case (4 a b c rest)
  then show ?case by (simp del: One_nat_def)
qed simp_all

lemma b64_roundtrip [simp]: "b64_DecodeString (b64_EncodeToString s) = Some s"
  by (simp add: b64_DecodeString_def b64_no_breaks b64_quanta_encode)

section \<open>Requests and answers\<close>

record admin_request =
  aq_Method :: string
  aq_Cookies :: "(string \<times> string) list"
  aq_Header :: "string \<Rightarrow> string"
  aq_Query :: "string \<Rightarrow> string"
  aq_Form :: "string \<Rightarrow> string list"
  aq_FormOK :: bool
  aq_Param :: "string \<Rightarrow> string"

definition FormValue :: "admin_request \<Rightarrow> string \<Rightarrow> string" where
  "FormValue r key = (case aq_Form r key of [] \<Rightarrow> '''' | v # _ \<Rightarrow> v)"

datatype 'a gate =
    HTTPError int string
  | Redirect int string
  | IntegratedError int string string
  | Pass 'a

record Cookie =
  ck_Name :: string
  ck_Value :: string
  ck_Path :: string
  ck_HttpOnly :: bool
  ck_Secure :: bool
  ck_SameSiteStrict :: bool
  ck_MaxAge :: int

definition stateCookieName :: string where "stateCookieName = ''__mcpgw_state''"
definition sessionCookieName :: string where "sessionCookieName = ''__mcpgw_admin''"

abbreviation admin_cookie :: "string \<Rightarrow> string \<Rightarrow> int \<Rightarrow> Cookie" where
  "admin_cookie name value maxAge \<equiv>
    \<lparr>ck_Name = name, ck_Value = value, ck_Path = ''/admin/'', ck_HttpOnly = True, ck_Secure = True,
     ck_SameSiteStrict = True, ck_MaxAge = maxAge\<rparr>"

section \<open>Scopes and the OIDC validator\<close>

definition add_scope :: "string list \<Rightarrow> string \<Rightarrow> string list" where
  "add_scope scopes s = (let trimmed = TrimSpace s in if trimmed = '''' \<or> trimmed \<in> set scopes then scopes else scopes @ [trimmed])"

definition mergeScopes :: "string list \<Rightarrow> string \<Rightarrow> string list" where
  "mergeScopes groups scopeClaim = foldl add_scope (foldl add_scope [] groups) (Fields scopeClaim)"

definition coalesce :: "string list \<Rightarrow> string" where
  "coalesce values = (case find (\<lambda>v. TrimSpace v \<noteq> '''') values of None \<Rightarrow> '''' | Some v \<Rightarrow> v)"

record oidcClaims =
  ocl_Subject :: string
  ocl_Email :: string
  ocl_Name :: string
  ocl_PreferredUsername :: string
  ocl_Groups :: "string list"
  ocl_Scope :: string

text \<open>\<open>discover\<close> and \<open>verify\<close> are the client library: a verified token has an issuer and claims, which may
  not parse.\<close>

definition NewOIDCValidator :: "(string \<Rightarrow> string \<Rightarrow> 'v option) \<Rightarrow> string \<Rightarrow> string \<Rightarrow> string + 'v" where
  "NewOIDCValidator discover issuerURL audience =
    (if TrimSpace issuerURL = '''' then Inl ''new oidc validator: issuer URL is required''
     else if TrimSpace audience = '''' then Inl ''new oidc validator: audience is required''
     else case discover issuerURL audience of
         None \<Rightarrow> Inl ''new oidc validator: discover provider''
       | Some v \<Rightarrow> Inr v)"

definition OIDC_Validate :: "(string \<Rightarrow> (string \<times> oidcClaims option) option) option \<Rightarrow> string \<Rightarrow> string + Identity" where
  "OIDC_Validate verifier rawToken =
    (case verifier of
       None \<Rightarrow> Inl ''validate oidc token: validator is not configured''
     | Some verify \<Rightarrow>
         if TrimSpace rawToken = '''' then Inl ''validate oidc token: token is required''
         else case verify rawToken of
             None \<Rightarrow> Inl ''validate oidc token: verify token''
           | Some (issuer, None) \<Rightarrow> Inl ''validate oidc token: parse claims''
           | Some (issuer, Some claims) \<Rightarrow>
               if TrimSpace (ocl_Subject claims) = '''' then Inl ''validate oidc token: subject claim is required''
               else Inr \<lparr>id_Type = IdentityOIDC, id_ID = ocl_Subject claims,
                         id_Scopes = mergeScopes (ocl_Groups claims) (ocl_Scope claims),
                         id_Metadata = [(''auth_method'', ''oidc''), (''email'', ocl_Email claims),
                           (''display_name'', coalesce [ocl_Name claims, ocl_PreferredUsername claims, ocl_Email claims]),
                           (''issuer'', issuer)]\<rparr>)"

section \<open>Sessions\<close>

record AdminSession =
  as_Subject :: string
  as_Email :: string
  as_Scopes :: "string list"
  as_CSRFToken :: string
  as_ExpiresAt :: "time option"

text \<open>The cipher: the size of its nonce, sealing and opening with a nonce.\<close>

record aead =
  ae_NonceSize :: nat
  ae_Seal :: "string \<Rightarrow> string \<Rightarrow> string"
  ae_Open :: "string \<Rightarrow> string \<Rightarrow> string option"

text \<open>The JSON texts of sessions and of login states, \<open>{"verifier": ...}\<close>.\<close>

record session_json =
  sj_marshal :: "AdminSession \<Rightarrow> string option"
  sj_unmarshal :: "string \<Rightarrow> AdminSession option"
  sj_marshal_state :: "string \<Rightarrow> string option"
  sj_unmarshal_state :: "string \<Rightarrow> string option"

record AdminAuth =
  aa_RequiredScope :: string
  aa_ClientID :: string
  aa_ClientSecret :: string
  aa_RedirectURL :: string
  aa_aead :: aead
  aa_sessionTTL :: duration

definition TrimRight :: "char \<Rightarrow> string \<Rightarrow> string" where
  "TrimRight c s = rev (dropWhile (\<lambda>x. x = c) (rev s))"

text \<open>\<open>discovered\<close>: the provider of the issuer answers; \<open>gcm\<close>: the cipher for a key.\<close>

definition NewAdminAuth :: "bool \<Rightarrow> (string \<Rightarrow> aead) \<Rightarrow> GatewayConfig \<Rightarrow> AdminAuth option" where
  "NewAdminAuth discovered gcm cfg =
    (if \<not> discovered then None
     else
       let base = TrimRight (CHR ''/'') (gc_AdminExternalURL cfg) @ ''/admin/callback'';
           callbackURL = (if base = ''/admin/callback''
                          then if HasPrefix (gc_ListenAddr cfg) '':'' then ''/admin/callback''
                               else TrimRight (CHR ''/'') (gc_ListenAddr cfg) @ ''/admin/callback''
                          else base)
       in Some \<lparr>aa_RequiredScope = gc_AdminRequiredScope cfg, aa_ClientID = gc_AdminOIDCClientID cfg,
                aa_ClientSecret = gc_AdminOIDCClientSecret cfg, aa_RedirectURL = callbackURL,
                aa_aead = gcm (gc_AdminSessionKey cfg),
                aa_sessionTTL = (if gc_AdminSessionTTL cfg \<le> 0 then 8 * (60 * Minute) else gc_AdminSessionTTL cfg)\<rparr>)"

text \<open>Sealing a text under a fresh nonce, and opening it, as sessions and states do; \<open>nonce\<close> is what the
  random source returned.\<close>

definition seal_text :: "aead \<Rightarrow> string option \<Rightarrow> string option \<Rightarrow> string option" where
  "seal_text A plaintext nonce =
    (case plaintext of
       None \<Rightarrow> None
     | Some p \<Rightarrow> (case nonce of None \<Rightarrow> None | Some n \<Rightarrow> Some (b64_EncodeToString (n @ ae_Seal A n p))))"

definition open_text :: "aead \<Rightarrow> string \<Rightarrow> string option" where
  "open_text A value =
    (case b64_DecodeString value of
       None \<Rightarrow> None
     | Some d \<Rightarrow>
         if length d < ae_NonceSize A then None
         else ae_Open A (take (ae_NonceSize A) d) (drop (ae_NonceSize A) d))"

definition encryptSession :: "session_json \<Rightarrow> AdminAuth \<Rightarrow> string option \<Rightarrow> AdminSession \<Rightarrow> string option" where
  "encryptSession J a nonce session = seal_text (aa_aead a) (sj_marshal J session) nonce"

definition DecryptSession :: "session_json \<Rightarrow> time \<Rightarrow> AdminAuth \<Rightarrow> string \<Rightarrow> AdminSession option" where
  "DecryptSession J now a cookieValue =
    (case open_text (aa_aead a) cookieValue of
       None \<Rightarrow> None
     | Some plaintext \<Rightarrow>
         (case sj_unmarshal J plaintext of
            None \<Rightarrow> None
          | Some session \<Rightarrow>
              (case as_ExpiresAt session of
                 None \<Rightarrow> None
               | Some t \<Rightarrow> if now > t then None else Some session)))"

definition generateState :: "session_json \<Rightarrow> AdminAuth \<Rightarrow> string option \<Rightarrow> string \<Rightarrow> string option" where
  "generateState J a nonce verifier = seal_text (aa_aead a) (sj_marshal_state J verifier) nonce"

definition extractVerifierFromState :: "session_json \<Rightarrow> AdminAuth \<Rightarrow> string \<Rightarrow> string option" where
  "extractVerifierFromState J a state =
    (case open_text (aa_aead a) state of None \<Rightarrow> None | Some plaintext \<Rightarrow> sj_unmarshal_state J plaintext)"

definition generatePKCEVerifier :: "string option \<Rightarrow> string option" where
  "generatePKCEVerifier random = map_option b64_RawEncode random"

definition pkceS256Challenge :: "(string \<Rightarrow> string) \<Rightarrow> string \<Rightarrow> string" where
  "pkceS256Challenge sha256 verifier = b64_RawEncode (sha256 verifier)"

definition generateRandomBase64 :: "string option \<Rightarrow> string option" where
  "generateRandomBase64 random = map_option b64_RawEncode random"

definition admin_mergeScopes :: "string list \<Rightarrow> string \<Rightarrow> string list" where
  "admin_mergeScopes groups scopeClaim = foldl add_scope (foldl add_scope [] groups) (Fields scopeClaim)"

definition hasScope :: "string list \<Rightarrow> string \<Rightarrow> bool" where
  "hasScope scopes required = list_ex (\<lambda>s. s = required) scopes"

section \<open>Login\<close>

text \<open>The library: the digest, the address of the provider's login page, the exchange of a code (which may
  fail, or give no ID token) and the verification of an ID token (which may fail, or give claims that do not
  parse).\<close>

record id_claims =
  ic_Subject :: string
  ic_Email :: string
  ic_Groups :: "string list"
  ic_Scope :: string

record oidc_client =
  ol_sha256 :: "string \<Rightarrow> string"
  ol_AuthCodeURL :: "string \<Rightarrow> string \<Rightarrow> string"
  ol_Exchange :: "string \<Rightarrow> string \<Rightarrow> string option option"
  ol_Verify :: "string \<Rightarrow> id_claims option option"

definition HandleLogin ::
  "session_json \<Rightarrow> oidc_client \<Rightarrow> string option \<Rightarrow> string option \<Rightarrow> AdminAuth \<Rightarrow> Cookie list \<times> unit gate" where
  "HandleLogin J L random nonce a =
    (case generatePKCEVerifier random of
       None \<Rightarrow> ([], HTTPError 500 ''internal error'')
     | Some verifier \<Rightarrow>
         (let challenge = pkceS256Challenge (ol_sha256 L) verifier
          in case generateState J a nonce verifier of
              None \<Rightarrow> ([], HTTPError 500 ''internal error'')
            | Some state \<Rightarrow>
                ([admin_cookie stateCookieName state 600], Redirect 302 (ol_AuthCodeURL L state challenge))))"

definition HandleCallback ::
  "session_json \<Rightarrow> oidc_client \<Rightarrow> time \<Rightarrow> string option \<Rightarrow> string option \<Rightarrow> AdminAuth \<Rightarrow> admin_request
   \<Rightarrow> Cookie list \<times> unit gate" where
  "HandleCallback J L now random nonce a r =
    (case map_of (aq_Cookies r) stateCookieName of
       None \<Rightarrow> ([], HTTPError 400 ''missing state cookie'')
     | Some stateValue \<Rightarrow>
         if aq_Query r ''state'' \<noteq> stateValue then ([], HTTPError 400 ''state mismatch'')
         else case extractVerifierFromState J a stateValue of
             None \<Rightarrow> ([], HTTPError 400 ''invalid state'')
           | Some verifier \<Rightarrow>
               let cleared = admin_cookie stateCookieName '''' (- 1);
                   code = aq_Query r ''code''
               in if TrimSpace code = '''' then ([cleared], HTTPError 400 ''missing authorization code'')
                  else case ol_Exchange L code verifier of
                      None \<Rightarrow> ([cleared], HTTPError 500 ''token exchange failed'')
                    | Some None \<Rightarrow> ([cleared], HTTPError 500 ''missing id_token in response'')
                    | Some (Some rawIDToken) \<Rightarrow>
                        (case ol_Verify L rawIDToken of
                           None \<Rightarrow> ([cleared], HTTPError 401 ''id_token verification failed'')
                         | Some None \<Rightarrow> ([cleared], HTTPError 500 ''parse claims failed'')
                         | Some (Some claims) \<Rightarrow>
                             (let scopes = admin_mergeScopes (ic_Groups claims) (ic_Scope claims)
                              in if \<not> hasScope scopes (aa_RequiredScope a)
                                 then ([cleared], HTTPError 403
                                        (''insufficient permissions: missing '' @ aa_RequiredScope a @ '' scope''))
                                 else case generateRandomBase64 random of
                                     None \<Rightarrow> ([cleared], HTTPError 500 ''internal error'')
                                   | Some csrfToken \<Rightarrow>
                                       (let session = \<lparr>as_Subject = ic_Subject claims, as_Email = ic_Email claims,
                                              as_Scopes = scopes, as_CSRFToken = csrfToken,
                                              as_ExpiresAt = Some (now + aa_sessionTTL a)\<rparr>
                                        in case encryptSession J a nonce session of
                                            None \<Rightarrow> ([cleared], HTTPError 500 ''internal error'')
                                          | Some encrypted \<Rightarrow>
                                              ([cleared, admin_cookie sessionCookieName encrypted (aa_sessionTTL a div Second)],
                                               Redirect 302 ''/admin/'')))))"

section \<open>Middleware of the standalone interface\<close>

definition dev_session :: "time \<Rightarrow> AdminSession" where
  "dev_session now =
    \<lparr>as_Subject = ''dev-user'', as_Email = ''dev@localhost'', as_Scopes = [''admin''], as_CSRFToken = ''dev-csrf-token'',
     as_ExpiresAt = Some (now + 24 * (60 * Minute))\<rparr>"

definition AdminAuthMiddleware ::
  "session_json \<Rightarrow> time \<Rightarrow> AdminAuth \<Rightarrow> bool \<Rightarrow> admin_request \<Rightarrow> AdminSession gate" where
  "AdminAuthMiddleware J now auth devMode r =
    (if devMode then Pass (dev_session now)
     else case map_of (aq_Cookies r) sessionCookieName of
         None \<Rightarrow> Redirect 302 ''/admin/login''
       | Some value \<Rightarrow>
           (case DecryptSession J now auth value of
              None \<Rightarrow> Redirect 302 ''/admin/login''
            | Some session \<Rightarrow> Pass session))"

definition CSRFMiddleware :: "admin_request \<Rightarrow> AdminSession option \<Rightarrow> unit gate" where
  "CSRFMiddleware r session =
    (if aq_Method r = ''GET'' \<or> aq_Method r = ''HEAD'' \<or> aq_Method r = ''OPTIONS'' then Pass ()
     else case session of
         None \<Rightarrow> HTTPError 403 ''no session''
       | Some s \<Rightarrow>
           (let csrfToken = (let t = FormValue r ''_csrf'' in if t = '''' then aq_Header r ''X-CSRF-Token'' else t)
            in if TrimSpace csrfToken = '''' \<or> csrfToken \<noteq> as_CSRFToken s then HTTPError 403 ''invalid CSRF token''
               else Pass ()))"

text \<open>\<open>AdminAuthMiddleware\<close> followed by \<open>CSRFMiddleware\<close>, as \<open>NewRouter\<close> composes them.\<close>

definition standalone_gate ::
  "session_json \<Rightarrow> time \<Rightarrow> AdminAuth \<Rightarrow> bool \<Rightarrow> admin_request \<Rightarrow> AdminSession gate" where
  "standalone_gate J now auth devMode r =
    (case AdminAuthMiddleware J now auth devMode r of
       Pass session \<Rightarrow>
         (case CSRFMiddleware r (Some session) of
            Pass _ \<Rightarrow> Pass session
          | HTTPError c m \<Rightarrow> HTTPError c m
          | Redirect c u \<Rightarrow> Redirect c u
          | IntegratedError c k m \<Rightarrow> IntegratedError c k m)
     | HTTPError c m \<Rightarrow> HTTPError c m
     | Redirect c u \<Rightarrow> Redirect c u
     | IntegratedError c k m \<Rightarrow> IntegratedError c k m)"

definition SecurityHeaders :: "(string \<times> string) list" where
  "SecurityHeaders =
    [(''X-Content-Type-Options'', ''nosniff''), (''X-Frame-Options'', ''DENY''),
     (''Referrer-Policy'', ''strict-origin-when-cross-origin''),
     (''Permissions-Policy'', ''camera=(), microphone=(), geolocation=()'')]"

section \<open>Delegated access in integrated mode\<close>

record IntegratedDelegatedIdentity =
  di_Subject :: string
  di_Email :: string
  di_TenantID :: string
  di_Role :: string
  di_GatewayRole :: string

definition admin_extractBearerToken :: "string \<Rightarrow> string option" where
  "admin_extractBearerToken value =
    (let v = TrimSpace value
     in if \<not> HasPrefix v ''Bearer '' then None
        else let token = TrimSpace (TrimPrefix v ''Bearer '') in if token = '''' then None else Some token)"

definition isValidGatewayRole :: "string \<Rightarrow> bool" where
  "isValidGatewayRole role = (role = ''viewer'' \<or> role = ''editor'' \<or> role = ''admin'')"

definition roleRank :: "string \<Rightarrow> nat" where
  "roleRank role = (if role = ''admin'' then 3 else if role = ''editor'' then 2 else 1)"

definition IntegratedDelegatedAuthMiddleware ::
  "string \<Rightarrow> admin_request \<Rightarrow> IntegratedDelegatedIdentity gate" where
  "IntegratedDelegatedAuthMiddleware platformServiceToken r =
    (let expectedToken = TrimSpace platformServiceToken;
         header = (\<lambda>h. TrimSpace (aq_Header r h))
     in if map_of (aq_Cookies r) sessionCookieName \<noteq> None
        then IntegratedError 403 ''INVALID_TOKEN'' ''local admin cookie authentication is disabled in integrated mode''
        else case admin_extractBearerToken (aq_Header r ''Authorization'') of
            None \<Rightarrow> IntegratedError 401 ''INVALID_TOKEN'' ''missing or invalid Authorization bearer token''
          | Some token \<Rightarrow>
              if token \<noteq> expectedToken then IntegratedError 401 ''INVALID_TOKEN'' ''invalid platform service token''
              else
                let subject = header ''X-Cruvero-Subject'';
                    email = header ''X-Cruvero-Email'';
                    tenantID = header ''X-Cruvero-Tenant-ID'';
                    role = header ''X-Cruvero-Role'';
                    gatewayRole = ToLower (header ''X-Cruvero-Gateway-Role'');
                    missingHeader = (if subject = '''' then ''X-Cruvero-Subject''
                      else if email = '''' then ''X-Cruvero-Email''
                      else if tenantID = '''' then ''X-Cruvero-Tenant-ID''
                      else if role = '''' then ''X-Cruvero-Role''
                      else if gatewayRole = '''' then ''X-Cruvero-Gateway-Role''
                      else '''')
                in if missingHeader \<noteq> ''''
                   then IntegratedError 400 ''MISSING_HEADER'' (''missing required header: '' @ missingHeader)
                   else if \<not> isValidGatewayRole gatewayRole
                   then IntegratedError 403 ''INVALID_GATEWAY_ROLE'' ''invalid X-Cruvero-Gateway-Role''
                   else Pass \<lparr>di_Subject = subject, di_Email = email, di_TenantID = tenantID, di_Role = role,
                              di_GatewayRole = gatewayRole\<rparr>)"

definition RequireGatewayRole :: "string \<Rightarrow> IntegratedDelegatedIdentity option \<Rightarrow> IntegratedDelegatedIdentity gate" where
  "RequireGatewayRole minRole i =
    (case i of
       None \<Rightarrow> IntegratedError 401 ''INVALID_TOKEN'' ''delegated identity is missing''
     | Some d \<Rightarrow>
         if roleRank (di_GatewayRole d) < roleRank minRole
         then IntegratedError 403 ''INSUFFICIENT_ROLE'' ''insufficient gateway role''
         else Pass d)"

definition delegatedActor :: "IntegratedDelegatedIdentity option \<Rightarrow> string" where
  "delegatedActor i =
    (case i of
       None \<Rightarrow> ''platform''
     | Some d \<Rightarrow>
         if TrimSpace (di_Email d) \<noteq> '''' then TrimSpace (di_Email d)
         else if TrimSpace (di_Subject d) \<noteq> '''' then TrimSpace (di_Subject d)
         else ''platform'')"

section \<open>Scopes\<close>

lemma add_scopes_set:
  "set (foldl add_scope acc xs) = set acc \<union> {TrimSpace x | x. x \<in> set xs \<and> TrimSpace x \<noteq> ''''}"
  by (induction xs arbitrary: acc) (auto simp: add_scope_def Let_def)

lemma add_scopes_distinct: "distinct acc \<Longrightarrow> distinct (foldl add_scope acc xs)"
  by (induction xs arbitrary: acc) (auto simp: add_scope_def Let_def)

lemma admin_mergeScopes_set:
  "s \<in> set (admin_mergeScopes groups scopeClaim) \<longleftrightarrow> s \<noteq> '''' \<and> s \<in> TrimSpace ` (set groups \<union> set (Fields scopeClaim))"
  by (auto simp: admin_mergeScopes_def add_scopes_set)

lemma mergeScopes_set:
  "s \<in> set (mergeScopes groups scopeClaim) \<longleftrightarrow> s \<noteq> '''' \<and> s \<in> TrimSpace ` (set groups \<union> set (Fields scopeClaim))"
  by (auto simp: mergeScopes_def add_scopes_set)

lemma hasScope_set [simp]: "hasScope scopes required \<longleftrightarrow> required \<in> set scopes"
  by (auto simp: hasScope_def list_ex_iff)

text \<open>The identity the OIDC validator makes of a verified token.\<close>

lemma OIDC_Validate_identity:
  assumes "OIDC_Validate verifier raw = Inr d"
  shows "\<exists>verify issuer claims. verifier = Some verify \<and> verify raw = Some (issuer, Some claims)
    \<and> id_Type d = IdentityOIDC \<and> id_ID d = ocl_Subject claims \<and> TrimSpace (id_ID d) \<noteq> ''''
    \<and> distinct (id_Scopes d) \<and> set (id_Scopes d) = TrimSpace ` (set (ocl_Groups claims) \<union> set (Fields (ocl_Scope claims))) - {''''}
    \<and> metadata d ''issuer'' = issuer"
  using assms
  by (auto simp: OIDC_Validate_def metadata_def mergeScopes_def add_scopes_set add_scopes_distinct
      split: option.splits if_splits prod.splits)

section \<open>Sealed texts\<close>

text \<open>What is used of the cipher, as AES-GCM documents it: opening what was sealed under the same nonce gives
  the text, and nothing else opens.\<close>

definition aead_ok :: "aead \<Rightarrow> bool" where
  "aead_ok A =
    ((\<forall>n p. length n = ae_NonceSize A \<longrightarrow> ae_Open A n (ae_Seal A n p) = Some p) \<and>
     (\<forall>n c p. length n = ae_NonceSize A \<longrightarrow> ae_Open A n c = Some p \<longrightarrow> c = ae_Seal A n p))"

lemma open_sealed:
  assumes "aead_ok A" "length n = ae_NonceSize A"
  shows "open_text A (b64_EncodeToString (n @ ae_Seal A n p)) = Some p"
  using assms by (simp add: open_text_def aead_ok_def)

lemma opened_was_sealed:
  assumes "aead_ok A" "open_text A value = Some p"
  shows "\<exists>n. length n = ae_NonceSize A \<and> b64_DecodeString value = Some (n @ ae_Seal A n p)"
proof -
  obtain d where d: "b64_DecodeString value = Some d" and len: "\<not> length d < ae_NonceSize A"
    and o: "ae_Open A (take (ae_NonceSize A) d) (drop (ae_NonceSize A) d) = Some p"
    using assms(2) by (auto simp: open_text_def split: option.splits if_splits)
  let ?n = "take (ae_NonceSize A) d"
  have "length ?n = ae_NonceSize A" using len by simp
  moreover from this have "drop (ae_NonceSize A) d = ae_Seal A ?n p" using assms(1) o unfolding aead_ok_def by blast
  ultimately show ?thesis using d by (metis append_take_drop_id)
qed

lemma DecryptSession_sealed:
  assumes "aead_ok (aa_aead a)" "DecryptSession J now a v = Some s"
  shows "\<exists>n p t. length n = ae_NonceSize (aa_aead a) \<and> b64_DecodeString v = Some (n @ ae_Seal (aa_aead a) n p)
    \<and> sj_unmarshal J p = Some s \<and> as_ExpiresAt s = Some t \<and> now \<le> t"
proof -
  obtain p t where o: "open_text (aa_aead a) v = Some p" and s: "sj_unmarshal J p = Some s"
    "as_ExpiresAt s = Some t" "now \<le> t"
    using assms(2) by (auto simp: DecryptSession_def split: option.splits if_splits)
  show ?thesis using opened_was_sealed [OF assms(1) o] s by blast
qed

lemma DecryptSession_encrypted:
  assumes "aead_ok (aa_aead a)" "length n = ae_NonceSize (aa_aead a)" "sj_marshal J s = Some p" "sj_unmarshal J p = Some s"
    "encryptSession J a (Some n) s = Some v" "as_ExpiresAt s = Some t"
  shows "DecryptSession J now a v = (if now \<le> t then Some s else None)"
proof -
  have "v = b64_EncodeToString (n @ ae_Seal (aa_aead a) n p)"
    using assms(3,5) by (simp add: encryptSession_def seal_text_def)
  then have "open_text (aa_aead a) v = Some p" using open_sealed [OF assms(1,2)] by simp
  then show ?thesis using assms(4,6) by (simp add: DecryptSession_def)
qed

section \<open>Logging in\<close>

lemma HandleCallback_session:
  assumes "HandleCallback J L now random nonce a r = (cookies, reply)" and "c \<in> set cookies" "ck_Name c = sessionCookieName"
  obtains st verifier raw claims csrf where
    "map_of (aq_Cookies r) stateCookieName = Some st" "aq_Query r ''state'' = st"
    "extractVerifierFromState J a st = Some verifier"
    "ol_Exchange L (aq_Query r ''code'') verifier = Some (Some raw)" "ol_Verify L raw = Some (Some claims)"
    "hasScope (admin_mergeScopes (ic_Groups claims) (ic_Scope claims)) (aa_RequiredScope a)"
    "generateRandomBase64 random = Some csrf"
    "encryptSession J a nonce \<lparr>as_Subject = ic_Subject claims, as_Email = ic_Email claims,
        as_Scopes = admin_mergeScopes (ic_Groups claims) (ic_Scope claims), as_CSRFToken = csrf,
        as_ExpiresAt = Some (now + aa_sessionTTL a)\<rparr> = Some (ck_Value c)"
    "reply = Redirect 302 ''/admin/''"
proof -
  have other: "stateCookieName \<noteq> sessionCookieName" by (simp add: stateCookieName_def sessionCookieName_def)
  show ?thesis
    using assms other that
    by (simp add: HandleCallback_def Let_def split: option.splits if_splits) auto
qed

text \<open>C32. \<^bold>\<open>A session cookie is only issued at the end of a login, and is good for its lifetime.\<close>  When the
  callback sets a session cookie, the browser sent a state cookie that equals the state in the query and was
  sealed with the gateway's key; the code was exchanged with the verifier sealed in it; the ID token was verified;
  and the required scope is among the groups and scopes of its claims.  The cookie is not readable by scripts and
  sent only over TLS, and at every later instant up to its expiry it decrypts to the session of these claims, and
  after that to nothing.  Assumed: the cipher opens exactly what was sealed, and reading the JSON text of a session
  gives the session back.\<close>

theorem admin_login_sound:
  assumes aead: "aead_ok (aa_aead a)" and nonce: "length nonce = ae_NonceSize (aa_aead a)"
    and json: "\<And>s p. sj_marshal J s = Some p \<Longrightarrow> sj_unmarshal J p = Some s"
    and callback: "HandleCallback J L now random (Some nonce) a r = (cookies, reply)"
    and cookie: "c \<in> set cookies" "ck_Name c = sessionCookieName"
  shows "\<exists>st n p verifier raw claims s.
      map_of (aq_Cookies r) stateCookieName = Some st \<and> aq_Query r ''state'' = st
    \<and> b64_DecodeString st = Some (n @ ae_Seal (aa_aead a) n p) \<and> sj_unmarshal_state J p = Some verifier
    \<and> ol_Exchange L (aq_Query r ''code'') verifier = Some (Some raw) \<and> ol_Verify L raw = Some (Some claims)
    \<and> aa_RequiredScope a \<in> TrimSpace ` (set (ic_Groups claims) \<union> set (Fields (ic_Scope claims)))
    \<and> as_Subject s = ic_Subject claims \<and> as_Email s = ic_Email claims
    \<and> ck_HttpOnly c \<and> ck_Secure c
    \<and> (\<forall>t. DecryptSession J t a (ck_Value c) = (if t \<le> now + aa_sessionTTL a then Some s else None))"
proof -
  obtain st verifier raw claims csrf where
    st: "map_of (aq_Cookies r) stateCookieName = Some st" "aq_Query r ''state'' = st"
    and ver: "extractVerifierFromState J a st = Some verifier"
    and ex: "ol_Exchange L (aq_Query r ''code'') verifier = Some (Some raw)" "ol_Verify L raw = Some (Some claims)"
    and scope: "hasScope (admin_mergeScopes (ic_Groups claims) (ic_Scope claims)) (aa_RequiredScope a)"
    and enc: "encryptSession J a (Some nonce) \<lparr>as_Subject = ic_Subject claims, as_Email = ic_Email claims,
        as_Scopes = admin_mergeScopes (ic_Groups claims) (ic_Scope claims), as_CSRFToken = csrf,
        as_ExpiresAt = Some (now + aa_sessionTTL a)\<rparr> = Some (ck_Value c)"
    by (rule HandleCallback_session [OF callback cookie])
  let ?s = "\<lparr>as_Subject = ic_Subject claims, as_Email = ic_Email claims,
        as_Scopes = admin_mergeScopes (ic_Groups claims) (ic_Scope claims), as_CSRFToken = csrf,
        as_ExpiresAt = Some (now + aa_sessionTTL a)\<rparr>"
  obtain p where p: "open_text (aa_aead a) st = Some p" "sj_unmarshal_state J p = Some verifier"
    using ver by (auto simp: extractVerifierFromState_def split: option.splits)
  obtain n where n: "b64_DecodeString st = Some (n @ ae_Seal (aa_aead a) n p)"
    using opened_was_sealed [OF aead p(1)] by blast
  obtain q where q: "sj_marshal J ?s = Some q"
    using enc by (auto simp: encryptSession_def seal_text_def split: option.splits)
  have dec: "DecryptSession J t a (ck_Value c) = (if t \<le> now + aa_sessionTTL a then Some ?s else None)" for t
    by (rule DecryptSession_encrypted [OF aead nonce q json [OF q] enc]) simp
  have flags: "ck_HttpOnly c" "ck_Secure c"
    using callback cookie(1) by (auto simp: HandleCallback_def Let_def split: option.splits if_splits)
  show ?thesis
    using st n p(2) ex scope dec flags
    by (intro exI [of _ st] exI [of _ n] exI [of _ p] exI [of _ verifier] exI [of _ raw] exI [of _ claims] exI [of _ ?s])
      (simp add: admin_mergeScopes_set)
qed

text \<open>A cipher that satisfies the assumption, and a login with it.\<close>

definition example_aead :: aead where
  "example_aead = \<lparr>ae_NonceSize = 1, ae_Seal = (\<lambda>n p. n @ p),
     ae_Open = (\<lambda>n c. if take 1 c = n then Some (drop 1 c) else None)\<rparr>"

definition example_session :: AdminSession where
  "example_session = \<lparr>as_Subject = ''u1'', as_Email = ''u1@example.com'', as_Scopes = [''admin''], as_CSRFToken = ''eA'',
     as_ExpiresAt = Some 100\<rparr>"

definition example_json :: session_json where
  "example_json = \<lparr>sj_marshal = (\<lambda>s. if s = example_session then Some ''{}'' else None),
     sj_unmarshal = (\<lambda>p. if p = ''{}'' then Some example_session else None),
     sj_marshal_state = Some, sj_unmarshal_state = Some\<rparr>"

definition example_client :: oidc_client where
  "example_client = \<lparr>ol_sha256 = (\<lambda>s. s), ol_AuthCodeURL = (\<lambda>s c. s),
     ol_Exchange = (\<lambda>code v. if code = ''code'' \<and> v = ''v'' then Some (Some ''tok'') else None),
     ol_Verify = (\<lambda>t. Some (Some \<lparr>ic_Subject = ''u1'', ic_Email = ''u1@example.com'', ic_Groups = [''admin''], ic_Scope = ''''\<rparr>))\<rparr>"

definition example_adminauth :: AdminAuth where
  "example_adminauth = \<lparr>aa_RequiredScope = ''admin'', aa_ClientID = ''c'', aa_ClientSecret = ''s'', aa_RedirectURL = ''/admin/callback'',
     aa_aead = example_aead, aa_sessionTTL = 60\<rparr>"

definition example_callback :: admin_request where
  "example_callback = \<lparr>aq_Method = ''GET'', aq_Cookies = [(stateCookieName, b64_EncodeToString (''n'' @ ''nv''))],
     aq_Header = (\<lambda>_. ''''), aq_Query = (\<lambda>k. if k = ''state'' then b64_EncodeToString (''n'' @ ''nv'') else if k = ''code'' then ''code'' else ''''),
     aq_Form = (\<lambda>_. []), aq_FormOK = True, aq_Param = (\<lambda>_. '''')\<rparr>"

lemma example_aead_ok: "aead_ok (aa_aead example_adminauth)"
  by (auto simp: aead_ok_def example_adminauth_def example_aead_def length_Suc_conv)
    (metis append_Cons append_Nil append_take_drop_id)

theorem admin_login_sound_witness:
  "\<exists>c st s. c \<in> set (fst (HandleCallback example_json example_client 40 (Some ''x'') (Some ''n'') example_adminauth example_callback))
    \<and> ck_Name c = sessionCookieName \<and> map_of (aq_Cookies example_callback) stateCookieName = Some st
    \<and> aq_Query example_callback ''state'' = st \<and> as_Subject s = ''u1'' \<and> ck_HttpOnly c
    \<and> (\<forall>t. DecryptSession example_json t example_adminauth (ck_Value c) = (if t \<le> 100 then Some s else None))"
proof -
  let ?h = "HandleCallback example_json example_client 40 (Some ''x'') (Some ''n'') example_adminauth example_callback"
  obtain cookies reply where h: "?h = (cookies, reply)" by fastforce
  have "list_ex (\<lambda>c. ck_Name c = sessionCookieName) (fst ?h)" by code_simp
  then obtain c where c: "c \<in> set cookies" "ck_Name c = sessionCookieName" by (auto simp: h list_ex_iff)
  have json: "sj_marshal example_json s = Some p \<Longrightarrow> sj_unmarshal example_json p = Some s" for s p
    by (auto simp: example_json_def split: if_splits)
  have len: "length ''n'' = ae_NonceSize (aa_aead example_adminauth)" by (simp add: example_adminauth_def example_aead_def)
  have ttl: "40 + aa_sessionTTL example_adminauth = 100" by (simp add: example_adminauth_def)
  obtain st claims s raw where "map_of (aq_Cookies example_callback) stateCookieName = Some st"
    "aq_Query example_callback ''state'' = st" "ol_Verify example_client raw = Some (Some claims)"
    "as_Subject s = ic_Subject claims" "ck_HttpOnly c"
    "\<forall>t. DecryptSession example_json t example_adminauth (ck_Value c) = (if t \<le> 100 then Some s else None)"
    using admin_login_sound [OF example_aead_ok len json h c] unfolding ttl by blast
  moreover have "ol_Verify example_client raw = Some (Some claims) \<Longrightarrow> ic_Subject claims = ''u1''" for raw claims
    by (auto simp: example_client_def)
  ultimately show ?thesis using c h by (intro exI [of _ c] exI [of _ st] exI [of _ s]) simp
qed

section \<open>Passing the gates\<close>

definition csrf_of :: "admin_request \<Rightarrow> string" where
  "csrf_of r = (let t = FormValue r ''_csrf'' in if t = '''' then aq_Header r ''X-CSRF-Token'' else t)"

lemma standalone_gate_Pass:
  "standalone_gate J now auth devMode r = Pass s \<longleftrightarrow>
    (if devMode then s = dev_session now
     else \<exists>v. map_of (aq_Cookies r) sessionCookieName = Some v \<and> DecryptSession J now auth v = Some s) \<and>
    (aq_Method r \<in> {''GET'', ''HEAD'', ''OPTIONS''} \<or> TrimSpace (csrf_of r) \<noteq> '''' \<and> csrf_of r = as_CSRFToken s)"
proof -
  have auth: "AdminAuthMiddleware J now auth devMode r = Pass s \<longleftrightarrow>
      (if devMode then s = dev_session now
       else \<exists>v. map_of (aq_Cookies r) sessionCookieName = Some v \<and> DecryptSession J now auth v = Some s)" for s
    by (auto simp: AdminAuthMiddleware_def split: option.splits)
  have csrf: "CSRFMiddleware r (Some s) = Pass u \<longleftrightarrow>
      (aq_Method r \<in> {''GET'', ''HEAD'', ''OPTIONS''} \<or> TrimSpace (csrf_of r) \<noteq> '''' \<and> csrf_of r = as_CSRFToken s)" for s u
    unfolding CSRFMiddleware_def csrf_of_def [symmetric] by (auto simp: csrf_of_def [symmetric] Let_def)
  have "standalone_gate J now auth devMode r = Pass s \<longleftrightarrow>
      AdminAuthMiddleware J now auth devMode r = Pass s \<and> (\<exists>u. CSRFMiddleware r (Some s) = Pass u)"
    by (auto simp: standalone_gate_def split: gate.splits)
  then show ?thesis unfolding auth csrf by simp
qed

lemma delegated_Pass:
  assumes "IntegratedDelegatedAuthMiddleware token r = Pass d"
  shows "map_of (aq_Cookies r) sessionCookieName = None
    \<and> admin_extractBearerToken (aq_Header r ''Authorization'') = Some (TrimSpace token) \<and> TrimSpace token \<noteq> ''''
    \<and> isValidGatewayRole (di_GatewayRole d)
    \<and> di_GatewayRole d = ToLower (TrimSpace (aq_Header r ''X-Cruvero-Gateway-Role''))
    \<and> di_Subject d = TrimSpace (aq_Header r ''X-Cruvero-Subject'') \<and> di_Subject d \<noteq> ''''
    \<and> di_Email d = TrimSpace (aq_Header r ''X-Cruvero-Email'') \<and> di_Email d \<noteq> ''''"
proof -
  have some: "admin_extractBearerToken v = Some t \<Longrightarrow> t \<noteq> ''''" for v t
    by (auto simp: admin_extractBearerToken_def Let_def split: if_splits)
  show ?thesis
    using assms some by (auto simp: IntegratedDelegatedAuthMiddleware_def Let_def split: option.splits if_splits)
qed

end
