(* ===== verification/Admin_Handlers.thy ===== *)
theory Admin_Handlers
  imports Admin_Access
begin

text \<open>
  The admin interface itself: the operations that change the gateway's tables (\<open>internal/admin/handler.go\<close>,
  \<open>handler_users.go\<close>), the API of integrated mode (\<open>integrated_api.go\<close>), the pages of the standalone interface
  (\<open>handler.go\<close>, \<open>handler_users.go\<close>, \<open>handler_search.go\<close>, \<open>tools_browser.go\<close>), and the routers that compose
  them with the gates of \<open>Admin_Access\<close> (\<open>admin.go\<close>, \<open>newIntegratedRouter\<close>).

  The handler's state is the tables it holds (\<open>None\<close>: not configured) and the broadcasts it has sent.  A handler
  answers a \<open>gate\<close> whose value is the data of the JSON answer or of the page; the templates are not modelled.
  A JSON body is given decoded, \<open>None\<close> when it does not decode.
\<close>

section \<open>State\<close>

record 'e AdminHandler =
  ah_serverStore :: "ServerDB option"
  ah_auditStore :: "AuditDB option"
  ah_classificationStore :: "ClassificationStore option"
  ah_classificationFails :: bool
  ah_userStore :: "UserDB option"
  ah_hasBroadcaster :: bool
  ah_broadcasts :: "broadcast list"
  ah_snapshot :: "RateLimitEntry list option"
  ah_discoveryIndex :: "'e DiscoveryIndex option"
  ah_progressiveDiscovery :: bool
  ah_synonymStore :: "SynonymDB option"
  ah_reindexLogStore :: "ReindexDB option"
  ah_searchEngineType :: string
  ah_embedderType :: string
  ah_searchStatus :: "SearchStatus option"

definition admin_log :: "AuditEntry \<Rightarrow> 'e AdminHandler \<Rightarrow> 'e AdminHandler" where
  "admin_log entry h = h\<lparr>ah_auditStore := map_option (\<lambda>a. snd (Audit_Log entry a)) (ah_auditStore h)\<rparr>"

definition admin_broadcast :: "broadcast \<Rightarrow> 'e AdminHandler \<Rightarrow> 'e AdminHandler" where
  "admin_broadcast b h = (if ah_hasBroadcaster h then h\<lparr>ah_broadcasts := ah_broadcasts h @ [b]\<rparr> else h)"

abbreviation admin_entry :: "string \<Rightarrow> string \<Rightarrow> string \<Rightarrow> (string \<times> json) list \<Rightarrow> AuditEntry" where
  "admin_entry eventType clientID serverName details \<equiv>
    \<lparr>ae_EventType = eventType, ae_ClientID = clientID, ae_Username = '''', ae_ServerName = serverName, ae_Details = details\<rparr>"

section \<open>Operations that change the tables\<close>

text \<open>Each returns whether it succeeded.\<close>

definition upsertToolClassification ::
  "time \<Rightarrow> string \<Rightarrow> RiskLevel \<Rightarrow> string \<Rightarrow> string \<Rightarrow> string \<Rightarrow> 'e AdminHandler \<Rightarrow> bool \<times> 'e AdminHandler" where
  "upsertToolClassification now name riskLevel reason updatedBy source h =
    (let classification = \<lparr>tc_ToolName = name, tc_RiskLevel = riskLevel, tc_Reason = reason, tc_AutoClassified = False,
                           tc_UpdatedBy = updatedBy, tc_UpdatedAt = now\<rparr>;
         (stored, h1) = (case ah_classificationStore h of
             None \<Rightarrow> (True, h)
           | Some s \<Rightarrow> (let (ok, s1) = Classification_Upsert classification s in (ok, h\<lparr>ah_classificationStore := Some s1\<rparr>)))
     in if \<not> stored then (False, h1)
        else (True,
          admin_log (admin_entry ''tool_classification_updated'' updatedBy name
              [(''risk_level'', JStr (RiskLevel_String riskLevel)), (''reason'', JStr reason), (''source'', JStr source)])
            (admin_broadcast (ClassificationUpdated name (RiskLevel_String riskLevel) updatedBy) h1)))"

definition parseRateLimitFormValues :: "string \<Rightarrow> string \<Rightarrow> string + int option \<times> int option" where
  "parseRateLimitFormValues rateLimitRaw rateBurstRaw =
    (let parse = (\<lambda>raw. let v = TrimSpace raw
                        in if v = '''' then Some None
                           else case Atoi v of None \<Rightarrow> None | Some n \<Rightarrow> if n < 0 then None else Some (Some n))
     in case parse rateLimitRaw of
          None \<Rightarrow> Inl ''invalid rate limit value''
        | Some rateLimit \<Rightarrow>
            (case parse rateBurstRaw of
               None \<Rightarrow> Inl ''invalid rate burst value''
             | Some rateBurst \<Rightarrow>
                 if rateLimit = None \<and> rateBurst \<noteq> None then Inl ''rate burst requires rate limit''
                 else Inr (rateLimit, rateBurst)))"

definition updateServerRateLimit ::
  "string \<Rightarrow> int option \<Rightarrow> int option \<Rightarrow> string \<Rightarrow> string \<Rightarrow> 'e AdminHandler \<Rightarrow> bool \<times> 'e AdminHandler" where
  "updateServerRateLimit sid rateLimit rateBurst updatedBy source h =
    (let (failed, h1) = (case ah_serverStore h of
             None \<Rightarrow> (None, h)
           | Some db \<Rightarrow> (let (e, db1) = Store_UpdateRateLimit sid rateLimit rateBurst db in (e, h\<lparr>ah_serverStore := Some db1\<rparr>)));
         number = (\<lambda>key v. case v of None \<Rightarrow> [] | Some n \<Rightarrow> [(key, JNum (real_of_int n))])
     in if failed \<noteq> None then (False, h1)
        else (True,
          admin_broadcast (RegistryUpdated ''server_rate_limit_updated'' sid)
            (admin_log (admin_entry ''server_rate_limit_updated'' updatedBy sid
               ((''source'', JStr source) # number ''rate_limit'' rateLimit @ number ''rate_burst'' rateBurst)) h1)))"

definition deregisterServer :: "string \<Rightarrow> string \<Rightarrow> string \<Rightarrow> 'e AdminHandler \<Rightarrow> bool \<times> 'e AdminHandler" where
  "deregisterServer sid deregisteredBy source h =
    (let (failed, h1) = (case ah_serverStore h of
             None \<Rightarrow> (None, h)
           | Some db \<Rightarrow> (let (e, db1) = Store_Delete sid db in (e, h\<lparr>ah_serverStore := Some db1\<rparr>)))
     in if failed \<noteq> None then (False, h1)
        else (True,
          admin_broadcast (RegistryUpdated ''deregistered'' sid)
            (admin_log (admin_entry ''server_deregistered'' deregisteredBy sid [(''source'', JStr source)]) h1)))"

text \<open>The tools of the active servers; \<open>None\<close> as the result of the operation: a panic, when a store is not
  configured.\<close>

definition active_filter :: ServerFilter where
  "active_filter = \<lparr>sf_Status = Some StatusActive, sf_NamePattern = '''', sf_Limit = 0, sf_Offset = 0\<rparr>"

definition active_tools :: "ServerRecord list \<Rightarrow> string list" where
  "active_tools servers =
    remdups (filter (\<lambda>n. n \<noteq> '''') (map TrimSpace (concat (map (\<lambda>srv. cap_Tools (sr_Capabilities srv)) servers))))"

definition pruneOrphanedToolClassifications ::
  "string \<Rightarrow> string \<Rightarrow> 'e AdminHandler \<Rightarrow> (unit + int) option \<times> 'e AdminHandler" where
  "pruneOrphanedToolClassifications prunedBy source h =
    (case ah_serverStore h of
       None \<Rightarrow> (None, h)
     | Some db \<Rightarrow>
         (case Store_List active_filter db of
            Inl e \<Rightarrow> (Some (Inl ()), h)
          | Inr servers \<Rightarrow>
              (let activeToolNames = active_tools servers
               in case ah_classificationStore h of
                    None \<Rightarrow> (None, h)
                  | Some s \<Rightarrow>
                      if ah_classificationFails h then (Some (Inl ()), h)
                      else
                        let (pruned, s1) = DeleteNotIn activeToolNames s
                        in (Some (Inr pruned),
                            admin_broadcast (ClassificationUpdated ''*'' ''pruned'' prunedBy)
                              (admin_log (admin_entry ''tools_pruned'' prunedBy ''''
                                 [(''source'', JStr source), (''pruned_count'', JNum (real_of_int pruned)),
                                  (''active_tool_count'', JNum (real (length activeToolNames)))])
                                (h\<lparr>ah_classificationStore := Some s1\<rparr>))))))"

definition replaceUserToolPermissions ::
  "string \<Rightarrow> string list \<Rightarrow> string \<Rightarrow> string \<Rightarrow> 'e AdminHandler \<Rightarrow> bool \<times> 'e AdminHandler" where
  "replaceUserToolPermissions userID toolNames grantedBy source h =
    (let (failed, h1) = (case ah_userStore h of
             None \<Rightarrow> (None, h)
           | Some db \<Rightarrow> (let (e, db1) = SetToolPermissions userID toolNames grantedBy db in (e, h\<lparr>ah_userStore := Some db1\<rparr>)))
     in if failed \<noteq> None then (False, h1)
        else (True,
          admin_log (admin_entry ''user.permissions_updated'' grantedBy userID
            [(''user_id'', JStr userID), (''tools'', JArr (map JStr toolNames)), (''granted_by'', JStr grantedBy),
             (''source'', JStr source)]) h1))"

section \<open>Reading requests\<close>

definition defaultPageSize :: int where "defaultPageSize = 50"

definition parseLimitOffset :: "(string \<Rightarrow> string) \<Rightarrow> int \<Rightarrow> string + int \<times> int" where
  "parseLimitOffset values defaultLimit =
    (let rawLimit = TrimSpace (values ''limit'');
         limit = (if rawLimit = '''' then Some defaultLimit
                  else case Atoi rawLimit of
                      None \<Rightarrow> None
                    | Some parsed \<Rightarrow> if parsed \<le> 0 then None else Some (if parsed > 1000 then 1000 else parsed));
         cursor = TrimSpace (values ''cursor'');
         offset = (if cursor = '''' then Some 0
                   else case Atoi cursor of None \<Rightarrow> None | Some parsed \<Rightarrow> if parsed < 0 then None else Some parsed)
     in case limit of
          None \<Rightarrow> Inl ''invalid limit''
        | Some l \<Rightarrow> (case offset of None \<Rightarrow> Inl ''invalid cursor'' | Some off \<Rightarrow> Inr (l, off)))"

text \<open>The sum wraps at 64 bits.\<close>

definition nextCursor :: "int \<Rightarrow> int \<Rightarrow> int \<Rightarrow> string" where
  "nextCursor offset limit tot =
    (if limit \<le> 0 \<or> tot \<le> 0 then ''''
     else let nxt = int64 (offset + limit) in if nxt \<ge> tot then '''' else Itoa nxt)"

definition parsePage :: "(string \<Rightarrow> string) \<Rightarrow> int" where
  "parsePage values =
    (let p = values ''page''
     in if p = '''' then 1 else case Atoi p of None \<Rightarrow> 1 | Some n \<Rightarrow> if n > 0 then n else 1)"

definition pagination :: "int \<Rightarrow> int \<Rightarrow> int \<times> int list" where
  "pagination tot pageSize =
    (let totalPages = (tot + pageSize - 1) div pageSize in (totalPages, [1..totalPages]))"

definition parseIntParam :: "(string \<Rightarrow> string) \<Rightarrow> string \<Rightarrow> int \<Rightarrow> int" where
  "parseIntParam values key defaultVal =
    (let raw = TrimSpace (values key)
     in if raw = '''' then defaultVal
        else case Atoi raw of None \<Rightarrow> defaultVal | Some val \<Rightarrow> if val \<le> 0 then defaultVal else val)"

text \<open>\<open>fmt.Sprint\<close> of a decoded value; \<open>num\<close> prints a number.\<close>

fun join_with :: "string \<Rightarrow> string list \<Rightarrow> string" where
  "join_with sep [] = ''''"
| "join_with sep [x] = x"
| "join_with sep (x # y # xs) = x @ sep @ join_with sep (y # xs)"

fun Sprint :: "(real \<Rightarrow> string) \<Rightarrow> json \<Rightarrow> string" where
  "Sprint num JNull = ''<nil>''"
| "Sprint num (JBool b) = (if b then ''true'' else ''false'')"
| "Sprint num (JNum r) = num r"
| "Sprint num (JStr s) = s"
| "Sprint num (JArr xs) = ''['' @ join_with '' '' (map (Sprint num) xs) @ '']''"
| "Sprint num (JObj m) =
    ''map['' @ join_with '' '' (map (\<lambda>(k, t). k @ '':'' @ t) (sort_key fst (map (\<lambda>(k, v). (k, Sprint num v)) m))) @ '']''"

text \<open>A body decoded into \<open>map[string]any\<close>: an object, or \<open>null\<close> for the empty map.\<close>

definition payload_of :: "json option \<Rightarrow> (string \<times> json) list option" where
  "payload_of body = (case body of Some (JObj m) \<Rightarrow> Some m | Some JNull \<Rightarrow> Some [] | _ \<Rightarrow> None)"

definition payload_get :: "(string \<times> json) list \<Rightarrow> string \<Rightarrow> json" where
  "payload_get m key = (case map_of m key of None \<Rightarrow> JNull | Some v \<Rightarrow> v)"

definition parseSynonymList :: "string \<Rightarrow> string list" where
  "parseSynonymList raw = filter (\<lambda>t. t \<noteq> '''') (map (\<lambda>p. TrimSpace (ToLower p)) (split_char (CHR '','') raw))"

definition parseSynonymsPayload :: "(real \<Rightarrow> string) \<Rightarrow> json \<Rightarrow> string list" where
  "parseSynonymsPayload num value =
    (case value of
       JStr v \<Rightarrow> parseSynonymList v
     | JArr v \<Rightarrow> filter (\<lambda>s. s \<noteq> '''') (map (\<lambda>item. ToLower (TrimSpace (Sprint num item))) v)
     | _ \<Rightarrow> [])"

text \<open>\<open>parse_date\<close> and \<open>parse_rfc3339\<close> are \<open>time.Parse\<close> with the two layouts.\<close>

definition parseAuditTimeValue ::
  "(string \<Rightarrow> time option) \<Rightarrow> (string \<Rightarrow> time option) \<Rightarrow> string \<Rightarrow> (time \<times> bool) option" where
  "parseAuditTimeValue parse_date parse_rfc3339 raw =
    (case parse_date raw of
       Some t \<Rightarrow> Some (t, True)
     | None \<Rightarrow> (case parse_rfc3339 raw of Some t \<Rightarrow> Some (t, False) | None \<Rightarrow> None))"

definition buildAuditFilter ::
  "(string \<Rightarrow> time option) \<Rightarrow> (string \<Rightarrow> time option) \<Rightarrow> (string \<Rightarrow> string) \<Rightarrow> AuditFilter" where
  "buildAuditFilter parse_date parse_rfc3339 values =
    (let since = TrimSpace (values ''since''); til = TrimSpace (values ''until'')
     in \<lparr>af_EventType = TrimSpace (values ''decision''), af_ClientID = TrimSpace (values ''client_id''),
         af_Username = TrimSpace (values ''username''), af_ServerName = TrimSpace (values ''tool_name''),
         af_DetailsSearch = TrimSpace (values ''details''), af_SortBy = NormalizeAuditSortBy (values ''sort_by''),
         af_SortDir = NormalizeAuditSortDir (values ''sort_dir''),
         af_Since = (if since = '''' then None else map_option fst (parseAuditTimeValue parse_date parse_rfc3339 since)),
         af_Until = (if til = '''' then None
                     else map_option (\<lambda>(t, dateOnly). if dateOnly then t + (24 * (60 * Minute) - Second) else t)
                            (parseAuditTimeValue parse_date parse_rfc3339 til)),
         af_Limit = 0, af_Offset = 0\<rparr>)"

text \<open>The aliases of the integrated API, set in this order when the proper parameter is empty.\<close>

definition audit_aliases :: "(string \<times> string) list" where
  "audit_aliases =
    [(''client_id'', ''actor''), (''username'', ''actor''), (''tool_name'', ''resource''), (''decision'', ''action''),
     (''details'', ''q''), (''since'', ''from''), (''until'', ''to'')]"

definition buildIntegratedAuditFilter ::
  "(string \<Rightarrow> time option) \<Rightarrow> (string \<Rightarrow> time option) \<Rightarrow> (string \<Rightarrow> string) \<Rightarrow> AuditFilter" where
  "buildIntegratedAuditFilter parse_date parse_rfc3339 values =
    buildAuditFilter parse_date parse_rfc3339
      (foldl (\<lambda>q (key, alias). if q key = '''' \<and> q alias \<noteq> '''' then q(key := q alias) else q) values audit_aliases)"

section \<open>The CSV export\<close>

definition csvEscape :: "string \<Rightarrow> string" where
  "csvEscape s =
    (let guarded = (case s of
           c # _ \<Rightarrow> if c \<in> set [CHR ''='', CHR ''+'', CHR ''-'', CHR ''@'', CHR 0x09, CHR 0x0D] then CHR 0x27 # s else s
         | [] \<Rightarrow> s)
     in if list_ex (\<lambda>c. c \<in> set [CHR '','', CHR 0x22, CHR 0x0A, CHR 0x0D]) guarded
        then CHR 0x22 # replace_char (CHR 0x22) [CHR 0x22, CHR 0x22] guarded @ [CHR 0x22]
        else guarded)"

definition csv_line :: "(time \<Rightarrow> string) \<Rightarrow> ((string \<times> json) list \<Rightarrow> string) \<Rightarrow> audit_row \<Rightarrow> string" where
  "csv_line rfc3339 marshal row =
    (let e = ar_entry row
     in rfc3339 (ar_CreatedAt row) @ '','' @ csvEscape (ae_EventType e) @ '','' @ csvEscape (ae_ClientID e) @ '',''
        @ csvEscape (ae_Username e) @ '','' @ csvEscape (ae_ServerName e) @ '','' @ csvEscape (marshal (ae_Details e))
        @ [CHR 0x0A])"

definition writeAuditCSV :: "(time \<Rightarrow> string) \<Rightarrow> ((string \<times> json) list \<Rightarrow> string) \<Rightarrow> audit_row list \<Rightarrow> string" where
  "writeAuditCSV rfc3339 marshal entries =
    ''time,event_type,client_id,username,server_name,details'' @ [CHR 0x0A] @ concat (map (csv_line rfc3339 marshal) entries)"

section \<open>The API of integrated mode\<close>

text \<open>What an engine shows of itself; the counters of the vector engine only exist for some engines.\<close>

record engine_info =
  ei_Ready :: bool
  ei_VectorReady :: "bool option"
  ei_VectorSearchFallbacks :: "nat option"
  ei_VectorIndexFallbacks :: "nat option"

text \<open>The surroundings of a request: the clock, the printing of numbers, the parsing and printing of instants,
  the JSON text of details in Go and in the database, the search engine.\<close>

record 'e admin_env =
  ve_now :: time
  ve_num :: "real \<Rightarrow> string"
  ve_parse_date :: "string \<Rightarrow> time option"
  ve_parse_rfc3339 :: "string \<Rightarrow> time option"
  ve_rfc3339 :: "time \<Rightarrow> string"
  ve_marshal :: "(string \<times> json) list \<Rightarrow> string"
  ve_indent :: "(string \<times> json) list \<Rightarrow> string"
  ve_render :: "(string \<times> json) list \<Rightarrow> string"
  ve_search :: "'e search_op"
  ve_engine :: "'e \<Rightarrow> engine_info"

record discovery_stats =
  st_TotalTools :: nat
  st_Categories :: "(string, nat) gomap"
  st_FullTokens :: nat
  st_SummaryTokens :: nat
  st_SavingsPercent :: real
  st_VectorSearchFallbacks :: nat
  st_VectorIndexFallbacks :: nat
  st_EngineErrorFallbacks :: "64 word"

record search_tuning =
  tu_EngineType :: string
  tu_EngineReady :: bool
  tu_IndexedTools :: int
  tu_Synonyms :: "SynonymEntry list"
  tu_ReindexLogs :: "ReindexLogEntry list"

datatype admin_payload =
    OkStatus
  | PrunedCount int
  | UpdatedCount nat
  | ServerPage "ServerRecord list" nat string
  | ServerItem ServerRecord
  | ToolPage "ToolClassification list" nat string
  | ToolItem ToolClassification
  | SchemaItem ToolDefinition
  | StatsItem discovery_stats
  | UserPage "User list" nat string
  | AuditPage "audit_row list" nat string
  | AuditItems "audit_row list"
  | CSVAttachment string
  | TuningItem search_tuning
  | SearchTestItem string "ToolDefinition list" nat time

abbreviation invalid_request :: "string \<Rightarrow> 'a gate" where
  "invalid_request m \<equiv> IntegratedError 400 ''INVALID_REQUEST'' m"

abbreviation integrated_failure :: "string \<Rightarrow> 'a gate" where
  "integrated_failure m \<equiv> IntegratedError 500 ''INTERNAL_ERROR'' m"

abbreviation integrated_not_found :: "string \<Rightarrow> 'a gate" where
  "integrated_not_found m \<equiv> IntegratedError 404 ''NOT_FOUND'' m"

text \<open>The servers a listing shows; \<open>None\<close> when the table cannot be read.\<close>

definition listed_servers :: "admin_request \<Rightarrow> 'e AdminHandler \<Rightarrow> ServerRecord list option" where
  "listed_servers r h =
    (let raw = TrimSpace (aq_Query r ''status'');
         statusFilter = (if raw = '''' then None else Some (ServerStatus_of_string raw))
     in case ah_serverStore h of
          None \<Rightarrow> Some []
        | Some db \<Rightarrow>
            (case Store_List \<lparr>sf_Status = statusFilter, sf_NamePattern = '''', sf_Limit = 0, sf_Offset = 0\<rparr> db of
               Inl e \<Rightarrow> None
             | Inr servers \<Rightarrow>
                 (let query = ToLower (TrimSpace (aq_Query r ''q''))
                  in Some (filter (\<lambda>srv. query = '''' \<or> Contains (ToLower (TrimSpace (sr_Name srv))) query
                                         \<or> Contains (ToLower (TrimSpace (sr_ID srv))) query) servers))))"

definition HandleIntegratedServers :: "admin_request \<Rightarrow> 'e AdminHandler \<Rightarrow> admin_payload gate" where
  "HandleIntegratedServers r h =
    (case parseLimitOffset (aq_Query r) defaultPageSize of
       Inl e \<Rightarrow> invalid_request e
     | Inr (limit, offset) \<Rightarrow>
         (case listed_servers r h of
            None \<Rightarrow> integrated_failure ''failed to list servers''
          | Some results \<Rightarrow>
              (let tot = int (length results);
                   offset2 = (if offset > tot then tot else offset);
                   stop = (if offset2 + limit > tot then tot else offset2 + limit)
               in Pass (ServerPage (drop (nat offset2) (take (nat stop) results)) (length results)
                    (nextCursor offset2 limit tot)))))"

definition HandleIntegratedServerDetail :: "admin_request \<Rightarrow> 'e AdminHandler \<Rightarrow> admin_payload gate" where
  "HandleIntegratedServerDetail r h =
    (let sid = TrimSpace (aq_Param r ''id'')
     in if sid = '''' then invalid_request ''server id is required''
        else case ah_serverStore h of
            None \<Rightarrow> integrated_not_found ''server not found''
          | Some db \<Rightarrow>
              (case Store_Get sid db of
                 Inl e \<Rightarrow> integrated_not_found ''server not found''
               | Inr record \<Rightarrow> Pass (ServerItem record)))"

definition HandleIntegratedServerDeregister ::
  "IntegratedDelegatedIdentity \<Rightarrow> admin_request \<Rightarrow> 'e AdminHandler \<Rightarrow> admin_payload gate \<times> 'e AdminHandler" where
  "HandleIntegratedServerDeregister d r h =
    (let sid = TrimSpace (aq_Param r ''id'')
     in if sid = '''' then (invalid_request ''server id is required'', h)
        else case deregisterServer sid (delegatedActor (Some d)) ''integrated_api'' h of
            (False, h1) \<Rightarrow> (integrated_failure ''failed to deregister server'', h1)
          | (True, h1) \<Rightarrow> (Pass OkStatus, h1))"

text \<open>The decoded body: the two optional numbers.\<close>

definition HandleIntegratedServerRateLimits ::
  "IntegratedDelegatedIdentity \<Rightarrow> (int option \<times> int option) option \<Rightarrow> admin_request \<Rightarrow> 'e AdminHandler
   \<Rightarrow> admin_payload gate \<times> 'e AdminHandler" where
  "HandleIntegratedServerRateLimits d body r h =
    (let sid = TrimSpace (aq_Param r ''id'');
         negative = (\<lambda>v. case v of None \<Rightarrow> False | Some n \<Rightarrow> n < (0 :: int))
     in if sid = '''' then (invalid_request ''server id is required'', h)
        else case body of
            None \<Rightarrow> (invalid_request ''invalid JSON body'', h)
          | Some (rateLimit, rateBurst) \<Rightarrow>
              if negative rateLimit then (invalid_request ''invalid rate limit value'', h)
              else if negative rateBurst then (invalid_request ''invalid rate burst value'', h)
              else if rateLimit = None \<and> rateBurst \<noteq> None then (invalid_request ''rate burst requires rate limit'', h)
              else case updateServerRateLimit sid rateLimit rateBurst (delegatedActor (Some d)) ''integrated_api'' h of
                  (False, h1) \<Rightarrow> (integrated_failure ''failed to update server rate limits'', h1)
                | (True, h1) \<Rightarrow> (Pass OkStatus, h1))"

text \<open>A panic in the handler ends the connection; it is shown as status 0.\<close>

definition HandleIntegratedServerPrune ::
  "IntegratedDelegatedIdentity \<Rightarrow> 'e AdminHandler \<Rightarrow> admin_payload gate \<times> 'e AdminHandler" where
  "HandleIntegratedServerPrune d h =
    (case pruneOrphanedToolClassifications (delegatedActor (Some d)) ''integrated_api'' h of
       (None, h1) \<Rightarrow> (HTTPError 0 ''panic'', h1)
     | (Some (Inl e), h1) \<Rightarrow> (integrated_failure ''failed to prune orphaned tools'', h1)
     | (Some (Inr pruned), h1) \<Rightarrow> (Pass (PrunedCount pruned), h1))"

definition HandleIntegratedTools :: "admin_request \<Rightarrow> 'e AdminHandler \<Rightarrow> admin_payload gate" where
  "HandleIntegratedTools r h =
    (case parseLimitOffset (aq_Query r) defaultPageSize of
       Inl e \<Rightarrow> invalid_request e
     | Inr (limit, offset) \<Rightarrow>
         (let risk1 = TrimSpace (aq_Query r ''classification'');
              risk = (if risk1 = '''' then TrimSpace (aq_Query r ''risk'') else risk1);
              level = RiskLevel_of_string risk;
              flt = \<lparr>tf_Query = TrimSpace (aq_Query r ''q''),
                     tf_RiskLevel = (if RiskLevel_IsValid level then level else RiskOther ''''),
                     tf_Limit = limit, tf_Offset = offset\<rparr>
          in case ah_classificationStore h of
               None \<Rightarrow> Pass (ToolPage [] 0 (nextCursor offset limit 0))
             | Some s \<Rightarrow>
                 (case Classification_Search (ah_classificationFails h) flt s of
                    Inl e \<Rightarrow> integrated_failure ''failed to list tools''
                  | Inr (items, tot) \<Rightarrow> Pass (ToolPage items tot (nextCursor offset limit (int tot))))))"

definition unknown_tool :: "string \<Rightarrow> ToolClassification" where
  "unknown_tool name =
    \<lparr>tc_ToolName = name, tc_RiskLevel = RiskUnknown, tc_Reason = '''', tc_AutoClassified = False, tc_UpdatedBy = '''', tc_UpdatedAt = 0\<rparr>"

definition tool_or_unknown :: "string \<Rightarrow> 'e AdminHandler \<Rightarrow> ToolClassification" where
  "tool_or_unknown name h =
    (case ah_classificationStore h of
       None \<Rightarrow> unknown_tool name
     | Some s \<Rightarrow> (case Classification_Get name s of Inr (Some tool) \<Rightarrow> tool | _ \<Rightarrow> unknown_tool name))"

definition HandleIntegratedToolDetail :: "admin_request \<Rightarrow> 'e AdminHandler \<Rightarrow> admin_payload gate" where
  "HandleIntegratedToolDetail r h =
    (let name = TrimSpace (aq_Param r ''id'')
     in if name = '''' then invalid_request ''tool id is required'' else Pass (ToolItem (tool_or_unknown name h)))"

record integratedToolUpdateBody =
  tb_RiskLevel :: string
  tb_Classification :: string
  tb_Risk :: string
  tb_Reason :: string

definition handleIntegratedToolMutation ::
  "'e admin_env \<Rightarrow> IntegratedDelegatedIdentity \<Rightarrow> integratedToolUpdateBody option \<Rightarrow> admin_request \<Rightarrow> 'e AdminHandler
   \<Rightarrow> admin_payload gate \<times> 'e AdminHandler" where
  "handleIntegratedToolMutation V d body r h =
    (let name = TrimSpace (aq_Param r ''id'')
     in if name = '''' then (invalid_request ''tool id is required'', h)
        else case body of
            None \<Rightarrow> (invalid_request ''invalid JSON body'', h)
          | Some b \<Rightarrow>
              (let raw1 = TrimSpace (tb_RiskLevel b);
                   raw2 = (if raw1 = '''' then TrimSpace (tb_Classification b) else raw1);
                   rawRisk = (if raw2 = '''' then TrimSpace (tb_Risk b) else raw2);
                   riskLevel = RiskLevel_of_string rawRisk
               in if \<not> RiskLevel_IsValid riskLevel then (invalid_request ''invalid risk level'', h)
                  else case upsertToolClassification (ve_now V) name riskLevel (TrimSpace (tb_Reason b))
                         (delegatedActor (Some d)) ''integrated_api'' h of
                      (False, h1) \<Rightarrow> (integrated_failure ''failed to update tool classification'', h1)
                    | (True, h1) \<Rightarrow> (Pass OkStatus, h1)))"

abbreviation discovery_disabled :: "'a gate" where
  "discovery_disabled \<equiv> IntegratedError 501 ''INVALID_REQUEST'' ''progressive discovery is not enabled''"

definition HandleIntegratedToolSchema :: "admin_request \<Rightarrow> 'e AdminHandler \<Rightarrow> admin_payload gate" where
  "HandleIntegratedToolSchema r h =
    (case ah_discoveryIndex h of
       None \<Rightarrow> discovery_disabled
     | Some index \<Rightarrow>
         if \<not> ah_progressiveDiscovery h then discovery_disabled
         else
           let name = TrimSpace (aq_Param r ''id'')
           in if name = '''' then invalid_request ''tool id is required''
              else case GetTools [name] index of
                  [] \<Rightarrow> integrated_not_found ''tool not found''
                | tool # _ \<Rightarrow> Pass (SchemaItem tool))"

definition HandleIntegratedToolDiscoveryStats :: "'e admin_env \<Rightarrow> 'e AdminHandler \<Rightarrow> admin_payload gate" where
  "HandleIntegratedToolDiscoveryStats V h =
    (case ah_discoveryIndex h of
       None \<Rightarrow> discovery_disabled
     | Some index \<Rightarrow>
         if \<not> ah_progressiveDiscovery h then discovery_disabled
         else
           let stats = Stats index;
               fullTokens = ds_TotalTools stats * 170;
               summaryTokens = ds_TotalTools stats * 25;
               counter = (\<lambda>get. case di_engine index of
                   None \<Rightarrow> 0
                 | Some e \<Rightarrow> (case get (ve_engine V e) of None \<Rightarrow> 0 | Some n \<Rightarrow> n))
           in Pass (StatsItem
                \<lparr>st_TotalTools = ds_TotalTools stats, st_Categories = ds_Categories stats, st_FullTokens = fullTokens,
                 st_SummaryTokens = summaryTokens,
                 st_SavingsPercent = (if fullTokens > 0 then real (fullTokens - summaryTokens) / real fullTokens * 100 else 0),
                 st_VectorSearchFallbacks = counter ei_VectorSearchFallbacks,
                 st_VectorIndexFallbacks = counter ei_VectorIndexFallbacks,
                 st_EngineErrorFallbacks = di_engineErrorFallbacks index\<rparr>))"

definition UserRole_of_string :: "string \<Rightarrow> UserRole" where
  "UserRole_of_string s =
    (if s = ''admin'' then RoleAdmin else if s = ''user'' then RoleUser else if s = ''viewer'' then RoleViewer
     else if s = ''blocked'' then RoleBlocked else RoleOther s)"

fun UserRole_String :: "UserRole \<Rightarrow> string" where
  "UserRole_String RoleAdmin = ''admin''"
| "UserRole_String RoleUser = ''user''"
| "UserRole_String RoleViewer = ''viewer''"
| "UserRole_String RoleBlocked = ''blocked''"
| "UserRole_String (RoleOther s) = s"

definition searchUsers :: "UserFilter \<Rightarrow> 'e AdminHandler \<Rightarrow> User list \<times> nat" where
  "searchUsers flt h =
    (case ah_userStore h of
       None \<Rightarrow> ([], 0)
     | Some db \<Rightarrow> (case User_Search flt db of Inl e \<Rightarrow> ([], 0) | Inr result \<Rightarrow> result))"

definition role_filter :: "string \<Rightarrow> UserRole" where
  "role_filter raw = (let role = UserRole_of_string (TrimSpace raw) in if UserRole_IsValid role then role else RoleOther '''')"

definition HandleIntegratedUsers :: "admin_request \<Rightarrow> 'e AdminHandler \<Rightarrow> admin_payload gate" where
  "HandleIntegratedUsers r h =
    (case parseLimitOffset (aq_Query r) defaultPageSize of
       Inl e \<Rightarrow> invalid_request e
     | Inr (limit, offset) \<Rightarrow>
         (let (items, tot) = searchUsers \<lparr>uf_Query = TrimSpace (aq_Query r ''q''), uf_Role = role_filter (aq_Query r ''role''),
                                         uf_Limit = limit, uf_Offset = offset\<rparr> h
          in Pass (UserPage items tot (nextCursor offset limit (int tot)))))"

definition collect_names :: "(real \<Rightarrow> string) \<Rightarrow> json \<Rightarrow> string list" where
  "collect_names num value =
    (case value of JArr items \<Rightarrow> filter (\<lambda>v. v \<noteq> '''') (map (\<lambda>item. TrimSpace (Sprint num item)) items) | _ \<Rightarrow> [])"

definition HandleIntegratedUserPermissions ::
  "'e admin_env \<Rightarrow> IntegratedDelegatedIdentity \<Rightarrow> json option \<Rightarrow> admin_request \<Rightarrow> 'e AdminHandler
   \<Rightarrow> admin_payload gate \<times> 'e AdminHandler" where
  "HandleIntegratedUserPermissions V d body r h =
    (let uid = TrimSpace (aq_Param r ''id'')
     in if uid = '''' then (invalid_request ''user id is required'', h)
        else case payload_of body of
            None \<Rightarrow> (invalid_request ''invalid JSON body'', h)
          | Some payload \<Rightarrow>
              (let toolNames = concat (map (\<lambda>key. collect_names (ve_num V) (payload_get payload key))
                                         [''tool_names'', ''tools'', ''permissions''])
               in case replaceUserToolPermissions uid toolNames (delegatedActor (Some d)) ''integrated_api'' h of
                    (False, h1) \<Rightarrow> (integrated_failure ''failed to update user permissions'', h1)
                  | (True, h1) \<Rightarrow> (Pass OkStatus, h1)))"

definition HandleIntegratedAuditQuery :: "'e admin_env \<Rightarrow> admin_request \<Rightarrow> 'e AdminHandler \<Rightarrow> admin_payload gate" where
  "HandleIntegratedAuditQuery V r h =
    (case parseLimitOffset (aq_Query r) defaultPageSize of
       Inl e \<Rightarrow> invalid_request e
     | Inr (limit, offset) \<Rightarrow>
         (let flt = (buildIntegratedAuditFilter (ve_parse_date V) (ve_parse_rfc3339 V) (aq_Query r))\<lparr>af_Limit := limit, af_Offset := offset\<rparr>
          in case ah_auditStore h of
               None \<Rightarrow> Pass (AuditPage [] 0 (nextCursor offset limit 0))
             | Some db \<Rightarrow>
                 (case Audit_Query (ve_render V) flt db of
                    Inl e \<Rightarrow> integrated_failure ''failed to query audit entries''
                  | Inr entries \<Rightarrow>
                      (case Audit_Count (ve_render V) flt db of
                         Inl e \<Rightarrow> integrated_failure ''failed to count audit entries''
                       | Inr tot \<Rightarrow> Pass (AuditPage entries tot (nextCursor offset limit (int tot)))))))"

definition acceptWantsJSON :: "string \<Rightarrow> bool" where
  "acceptWantsJSON accept = (let a = ToLower (TrimSpace accept) in a \<noteq> '''' \<and> Contains a ''application/json'')"

definition HandleIntegratedAuditExport :: "'e admin_env \<Rightarrow> admin_request \<Rightarrow> 'e AdminHandler \<Rightarrow> admin_payload gate" where
  "HandleIntegratedAuditExport V r h =
    (let flt = (buildIntegratedAuditFilter (ve_parse_date V) (ve_parse_rfc3339 V) (aq_Query r))\<lparr>af_Limit := 10000, af_Offset := 0\<rparr>;
         result = (case ah_auditStore h of
             None \<Rightarrow> Some []
           | Some db \<Rightarrow> (case Audit_Query (ve_render V) flt db of Inl e \<Rightarrow> None | Inr rows \<Rightarrow> Some rows))
     in case result of
          None \<Rightarrow> integrated_failure ''failed to export audit entries''
        | Some entries \<Rightarrow>
            if acceptWantsJSON (aq_Header r ''Accept'') then Pass (AuditItems entries)
            else Pass (CSVAttachment (writeAuditCSV (ve_rfc3339 V) (ve_marshal V) entries)))"

definition HandleIntegratedSearchTuningGet :: "'e admin_env \<Rightarrow> 'e AdminHandler \<Rightarrow> admin_payload gate" where
  "HandleIntegratedSearchTuningGet V h =
    (let engineType = (if ah_searchEngineType h = '''' then ''substring'' else ah_searchEngineType h);
         (engine, ready, indexed) =
           (case ah_searchStatus h of
              Some st \<Rightarrow> (if TrimSpace (se_Engine st) \<noteq> '''' then se_Engine st else engineType, se_Ready st, se_IndexedTools st)
            | None \<Rightarrow>
                (case ah_discoveryIndex h of
                   None \<Rightarrow> (engineType, True, 0)
                 | Some index \<Rightarrow>
                     (engineType, case di_engine index of None \<Rightarrow> True | Some e \<Rightarrow> ei_Ready (ve_engine V e),
                      int (ds_TotalTools (Stats index)))))
     in case (case ah_synonymStore h of None \<Rightarrow> Inr [] | Some db \<Rightarrow> Synonym_List db) of
          Inl e \<Rightarrow> integrated_failure ''failed to list search tuning''
        | Inr synonyms \<Rightarrow>
            (case (case ah_reindexLogStore h of None \<Rightarrow> Inr [] | Some db \<Rightarrow> Reindex_Recent 10 db) of
               Inl e \<Rightarrow> integrated_failure ''failed to read search tuning logs''
             | Inr logs \<Rightarrow>
                 Pass (TuningItem \<lparr>tu_EngineType = engine, tu_EngineReady = ready, tu_IndexedTools = indexed,
                                   tu_Synonyms = synonyms, tu_ReindexLogs = logs\<rparr>)))"

text \<open>The upserts of a tuning update: \<open>None\<close> after a failed one.  The table keeps what was stored before.\<close>

definition synonym_of :: "string \<Rightarrow> string list \<Rightarrow> SynonymEntry" where
  "synonym_of t synonyms = \<lparr>se_Term = t, se_Synonyms = synonyms, se_CreatedAt = 0, se_UpdatedAt = 0\<rparr>"

fun tune_entries :: "(real \<Rightarrow> string) \<Rightarrow> json list \<Rightarrow> nat \<times> SynonymDB \<Rightarrow> nat option \<times> SynonymDB" where
  "tune_entries num [] (updates, db) = (Some updates, db)"
| "tune_entries num (entry # rest) (updates, db) =
    (case entry of
       JObj m \<Rightarrow>
         (let t = ToLower (TrimSpace (Sprint num (payload_get m ''term'')));
              synonyms = parseSynonymsPayload num (payload_get m ''synonyms'')
          in if t = '''' \<or> synonyms = [] then tune_entries num rest (updates, db)
             else case Synonym_Upsert (synonym_of t synonyms) db of
                 (False, db1) \<Rightarrow> (None, db1)
               | (True, db1) \<Rightarrow> tune_entries num rest (updates + 1, db1))
     | _ \<Rightarrow> tune_entries num rest (updates, db))"

fun tune_lists :: "(real \<Rightarrow> string) \<Rightarrow> (string \<times> json) list \<Rightarrow> string list \<Rightarrow> nat \<times> SynonymDB \<Rightarrow> nat option \<times> SynonymDB" where
  "tune_lists num payload [] (updates, db) = (Some updates, db)"
| "tune_lists num payload (key # keys) (updates, db) =
    (case payload_get payload key of
       JArr entries \<Rightarrow>
         (case tune_entries num entries (updates, db) of
            (None, db1) \<Rightarrow> (None, db1)
          | (Some updates1, db1) \<Rightarrow> tune_lists num payload keys (updates1, db1))
     | _ \<Rightarrow> tune_lists num payload keys (updates, db))"

definition HandleIntegratedSearchTuningUpdate ::
  "'e admin_env \<Rightarrow> json option \<Rightarrow> 'e AdminHandler \<Rightarrow> admin_payload gate \<times> 'e AdminHandler" where
  "HandleIntegratedSearchTuningUpdate V body h =
    (case ah_synonymStore h of
       None \<Rightarrow> (IntegratedError 503 ''INTERNAL_ERROR'' ''synonym store is not configured'', h)
     | Some db \<Rightarrow>
         (case payload_of body of
            None \<Rightarrow> (invalid_request ''invalid JSON body'', h)
          | Some payload \<Rightarrow>
              (let failure = integrated_failure ''failed to update search tuning'';
                   first = (case map_of payload ''term'' of
                       None \<Rightarrow> Inr (0, db)
                     | Some termRaw \<Rightarrow>
                         (let t = ToLower (TrimSpace (Sprint (ve_num V) termRaw));
                              synonyms = parseSynonymsPayload (ve_num V) (payload_get payload ''synonyms'')
                          in if t = '''' \<or> synonyms = [] then Inl (invalid_request ''term and synonyms are required'', db)
                             else case Synonym_Upsert (synonym_of t synonyms) db of
                                 (False, db1) \<Rightarrow> Inl (failure, db1)
                               | (True, db1) \<Rightarrow> Inr (1, db1)))
               in case first of
                    Inl (answer, db1) \<Rightarrow> (answer, h\<lparr>ah_synonymStore := Some db1\<rparr>)
                  | Inr start \<Rightarrow>
                      (case tune_lists (ve_num V) payload [''items'', ''entries'', ''synonyms''] start of
                         (None, db2) \<Rightarrow> (failure, h\<lparr>ah_synonymStore := Some db2\<rparr>)
                       | (Some updates, db2) \<Rightarrow>
                           (if updates = 0 then invalid_request ''no valid search tuning updates provided'' else Pass (UpdatedCount updates),
                            h\<lparr>ah_synonymStore := Some db2\<rparr>)))))"

definition HandleIntegratedSearchTuningTest ::
  "'e admin_env \<Rightarrow> json option \<Rightarrow> 'e AdminHandler \<Rightarrow> admin_payload gate \<times> 'e AdminHandler" where
  "HandleIntegratedSearchTuningTest V body h =
    (case ah_discoveryIndex h of
       None \<Rightarrow> (IntegratedError 503 ''INTERNAL_ERROR'' ''discovery index is not available'', h)
     | Some index \<Rightarrow>
         (case payload_of body of
            None \<Rightarrow> (invalid_request ''invalid JSON body'', h)
          | Some payload \<Rightarrow>
              (let query = TrimSpace (Sprint (ve_num V) (payload_get payload ''query''))
               in if query = '''' then (invalid_request ''query is required'', h)
                  else
                    let ((results, tot), index1) = Discovery_Search (ve_search V) query '''' 0 20 index
                    in (Pass (SearchTestItem query results tot (ve_now V)), h\<lparr>ah_discoveryIndex := Some index1\<rparr>))))"

subsection \<open>The router\<close>

datatype integrated_route =
    IntServers | IntServerDetail | IntServerDeregister | IntServerRateLimits "(int option \<times> int option) option" | IntServerPrune
  | IntTools | IntToolDetail | IntToolUpdate "integratedToolUpdateBody option" | IntToolClassification "integratedToolUpdateBody option"
  | IntToolSchema | IntDiscoveryStats
  | IntUsers | IntUserPermissions "json option"
  | IntAudit | IntAuditExport
  | IntTuning | IntTuningUpdate "json option" | IntTuningTest "json option"
  | IntUnknownPath | IntUnknownMethod

text \<open>A route of \<open>/admin/api/v1\<close> with its decoded body: the role it requires.\<close>

fun required_role :: "integrated_route \<Rightarrow> string" where
  "required_role IntServerDeregister = ''admin''"
| "required_role (IntServerRateLimits b) = ''editor''"
| "required_role IntServerPrune = ''admin''"
| "required_role (IntToolUpdate b) = ''editor''"
| "required_role (IntToolClassification b) = ''editor''"
| "required_role (IntUserPermissions b) = ''admin''"
| "required_role (IntTuningUpdate b) = ''editor''"
| "required_role _ = ''viewer''"

fun integrated_handler ::
  "'e admin_env \<Rightarrow> IntegratedDelegatedIdentity \<Rightarrow> integrated_route \<Rightarrow> admin_request \<Rightarrow> 'e AdminHandler
   \<Rightarrow> admin_payload gate \<times> 'e AdminHandler" where
  "integrated_handler V d IntServers r h = (HandleIntegratedServers r h, h)"
| "integrated_handler V d IntServerDetail r h = (HandleIntegratedServerDetail r h, h)"
| "integrated_handler V d IntServerDeregister r h = HandleIntegratedServerDeregister d r h"
| "integrated_handler V d (IntServerRateLimits body) r h = HandleIntegratedServerRateLimits d body r h"
| "integrated_handler V d IntServerPrune r h = HandleIntegratedServerPrune d h"
| "integrated_handler V d IntTools r h = (HandleIntegratedTools r h, h)"
| "integrated_handler V d IntToolDetail r h = (HandleIntegratedToolDetail r h, h)"
| "integrated_handler V d (IntToolUpdate body) r h = handleIntegratedToolMutation V d body r h"
| "integrated_handler V d (IntToolClassification body) r h = handleIntegratedToolMutation V d body r h"
| "integrated_handler V d IntToolSchema r h = (HandleIntegratedToolSchema r h, h)"
| "integrated_handler V d IntDiscoveryStats r h = (HandleIntegratedToolDiscoveryStats V h, h)"
| "integrated_handler V d IntUsers r h = (HandleIntegratedUsers r h, h)"
| "integrated_handler V d (IntUserPermissions body) r h = HandleIntegratedUserPermissions V d body r h"
| "integrated_handler V d IntAudit r h = (HandleIntegratedAuditQuery V r h, h)"
| "integrated_handler V d IntAuditExport r h = (HandleIntegratedAuditExport V r h, h)"
| "integrated_handler V d IntTuning r h = (HandleIntegratedSearchTuningGet V h, h)"
| "integrated_handler V d (IntTuningUpdate body) r h = HandleIntegratedSearchTuningUpdate V body h"
| "integrated_handler V d (IntTuningTest body) r h = HandleIntegratedSearchTuningTest V body h"
| "integrated_handler V d IntUnknownPath r h = (IntegratedError 404 ''NOT_FOUND'' ''admin API endpoint not found'', h)"
| "integrated_handler V d IntUnknownMethod r h = (IntegratedError 405 ''METHOD_NOT_ALLOWED'' ''method not allowed'', h)"

text \<open>\<open>newIntegratedRouter\<close>: delegated authentication, then the role of the route, then its handler.  A request
  outside \<open>/api/v1\<close> (\<open>None\<close>) is blocked.\<close>

definition newIntegratedRouter ::
  "'e admin_env \<Rightarrow> string \<Rightarrow> integrated_route option \<Rightarrow> admin_request \<Rightarrow> 'e AdminHandler \<Rightarrow> admin_payload gate \<times> 'e AdminHandler" where
  "newIntegratedRouter V platformServiceToken route r h =
    (case route of
       None \<Rightarrow> (HTTPError 403 ''Admin UI is managed by Cruvero Platform'', h)
     | Some t \<Rightarrow>
         (case IntegratedDelegatedAuthMiddleware platformServiceToken r of
            HTTPError c m \<Rightarrow> (HTTPError c m, h)
          | Redirect c u \<Rightarrow> (Redirect c u, h)
          | IntegratedError c k m \<Rightarrow> (IntegratedError c k m, h)
          | Pass d \<Rightarrow>
              if t = IntUnknownPath \<or> t = IntUnknownMethod then integrated_handler V d t r h
              else (case RequireGatewayRole (required_role t) (Some d) of
                  HTTPError c m \<Rightarrow> (HTTPError c m, h)
                | Redirect c u \<Rightarrow> (Redirect c u, h)
                | IntegratedError c k m \<Rightarrow> (IntegratedError c k m, h)
                | Pass d2 \<Rightarrow> integrated_handler V d2 t r h)))"

section \<open>The standalone interface\<close>

record page_nav =
  pn_TotalPages :: int
  pn_PageNumbers :: "int list"
  pn_CurrentPage :: int

record AuditEntryView =
  av_row :: audit_row
  av_DetailsJSON :: string
  av_DetailsPretty :: string

record toolEntry =
  te_Name :: string
  te_RiskLevel :: string
  te_Server :: string

record search_page =
  sp_EngineType :: string
  sp_EngineReady :: bool
  sp_IndexedTools :: int
  sp_EmbedderType :: string
  sp_Synonyms :: "SynonymEntry list"
  sp_ReindexLogs :: "ReindexLogEntry list"
  sp_VectorReady :: "bool option"
  sp_VectorSearchFallbacks :: int
  sp_VectorIndexFallbacks :: int
  sp_EngineErrorFallbacks :: int

datatype admin_page =
    DashboardPage nat nat nat nat
  | ToolsPage "ToolClassification list" string string page_nav
  | ToolEditPage ToolClassification
  | RateLimitsPage bool "RateLimitEntry list"
  | AuditLogPage "AuditEntryView list" AuditFilter string string page_nav
  | CSVFile string
  | ServersPage "ServerRecord list"
  | ServerRateLimitPage string ServerRecord
  | UsersPage "User list" string UserRole page_nav
  | UserDetailPage User "string list" nat "(string, toolEntry list) gomap" "(string, toolEntry list) gomap"
  | SearchPage search_page
  | SynonymTable "SynonymEntry list" "string option"
  | RawHTML string
  | BrowseJSON "ToolDefinition list" nat int int
  | SchemaJSON ToolDefinition
  | StatsJSON discovery_stats
  | ErrorJSON string
  | ErrorPage string

text \<open>Which template is executed: the content block of a page or a table for a request of the HTMX library,
  otherwise the page within its base.\<close>

datatype template_use = ContentBlock string | TablePartial string | BasePage string

definition page_templates :: "string list" where
  "page_templates =
    [''dashboard.html'', ''servers.html'', ''server_ratelimit.html'', ''audit.html'', ''ratelimits.html'', ''tools.html'',
     ''tool_edit.html'', ''users.html'', ''user_detail.html'', ''error.html'', ''search.html'']"

datatype page_answer = Answer int "template_use option" admin_page

abbreviation is_htmx :: "admin_request \<Rightarrow> bool" where
  "is_htmx r \<equiv> aq_Header r ''HX-Request'' = ''true''"

definition admin_render :: "admin_request \<Rightarrow> string \<Rightarrow> admin_page \<Rightarrow> page_answer gate" where
  "admin_render r name data =
    (if is_htmx r
     then Pass (Answer 200 (Some (if name \<in> set page_templates then ContentBlock name else TablePartial name)) data)
     else if name \<in> set page_templates then Pass (Answer 200 (Some (BasePage name)) data)
     else HTTPError 500 ''template not found'')"

definition renderError :: "int \<Rightarrow> string \<Rightarrow> page_answer gate" where
  "renderError code msg = Pass (Answer code (Some (BasePage ''error.html'')) (ErrorPage msg))"

abbreviation admin_json :: "int \<Rightarrow> admin_page \<Rightarrow> page_answer gate" where
  "admin_json status payload \<equiv> Pass (Answer status None payload)"

definition nav_of :: "nat \<Rightarrow> int \<Rightarrow> page_nav" where
  "nav_of tot page_no =
    (let (totalPages, numbers) = pagination (int tot) defaultPageSize
     in \<lparr>pn_TotalPages = totalPages, pn_PageNumbers = numbers, pn_CurrentPage = page_no\<rparr>)"

definition renderListPage :: "admin_request \<Rightarrow> nat \<Rightarrow> int \<Rightarrow> (page_nav \<Rightarrow> admin_page) \<Rightarrow> string \<Rightarrow> string \<Rightarrow> page_answer gate" where
  "renderListPage r tot page_no data partial fullPage =
    admin_render r (if is_htmx r then partial else fullPage) (data (nav_of tot page_no))"

text \<open>The offset of a page, which wraps at 64 bits.\<close>

definition page_offset :: "int \<Rightarrow> int" where
  "page_offset page_no = int64 ((page_no - 1) * defaultPageSize)"

definition session_actor :: "AdminSession option \<Rightarrow> string" where
  "session_actor session = (case session of None \<Rightarrow> ''admin'' | Some s \<Rightarrow> as_Email s)"

definition HandleDashboard :: "'e admin_env \<Rightarrow> admin_request \<Rightarrow> 'e AdminHandler \<Rightarrow> page_answer gate" where
  "HandleDashboard V r h =
    (let serverCount = (case ah_serverStore h of
           None \<Rightarrow> 0 | Some db \<Rightarrow> (case Store_List active_filter db of Inl e \<Rightarrow> 0 | Inr servers \<Rightarrow> length servers));
         toolCount = (case ah_classificationStore h of
           None \<Rightarrow> 0
         | Some s \<Rightarrow> (case Classification_GetAll (ah_classificationFails h) s of Inl e \<Rightarrow> 0 | Inr tools \<Rightarrow> length tools));
         userCount = snd (searchUsers \<lparr>uf_Query = '''', uf_Role = RoleOther '''', uf_Limit = 1, uf_Offset = 0\<rparr> h);
         recent = \<lparr>af_EventType = '''', af_ClientID = '''', af_Username = '''', af_ServerName = '''', af_DetailsSearch = '''',
                   af_SortBy = '''', af_SortDir = '''', af_Since = Some (ve_now V - 24 * (60 * Minute)), af_Until = None,
                   af_Limit = 0, af_Offset = 0\<rparr>;
         auditCount = (case ah_auditStore h of
           None \<Rightarrow> 0 | Some db \<Rightarrow> (case Audit_Query (ve_render V) recent db of Inl e \<Rightarrow> 0 | Inr entries \<Rightarrow> length entries))
     in admin_render r ''dashboard.html'' (DashboardPage serverCount toolCount userCount auditCount))"

definition HandleTools :: "admin_request \<Rightarrow> 'e AdminHandler \<Rightarrow> page_answer gate" where
  "HandleTools r h =
    (let query = TrimSpace (aq_Query r ''q'');
         riskFilter = TrimSpace (aq_Query r ''risk'');
         page_no = parsePage (aq_Query r);
         level = RiskLevel_of_string riskFilter;
         flt = \<lparr>tf_Query = query, tf_RiskLevel = (if RiskLevel_IsValid level then level else RiskOther ''''),
                tf_Limit = defaultPageSize, tf_Offset = page_offset page_no\<rparr>;
         (tools, tot) = (case ah_classificationStore h of
             None \<Rightarrow> ([], 0)
           | Some s \<Rightarrow> (case Classification_Search (ah_classificationFails h) flt s of Inl e \<Rightarrow> ([], 0) | Inr found \<Rightarrow> found))
     in renderListPage r tot page_no (ToolsPage tools query riskFilter) ''tools_table'' ''tools.html'')"

definition HandleToolEdit :: "admin_request \<Rightarrow> 'e AdminHandler \<Rightarrow> page_answer gate" where
  "HandleToolEdit r h =
    (let name = aq_Param r ''name''
     in if TrimSpace name = '''' then renderError 400 ''A tool name is required to load the editor.''
        else admin_render r ''tool_edit.html'' (ToolEditPage (tool_or_unknown name h)))"

definition HandleToolUpdate ::
  "'e admin_env \<Rightarrow> AdminSession option \<Rightarrow> admin_request \<Rightarrow> 'e AdminHandler \<Rightarrow> page_answer gate \<times> 'e AdminHandler" where
  "HandleToolUpdate V session r h =
    (let name = aq_Param r ''name'';
         riskLevel = RiskLevel_of_string (TrimSpace (FormValue r ''risk_level''))
     in if TrimSpace name = '''' then (HTTPError 400 ''tool name required'', h)
        else if \<not> RiskLevel_IsValid riskLevel then (HTTPError 400 ''invalid risk level'', h)
        else case upsertToolClassification (ve_now V) name riskLevel (TrimSpace (FormValue r ''reason''))
               (session_actor session) ''admin_dashboard'' h of
            (False, h1) \<Rightarrow> (HTTPError 500 ''failed to save classification'', h1)
          | (True, h1) \<Rightarrow> (Redirect 302 ''/admin/tools'', h1))"

definition HandleRateLimits :: "admin_request \<Rightarrow> 'e AdminHandler \<Rightarrow> page_answer gate" where
  "HandleRateLimits r h =
    admin_render r (if is_htmx r then ''ratelimits_table'' else ''ratelimits.html'')
      (case ah_snapshot h of None \<Rightarrow> RateLimitsPage False [] | Some entries \<Rightarrow> RateLimitsPage True entries)"

definition HandleAudit :: "'e admin_env \<Rightarrow> admin_request \<Rightarrow> 'e AdminHandler \<Rightarrow> page_answer gate" where
  "HandleAudit V r h =
    (let page_no = parsePage (aq_Query r);
         flt = (buildAuditFilter (ve_parse_date V) (ve_parse_rfc3339 V) (aq_Query r))
                 \<lparr>af_Limit := defaultPageSize, af_Offset := page_offset page_no\<rparr>;
         entries = (case ah_auditStore h of
             None \<Rightarrow> [] | Some db \<Rightarrow> (case Audit_Query (ve_render V) flt db of Inl e \<Rightarrow> [] | Inr rows \<Rightarrow> rows));
         tot = (case ah_auditStore h of
             None \<Rightarrow> 0 | Some db \<Rightarrow> (case Audit_Count (ve_render V) flt db of Inl e \<Rightarrow> 0 | Inr n \<Rightarrow> n));
         views = map (\<lambda>row. \<lparr>av_row = row, av_DetailsJSON = ve_marshal V (ae_Details (ar_entry row)),
                             av_DetailsPretty = ve_indent V (ae_Details (ar_entry row))\<rparr>) entries
     in renderListPage r tot page_no (AuditLogPage views flt (aq_Query r ''since'') (aq_Query r ''until''))
          ''audit_table'' ''audit.html'')"

definition HandleAuditExport :: "'e admin_env \<Rightarrow> admin_request \<Rightarrow> 'e AdminHandler \<Rightarrow> page_answer gate" where
  "HandleAuditExport V r h =
    (let flt = (buildAuditFilter (ve_parse_date V) (ve_parse_rfc3339 V) (aq_Query r))\<lparr>af_Limit := 10000, af_Offset := 0\<rparr>;
         entries = (case ah_auditStore h of
             None \<Rightarrow> [] | Some db \<Rightarrow> (case Audit_Query (ve_render V) flt db of Inl e \<Rightarrow> [] | Inr rows \<Rightarrow> rows))
     in Pass (Answer 200 None (CSVFile (writeAuditCSV (ve_rfc3339 V) (ve_marshal V) entries))))"

definition HandleServers :: "admin_request \<Rightarrow> 'e AdminHandler \<Rightarrow> page_answer gate" where
  "HandleServers r h =
    admin_render r (if is_htmx r then ''servers_table'' else ''servers.html'')
      (ServersPage (case ah_serverStore h of
           None \<Rightarrow> []
         | Some db \<Rightarrow>
             (case Store_List \<lparr>sf_Status = None, sf_NamePattern = '''', sf_Limit = 0, sf_Offset = 0\<rparr> db of
                Inl e \<Rightarrow> [] | Inr servers \<Rightarrow> servers)))"

definition HandleServerRateLimitEdit :: "admin_request \<Rightarrow> 'e AdminHandler \<Rightarrow> page_answer gate" where
  "HandleServerRateLimitEdit r h =
    (let sid = aq_Param r ''id''; missing = renderError 404 ''The requested server could not be found.''
     in if TrimSpace sid = '''' then renderError 400 ''A server ID is required to load rate limit settings.''
        else case ah_serverStore h of
            None \<Rightarrow> missing
          | Some db \<Rightarrow>
              (case Store_Get sid db of
                 Inl e \<Rightarrow> missing
               | Inr server \<Rightarrow>
                   admin_render r ''server_ratelimit.html'' (ServerRateLimitPage (''Rate Limit: '' @ sr_Name server) server)))"

definition HandleServerRateLimitUpdate ::
  "AdminSession option \<Rightarrow> admin_request \<Rightarrow> 'e AdminHandler \<Rightarrow> page_answer gate \<times> 'e AdminHandler" where
  "HandleServerRateLimitUpdate session r h =
    (let sid = aq_Param r ''id''
     in if TrimSpace sid = '''' then (HTTPError 400 ''server ID required'', h)
        else case parseRateLimitFormValues (FormValue r ''rate_limit'') (FormValue r ''rate_burst'') of
            Inl e \<Rightarrow> (HTTPError 400 e, h)
          | Inr (rateLimit, rateBurst) \<Rightarrow>
              (case updateServerRateLimit sid rateLimit rateBurst (session_actor session) ''admin_dashboard'' h of
                 (False, h1) \<Rightarrow> (HTTPError 500 ''failed to update rate limit'', h1)
               | (True, h1) \<Rightarrow> (Redirect 302 ''/admin/servers'', h1)))"

definition HandleServerDeregister ::
  "AdminSession option \<Rightarrow> admin_request \<Rightarrow> 'e AdminHandler \<Rightarrow> page_answer gate \<times> 'e AdminHandler" where
  "HandleServerDeregister session r h =
    (let sid = aq_Param r ''id''
     in if TrimSpace sid = '''' then (HTTPError 400 ''server ID required'', h)
        else case deregisterServer sid (session_actor session) ''admin_dashboard'' h of
            (False, h1) \<Rightarrow> (HTTPError 500 ''failed to deregister server'', h1)
          | (True, h1) \<Rightarrow> (Redirect 302 ''/admin/servers'', h1))"

definition HandlePruneOrphanedTools ::
  "AdminSession option \<Rightarrow> 'e AdminHandler \<Rightarrow> page_answer gate \<times> 'e AdminHandler" where
  "HandlePruneOrphanedTools session h =
    (if ah_serverStore h = None \<or> ah_classificationStore h = None then (Redirect 302 ''/admin/servers'', h)
     else case pruneOrphanedToolClassifications (session_actor session) ''admin_dashboard'' h of
         (Some (Inr pruned), h1) \<Rightarrow> (Redirect 302 ''/admin/servers'', h1)
       | (_, h1) \<Rightarrow> (HTTPError 500 ''failed to prune orphaned tools'', h1))"

subsection \<open>Users\<close>

definition buildUserFilter :: "admin_request \<Rightarrow> int \<Rightarrow> UserFilter" where
  "buildUserFilter r page_no =
    \<lparr>uf_Query = TrimSpace (aq_Query r ''q''), uf_Role = role_filter (aq_Query r ''role''), uf_Limit = defaultPageSize,
     uf_Offset = page_offset page_no\<rparr>"

definition HandleUsers :: "admin_request \<Rightarrow> 'e AdminHandler \<Rightarrow> page_answer gate" where
  "HandleUsers r h =
    (let page_no = parsePage (aq_Query r);
         flt = buildUserFilter r page_no;
         (users, tot) = searchUsers flt h
     in renderListPage r tot page_no (UsersPage users (uf_Query flt) (uf_Role flt)) ''users_table'' ''users.html'')"

definition cut_at :: "char \<Rightarrow> string \<Rightarrow> (string \<times> string) option" where
  "cut_at c s = (if c \<in> set s then Some (takeWhile (\<lambda>x. x \<noteq> c) s, tl (dropWhile (\<lambda>x. x \<noteq> c) s)) else None)"

definition splitFederatedName :: "string \<Rightarrow> string \<times> string" where
  "splitFederatedName name =
    (if HasPrefix name ''mcp.''
     then let rest = TrimPrefix name ''mcp.'' in (case cut_at (CHR ''.'') rest of None \<Rightarrow> (rest, '''') | Some st \<Rightarrow> st)
     else (case cut_at (CHR ''.'') name of None \<Rightarrow> ('''', name) | Some st \<Rightarrow> st))"

definition append_entry :: "toolEntry \<Rightarrow> (string, toolEntry list) gomap \<Rightarrow> (string, toolEntry list) gomap" where
  "append_entry e m =
    mput (te_Server e) ((case map_of m (te_Server e) of None \<Rightarrow> [] | Some es \<Rightarrow> es) @ [e]) m"

definition classified_entry :: "ToolClassification \<Rightarrow> toolEntry" where
  "classified_entry tc =
    (let (server, tool) = splitFederatedName (tc_ToolName tc)
     in \<lparr>te_Name = tc_ToolName tc, te_RiskLevel = RiskLevel_String (tc_RiskLevel tc),
         te_Server = (if tool = '''' then ''other'' else server)\<rparr>)"

definition offline_entry :: "string \<Rightarrow> toolEntry" where
  "offline_entry name =
    (let server = fst (splitFederatedName name); server = (if server = '''' then ''other'' else server)
     in \<lparr>te_Name = name, te_RiskLevel = ''offline'', te_Server = server\<rparr>)"

definition HandleUserDetail :: "admin_request \<Rightarrow> 'e AdminHandler \<Rightarrow> page_answer gate" where
  "HandleUserDetail r h =
    (let uid = aq_Param r ''id''
     in if TrimSpace uid = '''' then renderError 400 ''A user ID is required.''
        else case ah_userStore h of
            None \<Rightarrow> renderError 500 ''User store is not configured.''
          | Some db \<Rightarrow>
              (case User_Get uid db of
                 Inl e \<Rightarrow> renderError 500 ''Failed to load user.''
               | Inr None \<Rightarrow> renderError 404 ''The requested user could not be found.''
               | Inr (Some user) \<Rightarrow>
                   (let perms = (case GetToolPermissions (us_ID user) db of Inl e \<Rightarrow> [] | Inr ps \<Rightarrow> map up_ToolName ps);
                        allTools = (case ah_classificationStore h of
                            None \<Rightarrow> []
                          | Some s \<Rightarrow> (case Classification_GetAll (ah_classificationFails h) s of Inl e \<Rightarrow> [] | Inr tools \<Rightarrow> tools));
                        allowed = foldl (\<lambda>m tc. if tc_ToolName tc \<in> set perms then append_entry (classified_entry tc) m else m) [] allTools;
                        available = foldl (\<lambda>m tc. if tc_ToolName tc \<in> set perms then m else append_entry (classified_entry tc) m) [] allTools;
                        offline = foldl (\<lambda>m p. if p \<in> tc_ToolName ` set allTools then m else append_entry (offline_entry p) m) allowed perms
                    in admin_render r ''user_detail.html''
                         (UserDetailPage user (remdups perms) (length perms) offline available))))"

definition HandleUserRoleUpdate ::
  "AdminSession option \<Rightarrow> admin_request \<Rightarrow> 'e AdminHandler \<Rightarrow> page_answer gate \<times> 'e AdminHandler" where
  "HandleUserRoleUpdate session r h =
    (let uid = aq_Param r ''id'';
         role = UserRole_of_string (TrimSpace (FormValue r ''role''))
     in if TrimSpace uid = '''' then (HTTPError 400 ''user ID required'', h)
        else if \<not> UserRole_IsValid role then (HTTPError 400 ''invalid role'', h)
        else case ah_userStore h of
            None \<Rightarrow> (HTTPError 500 ''user store not configured'', h)
          | Some db \<Rightarrow>
              (let user = (case User_Get uid db of Inr (Some u) \<Rightarrow> Some u | _ \<Rightarrow> None);
                   oldRole = (case user of None \<Rightarrow> '''' | Some u \<Rightarrow> UserRole_String (us_Role u));
                   email = (case user of None \<Rightarrow> '''' | Some u \<Rightarrow> us_Email u)
               in case UpdateRole uid role db of
                    (Some e, db1) \<Rightarrow> (HTTPError 500 ''failed to update role'', h\<lparr>ah_userStore := Some db1\<rparr>)
                  | (None, db1) \<Rightarrow>
                      (Redirect 302 (''/admin/users/'' @ uid),
                       admin_log (admin_entry ''user.role_changed'' (session_actor session) uid
                           [(''user_id'', JStr uid), (''email'', JStr email), (''old_role'', JStr oldRole),
                            (''new_role'', JStr (UserRole_String role))])
                         (h\<lparr>ah_userStore := Some db1\<rparr>))))"

definition HandleUserPermissionsUpdate ::
  "AdminSession option \<Rightarrow> admin_request \<Rightarrow> 'e AdminHandler \<Rightarrow> page_answer gate \<times> 'e AdminHandler" where
  "HandleUserPermissionsUpdate session r h =
    (let uid = aq_Param r ''id''
     in if TrimSpace uid = '''' then (HTTPError 400 ''user ID required'', h)
        else if \<not> aq_FormOK r then (HTTPError 400 ''invalid form data'', h)
        else if ah_userStore h = None then (HTTPError 500 ''user store not configured'', h)
        else case replaceUserToolPermissions uid (aq_Form r ''tool_names'') (session_actor session) ''admin_dashboard'' h of
            (False, h1) \<Rightarrow> (HTTPError 500 ''failed to update permissions'', h1)
          | (True, h1) \<Rightarrow> (Redirect 302 (''/admin/users/'' @ uid), h1))"

text \<open>Adding and removing tools: the new list is made from the present permissions, and the change is logged.\<close>

definition change_user_tools ::
  "(string list \<Rightarrow> string list \<Rightarrow> string list) \<Rightarrow> string \<Rightarrow> string \<Rightarrow> AdminSession option \<Rightarrow> admin_request \<Rightarrow> 'e AdminHandler
   \<Rightarrow> page_answer gate \<times> 'e AdminHandler" where
  "change_user_tools combine event actorKey session r h =
    (let uid = aq_Param r ''id''; named = aq_Form r ''tool_names''; actor = session_actor session
     in if TrimSpace uid = '''' then (HTTPError 400 ''user ID required'', h)
        else if \<not> aq_FormOK r then (HTTPError 400 ''invalid form data'', h)
        else case ah_userStore h of
            None \<Rightarrow> (HTTPError 500 ''user store not configured'', h)
          | Some db \<Rightarrow>
              (case GetToolPermissions uid db of
                 Inl e \<Rightarrow> (HTTPError 500 ''failed to read current permissions'', h)
               | Inr existing \<Rightarrow>
                   (case SetToolPermissions uid (combine (map up_ToolName existing) (map TrimSpace named)) actor db of
                      (Some e, db1) \<Rightarrow> (HTTPError 500 ''failed to update permissions'', h\<lparr>ah_userStore := Some db1\<rparr>)
                    | (None, db1) \<Rightarrow>
                        (Redirect 302 (''/admin/users/'' @ uid),
                         admin_log (admin_entry event actor uid
                             [(''user_id'', JStr uid), (''tools'', JArr (map JStr named)), (actorKey, JStr actor)])
                           (h\<lparr>ah_userStore := Some db1\<rparr>)))))"

definition HandleUserToolsAdd ::
  "AdminSession option \<Rightarrow> admin_request \<Rightarrow> 'e AdminHandler \<Rightarrow> page_answer gate \<times> 'e AdminHandler" where
  "HandleUserToolsAdd =
    change_user_tools (\<lambda>existing new. remdups (existing @ new)) ''user.tools_granted'' ''granted_by''"

definition HandleUserToolsRemove ::
  "AdminSession option \<Rightarrow> admin_request \<Rightarrow> 'e AdminHandler \<Rightarrow> page_answer gate \<times> 'e AdminHandler" where
  "HandleUserToolsRemove =
    change_user_tools (\<lambda>existing named. filter (\<lambda>n. n \<notin> set named) existing) ''user.tools_revoked'' ''revoked_by''"

subsection \<open>Search\<close>

definition HandleSearch :: "'e admin_env \<Rightarrow> admin_request \<Rightarrow> 'e AdminHandler \<Rightarrow> page_answer gate" where
  "HandleSearch V r h =
    (let engineType = (if ah_searchEngineType h = '''' then ''substring'' else ah_searchEngineType h);
         synonyms = (case ah_synonymStore h of
             None \<Rightarrow> [] | Some db \<Rightarrow> (case Synonym_List db of Inl e \<Rightarrow> [] | Inr es \<Rightarrow> es));
         logs = (case ah_reindexLogStore h of
             None \<Rightarrow> [] | Some db \<Rightarrow> (case Reindex_Recent 10 db of Inl e \<Rightarrow> [] | Inr es \<Rightarrow> es));
         base = \<lparr>sp_EngineType = engineType, sp_EngineReady = True, sp_IndexedTools = 0, sp_EmbedderType = ah_embedderType h,
                 sp_Synonyms = synonyms, sp_ReindexLogs = logs, sp_VectorReady = None, sp_VectorSearchFallbacks = 0,
                 sp_VectorIndexFallbacks = 0, sp_EngineErrorFallbacks = 0\<rparr>;
         data = (case ah_searchStatus h of
             Some st \<Rightarrow>
               base\<lparr>sp_EngineType := (if TrimSpace (se_Engine st) \<noteq> '''' then se_Engine st else engineType),
                    sp_EmbedderType := (if TrimSpace (se_Embedder st) \<noteq> '''' then se_Embedder st else ah_embedderType h),
                    sp_EngineReady := se_Ready st, sp_IndexedTools := se_IndexedTools st, sp_VectorReady := se_VectorReady st,
                    sp_VectorSearchFallbacks := se_VectorSearchFallbacks st,
                    sp_VectorIndexFallbacks := se_VectorIndexFallbacks st,
                    sp_EngineErrorFallbacks := se_EngineErrorFallbacks st\<rparr>
           | None \<Rightarrow>
               (case ah_discoveryIndex h of
                  None \<Rightarrow> base
                | Some index \<Rightarrow>
                    (let counted = base\<lparr>sp_IndexedTools := int (ds_TotalTools (Stats index)),
                                        sp_EngineErrorFallbacks := int (unat (di_engineErrorFallbacks index))\<rparr>
                     in case di_engine index of
                          None \<Rightarrow> counted
                        | Some e \<Rightarrow>
                            (let i = ve_engine V e; number = (\<lambda>n. case n of None \<Rightarrow> 0 | Some k \<Rightarrow> int k)
                             in counted\<lparr>sp_EngineReady := (ei_Ready i \<and> (case ei_VectorReady i of None \<Rightarrow> True | Some b \<Rightarrow> b)),
                                        sp_VectorReady := ei_VectorReady i,
                                        sp_VectorSearchFallbacks := number (ei_VectorSearchFallbacks i),
                                        sp_VectorIndexFallbacks := number (ei_VectorIndexFallbacks i)\<rparr>))))
     in admin_render r ''search.html'' (SearchPage data))"

text \<open>\<open>html.EscapeString\<close>; \<open>ftoa\<close> prints a score with four decimals.\<close>

definition html_char :: "char \<Rightarrow> string" where
  "html_char c =
    (if c = CHR ''&'' then ''&amp;'' else if c = CHR 0x27 then ''&#39;'' else if c = CHR ''<'' then ''&lt;''
     else if c = CHR ''>'' then ''&gt;'' else if c = CHR 0x22 then ''&#34;'' else [c])"

definition EscapeString :: "string \<Rightarrow> string" where
  "EscapeString s = concat (map html_char s)"

definition quoted :: "string \<Rightarrow> string" where
  "quoted s = CHR 0x22 # s @ [CHR 0x22]"

definition HandleSearchTest ::
  "'e admin_env \<Rightarrow> (real \<Rightarrow> string) \<Rightarrow> admin_request \<Rightarrow> 'e AdminHandler \<Rightarrow> page_answer gate \<times> 'e AdminHandler" where
  "HandleSearchTest V ftoa r h =
    (let query = TrimSpace (FormValue r ''query'');
         html = (\<lambda>s. Pass (Answer 200 None (RawHTML s)))
     in if query = '''' then (html (''<p class='' @ quoted ''text-muted'' @ ''>Enter a query to test search.</p>''), h)
        else case ah_discoveryIndex h of
            None \<Rightarrow> (html (''<p class='' @ quoted ''text-muted'' @ ''>Discovery index not available.</p>''), h)
          | Some index \<Rightarrow>
              (let ((results, tot), index1) = Discovery_Search (ve_search V) query '''' 0 20 index;
                   (engineResults, index2) = (case di_engine index1 of
                       None \<Rightarrow> ([], index1)
                     | Some e \<Rightarrow>
                         (let (found, e1) = ve_search V query 20 e
                          in (case found of Inl err \<Rightarrow> [] | Inr rs \<Rightarrow> rs, index1\<lparr>di_engine := Some e1\<rparr>)));
                   rows = concat (map (\<lambda>(i, tool). ''<tr><td>'' @ Itoa (int i + 1) @ ''</td><td><code>'' @ EscapeString (td_Name tool)
                            @ ''</code></td><td>'' @ EscapeString (td_Description tool) @ ''</td></tr>'') (enumerate 0 results));
                   scores = concat (map (\<lambda>res. ''<tr><td><code>'' @ EscapeString (sc_Key res) @ ''</code></td><td>''
                              @ ftoa (sc_Score res) @ ''</td></tr>'') engineResults);
                   buf = ''<div class='' @ quoted ''search-test-results'' @ ''>''
                       @ ''<p><strong>'' @ EscapeString query @ ''</strong> '' @ [CHR 0xE2, CHR 0x80, CHR 0x94] @ '' '' @ Itoa (int tot)
                       @ '' matches</p>''
                       @ (if results = [] then ''''
                          else ''<table class='' @ quoted ''data-table'' @ ''><thead><tr><th>#</th><th>Tool</th><th>Description</th></tr></thead><tbody>''
                               @ rows @ ''</tbody></table>'')
                       @ (if engineResults = [] then ''''
                          else ''<details style='' @ quoted ''margin-top: 0.5rem;'' @ ''><summary>Raw engine scores (''
                               @ Itoa (int (length engineResults)) @ '' results)</summary>''
                               @ ''<table class='' @ quoted ''data-table'' @ ''><thead><tr><th>Key</th><th>Score</th></tr></thead><tbody>''
                               @ scores @ ''</tbody></table></details>'')
                       @ ''</div>''
               in (html buf, h\<lparr>ah_discoveryIndex := Some index2\<rparr>)))"

definition HandleSynonymList :: "AdminSession option \<Rightarrow> 'e AdminHandler \<Rightarrow> page_answer gate" where
  "HandleSynonymList session h =
    Pass (Answer 200 (Some (TablePartial ''search_synonyms_table''))
      (SynonymTable (case ah_synonymStore h of
           None \<Rightarrow> [] | Some db \<Rightarrow> (case Synonym_List db of Inl e \<Rightarrow> [] | Inr es \<Rightarrow> es))
         (map_option as_CSRFToken session)))"

definition HandleSynonymCreate ::
  "AdminSession option \<Rightarrow> admin_request \<Rightarrow> 'e AdminHandler \<Rightarrow> page_answer gate \<times> 'e AdminHandler" where
  "HandleSynonymCreate session r h =
    (case ah_synonymStore h of
       None \<Rightarrow> (HTTPError 503 ''synonym store not available'', h)
     | Some db \<Rightarrow>
         (let t = TrimSpace (FormValue r ''term''); synonymsRaw = TrimSpace (FormValue r ''synonyms'')
          in if t = '''' \<or> synonymsRaw = '''' then (HTTPError 400 ''term and synonyms are required'', h)
             else case Synonym_Upsert (synonym_of (ToLower t) (parseSynonymList synonymsRaw)) db of
                 (False, db1) \<Rightarrow> (HTTPError 500 ''failed to save synonym'', h\<lparr>ah_synonymStore := Some db1\<rparr>)
               | (True, db1) \<Rightarrow>
                   (let h1 = h\<lparr>ah_synonymStore := Some db1\<rparr> in (HandleSynonymList session h1, h1))))"

definition HandleSynonymDelete ::
  "AdminSession option \<Rightarrow> admin_request \<Rightarrow> 'e AdminHandler \<Rightarrow> page_answer gate \<times> 'e AdminHandler" where
  "HandleSynonymDelete session r h =
    (case ah_synonymStore h of
       None \<Rightarrow> (HTTPError 503 ''synonym store not available'', h)
     | Some db \<Rightarrow>
         (let t = aq_Param r ''term''
          in if t = '''' then (HTTPError 400 ''term is required'', h)
             else case Synonym_Delete t db of
                 (False, db1) \<Rightarrow> (HTTPError 500 ''failed to delete synonym'', h\<lparr>ah_synonymStore := Some db1\<rparr>)
               | (True, db1) \<Rightarrow>
                   (let h1 = h\<lparr>ah_synonymStore := Some db1\<rparr> in (HandleSynonymList session h1, h1))))"

subsection \<open>The tool browser\<close>

definition HandleToolBrowse ::
  "'e admin_env \<Rightarrow> admin_request \<Rightarrow> 'e AdminHandler \<Rightarrow> page_answer gate \<times> 'e AdminHandler" where
  "HandleToolBrowse V r h =
    (case ah_discoveryIndex h of
       None \<Rightarrow> (admin_json 501 (ErrorJSON ''progressive discovery is not enabled''), h)
     | Some index \<Rightarrow>
         if \<not> ah_progressiveDiscovery h then (admin_json 501 (ErrorJSON ''progressive discovery is not enabled''), h)
         else
           let query = TrimSpace (aq_Query r ''q'');
               category = TrimSpace (aq_Query r ''category'');
               perPage = min (parseIntParam (aq_Query r) ''per_page'' 50) 100;
               page_no = min (parseIntParam (aq_Query r) ''page'' 1) 10000;
               offset = (page_no - 1) * perPage
           in if query \<noteq> ''''
              then let ((results, tot), index1) = Discovery_Search (ve_search V) query category offset perPage index
                   in (admin_json 200 (BrowseJSON results tot page_no perPage), h\<lparr>ah_discoveryIndex := Some index1\<rparr>)
              else let (results, tot) = Browse category offset perPage index
                   in (admin_json 200 (BrowseJSON results tot page_no perPage), h))"

definition HandleToolSchema :: "admin_request \<Rightarrow> 'e AdminHandler \<Rightarrow> page_answer gate" where
  "HandleToolSchema r h =
    (case ah_discoveryIndex h of
       None \<Rightarrow> admin_json 501 (ErrorJSON ''progressive discovery is not enabled'')
     | Some index \<Rightarrow>
         if \<not> ah_progressiveDiscovery h then admin_json 501 (ErrorJSON ''progressive discovery is not enabled'')
         else
           let name = TrimSpace (aq_Param r ''name'')
           in if name = '''' then admin_json 400 (ErrorJSON ''tool name is required'')
              else case GetTools [name] index of
                  [] \<Rightarrow> admin_json 404 (ErrorJSON ''tool not found'')
                | tool # _ \<Rightarrow> admin_json 200 (SchemaJSON tool))"

definition HandleDiscoveryStats :: "'e AdminHandler \<Rightarrow> page_answer gate" where
  "HandleDiscoveryStats h =
    (case ah_discoveryIndex h of
       None \<Rightarrow> admin_json 501 (ErrorJSON ''progressive discovery is not enabled'')
     | Some index \<Rightarrow>
         if \<not> ah_progressiveDiscovery h then admin_json 501 (ErrorJSON ''progressive discovery is not enabled'')
         else
           let stats = Stats index; full = ds_TotalTools stats * 170; summary = ds_TotalTools stats * 25
           in admin_json 200 (StatsJSON
                \<lparr>st_TotalTools = ds_TotalTools stats, st_Categories = ds_Categories stats, st_FullTokens = full,
                 st_SummaryTokens = summary,
                 st_SavingsPercent = (if full > 0 then real (full - summary) / real full * 100 else 0),
                 st_VectorSearchFallbacks = 0, st_VectorIndexFallbacks = 0, st_EngineErrorFallbacks = 0\<rparr>))"

subsection \<open>The router\<close>

datatype standalone_route =
    PageDashboard | PageTools | PageToolBrowse | PageDiscoveryStats | PageToolEdit | PageToolSchema | PostToolUpdate
  | PageRateLimits | PageAudit | PageAuditExport | PageUsers | PageUserDetail | PostUserRole | PostUserPermissions
  | PostUserToolsAdd | PostUserToolsRemove | PageSearch | PostSearchTest | PageSynonyms | PostSynonym | PostSynonymDelete
  | PageServers | PageServerRateLimit | PostServerRateLimit | PostPrune | PostServerDeregister | PageNotFound

text \<open>The method under which a route is registered; the page for unknown paths answers any.\<close>

definition route_method :: "standalone_route \<Rightarrow> string option" where
  "route_method t =
    (if t = PageNotFound then None
     else if t \<in> set [PostToolUpdate, PostUserRole, PostUserPermissions, PostUserToolsAdd, PostUserToolsRemove, PostSearchTest,
                      PostSynonym, PostSynonymDelete, PostServerRateLimit, PostPrune, PostServerDeregister]
     then Some ''POST'' else Some ''GET'')"

fun standalone_handler ::
  "'e admin_env \<Rightarrow> (real \<Rightarrow> string) \<Rightarrow> AdminSession \<Rightarrow> standalone_route \<Rightarrow> admin_request \<Rightarrow> 'e AdminHandler
   \<Rightarrow> page_answer gate \<times> 'e AdminHandler" where
  "standalone_handler V ftoa s PageDashboard r h = (HandleDashboard V r h, h)"
| "standalone_handler V ftoa s PageTools r h = (HandleTools r h, h)"
| "standalone_handler V ftoa s PageToolBrowse r h = HandleToolBrowse V r h"
| "standalone_handler V ftoa s PageDiscoveryStats r h = (HandleDiscoveryStats h, h)"
| "standalone_handler V ftoa s PageToolEdit r h = (HandleToolEdit r h, h)"
| "standalone_handler V ftoa s PageToolSchema r h = (HandleToolSchema r h, h)"
| "standalone_handler V ftoa s PostToolUpdate r h = HandleToolUpdate V (Some s) r h"
| "standalone_handler V ftoa s PageRateLimits r h = (HandleRateLimits r h, h)"
| "standalone_handler V ftoa s PageAudit r h = (HandleAudit V r h, h)"
| "standalone_handler V ftoa s PageAuditExport r h = (HandleAuditExport V r h, h)"
| "standalone_handler V ftoa s PageUsers r h = (HandleUsers r h, h)"
| "standalone_handler V ftoa s PageUserDetail r h = (HandleUserDetail r h, h)"
| "standalone_handler V ftoa s PostUserRole r h = HandleUserRoleUpdate (Some s) r h"
| "standalone_handler V ftoa s PostUserPermissions r h = HandleUserPermissionsUpdate (Some s) r h"
| "standalone_handler V ftoa s PostUserToolsAdd r h = HandleUserToolsAdd (Some s) r h"
| "standalone_handler V ftoa s PostUserToolsRemove r h = HandleUserToolsRemove (Some s) r h"
| "standalone_handler V ftoa s PageSearch r h = (HandleSearch V r h, h)"
| "standalone_handler V ftoa s PostSearchTest r h = HandleSearchTest V ftoa r h"
| "standalone_handler V ftoa s PageSynonyms r h = (HandleSynonymList (Some s) h, h)"
| "standalone_handler V ftoa s PostSynonym r h = HandleSynonymCreate (Some s) r h"
| "standalone_handler V ftoa s PostSynonymDelete r h = HandleSynonymDelete (Some s) r h"
| "standalone_handler V ftoa s PageServers r h = (HandleServers r h, h)"
| "standalone_handler V ftoa s PageServerRateLimit r h = (HandleServerRateLimitEdit r h, h)"
| "standalone_handler V ftoa s PostServerRateLimit r h = HandleServerRateLimitUpdate (Some s) r h"
| "standalone_handler V ftoa s PostPrune r h = HandlePruneOrphanedTools (Some s) h"
| "standalone_handler V ftoa s PostServerDeregister r h = HandleServerDeregister (Some s) r h"
| "standalone_handler V ftoa s PageNotFound r h =
    (renderError 404 (''The page you'' @ [CHR 0x27] @ ''re looking for doesn'' @ [CHR 0x27] @ ''t exist or has been moved.''), h)"

text \<open>The page for unknown paths stands outside the group of authenticated routes.\<close>

definition normalizeAdminMode :: "string \<Rightarrow> string" where
  "normalizeAdminMode raw = (if ToLower (TrimSpace raw) = ''integrated'' then ''integrated'' else ''standalone'')"

text \<open>The group of authenticated routes: the session a request acts under, or the refusal.\<close>

definition group_gate ::
  "session_json \<Rightarrow> time \<Rightarrow> AdminAuth option \<Rightarrow> bool \<Rightarrow> admin_request \<Rightarrow> AdminSession gate" where
  "group_gate J now auth devMode r =
    (case auth of
       Some a \<Rightarrow> standalone_gate J now a devMode r
     | None \<Rightarrow>
         (case CSRFMiddleware r (Some (dev_session now)) of
            Pass _ \<Rightarrow> Pass (dev_session now)
          | HTTPError c m \<Rightarrow> HTTPError c m
          | Redirect c u \<Rightarrow> Redirect c u
          | IntegratedError c k m \<Rightarrow> IntegratedError c k m))"

definition standalone_router ::
  "session_json \<Rightarrow> 'e admin_env \<Rightarrow> (real \<Rightarrow> string) \<Rightarrow> AdminAuth option \<Rightarrow> bool \<Rightarrow> standalone_route \<Rightarrow> admin_request
   \<Rightarrow> 'e AdminHandler \<Rightarrow> page_answer gate \<times> 'e AdminHandler" where
  "standalone_router J V ftoa auth devMode route r h =
    (if route = PageNotFound then standalone_handler V ftoa (dev_session (ve_now V)) route r h
     else if route_method route \<noteq> Some (aq_Method r) then (HTTPError 405 '''', h)
     else case group_gate J (ve_now V) auth devMode r of
         Pass session \<Rightarrow> standalone_handler V ftoa session route r h
       | HTTPError c m \<Rightarrow> (HTTPError c m, h)
       | Redirect c u \<Rightarrow> (Redirect c u, h)
       | IntegratedError c k m \<Rightarrow> (IntegratedError c k m, h))"

text \<open>\<open>NewRouter\<close>: \<open>None\<close> when it panics because no authentication is configured.  A request comes with the
  route that matches its path in either router.\<close>

definition NewRouter ::
  "session_json \<Rightarrow> 'e admin_env \<Rightarrow> (real \<Rightarrow> string) \<Rightarrow> string \<Rightarrow> string \<Rightarrow> AdminAuth option \<Rightarrow> bool
   \<Rightarrow> (integrated_route option \<Rightarrow> standalone_route \<Rightarrow> admin_request \<Rightarrow> 'e AdminHandler
       \<Rightarrow> (admin_payload gate + page_answer gate) \<times> 'e AdminHandler) option" where
  "NewRouter J V ftoa mode token auth devMode =
    (if normalizeAdminMode mode = ''standalone'' \<and> auth = None \<and> \<not> devMode then None
     else Some (\<lambda>api route r h.
       if normalizeAdminMode mode = ''integrated''
       then map_prod Inl id (newIntegratedRouter V token api r h)
       else map_prod Inr id (standalone_router J V ftoa auth devMode route r h)))"

end
