(* ===== verification/Admin_Props.thy ===== *)
theory Admin_Props
  imports Admin_Handlers
begin

text \<open>
  What the admin interface guarantees: which requests can change which tables in either mode, that changes are
  logged under the name of their author, what the operations do to the tables, that paging visits every row, and
  that the CSV export reads back as the entries it was written from.
\<close>

section \<open>Frames\<close>

lemma admin_log_frame [simp]:
  "ah_serverStore (admin_log e h) = ah_serverStore h" "ah_classificationStore (admin_log e h) = ah_classificationStore h"
  "ah_userStore (admin_log e h) = ah_userStore h" "ah_synonymStore (admin_log e h) = ah_synonymStore h"
  "ah_discoveryIndex (admin_log e h) = ah_discoveryIndex h" "ah_broadcasts (admin_log e h) = ah_broadcasts h"
  by (simp_all add: admin_log_def)

lemma admin_broadcast_frame [simp]:
  "ah_serverStore (admin_broadcast b h) = ah_serverStore h" "ah_classificationStore (admin_broadcast b h) = ah_classificationStore h"
  "ah_userStore (admin_broadcast b h) = ah_userStore h" "ah_synonymStore (admin_broadcast b h) = ah_synonymStore h"
  "ah_discoveryIndex (admin_broadcast b h) = ah_discoveryIndex h" "ah_auditStore (admin_broadcast b h) = ah_auditStore h"
  by (simp_all add: admin_broadcast_def)

lemma snd_outcome [simp]:
  "snd (case x of (False, h1) \<Rightarrow> (f h1, h1) | (True, h1) \<Rightarrow> (g h1, h1)) = snd x"
  by (simp split: prod.splits bool.splits)

text \<open>What only an administrator may change: the users, which servers there are, and the removal of
  classifications.\<close>

definition server_ids :: "'e AdminHandler \<Rightarrow> string list option" where
  "server_ids h = map_option (\<lambda>db. map sr_ID (sd_rows db)) (ah_serverStore h)"

definition classified_names :: "'e AdminHandler \<Rightarrow> string set" where
  "classified_names h = (case ah_classificationStore h of None \<Rightarrow> {} | Some s \<Rightarrow> fst ` set (cs_rows s))"

definition admin_only_same :: "'e AdminHandler \<Rightarrow> 'e AdminHandler \<Rightarrow> bool" where
  "admin_only_same h h1 =
    (ah_userStore h1 = ah_userStore h \<and> server_ids h1 = server_ids h \<and> classified_names h \<subseteq> classified_names h1)"

lemma admin_only_refl [simp]: "admin_only_same h h"
  by (simp add: admin_only_same_def)

lemma update_row_ids: "(\<And>r. sr_ID (f r) = sr_ID r) \<Longrightarrow> map sr_ID (sd_rows (update_row sid f db)) = map sr_ID (sd_rows db)"
  by (simp add: update_row_def comp_def)

lemma upsert_keeps_admin_only:
  "admin_only_same h (snd (upsertToolClassification now name level reason by_whom source h))"
  by (auto simp: upsertToolClassification_def admin_only_same_def server_ids_def classified_names_def Let_def
      Classification_Upsert_def dom_map_of_conv_image_fst [symmetric] dom_mput split: option.splits if_splits)

lemma rate_limit_keeps_admin_only:
  "admin_only_same h (snd (updateServerRateLimit sid l b by_whom source h))"
proof (cases "ah_serverStore h")
  case (Some db)
  have ids: "map sr_ID (sd_rows (snd (Store_UpdateRateLimit sid l b db))) = map sr_ID (sd_rows db)"
    by (simp add: Store_UpdateRateLimit_def update_row_ids)
  obtain e db1 where s: "Store_UpdateRateLimit sid l b db = (e, db1)" by fastforce
  show ?thesis
    using ids Some by (simp add: updateServerRateLimit_def admin_only_same_def server_ids_def classified_names_def s)
qed (simp add: updateServerRateLimit_def admin_only_same_def server_ids_def classified_names_def)

lemma tuning_keeps_admin_only:
  "admin_only_same h (snd (HandleIntegratedSearchTuningUpdate V body h))"
  by (auto simp: HandleIntegratedSearchTuningUpdate_def admin_only_same_def server_ids_def classified_names_def Let_def
      split: option.splits sum.splits prod.splits)

lemma editor_routes:
  assumes "required_role t \<noteq> ''admin''"
  shows "admin_only_same h (snd (integrated_handler V d t r h))"
proof -
  have mutation: "admin_only_same h (snd (handleIntegratedToolMutation V d body r h))" for body
    by (simp add: handleIntegratedToolMutation_def Let_def upsert_keeps_admin_only split: option.splits)
  have rate: "admin_only_same h (snd (HandleIntegratedServerRateLimits d body r h))" for body
    by (simp add: HandleIntegratedServerRateLimits_def Let_def rate_limit_keeps_admin_only split: option.splits prod.splits)
  have test: "admin_only_same h (snd (HandleIntegratedSearchTuningTest V body h))" for body
    by (auto simp: HandleIntegratedSearchTuningTest_def Let_def admin_only_same_def server_ids_def classified_names_def
        split: option.splits prod.splits)
  show ?thesis
    by (cases t) (use assms mutation rate test tuning_keeps_admin_only in simp_all)
qed

lemma viewer_routes:
  assumes "required_role t = ''viewer''"
  shows "snd (integrated_handler V d t r h) = h\<lparr>ah_discoveryIndex := ah_discoveryIndex (snd (integrated_handler V d t r h))\<rparr>"
proof -
  have test: "snd (HandleIntegratedSearchTuningTest V body h)
      = h\<lparr>ah_discoveryIndex := ah_discoveryIndex (snd (HandleIntegratedSearchTuningTest V body h))\<rparr>" for body
    by (auto simp: HandleIntegratedSearchTuningTest_def Let_def split: option.splits prod.splits)
  show ?thesis by (cases t) (use assms test in simp_all)
qed

section \<open>Integrated mode\<close>

text \<open>The rank under which a request acts: 0 when delegated authentication refuses it.\<close>

definition integrated_rank :: "string \<Rightarrow> admin_request \<Rightarrow> nat" where
  "integrated_rank token r =
    (case IntegratedDelegatedAuthMiddleware token r of Pass d \<Rightarrow> roleRank (di_GatewayRole d) | _ \<Rightarrow> 0)"

lemma rank_of_required: "required_role t = ''viewer'' \<or> required_role t = ''editor'' \<or> required_role t = ''admin''"
  by (cases t) simp_all

lemma router_runs_handler:
  assumes "newIntegratedRouter V token route r h = (answer, h1)" and "h1 \<noteq> h"
  obtains t d where "route = Some t" "IntegratedDelegatedAuthMiddleware token r = Pass d"
    "roleRank (required_role t) \<le> roleRank (di_GatewayRole d)" "h1 = snd (integrated_handler V d t r h)"
proof (cases route)
  case None
  then show ?thesis using assms by (simp add: newIntegratedRouter_def)
next
  case (Some t)
  show ?thesis
  proof (cases "IntegratedDelegatedAuthMiddleware token r")
    case (Pass d)
    have low: "roleRank ''viewer'' \<le> roleRank x" for x by (simp add: roleRank_def)
    show ?thesis
    proof (cases "t = IntUnknownPath \<or> t = IntUnknownMethod")
      case True
      then have "required_role t = ''viewer''" by auto
      then show ?thesis using that [OF Some Pass] assms(1) True Some Pass low by (simp add: newIntegratedRouter_def)
    next
      case False
      then have "h1 = snd (integrated_handler V d t r h) \<and> roleRank (required_role t) \<le> roleRank (di_GatewayRole d)"
        using assms Some Pass by (simp add: newIntegratedRouter_def RequireGatewayRole_def split: if_splits)
      then show ?thesis using that [OF Some Pass] by simp
    qed
  qed (use assms Some in \<open>simp_all add: newIntegratedRouter_def\<close>)
qed


definition example_handler :: "unit AdminHandler" where
  "example_handler =
    \<lparr>ah_serverStore = Some \<lparr>sd_rows = [zero_ServerRecord\<lparr>sr_ID := ''s1''\<rparr>], sd_now = 0, sd_fails = (\<lambda>_. False)\<rparr>,
     ah_auditStore = Some \<lparr>ad_rows = [], ad_now = 7, ad_fails = False\<rparr>, ah_classificationStore = Some \<lparr>cs_rows = [], cs_fails = (\<lambda>_. False)\<rparr>,
     ah_classificationFails = False, ah_userStore = None, ah_hasBroadcaster = True, ah_broadcasts = [], ah_snapshot = None,
     ah_discoveryIndex = None, ah_progressiveDiscovery = False, ah_synonymStore = None, ah_reindexLogStore = None,
     ah_searchEngineType = '''', ah_embedderType = '''', ah_searchStatus = None\<rparr>"

definition example_admin_env :: "unit admin_env" where
  "example_admin_env =
    \<lparr>ve_now = 50, ve_num = (\<lambda>_. ''0''), ve_parse_date = (\<lambda>_. None), ve_parse_rfc3339 = (\<lambda>_. None), ve_rfc3339 = (\<lambda>_. ''t''),
     ve_marshal = (\<lambda>_. ''{}''), ve_indent = (\<lambda>_. ''{}''), ve_render = (\<lambda>_. ''{}''), ve_search = (\<lambda>q l e. (Inr [], e)),
     ve_engine = (\<lambda>_. \<lparr>ei_Ready = True, ei_VectorReady = None, ei_VectorSearchFallbacks = None, ei_VectorIndexFallbacks = None\<rparr>)\<rparr>"

definition delegated_request :: "string \<Rightarrow> admin_request" where
  "delegated_request role =
    \<lparr>aq_Method = ''POST'', aq_Cookies = [],
     aq_Header = (\<lambda>k. if k = ''Authorization'' then ''Bearer secret'' else if k = ''X-Cruvero-Gateway-Role'' then role else ''x''),
     aq_Query = (\<lambda>_. ''''), aq_Form = (\<lambda>_. []), aq_FormOK = True, aq_Param = (\<lambda>_. ''s1'')\<rparr>"


section \<open>Standalone mode\<close>

lemma get_routes:
  assumes "route_method t = Some ''GET'' \<or> t = PageNotFound"
  shows "snd (standalone_handler V ftoa s t r h) = h\<lparr>ah_discoveryIndex := ah_discoveryIndex (snd (standalone_handler V ftoa s t r h))\<rparr>"
proof -
  have browse: "snd (HandleToolBrowse V r h) = h\<lparr>ah_discoveryIndex := ah_discoveryIndex (snd (HandleToolBrowse V r h))\<rparr>"
    by (auto simp: HandleToolBrowse_def Let_def split: option.splits prod.splits)
  show ?thesis by (cases t) (use assms browse in \<open>simp_all add: route_method_def\<close>)
qed

text \<open>The session under which a request acts in standalone mode.\<close>

definition acts_as :: "session_json \<Rightarrow> time \<Rightarrow> AdminAuth option \<Rightarrow> bool \<Rightarrow> admin_request \<Rightarrow> AdminSession \<Rightarrow> bool" where
  "acts_as J now auth devMode r s =
    (if devMode then s = dev_session now
     else \<exists>a v. auth = Some a \<and> map_of (aq_Cookies r) sessionCookieName = Some v \<and> DecryptSession J now a v = Some s)"

lemma group_gate_Pass:
  assumes "group_gate J now auth devMode r = Pass s" and "auth \<noteq> None \<or> devMode" and "aq_Method r = ''POST''"
  shows "acts_as J now auth devMode r s \<and> TrimSpace (csrf_of r) \<noteq> '''' \<and> csrf_of r = as_CSRFToken s"
proof (cases auth)
  case (Some a)
  then show ?thesis
    using assms by (auto simp: group_gate_def standalone_gate_Pass acts_as_def split: if_splits)
next
  case None
  then have "s = dev_session now" and csrf: "\<exists>u. CSRFMiddleware r (Some (dev_session now)) = Pass u"
    using assms(1) by (auto simp: group_gate_def split: gate.splits)
  then show ?thesis
    using None assms(2,3) unfolding CSRFMiddleware_def csrf_of_def [symmetric] acts_as_def
    by (auto simp: csrf_of_def [symmetric] Let_def split: if_splits)
qed

lemma standalone_router_runs:
  assumes "standalone_router J V ftoa auth devMode route r h = (answer, h1)" and "h1 \<noteq> h"
  obtains s where "group_gate J (ve_now V) auth devMode r = Pass s" "route_method route = Some (aq_Method r)"
    "h1 = snd (standalone_handler V ftoa s route r h)"
proof (cases "route = PageNotFound \<or> route_method route \<noteq> Some (aq_Method r)")
  case True
  then show ?thesis using assms by (auto simp: standalone_router_def split: if_splits)
next
  case False
  then show ?thesis
    using assms that by (cases "group_gate J (ve_now V) auth devMode r") (auto simp: standalone_router_def)
qed

text \<open>C31. \<^bold>\<open>In standalone mode only a POST with the session's token changes anything.\<close>  Whatever the request and the
  route it matches: when a table, the audit log or the list of broadcasts differs after it, the request was a POST, its
  cookie decrypted to a session that has not expired (or the interface runs in development mode), and the token in its
  form or header is not blank and equals the token of that session.  Requests with other methods change at most the
  counters of the search index.\<close>

theorem standalone_changes_gated:
  assumes router: "NewRouter J V ftoa mode token auth devMode = Some f" and mode: "normalizeAdminMode mode = ''standalone''"
    and run: "f api route r h = (answer, h1)" and changed: "h1 \<noteq> h\<lparr>ah_discoveryIndex := ah_discoveryIndex h1\<rparr>"
  shows "aq_Method r = ''POST'' \<and> (\<exists>s. acts_as J (ve_now V) auth devMode r s
    \<and> TrimSpace (csrf_of r) \<noteq> '''' \<and> csrf_of r = as_CSRFToken s)"
proof -
  have ne: "h1 \<noteq> h" using changed by auto
  have configured: "auth \<noteq> None \<or> devMode" using router mode by (auto simp: NewRouter_def split: if_splits)
  have "f api route r h = map_prod Inr id (standalone_router J V ftoa auth devMode route r h)"
    using router mode by (auto simp: NewRouter_def split: if_splits)
  then obtain out where out: "standalone_router J V ftoa auth devMode route r h = (out, h1)"
    using run by (cases "standalone_router J V ftoa auth devMode route r h") auto
  obtain s where s: "group_gate J (ve_now V) auth devMode r = Pass s" and meth: "route_method route = Some (aq_Method r)"
    and h1: "h1 = snd (standalone_handler V ftoa s route r h)"
    by (rule standalone_router_runs [OF out ne])
  have post: "aq_Method r = ''POST''"
  proof (rule ccontr)
    assume "aq_Method r \<noteq> ''POST''"
    then have "route_method route = Some ''GET''" using meth by (auto simp: route_method_def split: if_splits)
    then show False using get_routes [of route V ftoa s r h] changed h1 by simp
  qed
  show ?thesis using group_gate_Pass [OF s configured post] post by blast
qed

definition example_post :: admin_request where
  "example_post =
    \<lparr>aq_Method = ''POST'', aq_Cookies = [(sessionCookieName, b64_EncodeToString (''n'' @ ''n{}''))], aq_Header = (\<lambda>_. ''''),
     aq_Query = (\<lambda>_. ''''), aq_Form = (\<lambda>k. if k = ''_csrf'' then [''eA''] else []), aq_FormOK = True, aq_Param = (\<lambda>_. ''s1'')\<rparr>"

theorem standalone_changes_gated_witness:
  "\<exists>f answer h1. NewRouter example_json example_admin_env (\<lambda>_. '''') '''' '''' (Some example_adminauth) False = Some f
    \<and> f None PostServerDeregister example_post example_handler = (answer, h1) \<and> server_ids h1 = Some []
    \<and> acts_as example_json 50 (Some example_adminauth) False example_post example_session"
proof -
  let ?run = "standalone_router example_json example_admin_env (\<lambda>_. '''') (Some example_adminauth) False
      PostServerDeregister example_post example_handler"
  have mode: "normalizeAdminMode '''' = ''standalone''" by code_simp
  obtain f where f: "NewRouter example_json example_admin_env (\<lambda>_. '''') '''' '''' (Some example_adminauth) False = Some f"
    by (simp add: NewRouter_def)
  then have step: "f None PostServerDeregister example_post example_handler = map_prod Inr id ?run"
    using mode by (auto simp: NewRouter_def)
  obtain answer h1 where run: "f None PostServerDeregister example_post example_handler = (answer, h1)" by fastforce
  have "server_ids (snd ?run) = Some []" by code_simp
  then have ids: "server_ids h1 = Some []" using run step by (cases ?run) simp
  have before: "server_ids example_handler = Some [''s1'']" by code_simp
  have changed: "h1 \<noteq> example_handler\<lparr>ah_discoveryIndex := ah_discoveryIndex h1\<rparr>"
  proof
    assume eq: "h1 = example_handler\<lparr>ah_discoveryIndex := ah_discoveryIndex h1\<rparr>"
    have "server_ids h1 = server_ids example_handler" by (subst eq) (simp add: server_ids_def)
    then show False using ids before by simp
  qed
  obtain s where s: "acts_as example_json (ve_now example_admin_env) (Some example_adminauth) False example_post s"
    using standalone_changes_gated [OF f mode run changed] by blast
  have now: "ve_now example_admin_env = 50" by (simp add: example_admin_env_def)
  have "DecryptSession example_json 50 example_adminauth (b64_EncodeToString (''n'' @ ''n{}'')) = Some example_session" by code_simp
  then have "s = example_session" using s unfolding now by (auto simp: acts_as_def example_post_def)
  then show ?thesis using f run ids s now by auto
qed

section \<open>The export reads back\<close>

text \<open>A reader of comma separated values in the format of RFC 4180, with a line feed at the end of every record;
  \<open>None\<close> for a text that is not in the format.\<close>

datatype csv_state = CellStart | InPlain | InQuotes | AfterQuote

abbreviation quote :: char where "quote \<equiv> CHR 0x22"
abbreviation line_feed :: char where "line_feed \<equiv> CHR 0x0A"

fun read_csv :: "csv_state \<Rightarrow> string \<Rightarrow> string list \<Rightarrow> string \<Rightarrow> string list list option" where
  "read_csv st cell row [] = (if st = CellStart \<and> row = [] then Some [] else None)"
| "read_csv st cell row (c # cs) =
    (case st of
       InQuotes \<Rightarrow> if c = quote then read_csv AfterQuote cell row cs else read_csv InQuotes (cell @ [c]) row cs
     | _ \<Rightarrow>
         if c = CHR '','' then read_csv CellStart [] (row @ [cell]) cs
         else if c = line_feed then map_option (\<lambda>rows. (row @ [cell]) # rows) (read_csv CellStart [] [] cs)
         else if st = AfterQuote then (if c = quote then read_csv InQuotes (cell @ [quote]) row cs else None)
         else if c = quote then (if st = CellStart then read_csv InQuotes [] row cs else None)
         else if c = CHR 0x0D then None
         else read_csv InPlain (cell @ [c]) row cs)"

definition plain_cell :: "string \<Rightarrow> bool" where
  "plain_cell s = (\<not> list_ex (\<lambda>c. c \<in> set [CHR '','', CHR 0x22, CHR 0x0A, CHR 0x0D]) s)"

text \<open>What a cell of the export says: the value, behind an apostrophe when it could be taken for a formula.\<close>

definition guarded :: "string \<Rightarrow> string" where
  "guarded s =
    (case s of
       c # _ \<Rightarrow> if c \<in> set [CHR ''='', CHR ''+'', CHR ''-'', CHR ''@'', CHR 0x09, CHR 0x0D] then CHR 0x27 # s else s
     | [] \<Rightarrow> s)"

lemma if_swap: "(if P then a else b) = (if \<not> P then b else a)"
  by simp

lemma csvEscape_guarded:
  "csvEscape s = (if plain_cell (guarded s) then guarded s
    else quote # replace_char quote [quote, quote] (guarded s) @ [quote])"
  unfolding csvEscape_def plain_cell_def guarded_def Let_def by (rule if_swap)

lemma read_plain:
  assumes "plain_cell s" "st = CellStart \<or> st = InPlain"
  shows "read_csv st cell row (s @ CHR '','' # rest) = read_csv CellStart [] (row @ [cell @ s]) rest"
    "read_csv st cell row (s @ line_feed # rest) = map_option (\<lambda>rows. (row @ [cell @ s]) # rows) (read_csv CellStart [] [] rest)"
  using assms
proof (induction s arbitrary: st cell)
  case Nil
  { case 1 then show ?case by auto }
  { case 2 then show ?case by auto }
next
  case (Cons c s)
  { case 1
    then have "plain_cell s" "c \<noteq> CHR '',''" "c \<noteq> quote" "c \<noteq> line_feed" "c \<noteq> CHR 0x0D" by (auto simp: plain_cell_def)
    then show ?case using 1 Cons.IH(1) [of InPlain "cell @ [c]"] by auto }
  { case 2
    then have "plain_cell s" "c \<noteq> CHR '',''" "c \<noteq> quote" "c \<noteq> line_feed" "c \<noteq> CHR 0x0D" by (auto simp: plain_cell_def)
    then show ?case using 2 Cons.IH(2) [of InPlain "cell @ [c]"] by auto }
qed

lemma replace_char_Cons:
  "replace_char q new (c # s) = (if c = q then new else [c]) @ replace_char q new s" "replace_char q new [] = []"
  by (simp_all add: replace_char_def)

lemma read_quoted:
  "read_csv InQuotes cell row (replace_char quote [quote, quote] s @ quote # rest) = read_csv AfterQuote (cell @ s) row rest"
  by (induction s arbitrary: cell) (auto simp: replace_char_Cons)

lemma read_cell:
  "read_csv CellStart [] row (csvEscape s @ CHR '','' # rest) = read_csv CellStart [] (row @ [guarded s]) rest"
  "read_csv CellStart [] row (csvEscape s @ line_feed # rest) =
    map_option (\<lambda>rows. (row @ [guarded s]) # rows) (read_csv CellStart [] [] rest)"
  using read_plain [of "guarded s" CellStart "[]" row rest] read_quoted [of "[]" row "guarded s"]
  by (simp_all add: csvEscape_guarded)

definition csv_cells :: "(time \<Rightarrow> string) \<Rightarrow> ((string \<times> json) list \<Rightarrow> string) \<Rightarrow> audit_row \<Rightarrow> string list" where
  "csv_cells rfc3339 marshal row =
    rfc3339 (ar_CreatedAt row) # map guarded [ae_EventType (ar_entry row), ae_ClientID (ar_entry row), ae_Username (ar_entry row),
      ae_ServerName (ar_entry row), marshal (ae_Details (ar_entry row))]"

lemma read_line:
  assumes "plain_cell (rfc3339 (ar_CreatedAt row))"
  shows "read_csv CellStart [] [] (csv_line rfc3339 marshal row @ rest) =
    map_option ((#) (csv_cells rfc3339 marshal row)) (read_csv CellStart [] [] rest)"
  using read_plain [OF assms, of CellStart]
  by (simp add: csv_line_def csv_cells_def Let_def read_cell)

text \<open>C36. \<^bold>\<open>The CSV export reads back and carries no formula.\<close>  For any audit entries, whatever commas, quotes, line
  breaks or control characters their fields contain, a reader of the CSV format that is given the export returns the
  header and one record per entry with its six fields.  A field comes back as it was, except that an apostrophe stands
  before a value that begins with a character which spreadsheets take for the start of a formula; so no cell begins
  with one.  Assumed: the printed time of an entry has no comma, quote or line break.\<close>

theorem csv_export_reads_back:
  assumes "\<And>t. plain_cell (rfc3339 t)"
  shows "read_csv CellStart [] [] (writeAuditCSV rfc3339 marshal rows) =
      Some ([''time'', ''event_type'', ''client_id'', ''username'', ''server_name'', ''details''] # map (csv_cells rfc3339 marshal) rows)
    \<and> (guarded s = s \<or> guarded s = CHR 0x27 # s)
    \<and> (guarded s \<noteq> [] \<longrightarrow> hd (guarded s) \<notin> {CHR ''='', CHR ''+'', CHR ''-'', CHR ''@'', CHR 0x09, CHR 0x0D})"
proof -
  have lines: "read_csv CellStart [] [] (concat (map (csv_line rfc3339 marshal) rows)) = Some (map (csv_cells rfc3339 marshal) rows)"
    by (induction rows) (simp_all add: read_line assms)
  have "read_csv CellStart [] [] (writeAuditCSV rfc3339 marshal rows) =
      map_option ((#) [''time'', ''event_type'', ''client_id'', ''username'', ''server_name'', ''details''])
        (read_csv CellStart [] [] (concat (map (csv_line rfc3339 marshal) rows)))"
    unfolding writeAuditCSV_def by simp
  then have "read_csv CellStart [] [] (writeAuditCSV rfc3339 marshal rows) =
      Some ([''time'', ''event_type'', ''client_id'', ''username'', ''server_name'', ''details''] # map (csv_cells rfc3339 marshal) rows)"
    by (simp add: lines)
  moreover have "guarded s = s \<or> guarded s = CHR 0x27 # s" by (simp add: guarded_def split: list.splits)
  moreover have "guarded s \<noteq> [] \<longrightarrow> hd (guarded s) \<notin> {CHR ''='', CHR ''+'', CHR ''-'', CHR ''@'', CHR 0x09, CHR 0x0D}"
    by (cases s) (auto simp: guarded_def)
  ultimately show ?thesis by blast
qed

definition nasty_row :: audit_row where
  "nasty_row = \<lparr>ar_entry = \<lparr>ae_EventType = ''=cmd'', ae_ClientID = ''a,b'', ae_Username = [CHR 0x22, CHR 0x0A], ae_ServerName = '''', ae_Details = []\<rparr>,
     ar_CreatedAt = 0\<rparr>"

theorem csv_export_reads_back_witness:
  "plain_cell ''2026-01-01T00:00:00Z'' \<and>
   read_csv CellStart [] [] (writeAuditCSV (\<lambda>_. ''2026-01-01T00:00:00Z'') (\<lambda>_. ''{}'') [nasty_row]) =
     Some [[''time'', ''event_type'', ''client_id'', ''username'', ''server_name'', ''details''],
       [''2026-01-01T00:00:00Z'', CHR 0x27 # ''=cmd'', ''a,b'', [CHR 0x22, CHR 0x0A], '''', ''{}'']]"
proof -
  have plain: "plain_cell ''2026-01-01T00:00:00Z''" by code_simp
  have "read_csv CellStart [] [] (writeAuditCSV (\<lambda>_. ''2026-01-01T00:00:00Z'') (\<lambda>_. ''{}'') [nasty_row]) =
     Some ([''time'', ''event_type'', ''client_id'', ''username'', ''server_name'', ''details'']
       # map (csv_cells (\<lambda>_. ''2026-01-01T00:00:00Z'') (\<lambda>_. ''{}'')) [nasty_row])"
    using csv_export_reads_back [of "\<lambda>_. ''2026-01-01T00:00:00Z''" "\<lambda>_. ''{}''" "[nasty_row]"] plain by blast
  moreover have "map (csv_cells (\<lambda>_. ''2026-01-01T00:00:00Z'') (\<lambda>_. ''{}'')) [nasty_row] =
      [[''2026-01-01T00:00:00Z'', CHR 0x27 # ''=cmd'', ''a,b'', [CHR 0x22, CHR 0x0A], '''', ''{}'']]" by code_simp
  ultimately show ?thesis using plain by simp
qed

section \<open>Paging\<close>

lemma digit_value_dec: "k < 10 \<Longrightarrow> digit_value (char_of (48 + k)) = Some k"
  by (auto simp: digit_value_def Let_def)

lemma nat_digits_nonempty [simp]: "nat_digits n \<noteq> []"
  by (subst nat_digits.simps) simp

lemma number_in_snoc:
  "number_in base (s @ [c]) = Option.bind (number_in base s) (\<lambda>a. case digit_value c of
     Some d \<Rightarrow> if d < base then Some (a * base + d) else None | None \<Rightarrow> None)"
  by (simp add: number_in_def)

lemma number_in_digits: "number_in 10 (nat_digits n) = Some n"
proof (induction n rule: nat_digits.induct)
  case (1 n)
  show ?case
  proof (cases "n < 10")
    case True
    then show ?thesis by (subst nat_digits.simps) (simp add: number_in_def digit_value_dec)
  next
    case False
    then show ?thesis
      using 1 by (subst nat_digits.simps) (simp add: number_in_snoc digit_value_dec)
  qed
qed

lemma nat_digits_chars: "c \<in> set (nat_digits n) \<Longrightarrow> 48 \<le> (of_char c :: nat) \<and> (of_char c :: nat) \<le> 57"
proof (induction n rule: nat_digits.induct)
  case (1 n)
  show ?case
  proof (cases "n < 10")
    case True
    then have "c = char_of (48 + n)" using "1.prems" by (subst (asm) nat_digits.simps) simp
    then show ?thesis using True by simp
  next
    case False
    then have "c \<in> set (nat_digits (n div 10)) \<or> c = char_of (48 + n mod 10)"
      using "1.prems" by (subst (asm) nat_digits.simps) (simp, blast)
    then show ?thesis using "1.IH" False by (elim disjE) simp_all
  qed
qed

lemma Itoa_read:
  assumes "0 \<le> v" "v < 2 ^ 63"
  shows "Atoi (Itoa v) = Some v" "TrimSpace (Itoa v) = Itoa v" "Itoa v \<noteq> ''''"
proof -
  have itoa: "Itoa v = nat_digits (nat v)" using assms by (simp add: Itoa_def)
  obtain c cs where d: "nat_digits (nat v) = c # cs" by (cases "nat_digits (nat v)") auto
  have "(of_char c :: nat) \<noteq> 45" "(of_char c :: nat) \<noteq> 43" using nat_digits_chars [of c "nat v"] d by auto
  then have sign: "c \<noteq> CHR ''-''" "c \<noteq> CHR ''+''" by auto
  show "Atoi (Itoa v) = Some v"
    using number_in_digits [of "nat v"] assms unfolding itoa d by (simp add: Atoi_def decimal_def sign)
  have "visible x" if "x \<in> set (nat_digits (nat v))" for x
    using nat_digits_chars [OF that] by (simp add: visible_def)
  then have "trimmed_word (nat_digits (nat v))" using d by (simp add: trimmed_word_def)
  then show "TrimSpace (Itoa v) = Itoa v" unfolding itoa by (rule TrimSpace_word)
  show "Itoa v \<noteq> ''''" by (simp add: itoa)
qed

definition with_cursor :: "admin_request \<Rightarrow> string \<Rightarrow> admin_request" where
  "with_cursor r c = r\<lparr>aq_Query := (aq_Query r)(''cursor'' := c)\<rparr>"

text \<open>A client that follows \<open>next_cursor\<close> until it is empty, for at most a number of requests; \<open>None\<close> when a request
  is refused or the number is used up.\<close>

fun follow_pages :: "nat \<Rightarrow> admin_request \<Rightarrow> 'e AdminHandler \<Rightarrow> string \<Rightarrow> ServerRecord list option" where
  "follow_pages 0 r h cursor = None"
| "follow_pages (Suc n) r h cursor =
    (case HandleIntegratedServers (with_cursor r cursor) h of
       Pass (ServerPage items tot nxt) \<Rightarrow>
         if nxt = '''' then Some items else map_option ((@) items) (follow_pages n r h nxt)
     | _ \<Rightarrow> None)"

lemma with_cursor_query: "k \<noteq> ''cursor'' \<Longrightarrow> aq_Query (with_cursor r c) k = aq_Query r k"
  by (simp add: with_cursor_def)

lemma with_cursor_listed [simp]: "listed_servers (with_cursor r c) h = listed_servers r h"
  by (simp add: listed_servers_def with_cursor_query cong: option.case_cong sum.case_cong)

lemma cursor_parsed:
  assumes "parseLimitOffset (aq_Query (with_cursor r '''')) defaultPageSize = Inr (limit, 0)" and "0 \<le> off" "off < 2 ^ 63"
  shows "parseLimitOffset (aq_Query (with_cursor r (Itoa off))) defaultPageSize = Inr (limit, off)"
  using assms(1) Itoa_read [OF assms(2,3)] assms(2)
  by (auto simp: parseLimitOffset_def with_cursor_def Let_def split: option.splits if_splits)

lemma limit_bounds:
  assumes "parseLimitOffset values defaultPageSize = Inr (limit, off)"
  shows "0 < limit \<and> limit \<le> 1000"
  using assms by (auto simp: parseLimitOffset_def defaultPageSize_def Let_def split: option.splits if_splits)

lemma follow_from:
  assumes first: "parseLimitOffset (aq_Query (with_cursor r '''')) defaultPageSize = Inr (limit, 0)"
    and listed: "listed_servers r h = Some results" and small: "int (length results) < 2 ^ 63 - 1000"
    and parsed: "parseLimitOffset (aq_Query (with_cursor r c)) defaultPageSize = Inr (limit, int k)"
    and "k \<le> length results" and "length results - k < n"
  shows "follow_pages n r h c = Some (drop k results)"
  using assms(4-6)
proof (induction n arbitrary: c k)
  case (Suc n)
  have lim: "0 < limit" "limit \<le> 1000" using limit_bounds [OF first] by simp_all
  have nolim: "int64 (int k + limit) = int k + limit"
    using Suc.prems(2) small lim by (intro int64_id) (simp_all add: MaxInt64_def)
  show ?case
  proof (cases "int k + limit \<ge> int (length results)")
    case True
    then have "HandleIntegratedServers (with_cursor r c) h = Pass (ServerPage (drop k results) (length results) '''')"
      using Suc.prems(1,2) lim by (auto simp: HandleIntegratedServers_def listed Let_def nextCursor_def nolim)
    then show ?thesis by simp
  next
    case False
    let ?k = "k + nat limit"
    have step: "HandleIntegratedServers (with_cursor r c) h
        = Pass (ServerPage (drop k (take ?k results)) (length results) (Itoa (int ?k)))"
      using Suc.prems(1,2) lim False
      by (auto simp: HandleIntegratedServers_def listed Let_def nextCursor_def nolim nat_add_distrib)
    have range: "0 \<le> int ?k" "int ?k < 2 ^ 63" using False small lim by simp_all
    have "follow_pages n r h (Itoa (int ?k)) = Some (drop ?k results)"
      by (rule Suc.IH) (use cursor_parsed [OF first range] Suc.prems False lim in auto)
    moreover have "drop k (take ?k results) @ drop ?k results = drop k results"
      by (metis append_take_drop_id drop_drop drop_take add.commute add_diff_cancel_left')
    ultimately show ?thesis using Itoa_read(3) [OF range] step by simp
  qed
qed simp

text \<open>C37. \<^bold>\<open>Paging through the servers ends and shows every server once.\<close>  Whatever the state and the filters of the
  request, and for any limit the API accepts: a client that starts without a cursor and follows \<open>next_cursor\<close> until it
  is empty receives, in order, exactly the servers that match, each once, after at most one request more than there are
  servers.\<close>

theorem server_pages_complete:
  assumes "parseLimitOffset (aq_Query (with_cursor r '''')) defaultPageSize = Inr (limit, 0)"
    and "listed_servers r h = Some results" and "int (length results) < 2 ^ 63 - 1000"
  shows "follow_pages (Suc (length results)) r h '''' = Some results"
  using follow_from [OF assms, of "''''" 0 "Suc (length results)"] assms(1) by simp

definition three_servers :: "unit AdminHandler" where
  "three_servers = example_handler\<lparr>ah_serverStore := Some \<lparr>sd_rows = map (\<lambda>i. zero_ServerRecord\<lparr>sr_ID := i\<rparr>) [''s1'', ''s2'', ''s3''],
     sd_now = 0, sd_fails = (\<lambda>_. False)\<rparr>\<rparr>"

definition two_at_a_time :: admin_request where
  "two_at_a_time = (delegated_request ''viewer'')\<lparr>aq_Query := (\<lambda>k. if k = ''limit'' then ''2'' else '''')\<rparr>"

theorem server_pages_complete_witness:
  "parseLimitOffset (aq_Query (with_cursor two_at_a_time '''')) defaultPageSize = Inr (2, 0)
   \<and> map_option (map sr_ID) (follow_pages 4 two_at_a_time three_servers '''') = Some [''s1'', ''s2'', ''s3'']"
proof -
  have first: "parseLimitOffset (aq_Query (with_cursor two_at_a_time '''')) defaultPageSize = Inr (2, 0)" by code_simp
  have ids: "map_option (map sr_ID) (listed_servers two_at_a_time three_servers) = Some [''s1'', ''s2'', ''s3'']" by code_simp
  then obtain results where listed: "listed_servers two_at_a_time three_servers = Some results"
    and map: "map sr_ID results = [''s1'', ''s2'', ''s3'']" by auto
  have len: "length results = 3" using map by (metis length_map list.size(3,4) numeral_3_eq_3 One_nat_def plus_1_eq_Suc add.commute)
  have "follow_pages (Suc (length results)) two_at_a_time three_servers '''' = Some results"
    by (rule server_pages_complete [OF first listed]) (simp add: len)
  then have "follow_pages 4 two_at_a_time three_servers '''' = Some results" by (simp only: len Suc_numeral) simp
  then show ?thesis using first map by simp
qed

text \<open>The sum in \<open>nextCursor\<close> wraps: a cursor near the end of the integers is answered with a negative one, which the
  API then refuses.\<close>

lemma next_cursor_wraps: "nextCursor (2 ^ 63 - 1) 50 10 = Itoa (49 - 2 ^ 63)"
proof -
  have "int64 (2 ^ 63 - 1 + 50) = 49 - 2 ^ 63" by (simp add: int64_def signed_take_bit_eq_take_bit_shift take_bit_eq_mod)
  then show ?thesis by (simp add: nextCursor_def)
qed

section \<open>Changes are logged\<close>

abbreviation admin_tables :: "'e AdminHandler \<Rightarrow> ServerDB option \<times> UserDB option \<times> ClassificationStore option" where
  "admin_tables h \<equiv> (ah_serverStore h, ah_userStore h, ah_classificationStore h)"

text \<open>Nothing happened to the tables and the log, or one entry under the actor's name was written.\<close>

definition logged_by :: "string \<Rightarrow> 'e AdminHandler \<Rightarrow> 'e AdminHandler \<Rightarrow> bool" where
  "logged_by actor h h1 =
    (admin_tables h1 = admin_tables h \<and> ah_auditStore h1 = ah_auditStore h
     \<or> (\<exists>entry. ae_ClientID entry = actor
         \<and> ah_auditStore h1 = map_option (\<lambda>a. snd (Audit_Log entry a)) (ah_auditStore h)))"

lemma logged_refl [simp]: "logged_by actor h h" by (simp add: logged_by_def)

lemma logged_same: "admin_tables h1 = admin_tables h \<Longrightarrow> ah_auditStore h1 = ah_auditStore h \<Longrightarrow> logged_by actor h h1"
  by (simp add: logged_by_def)

lemma logged_log [simp]: "ah_auditStore x = ah_auditStore h \<Longrightarrow> ae_ClientID e = actor \<Longrightarrow> logged_by actor h (admin_log e x)"
  by (auto simp: logged_by_def admin_log_def)

lemma logged_broadcast [simp]: "logged_by actor h (admin_broadcast b x) = logged_by actor h x"
  by (simp add: logged_by_def)

lemma upsert_logged: "logged_by actor h (snd (upsertToolClassification now name level reason actor source h))"
  by (auto simp: upsertToolClassification_def Classification_Upsert_def Let_def intro: logged_same split: option.splits)

lemma rate_limit_logged: "logged_by actor h (snd (updateServerRateLimit sid l b actor source h))"
  by (auto simp: updateServerRateLimit_def Store_UpdateRateLimit_def Let_def intro: logged_same split: option.splits)

lemma deregister_logged: "logged_by actor h (snd (deregisterServer sid actor source h))"
  by (auto simp: deregisterServer_def Store_Delete_def Let_def intro: logged_same split: option.splits)

lemma SetToolPermissions_fails: "SetToolPermissions uid ts g db = (Some e, db1) \<Longrightarrow> db1 = db"
  by (auto simp: SetToolPermissions_def Let_def split: if_splits)

lemma permissions_logged: "logged_by actor h (snd (replaceUserToolPermissions uid ts actor source h))"
  by (auto simp: replaceUserToolPermissions_def Let_def dest!: SetToolPermissions_fails intro: logged_same
      split: option.splits prod.splits)

lemma prune_logged: "logged_by actor h (snd (pruneOrphanedToolClassifications actor source h))"
  by (auto simp: pruneOrphanedToolClassifications_def Let_def split: option.splits sum.splits prod.splits)

lemma UpdateRole_fails: "UpdateRole uid role db = (Some e, db1) \<Longrightarrow> db1 = db"
  by (auto simp: UpdateRole_def split: if_splits)

lemma role_logged: "logged_by (as_Email s) h (snd (HandleUserRoleUpdate (Some s) r h))"
  by (auto simp: HandleUserRoleUpdate_def session_actor_def Let_def dest!: UpdateRole_fails intro: logged_same
      split: option.splits prod.splits)

lemma user_tools_logged: "logged_by (as_Email s) h (snd (change_user_tools combine event key (Some s) r h))"
  by (auto simp: change_user_tools_def session_actor_def Let_def dest!: SetToolPermissions_fails intro: logged_same
      split: option.splits prod.splits sum.splits)

lemmas operations_logged =
  upsert_logged rate_limit_logged deregister_logged permissions_logged prune_logged role_logged user_tools_logged

lemma integrated_logged: "logged_by (delegatedActor (Some d)) h (snd (integrated_handler V d t r h))"
proof (cases t)
  case IntServerDeregister
  then show ?thesis by (simp add: HandleIntegratedServerDeregister_def Let_def operations_logged)
next
  case (IntServerRateLimits body)
  then show ?thesis
    by (simp add: HandleIntegratedServerRateLimits_def Let_def operations_logged split: option.splits prod.splits)
next
  case IntServerPrune
  have "snd (HandleIntegratedServerPrune d h) = snd (pruneOrphanedToolClassifications (delegatedActor (Some d)) ''integrated_api'' h)"
    by (simp add: HandleIntegratedServerPrune_def split: prod.splits option.splits sum.splits)
  then show ?thesis using IntServerPrune by (simp add: operations_logged)
next
  case (IntToolUpdate body)
  then show ?thesis by (simp add: handleIntegratedToolMutation_def Let_def operations_logged split: option.splits)
next
  case (IntToolClassification body)
  then show ?thesis by (simp add: handleIntegratedToolMutation_def Let_def operations_logged split: option.splits)
next
  case (IntUserPermissions body)
  then show ?thesis by (simp add: HandleIntegratedUserPermissions_def Let_def operations_logged split: option.splits)
next
  case (IntTuningUpdate body)
  then show ?thesis
    by (auto simp: HandleIntegratedSearchTuningUpdate_def Let_def intro!: logged_same split: option.splits sum.splits prod.splits)
next
  case (IntTuningTest body)
  then show ?thesis
    by (auto simp: HandleIntegratedSearchTuningTest_def Let_def intro!: logged_same split: option.splits prod.splits)
qed simp_all

lemma standalone_logged: "logged_by (as_Email s) h (snd (standalone_handler V ftoa s t r h))"
proof (cases t)
  case PostToolUpdate
  then show ?thesis
    by (simp add: HandleToolUpdate_def session_actor_def Let_def operations_logged split: option.splits)
next
  case PostServerRateLimit
  then show ?thesis
    by (simp add: HandleServerRateLimitUpdate_def session_actor_def Let_def operations_logged split: option.splits sum.splits prod.splits)
next
  case PostPrune
  have "HandlePruneOrphanedTools (Some s) h = (a, h1) \<Longrightarrow> h1 = h
      \<or> h1 = snd (pruneOrphanedToolClassifications (as_Email s) ''admin_dashboard'' h)" for a h1
    by (auto simp: HandlePruneOrphanedTools_def session_actor_def split: prod.splits option.splits sum.splits if_splits)
  then show ?thesis using PostPrune by (cases "HandlePruneOrphanedTools (Some s) h") (auto simp: operations_logged)
next
  case PostServerDeregister
  then show ?thesis by (simp add: HandleServerDeregister_def session_actor_def Let_def operations_logged split: option.splits)
next
  case PostUserPermissions
  then show ?thesis by (simp add: HandleUserPermissionsUpdate_def session_actor_def Let_def operations_logged split: option.splits)
next
  case PageToolBrowse
  then show ?thesis
    by (auto simp: HandleToolBrowse_def Let_def intro!: logged_same split: option.splits prod.splits)
next
  case PostSearchTest
  then show ?thesis
    by (auto simp: HandleSearchTest_def Let_def intro!: logged_same split: option.splits prod.splits)
next
  case PostSynonym
  then show ?thesis
    by (auto simp: HandleSynonymCreate_def Let_def intro!: logged_same split: option.splits prod.splits bool.splits)
next
  case PostSynonymDelete
  then show ?thesis
    by (auto simp: HandleSynonymDelete_def Let_def intro!: logged_same split: option.splits prod.splits bool.splits)
qed (simp_all add: HandleUserToolsAdd_def HandleUserToolsRemove_def operations_logged)

text \<open>Who a request acts for, in either mode.\<close>

definition request_author ::
  "session_json \<Rightarrow> time \<Rightarrow> string \<Rightarrow> string \<Rightarrow> AdminAuth option \<Rightarrow> bool \<Rightarrow> admin_request \<Rightarrow> string option" where
  "request_author J now mode token auth devMode r =
    (if normalizeAdminMode mode = ''integrated''
     then (case IntegratedDelegatedAuthMiddleware token r of Pass d \<Rightarrow> Some (delegatedActor (Some d)) | _ \<Rightarrow> None)
     else (case group_gate J now auth devMode r of Pass s \<Rightarrow> Some (as_Email s) | _ \<Rightarrow> None))"

lemma router_logged:
  assumes router: "NewRouter J V ftoa mode token auth devMode = Some f" and run: "f api route r h = (answer, h1)"
    and ne: "h1 \<noteq> h"
  obtains actor where "request_author J (ve_now V) mode token auth devMode r = Some actor" "logged_by actor h h1"
proof (cases "normalizeAdminMode mode = ''integrated''")
  case True
  then have "f api route r h = map_prod Inl id (newIntegratedRouter V token api r h)"
    using router by (auto simp: NewRouter_def)
  then obtain out where out: "newIntegratedRouter V token api r h = (out, h1)"
    using run by (cases "newIntegratedRouter V token api r h") auto
  obtain t d where "IntegratedDelegatedAuthMiddleware token r = Pass d" "h1 = snd (integrated_handler V d t r h)"
    by (rule router_runs_handler [OF out ne])
  then show ?thesis using that True by (simp add: request_author_def integrated_logged)
next
  case False
  then have "f api route r h = map_prod Inr id (standalone_router J V ftoa auth devMode route r h)"
    using router by (auto simp: NewRouter_def split: if_splits)
  then obtain out where out: "standalone_router J V ftoa auth devMode route r h = (out, h1)"
    using run by (cases "standalone_router J V ftoa auth devMode route r h") auto
  obtain s where "group_gate J (ve_now V) auth devMode r = Pass s" "h1 = snd (standalone_handler V ftoa s route r h)"
    by (rule standalone_router_runs [OF out ne])
  then show ?thesis using that False by (simp add: request_author_def standalone_logged)
qed

text \<open>C33. \<^bold>\<open>Every change of servers, users or classifications is on record.\<close>  In both modes, for every route and
  request: when the request changed the servers, the users and their permissions, or the classifications, and the
  audit log accepts entries, the log has exactly one row more than before, at its end, stamped with the time of the
  change, and its client is the authenticated author of the request.  (Synonyms and search tuning are not logged.)\<close>

theorem admin_changes_logged:
  assumes "NewRouter J V ftoa mode token auth devMode = Some f" and "f api route r h = (answer, h1)"
    and "admin_tables h1 \<noteq> admin_tables h" and "ah_auditStore h = Some a" and "\<not> ad_fails a"
  shows "\<exists>row. ah_auditStore h1 = Some (a\<lparr>ad_rows := ad_rows a @ [row]\<rparr>) \<and> ar_CreatedAt row = ad_now a
    \<and> request_author J (ve_now V) mode token auth devMode r = Some (ae_ClientID (ar_entry row))"
proof -
  have "h1 \<noteq> h" using assms(3) by auto
  then obtain actor where author: "request_author J (ve_now V) mode token auth devMode r = Some actor"
    and "logged_by actor h h1"
    by (rule router_logged [OF assms(1,2)])
  then obtain entry where "ae_ClientID entry = actor" "ah_auditStore h1 = Some (snd (Audit_Log entry a))"
    using assms(3,4) by (auto simp: logged_by_def)
  then show ?thesis using assms(5) author by (auto simp: Audit_Log_def Let_def)
qed

theorem admin_changes_logged_witness:
  "\<exists>f answer h1 row. NewRouter example_json example_admin_env (\<lambda>_. '''') ''integrated'' ''secret'' None False = Some f
    \<and> f (Some IntServerDeregister) PageNotFound (delegated_request ''admin'') example_handler = (answer, h1)
    \<and> ah_auditStore h1 = Some \<lparr>ad_rows = [row], ad_now = 7, ad_fails = False\<rparr> \<and> ar_CreatedAt row = 7
    \<and> ae_ClientID (ar_entry row) = ''x''"
proof -
  let ?run = "newIntegratedRouter example_admin_env ''secret'' (Some IntServerDeregister) (delegated_request ''admin'') example_handler"
  have mode: "normalizeAdminMode ''integrated'' = ''integrated''" by code_simp
  obtain f where f: "NewRouter example_json example_admin_env (\<lambda>_. '''') ''integrated'' ''secret'' None False = Some f"
    by (simp add: NewRouter_def mode)
  obtain answer h1 where run: "f (Some IntServerDeregister) PageNotFound (delegated_request ''admin'') example_handler = (answer, h1)"
    by fastforce
  have "f (Some IntServerDeregister) PageNotFound (delegated_request ''admin'') example_handler = map_prod Inl id ?run"
    using f mode by (auto simp: NewRouter_def)
  moreover have "server_ids (snd ?run) = Some []" by code_simp
  ultimately have "server_ids h1 = Some []" using run by (cases ?run) simp
  moreover have "server_ids example_handler = Some [''s1'']" by code_simp
  ultimately have changed: "admin_tables h1 \<noteq> admin_tables example_handler" by (auto simp: server_ids_def)
  have log: "ah_auditStore example_handler = Some \<lparr>ad_rows = [], ad_now = 7, ad_fails = False\<rparr>"
    by (simp add: example_handler_def)
  have "request_author example_json (ve_now example_admin_env) ''integrated'' ''secret'' None False (delegated_request ''admin'')
      = Some ''x''" by code_simp
  then show ?thesis using admin_changes_logged [OF f run changed log] f run by auto
qed

section \<open>What the operations do\<close>

text \<open>Pruning keeps exactly the classifications of tools that an active server offers, and counts the others.\<close>

lemma active_tools_trimmed: "t \<in> set (active_tools servers) \<Longrightarrow> TrimSpace t = t \<and> t \<noteq> ''''"
  by (auto simp: active_tools_def)

lemma prune_exact:
  assumes "pruneOrphanedToolClassifications actor source h = (Some (Inr n), h1)"
  obtains db servers s where "ah_serverStore h = Some db" "Store_List active_filter db = Inr servers"
    "ah_classificationStore h = Some s"
    "ah_classificationStore h1 = Some (s\<lparr>cs_rows := filter (\<lambda>(k, v). k \<in> set (active_tools servers)) (cs_rows s)\<rparr>)"
    "n = int (length (filter (\<lambda>(k, v). k \<notin> set (active_tools servers)) (cs_rows s)))"
proof -
  obtain db servers s where db: "ah_serverStore h = Some db" and list: "Store_List active_filter db = Inr servers"
    and s: "ah_classificationStore h = Some s" and n: "n = fst (DeleteNotIn (active_tools servers) s)"
    and h1: "ah_classificationStore h1 = Some (snd (DeleteNotIn (active_tools servers) s))"
    using assms by (auto simp: pruneOrphanedToolClassifications_def Let_def split: option.splits sum.splits prod.splits if_splits)
  have "filter (\<lambda>n. n \<noteq> '''') (map TrimSpace (active_tools servers)) = active_tools servers"
    using active_tools_trimmed by (auto simp: filter_id_conv map_idI)
  then have del: "DeleteNotIn (active_tools servers) s =
      (int (length (cs_rows s)) - int (length (filter (\<lambda>(k, v). k \<in> set (active_tools servers)) (cs_rows s))),
       s\<lparr>cs_rows := filter (\<lambda>(k, v). k \<in> set (active_tools servers)) (cs_rows s)\<rparr>)"
    by (simp add: DeleteNotIn_def Let_def)
  have "int (length (cs_rows s)) = int (length (filter (\<lambda>(k, v). k \<in> set (active_tools servers)) (cs_rows s)))
      + int (length (filter (\<lambda>(k, v). k \<notin> set (active_tools servers)) (cs_rows s)))"
    using sum_length_filter_compl [of "\<lambda>(k, v). k \<in> set (active_tools servers)" "cs_rows s"]
    by (simp add: split_def flip: of_nat_add)
  then show ?thesis using that [OF db list s] h1 n del by simp
qed

text \<open>Granting and revoking tools.\<close>

definition tools_of :: "string \<Rightarrow> UserDB \<Rightarrow> string set" where
  "tools_of uid db = {up_ToolName p |p. p \<in> set (ud_perms db) \<and> up_UserID p = TrimSpace uid}"

definition others_perms :: "string \<Rightarrow> UserDB \<Rightarrow> UserToolPermission list" where
  "others_perms uid db = filter (\<lambda>p. up_UserID p \<noteq> TrimSpace uid) (ud_perms db)"

lemma SetToolPermissions_done:
  assumes "SetToolPermissions uid ts actor db = (None, db1)"
  shows "tools_of uid db1 = TrimSpace ` set ts" and "others_perms uid db1 = others_perms uid db"
    and "p \<in> set (ud_perms db1) \<Longrightarrow> up_UserID p = TrimSpace uid \<Longrightarrow> up_GrantedBy p = TrimSpace actor"
proof -
  let ?new = "\<lambda>n. \<lparr>up_UserID = TrimSpace uid, up_ToolName = TrimSpace n, up_GrantedBy = TrimSpace actor, up_GrantedAt = ud_now db\<rparr>"
  have db1: "ud_perms db1 = others_perms uid db @ map ?new ts"
    using assms by (auto simp: SetToolPermissions_def others_perms_def Let_def split: if_splits)
  have "{p. p \<in> set (ud_perms db1) \<and> up_UserID p = TrimSpace uid} = ?new ` set ts"
    by (auto simp: db1 others_perms_def)
  then have "tools_of uid db1 = up_ToolName ` ?new ` set ts" unfolding tools_of_def by blast
  then show "tools_of uid db1 = TrimSpace ` set ts" by (simp add: image_image)
  show "others_perms uid db1 = others_perms uid db"
    using db1 by (simp add: others_perms_def filter_empty_conv)
  show "p \<in> set (ud_perms db1) \<Longrightarrow> up_UserID p = TrimSpace uid \<Longrightarrow> up_GrantedBy p = TrimSpace actor"
    by (auto simp: db1 others_perms_def)
qed

lemma change_user_tools_done:
  assumes "change_user_tools combine event key (Some s) r h = (Redirect c u, h1)"
  obtains db db1 existing where "ah_userStore h = Some db" "ah_userStore h1 = Some db1"
    "set existing = tools_of (aq_Param r ''id'') db"
    "SetToolPermissions (aq_Param r ''id'') (combine existing (map TrimSpace (aq_Form r ''tool_names''))) (as_Email s) db = (None, db1)"
proof -
  obtain db existing db1 where db: "ah_userStore h = Some db" "ah_userStore h1 = Some db1"
    and get: "GetToolPermissions (aq_Param r ''id'') db = Inr existing"
    and set: "SetToolPermissions (aq_Param r ''id'') (combine (map up_ToolName existing) (map TrimSpace (aq_Form r ''tool_names'')))
       (as_Email s) db = (None, db1)"
    using assms
    by (auto simp: change_user_tools_def session_actor_def Let_def split: if_splits option.splits sum.splits prod.splits)
  have "set existing = {p \<in> set (ud_perms db). up_UserID p = TrimSpace (aq_Param r ''id'')}"
    using get by (auto simp: GetToolPermissions_def split: if_splits)
  then have "set (map up_ToolName existing) = tools_of (aq_Param r ''id'') db"
    by (auto simp: tools_of_def)
  then show ?thesis by (rule that [OF db _ set])
qed

lemma user_tools_granted:
  assumes "HandleUserToolsAdd (Some s) r h = (Redirect c u, h1)" and "ah_userStore h = Some db"
  shows "\<exists>db1. ah_userStore h1 = Some db1
    \<and> tools_of (aq_Param r ''id'') db1 = TrimSpace ` (tools_of (aq_Param r ''id'') db \<union> set (aq_Form r ''tool_names''))
    \<and> others_perms (aq_Param r ''id'') db1 = others_perms (aq_Param r ''id'') db"
proof (rule change_user_tools_done [OF assms(1) [unfolded HandleUserToolsAdd_def]])
  fix db0 db1 existing
  assume h: "ah_userStore h = Some db0" "ah_userStore h1 = Some db1"
    and ex: "set existing = tools_of (aq_Param r ''id'') db0"
    and set: "SetToolPermissions (aq_Param r ''id'') (remdups (existing @ map TrimSpace (aq_Form r ''tool_names'')))
      (as_Email s) db0 = (None, db1)"
  show ?thesis using h assms(2) ex SetToolPermissions_done(1,2) [OF set] by (simp add: image_Un image_image)
qed

lemma user_tools_revoked:
  assumes "HandleUserToolsRemove (Some s) r h = (Redirect c u, h1)" and "ah_userStore h = Some db"
  shows "\<exists>db1. ah_userStore h1 = Some db1
    \<and> tools_of (aq_Param r ''id'') db1 = TrimSpace ` (tools_of (aq_Param r ''id'') db - TrimSpace ` set (aq_Form r ''tool_names''))
    \<and> others_perms (aq_Param r ''id'') db1 = others_perms (aq_Param r ''id'') db"
proof (rule change_user_tools_done [OF assms(1) [unfolded HandleUserToolsRemove_def]])
  fix db0 db1 existing
  assume h: "ah_userStore h = Some db0" "ah_userStore h1 = Some db1"
    and ex: "set existing = tools_of (aq_Param r ''id'') db0"
    and set: "SetToolPermissions (aq_Param r ''id'')
       (filter (\<lambda>n. n \<notin> set (map TrimSpace (aq_Form r ''tool_names''))) existing) (as_Email s) db0 = (None, db1)"
  have "set (filter (\<lambda>n. n \<notin> set (map TrimSpace (aq_Form r ''tool_names''))) existing)
      = tools_of (aq_Param r ''id'') db0 - TrimSpace ` set (aq_Form r ''tool_names'')"
    using ex by auto
  then show ?thesis using h assms(2) SetToolPermissions_done(1,2) [OF set] by simp
qed

text \<open>Adding one tool stamps every permission the user already had with the new author.\<close>

lemma grants_restamped:
  assumes "HandleUserToolsAdd (Some s) r h = (Redirect c u, h1)" and "ah_userStore h1 = Some db1"
    and "p \<in> set (ud_perms db1)" and "up_UserID p = TrimSpace (aq_Param r ''id'')"
  shows "up_GrantedBy p = TrimSpace (as_Email s)"
proof (rule change_user_tools_done [OF assms(1) [unfolded HandleUserToolsAdd_def]])
  fix db0 db2 existing
  assume "ah_userStore h1 = Some db2" "SetToolPermissions (aq_Param r ''id'')
      (remdups (existing @ map TrimSpace (aq_Form r ''tool_names''))) (as_Email s) db0 = (None, db2)"
  then show ?thesis using SetToolPermissions_done(3) assms(2-4) by simp
qed

text \<open>The last second of a day is outside a filter that ends on that day.\<close>

lemma until_misses_last_second:
  assumes "parse_date ''2026-01-31'' = Some t"
  shows "af_Until (buildAuditFilter parse_date parse_rfc (\<lambda>k. if k = ''until'' then ''2026-01-31'' else '''')) = Some (t + 86399 * Second)"
proof -
  have "TrimSpace ''2026-01-31'' = ''2026-01-31''" by code_simp
  then show ?thesis using assms by (simp add: buildAuditFilter_def parseAuditTimeValue_def)
qed

text \<open>A body without a query is not refused: the query is the text of the missing value.\<close>

lemma missing_query_accepted:
  assumes "ah_discoveryIndex h = Some index"
  shows "\<exists>results tot. fst (HandleIntegratedSearchTuningTest V (Some (JObj [])) h) = Pass (SearchTestItem ''<nil>'' results tot (ve_now V))"
proof -
  have "TrimSpace ''<nil>'' = ''<nil>''" by code_simp
  then show ?thesis
    using assms by (simp add: HandleIntegratedSearchTuningTest_def payload_of_def payload_get_def Let_def split: prod.splits)
qed

text \<open>Pruning through the API with no server store configured ends in a panic.\<close>

lemma integrated_prune_panics:
  "ah_serverStore h = None \<Longrightarrow> HandleIntegratedServerPrune d h = (HTTPError 0 ''panic'', h)"
  by (simp add: HandleIntegratedServerPrune_def pruneOrphanedToolClassifications_def)

end
