(* ===== verification/Api_Keys.thy ===== *)
theory Api_Keys
  imports Token_Flow
begin

text \<open>
  API keys from their generation to their use: the generation and hashing of keys (\<open>internal/auth/apikey.go\<close>), the
  endpoints that manage them (\<open>internal/server/apikey_api.go\<close>) and the commands \<open>mcpgw apikey\<close>, which work on the
  database or on a remote gateway (\<open>cmd/mcpgw/apikey.go\<close>, \<open>apikey_remote.go\<close>).  The table of keys is that of \<open>Stores\<close>,
  the middleware that accepts keys that of \<open>Identity_Auth\<close>.  Random bytes, SHA-256, bcrypt and the encoding of JSON are
  parameters.  The lemmas show that an issued key is accepted, with the identity and the scopes its answer names, until
  it expires or is revoked, and where the commands and the endpoint differ.
\<close>

section \<open>Keys\<close>

text \<open>\<open>ke_random\<close>: the bytes read from the system.  \<open>ke_bcrypt\<close>: the salted hash of a password, \<open>ke_compare\<close> checks a
  password against one.  \<open>ke_uuid\<close>: the identifier that the database draws.  \<open>ke_format\<close>: RFC 3339.\<close>

record key_env =
  ke_random :: "string option"
  ke_sha256 :: "string \<Rightarrow> string"
  ke_bcrypt :: "string \<Rightarrow> string option"
  ke_compare :: "string \<Rightarrow> string \<Rightarrow> bool"
  ke_uuid :: string
  ke_now :: time
  ke_format :: "time \<Rightarrow> string"

definition LookupHashAPIKey :: "key_env \<Rightarrow> string \<Rightarrow> string" where
  "LookupHashAPIKey E plaintext = hex_EncodeToString (ke_sha256 E plaintext)"

definition HashAPIKey :: "key_env \<Rightarrow> string \<Rightarrow> string option" where
  "HashAPIKey E plaintext = ke_bcrypt E plaintext"

definition VerifyAPIKey :: "key_env \<Rightarrow> string \<Rightarrow> string \<Rightarrow> bool" where
  "VerifyAPIKey E plaintext hash = ke_compare E hash plaintext"

definition GenerateAPIKey :: "key_env \<Rightarrow> (string \<times> string \<times> string) option" where
  "GenerateAPIKey E =
    (case ke_random E of
       None \<Rightarrow> None
     | Some randomBytes \<Rightarrow>
         (let plaintext = APIKeyPrefix @ b64_RawEncode randomBytes; lookupHash = LookupHashAPIKey E plaintext
          in case HashAPIKey E plaintext of None \<Rightarrow> None | Some bcryptHash \<Rightarrow> Some (plaintext, lookupHash, bcryptHash)))"

section \<open>The endpoints\<close>

record createAPIKeyAPIRequest =
  cq_Name :: string
  cq_Scopes :: "string list"
  cq_Expires :: string
  cq_ClientID :: string
  cq_Profile :: string
  cq_ServerScope :: "string list"

record apiKeyView =
  kv_ID :: string
  kv_Name :: string
  kv_ClientID :: string
  kv_Scopes :: "string list"
  kv_PolicyProfile :: string
  kv_ServerScope :: "string list"
  kv_ExpiresAt :: "string option"
  kv_CreatedAt :: string

datatype expiry_error = ErrDayDuration string | ErrDuration string | ErrNotPositive

datatype key_answer =
    KeyError int string
  | BadExpiry expiry_error
  | KeyCreated apiKeyView string
  | KeyList "apiKeyView list"
  | KeyRevoked string

definition dedupeScopes :: "string list \<Rightarrow> string list" where
  "dedupeScopes raw = foldl add_scope [] raw"

definition formatTimePtr :: "key_env \<Rightarrow> time option \<Rightarrow> string option" where
  "formatTimePtr E t = map_option (ke_format E) t"

text \<open>The product of the days wraps at 64 bits.\<close>

definition day_duration :: "int \<Rightarrow> duration" where
  "day_duration days = int64 (int64 (days * 24) * (60 * Minute))"

definition parseAPIKeyExpiry :: "key_env \<Rightarrow> string \<Rightarrow> expiry_error + time option" where
  "parseAPIKeyExpiry E raw =
    (let trimmed = TrimSpace raw;
         parsed = (if trimmed \<noteq> [] \<and> last trimmed = CHR ''d''
                   then (case Atoi (TrimSpace (butlast trimmed)) of
                       None \<Rightarrow> Inl (ErrDayDuration raw)
                     | Some days \<Rightarrow> if days \<le> 0 then Inl (ErrDayDuration raw) else Inr (day_duration days))
                   else (case ParseDuration trimmed of None \<Rightarrow> Inl (ErrDuration raw) | Some d \<Rightarrow> Inr d))
     in if trimmed = '''' then Inr None
        else case parsed of
            Inl e \<Rightarrow> Inl e
          | Inr d \<Rightarrow> if d \<le> 0 then Inl ErrNotPositive else Inr (Some (ke_now E + d)))"

definition key_record ::
  "string \<Rightarrow> string \<Rightarrow> string list \<Rightarrow> string \<Rightarrow> string list \<Rightarrow> time option \<Rightarrow> string \<Rightarrow> string \<Rightarrow> APIKey" where
  "key_record name clientID scopes profile serverScope expiresAt lookupHash bcryptHash =
    \<lparr>ak_ID = '''', ak_KeyLookupHash = lookupHash, ak_KeyBcryptHash = bcryptHash, ak_Name = name, ak_Scopes = scopes,
     ak_ClientID = (if TrimSpace clientID = '''' then name else TrimSpace clientID),
     ak_PolicyProfile = (if TrimSpace profile = '''' then ''default'' else TrimSpace profile),
     ak_ServerScope = serverScope, ak_ExpiresAt = expiresAt, ak_CreatedAt = 0\<rparr>"

text \<open>The record with what the database gave it.\<close>

definition stored_record :: "APIKey \<Rightarrow> APIKeyDB \<Rightarrow> APIKey" where
  "stored_record record db =
    (case GetByLookupHash db (ak_KeyLookupHash record) of
       Inr (Some stored) \<Rightarrow> record\<lparr>ak_ID := ak_ID stored, ak_CreatedAt := ak_CreatedAt stored\<rparr>
     | _ \<Rightarrow> record)"

definition key_view :: "key_env \<Rightarrow> APIKey \<Rightarrow> apiKeyView" where
  "key_view E key =
    \<lparr>kv_ID = ak_ID key, kv_Name = ak_Name key, kv_ClientID = ak_ClientID key, kv_Scopes = ak_Scopes key,
     kv_PolicyProfile = ak_PolicyProfile key, kv_ServerScope = ak_ServerScope key,
     kv_ExpiresAt = formatTimePtr E (ak_ExpiresAt key), kv_CreatedAt = ke_format E (ak_CreatedAt key)\<rparr>"

text \<open>The body is given decoded.\<close>

definition APIKey_handleCreate ::
  "key_env \<Rightarrow> createAPIKeyAPIRequest option \<Rightarrow> APIKeyDB \<Rightarrow> key_answer \<times> APIKeyDB" where
  "APIKey_handleCreate E body db =
    (case body of
       None \<Rightarrow> (KeyError 400 ''invalid request body'', db)
     | Some req \<Rightarrow>
         (let name = TrimSpace (cq_Name req);
              deduped = dedupeScopes (cq_Scopes req);
              scopes = (if deduped = [] then [''read''] else deduped);
              expires = (if TrimSpace (cq_Expires req) = '''' then Inr None else parseAPIKeyExpiry E (TrimSpace (cq_Expires req)))
          in if name = '''' then (KeyError 400 ''name is required'', db)
             else case expires of
                 Inl e \<Rightarrow> (BadExpiry e, db)
               | Inr expiresAt \<Rightarrow>
                   (case GenerateAPIKey E of
                      None \<Rightarrow> (KeyError 500 ''failed to generate api key'', db)
                    | Some (plaintext, lookupHash, bcryptHash) \<Rightarrow>
                        (let record = key_record name (cq_ClientID req) scopes (cq_Profile req)
                               (dedupeScopes (cq_ServerScope req)) expiresAt lookupHash bcryptHash
                         in case APIKey_Create (ke_uuid E) record db of
                              (Some e, db1) \<Rightarrow> (KeyError 500 ''failed to create api key'', db1)
                            | (None, db1) \<Rightarrow> (KeyCreated (key_view E (stored_record record db1)) plaintext, db1)))))"

definition APIKey_handleList :: "key_env \<Rightarrow> APIKeyDB \<Rightarrow> key_answer" where
  "APIKey_handleList E db =
    (case APIKey_List db of
       Inl e \<Rightarrow> KeyError 500 ''failed to list api keys''
     | Inr keys \<Rightarrow> KeyList (map (key_view E) keys))"

definition APIKey_handleRevoke :: "string \<Rightarrow> APIKeyDB \<Rightarrow> key_answer \<times> APIKeyDB" where
  "APIKey_handleRevoke param db =
    (let kid = TrimSpace param
     in if kid = '''' then (KeyError 400 ''id is required'', db)
        else case Revoke kid db of
            (Some e, db1) \<Rightarrow> (KeyError 500 ''failed to revoke api key'', db1)
          | (None, db1) \<Rightarrow> (KeyRevoked kid, db1))"

section \<open>The commands on the database\<close>

datatype apikey_error =
    KeyFlags | KeyUsage string | KeyExpiry expiry_error | KeyGenerate | KeyStore | KeyCreateFailed key_error | KeyListFailed key_error
  | KeyRevokeFailed key_error | KeyConfirm | KeyCancelled | KeyTokens proxy_error | KeyBuild | KeyRequest | KeyUnauthorized
  | KeyRead | KeyStatus int string | KeyDecode

definition parseScopes :: "string \<Rightarrow> string list" where
  "parseScopes raw = foldl add_scope [] (split_char (CHR '','') raw)"

definition parseExtendedDuration :: "string \<Rightarrow> expiry_error + duration" where
  "parseExtendedDuration raw =
    (let trimmed = TrimSpace raw
     in if trimmed \<noteq> [] \<and> last trimmed = CHR ''d''
        then (case Atoi (TrimSpace (butlast trimmed)) of
            None \<Rightarrow> Inl (ErrDayDuration raw)
          | Some days \<Rightarrow> Inr (day_duration days))
        else (case ParseDuration trimmed of None \<Rightarrow> Inl (ErrDuration raw) | Some d \<Rightarrow> Inr d))"

definition parseExpiry :: "key_env \<Rightarrow> string \<Rightarrow> expiry_error + time option" where
  "parseExpiry E raw =
    (let trimmed = TrimSpace raw
     in if trimmed = '''' then Inr None
        else case parseExtendedDuration trimmed of
            Inl e \<Rightarrow> Inl e
          | Inr d \<Rightarrow> if d \<le> 0 then Inl ErrNotPositive else Inr (Some (ke_now E + d)))"

definition join_comma :: "string list \<Rightarrow> string" where
  "join_comma xs = (case xs of [] \<Rightarrow> [] | x # rest \<Rightarrow> x @ concat (map (\<lambda>y. CHR '','' # y) rest))"

definition create_flags :: "(string \<times> bool) list" where
  "create_flags = [(''name'', False), (''scopes'', False), (''expires'', False), (''client-id'', False), (''profile'', False),
     (''server-scope'', False), (''gateway-url'', False)]"

definition created_lines :: "key_env \<Rightarrow> APIKey \<Rightarrow> string \<Rightarrow> string list" where
  "created_lines E record plaintext =
    [''ID: '' @ ak_ID record, ''Name: '' @ ak_Name record, ''Client ID: '' @ ak_ClientID record]
    @ (if ak_ServerScope record \<noteq> [] then [''Server Scope: '' @ join_comma (ak_ServerScope record)] else [])
    @ [''Expires At: '' @ (case ak_ExpiresAt record of None \<Rightarrow> ''never'' | Some t \<Rightarrow> ke_format E t), ''API Key: '' @ plaintext]"

text \<open>\<open>apikeyCreateCommand\<close> after its flags, without a gateway; the store is \<open>None\<close> when it cannot be opened.\<close>

definition local_create ::
  "key_env \<Rightarrow> (string, string) gomap \<Rightarrow> APIKeyDB option \<Rightarrow> (apikey_error + string list) \<times> APIKeyDB option" where
  "local_create E vals store =
    (let name = TrimSpace (flag_value vals ''name'' '''');
         scopes = parseScopes (flag_value vals ''scopes'' ''read'')
     in if name = '''' then (Inl (KeyUsage ''apikey create requires --name''), store)
        else if scopes = [] then (Inl (KeyUsage ''apikey create requires at least one scope''), store)
        else case parseExpiry E (flag_value vals ''expires'' '''') of
            Inl e \<Rightarrow> (Inl (KeyExpiry e), store)
          | Inr expiresAt \<Rightarrow>
              (case GenerateAPIKey E of
                 None \<Rightarrow> (Inl KeyGenerate, store)
               | Some (plaintext, lookupHash, bcryptHash) \<Rightarrow>
                   (let record = key_record name (flag_value vals ''client-id'' '''') scopes (flag_value vals ''profile'' ''default'')
                          (parseScopes (flag_value vals ''server-scope'' '''')) expiresAt lookupHash bcryptHash
                    in case store of
                         None \<Rightarrow> (Inl KeyStore, None)
                       | Some db \<Rightarrow>
                           (case APIKey_Create (ke_uuid E) record db of
                              (Some e, db1) \<Rightarrow> (Inl (KeyCreateFailed e), Some db1)
                            | (None, db1) \<Rightarrow> (Inr (created_lines E (stored_record record db1) plaintext), Some db1)))))"

text \<open>The listing: rows of cells, which the tab writer aligns, or the views that are encoded.\<close>

datatype key_listing = KeyTable "string list list" | KeyJSON "(string \<times> json) list list"

text \<open>A copy of an empty slice is nil, which is encoded as null.\<close>

definition json_slice :: "string list \<Rightarrow> json" where
  "json_slice xs = (if xs = [] then JNull else JArr (map JStr xs))"

definition safeAPIKeyView :: "key_env \<Rightarrow> APIKey \<Rightarrow> (string \<times> json) list" where
  "safeAPIKeyView E key =
    [(''id'', JStr (ak_ID key)), (''name'', JStr (ak_Name key)), (''client_id'', JStr (ak_ClientID key)),
     (''scopes'', json_slice (ak_Scopes key)), (''server_scope'', json_slice (ak_ServerScope key)),
     (''expires_at'', case ak_ExpiresAt key of None \<Rightarrow> JNull | Some t \<Rightarrow> JStr (ke_format E t)),
     (''created_at'', JStr (ke_format E (ak_CreatedAt key)))]"

definition key_row :: "key_env \<Rightarrow> APIKey \<Rightarrow> string list" where
  "key_row E key =
    [ak_ID key, ak_Name key, ak_ClientID key, join_comma (ak_Scopes key),
     if ak_ServerScope key \<noteq> [] then join_comma (ak_ServerScope key) else ''*'',
     case ak_ExpiresAt key of None \<Rightarrow> ''never'' | Some t \<Rightarrow> ke_format E t, ke_format E (ak_CreatedAt key)]"

definition local_list :: "key_env \<Rightarrow> string \<Rightarrow> APIKeyDB option \<Rightarrow> apikey_error + key_listing" where
  "local_list E format store =
    (case store of
       None \<Rightarrow> Inl KeyStore
     | Some db \<Rightarrow>
         (case APIKey_List db of
            Inl e \<Rightarrow> Inl (KeyListFailed e)
          | Inr keys \<Rightarrow>
              (let f = ToLower (TrimSpace format)
               in if f = ''json'' then Inr (KeyJSON (map (safeAPIKeyView E) keys))
                  else if f = ''table'' \<or> f = ''''
                  then Inr (KeyTable ([''ID'', ''NAME'', ''CLIENT_ID'', ''SCOPES'', ''SERVER_SCOPE'', ''EXPIRES_AT'', ''CREATED_AT'']
                         # map (key_row E) keys))
                  else Inl (KeyUsage (''invalid format: expected table or json'')))))"

text \<open>\<open>confirmAction\<close>: the line that was typed, \<open>None\<close> when it cannot be read.\<close>

definition confirmAction :: "string option \<Rightarrow> bool \<Rightarrow> apikey_error + bool" where
  "confirmAction line force =
    (if force then Inr True
     else case line of
         None \<Rightarrow> Inl KeyConfirm
       | Some l \<Rightarrow> (let answer = ToLower (TrimSpace l) in Inr (answer = ''y'' \<or> answer = ''yes'')))"

definition local_revoke ::
  "string option \<Rightarrow> bool \<Rightarrow> string \<Rightarrow> APIKeyDB option \<Rightarrow> (apikey_error + string list) \<times> APIKeyDB option" where
  "local_revoke line force kid store =
    (case confirmAction line force of
       Inl e \<Rightarrow> (Inl e, store)
     | Inr ok \<Rightarrow>
         if \<not> ok then (Inl KeyCancelled, store)
         else (case store of
             None \<Rightarrow> (Inl KeyStore, None)
           | Some db \<Rightarrow>
               (case Revoke kid db of
                  (Some e, db1) \<Rightarrow> (Inl (KeyRevokeFailed e), Some db1)
                | (None, db1) \<Rightarrow> (Inr [''revoked api key '' @ kid], Some db1))))"

section \<open>The commands on a remote gateway\<close>

record remoteCreateRequest =
  rc_Name :: string
  rc_Scopes :: "string list"
  rc_Expires :: string
  rc_ClientID :: string
  rc_Profile :: string

record remoteKeyView =
  rv_ID :: string
  rv_Name :: string
  rv_ClientID :: string
  rv_Scopes :: "string list"
  rv_PolicyProfile :: string
  rv_ExpiresAt :: "string option"
  rv_CreatedAt :: string

text \<open>The JSON of the requests and answers; an answer to a creation also carries the key.\<close>

record key_codec =
  kc_encode :: "remoteCreateRequest \<Rightarrow> string"
  kc_created :: "string \<Rightarrow> (remoteKeyView \<times> string) option"
  kc_views :: "string \<Rightarrow> remoteKeyView list option"

definition apiKeyHTTPRequest ::
  "'w client_env \<Rightarrow> string \<Rightarrow> string \<Rightarrow> call_body \<Rightarrow> token_files \<Rightarrow> 'w \<Rightarrow> (apikey_error + http_reply) \<times> token_files \<times> 'w" where
  "apiKeyHTTPRequest N meth url body files w =
    (case loadAndRefreshToken N files w of
       (Inl e, files1, w1) \<Rightarrow> (Inl (KeyTokens e), files1, w1)
     | (Inr t, files1, w1) \<Rightarrow>
         if \<not> cl_url_ok N url then (Inl KeyBuild, files1, w1)
         else (case cl_do N \<lparr>hc_Method = meth, hc_URL = url,
                  hc_Header = (''Authorization'', ''Bearer '' @ ct_AccessToken t)
                    # (if body \<noteq> NoBody then [(''Content-Type'', ''application/json'')] else []),
                  hc_Body = body\<rparr> w1 of
             (None, w2) \<Rightarrow> (Inl KeyRequest, files1, w2)
           | (Some resp, w2) \<Rightarrow> (if hr_Status resp = 401 then Inl KeyUnauthorized else Inr resp, files1, w2)))"

text \<open>The body of an answer with the expected status.\<close>

definition expected_body :: "int \<Rightarrow> http_reply \<Rightarrow> apikey_error + string" where
  "expected_body status resp =
    (case hr_Body resp of
       None \<Rightarrow> Inl KeyRead
     | Some body \<Rightarrow> if hr_Status resp \<noteq> status then Inl (KeyStatus (hr_Status resp) body) else Inr body)"

definition remote_request :: "string \<Rightarrow> string \<Rightarrow> string \<Rightarrow> string \<Rightarrow> string \<Rightarrow> apikey_error + remoteCreateRequest" where
  "remote_request name scopesRaw expires clientID profile =
    (let scopes = parseScopes scopesRaw
     in if TrimSpace name = '''' then Inl (KeyUsage ''apikey create requires --name'')
        else if scopes = [] then Inl (KeyUsage ''apikey create requires at least one scope'')
        else Inr \<lparr>rc_Name = TrimSpace name, rc_Scopes = scopes, rc_Expires = TrimSpace expires,
                  rc_ClientID = TrimSpace clientID, rc_Profile = TrimSpace profile\<rparr>)"

definition remoteAPIKeyCreate ::
  "'w client_env \<Rightarrow> key_codec \<Rightarrow> string \<Rightarrow> string \<Rightarrow> string \<Rightarrow> string \<Rightarrow> string \<Rightarrow> string \<Rightarrow> token_files \<Rightarrow> 'w
   \<Rightarrow> (apikey_error + string list) \<times> token_files \<times> 'w" where
  "remoteAPIKeyCreate N K baseURL name scopesRaw expires clientID profile files w =
    (case remote_request name scopesRaw expires clientID profile of
       Inl e \<Rightarrow> (Inl e, files, w)
     | Inr req \<Rightarrow>
         (case apiKeyHTTPRequest N ''POST'' (baseURL @ ''/v1/apikeys'') (TextBody (kc_encode K req)) files w of
            (Inl e, files1, w1) \<Rightarrow> (Inl e, files1, w1)
          | (Inr resp, files1, w1) \<Rightarrow>
              (case expected_body 201 resp of
                 Inl e \<Rightarrow> (Inl e, files1, w1)
               | Inr body \<Rightarrow>
                   (case kc_created K body of
                      None \<Rightarrow> (Inl KeyDecode, files1, w1)
                    | Some (v, key) \<Rightarrow>
                        (Inr [''ID: '' @ rv_ID v, ''Name: '' @ rv_Name v, ''Client ID: '' @ rv_ClientID v,
                              ''Expires At: '' @ (case rv_ExpiresAt v of None \<Rightarrow> ''never'' | Some t \<Rightarrow> t), ''API Key: '' @ key],
                         files1, w1)))))"

datatype remote_listing = RemoteTable "string list list" | RemoteJSON "remoteKeyView list"

definition remoteAPIKeyList ::
  "'w client_env \<Rightarrow> key_codec \<Rightarrow> string \<Rightarrow> string \<Rightarrow> token_files \<Rightarrow> 'w \<Rightarrow> (apikey_error + remote_listing) \<times> token_files \<times> 'w" where
  "remoteAPIKeyList N K baseURL format files w =
    (case apiKeyHTTPRequest N ''GET'' (baseURL @ ''/v1/apikeys'') NoBody files w of
       (Inl e, files1, w1) \<Rightarrow> (Inl e, files1, w1)
     | (Inr resp, files1, w1) \<Rightarrow>
         (case expected_body 200 resp of
            Inl e \<Rightarrow> (Inl e, files1, w1)
          | Inr body \<Rightarrow>
              (case kc_views K body of
                 None \<Rightarrow> (Inl KeyDecode, files1, w1)
               | Some keys \<Rightarrow>
                   (let f = ToLower (TrimSpace format);
                        row = (\<lambda>v. [rv_ID v, rv_Name v, rv_ClientID v, join_comma (rv_Scopes v),
                                    case rv_ExpiresAt v of None \<Rightarrow> ''never'' | Some t \<Rightarrow> t, rv_CreatedAt v])
                    in if f = ''json'' then (Inr (RemoteJSON keys), files1, w1)
                       else if f = ''table'' \<or> f = ''''
                       then (Inr (RemoteTable ([''ID'', ''NAME'', ''CLIENT_ID'', ''SCOPES'', ''EXPIRES_AT'', ''CREATED_AT''] # map row keys)), files1, w1)
                       else (Inl (KeyUsage ''invalid format: expected table or json''), files1, w1)))))"

definition remoteAPIKeyRevoke ::
  "'w client_env \<Rightarrow> string \<Rightarrow> string \<Rightarrow> token_files \<Rightarrow> 'w \<Rightarrow> (apikey_error + string list) \<times> token_files \<times> 'w" where
  "remoteAPIKeyRevoke N baseURL kid files w =
    (case apiKeyHTTPRequest N ''DELETE'' (baseURL @ ''/v1/apikeys/'' @ kid) NoBody files w of
       (Inl e, files1, w1) \<Rightarrow> (Inl e, files1, w1)
     | (Inr resp, files1, w1) \<Rightarrow>
         (case expected_body 200 resp of
            Inl e \<Rightarrow> (Inl e, files1, w1)
          | Inr body \<Rightarrow> (Inr [''revoked api key '' @ kid], files1, w1)))"

section \<open>The commands\<close>

text \<open>The base address of a remote gateway; empty: the command works on the database.\<close>

definition gateway_of :: "(string, string) gomap \<Rightarrow> string" where
  "gateway_of vals = TrimRight (CHR ''/'') (TrimSpace (flag_value vals ''gateway-url'' ''''))"

definition apikeyCreateCommand ::
  "key_env \<Rightarrow> 'w client_env \<Rightarrow> key_codec \<Rightarrow> string list \<Rightarrow> APIKeyDB option \<Rightarrow> token_files \<Rightarrow> 'w
   \<Rightarrow> (apikey_error + string list) \<times> APIKeyDB option \<times> token_files \<times> 'w" where
  "apikeyCreateCommand E N K args store files w =
    (case flag_parse create_flags args [] of
       None \<Rightarrow> (Inl KeyFlags, store, files, w)
     | Some (vals, rest) \<Rightarrow>
         if rest \<noteq> [] then (Inl (KeyUsage ''apikey create does not accept positional arguments''), store, files, w)
         else if gateway_of vals \<noteq> ''''
         then (case remoteAPIKeyCreate N K (gateway_of vals) (flag_value vals ''name'' '''') (flag_value vals ''scopes'' ''read'')
                 (flag_value vals ''expires'' '''') (flag_value vals ''client-id'' '''') (flag_value vals ''profile'' ''default'') files w of
             (r, files1, w1) \<Rightarrow> (r, store, files1, w1))
         else (case local_create E vals store of (r, store1) \<Rightarrow> (r, store1, files, w)))"

definition apikeyListCommand ::
  "key_env \<Rightarrow> 'w client_env \<Rightarrow> key_codec \<Rightarrow> string list \<Rightarrow> APIKeyDB option \<Rightarrow> token_files \<Rightarrow> 'w
   \<Rightarrow> (apikey_error + key_listing + remote_listing) \<times> token_files \<times> 'w" where
  "apikeyListCommand E N K args store files w =
    (case flag_parse [(''format'', False), (''gateway-url'', False)] args [] of
       None \<Rightarrow> (Inl KeyFlags, files, w)
     | Some (vals, rest) \<Rightarrow>
         if rest \<noteq> [] then (Inl (KeyUsage ''apikey list does not accept positional arguments''), files, w)
         else if gateway_of vals \<noteq> ''''
         then (case remoteAPIKeyList N K (gateway_of vals) (flag_value vals ''format'' ''table'') files w of
             (r, files1, w1) \<Rightarrow> (map_sum id Inr r, files1, w1))
         else (map_sum id Inl (local_list E (flag_value vals ''format'' ''table'') store), files, w))"

definition apikeyRevokeCommand ::
  "'w client_env \<Rightarrow> string option \<Rightarrow> string list \<Rightarrow> APIKeyDB option \<Rightarrow> token_files \<Rightarrow> 'w
   \<Rightarrow> (apikey_error + string list) \<times> APIKeyDB option \<times> token_files \<times> 'w" where
  "apikeyRevokeCommand N line args store files w =
    (case flag_parse [(''force'', True), (''gateway-url'', False)] args [] of
       None \<Rightarrow> (Inl KeyFlags, store, files, w)
     | Some (vals, rest) \<Rightarrow>
         (case rest of
            [arg] \<Rightarrow>
              (let kid = TrimSpace arg
               in if gateway_of vals \<noteq> ''''
                  then (case remoteAPIKeyRevoke N (gateway_of vals) kid files w of (r, files1, w1) \<Rightarrow> (r, store, files1, w1))
                  else (case local_revoke line (flag_value vals ''force'' ''false'' = ''true'') kid store of
                      (r, store1) \<Rightarrow> (r, store1, files, w)))
          | _ \<Rightarrow> (Inl (KeyUsage ''apikey revoke requires exactly one argument: <id>''), store, files, w)))"

section \<open>An issued key is accepted until it expires or is revoked\<close>

lemma b64_char_visible: "n < 64 \<Longrightarrow> visible (b64_char n) \<and> b64_char n \<noteq> CHR ''.''"
proof -
  assume n: "n < 64"
  let ?m = "if n < 26 then n + 65 else if n < 52 then n + 71 else if n < 62 then n - 4 else if n = 62 then 45 else (95 :: nat)"
  have m: "of_char (b64_char n) = ?m" using n by (simp add: b64_char_def)
  have "33 \<le> ?m" "?m \<le> 126" "?m \<noteq> 46" using n by auto
  moreover have "of_char (CHR ''.'') = (46 :: nat)" by simp
  ultimately show ?thesis unfolding visible_def m by (metis m)
qed

lemma b64_encoded_chars: "c \<in> set (b64_encode False s) \<Longrightarrow> visible c \<and> c \<noteq> CHR ''.''"
proof (induction "False" s rule: b64_encode.induct)
  case (2 a)
  have "of_char a div 4 < (64 :: nat)" "of_char a mod 4 * 16 < (64 :: nat)" using byte_bound [of a] by simp_all
  then show ?case using 2 by (auto simp: b64_char_visible)
next
  case (3 a b)
  have "of_char a div 4 < (64 :: nat)" "of_char a mod 4 * 16 + of_char b div 16 < (64 :: nat)" "of_char b mod 16 * 4 < (64 :: nat)"
    using byte_bound [of a] byte_bound [of b] by simp_all
  then show ?case using 3 by (auto simp: b64_char_visible)
next
  case (4 a b c' rest)
  have "of_char a div 4 < (64 :: nat)" "of_char a mod 4 * 16 + of_char b div 16 < (64 :: nat)"
    "of_char b mod 16 * 4 + of_char c' div 64 < (64 :: nat)" "of_char c' mod 64 < (64 :: nat)"
    using byte_bound [of a] byte_bound [of b] byte_bound [of c'] by simp_all
  then show ?case using 4 by (auto simp: b64_char_visible)
qed simp

lemma generated_key:
  assumes "GenerateAPIKey E = Some (plaintext, lookupHash, bcryptHash)"
  shows "lookupHash = LookupHashAPIKey E plaintext" "ke_bcrypt E plaintext = Some bcryptHash"
    "HasPrefix plaintext APIKeyPrefix" "TrimSpace plaintext = plaintext" "plaintext \<noteq> ''''" "\<not> isJWTToken plaintext"
proof -
  obtain r where p: "plaintext = APIKeyPrefix @ b64_RawEncode r" and "lookupHash = LookupHashAPIKey E plaintext"
    and "ke_bcrypt E plaintext = Some bcryptHash"
    using assms by (auto simp: GenerateAPIKey_def HashAPIKey_def Let_def split: option.splits)
  then show "lookupHash = LookupHashAPIKey E plaintext" "ke_bcrypt E plaintext = Some bcryptHash" by simp_all
  show "HasPrefix plaintext APIKeyPrefix" by (simp add: p HasPrefix_def)
  have "visible x \<and> x \<noteq> CHR ''.''" if "x \<in> set plaintext" for x
    using that b64_encoded_chars [of x r] by (auto simp: p visible_def)
  then have all: "\<forall>x\<in>set plaintext. visible x" and dot: "CHR ''.'' \<notin> set plaintext" by auto
  have ne: "plaintext \<noteq> []" by (simp add: p)
  then show "plaintext \<noteq> ''''" by simp
  have "trimmed_word plaintext" using all ne by (simp add: trimmed_word_def)
  then show "TrimSpace plaintext = plaintext" by (rule TrimSpace_word)
  show "\<not> isJWTToken plaintext" using dot by (simp add: isJWTToken_def count_list_0_iff)
qed

text \<open>The middleware of a gateway on a database at a time.\<close>

definition key_auth :: "key_env \<Rightarrow> APIKeyDB \<Rightarrow> (string \<Rightarrow> Identity option) option \<Rightarrow> auth_env" where
  "key_auth E db oidc =
    \<lparr>au_apiKeyStore = Some (GetByLookupHash db), au_sha256 = LookupHashAPIKey E, au_bcryptOK = VerifyAPIKey E,
     au_oidc = oidc, au_now = kd_now db\<rparr>"

definition bearer :: "string \<Rightarrow> Request" where
  "bearer key = \<lparr>rq_Authorization = ''Bearer '' @ key, rq_XAPIKey = ''''\<rparr>"

definition unexpired :: "time \<Rightarrow> time option \<Rightarrow> bool" where
  "unexpired now e = (case e of None \<Rightarrow> True | Some t \<Rightarrow> now < t)"

text \<open>A key whose row is found is accepted with the identity of the row.\<close>

lemma bearer_key:
  assumes "HasPrefix key APIKeyPrefix" "TrimSpace key = key" "key \<noteq> ''''" "\<not> isJWTToken key" "FromContext ctx = None"
  shows "AuthMiddleware (key_auth E db oidc) (bearer key) ctx = APIKeyMiddleware (key_auth E db oidc) (bearer key) ctx"
    and "extractAPIKey (rq_Authorization (bearer key)) (rq_XAPIKey (bearer key)) = Some key"
  using assms
  by (simp_all add: AuthMiddleware_def bearer_def extractBearerToken_def handleBearerToken_def key_auth_def extractAPIKey_def
      HasPrefix_def TrimPrefix_def)

lemma found_key_accepted:
  assumes key: "HasPrefix key APIKeyPrefix" "TrimSpace key = key" "key \<noteq> ''''" "\<not> isJWTToken key" and "FromContext ctx = None"
    and found: "GetByLookupHash db (LookupHashAPIKey E key) = Inr (Some row)"
    and row: "ak_KeyLookupHash row = LookupHashAPIKey E key" "ke_compare E (ak_KeyBcryptHash row) key"
    and valid: "unexpired (kd_now db) (ak_ExpiresAt row)"
  shows "\<exists>ctx'. AuthMiddleware (key_auth E db oidc) (bearer key) ctx = Proceed ctx'
    \<and> FromContext ctx' = Some (api_identity row)
    \<and> cx_serverScope ctx' = (if ak_ServerScope row = [] then cx_serverScope ctx else ak_ServerScope row)"
proof -
  have "lookupRecord (key_auth E db oidc) key = Some row" using found by (simp add: lookupRecord_def key_auth_def)
  moreover have "verifyRecord (key_auth E db oidc) key row = None"
    using row valid by (auto simp: verifyRecord_def key_auth_def VerifyAPIKey_def unexpired_def split: option.splits)
  ultimately have "validate_key (key_auth E db oidc) (bearer key) = Inr (api_identity row, ak_ServerScope row)"
    using bearer_key(2) [OF key assms(5)] by (simp add: validate_key_def)
  then show ?thesis
    using bearer_key(1) [OF key assms(5), of E db oidc]
    by (simp add: APIKeyMiddleware_def Let_def WithIdentity_def ContextWithServerScope_def FromContext_def)
qed

lemma unknown_key_denied:
  assumes key: "HasPrefix key APIKeyPrefix" "TrimSpace key = key" "key \<noteq> ''''" "\<not> isJWTToken key" and "FromContext ctx = None"
    and lost: "GetByLookupHash db (LookupHashAPIKey E key) = Inl ()"
  shows "AuthMiddleware (key_auth E db oidc) (bearer key) ctx = Deny 401 ''invalid api key''"
proof -
  have "lookupRecord (key_auth E db oidc) key = None" using lost by (simp add: lookupRecord_def key_auth_def)
  then show ?thesis
    using bearer_key [OF key assms(5)] by (simp add: APIKeyMiddleware_def validate_key_def)
qed

lemma created_row_found:
  assumes create: "APIKey_Create uuid record db = (None, db1)" and valid: "unexpired t (ak_ExpiresAt record)"
  shows "GetByLookupHash (db1\<lparr>kd_now := t\<rparr>) (ak_KeyLookupHash record)
    = Inr (Some (record\<lparr>ak_ID := uuid, ak_PolicyProfile := if ak_PolicyProfile record = '''' then ''default'' else ak_PolicyProfile record,
        ak_CreatedAt := kd_now db\<rparr>))"
proof -
  have "\<not> list_ex (\<lambda>k. ak_KeyLookupHash k = ak_KeyLookupHash record) (kd_rows db)"
    and db1: "\<not> kd_fails db" "db1 = db\<lparr>kd_rows := kd_rows db @ [record\<lparr>ak_ID := uuid,
        ak_PolicyProfile := if ak_PolicyProfile record = '''' then ''default'' else ak_PolicyProfile record, ak_CreatedAt := kd_now db\<rparr>]\<rparr>"
    using create by (auto simp: APIKey_Create_def Let_def split: if_splits)
  then have none: "find (\<lambda>k. ak_KeyLookupHash k = ak_KeyLookupHash record \<and> P k) (kd_rows db) = None" for P
    by (auto simp: find_None_iff list_ex_iff)
  have app: "find P (xs @ ys) = (case find P xs of None \<Rightarrow> find P ys | Some x \<Rightarrow> Some x)" for P and xs ys :: "APIKey list"
    by (induction xs) auto
  show ?thesis using valid by (simp add: GetByLookupHash_def db1 app none unexpired_def split: option.splits)
qed

lemma create_done:
  assumes "APIKey_handleCreate E (Some req) db = (KeyCreated v key, db1)"
    and "parseAPIKeyExpiry E (TrimSpace (cq_Expires req)) = Inr e"
  obtains krec bcryptHash where "GenerateAPIKey E = Some (key, ak_KeyLookupHash krec, bcryptHash)"
    "ak_KeyBcryptHash krec = bcryptHash" "ak_ExpiresAt krec = e" "ak_PolicyProfile krec \<noteq> ''''"
    "APIKey_Create (ke_uuid E) krec db = (None, db1)" "v = key_view E (stored_record krec db1)"
proof -
  let ?name = "TrimSpace (cq_Name req)"
  let ?scopes = "if dedupeScopes (cq_Scopes req) = [] then [''read''] else dedupeScopes (cq_Scopes req)"
  have expires: "(if TrimSpace (cq_Expires req) = '''' then Inr None else parseAPIKeyExpiry E (TrimSpace (cq_Expires req))) = Inr e"
    using assms(2) by (cases "TrimSpace (cq_Expires req) = ''''") (simp_all add: parseAPIKeyExpiry_def Let_def)
  have name: "?name \<noteq> ''''" using assms(1) by (simp add: APIKey_handleCreate_def Let_def split: if_splits)
  show ?thesis
  proof (cases "GenerateAPIKey E")
    case None
    then show ?thesis using assms(1) name expires by (simp add: APIKey_handleCreate_def Let_def)
  next
    case (Some g)
    obtain plaintext lookupHash bcryptHash where g: "g = (plaintext, lookupHash, bcryptHash)" by (cases g)
    define krec where "krec = key_record ?name (cq_ClientID req) ?scopes (cq_Profile req) (dedupeScopes (cq_ServerScope req)) e lookupHash bcryptHash"
    obtain err db2 where made: "APIKey_Create (ke_uuid E) krec db = (err, db2)" by fastforce
    have "APIKey_handleCreate E (Some req) db = (case err of
        Some x \<Rightarrow> (KeyError 500 ''failed to create api key'', db2)
      | None \<Rightarrow> (KeyCreated (key_view E (stored_record krec db2)) plaintext, db2))"
      using name expires Some made unfolding g krec_def by (simp add: APIKey_handleCreate_def Let_def split: option.split)
    then have "err = None" "v = key_view E (stored_record krec db2)" "key = plaintext" "db1 = db2"
      using assms(1) by (cases err; simp)+
    then show ?thesis
      using that [of krec bcryptHash] Some made by (simp add: g) (simp add: krec_def key_record_def)
  qed
qed

lemma revoked_row_lost:
  assumes create: "APIKey_Create uuid krec db = (None, db1)" and "revoked \<le> t"
  shows "GetByLookupHash ((snd (Revoke uuid (db1\<lparr>kd_now := revoked\<rparr>)))\<lparr>kd_now := t\<rparr>) (ak_KeyLookupHash krec) = Inl ()"
proof -
  let ?hit = "\<lambda>k. ak_KeyLookupHash k = ak_KeyLookupHash krec \<and> (case ak_ExpiresAt k of None \<Rightarrow> True | Some e \<Rightarrow> t < e)"
  let ?revoke = "\<lambda>k. if ak_ID k = uuid then k\<lparr>ak_ExpiresAt := Some revoked\<rparr> else k"
  have fresh: "\<forall>k\<in>set (kd_rows db). ak_KeyLookupHash k \<noteq> ak_KeyLookupHash krec" and ok: "\<not> kd_fails db1"
    and rows: "\<exists>row. kd_rows db1 = kd_rows db @ [row] \<and> ak_ID row = uuid"
    using create by (auto simp: APIKey_Create_def Let_def list_ex_iff split: if_splits)
  have "\<not> ?hit (?revoke k)" if "k \<in> set (kd_rows db1)" for k
  proof (cases "ak_ID k = uuid")
    case True
    then show ?thesis using assms(2) by simp
  next
    case False
    then have "k \<in> set (kd_rows db)" using that rows by auto
    then show ?thesis using fresh False by simp
  qed
  then have "find ?hit (map ?revoke (kd_rows db1)) = None" unfolding find_None_iff set_map by blast
  then show ?thesis using ok by (simp add: GetByLookupHash_def Revoke_def cong: if_cong option.case_cong)
qed

text \<open>C38. \<^bold>\<open>An issued key works until it expires or is revoked, with what its answer names.\<close>  Take any request that the
  creation endpoint answers with a key, and a database whose clock has not passed the key's expiry.  At every later time
  before the expiry, a request with the key as its bearer token passes the authentication of the gateway: the caller is
  the client of the answer, with exactly the scopes, the profile and the servers of the answer.  After the revocation of
  the identifier of the answer, at whatever time, the key is refused with 401.  The hypothesis on bcrypt is that a
  password matches its own hash.\<close>

theorem issued_key_lifecycle:
  assumes bcrypt: "\<And>p h. ke_bcrypt E p = Some h \<Longrightarrow> ke_compare E h p"
    and uuid: "TrimSpace (ke_uuid E) = ke_uuid E" "ke_uuid E \<noteq> ''''"
    and create: "APIKey_handleCreate E (Some req) db = (KeyCreated v key, db1)"
    and expiry: "parseAPIKeyExpiry E (TrimSpace (cq_Expires req)) = Inr e" "unexpired (kd_now db) e"
    and ctx: "FromContext ctx = None" "cx_serverScope ctx = []"
  shows "(unexpired t e \<longrightarrow> (\<exists>ctx'. AuthMiddleware (key_auth E (db1\<lparr>kd_now := t\<rparr>) oidc) (bearer key) ctx = Proceed ctx'
      \<and> FromContext ctx' = Some \<lparr>id_Type = IdentityAPIKey, id_ID = kv_ClientID v, id_Scopes = kv_Scopes v,
           id_Metadata = [(''auth_method'', ''apikey''), (''policy_profile'', kv_PolicyProfile v)]\<rparr>
      \<and> cx_serverScope ctx' = kv_ServerScope v))
    \<and> (revoked \<le> t \<longrightarrow>
      AuthMiddleware (key_auth E ((snd (APIKey_handleRevoke (kv_ID v) (db1\<lparr>kd_now := revoked\<rparr>)))\<lparr>kd_now := t\<rparr>) oidc) (bearer key) ctx
        = Deny 401 ''invalid api key'')"
proof -
  obtain krec bcryptHash where gen: "GenerateAPIKey E = Some (key, ak_KeyLookupHash krec, bcryptHash)"
    and rec: "ak_KeyBcryptHash krec = bcryptHash" "ak_ExpiresAt krec = e" "ak_PolicyProfile krec \<noteq> ''''"
    and made: "APIKey_Create (ke_uuid E) krec db = (None, db1)" and v: "v = key_view E (stored_record krec db1)"
    by (rule create_done [OF create expiry(1)])
  note key = generated_key(3-6) [OF gen]
  have hash: "ak_KeyLookupHash krec = LookupHashAPIKey E key" by (rule generated_key(1) [OF gen])
  define row where "row = krec\<lparr>ak_ID := ke_uuid E, ak_CreatedAt := kd_now db\<rparr>"
  have found: "GetByLookupHash (db1\<lparr>kd_now := t\<rparr>) (ak_KeyLookupHash krec) = Inr (Some row)" if "unexpired t e" for t
    using created_row_found [OF made] that rec by (simp add: row_def)
  have "db1\<lparr>kd_now := kd_now db\<rparr> = db1" using made by (auto simp: APIKey_Create_def Let_def split: if_splits)
  then have "GetByLookupHash db1 (ak_KeyLookupHash krec) = Inr (Some row)" using found [OF expiry(2)] by simp
  then have view: "v = key_view E row" by (simp add: v stored_record_def row_def)
  have "ke_compare E bcryptHash key" by (rule bcrypt [OF generated_key(2) [OF gen]])
  then have row: "ak_KeyLookupHash row = LookupHashAPIKey E key" "ke_compare E (ak_KeyBcryptHash row) key"
    using hash rec by (simp_all add: row_def)
  have used: "\<exists>ctx'. AuthMiddleware (key_auth E (db1\<lparr>kd_now := t\<rparr>) oidc) (bearer key) ctx = Proceed ctx'
      \<and> FromContext ctx' = Some (api_identity row)
      \<and> cx_serverScope ctx' = (if ak_ServerScope row = [] then cx_serverScope ctx else ak_ServerScope row)" if "unexpired t e"
    by (rule found_key_accepted [OF key ctx(1) _ row]) (use found [OF that] that hash rec in \<open>simp_all add: row_def\<close>)
  have revoke: "snd (APIKey_handleRevoke (kv_ID v) d) = snd (Revoke (ke_uuid E) d)" for d
    using uuid by (simp add: APIKey_handleRevoke_def view key_view_def row_def Let_def split: prod.splits option.splits)
  have refused: "revoked \<le> t \<Longrightarrow>
      AuthMiddleware (key_auth E ((snd (APIKey_handleRevoke (kv_ID v) (db1\<lparr>kd_now := revoked\<rparr>)))\<lparr>kd_now := t\<rparr>) oidc) (bearer key) ctx
        = Deny 401 ''invalid api key''"
    unfolding revoke
    by (rule unknown_key_denied [OF key ctx(1)]) (use revoked_row_lost [OF made] hash in simp)
  show ?thesis
    using used refused rec(3) ctx(2) by (auto simp: view key_view_def api_identity_def row_def)
qed

definition example_key_env :: key_env where
  "example_key_env =
    \<lparr>ke_random = Some ''a'', ke_sha256 = (\<lambda>s. s), ke_bcrypt = (\<lambda>s. Some s), ke_compare = (\<lambda>h p. h = p), ke_uuid = ''u1'',
     ke_now = 100, ke_format = (\<lambda>_. ''t'')\<rparr>"

definition example_key_request :: createAPIKeyAPIRequest where
  "example_key_request =
    \<lparr>cq_Name = ''ci'', cq_Scopes = [''read'', '' read''], cq_Expires = ''1d'', cq_ClientID = '''', cq_Profile = '''', cq_ServerScope = [''github'']\<rparr>"

definition empty_keys :: APIKeyDB where
  "empty_keys = \<lparr>kd_rows = [], kd_now = 100, kd_fails = False\<rparr>"

theorem issued_key_lifecycle_witness:
  "\<exists>v key db1 ctx'. APIKey_handleCreate example_key_env (Some example_key_request) empty_keys = (KeyCreated v key, db1)
    \<and> AuthMiddleware (key_auth example_key_env (db1\<lparr>kd_now := 105\<rparr>) None) (bearer key) \<lparr>cx_identity = None, cx_serverScope = []\<rparr> = Proceed ctx'
    \<and> cx_serverScope ctx' = [''github''] \<and> kv_Scopes v = [''read'']
    \<and> AuthMiddleware (key_auth example_key_env ((snd (APIKey_handleRevoke (kv_ID v) (db1\<lparr>kd_now := 101\<rparr>)))\<lparr>kd_now := 102\<rparr>) None) (bearer key)
        \<lparr>cx_identity = None, cx_serverScope = []\<rparr> = Deny 401 ''invalid api key''"
proof -
  let ?ctx = "\<lparr>cx_identity = None, cx_serverScope = []\<rparr>"
  have bcrypt: "ke_bcrypt example_key_env p = Some h \<Longrightarrow> ke_compare example_key_env h p" for p h by (simp add: example_key_env_def)
  have uuid: "TrimSpace (ke_uuid example_key_env) = ke_uuid example_key_env" "ke_uuid example_key_env \<noteq> ''''" by code_simp+
  have expiry: "parseAPIKeyExpiry example_key_env (TrimSpace (cq_Expires example_key_request)) = Inr (Some 86400000000100)"
  proof -
    have "TrimSpace ''1d'' = ''1d''" "TrimSpace ''1'' = ''1''" "Atoi ''1'' = Some 1" by code_simp+
    moreover have "day_duration 1 = 86400000000000"
      by (simp add: day_duration_def int64_def signed_take_bit_eq_take_bit_shift take_bit_eq_mod)
    ultimately show ?thesis by (simp add: parseAPIKeyExpiry_def example_key_request_def example_key_env_def)
  qed
  obtain v key db1 where create: "APIKey_handleCreate example_key_env (Some example_key_request) empty_keys = (KeyCreated v key, db1)"
    and shape: "kv_Scopes v = [''read''] \<and> kv_ServerScope v = [''github'']"
  proof -
    have pieces: "TrimSpace (cq_Name example_key_request) = ''ci''" "dedupeScopes (cq_Scopes example_key_request) = [''read'']"
      "dedupeScopes (cq_ServerScope example_key_request) = [''github'']" "TrimSpace (cq_Expires example_key_request) \<noteq> ''''"
      by code_simp+
    obtain plaintext lookupHash bcryptHash where gen: "GenerateAPIKey example_key_env = Some (plaintext, lookupHash, bcryptHash)"
      by (simp add: GenerateAPIKey_def HashAPIKey_def example_key_env_def Let_def)
    have "\<exists>v db1. APIKey_handleCreate example_key_env (Some example_key_request) empty_keys = (KeyCreated v plaintext, db1)
        \<and> kv_Scopes v = [''read''] \<and> kv_ServerScope v = [''github'']"
      by (simp add: APIKey_handleCreate_def pieces expiry gen Let_def APIKey_Create_def empty_keys_def key_record_def stored_record_def
          key_view_def split: sum.split option.split)
    then show thesis using that by blast
  qed
  have "unexpired (kd_now empty_keys) (Some 86400000000100)" "unexpired 105 (Some 86400000000100)"
    by (simp_all add: unexpired_def empty_keys_def)
  then show ?thesis
    using issued_key_lifecycle [OF bcrypt uuid create expiry(1), of ?ctx 105 None 0]
      issued_key_lifecycle [OF bcrypt uuid create expiry(1), of ?ctx 102 None 101] create shape
    by (auto simp: FromContext_def)
qed

section \<open>Where the commands differ from the endpoint\<close>

text \<open>What a gateway decodes from the body that the command sends: the fields of the command, and no server scope.\<close>

definition as_request :: "remoteCreateRequest \<Rightarrow> createAPIKeyAPIRequest" where
  "as_request r =
    \<lparr>cq_Name = rc_Name r, cq_Scopes = rc_Scopes r, cq_Expires = rc_Expires r, cq_ClientID = rc_ClientID r,
     cq_Profile = rc_Profile r, cq_ServerScope = []\<rparr>"

text \<open>Whatever \<open>--server-scope\<close> says, a key created through a gateway is not restricted to any server, while the same
  command on the database restricts it.\<close>

lemma remote_key_unrestricted:
  assumes "remote_request name scopesRaw expires clientID profile = Inr req"
    and "APIKey_handleCreate E (Some (as_request req)) db = (KeyCreated v key, db1)"
  shows "kv_ServerScope v = []"
  using assms(2)
  by (auto simp: APIKey_handleCreate_def as_request_def dedupeScopes_def key_record_def stored_record_def key_view_def Let_def
      split: if_splits option.splits prod.splits sum.splits)

lemma local_key_restricted:
  assumes "local_create E vals (Some db) = (Inr out, Some db1)"
  shows "\<exists>row. kd_rows db1 = kd_rows db @ [row] \<and> ak_ServerScope row = parseScopes (flag_value vals ''server-scope'' '''')"
  using assms
  by (auto simp: local_create_def key_record_def APIKey_Create_def Let_def split: if_splits option.splits prod.splits sum.splits)

text \<open>The number of days wraps: a request for 213504 days is granted for less than half an hour.\<close>

lemma expiry_wraps: "day_duration 213504 = 1526290448384"
  by (simp add: day_duration_def int64_def signed_take_bit_eq_take_bit_shift take_bit_eq_mod)

end
