(* ===== verification/Spec2Isabelle.thy ===== *)
theory Spec2Isabelle
  imports Rate_Limit_Windows Registration_Lifecycle Routing_Props Policy_Props Orchestrator Config_Restore Admin_Props Api_Keys
begin

text \<open>
  \<^bold>\<open>The program.\<close> The repository is a gateway between clients and the servers of the Model
  Context Protocol. Backend servers register with the gateway over mutual TLS
  (\<^verbatim>\<open>src/internal/registration\<close>), send heartbeats and are swept when they stop. What they offer is kept
  in a table of a database (\<^verbatim>\<open>src/internal/store\<close>) and in an index in memory. A client is authenticated
  (\<^verbatim>\<open>src/internal/auth\<close>, \<^verbatim>\<open>src/internal/identity\<close>), limited (\<^verbatim>\<open>src/internal/ratelimit\<close>), its tool call
  is checked against a policy (\<^verbatim>\<open>src/internal/policy\<close>) and routed to one of the servers that offer the
  tool (\<^verbatim>\<open>src/internal/proxy\<close>), through a circuit breaker and a retry loop
  (\<^verbatim>\<open>src/internal/resilience\<close>). Clients find tools by listing or searching them
  (\<^verbatim>\<open>src/internal/search\<close>), or let a language model plan calls (\<^verbatim>\<open>src/internal/orchestrator\<close>,
  \<^verbatim>\<open>src/internal/llm\<close>). Configuration arrives over NATS, and events leave over it
  (\<^verbatim>\<open>src/internal/events\<close>). Administrators use web pages or an API (\<^verbatim>\<open>src/internal/admin\<close>), and users a
  command line (\<^verbatim>\<open>src/cmd/mcpgw\<close>) that logs in through the gateway and manages API keys.

  \<^bold>\<open>How the code is rendered.\<close> A struct is a record whose fields carry a short prefix, an enumeration a
  datatype with one extra constructor for a string that is none of its constants, a Go map an
  association list with distinct keys, a string a list of bytes. Times and durations are integers of
  nanoseconds, the zero time and nil pointers are \<^const>\<open>None\<close>; a floating-point number is a real. An
  integer keeps its width where the code relies on wrap-around, as the counter of the round-robin
  strategy and the hash of the session strategy do. A call that may fail returns a sum or an option,
  and an error keeps the values its message prints. The world outside, which a context, a clock and a
  backend call read, is a state of arbitrary type that the environment record advances. A mutex makes
  one operation of an object a single step; where the code releases the mutex during a call, as the
  circuit breaker does, the parts are separate steps of an inductive relation over a pool of callers.
  Third-party code is a parameter with the documented laws as hypotheses: the token bucket of
  \<^verbatim>\<open>golang.org/x/time/rate\<close>, the NATS key-value store, the Redis commands of the Lua script, bcrypt and
  SHA-256, the OIDC validator, \<^verbatim>\<open>url.Parse\<close>, the MCP client library and JSON decoding.

  \<^bold>\<open>Theories.\<close>

  \<^item> \<^verbatim>\<open>Go_Prelude\<close>: the Go values and library functions the sources use (trimming, splitting, maps,
    truncation, sorting), the collections of lemmas, the environment of calls.

  \<^item> \<^verbatim>\<open>Gateway_Types\<close>: \<^verbatim>\<open>types/types.go\<close> and \<^verbatim>\<open>types/audit_sort.go\<close>.

  \<^item> \<^verbatim>\<open>Circuit_Breaker\<close>: \<^verbatim>\<open>resilience/circuit.go\<close>, \<^verbatim>\<open>registry.go\<close>. The breaker as an object and as a step
    relation over concurrent callers. While the timeout runs nobody is admitted, the breaker closes
    again only through a probe or a reset, and it opens exactly at its threshold.

  \<^item> \<^verbatim>\<open>Retry\<close>: \<^verbatim>\<open>resilience/retry.go\<close>, \<^verbatim>\<open>client.go\<close>. The loop terminates by the attempts left. Its outcome is
    characterised by the attempts made; the backoff stays within its bounds; with an open breaker a
    call does not reach the backend; and once the timeout has passed and the backend answers, every
    further call returns its answer.

  \<^item> \<^verbatim>\<open>Identity_Auth\<close>: \<^verbatim>\<open>identity/\<close> and the middleware of \<^verbatim>\<open>auth/\<close>. The handler behind the middleware runs
    only for a caller whose key or token was verified, with the identity that belongs to it.

  \<^item> \<^verbatim>\<open>Rate_Limit\<close>, \<^verbatim>\<open>Rate_Limit_Windows\<close>: \<^verbatim>\<open>ratelimit/\<close>. A locale states what a backend promises; the memory,
    NATS and Dragonfly backends interpret it. The memory backend refines one bucket per key, a NATS
    window admits its burst, the sliding window admits at most its limit in any window, and the
    middleware answers as its backend decides.

  \<^item> \<^verbatim>\<open>Registration_Request\<close>, \<^verbatim>\<open>Capability_Index\<close>, \<^verbatim>\<open>Classification\<close>, \<^verbatim>\<open>Server_Store\<close>: the validation and the
    transition table of \<^verbatim>\<open>registration/types.go\<close> and \<^verbatim>\<open>state.go\<close>, the index of \<^verbatim>\<open>registration/index.go\<close> as a
    refinement of the table of routable servers, \<^verbatim>\<open>policy/classification.go\<close> with its cache and store,
    and the statements of \<^verbatim>\<open>store/server_store.go\<close> as operations on a table that may fail.

  \<^item> \<^verbatim>\<open>Registration_Service\<close>, \<^verbatim>\<open>Registration_Props\<close>, \<^verbatim>\<open>Registration_Lifecycle\<close>: the service with its heartbeat,
    refresh, sweeper and subscriber. Registration writes its own row only, an acknowledgement for an
    older lease is refused, heartbeats and sweeps move rows as the thresholds say, and a deregistered
    server disappears from every index that receives the broadcast.

  \<^item> \<^verbatim>\<open>Routing\<close>, \<^verbatim>\<open>Routing_Props\<close>: \<^verbatim>\<open>proxy/namespace.go\<close>, \<^verbatim>\<open>session_affinity.go\<close>, \<^verbatim>\<open>router.go\<close>, \<^verbatim>\<open>client.go\<close>. A locale
    states what a routing strategy promises and is interpreted by both strategies; a second one
    carries the lemmas on \<^verbatim>\<open>Route\<close> for any strategy and limiter. A call reaches only a server of the
    index that offers the tool, that the caller may use and whose limit admits it.

  \<^item> \<^verbatim>\<open>Dangerous\<close>, \<^verbatim>\<open>Policy\<close>, \<^verbatim>\<open>Policy_Props\<close>: \<^verbatim>\<open>policy/\<close>. A matcher for the regular expressions of the
    default patterns, the schema checks, the audit entries with redacted arguments, the engine and the
    middleware. The decision of the engine is characterised exactly, destructive tools are refused
    before the backend is called, and an audit entry holds no value of a sensitive key.

  \<^item> \<^verbatim>\<open>Search_BM25\<close>, \<^verbatim>\<open>Search_Vector\<close>: \<^verbatim>\<open>search/\<close>. Tokens and synonyms, the BM25 engine over partitions, the
    vector engine with its embedding cache and the hybrid engine. A search of the partitioned index is
    that of one index over all documents, the cache is a least-recently-used cache of its capacity, and
    the hybrid engine ranks by the sum of reciprocal ranks.

  \<^item> \<^verbatim>\<open>Discovery\<close>: \<^verbatim>\<open>proxy/discovery.go\<close>. The index of tool definitions with metadata and pages; a page
    holds the matches of the query by score, and nothing else.

  \<^item> \<^verbatim>\<open>Stores\<close>: the user, API key, audit, synonym and reindex log stores of \<^verbatim>\<open>store/\<close> as operations on
    tables. A search pattern matches literally, no run of operations breaks the constraints of the user
    tables, and a revoked or expired key is refused.

  \<^item> \<^verbatim>\<open>Tool_Catalog\<close>, \<^verbatim>\<open>Tool_Access\<close>: \<^verbatim>\<open>proxy/tools.go\<close>, \<^verbatim>\<open>catalog.go\<close>, \<^verbatim>\<open>resources.go\<close>, \<^verbatim>\<open>server_list.go\<close>,
    \<^verbatim>\<open>discovery_doc.go\<close>, \<^verbatim>\<open>virtual_server.go\<close> and \<^verbatim>\<open>server.go\<close>. The tool cache, the aggregation of
    listings, the role filters, session activation and the handlers of calls. A call without permission
    reaches no backend, and any other call is exactly the call of the router.

  \<^item> \<^verbatim>\<open>Orchestrator\<close>: \<^verbatim>\<open>orchestrator/\<close>, \<^verbatim>\<open>llm/\<close> and their adapters in \<^verbatim>\<open>cmd/mcpgw/serve.go\<close>. Whatever the
    language model answers, only tools that the search returned and the safety level admits are called,
    at most ten, through the permission check.

  \<^item> \<^verbatim>\<open>Events\<close>, \<^verbatim>\<open>Config_Restore\<close>: \<^verbatim>\<open>events/\<close> with its wiring in \<^verbatim>\<open>server/server.go\<close>. A locale states the
    contract of a configuration handler, and the five handlers interpret it: configuration received
    before a restart is restored by it, when the handlers have their store. The lemmas at the end show
    that the wiring gives a store to one handler only.

  \<^item> \<^verbatim>\<open>Http_Handlers\<close>: the endpoints of \<^verbatim>\<open>registration/handler.go\<close> and \<^verbatim>\<open>refresh_handler.go\<close>, classification
    events, and readiness, metadata and client addresses of \<^verbatim>\<open>server/server.go\<close>.

  \<^item> \<^verbatim>\<open>Gateway_Config\<close>: \<^verbatim>\<open>config/config.go\<close>. Every environment variable with its parser and default, and the
    validations. A configuration passes exactly when it meets the stated requirements; a loaded one has
    its numbers in range, a session key of 32 bytes and its providers in order of priority.

  \<^item> \<^verbatim>\<open>Admin_Access\<close>, \<^verbatim>\<open>Admin_Handlers\<close>, \<^verbatim>\<open>Admin_Props\<close>: \<^verbatim>\<open>admin/\<close> and \<^verbatim>\<open>auth/oidc.go\<close>. Login and sessions, the gates of
    both modes, every handler and both routers. A session comes only from a verified login with the
    required scope, the role matrix of the integrated API holds for every route, the pages change
    nothing without the token of the session, each change of servers, users or classifications is
    logged once under its author, paging shows every server once, and the CSV export reads back.

  \<^item> \<^verbatim>\<open>Token_Flow\<close>: \<^verbatim>\<open>auth/device_flow.go\<close>, \<^verbatim>\<open>auth/token_cache.go\<close> and the commands of \<^verbatim>\<open>cmd/mcpgw/auth.go\<close> and
    \<^verbatim>\<open>proxy.go\<close>. Saving tokens is atomic, a login through the gateway ends as the identity provider says,
    and the bridge returns on every input when the clock advances.

  \<^item> \<^verbatim>\<open>Api_Keys\<close>: \<^verbatim>\<open>auth/apikey.go\<close>, \<^verbatim>\<open>server/apikey_api.go\<close> and the commands of \<^verbatim>\<open>cmd/mcpgw/apikey.go\<close> and
    \<^verbatim>\<open>apikey_remote.go\<close>. An issued key is accepted, with what its answer names, until it expires or is
    revoked.

  A helper that translates a part of the lines of one definition is read with that definition.

  \<^bold>\<open>Bounds and fuel.\<close> No definition of the program uses fuel: every loop is structural or has a termination
  measure, except the polling loop of \<^verbatim>\<open>Token_Flow\<close>, a partial function that is shown to return when
  sleeping advances the clock. The compare-and-swap loop of the NATS backend recurses on the retries
  left, the number the code has. The client that follows the pages of the admin API is bounded by a
  number of requests, and one more than the number of servers is shown to be enough.

  \<^bold>\<open>Not modelled.\<close> The transports and assembly: HTTP servers and the matching of paths to routes, TLS
  settings, connection pools, metrics and tracing, the connection handling of the NATS client, and the
  start-up of \<^verbatim>\<open>cmd/mcpgw/serve.go\<close>, which wires libraries. The HTML templates and static files of the
  admin pages; a page is the data given to its template. The commands that print servers, policies,
  tools and health, and the migrations. The mock backend and test support. The ONNX runtime, a native
  library. Cryptography, JSON and the exchanges with the identity provider, which are parameters. Text
  is compared byte-wise and case folding is that of ASCII, which is what the constants of the sources
  need.
\<close>

end
